(* ===== verification/Prelude.thy ===== *)
theory Prelude
  imports Complex_Main "HOL-Library.State_Monad" "HOL-Library.Multiset"
begin

text \<open>
  What the components share: the effect type of the Go functions that touch the outside world,
  Go's time values, the string helpers of the standard library that the source uses, and the
  generic lemmas on lists, options and the state monad.

  A Go function that talks to the Kubernetes API, reads the clock, starts a goroutine or sends an
  HTTP request is a value of type \<open>('w, 'a) state\<close> (HOL-Library.State_Monad) over an abstract
  world \<open>'w\<close>; a pure Go function is a HOL function. A nil dereference (a Go panic) is the value
  \<open>None\<close> of an option.
\<close>

section \<open>Rule collections\<close>

named_theorems go_defs \<open>definitions of the operations, unfolded by functional lemmas\<close>
named_theorems go_frames \<open>what an operation leaves unchanged\<close>

section \<open>Time\<close>

text \<open>
  A \<open>time.Time\<close> is its distance in nanoseconds from Go's zero time (January 1, year 1, UTC), so
  \<open>IsZero\<close> is equality with 0. A \<open>time.Duration\<close> is a 64-bit count of nanoseconds;
  \<open>Sub\<close>, and \<open>Since\<close> with it, saturates at the ends of that range.
\<close>

type_synonym time = int
type_synonym duration = int

definition max_duration :: duration where
  "max_duration = 9223372036854775807"

definition min_duration :: duration where
  "min_duration = - 9223372036854775808"

definition time_is_zero :: "time \<Rightarrow> bool" where
  "time_is_zero t = (t = 0)"

definition time_sub :: "time \<Rightarrow> time \<Rightarrow> duration" where
  "time_sub t u = max min_duration (min max_duration (t - u))"

definition go_second :: duration where
  "go_second = 1000000000"

definition go_minute :: duration where
  "go_minute = 60 * go_second"

definition go_hour :: duration where
  "go_hour = 60 * go_minute"

lemmas duration_defs = go_second_def go_minute_def go_hour_def max_duration_def min_duration_def

lemma time_sub_in_range [simp]:
  "min_duration \<le> t - u \<Longrightarrow> t - u \<le> max_duration \<Longrightarrow> time_sub t u = t - u"
  by (simp add: time_sub_def)

lemma time_sub_less: "d \<le> max_duration \<Longrightarrow> min_duration < d \<Longrightarrow> time_sub t u < d \<longleftrightarrow> t - u < d"
  by (auto simp: time_sub_def)

lemma time_sub_greater: "d < max_duration \<Longrightarrow> min_duration \<le> d \<Longrightarrow> d < time_sub t u \<longleftrightarrow> d < t - u"
  by (auto simp: time_sub_def)

section \<open>Strings\<close>

text \<open>\<open>fmt\<close>'s \<open>%d\<close>: decimal digits, most significant first.\<close>

fun show_nat :: "nat \<Rightarrow> string" where
  "show_nat n = (if n < 10 then [char_of (48 + n)] else show_nat (n div 10) @ [char_of (48 + n mod 10)])"

declare show_nat.simps [simp del]

definition show_int :: "int \<Rightarrow> string" where
  "show_int i = (if i < 0 then ''-'' @ show_nat (nat (- i)) else show_nat (nat i))"

text \<open>\<open>strings.ToLower\<close> on the ASCII letters; other bytes are left as they are.\<close>

definition lower_char :: "char \<Rightarrow> char" where
  "lower_char c = (let n = (of_char c :: nat) in if 65 \<le> n \<and> n \<le> 90 then char_of (n + 32) else c)"

definition to_lower :: "string \<Rightarrow> string" where
  "to_lower s = map lower_char s"

text \<open>
  \<open>strings.Split(s, sep)\<close> for a separator of one character: the pieces between the separators,
  never an empty list.
\<close>

fun split_on :: "char \<Rightarrow> string \<Rightarrow> string list" where
  "split_on c [] = [[]]"
| "split_on c (x # xs) =
     (if x = c then [] # split_on c xs
      else case split_on c xs of [] \<Rightarrow> [[x]] | p # ps \<Rightarrow> (x # p) # ps)"

lemma split_on_nonempty [simp]: "split_on c s \<noteq> []"
  by (cases s) (auto split: list.splits)

lemma split_on_hd: "hd (split_on c s) = takeWhile (\<lambda>x. x \<noteq> c) s"
proof (induction s)
  case Nil
  then show ?case by simp
next
  case (Cons x xs)
  obtain p ps where "split_on c xs = p # ps"
    by (meson neq_Nil_conv split_on_nonempty)
  with Cons show ?case by simp
qed

text \<open>Go compares strings byte by byte.\<close>

fun str_less :: "string \<Rightarrow> string \<Rightarrow> bool" where
  "str_less [] [] = False"
| "str_less [] (y # ys) = True"
| "str_less (x # xs) [] = False"
| "str_less (x # xs) (y # ys) =
     (if (of_char x :: nat) < of_char y then True
      else if (of_char y :: nat) < of_char x then False
      else str_less xs ys)"

lemma str_less_irrefl [simp]: "\<not> str_less s s"
  by (induction s) auto

lemma str_less_asym: "str_less s t \<Longrightarrow> \<not> str_less t s"
  by (induction s t rule: str_less.induct) (auto split: if_splits)

lemma str_less_total: "\<not> str_less s t \<Longrightarrow> \<not> str_less t s \<Longrightarrow> s = t"
proof (induction s t rule: str_less.induct)
  case (4 x xs y ys)
  then have "(of_char x :: nat) = of_char y"
    by (auto split: if_splits)
  with 4 show ?case by auto
qed auto

section \<open>Lists and options\<close>

lemma find_SomeD: "List.find P xs = Some x \<Longrightarrow> x \<in> set xs \<and> P x"
  by (induction xs) (auto split: if_splits)

lemma find_None: "List.find P xs = None \<longleftrightarrow> (\<forall>x \<in> set xs. \<not> P x)"
  by (induction xs) auto

lemma find_map_cong:
  "(\<And>x. x \<in> set xs \<Longrightarrow> P (f x) = P x) \<Longrightarrow> List.find P (map f xs) = map_option f (List.find P xs)"
  by (induction xs) auto

lemma mset_remove_at: "i < length xs \<Longrightarrow> add_mset (xs ! i) (mset (take i xs @ drop (Suc i) xs)) = mset xs"
  by (subst (4) id_take_nth_drop [of i xs]) simp_all

section \<open>Effects\<close>

text \<open>
  \<open>pres P m\<close>: from every world that satisfies \<open>P\<close>, the effect \<open>m\<close> ends in one that does. The
  rules follow the shapes the models are built from, so that a frame property of a handler is
  \<open>auto\<close> over them.
\<close>

abbreviation ret :: "'a \<Rightarrow> ('w, 'a) state" where
  "ret \<equiv> State_Monad.return"

definition pres :: "('w \<Rightarrow> bool) \<Rightarrow> ('w, 'a) state \<Rightarrow> bool" where
  "pres P m \<longleftrightarrow> (\<forall>w. P w \<longrightarrow> P (snd (run_state m w)))"

named_theorems pres_intros \<open>rules for pres\<close>

lemma presI: "(\<And>w r w'. P w \<Longrightarrow> run_state m w = (r, w') \<Longrightarrow> P w') \<Longrightarrow> pres P m"
  unfolding pres_def by (metis prod.collapse)

lemma presD: "pres P m \<Longrightarrow> run_state m w = (r, w') \<Longrightarrow> P w \<Longrightarrow> P w'"
  unfolding pres_def by (metis snd_conv)

lemma pres_return [pres_intros]: "pres P (State_Monad.return x)"
  by (simp add: pres_def)

lemma pres_bind [pres_intros]:
  "pres P m \<Longrightarrow> (\<And>x. pres P (f x)) \<Longrightarrow> pres P (State_Monad.bind m f)"
  unfolding pres_def by (simp add: split_beta)

lemma pres_if [pres_intros]:
  "(b \<Longrightarrow> pres P m) \<Longrightarrow> (\<not> b \<Longrightarrow> pres P n) \<Longrightarrow> pres P (if b then m else n)"
  by simp

lemma pres_option [pres_intros]:
  "(x = None \<Longrightarrow> pres P m) \<Longrightarrow> (\<And>y. x = Some y \<Longrightarrow> pres P (f y)) \<Longrightarrow>
   pres P (case x of None \<Rightarrow> m | Some y \<Rightarrow> f y)"
  by (cases x) auto

lemma pres_sum [pres_intros]:
  "(\<And>y. x = Inl y \<Longrightarrow> pres P (f y)) \<Longrightarrow> (\<And>y. x = Inr y \<Longrightarrow> pres P (g y)) \<Longrightarrow>
   pres P (case x of Inl y \<Rightarrow> f y | Inr y \<Rightarrow> g y)"
  by (cases x) auto

lemma pres_list [pres_intros]:
  "(x = [] \<Longrightarrow> pres P m) \<Longrightarrow> (\<And>y ys. x = y # ys \<Longrightarrow> pres P (f y ys)) \<Longrightarrow>
   pres P (case x of [] \<Rightarrow> m | y # ys \<Rightarrow> f y ys)"
  by (cases x) auto

lemma pres_prod [pres_intros]:
  "(\<And>y z. x = (y, z) \<Longrightarrow> pres P (f y z)) \<Longrightarrow> pres P (case x of (y, z) \<Rightarrow> f y z)"
  by (cases x) auto

lemma pres_let [pres_intros]: "pres P (f x) \<Longrightarrow> pres P (let y = x in f y)"
  by simp

text \<open>
  \<open>keeps f m\<close>: the effect \<open>m\<close> leaves the observation \<open>f\<close> of the world as it is. The rules have the
  same shapes as those of \<open>pres\<close>.
\<close>

definition keeps :: "('w \<Rightarrow> 'c) \<Rightarrow> ('w, 'a) state \<Rightarrow> bool" where
  "keeps f m \<longleftrightarrow> (\<forall>w. f (snd (run_state m w)) = f w)"

named_theorems keeps_intros \<open>rules for keeps\<close>

lemma keepsD: "keeps f m \<Longrightarrow> run_state m w = (r, w') \<Longrightarrow> f w' = f w"
  unfolding keeps_def by (metis snd_conv)

lemma keeps_return [keeps_intros]: "keeps f (State_Monad.return x)"
  by (simp add: keeps_def)

lemma keeps_bind [keeps_intros]:
  "keeps f m \<Longrightarrow> (\<And>x. keeps f (g x)) \<Longrightarrow> keeps f (State_Monad.bind m g)"
  unfolding keeps_def by (simp add: split_beta)

lemma keeps_if [keeps_intros]:
  "(b \<Longrightarrow> keeps f m) \<Longrightarrow> (\<not> b \<Longrightarrow> keeps f n) \<Longrightarrow> keeps f (if b then m else n)"
  by simp

lemma keeps_option [keeps_intros]:
  "(x = None \<Longrightarrow> keeps f m) \<Longrightarrow> (\<And>y. x = Some y \<Longrightarrow> keeps f (g y)) \<Longrightarrow>
   keeps f (case x of None \<Rightarrow> m | Some y \<Rightarrow> g y)"
  by (cases x) auto

lemma keeps_sum [keeps_intros]:
  "(\<And>y. x = Inl y \<Longrightarrow> keeps f (g y)) \<Longrightarrow> (\<And>y. x = Inr y \<Longrightarrow> keeps f (h y)) \<Longrightarrow>
   keeps f (case x of Inl y \<Rightarrow> g y | Inr y \<Rightarrow> h y)"
  by (cases x) auto

lemma keeps_list [keeps_intros]:
  "(x = [] \<Longrightarrow> keeps f m) \<Longrightarrow> (\<And>y ys. x = y # ys \<Longrightarrow> keeps f (g y ys)) \<Longrightarrow>
   keeps f (case x of [] \<Rightarrow> m | y # ys \<Rightarrow> g y ys)"
  by (cases x) auto

lemma keeps_prod [keeps_intros]:
  "(\<And>y z. x = (y, z) \<Longrightarrow> keeps f (g y z)) \<Longrightarrow> keeps f (case x of (y, z) \<Rightarrow> g y z)"
  by (cases x) auto

lemma keeps_let [keeps_intros]: "keeps f (g x) \<Longrightarrow> keeps f (let y = x in g y)"
  by simp

lemma keeps_pres: "keeps f m \<Longrightarrow> pres (\<lambda>w. P (f w)) m"
  by (simp add: keeps_def pres_def)

end
