(* ===== verification/KubeApi.thy ===== *)
theory KubeApi
  imports Prelude
begin

text \<open>
  The Kubernetes API as the programs use it (controller-runtime's \<open>client.Client\<close>, the error
  classes of \<open>apierrors\<close>, \<open>retry.RetryOnConflict\<close>). None of that code is in the repository: a
  client is a record of operations over an abstract world, and the locale \<open>kube_client\<close> states what
  the API documents of one kind of object (a successful \<open>Update\<close> needs the current resource version,
  replaces the spec and keeps the status; \<open>Status().Update\<close> the converse; a failed call changes
  nothing). \<open>mem_client\<close> is an executable store that satisfies it.
\<close>

section \<open>Errors\<close>

datatype ApiError = NotFound string | AlreadyExists string | Conflict string | OtherApiError string

fun api_text :: "ApiError \<Rightarrow> string" where
  "api_text (NotFound s) = s"
| "api_text (AlreadyExists s) = s"
| "api_text (Conflict s) = s"
| "api_text (OtherApiError s) = s"

text \<open>
  A Go \<open>error\<close> of the broker: one of the two sentinels of reservation_controller.go (the first always
  wrapped with the cluster's identifier), an API error, a message, or \<open>fmt.Errorf("text: %w", err)\<close>.
\<close>

datatype go_error =
    ErrTargetClusterNotFound string
  | ErrInsufficientResources
  | ErrApi ApiError
  | ErrMsg string
  | ErrWrap string go_error

fun err_text :: "go_error \<Rightarrow> string" where
  "err_text (ErrTargetClusterNotFound c) = ''target cluster not found: '' @ c"
| "err_text ErrInsufficientResources = ''insufficient resources''"
| "err_text (ErrApi e) = api_text e"
| "err_text (ErrMsg s) = s"
| "err_text (ErrWrap s e) = s @ '': '' @ err_text e"

text \<open>\<open>apierrors.IsNotFound\<close> and \<open>IsConflict\<close> look through wrapped errors.\<close>

fun is_not_found :: "go_error \<Rightarrow> bool" where
  "is_not_found (ErrApi (NotFound _)) = True"
| "is_not_found (ErrWrap _ e) = is_not_found e"
| "is_not_found _ = False"

fun is_conflict :: "go_error \<Rightarrow> bool" where
  "is_conflict (ErrApi (Conflict _)) = True"
| "is_conflict (ErrWrap _ e) = is_conflict e"
| "is_conflict _ = False"

section \<open>Objects and clients\<close>

type_synonym key = "string \<times> string"  \<comment> \<open>namespace, name\<close>

record ObjectMeta =
  m_Name :: string
  m_Namespace :: string
  m_ResourceVersion :: nat
  m_CreationTimestamp :: time
  m_DeletionTimestamp :: "time option"
  m_Finalizers :: "string list"

definition new_meta :: "string \<Rightarrow> string \<Rightarrow> ObjectMeta" where
  "new_meta name ns =
     \<lparr>m_Name = name, m_Namespace = ns, m_ResourceVersion = 0, m_CreationTimestamp = 0,
      m_DeletionTimestamp = None, m_Finalizers = []\<rparr>"

definition meta_key :: "ObjectMeta \<Rightarrow> key" where
  "meta_key m = (m_Namespace m, m_Name m)"

lemma new_meta_simps [simp]:
  "m_Name (new_meta n ns) = n" "m_Namespace (new_meta n ns) = ns"
  "m_ResourceVersion (new_meta n ns) = 0" "m_DeletionTimestamp (new_meta n ns) = None"
  "m_Finalizers (new_meta n ns) = []" "meta_key (new_meta n ns) = (ns, n)"
  by (simp_all add: new_meta_def meta_key_def)

text \<open>
  An object of a kind is its metadata, its spec and its status. The writing calls return the
  object the server answered with, which controller-runtime stores in the caller's variable.
\<close>

record ('s, 't) Obj =
  o_meta :: ObjectMeta
  o_spec :: 's
  o_status :: 't

abbreviation o_Name :: "('s, 't) Obj \<Rightarrow> string" where
  "o_Name x \<equiv> m_Name (o_meta x)"

abbreviation o_Namespace :: "('s, 't) Obj \<Rightarrow> string" where
  "o_Namespace x \<equiv> m_Namespace (o_meta x)"

abbreviation obj_key :: "('s, 't) Obj \<Rightarrow> key" where
  "obj_key x \<equiv> meta_key (o_meta x)"

record ('w, 's, 't) Client =
  c_get :: "key \<Rightarrow> ('w, ApiError + ('s, 't) Obj) state"
  c_list :: "('w, ApiError + ('s, 't) Obj list) state"
  c_create :: "('s, 't) Obj \<Rightarrow> ('w, ApiError + ('s, 't) Obj) state"
  c_update :: "('s, 't) Obj \<Rightarrow> ('w, ApiError + ('s, 't) Obj) state"
  c_status_update :: "('s, 't) Obj \<Rightarrow> ('w, ApiError + ('s, 't) Obj) state"

text \<open>An update that takes the last finalizer from an object under deletion removes it.\<close>

definition finalized :: "('s, 't) Obj \<Rightarrow> ('s, 't) Obj \<Rightarrow> bool" where
  "finalized old x \<longleftrightarrow> m_DeletionTimestamp (o_meta old) \<noteq> None \<and> m_Finalizers (o_meta x) = []"

text \<open>\<open>controllerutil.AddFinalizer\<close> and \<open>RemoveFinalizer\<close>.\<close>

definition add_finalizer :: "string \<Rightarrow> ('s, 't) Obj \<Rightarrow> ('s, 't) Obj" where
  "add_finalizer f x =
     (if f \<in> set (m_Finalizers (o_meta x)) then x
      else x\<lparr>o_meta := (o_meta x)\<lparr>m_Finalizers := m_Finalizers (o_meta x) @ [f]\<rparr>\<rparr>)"

definition remove_finalizer :: "string \<Rightarrow> ('s, 't) Obj \<Rightarrow> ('s, 't) Obj" where
  "remove_finalizer f x = x\<lparr>o_meta := (o_meta x)\<lparr>m_Finalizers := filter (\<lambda>g. g \<noteq> f) (m_Finalizers (o_meta x))\<rparr>\<rparr>"

lemma finalizer_simps [simp]:
  "o_spec (add_finalizer f x) = o_spec x" "o_status (add_finalizer f x) = o_status x"
  "obj_key (add_finalizer f x) = obj_key x"
  "m_ResourceVersion (o_meta (add_finalizer f x)) = m_ResourceVersion (o_meta x)"
  "m_DeletionTimestamp (o_meta (add_finalizer f x)) = m_DeletionTimestamp (o_meta x)"
  "o_spec (remove_finalizer f x) = o_spec x" "o_status (remove_finalizer f x) = o_status x"
  "obj_key (remove_finalizer f x) = obj_key x"
  "m_ResourceVersion (o_meta (remove_finalizer f x)) = m_ResourceVersion (o_meta x)"
  "m_DeletionTimestamp (o_meta (remove_finalizer f x)) = m_DeletionTimestamp (o_meta x)"
  by (simp_all add: add_finalizer_def remove_finalizer_def meta_key_def)

type_synonym ('s, 't) store = "key \<rightharpoonup> ('s, 't) Obj"

definition client_keeps :: "('w \<Rightarrow> 'c) \<Rightarrow> ('w, 's, 't) Client \<Rightarrow> bool" where
  "client_keeps f C \<longleftrightarrow>
     (\<forall>k. keeps f (c_get C k)) \<and> keeps f (c_list C) \<and> (\<forall>x. keeps f (c_create C x)) \<and>
     (\<forall>x. keeps f (c_update C x)) \<and> (\<forall>x. keeps f (c_status_update C x))"

lemma client_keepsD [keeps_intros]:
  assumes "client_keeps f C"
  shows "keeps f (c_get C k)" "keeps f (c_list C)" "keeps f (c_create C x)"
    "keeps f (c_update C x)" "keeps f (c_status_update C x)"
  using assms unfolding client_keeps_def by blast+

locale kube_client =
  fixes C :: "('w, 's, 't) Client" and objs :: "'w \<Rightarrow> ('s, 't) store"
  assumes get_keeps: "keeps objs (c_get C k)"
    and get_found: "run_state (c_get C k) w = (Inr x, w') \<Longrightarrow> objs w k = Some x \<and> obj_key x = k"
    and get_missing: "run_state (c_get C k) w = (Inl (NotFound s), w') \<Longrightarrow> objs w k = None"
    and list_keeps: "keeps objs (c_list C)"
    and list_all: "run_state (c_list C) w = (Inr xs, w') \<Longrightarrow> set xs = ran (objs w)"
    and list_key: "x \<in> ran (objs w) \<Longrightarrow> objs w (obj_key x) = Some x"
    and create_ok: "run_state (c_create C x) w = (Inr y, w') \<Longrightarrow>
      objs w (obj_key x) = None \<and> objs w' = (objs w)(obj_key x \<mapsto> y) \<and>
      obj_key y = obj_key x \<and> o_spec y = o_spec x"
    and update_ok: "run_state (c_update C x) w = (Inr y, w') \<Longrightarrow>
      \<exists>old. objs w (obj_key x) = Some old \<and>
        m_ResourceVersion (o_meta old) = m_ResourceVersion (o_meta x) \<and>
        objs w' = (objs w)(obj_key x := if finalized old x then None else Some y) \<and>
        obj_key y = obj_key x \<and> o_spec y = o_spec x \<and> o_status y = o_status old"
    and status_ok: "run_state (c_status_update C x) w = (Inr y, w') \<Longrightarrow>
      \<exists>old. objs w (obj_key x) = Some old \<and>
        m_ResourceVersion (o_meta old) = m_ResourceVersion (o_meta x) \<and>
        objs w' = (objs w)(obj_key x \<mapsto> y) \<and>
        obj_key y = obj_key x \<and> o_spec y = o_spec old \<and> o_status y = o_status x"
    and write_fail: "run_state (c_create C x) w = (Inl e, w') \<Longrightarrow> objs w' = objs w"
      "run_state (c_update C x) w = (Inl e, w') \<Longrightarrow> objs w' = objs w"
      "run_state (c_status_update C x) w = (Inl e, w') \<Longrightarrow> objs w' = objs w"
    and update_finalizers: "run_state (c_update C x) w = (Inr y, w') \<Longrightarrow>
      m_Finalizers (o_meta y) = m_Finalizers (o_meta x)"
begin

lemma status_specs:
  assumes "run_state (c_status_update C x) w = (r, w')"
  shows "map_option o_spec (objs w' k) = map_option o_spec (objs w k)"
  using assms write_fail(3) [of x w _ w'] status_ok [of x w _ w']
  by (cases r) (fastforce split: if_splits)+

lemma update_statuses:
  assumes "run_state (c_update C x) w = (r, w')" "objs w' k = Some y"
  shows "map_option o_status (objs w k) = Some (o_status y)"
  using assms write_fail(2) [of x w _ w'] update_ok [of x w _ w']
  by (cases r) (fastforce split: if_splits)+

text \<open>What an object of the store can be after a write, whatever the write answered.\<close>

lemma update_after:
  assumes "run_state (c_update C x) w = (r, w')" "objs w' k = Some y"
  shows "objs w k = Some y \<or>
    (k = obj_key x \<and> (\<exists>old. objs w k = Some old \<and> m_ResourceVersion (o_meta old) = m_ResourceVersion (o_meta x) \<and>
       o_spec y = o_spec x \<and> o_status y = o_status old \<and> obj_key y = obj_key x \<and> r = Inr y))"
proof (cases r)
  case (Inl e)
  with assms write_fail(2) [of x w e w'] show ?thesis by simp
next
  case (Inr z)
  with assms update_ok [of x w z w'] show ?thesis
    by (auto split: if_splits)
qed

lemma status_after:
  assumes "run_state (c_status_update C x) w = (r, w')" "objs w' k = Some y"
  shows "objs w k = Some y \<or>
    (k = obj_key x \<and> (\<exists>old. objs w k = Some old \<and> m_ResourceVersion (o_meta old) = m_ResourceVersion (o_meta x) \<and>
       o_spec y = o_spec old \<and> o_status y = o_status x \<and> obj_key y = obj_key x \<and> r = Inr y))"
proof (cases r)
  case (Inl e)
  with assms write_fail(3) [of x w e w'] show ?thesis by simp
next
  case (Inr z)
  with assms status_ok [of x w z w'] show ?thesis
    by (auto split: if_splits)
qed

lemma get_same: "run_state (c_get C k) w = (r, w') \<Longrightarrow> objs w' = objs w"
  by (rule keepsD [OF get_keeps])

lemma list_same: "run_state (c_list C) w = (r, w') \<Longrightarrow> objs w' = objs w"
  by (rule keepsD [OF list_keeps])

end

section \<open>RetryOnConflict\<close>

text \<open>
  \<open>retry.RetryOnConflict(retry.DefaultRetry, fn)\<close> runs \<open>fn\<close> again as long as it answers with a
  conflict and the backoff has steps left, and returns the last answer. \<open>attempts n fn\<close> is
  \<open>n + 1\<close> runs at most; the contract is that the call is \<open>attempts n fn\<close> for some \<open>n\<close>.
\<close>

fun attempts :: "nat \<Rightarrow> ('w, go_error + 'a) state \<Rightarrow> ('w, go_error + 'a) state" where
  "attempts 0 fn = fn"
| "attempts (Suc n) fn =
     State_Monad.bind fn (\<lambda>r. case r of
        Inl e \<Rightarrow> if is_conflict e then attempts n fn else State_Monad.return (Inl e)
      | Inr a \<Rightarrow> State_Monad.return (Inr a))"

type_synonym ('w, 'a) retry = "('w, go_error + 'a) state \<Rightarrow> ('w, go_error + 'a) state"

locale retry_on_conflict =
  fixes retry :: "('w, 'a) retry"
  assumes retry_attempts: "\<exists>n. run_state (retry fn) w = run_state (attempts n fn) w"
begin

lemma retry_keeps: "keeps f fn \<Longrightarrow> keeps f (retry fn)"
proof -
  assume k: "keeps f fn"
  have "keeps f (attempts n fn)" for n
    by (induction n) (auto intro!: keeps_intros k)
  then show ?thesis
    unfolding keeps_def by (metis retry_attempts)
qed

text \<open>
  A run of \<open>fn\<close> that ends in a conflict leaves the observation \<open>f\<close> alone: then the whole call is,
  for \<open>f\<close>, one last run of \<open>fn\<close> from a world that looks the same.
\<close>

lemma retry_last_run:
  assumes conflict: "\<And>e w w'. run_state fn w = (Inl e, w') \<Longrightarrow> is_conflict e \<Longrightarrow> f w' = f w"
    and run: "run_state (retry fn) w = (r, w')"
  obtains w0 where "f w0 = f w" "run_state fn w0 = (r, w')"
proof -
  have "\<exists>w0. f w0 = f w \<and> run_state fn w0 = (r, w')"
    if "run_state (attempts n fn) w = (r, w')" for n
    using that
  proof (induction n arbitrary: w)
    case 0
    then show ?case by auto
  next
    case (Suc n)
    obtain r1 w1 where first: "run_state fn w = (r1, w1)" by fastforce
    show ?case
    proof (cases "\<exists>e. r1 = Inl e \<and> is_conflict e")
      case True
      then have "run_state (attempts n fn) w1 = (r, w')" "f w1 = f w"
        using Suc.prems first conflict by auto
      then show ?thesis using Suc.IH by metis
    next
      case False
      then have "(r, w') = (r1, w1)"
        using Suc.prems first by (auto split: sum.splits if_splits)
      then show ?thesis using first by auto
    qed
  qed
  then show ?thesis using that retry_attempts run by metis
qed

end

interpretation attempts: retry_on_conflict "attempts n" for n
  by standard auto

section \<open>An executable store\<close>

text \<open>
  \<open>mem_client get put\<close> keeps the objects of one kind in a list inside the world, read by \<open>get\<close> and
  replaced by \<open>put\<close>. A write needs the current resource version and advances it.
\<close>

definition store_get :: "('s, 't) Obj list \<Rightarrow> ('s, 't) store" where
  "store_get xs k = List.find (\<lambda>x. obj_key x = k) xs"

definition store_put :: "('s, 't) Obj \<Rightarrow> ('s, 't) Obj list \<Rightarrow> ('s, 't) Obj list" where
  "store_put x xs = map (\<lambda>y. if obj_key y = obj_key x then x else y) xs"

definition store_del :: "key \<Rightarrow> ('s, 't) Obj list \<Rightarrow> ('s, 't) Obj list" where
  "store_del k xs = filter (\<lambda>y. obj_key y \<noteq> k) xs"

definition next_version :: "ObjectMeta \<Rightarrow> ObjectMeta" where
  "next_version m = m\<lparr>m_ResourceVersion := m_ResourceVersion m + 1\<rparr>"

definition mem_write ::
  "('s, 't) Obj list \<Rightarrow> ('s, 't) Obj \<Rightarrow> (('s, 't) Obj \<Rightarrow> ('s, 't) Obj) \<Rightarrow>
   ApiError + ('s, 't) Obj \<times> ('s, 't) Obj list" where
  "mem_write xs x f =
     (case store_get xs (obj_key x) of
        None \<Rightarrow> Inl (NotFound ''not found'')
      | Some old \<Rightarrow>
          if m_ResourceVersion (o_meta old) \<noteq> m_ResourceVersion (o_meta x)
          then Inl (Conflict ''the object has been modified'')
          else let y = f old
               in Inr (y, if finalized old y then store_del (obj_key x) xs else store_put y xs))"

definition mem_update :: "('s, 't) Obj \<Rightarrow> ('s, 't) Obj \<Rightarrow> ('s, 't) Obj" where
  "mem_update x old = x\<lparr>o_meta := next_version (o_meta x), o_status := o_status old\<rparr>"

definition mem_status :: "('s, 't) Obj \<Rightarrow> ('s, 't) Obj \<Rightarrow> ('s, 't) Obj" where
  "mem_status x old = old\<lparr>o_meta := next_version (o_meta old), o_status := o_status x\<rparr>"

definition mem_reply ::
  "('w \<Rightarrow> ('s, 't) Obj list) \<Rightarrow> (('s, 't) Obj list \<Rightarrow> 'w \<Rightarrow> 'w) \<Rightarrow>
   (('s, 't) Obj list \<Rightarrow> ApiError + ('s, 't) Obj \<times> ('s, 't) Obj list) \<Rightarrow>
   ('w, ApiError + ('s, 't) Obj) state" where
  "mem_reply get put f =
     State (\<lambda>w. case f (get w) of Inl e \<Rightarrow> (Inl e, w) | Inr (y, xs) \<Rightarrow> (Inr y, put xs w))"

definition mem_client ::
  "('w \<Rightarrow> ('s, 't) Obj list) \<Rightarrow> (('s, 't) Obj list \<Rightarrow> 'w \<Rightarrow> 'w) \<Rightarrow> ('w, 's, 't) Client" where
  "mem_client get put =
     \<lparr>c_get = \<lambda>k. State (\<lambda>w. (case store_get (get w) k of
          None \<Rightarrow> Inl (NotFound ''not found'') | Some x \<Rightarrow> Inr x, w)),
      c_list = State (\<lambda>w. (Inr (filter (\<lambda>x. store_get (get w) (obj_key x) = Some x) (get w)), w)),
      c_create = \<lambda>x. mem_reply get put (\<lambda>xs. case store_get xs (obj_key x) of
          Some _ \<Rightarrow> Inl (AlreadyExists ''already exists'')
        | None \<Rightarrow> Inr (x\<lparr>o_meta := next_version (o_meta x)\<rparr>, xs @ [x\<lparr>o_meta := next_version (o_meta x)\<rparr>])),
      c_update = \<lambda>x. mem_reply get put (\<lambda>xs. mem_write xs x (mem_update x)),
      c_status_update = \<lambda>x. mem_reply get put (\<lambda>xs. case mem_write xs x (mem_status x) of
          Inl e \<Rightarrow> Inl e
        | Inr (y, _) \<Rightarrow> Inr (y, store_put y xs))\<rparr>"

lemma next_version_simps [simp]:
  "m_Name (next_version m) = m_Name m" "m_Namespace (next_version m) = m_Namespace m"
  "m_DeletionTimestamp (next_version m) = m_DeletionTimestamp m"
  "m_Finalizers (next_version m) = m_Finalizers m" "meta_key (next_version m) = meta_key m"
  by (simp_all add: next_version_def meta_key_def)

lemma store_get_Some: "store_get xs k = Some x \<Longrightarrow> x \<in> set xs \<and> obj_key x = k"
  unfolding store_get_def by (blast dest: find_SomeD)

lemma store_get_simps [simp]:
  "store_get [] k = None"
  "store_get (x # xs) k = (if obj_key x = k then Some x else store_get xs k)"
  by (simp_all add: store_get_def)

lemma store_put_at:
  "store_get (store_put x xs) k =
    (if k = obj_key x then map_option (\<lambda>_. x) (store_get xs k) else store_get xs k)"
  by (induction xs) (auto simp: store_put_def)

lemma store_put_get:
  "store_get xs (obj_key x) = Some old \<Longrightarrow> store_get (store_put x xs) = (store_get xs)(obj_key x \<mapsto> x)"
  by (rule ext) (simp add: store_put_at)

lemma store_del_at: "store_get (store_del k xs) k' = (if k' = k then None else store_get xs k')"
  by (induction xs) (auto simp: store_del_def)

lemma store_del_get: "store_get (store_del k xs) = (store_get xs)(k := None)"
  by (rule ext) (simp add: store_del_at)

lemma store_snoc_at:
  "store_get (xs @ [x]) k =
    (case store_get xs k of None \<Rightarrow> if obj_key x = k then Some x else None | Some y \<Rightarrow> Some y)"
  by (induction xs) simp_all

lemma store_snoc_get:
  "store_get xs (obj_key x) = None \<Longrightarrow> store_get (xs @ [x]) = (store_get xs)(obj_key x \<mapsto> x)"
  by (rule ext) (simp add: store_snoc_at split: option.split)

lemma store_list:
  "{x \<in> set xs. store_get xs (obj_key x) = Some x} = ran (store_get xs)"
proof (intro set_eqI iffI)
  fix x
  assume "x \<in> ran (store_get xs)"
  then obtain k where "store_get xs k = Some x"
    unfolding ran_def by blast
  with store_get_Some [OF this] show "x \<in> {x \<in> set xs. store_get xs (obj_key x) = Some x}"
    by simp
next
  fix x
  assume "x \<in> {x \<in> set xs. store_get xs (obj_key x) = Some x}"
  then show "x \<in> ran (store_get xs)"
    unfolding ran_def by blast
qed

locale store_lens =
  fixes get :: "'w \<Rightarrow> ('s, 't) Obj list" and put :: "('s, 't) Obj list \<Rightarrow> 'w \<Rightarrow> 'w"
  assumes get_put [simp]: "get (put xs w) = xs"
begin

lemma mem_write_ok:
  assumes "mem_write xs x f = Inr (y, ys)" "\<And>old. obj_key old = obj_key x \<Longrightarrow> obj_key (f old) = obj_key x"
  obtains old where "store_get xs (obj_key x) = Some old"
    "m_ResourceVersion (o_meta old) = m_ResourceVersion (o_meta x)" "y = f old" "obj_key y = obj_key x"
    "store_get ys = (store_get xs)(obj_key x := if finalized old y then None else Some y)"
proof -
  from assms(1) obtain old where old: "store_get xs (obj_key x) = Some old"
    "m_ResourceVersion (o_meta old) = m_ResourceVersion (o_meta x)" "y = f old"
    "ys = (if finalized old y then store_del (obj_key x) xs else store_put y xs)"
    unfolding mem_write_def by (auto simp: Let_def split: option.splits if_splits)
  moreover from this have k: "obj_key y = obj_key x"
    using assms(2) store_get_Some by metis
  moreover have "store_get (store_put y xs) = (store_get xs)(obj_key x \<mapsto> y)"
    using store_put_get [of xs y old] old(1) k by simp
  ultimately show ?thesis
    using that store_del_get [of "obj_key x" xs] by auto
qed

lemma mem_reply_fail: "run_state (mem_reply get put f) w = (Inl e, w') \<Longrightarrow> w' = w"
  by (auto simp: mem_reply_def split: sum.splits)

lemma mem_reply_ok:
  assumes "run_state (mem_reply get put f) w = (Inr y, w')"
  obtains xs where "f (get w) = Inr (y, xs)" "get w' = xs"
  using assms that by (auto simp: mem_reply_def split: sum.splits)

sublocale kube_client "mem_client get put" "\<lambda>w. store_get (get w)"
proof
  show "keeps (\<lambda>w. store_get (get w)) (c_get (mem_client get put) k)" for k
    by (simp add: keeps_def mem_client_def)
  show "keeps (\<lambda>w. store_get (get w)) (c_list (mem_client get put))"
    by (simp add: keeps_def mem_client_def)
next
  fix k w x w'
  assume "run_state (c_get (mem_client get put) k) w = (Inr x, w')"
  then show "store_get (get w) k = Some x \<and> obj_key x = k"
    by (auto simp: mem_client_def dest: store_get_Some split: option.splits)
next
  fix k w s w'
  assume "run_state (c_get (mem_client get put) k) w = (Inl (NotFound s), w')"
  then show "store_get (get w) k = None"
    by (auto simp: mem_client_def split: option.splits)
next
  fix w xs w'
  assume "run_state (c_list (mem_client get put)) w = (Inr xs, w')"
  then have "xs = filter (\<lambda>x. store_get (get w) (obj_key x) = Some x) (get w)"
    by (clarsimp simp: mem_client_def)
  then show "set xs = ran (store_get (get w))"
    by (simp only: set_filter store_list)
next
  fix x w
  assume "x \<in> ran (store_get (get w))"
  then obtain k where "store_get (get w) k = Some x"
    unfolding ran_def by blast
  with store_get_Some [OF this] show "store_get (get w) (obj_key x) = Some x"
    by simp
next
  fix x w y w'
  assume "run_state (c_create (mem_client get put) x) w = (Inr y, w')"
  then show "store_get (get w) (obj_key x) = None \<and>
    store_get (get w') = (store_get (get w))(obj_key x \<mapsto> y) \<and> obj_key y = obj_key x \<and> o_spec y = o_spec x"
    using store_snoc_get [of "get w" y]
    by (auto simp: mem_client_def mem_reply_def split: option.splits)
next
  fix x w y w'
  assume "run_state (c_update (mem_client get put) x) w = (Inr y, w')"
  then have "run_state (mem_reply get put (\<lambda>xs. mem_write xs x (mem_update x))) w = (Inr y, w')"
    by (simp add: mem_client_def)
  then obtain ys where ys: "mem_write (get w) x (mem_update x) = Inr (y, ys)" "get w' = ys"
    by (rule mem_reply_ok)
  from ys(1) obtain old where old: "store_get (get w) (obj_key x) = Some old"
    "m_ResourceVersion (o_meta old) = m_ResourceVersion (o_meta x)" "y = mem_update x old" "obj_key y = obj_key x"
    "store_get ys = (store_get (get w))(obj_key x := if finalized old y then None else Some y)"
    by (rule mem_write_ok) (simp add: mem_update_def)
  moreover have "finalized old y = finalized old x" "o_spec y = o_spec x" "o_status y = o_status old"
    by (simp_all add: old(3) mem_update_def finalized_def)
  ultimately show "\<exists>old. store_get (get w) (obj_key x) = Some old \<and>
      m_ResourceVersion (o_meta old) = m_ResourceVersion (o_meta x) \<and>
      store_get (get w') = (store_get (get w))(obj_key x := if finalized old x then None else Some y) \<and>
      obj_key y = obj_key x \<and> o_spec y = o_spec x \<and> o_status y = o_status old"
    by (intro exI [of _ old]) (simp only: ys(2) simp_thms)
next
  fix x w y w'
  assume "run_state (c_status_update (mem_client get put) x) w = (Inr y, w')"
  then have "run_state (mem_reply get put (\<lambda>xs. case mem_write xs x (mem_status x) of
      Inl e \<Rightarrow> Inl e | Inr (y, _) \<Rightarrow> Inr (y, store_put y xs))) w = (Inr y, w')"
    by (simp add: mem_client_def)
  then obtain zs where zs: "(case mem_write (get w) x (mem_status x) of
      Inl e \<Rightarrow> Inl e | Inr (y, _) \<Rightarrow> Inr (y, store_put y (get w))) = Inr (y, zs)" "get w' = zs"
    by (rule mem_reply_ok)
  from zs(1) obtain ys where ys: "mem_write (get w) x (mem_status x) = Inr (y, ys)"
    "zs = store_put y (get w)"
    by (auto split: sum.splits)
  from ys(1) obtain old where old: "store_get (get w) (obj_key x) = Some old"
    "m_ResourceVersion (o_meta old) = m_ResourceVersion (o_meta x)" "y = mem_status x old" "obj_key y = obj_key x"
    by (rule mem_write_ok) (simp add: mem_status_def)
  moreover have "o_spec y = o_spec old" "o_status y = o_status x"
    by (simp_all add: old(3) mem_status_def)
  moreover have "store_get (get w') = (store_get (get w))(obj_key x \<mapsto> y)"
    using zs(2) ys(2) store_put_get [of "get w" y old] old(1,4) by simp
  ultimately show "\<exists>old. store_get (get w) (obj_key x) = Some old \<and>
      m_ResourceVersion (o_meta old) = m_ResourceVersion (o_meta x) \<and>
      store_get (get w') = (store_get (get w))(obj_key x \<mapsto> y) \<and>
      obj_key y = obj_key x \<and> o_spec y = o_spec old \<and> o_status y = o_status x"
    by (intro exI [of _ old]) (simp only: simp_thms)
next
  fix x w e w'
  show "run_state (c_create (mem_client get put) x) w = (Inl e, w') \<Longrightarrow> store_get (get w') = store_get (get w)"
    "run_state (c_update (mem_client get put) x) w = (Inl e, w') \<Longrightarrow> store_get (get w') = store_get (get w)"
    "run_state (c_status_update (mem_client get put) x) w = (Inl e, w') \<Longrightarrow> store_get (get w') = store_get (get w)"
    by (auto simp: mem_client_def dest: mem_reply_fail)
next
  fix x w y w'
  assume "run_state (c_update (mem_client get put) x) w = (Inr y, w')"
  then have "run_state (mem_reply get put (\<lambda>xs. mem_write xs x (mem_update x))) w = (Inr y, w')"
    by (simp add: mem_client_def)
  then obtain ys where "mem_write (get w) x (mem_update x) = Inr (y, ys)"
    by (rule mem_reply_ok)
  then obtain old where "y = mem_update x old"
    by (rule mem_write_ok) (simp add: mem_update_def)
  then show "m_Finalizers (o_meta y) = m_Finalizers (o_meta x)"
    by (simp add: mem_update_def)
qed

lemma mem_client_keeps:
  assumes "\<And>xs w. f (put xs w) = f w"
  shows "client_keeps f (mem_client get put)"
proof -
  have "keeps f (mem_reply get put g)" for g
    using assms by (simp add: keeps_def mem_reply_def split_beta split: sum.split)
  then show ?thesis
    by (simp add: client_keeps_def mem_client_def keeps_def)
qed

end

lemma mem_client_get [simp]:
  "run_state (c_get (mem_client get put) k) w =
    (case store_get (get w) k of None \<Rightarrow> Inl (NotFound ''not found'') | Some x \<Rightarrow> Inr x, w)"
  by (simp add: mem_client_def)

lemma mem_client_list [simp]:
  "run_state (c_list (mem_client get put)) w =
    (Inr (filter (\<lambda>x. store_get (get w) (obj_key x) = Some x) (get w)), w)"
  by (simp add: mem_client_def)

lemma mem_client_update [simp]:
  "run_state (c_update (mem_client get put) x) w =
    (case mem_write (get w) x (mem_update x) of Inl e \<Rightarrow> (Inl e, w) | Inr (y, xs) \<Rightarrow> (Inr y, put xs w))"
  by (simp add: mem_client_def mem_reply_def)

lemma mem_client_status [simp]:
  "run_state (c_status_update (mem_client get put) x) w =
    (case mem_write (get w) x (mem_status x) of
       Inl e \<Rightarrow> (Inl e, w) | Inr (y, _) \<Rightarrow> (Inr y, put (store_put y (get w)) w))"
  by (simp add: mem_client_def mem_reply_def split: sum.split prod.split)

lemma mem_client_create [simp]:
  "run_state (c_create (mem_client get put) x) w =
    (case store_get (get w) (obj_key x) of
       Some _ \<Rightarrow> (Inl (AlreadyExists ''already exists''), w)
     | None \<Rightarrow> (Inr (x\<lparr>o_meta := next_version (o_meta x)\<rparr>), put (get w @ [x\<lparr>o_meta := next_version (o_meta x)\<rparr>]) w))"
  by (simp add: mem_client_def mem_reply_def split: option.split)

lemmas mem_write_defs = mem_write_def mem_update_def mem_status_def next_version_def store_put_def
  store_del_def finalized_def meta_key_def

end
