(* ===== verification/Float64.thy ===== *)
theory Float64
  imports Prelude
begin

text \<open>
  Go's \<open>float64\<close>: IEEE 754 binary64 with round to nearest, ties to even. A finite value is the
  rational it stands for; the infinities and NaN are constructors of their own. Each operation
  computes the exact rational result and rounds it once (\<open>rnd\<close>), as the hardware does. Two
  things are left out: the sign of zero, which no computation of the source observes (every
  divisor it uses is a constant or guarded, and a zero divisor counts as positive), and fused
  multiply-add, which Go does not emit on amd64.

  The lemmas show that rounding is monotone and exact on small integers, and from it that the
  operations the scores are built from are monotone.
\<close>

section \<open>Powers of two and binary logarithms on rationals\<close>

definition pow2 :: "int \<Rightarrow> rat" where
  "pow2 e = (if 0 \<le> e then 2 ^ nat e else 1 / 2 ^ nat (- e))"

lemma pow2_pos [simp]: "0 < pow2 e"
  by (simp add: pow2_def)

lemma pow2_nz [simp]: "pow2 e \<noteq> 0"
  using pow2_pos [of e] by linarith

lemma pow2_nonneg [simp]: "0 \<le> pow2 e"
  by (rule less_imp_le) simp

lemma pow2_0 [simp]: "pow2 0 = 1"
  by (simp add: pow2_def)

lemma pow2_Suc: "pow2 (e + 1) = 2 * pow2 e"
proof (cases "0 \<le> e")
  case True
  then show ?thesis by (simp add: pow2_def nat_add_distrib)
next
  case False
  show ?thesis
  proof (cases "e = -1")
    case True
    then show ?thesis by (simp add: pow2_def)
  next
    case F: False
    from False have "nat (- e) = Suc (nat (- (e + 1)))" by simp
    moreover from False F have "\<not> 0 \<le> e + 1" by simp
    ultimately show ?thesis using False by (simp add: pow2_def)
  qed
qed

lemma pow2_add_nat: "pow2 (e + int n) = 2 ^ n * pow2 e"
proof (induction n)
  case 0
  then show ?case by simp
next
  case (Suc n)
  have "pow2 (e + int (Suc n)) = pow2 ((e + int n) + 1)" by (simp add: algebra_simps)
  also have "\<dots> = 2 * pow2 (e + int n)" by (rule pow2_Suc)
  finally show ?case using Suc by simp
qed

lemma pow2_mono: "d \<le> e \<Longrightarrow> pow2 d \<le> pow2 e"
proof -
  assume "d \<le> e"
  then have "pow2 e = 2 ^ nat (e - d) * pow2 d"
    using pow2_add_nat [of d "nat (e - d)"] by simp
  moreover have "(1::rat) \<le> 2 ^ nat (e - d)" by simp
  ultimately show ?thesis
    using mult_right_mono [of 1 "2 ^ nat (e - d)" "pow2 d"] by simp
qed

lemma pow2_less_cancel: "pow2 d < pow2 e \<Longrightarrow> d < e"
  using pow2_mono [of e d] by fastforce

text \<open>The binary logarithm of a positive number, rounded down.\<close>

function nlog2 :: "int \<Rightarrow> nat" where
  "nlog2 n = (if n \<le> 1 then 0 else Suc (nlog2 (n div 2)))"
  by pat_completeness auto
termination
  by (relation "measure nat") auto

declare nlog2.simps [simp del]

lemma nlog2_bounds: "0 < n \<Longrightarrow> 2 ^ nlog2 n \<le> n \<and> n < 2 ^ Suc (nlog2 n)"
proof (induction n rule: nlog2.induct)
  case (1 n)
  show ?case
  proof (cases "n \<le> 1")
    case True
    with 1 show ?thesis by (simp add: nlog2.simps [of n])
  next
    case False
    with "1.IH" have "2 ^ nlog2 (n div 2) \<le> n div 2 \<and> n div 2 < 2 ^ Suc (nlog2 (n div 2))" by simp
    moreover from False have "nlog2 n = Suc (nlog2 (n div 2))" by (simp add: nlog2.simps [of n])
    ultimately show ?thesis by auto
  qed
qed

definition ilog2 :: "rat \<Rightarrow> int" where
  "ilog2 x =
     (let (p, q) = quotient_of x;
          e = int (nlog2 p) - int (nlog2 q)
      in if pow2 e \<le> x then e else e - 1)"

lemma pow2_diff: "pow2 (int m - int n) = 2 ^ m / 2 ^ n"
proof -
  have "pow2 (int m - int n) * 2 ^ n = pow2 (int m - int n + int n)"
    by (simp only: pow2_add_nat mult.commute)
  also have "\<dots> = 2 ^ m" by (simp add: pow2_def)
  finally show ?thesis by (simp add: field_simps)
qed

lemma ilog2_bounds:
  assumes "0 < x"
  shows "pow2 (ilog2 x) \<le> x \<and> x < pow2 (ilog2 x + 1)"
proof -
  obtain p q where pq: "quotient_of x = (p, q)" by fastforce
  then have x: "x = of_int p / of_int q" and q: "0 < q"
    by (auto intro: quotient_of_div quotient_of_denom_pos)
  from x q assms have p: "0 < p" by (simp add: zero_less_divide_iff)
  let ?m = "nlog2 p" and ?n = "nlog2 q"
  let ?e = "int ?m - int ?n"
  have pb: "2 ^ ?m \<le> p \<and> p < 2 * 2 ^ ?m"
    using nlog2_bounds [of p] p by simp
  have qb: "2 ^ ?n \<le> q \<and> q < 2 * 2 ^ ?n"
    using nlog2_bounds [of q] q by simp
  have pr: "(2 ^ ?m :: rat) \<le> of_int p" "(of_int p :: rat) < 2 * 2 ^ ?m"
    using pb of_int_le_iff [where 'a = rat, of "2 ^ ?m" p] of_int_less_iff [where 'a = rat, of p "2 * 2 ^ ?m"]
    by simp_all
  have qr: "(2 ^ ?n :: rat) \<le> of_int q" "(of_int q :: rat) < 2 * 2 ^ ?n" "(0 :: rat) < of_int q"
    using qb q of_int_le_iff [where 'a = rat, of "2 ^ ?n" q] of_int_less_iff [where 'a = rat, of q "2 * 2 ^ ?n"]
    by simp_all
  have hi: "x < pow2 (?e + 1)"
  proof -
    have "x < (2 * 2 ^ ?m) / of_int q"
      unfolding x using pr(2) qr(3) by (rule divide_strict_right_mono)
    also have "\<dots> \<le> (2 * 2 ^ ?m) / 2 ^ ?n"
      using qr by (intro divide_left_mono) simp_all
    also have "\<dots> = pow2 (?e + 1)" by (simp add: pow2_Suc pow2_diff)
    finally show ?thesis .
  qed
  have lo: "pow2 (?e - 1) \<le> x"
  proof -
    have "pow2 (?e - 1) = 2 ^ ?m / (2 * 2 ^ ?n)"
      using pow2_Suc [of "?e - 1"] by (simp add: pow2_diff)
    also have "\<dots> \<le> 2 ^ ?m / of_int q"
      using qr by (intro divide_left_mono) simp_all
    also have "\<dots> \<le> x"
      unfolding x using pr(1) qr(3) by (intro divide_right_mono) simp_all
    finally show ?thesis .
  qed
  show ?thesis using hi lo by (simp add: ilog2_def pq Let_def)
qed

lemma ilog2_mono: "0 < x \<Longrightarrow> x \<le> y \<Longrightarrow> ilog2 x \<le> ilog2 y"
proof -
  assume "0 < x" "x \<le> y"
  then have "pow2 (ilog2 x) < pow2 (ilog2 y + 1)"
    using ilog2_bounds [of x] ilog2_bounds [of y] by linarith
  then show ?thesis by (auto dest: pow2_less_cancel)
qed

lemma ilog2_unique:
  assumes "pow2 e \<le> x" "x < pow2 (e + 1)"
  shows "ilog2 x = e"
proof -
  have "0 < x" using assms(1) pow2_pos [of e] by linarith
  then have b: "pow2 (ilog2 x) \<le> x" "x < pow2 (ilog2 x + 1)" using ilog2_bounds by auto
  have "pow2 (ilog2 x) < pow2 (e + 1)" using b(1) assms(2) by (rule le_less_trans)
  moreover have "pow2 e < pow2 (ilog2 x + 1)" using assms(1) b(2) by (rule le_less_trans)
  ultimately show ?thesis by (auto dest!: pow2_less_cancel)
qed

section \<open>Rounding\<close>

text \<open>To the nearest integer, ties to the even one.\<close>

definition rne :: "rat \<Rightarrow> int" where
  "rne x =
     (let f = \<lfloor>x\<rfloor>; r = x - of_int f
      in if r < 1 / 2 then f else if 1 / 2 < r then f + 1 else if even f then f else f + 1)"

lemma rne_of_int [simp]: "rne (of_int i) = i"
  by (simp add: rne_def)

lemma rne_bounds: "\<lfloor>x\<rfloor> \<le> rne x \<and> rne x \<le> \<lfloor>x\<rfloor> + 1"
  by (auto simp: rne_def Let_def)

lemma rne_mono:
  assumes "x \<le> y"
  shows "rne x \<le> rne y"
proof (cases "\<lfloor>x\<rfloor> = \<lfloor>y\<rfloor>")
  case True
  with assms show ?thesis by (auto simp: rne_def Let_def)
next
  case False
  with floor_mono [OF assms] have "\<lfloor>x\<rfloor> + 1 \<le> \<lfloor>y\<rfloor>" by linarith
  then show ?thesis using rne_bounds [of x] rne_bounds [of y] by linarith
qed

text \<open>
  The exponent of the last place of a positive number: 53 significant bits, but no finer than the
  subnormal grid \<open>2^-1074\<close>.
\<close>

definition fexp :: "rat \<Rightarrow> int" where
  "fexp x = max (ilog2 x - 52) (- 1074)"

definition round_pos :: "rat \<Rightarrow> rat" where
  "round_pos x = of_int (rne (x / pow2 (fexp x))) * pow2 (fexp x)"

lemma fexp_mono: "0 < x \<Longrightarrow> x \<le> y \<Longrightarrow> fexp x \<le> fexp y"
  using ilog2_mono [of x y] by (simp add: fexp_def)

lemma rne_ge_int: "of_int i \<le> x \<Longrightarrow> i \<le> rne x"
  using rne_mono [of "of_int i" x] by simp

lemma rne_le_int: "x \<le> of_int i \<Longrightarrow> rne x \<le> i"
  using rne_mono [of x "of_int i"] by simp

lemma round_pos_mono:
  assumes "0 < x" "x \<le> y"
  shows "round_pos x \<le> round_pos y"
proof (cases "fexp x = fexp y")
  case True
  have "rne (x / pow2 (fexp x)) \<le> rne (y / pow2 (fexp y))"
    unfolding True by (intro rne_mono divide_right_mono) (use assms in simp_all)
  then have "(of_int (rne (x / pow2 (fexp x))) :: rat) \<le> of_int (rne (y / pow2 (fexp y)))"
    by (rule of_int_le_iff [THEN iffD2])
  then show ?thesis
    unfolding round_pos_def True by (intro mult_right_mono) simp_all
next
  case False
  with fexp_mono [OF assms] have lt: "fexp x < fexp y" by linarith
  then have ey: "fexp y = ilog2 y - 52" by (auto simp: fexp_def)
  have y0: "0 < y" using assms by linarith
  have top: "x < pow2 (fexp x + 53)"
  proof -
    have "x < pow2 (ilog2 x + 1)" using ilog2_bounds [OF assms(1)] by blast
    also have "\<dots> \<le> pow2 (fexp x + 53)" by (rule pow2_mono) (simp add: fexp_def)
    finally show ?thesis .
  qed
  have "x / pow2 (fexp x) \<le> of_int (2 ^ 53)"
    using top pow2_add_nat [of "fexp x" 53] by (simp add: divide_le_eq mult.commute)
  then have "rne (x / pow2 (fexp x)) \<le> 2 ^ 53" by (rule rne_le_int)
  then have "(of_int (rne (x / pow2 (fexp x))) :: rat) \<le> of_int (2 ^ 53)"
    by (rule of_int_le_iff [THEN iffD2])
  then have "round_pos x \<le> of_int (2 ^ 53) * pow2 (fexp x)"
    unfolding round_pos_def by (rule mult_right_mono) simp
  also have "\<dots> = pow2 (fexp x + 53)" using pow2_add_nat [of "fexp x" 53] by simp
  also have "\<dots> \<le> pow2 (fexp y + 52)" by (rule pow2_mono) (use lt in simp)
  also have "\<dots> = of_int (2 ^ 52) * pow2 (fexp y)" using pow2_add_nat [of "fexp y" 52] by simp
  also have "\<dots> \<le> round_pos y"
  proof -
    have "pow2 (fexp y + 52) \<le> y" using ilog2_bounds [OF y0] by (simp add: ey)
    then have "of_int (2 ^ 52) \<le> y / pow2 (fexp y)"
      using pow2_add_nat [of "fexp y" 52] by (simp add: le_divide_eq mult.commute)
    then have "2 ^ 52 \<le> rne (y / pow2 (fexp y))" by (rule rne_ge_int)
    then have "(of_int (2 ^ 52) :: rat) \<le> of_int (rne (y / pow2 (fexp y)))"
      by (rule of_int_le_iff [THEN iffD2])
    then show ?thesis unfolding round_pos_def by (rule mult_right_mono) simp
  qed
  finally show ?thesis .
qed

lemma round_pos_nonneg: "0 < x \<Longrightarrow> 0 \<le> round_pos x"
proof -
  assume "0 < x"
  then have "(of_int 0 :: rat) \<le> x / pow2 (fexp x)" by simp
  then have "0 \<le> rne (x / pow2 (fexp x))" by (rule rne_ge_int)
  then show ?thesis by (simp add: round_pos_def)
qed


lemma round_pos_int:
  assumes "0 < i" "i \<le> 2 ^ 53"
  shows "round_pos (of_int i) = of_int i"
proof -
  let ?e = "fexp (of_int i)"
  have "of_int i \<le> (2 :: rat) ^ 53"
    using assms(2) of_int_le_iff [where 'a = rat, of i "2 ^ 53"] by simp
  then have "ilog2 (of_int i) \<le> ilog2 (pow2 53)"
    using assms(1) by (intro ilog2_mono) (simp_all add: pow2_def)
  also have "ilog2 (pow2 53) = 53" by (rule ilog2_unique) (simp_all add: pow2_def)
  finally have le: "?e \<le> 1" by (simp add: fexp_def)
  show ?thesis
  proof (cases "?e = 1")
    case True
    then have "53 \<le> ilog2 (of_int i)" by (auto simp: fexp_def)
    then have "pow2 53 \<le> pow2 (ilog2 (of_int i))" by (rule pow2_mono)
    also have "\<dots> \<le> of_int i" using ilog2_bounds [of "of_int i"] assms(1) by simp
    finally have "(2 :: rat) ^ 53 \<le> of_int i" by (simp add: pow2_def)
    then have "i = 2 ^ 53" using assms(2) of_int_le_iff [where 'a = rat, of "2 ^ 53" i] by simp
    moreover have "(2 ^ 53 :: rat) / 2 = of_int (2 ^ 52)" by simp
    ultimately show ?thesis using True rne_of_int [of "2 ^ 52"] by (simp add: round_pos_def pow2_def)
  next
    case False
    with le have "?e \<le> 0" by simp
    then obtain n where n: "?e = - int n" by (metis nonpos_int_cases)
    have "pow2 0 = 2 ^ n * pow2 (- int n)" using pow2_add_nat [of "- int n" n] by simp
    then have "of_int i / pow2 ?e = of_int (i * 2 ^ n)" by (simp add: n field_simps)
    then have "rne (of_int i / pow2 ?e) = i * 2 ^ n" by (simp only: rne_of_int)
    moreover have "of_int (i * 2 ^ n) * pow2 ?e = (of_int i :: rat)"
      using \<open>pow2 0 = 2 ^ n * pow2 (- int n)\<close> by (simp add: n)
    ultimately show ?thesis by (simp only: round_pos_def)
  qed
qed

section \<open>Values and operations\<close>

datatype float64 = Fin rat | PosInf | NegInf | NaN

definition pack :: "rat \<Rightarrow> float64" where
  "pack r = (if pow2 1024 \<le> r then PosInf else if r \<le> - pow2 1024 then NegInf else Fin r)"

definition rnd :: "rat \<Rightarrow> float64" where
  "rnd x =
     (if x = 0 then Fin 0
      else if 0 < x then pack (round_pos x)
      else pack (- round_pos (- x)))"

definition is_nan :: "float64 \<Rightarrow> bool" where
  "is_nan x = (x = NaN)"

definition of_sign :: "bool \<Rightarrow> float64" where
  "of_sign neg = (if neg then NegInf else PosInf)"

fun fl_neg :: "float64 \<Rightarrow> float64" where
  "fl_neg (Fin a) = Fin (- a)"
| "fl_neg PosInf = NegInf"
| "fl_neg NegInf = PosInf"
| "fl_neg NaN = NaN"

fun fl_add :: "float64 \<Rightarrow> float64 \<Rightarrow> float64" where
  "fl_add (Fin a) (Fin b) = rnd (a + b)"
| "fl_add NaN y = NaN"
| "fl_add x NaN = NaN"
| "fl_add PosInf NegInf = NaN"
| "fl_add NegInf PosInf = NaN"
| "fl_add PosInf y = PosInf"
| "fl_add x PosInf = PosInf"
| "fl_add NegInf y = NegInf"
| "fl_add x NegInf = NegInf"

fun fl_mul :: "float64 \<Rightarrow> float64 \<Rightarrow> float64" where
  "fl_mul (Fin a) (Fin b) = rnd (a * b)"
| "fl_mul NaN y = NaN"
| "fl_mul x NaN = NaN"
| "fl_mul (Fin a) y = (if a = 0 then NaN else of_sign ((a < 0) \<noteq> (y = NegInf)))"
| "fl_mul x (Fin b) = (if b = 0 then NaN else of_sign ((b < 0) \<noteq> (x = NegInf)))"
| "fl_mul x y = of_sign ((x = NegInf) \<noteq> (y = NegInf))"

fun fl_div :: "float64 \<Rightarrow> float64 \<Rightarrow> float64" where
  "fl_div (Fin a) (Fin b) =
     (if b = 0 then (if a = 0 then NaN else of_sign (a < 0)) else rnd (a / b))"
| "fl_div NaN y = NaN"
| "fl_div x NaN = NaN"
| "fl_div (Fin a) y = Fin 0"
| "fl_div x (Fin b) = of_sign ((b < 0) \<noteq> (x = NegInf))"
| "fl_div x y = NaN"

fun fl_le :: "float64 \<Rightarrow> float64 \<Rightarrow> bool" where
  "fl_le (Fin a) (Fin b) = (a \<le> b)"
| "fl_le NaN y = False"
| "fl_le x NaN = False"
| "fl_le NegInf y = True"
| "fl_le x PosInf = True"
| "fl_le x y = False"

text \<open>
  The comparisons and arithmetic are written with the usual operators, so that the scoring code
  reads as it does in Go. Comparisons with NaN are false, and \<open>x < y\<close> is \<open>x \<le> y\<close> without
  \<open>y \<le> x\<close>.
\<close>

instantiation float64 :: "{zero, one, plus, minus, uminus, times, inverse, ord}"
begin

definition zero_float64 :: float64 where "zero_float64 = Fin 0"
definition one_float64 :: float64 where "one_float64 = Fin 1"
definition plus_float64 :: "float64 \<Rightarrow> float64 \<Rightarrow> float64" where "plus_float64 = fl_add"
definition uminus_float64 :: "float64 \<Rightarrow> float64" where "uminus_float64 = fl_neg"
definition minus_float64 :: "float64 \<Rightarrow> float64 \<Rightarrow> float64" where
  "minus_float64 x y = fl_add x (fl_neg y)"
definition times_float64 :: "float64 \<Rightarrow> float64 \<Rightarrow> float64" where "times_float64 = fl_mul"
definition divide_float64 :: "float64 \<Rightarrow> float64 \<Rightarrow> float64" where "divide_float64 = fl_div"
definition inverse_float64 :: "float64 \<Rightarrow> float64" where "inverse_float64 x = fl_div (Fin 1) x"
definition less_eq_float64 :: "float64 \<Rightarrow> float64 \<Rightarrow> bool" where "less_eq_float64 = fl_le"
definition less_float64 :: "float64 \<Rightarrow> float64 \<Rightarrow> bool" where
  "less_float64 x y = (fl_le x y \<and> \<not> fl_le y x)"

instance ..

end

lemmas float64_defs =
  zero_float64_def one_float64_def plus_float64_def uminus_float64_def minus_float64_def
  times_float64_def divide_float64_def less_eq_float64_def less_float64_def

text \<open>A Go constant expression is exact until it becomes a \<open>float64\<close>.\<close>

definition lit :: "rat \<Rightarrow> float64" where
  "lit x = rnd x"

text \<open>\<open>float64(i)\<close> for an integer \<open>i\<close>.\<close>

definition fl_of_int :: "int \<Rightarrow> float64" where
  "fl_of_int i = rnd (of_int i)"

section \<open>Formatting with two decimals\<close>

text \<open>
  \<open>fmt.Sprintf("%.2f", x)\<close> and \<open>strconv.FormatFloat(x, 'f', 2, 64)\<close>: the exact decimal value
  rounded to hundredths, ties to even.
\<close>

definition two_digits :: "nat \<Rightarrow> string" where
  "two_digits n = (if n < 10 then ''0'' @ show_nat n else show_nat n)"

definition hundredths :: "rat \<Rightarrow> string" where
  "hundredths a =
     (let n = nat (rne (\<bar>a\<bar> * 100))
      in (if a < 0 then ''-'' else []) @ show_nat (n div 100) @ ''.'' @ two_digits (n mod 100))"

fun fmt2 :: "float64 \<Rightarrow> string" where
  "fmt2 (Fin a) = hundredths a"
| "fmt2 PosInf = ''+Inf''"
| "fmt2 NegInf = ''-Inf''"
| "fmt2 NaN = ''NaN''"

section \<open>Order and monotonicity\<close>

lemma fl_le_NaN [simp]: "\<not> fl_le NaN x" "\<not> fl_le x NaN"
  by (cases x; simp)+

lemma fl_le_bounds [simp]: "fl_le x PosInf \<longleftrightarrow> x \<noteq> NaN" "fl_le NegInf x \<longleftrightarrow> x \<noteq> NaN"
  by (cases x; simp)+

lemma fl_le_refl [simp]: "fl_le x x \<longleftrightarrow> x \<noteq> NaN"
  by (cases x) auto

lemma fl_le_trans: "fl_le x y \<Longrightarrow> fl_le y z \<Longrightarrow> fl_le x z"
  by (cases x; cases y; cases z) auto

lemma fl_le_antisym: "fl_le x y \<Longrightarrow> fl_le y x \<Longrightarrow> x = y"
  by (cases x; cases y) auto

lemma fl_le_total: "x \<noteq> NaN \<Longrightarrow> y \<noteq> NaN \<Longrightarrow> fl_le x y \<or> fl_le y x"
  by (cases x; cases y) auto

lemma float_not_less: "x \<noteq> NaN \<Longrightarrow> y \<noteq> NaN \<Longrightarrow> \<not> x < y \<longleftrightarrow> fl_le y x" for x y :: float64
  using fl_le_total [of x y] by (auto simp: float64_defs)

lemma float_less_trans: "x < y \<Longrightarrow> y < z \<Longrightarrow> x < z" for x y z :: float64
  by (auto simp: float64_defs dest: fl_le_trans)

lemma float_less_irrefl [simp]: "\<not> x < x" for x :: float64
  by (simp add: float64_defs)

lemma pack_mono: "x \<le> y \<Longrightarrow> fl_le (pack x) (pack y)"
  using pow2_pos [of 1024] by (auto simp: pack_def)

lemma pack_neq_NaN [simp]: "pack x \<noteq> NaN"
  by (simp add: pack_def)

lemma rnd_neq_NaN [simp]: "rnd x \<noteq> NaN" "NaN \<noteq> rnd x"
  by (auto simp: rnd_def pack_def)

lemma pack_small: "\<bar>x\<bar> < pow2 1024 \<Longrightarrow> pack x = Fin x"
  by (auto simp: pack_def abs_less_iff)

lemma pack_0: "pack 0 = Fin 0"
  by (simp add: pack_small)

lemma rnd_mono:
  assumes "x \<le> y"
  shows "fl_le (rnd x) (rnd y)"
proof -
  have pos: "fl_le (rnd a) (rnd b)" if "0 < a" "a \<le> b" for a b
    using that by (simp add: rnd_def pack_mono round_pos_mono)
  have neg: "fl_le (rnd a) (rnd b)" if "b < 0" "a \<le> b" for a b
    using that round_pos_mono [of "- b" "- a"] by (auto simp: rnd_def intro!: pack_mono)
  have zp: "fl_le (Fin 0) (rnd b)" if "0 < b" for b
    using that pack_mono [OF round_pos_nonneg [OF that]] by (simp add: rnd_def pack_0)
  have zn: "fl_le (rnd a) (Fin 0)" if "a < 0" for a
    using that pack_mono [of "- round_pos (- a)" 0] round_pos_nonneg [of "- a"]
    by (simp add: rnd_def pack_0)
  consider "0 < x" | "y < 0" | "x \<le> 0" "0 \<le> y" by linarith
  then show ?thesis
  proof cases
    case 1
    then show ?thesis using assms by (rule pos)
  next
    case 2
    then show ?thesis using assms by (rule neg)
  next
    case 3
    have "fl_le (rnd x) (Fin 0)" using 3(1) zn by (cases "x = 0") (auto simp: rnd_def)
    moreover have "fl_le (Fin 0) (rnd y)" using 3(2) zp by (cases "y = 0") (auto simp: rnd_def)
    ultimately show ?thesis by (rule fl_le_trans)
  qed
qed

lemma rnd_0 [simp]: "rnd 0 = Fin 0"
  by (simp add: rnd_def)

lemma pack_minus: "pack (- x) = fl_neg (pack x)"
proof -
  have "\<not> (pow2 1024 \<le> x \<and> pow2 1024 \<le> - x)" using pow2_pos [of 1024] by linarith
  then show ?thesis by (auto simp: pack_def)
qed

lemma fl_neg_neg [simp]: "fl_neg (fl_neg x) = x"
  by (cases x) auto

lemma rnd_minus: "rnd (- x) = fl_neg (rnd x)"
  by (cases "x = 0"; cases "0 < x") (simp_all add: rnd_def pack_minus pack_0)

lemma rnd_int:
  assumes "\<bar>i\<bar> \<le> 2 ^ 53"
  shows "rnd (of_int i) = Fin (of_int i)"
proof -
  have small: "rnd (of_int j) = Fin (of_int j)" if "0 < j" "j \<le> 2 ^ 53" for j
  proof -
    have "(of_int j :: rat) \<le> 2 ^ 53"
      using that(2) of_int_le_iff [where 'a = rat, of j "2 ^ 53"] by simp
    also have "\<dots> < pow2 1024"
      by (simp add: pow2_def)
    finally have "\<bar>of_int j\<bar> < pow2 1024" using that(1) by simp
    then show ?thesis using that by (simp add: rnd_def round_pos_int pack_small)
  qed
  consider "i = 0" | "0 < i" | "i < 0" by linarith
  then show ?thesis
  proof cases
    case 3
    then have "rnd (of_int (- i)) = Fin (of_int (- i))" using assms by (intro small) auto
    then show ?thesis using rnd_minus [of "of_int (- i)"] by simp
  qed (use assms small in auto)
qed

lemma fl_neg_antimono: "fl_le x y \<Longrightarrow> fl_le (fl_neg y) (fl_neg x)"
  by (cases x; cases y) auto

lemma fl_add_mono:
  "fl_le x y \<Longrightarrow> fl_add x z \<noteq> NaN \<Longrightarrow> fl_add y z \<noteq> NaN \<Longrightarrow> fl_le (fl_add x z) (fl_add y z)"
  by (cases x; cases y; cases z) (auto intro: rnd_mono simp: not_le)

lemma fl_add_commute: "fl_add x y = fl_add y x"
  by (cases x; cases y) (auto simp: add.commute)

lemma fl_mul_commute: "fl_mul x y = fl_mul y x"
  by (cases x; cases y) (auto simp: mult.commute of_sign_def)

lemma fl_mul_mono:
  "fl_le x y \<Longrightarrow> 0 < c \<Longrightarrow> fl_le (fl_mul x (Fin c)) (fl_mul y (Fin c))"
  by (cases x; cases y) (auto intro: rnd_mono simp: of_sign_def mult_right_mono)

lemma fl_div_mono:
  "fl_le x y \<Longrightarrow> 0 < c \<Longrightarrow> fl_le (fl_div x (Fin c)) (fl_div y (Fin c))"
  by (cases x; cases y) (auto intro: rnd_mono simp: of_sign_def divide_right_mono)

section \<open>Intervals\<close>

text \<open>
  Rounding stays between representable bounds, so that a chain of float operations on bounded
  numbers is finite and bounded.
\<close>

lemma rnd_between:
  assumes "rnd lo = Fin lo" "rnd hi = Fin hi" "lo \<le> x" "x \<le> hi"
  obtains c where "rnd x = Fin c" "lo \<le> c" "c \<le> hi"
  using rnd_mono [OF assms(3)] rnd_mono [OF assms(4)] assms(1,2) that
  by (cases "rnd x") auto

lemma rnd_zero_one: "rnd 0 = Fin 0" "rnd 1 = Fin 1"
  using rnd_int [of 1] by simp_all

definition in_range :: "rat \<Rightarrow> rat \<Rightarrow> float64 \<Rightarrow> bool" where
  "in_range lo hi x \<longleftrightarrow> (\<exists>c. x = Fin c \<and> lo \<le> c \<and> c \<le> hi)"

lemma in_range_Fin [simp]: "in_range lo hi (Fin c) \<longleftrightarrow> lo \<le> c \<and> c \<le> hi"
  by (auto simp: in_range_def)

lemma in_rangeI: "lo \<le> c \<Longrightarrow> c \<le> hi \<Longrightarrow> in_range lo hi (Fin c)"
  by (simp add: in_range_def)

lemma in_rangeE:
  assumes "in_range lo hi x"
  obtains c where "x = Fin c" "lo \<le> c" "c \<le> hi"
  using assms by (auto simp: in_range_def)

lemma in_range_weaken: "in_range lo hi x \<Longrightarrow> lo' \<le> lo \<Longrightarrow> hi \<le> hi' \<Longrightarrow> in_range lo' hi' x"
  by (auto simp: in_range_def)

lemma in_range_rnd:
  "rnd lo = Fin lo \<Longrightarrow> rnd hi = Fin hi \<Longrightarrow> lo \<le> x \<Longrightarrow> x \<le> hi \<Longrightarrow> in_range lo hi (rnd x)"
  using rnd_between [of lo hi x] by (metis in_rangeI)

lemma in_range_add:
  assumes "in_range a b x" "in_range c d y" "rnd (a + c) = Fin (a + c)" "rnd (b + d) = Fin (b + d)"
  shows "in_range (a + c) (b + d) (x + y)"
proof -
  obtain p q where "x = Fin p" "y = Fin q" "a \<le> p" "p \<le> b" "c \<le> q" "q \<le> d"
    using assms(1,2) by (auto simp: in_range_def)
  with assms(3,4) show ?thesis
    by (auto simp: float64_defs intro!: in_range_rnd)
qed

lemma in_range_mul:
  assumes "in_range 0 b x" "in_range 0 d y" "rnd (b * d) = Fin (b * d)" "0 \<le> b"
  shows "in_range 0 (b * d) (x * y)"
proof -
  obtain p q where "x = Fin p" "y = Fin q" "0 \<le> p" "p \<le> b" "0 \<le> q" "q \<le> d"
    using assms(1,2) by (auto simp: in_range_def)
  with assms(3,4) show ?thesis
    by (auto simp: float64_defs intro!: in_range_rnd mult_mono)
qed

lemma in_range_div:
  assumes "0 \<le> p" "p \<le> q" "0 < q"
  shows "in_range 0 1 (Fin p / Fin q)"
  using assms by (auto simp: float64_defs divide_le_eq intro!: in_range_rnd rnd_zero_one)

lemma in_range_fl_add:
  assumes "in_range a b x" "in_range c d y" "a + c = lo" "b + d = hi" "rnd lo = Fin lo" "rnd hi = Fin hi"
  shows "in_range lo hi (x + y)"
  using in_range_add [of a b x c d y] assms by simp

section \<open>Evaluating a rounding\<close>

text \<open>
  A certificate for one rounding: \<open>x\<close> lies in a binade with unit \<open>1 / 2 ^ n\<close> and the integer \<open>m\<close> is the
  nearest one to \<open>x\<close> in that unit.
\<close>

lemma rne_nearest:
  assumes "\<bar>x - of_int m\<bar> < 1 / 2 \<or> \<bar>x - of_int m\<bar> = 1 / 2 \<and> even m"
  shows "rne x = m"
proof (cases "\<bar>x - of_int m\<bar> < 1 / 2")
  case True
  then have "\<lfloor>x\<rfloor> = m \<or> \<lfloor>x\<rfloor> = m - 1"
    by linarith
  then show ?thesis
    using True by (auto simp: rne_def Let_def abs_less_iff)
next
  case False
  with assms have e: "even m" "x = of_int m + 1 / 2 \<or> x = of_int m - 1 / 2"
    by (auto simp: abs_if split: if_splits)
  then have "x = of_int m + 1 / 2 \<and> \<lfloor>x\<rfloor> = m \<or> x = of_int m - 1 / 2 \<and> \<lfloor>x\<rfloor> = m - 1"
    by (elim disjE) (simp_all add: floor_unique)
  with e(1) show ?thesis
    by (auto simp: rne_def Let_def)
qed

lemma rnd_cert:
  assumes "n \<le> 1074" "2 ^ 52 \<le> x * 2 ^ n" "x * 2 ^ n < 2 ^ 53"
    "\<bar>x * 2 ^ n - of_int m\<bar> < 1 / 2 \<or> \<bar>x * 2 ^ n - of_int m\<bar> = 1 / 2 \<and> even m"
  shows "rnd x = Fin (of_int m / 2 ^ n)"
proof -
  have p: "pow2 (52 - int n) = 2 ^ 52 / 2 ^ n" "pow2 (52 - int n + 1) = 2 ^ 53 / 2 ^ n"
    using pow2_diff [of 52 n] pow2_diff [of 53 n] by simp_all
  have x: "pow2 (52 - int n) \<le> x" "x < pow2 (52 - int n + 1)"
    using assms(2,3) unfolding p by (simp_all add: field_simps)
  then have "0 < x"
    using pow2_pos [of "52 - int n"] by linarith
  moreover have "fexp x = - int n"
    using ilog2_unique [OF x] assms(1) by (simp add: fexp_def)
  moreover have "pow2 (- int n) = 1 / 2 ^ n"
    using pow2_diff [of 0 n] by simp
  ultimately have r: "round_pos x = of_int m / 2 ^ n"
    using rne_nearest [OF assms(4)] by (simp add: round_pos_def)
  have nonneg: "0 \<le> of_int m / (2 ^ n :: rat)"
    using r round_pos_nonneg [OF \<open>0 < x\<close>] by simp
  have "of_int m < (2 ^ 54 :: rat)"
  proof -
    have "x * 2 ^ n < 9007199254740992"
      using assms(3) by simp
    moreover have "of_int m - x * 2 ^ n < 1"
      using assms(4) by linarith
    ultimately have "of_int m < (18014398509481984 :: rat)"
      by linarith
    then show ?thesis by simp
  qed
  moreover have "of_int m / 2 ^ n \<le> (of_int m :: rat)"
  proof -
    have "0 \<le> (of_int m :: rat)"
      using nonneg by (metis divide_less_0_iff not_le zero_less_numeral zero_less_power)
    then show ?thesis
      using divide_left_mono [of 1 "2 ^ n" "of_int m :: rat"] by simp
  qed
  ultimately have "of_int m / 2 ^ n < (2 ^ 54 :: rat)"
    by linarith
  moreover have "(2 ^ 54 :: rat) \<le> pow2 1024"
    using pow2_mono [of 54 1024] by (simp add: pow2_def)
  ultimately have "\<bar>of_int m / 2 ^ n\<bar> < pow2 1024"
    using nonneg by simp
  with \<open>0 < x\<close> r show ?thesis
    by (simp add: rnd_def pack_small)
qed

section \<open>Signs\<close>

lemma fl_neg_add: "fl_add (fl_neg x) (fl_neg y) = fl_neg (fl_add x y)"
proof -
  have "rnd (- a - b) = fl_neg (rnd (a + b))" for a b
    using rnd_minus [of "a + b"] by simp
  then show ?thesis by (cases x; cases y) auto
qed

lemma fl_mul_neg: "fl_mul (fl_neg x) y = fl_neg (fl_mul x y)" "fl_mul x (fl_neg y) = fl_neg (fl_mul x y)"
  by (cases x; cases y; auto simp: rnd_minus of_sign_def)+

lemma fl_div_neg: "fl_div (fl_neg x) y = fl_neg (fl_div x y)"
  by (cases x; cases y; auto simp: rnd_minus of_sign_def)

lemma float_minus_swap: "x - y = - (y - x)" for x y :: float64
  using fl_neg_add [of y "fl_neg x"] by (simp add: float64_defs fl_add_commute)

lemma float_neg_simps:
  "(- x) * y = - (x * y)" "x * (- y) = - (x * y)" "(- x) / y = - (x / y)" "- (- x) = x"
  for x y :: float64
  by (simp_all add: float64_defs fl_mul_neg fl_div_neg)

lemma float_mul_commute: "x * y = y * x" for x y :: float64
  by (simp add: float64_defs fl_mul_commute)

lemma float_add_commute: "x + y = y + x" for x y :: float64
  by (simp add: float64_defs fl_add_commute)

lemma in_range_sum:
  assumes "in_range a b x" "in_range c d y" "rnd (a + c) = Fin lo" "rnd (b + d) = Fin hi"
  shows "in_range lo hi (x + y)"
proof -
  obtain p q where pq: "x = Fin p" "y = Fin q" "a \<le> p" "p \<le> b" "c \<le> q" "q \<le> d"
    using assms(1,2) by (auto simp: in_range_def)
  then have "fl_le (Fin lo) (rnd (p + q))" "fl_le (rnd (p + q)) (Fin hi)"
    using rnd_mono [of "a + c" "p + q"] rnd_mono [of "p + q" "b + d"] assms(3,4) by simp_all
  with pq show ?thesis
    by (cases "rnd (p + q)") (auto simp: float64_defs)
qed

lemma in_range_prod:
  assumes "in_range a b x" "0 \<le> c" "rnd (a * c) = Fin lo" "rnd (b * c) = Fin hi"
  shows "in_range lo hi (x * Fin c)"
proof -
  obtain p where p: "x = Fin p" "a \<le> p" "p \<le> b"
    using assms(1) by (auto simp: in_range_def)
  then have "fl_le (Fin lo) (rnd (p * c))" "fl_le (rnd (p * c)) (Fin hi)"
    using rnd_mono [of "a * c" "p * c"] rnd_mono [of "p * c" "b * c"] assms(2-4)
    by (simp_all add: mult_right_mono)
  with p show ?thesis
    by (cases "rnd (p * c)") (auto simp: float64_defs)
qed

lemma in_range_minus:
  assumes "in_range a b x" "rnd (1 - b) = Fin lo" "rnd (1 - a) = Fin hi"
  shows "in_range lo hi (1 - x)"
proof -
  obtain p where p: "x = Fin p" "a \<le> p" "p \<le> b"
    using assms(1) by (auto simp: in_range_def)
  then have "fl_le (Fin lo) (rnd (1 - p))" "fl_le (rnd (1 - p)) (Fin hi)"
    using rnd_mono [of "1 - b" "1 - p"] rnd_mono [of "1 - p" "1 - a"] assms(2,3) by simp_all
  with p show ?thesis
    by (cases "rnd (1 - p)") (auto simp: float64_defs)
qed

text \<open>Monotonicity through chains in which no intermediate result is NaN.\<close>

lemma fl_add_not_nan: "fl_add x y \<noteq> NaN \<Longrightarrow> x \<noteq> NaN \<and> y \<noteq> NaN"
  by (cases x; cases y) auto

lemma fl_mul_not_nan: "fl_mul x y \<noteq> NaN \<Longrightarrow> x \<noteq> NaN \<and> y \<noteq> NaN"
  by (cases x; cases y) auto

lemma fl_div_not_nan: "fl_div x y \<noteq> NaN \<Longrightarrow> x \<noteq> NaN \<and> y \<noteq> NaN"
  by (cases x; cases y) auto

lemma fl_neg_not_nan [simp]: "fl_neg x = NaN \<longleftrightarrow> x = NaN"
  by (cases x) auto

lemma fl_add_mono2:
  assumes "fl_le x y" "fl_le x' y'" "fl_add x x' \<noteq> NaN" "fl_add y y' \<noteq> NaN"
  shows "fl_le (fl_add x x') (fl_add y y')"
  using assms by (cases x; cases y; cases x'; cases y') (auto intro: rnd_mono)

text \<open>The relative error of one rounding, above the subnormal numbers.\<close>

lemma round_pos_close:
  assumes "1 / 2 ^ 20 \<le> x"
  shows "x * (1 - 1 / 2 ^ 52) \<le> round_pos x" "round_pos x \<le> x * (1 + 1 / 2 ^ 52)"
proof -
  have "(0::rat) < 1 / 2 ^ 20" by simp
  with assms have x: "0 < x" by linarith
  have "pow2 (- 20) = 1 / 2 ^ 20" by (simp add: pow2_def)
  then have "pow2 (- 20) < pow2 (ilog2 x + 1)" using ilog2_bounds [OF x] assms by simp
  then have l: "- 21 < ilog2 x" using pow2_less_cancel [of "- 20" "ilog2 x + 1"] by simp
  define e where "e = ilog2 x - 52"
  have e: "fexp x = e" using l by (simp add: fexp_def e_def)
  have "pow2 (e + int 52) = 2 ^ 52 * pow2 e" by (rule pow2_add_nat)
  then have p: "2 ^ 52 * pow2 e \<le> x" using ilog2_bounds [OF x] by (simp add: e_def)
  have q: "x / pow2 e * pow2 e = x" by simp
  have r: "x / pow2 e - 1 \<le> of_int (rne (x / pow2 e))" "of_int (rne (x / pow2 e)) \<le> x / pow2 e + 1"
    using rne_bounds [of "x / pow2 e"] by linarith+
  have "(x / pow2 e - 1) * pow2 e \<le> of_int (rne (x / pow2 e)) * pow2 e"
    "of_int (rne (x / pow2 e)) * pow2 e \<le> (x / pow2 e + 1) * pow2 e"
    by (rule mult_right_mono [OF r(1)], simp, rule mult_right_mono [OF r(2)], simp)
  then have "x - pow2 e \<le> round_pos x" "round_pos x \<le> x + pow2 e"
    by (simp_all add: round_pos_def e algebra_simps)
  moreover have "pow2 e \<le> x * (1 / 2 ^ 52)" using p by (simp add: field_simps)
  ultimately show "x * (1 - 1 / 2 ^ 52) \<le> round_pos x" "round_pos x \<le> x * (1 + 1 / 2 ^ 52)"
    by (simp_all add: algebra_simps)
qed

lemma rnd_close:
  assumes "1 / 2 ^ 20 \<le> x" "x \<le> 2 ^ 100"
  obtains c where "rnd x = Fin c" "x * (1 - 1 / 2 ^ 52) \<le> c" "c \<le> x * (1 + 1 / 2 ^ 52)"
proof -
  have big: "(2::rat) ^ 101 < pow2 1024" by (simp add: pow2_def)
  have "(0::rat) < 1 / 2 ^ 20" by simp
  with assms(1) have x: "0 < x" by linarith
  note c = round_pos_nonneg [OF x] round_pos_close [OF assms(1)]
  have "x * (1 + 1 / 2 ^ 52) \<le> 2 ^ 100 * 2"
    using assms x by (intro mult_mono) auto
  then have "\<bar>round_pos x\<bar> < pow2 1024"
    using c big by simp
  then have "rnd x = Fin (round_pos x)"
    using x by (simp add: rnd_def pack_small)
  then show ?thesis using that c by blast
qed

lemma rnd_upper:
  assumes "1 \<le> x" "x \<le> 2 ^ 100"
  obtains c where "rnd x = Fin c" "0 \<le> c" "c \<le> x * (1 + 1 / 2 ^ 52)"
proof -
  have "(1 / 2 ^ 20 :: rat) \<le> 1" by simp
  then have "1 / 2 ^ 20 \<le> x" using assms(1) by linarith
  then obtain c where c: "rnd x = Fin c" "x * (1 - 1 / 2 ^ 52) \<le> c" "c \<le> x * (1 + 1 / 2 ^ 52)"
    by (rule rnd_close [OF _ assms(2)])
  have "0 \<le> x * (1 - 1 / 2 ^ 52)" using assms(1) by simp
  with c that show thesis by (meson order_trans)
qed

end
