(* ===== verification/Quantity.thy ===== *)
theory Quantity
  imports Float64
begin

text \<open>
  The interface of \<open>k8s.io/apimachinery/pkg/api/resource\<close> that both programs use. \<open>Quantity\<close> is a
  third-party type, so it is a type parameter \<open>'q\<close> with its methods in a record; the locale
  \<open>quantity\<close> states the documented behaviour the code relies on (exact arithmetic, \<open>Cmp\<close> and \<open>Sign\<close>
  by value, \<open>ParseQuantity\<close> reads back what \<open>String\<close> prints), over the value \<open>v q\<close> of a quantity.
  \<open>nano_ops\<close> is an executable instance (a count of nano-units and a format) on which the
  hypotheses of the theorems are discharged.
\<close>

section \<open>The methods\<close>

datatype QFormat = DecimalSI | BinarySI

record 'q QuantityOps =
  q_Add :: "'q \<Rightarrow> 'q \<Rightarrow> 'q"
  q_Sub :: "'q \<Rightarrow> 'q \<Rightarrow> 'q"
  q_Cmp :: "'q \<Rightarrow> 'q \<Rightarrow> int"
  q_Sign :: "'q \<Rightarrow> int"
  q_New :: "int \<Rightarrow> QFormat \<Rightarrow> 'q"
  q_Parse :: "string \<Rightarrow> string + 'q"
  q_String :: "'q \<Rightarrow> string"
  q_Float :: "'q \<Rightarrow> float64"

locale quantity =
  fixes Q :: "'q QuantityOps" and v :: "'q \<Rightarrow> rat"
  assumes v_add [simp]: "v (q_Add Q a b) = v a + v b"
    and v_sub [simp]: "v (q_Sub Q a b) = v a - v b"
    and v_new [simp]: "v (q_New Q n f) = of_int n"
    and cmp_less: "q_Cmp Q a b < 0 \<longleftrightarrow> v a < v b"
    and cmp_greater: "0 < q_Cmp Q a b \<longleftrightarrow> v b < v a"
    and sign_neg: "q_Sign Q a < 0 \<longleftrightarrow> v a < 0"
    and sign_pos: "0 < q_Sign Q a \<longleftrightarrow> 0 < v a"
    and parse_string: "\<exists>q. q_Parse Q (q_String Q a) = Inr q \<and> v q = v a"
    and string_nonempty: "q_String Q a \<noteq> []"
    and parse_empty: "\<exists>e. q_Parse Q [] = Inl e"
begin

lemma cmp_ge: "0 \<le> q_Cmp Q a b \<longleftrightarrow> v b \<le> v a"
  using cmp_less [of a b] by linarith

lemma cmp_le: "q_Cmp Q a b \<le> 0 \<longleftrightarrow> v a \<le> v b"
  using cmp_greater [of a b] by linarith

lemma cmp_zero: "q_Cmp Q a b = 0 \<longleftrightarrow> v a = v b"
  using cmp_less [of a b] cmp_greater [of a b] by linarith

lemma sign_le: "q_Sign Q a \<le> 0 \<longleftrightarrow> v a \<le> 0"
  using sign_pos [of a] by linarith

lemmas cmp_laws = cmp_less cmp_greater cmp_ge cmp_le cmp_zero sign_neg sign_pos sign_le

lemma parse_stringE:
  obtains q where "q_Parse Q (q_String Q a) = Inr q" "v q = v a"
  using parse_string by blast

end

section \<open>An executable instance\<close>

record nano_quantity =
  nq_nano :: int
  nq_format :: QFormat

definition is_digit :: "char \<Rightarrow> bool" where
  "is_digit c \<longleftrightarrow> 48 \<le> (of_char c :: nat) \<and> (of_char c :: nat) \<le> 57"

definition digits_value :: "string \<Rightarrow> nat" where
  "digits_value ds = foldl (\<lambda>n c. 10 * n + (of_char c - 48)) 0 ds"

definition suffixes :: "(string \<times> int \<times> QFormat) list" where
  "suffixes =
     [(''n'', 1, DecimalSI), (''u'', 1000, DecimalSI), (''m'', 1000000, DecimalSI),
      ('''', 1000000000, DecimalSI), (''k'', 1000000000000, DecimalSI),
      (''M'', 1000000000000000, DecimalSI), (''G'', 1000000000000000000, DecimalSI),
      (''Ki'', 1024 * 1000000000, BinarySI), (''Mi'', 1048576 * 1000000000, BinarySI),
      (''Gi'', 1073741824 * 1000000000, BinarySI)]"

definition nano_parse :: "string \<Rightarrow> string + nano_quantity" where
  "nano_parse s =
     (let neg = (take 1 s = ''-'');
          t = (if neg then tl s else s);
          ds = takeWhile is_digit t
      in if ds = [] then Inl ''quantities must match the regular expression''
         else case map_of suffixes (dropWhile is_digit t) of
             None \<Rightarrow> Inl ''unable to parse the suffix of the quantity''
           | Some (u, f) \<Rightarrow>
               Inr \<lparr>nq_nano = (if neg then - 1 else 1) * int (digits_value ds) * u, nq_format = f\<rparr>)"

definition nano_string :: "nano_quantity \<Rightarrow> string" where
  "nano_string q = show_int (nq_nano q) @ ''n''"

definition nano_value :: "nano_quantity \<Rightarrow> rat" where
  "nano_value q = of_int (nq_nano q) / 1000000000"

definition nano_ops :: "nano_quantity QuantityOps" where
  "nano_ops =
     \<lparr>q_Add = \<lambda>a b. a\<lparr>nq_nano := nq_nano a + nq_nano b\<rparr>,
      q_Sub = \<lambda>a b. a\<lparr>nq_nano := nq_nano a - nq_nano b\<rparr>,
      q_Cmp = \<lambda>a b. sgn (nq_nano a - nq_nano b),
      q_Sign = \<lambda>a. sgn (nq_nano a),
      q_New = \<lambda>n f. \<lparr>nq_nano = n * 1000000000, nq_format = f\<rparr>,
      q_Parse = nano_parse,
      q_String = nano_string,
      q_Float = \<lambda>a. if nq_nano a mod 1000000000 = 0 then rnd (of_int (nq_nano a div 1000000000))
                   else rnd (nano_value a)\<rparr>"

definition nano_units :: "int \<Rightarrow> nano_quantity" where
  "nano_units n = \<lparr>nq_nano = n * 1000000000, nq_format = DecimalSI\<rparr>"

lemma digit_char:
  fixes n :: nat
  assumes "n < 10"
  shows "is_digit (char_of (48 + n))" "of_char (char_of (48 + n) :: char) - 48 = n"
  using assms by (simp_all add: is_digit_def)

lemma show_nat_digits: "\<forall>c \<in> set (show_nat n). is_digit c"
proof (induction n rule: show_nat.induct)
  case (1 n)
  show ?case
  proof (cases "n < 10")
    case True
    then show ?thesis by (subst show_nat.simps) (simp add: digit_char)
  next
    case False
    moreover have "is_digit (char_of (48 + n mod 10))"
      by (rule digit_char) simp
    ultimately show ?thesis using 1 by (subst show_nat.simps) simp
  qed
qed

lemma show_nat_nonempty [simp]: "show_nat n \<noteq> []"
  by (subst show_nat.simps) simp

lemma digits_value_show [simp]: "digits_value (show_nat n) = n"
proof (induction n rule: show_nat.induct)
  case (1 n)
  show ?case
  proof (cases "n < 10")
    case True
    then show ?thesis
      by (subst show_nat.simps) (use digit_char [OF True] in \<open>simp add: digits_value_def\<close>)
  next
    case False
    have m: "of_char (char_of (48 + n mod 10) :: char) - 48 = n mod 10"
      by (rule digit_char) simp
    from 1 False have "digits_value (show_nat (n div 10)) = n div 10" by simp
    with False m show ?thesis
      by (subst show_nat.simps) (simp add: digits_value_def)
  qed
qed

lemma span_show_nat:
  assumes "\<not> is_digit c"
  shows "takeWhile is_digit (show_nat n @ c # cs) = show_nat n"
    and "dropWhile is_digit (show_nat n @ c # cs) = c # cs"
  using show_nat_digits [of n] assms by (simp_all add: takeWhile_append dropWhile_append)

lemma take_show_nat: "take 1 (show_nat k @ xs) \<noteq> ''-''"
proof -
  obtain c cs where "show_nat k = c # cs" "is_digit c"
    by (metis show_nat_digits show_nat_nonempty list.exhaust list.set_intros(1))
  then show ?thesis by (auto simp: is_digit_def)
qed

lemma map_of_suffix_n: "map_of suffixes ''n'' = Some (1, DecimalSI)"
  by (simp add: suffixes_def)

lemma nano_parse_string: "nano_parse (nano_string q) = Inr \<lparr>nq_nano = nq_nano q, nq_format = DecimalSI\<rparr>"
proof -
  have n: "\<not> is_digit CHR ''n''"
    by (simp add: is_digit_def)
  note span = span_show_nat [OF n, of _ "[]"]
  show ?thesis
  proof (cases "nq_nano q < 0")
    case True
    then have "nano_string q = ''-'' @ show_nat (nat (- nq_nano q)) @ ''n''"
      by (simp add: nano_string_def show_int_def)
    then show ?thesis
      using True by (simp add: nano_parse_def span map_of_suffix_n Let_def)
  next
    case False
    then have "nano_string q = show_nat (nat (nq_nano q)) @ ''n''"
      by (simp add: nano_string_def show_int_def)
    then show ?thesis
      using False take_show_nat [of "nat (nq_nano q)" "''n''"]
      by (simp add: nano_parse_def span map_of_suffix_n Let_def del: take_append)
  qed
qed

lemmas nano_simps = nano_ops_def nano_value_def nano_units_def

interpretation nano: quantity nano_ops nano_value
proof
  show "\<exists>q. q_Parse nano_ops (q_String nano_ops a) = Inr q \<and> nano_value q = nano_value a" for a
    by (simp add: nano_ops_def nano_parse_string nano_value_def)
  show "q_String nano_ops a \<noteq> []" for a
    by (simp add: nano_ops_def nano_string_def)
  show "\<exists>e. q_Parse nano_ops [] = Inl e"
    by (simp add: nano_ops_def nano_parse_def)
qed (auto simp: nano_simps diff_divide_distrib add_divide_distrib sgn_if divide_strict_right_mono)

end
