(* ===== verification/BrokerTypes.thy ===== *)
theory BrokerTypes
  imports KubeApi Quantity "HOL-Library.Word"
begin

text \<open>
  The broker's API types (resource-broker/api/v1alpha1): the spec and the status of the five
  custom resources, one record per Go struct and one field per Go field, in the source's order. A
  pointer field is an option, a \<open>resource.Quantity\<close> is of the parameter type \<open>'q\<close>, a \<open>float64\<close> is a
  binary64 value, an \<open>int32\<close> a 32-bit word, a \<open>metav1.Time\<close> an instant whose 0 is the zero time, and
  an omitted JSON field is Go's zero value.
\<close>

section \<open>Conditions\<close>

record Condition =
  cn_Type :: string
  cn_Status :: string
  cn_Reason :: string
  cn_Message :: string
  cn_LastTransitionTime :: time

definition ConditionTrue :: string where "ConditionTrue = ''True''"
definition ConditionFalse :: string where "ConditionFalse = ''False''"

section \<open>ClusterAdvertisement\<close>

record 'q ResourceQuantities =
  rq_CPU :: 'q
  rq_Memory :: 'q
  rq_GPU :: "'q option"
  rq_Storage :: "'q option"

record 'q ResourceMetrics =
  rm_Capacity :: "'q ResourceQuantities"
  rm_Allocatable :: "'q ResourceQuantities"
  rm_Allocated :: "'q ResourceQuantities"
  rm_Reserved :: "'q ResourceQuantities option"
  rm_Available :: "'q ResourceQuantities"

record CostInfo =
  ci_CPUCost :: string
  ci_MemoryCost :: string
  ci_Currency :: string
  ci_Renewable :: bool
  ci_EnergyCost :: float64

record LocationInfo =
  li_ContinentCode :: string
  li_CountryCode :: string
  li_Region :: string
  li_RegionName :: string
  li_City :: string
  li_Lat :: float64
  li_Lon :: float64
  li_ISP :: string
  li_Org :: string
  li_AS :: string

record 'q ClusterAdvertisementSpec =
  ca_ClusterID :: string
  ca_ClusterName :: string
  ca_Resources :: "'q ResourceMetrics"
  ca_Cost :: "CostInfo option"
  ca_Location :: "LocationInfo option"
  ca_Timestamp :: time
  ca_EndpointURL :: string
  ca_Policy :: string
  ca_CarbonIntensity :: "int list"
  ca_CarbonLastUpdate :: time

record ClusterAdvertisementStatus =
  cas_Phase :: string
  cas_LastUpdateTime :: time
  cas_Active :: bool
  cas_Message :: string
  cas_Score :: string
  cas_Conditions :: "Condition list"

type_synonym 'q ClusterAdvertisement = "('q ClusterAdvertisementSpec, ClusterAdvertisementStatus) Obj"

definition ClusterAdvertisementConditionReady :: string where
  "ClusterAdvertisementConditionReady = ''Ready''"

definition ClusterAdvertisementConditionStale :: string where
  "ClusterAdvertisementConditionStale = ''Stale''"

definition ClusterAdvertisementConditionOvercommitted :: string where
  "ClusterAdvertisementConditionOvercommitted = ''Overcommitted''"

lemmas condition_defs = ConditionTrue_def ConditionFalse_def ClusterAdvertisementConditionReady_def
  ClusterAdvertisementConditionStale_def ClusterAdvertisementConditionOvercommitted_def

definition zero_adv_status :: ClusterAdvertisementStatus where
  "zero_adv_status =
     \<lparr>cas_Phase = [], cas_LastUpdateTime = 0, cas_Active = False, cas_Message = [], cas_Score = [],
      cas_Conditions = []\<rparr>"

text \<open>Shorthand for the paths the code reads and writes most.\<close>

abbreviation adv_id :: "'q ClusterAdvertisement \<Rightarrow> string" where
  "adv_id a \<equiv> ca_ClusterID (o_spec a)"

abbreviation adv_resources :: "'q ClusterAdvertisement \<Rightarrow> 'q ResourceMetrics" where
  "adv_resources a \<equiv> ca_Resources (o_spec a)"

abbreviation adv_available :: "'q ClusterAdvertisement \<Rightarrow> 'q ResourceQuantities" where
  "adv_available a \<equiv> rm_Available (adv_resources a)"

abbreviation adv_allocatable :: "'q ClusterAdvertisement \<Rightarrow> 'q ResourceQuantities" where
  "adv_allocatable a \<equiv> rm_Allocatable (adv_resources a)"

abbreviation adv_reserved :: "'q ClusterAdvertisement \<Rightarrow> 'q ResourceQuantities option" where
  "adv_reserved a \<equiv> rm_Reserved (adv_resources a)"

definition with_resources :: "('q ResourceMetrics \<Rightarrow> 'q ResourceMetrics) \<Rightarrow> 'q ClusterAdvertisement \<Rightarrow> 'q ClusterAdvertisement" where
  "with_resources f a = a\<lparr>o_spec := (o_spec a)\<lparr>ca_Resources := f (adv_resources a)\<rparr>\<rparr>"

lemma with_resources_simps [simp]:
  "adv_resources (with_resources f a) = f (adv_resources a)"
  "adv_id (with_resources f a) = adv_id a"
  "o_meta (with_resources f a) = o_meta a"
  "o_status (with_resources f a) = o_status a"
  "ca_Policy (o_spec (with_resources f a)) = ca_Policy (o_spec a)"
  by (simp_all add: with_resources_def)

section \<open>Reservation\<close>

definition ReservationFinalizer :: string where
  "ReservationFinalizer = ''reservation.broker.fluidos.eu/finalizer''"

record 'q RequestedResourceQuantities =
  rr_CPU :: 'q
  rr_Memory :: 'q
  rr_GPU :: "'q option"
  rr_Storage :: "'q option"

record 'q ReservationSpec =
  rs_TargetClusterID :: string
  rs_RequestedResources :: "'q RequestedResourceQuantities"
  rs_Duration :: "duration option"
  rs_Priority :: "32 word"
  rs_RequesterID :: string

text \<open>
  \<open>ReservationPhase\<close> is a string type with five constants; the empty string is a reservation no
  controller has seen, and the field can hold any other string.
\<close>

datatype ReservationPhase =
    PhaseUnset | PhasePending | PhaseReserved | PhaseActive | PhaseFailed | PhaseReleased
  | PhaseOther string

fun phase_string :: "ReservationPhase \<Rightarrow> string" where
  "phase_string PhaseUnset = ''''"
| "phase_string PhasePending = ''Pending''"
| "phase_string PhaseReserved = ''Reserved''"
| "phase_string PhaseActive = ''Active''"
| "phase_string PhaseFailed = ''Failed''"
| "phase_string PhaseReleased = ''Released''"
| "phase_string (PhaseOther s) = s"

record ReservationStatus =
  rst_Phase :: ReservationPhase
  rst_Message :: string
  rst_ReservedAt :: "time option"
  rst_ExpiresAt :: "time option"
  rst_PeeringKubeconfig :: string
  rst_LastUpdateTime :: time
  rst_Conditions :: "Condition list"

type_synonym 'q Reservation = "('q ReservationSpec, ReservationStatus) Obj"

definition ReservationConditionRequesterActive :: string where
  "ReservationConditionRequesterActive = ''RequesterActive''"

definition ReservationConditionRequesterReleased :: string where
  "ReservationConditionRequesterReleased = ''RequesterReleased''"

definition zero_rsv_status :: ReservationStatus where
  "zero_rsv_status =
     \<lparr>rst_Phase = PhaseUnset, rst_Message = [], rst_ReservedAt = None, rst_ExpiresAt = None,
      rst_PeeringKubeconfig = [], rst_LastUpdateTime = 0, rst_Conditions = []\<rparr>"

abbreviation rsv_phase :: "'q Reservation \<Rightarrow> ReservationPhase" where
  "rsv_phase r \<equiv> rst_Phase (o_status r)"

abbreviation rsv_target :: "'q Reservation \<Rightarrow> string" where
  "rsv_target r \<equiv> rs_TargetClusterID (o_spec r)"

abbreviation rsv_cpu :: "'q Reservation \<Rightarrow> 'q" where
  "rsv_cpu r \<equiv> rr_CPU (rs_RequestedResources (o_spec r))"

abbreviation rsv_memory :: "'q Reservation \<Rightarrow> 'q" where
  "rsv_memory r \<equiv> rr_Memory (rs_RequestedResources (o_spec r))"

text \<open>
  The life cycle as an order: a reservation goes from the unset and pending phases to reserved, to
  active, and ends failed or released. A phase outside the constants is comparable only to itself.
\<close>

fun phase_rank :: "ReservationPhase \<Rightarrow> nat" where
  "phase_rank PhaseUnset = 0"
| "phase_rank PhasePending = 0"
| "phase_rank PhaseReserved = 1"
| "phase_rank PhaseActive = 2"
| "phase_rank PhaseFailed = 3"
| "phase_rank PhaseReleased = 3"
| "phase_rank (PhaseOther _) = 4"

instantiation ReservationPhase :: preorder
begin

definition less_eq_ReservationPhase :: "ReservationPhase \<Rightarrow> ReservationPhase \<Rightarrow> bool" where
  "less_eq_ReservationPhase p q \<longleftrightarrow> p = q \<or> phase_rank p < phase_rank q \<and> phase_rank q < 4"

definition less_ReservationPhase :: "ReservationPhase \<Rightarrow> ReservationPhase \<Rightarrow> bool" where
  "less_ReservationPhase p q \<longleftrightarrow> phase_rank p < phase_rank q \<and> phase_rank q < 4"

instance
  by standard (auto simp: less_eq_ReservationPhase_def less_ReservationPhase_def)

end

section \<open>NetworkBond, RegionForecast, UnitExchanges\<close>

record NetworkBondSpec =
  nb_RequesterClusterID :: string
  nb_ProviderClusterID :: string
  nb_EstimatedLatency :: float64
  nb_ActualLatency :: float64
  nb_Timestamp :: time
  nb_Match :: string

record NetworkBondStatus =
  nbs_LastUpdateTime :: time

type_synonym NetworkBond = "(NetworkBondSpec, NetworkBondStatus) Obj"

record RegionForecastSpec =
  rf_Region :: string
  rf_CarbonIntensity :: "int list"
  rf_LastUpdateCarbon :: time
  rf_Cost :: "float64 list"
  rf_CostUnit :: string
  rf_LastUpdateCost :: time

record RegionForecastStatus =
  rfs_LastUpdateTime :: time

type_synonym RegionForecast = "(RegionForecastSpec, RegionForecastStatus) Obj"

text \<open>\<open>Rates\<close> is a Go map, which may be nil; reading a nil map finds nothing.\<close>

record UnitExchangesSpec =
  ux_PrimaryUnit :: string
  ux_Rates :: "(string \<rightharpoonup> float64) option"
  ux_LastUpdateUnit :: time

record UnitExchangesStatus =
  uxs_LastUpdateTime :: time

type_synonym UnitExchanges = "(UnitExchangesSpec, UnitExchangesStatus) Obj"

definition rate_of :: "UnitExchangesSpec \<Rightarrow> string \<Rightarrow> float64 option" where
  "rate_of s c = (case ux_Rates s of None \<Rightarrow> None | Some m \<Rightarrow> m c)"

definition zero_forecast :: RegionForecastSpec where
  "zero_forecast =
     \<lparr>rf_Region = [], rf_CarbonIntensity = [], rf_LastUpdateCarbon = 0, rf_Cost = [],
      rf_CostUnit = [], rf_LastUpdateCost = 0\<rparr>"

section \<open>What the broker reaches outside\<close>

text \<open>
  The reply of an HTTP GET with a JSON body: no connection, or a status code with the body, which
  \<open>encoding/json\<close> decodes or not.
\<close>

datatype 'b http_reply = HttpFail string | HttpReply nat "string + 'b"

record ForecastEntry =
  fe_CarbonIntensity :: int
  fe_Datetime :: string

record carbonForecastResponse =
  cf_Zone :: string
  cf_Forecast :: "ForecastEntry list"
  cf_UpdatedAt :: string
  cf_TemporalGranularity :: string

record priceDataEntry =
  pd_Value :: float64
  pd_Unit :: string

record priceForecastResponse =
  pf_Data :: "priceDataEntry list"

record exchangeRateResponse =
  er_Data :: "(string \<rightharpoonup> float64) option"

text \<open>The two background goroutines of the decision engine, with the values they capture.\<close>

datatype background_job =
    CarbonCopy string string "int list" time
  | CreateBond string string string string float64 string

record MathOps =
  mt_sin :: "float64 \<Rightarrow> float64"
  mt_cos :: "float64 \<Rightarrow> float64"
  mt_sqrt :: "float64 \<Rightarrow> float64"
  mt_atan2 :: "float64 \<Rightarrow> float64 \<Rightarrow> float64"

record 'q ScoredCluster =
  sc_cluster :: "'q ClusterAdvertisement"
  sc_score :: float64
  sc_isActual :: bool
  sc_increase :: bool

record DecisionEngine =
  de_MockEcoURL :: string
  de_MockCurrencyURL :: string

text \<open>
  Everything outside the repository that a broker function calls. \<open>b_go\<close> starts a goroutine,
  \<open>b_retry\<close> is \<open>retry.RetryOnConflict\<close> with the default backoff (the function it runs answers with
  an error or with the status it assigned to the caller's variable, if any), \<open>b_sort less xs\<close> is the
  slice \<open>xs\<close> after \<open>sort.Slice\<close>, \<open>b_set_condition\<close> is \<open>meta.SetStatusCondition\<close>.
\<close>

record ('w, 'q) BrokerEnv =
  b_Q :: "'q QuantityOps"
  b_adv :: "('w, 'q ClusterAdvertisementSpec, ClusterAdvertisementStatus) Client"
  b_rsv :: "('w, 'q ReservationSpec, ReservationStatus) Client"
  b_bond :: "('w, NetworkBondSpec, NetworkBondStatus) Client"
  b_forecast :: "('w, RegionForecastSpec, RegionForecastStatus) Client"
  b_exchanges :: "('w, UnitExchangesSpec, UnitExchangesStatus) Client"
  b_now :: "('w, time) state"
  b_go :: "background_job \<Rightarrow> ('w, unit) state"
  b_retry :: "('w, ReservationStatus option) retry"
  b_sort :: "('q ScoredCluster \<Rightarrow> 'q ScoredCluster \<Rightarrow> bool) \<Rightarrow> 'q ScoredCluster list \<Rightarrow> 'q ScoredCluster list"
  b_math :: MathOps
  b_get_carbon :: "string \<Rightarrow> ('w, carbonForecastResponse http_reply) state"
  b_get_price :: "string \<Rightarrow> ('w, priceForecastResponse http_reply) state"
  b_get_rates :: "string \<Rightarrow> ('w, exchangeRateResponse http_reply) state"
  b_parse_duration :: "string \<Rightarrow> string + duration"
  b_set_condition :: "Condition \<Rightarrow> Condition list \<Rightarrow> Condition list"

definition b_since :: "('w, 'q) BrokerEnv \<Rightarrow> time \<Rightarrow> ('w, duration) state" where
  "b_since E t = State_Monad.bind (b_now E) (\<lambda>n. State_Monad.return (time_sub n t))"

end
