(* ===== verification/Samples.thy ===== *)
theory Samples
  imports BrokerTypes
begin

text \<open>
  Concrete values of the broker's types, on which the theorems' hypotheses are discharged: clusters
  with whole numbers of CPUs and memory units, over the executable quantities \<open>nano_ops\<close>.
\<close>

definition sample_quantities :: "int \<Rightarrow> int \<Rightarrow> nano_quantity ResourceQuantities" where
  "sample_quantities cpu memory =
     \<lparr>rq_CPU = nano_units cpu, rq_Memory = nano_units memory, rq_GPU = None, rq_Storage = None\<rparr>"

text \<open>A cluster with 8 CPUs and 64 units of memory, 2 and 16 of them allocated.\<close>

definition sample_metrics :: "int \<Rightarrow> int \<Rightarrow> nano_quantity ResourceMetrics" where
  "sample_metrics cpu memory =
     \<lparr>rm_Capacity = sample_quantities 8 64, rm_Allocatable = sample_quantities 8 64,
      rm_Allocated = sample_quantities 2 16, rm_Reserved = None,
      rm_Available = sample_quantities cpu memory\<rparr>"

definition sample_adv :: "string \<Rightarrow> int \<Rightarrow> int \<Rightarrow> nano_quantity ClusterAdvertisement" where
  "sample_adv cid cpu memory =
     \<lparr>o_meta = new_meta (cid @ ''-adv'') ''default'',
      o_spec = \<lparr>ca_ClusterID = cid, ca_ClusterName = cid, ca_Resources = sample_metrics cpu memory,
        ca_Cost = None, ca_Location = None, ca_Timestamp = 0, ca_EndpointURL = [], ca_Policy = [],
        ca_CarbonIntensity = [], ca_CarbonLastUpdate = 0\<rparr>,
      o_status = zero_adv_status\<lparr>cas_Active := True\<rparr>\<rparr>"

definition sample_location :: "string \<Rightarrow> LocationInfo" where
  "sample_location region =
     \<lparr>li_ContinentCode = ''EU'', li_CountryCode = ''IT'', li_Region = region, li_RegionName = region,
      li_City = ''Torino'', li_Lat = 0, li_Lon = 0, li_ISP = [], li_Org = [], li_AS = []\<rparr>"

definition sample_rsv :: "string \<Rightarrow> int \<Rightarrow> int \<Rightarrow> nano_quantity Reservation" where
  "sample_rsv target cpu memory =
     \<lparr>o_meta = new_meta ''rsv-a-1'' ''default'',
      o_spec = \<lparr>rs_TargetClusterID = target,
        rs_RequestedResources = \<lparr>rr_CPU = nano_units cpu, rr_Memory = nano_units memory,
          rr_GPU = None, rr_Storage = None\<rparr>,
        rs_Duration = None, rs_Priority = 0, rs_RequesterID = ''a''\<rparr>,
      o_status = zero_rsv_status\<rparr>"

definition sample_engine :: DecisionEngine where
  "sample_engine = \<lparr>de_MockEcoURL = [], de_MockCurrencyURL = []\<rparr>"

lemmas sample_defs = sample_quantities_def sample_metrics_def sample_adv_def sample_location_def
  sample_rsv_def zero_adv_status_def zero_rsv_status_def new_meta_def

end
