(* ===== verification/BrokerWorld.thy ===== *)
theory BrokerWorld
  imports Samples
begin

text \<open>
  What the broker relies on in its environment, as a locale (\<open>broker_world\<close>): lawful quantities, a
  lawful client for the advertisements and one for the reservations, a lawful retry, and that the
  rest (the other clients, the clock, starting a goroutine, HTTP requests) touches neither of the
  two stores. \<open>sort_slice\<close> is the contract of \<open>sort.Slice\<close>, \<open>status_conditions\<close> that of
  \<open>meta.SetStatusCondition\<close>. \<open>mem_env\<close> is an executable environment that satisfies them all.
\<close>

section \<open>sort.Slice\<close>

definition strict_weak :: "('a \<Rightarrow> 'a \<Rightarrow> bool) \<Rightarrow> 'a set \<Rightarrow> bool" where
  "strict_weak lt S \<longleftrightarrow>
     (\<forall>x \<in> S. \<forall>y \<in> S. lt x y \<longrightarrow> \<not> lt y x) \<and>
     (\<forall>x \<in> S. \<forall>y \<in> S. \<forall>z \<in> S. lt x z \<longrightarrow> lt x y \<or> lt y z)"

locale sort_slice =
  fixes srt :: "('a \<Rightarrow> 'a \<Rightarrow> bool) \<Rightarrow> 'a list \<Rightarrow> 'a list"
  assumes mset_sort [simp]: "mset (srt lt xs) = mset xs"
    and sorted_sort: "strict_weak lt (set xs) \<Longrightarrow> sorted_wrt (\<lambda>x y. \<not> lt y x) (srt lt xs)"
begin

lemma set_sort [simp]: "set (srt lt xs) = set xs"
  by (metis mset_sort set_mset_mset)

lemma length_sort [simp]: "length (srt lt xs) = length xs"
  by (metis mset_sort size_mset)

lemma sort_empty_iff [simp]: "srt lt xs = [] \<longleftrightarrow> xs = []"
  by (metis length_0_conv length_sort)

text \<open>The first element of a sorted slice is a best one.\<close>

lemma sort_hd:
  assumes "strict_weak lt (set xs)" "srt lt xs = y # ys" "x \<in> set xs"
  shows "\<not> lt x y"
proof -
  have "x \<in> set (y # ys)"
    using assms(2,3) set_sort [of lt xs] by simp
  then show ?thesis
    using sorted_sort [OF assms(1)] assms(1,2,3) by (auto simp: strict_weak_def)
qed

end

fun insert_by :: "('a \<Rightarrow> 'a \<Rightarrow> bool) \<Rightarrow> 'a \<Rightarrow> 'a list \<Rightarrow> 'a list" where
  "insert_by lt x [] = [x]"
| "insert_by lt x (y # ys) = (if lt x y then x # y # ys else y # insert_by lt x ys)"

definition insertion_sort :: "('a \<Rightarrow> 'a \<Rightarrow> bool) \<Rightarrow> 'a list \<Rightarrow> 'a list" where
  "insertion_sort lt xs = foldl (\<lambda>acc x. insert_by lt x acc) [] xs"

lemma mset_insert_by [simp]: "mset (insert_by lt x ys) = add_mset x (mset ys)"
  by (induction ys) auto

lemma set_insert_by [simp]: "set (insert_by lt x ys) = insert x (set ys)"
  by (induction ys) auto

lemma sorted_insert_by:
  assumes "strict_weak lt S" "x \<in> S" "set ys \<subseteq> S" "sorted_wrt (\<lambda>x y. \<not> lt y x) ys"
  shows "sorted_wrt (\<lambda>x y. \<not> lt y x) (insert_by lt x ys)"
  using assms(3,4)
proof (induction ys)
  case Nil
  then show ?case by simp
next
  case (Cons y ys)
  then show ?case
    using assms(1,2) by (auto simp: strict_weak_def) (metis subset_iff)
qed

interpretation insertion: sort_slice insertion_sort
proof
  have m: "mset (foldl (\<lambda>acc x. insert_by lt x acc) acc xs) = mset xs + mset acc" for lt acc and xs :: "'a list"
    by (induction xs arbitrary: acc) auto
  show "mset (insertion_sort lt xs) = mset xs" for lt and xs :: "'a list"
    by (simp add: insertion_sort_def m)
  have s: "sorted_wrt (\<lambda>x y. \<not> lt y x) (foldl (\<lambda>acc x. insert_by lt x acc) acc xs)"
    if "strict_weak lt S" "set xs \<subseteq> S" "set acc \<subseteq> S" "sorted_wrt (\<lambda>x y. \<not> lt y x) acc"
    for lt S acc and xs :: "'a list"
    using that
  proof (induction xs arbitrary: acc)
    case Nil
    then show ?case by simp
  next
    case (Cons x xs)
    have "sorted_wrt (\<lambda>x y. \<not> lt y x) (insert_by lt x acc)"
      using Cons.prems by (intro sorted_insert_by [of lt S]) auto
    then show ?case
      using Cons.IH [of "insert_by lt x acc"] Cons.prems by simp
  qed
  show "sorted_wrt (\<lambda>x y. \<not> lt y x) (insertion_sort lt xs)" if "strict_weak lt (set xs)"
    for lt and xs :: "'a list"
    using s [OF that, of xs "[]"] by (simp add: insertion_sort_def)
qed

section \<open>meta.SetStatusCondition\<close>

definition condition_status :: "string \<Rightarrow> Condition list \<Rightarrow> string option" where
  "condition_status t cs = map_option cn_Status (List.find (\<lambda>c. cn_Type c = t) cs)"

locale status_conditions =
  fixes set_condition :: "Condition \<Rightarrow> Condition list \<Rightarrow> Condition list"
  assumes set_status: "condition_status t (set_condition c cs) =
    (if t = cn_Type c then Some (cn_Status c) else condition_status t cs)"

fun set_status_condition :: "Condition \<Rightarrow> Condition list \<Rightarrow> Condition list" where
  "set_status_condition c [] = [c]"
| "set_status_condition c (d # ds) =
     (if cn_Type d = cn_Type c
      then (if cn_Status d = cn_Status c then c\<lparr>cn_LastTransitionTime := cn_LastTransitionTime d\<rparr> else c) # ds
      else d # set_status_condition c ds)"

interpretation conditions: status_conditions set_status_condition
proof
  show "condition_status t (set_status_condition c cs) =
    (if t = cn_Type c then Some (cn_Status c) else condition_status t cs)" for t c cs
    by (induction cs) (auto simp: condition_status_def)
qed

section \<open>The environment\<close>

text \<open>Everything but the two clients of the accounting state leaves the observation \<open>f\<close> alone.\<close>

definition quiet :: "('w \<Rightarrow> 'c) \<Rightarrow> ('w, 'q) BrokerEnv \<Rightarrow> bool" where
  "quiet f E \<longleftrightarrow>
     client_keeps f (b_bond E) \<and> client_keeps f (b_forecast E) \<and> client_keeps f (b_exchanges E) \<and>
     keeps f (b_now E) \<and> (\<forall>j. keeps f (b_go E j)) \<and> (\<forall>u. keeps f (b_get_carbon E u)) \<and>
     (\<forall>u. keeps f (b_get_price E u)) \<and> (\<forall>u. keeps f (b_get_rates E u))"

lemma quietD [keeps_intros]:
  assumes "quiet f E"
  shows "client_keeps f (b_bond E)" "client_keeps f (b_forecast E)" "client_keeps f (b_exchanges E)"
    "keeps f (b_now E)" "keeps f (b_go E j)" "keeps f (b_get_carbon E u)" "keeps f (b_get_price E u)"
    "keeps f (b_get_rates E u)"
  using assms unfolding quiet_def by blast+

lemma keeps_since [keeps_intros]: "keeps f (b_now E) \<Longrightarrow> keeps f (b_since E t)"
  unfolding b_since_def by (rule keeps_bind) (auto intro: keeps_return)

locale broker_world =
  quantity "b_Q E" v + adv_client: kube_client "b_adv E" advs +
  rsv_client: kube_client "b_rsv E" rsvs + retry_on_conflict "b_retry E" +
  sort_slice "b_sort E" + status_conditions "b_set_condition E"
  for E :: "('w, 'q) BrokerEnv" and v :: "'q \<Rightarrow> rat"
    and advs :: "'w \<Rightarrow> ('q ClusterAdvertisementSpec, ClusterAdvertisementStatus) store"
    and rsvs :: "'w \<Rightarrow> ('q ReservationSpec, ReservationStatus) store" +
  assumes quiet_advs: "quiet advs E" and quiet_rsvs: "quiet rsvs E"
    and rsv_keeps_advs: "client_keeps advs (b_rsv E)"
    and adv_keeps_rsvs: "client_keeps rsvs (b_adv E)"

lemma broker_worldD:
  assumes "broker_world E v advs rsvs"
  shows "quantity (b_Q E) v" "kube_client (b_adv E) advs" "kube_client (b_rsv E) rsvs"
    "retry_on_conflict (b_retry E)" "sort_slice (b_sort E)" "status_conditions (b_set_condition E)"
  using assms by (simp_all add: broker_world_def)

section \<open>An executable environment\<close>

record mem_world =
  mw_advs :: "nano_quantity ClusterAdvertisement list"
  mw_rsvs :: "nano_quantity Reservation list"
  mw_bonds :: "NetworkBond list"
  mw_forecasts :: "RegionForecast list"
  mw_exchanges :: "UnitExchanges list"
  mw_clock :: time
  mw_jobs :: "background_job list"

definition empty_world :: mem_world where
  "empty_world =
     \<lparr>mw_advs = [], mw_rsvs = [], mw_bonds = [], mw_forecasts = [], mw_exchanges = [],
      mw_clock = 10 * go_hour, mw_jobs = []\<rparr>"

text \<open>
  The web services of \<open>mem_env\<close> do not answer, its goroutines are queued, and a retry makes five
  attempts. The trigonometric functions are stand-ins that have the symmetry the code relies on.
\<close>

definition mem_env :: "(mem_world, nano_quantity) BrokerEnv" where
  "mem_env =
     \<lparr>b_Q = nano_ops,
      b_adv = mem_client mw_advs (\<lambda>xs. mw_advs_update (\<lambda>_. xs)),
      b_rsv = mem_client mw_rsvs (\<lambda>xs. mw_rsvs_update (\<lambda>_. xs)),
      b_bond = mem_client mw_bonds (\<lambda>xs. mw_bonds_update (\<lambda>_. xs)),
      b_forecast = mem_client mw_forecasts (\<lambda>xs. mw_forecasts_update (\<lambda>_. xs)),
      b_exchanges = mem_client mw_exchanges (\<lambda>xs. mw_exchanges_update (\<lambda>_. xs)),
      b_now = State (\<lambda>w. (mw_clock w, w)),
      b_go = (\<lambda>j. State (\<lambda>w. ((), w\<lparr>mw_jobs := mw_jobs w @ [j]\<rparr>))),
      b_retry = attempts 4,
      b_sort = insertion_sort,
      b_math = \<lparr>mt_sin = (\<lambda>x. x), mt_cos = (\<lambda>x. 1), mt_sqrt = (\<lambda>x. x), mt_atan2 = (\<lambda>x y. x)\<rparr>,
      b_get_carbon = (\<lambda>u. ret (HttpFail ''connection refused'')),
      b_get_price = (\<lambda>u. ret (HttpFail ''connection refused'')),
      b_get_rates = (\<lambda>u. ret (HttpFail ''connection refused'')),
      b_parse_duration = (\<lambda>s. if s = ''1h'' then Inr go_hour else Inl ''time: invalid duration''),
      b_set_condition = set_status_condition\<rparr>"

abbreviation mem_advs :: "mem_world \<Rightarrow> (nano_quantity ClusterAdvertisementSpec, ClusterAdvertisementStatus) store" where
  "mem_advs w \<equiv> store_get (mw_advs w)"

abbreviation mem_rsvs :: "mem_world \<Rightarrow> (nano_quantity ReservationSpec, ReservationStatus) store" where
  "mem_rsvs w \<equiv> store_get (mw_rsvs w)"

interpretation adv_lens: store_lens mw_advs "\<lambda>xs. mw_advs_update (\<lambda>_. xs)"
  by standard simp

interpretation rsv_lens: store_lens mw_rsvs "\<lambda>xs. mw_rsvs_update (\<lambda>_. xs)"
  by standard simp

interpretation bond_lens: store_lens mw_bonds "\<lambda>xs. mw_bonds_update (\<lambda>_. xs)"
  by standard simp

interpretation forecast_lens: store_lens mw_forecasts "\<lambda>xs. mw_forecasts_update (\<lambda>_. xs)"
  by standard simp

interpretation exchanges_lens: store_lens mw_exchanges "\<lambda>xs. mw_exchanges_update (\<lambda>_. xs)"
  by standard simp

lemma mem_quiet:
  assumes "\<And>xs w. f (mw_bonds_update (\<lambda>_. xs) w) = f w" "\<And>xs w. f (mw_forecasts_update (\<lambda>_. xs) w) = f w"
    "\<And>xs w. f (mw_exchanges_update (\<lambda>_. xs) w) = f w" "\<And>xs w. f (mw_jobs_update xs w) = f w"
  shows "quiet f mem_env"
  using assms
  by (simp add: quiet_def mem_env_def bond_lens.mem_client_keeps forecast_lens.mem_client_keeps
      exchanges_lens.mem_client_keeps) (simp add: keeps_def)

lemma mem_env_simps [simp]:
  "b_Q mem_env = nano_ops" "b_retry mem_env = attempts 4" "b_sort mem_env = insertion_sort"
  "b_set_condition mem_env = set_status_condition"
  "b_adv mem_env = mem_client mw_advs (\<lambda>xs. mw_advs_update (\<lambda>_. xs))"
  "b_rsv mem_env = mem_client mw_rsvs (\<lambda>xs. mw_rsvs_update (\<lambda>_. xs))"
  "b_bond mem_env = mem_client mw_bonds (\<lambda>xs. mw_bonds_update (\<lambda>_. xs))"
  "b_forecast mem_env = mem_client mw_forecasts (\<lambda>xs. mw_forecasts_update (\<lambda>_. xs))"
  "b_exchanges mem_env = mem_client mw_exchanges (\<lambda>xs. mw_exchanges_update (\<lambda>_. xs))"
  "run_state (b_now mem_env) w = (mw_clock w, w)"
  "run_state (b_go mem_env j) w = ((), w\<lparr>mw_jobs := mw_jobs w @ [j]\<rparr>)"
  "b_get_carbon mem_env u = ret (HttpFail ''connection refused'')"
  "b_get_price mem_env u = ret (HttpFail ''connection refused'')"
  "b_get_rates mem_env u = ret (HttpFail ''connection refused'')"
  "run_state (b_since mem_env t) w = (time_sub (mw_clock w) t, w)"
  "b_parse_duration mem_env ''1h'' = Inr go_hour"
  by (simp_all add: mem_env_def b_since_def)

interpretation mem: broker_world mem_env nano_value mem_advs mem_rsvs
proof intro_locales
  show "quantity (b_Q mem_env) nano_value"
    by (simp add: nano.quantity_axioms)
  show "kube_client (b_adv mem_env) mem_advs"
    using adv_lens.kube_client_axioms by simp
  show "kube_client (b_rsv mem_env) mem_rsvs"
    using rsv_lens.kube_client_axioms by simp
  show "retry_on_conflict (b_retry mem_env)"
    by (simp add: attempts.retry_on_conflict_axioms)
  show "sort_slice (b_sort mem_env)"
    by (simp add: insertion.sort_slice_axioms)
  show "status_conditions (b_set_condition mem_env)"
    by (simp add: conditions.status_conditions_axioms)
  show "broker_world_axioms mem_env mem_advs mem_rsvs"
  proof
    show "quiet mem_advs mem_env" "quiet mem_rsvs mem_env"
      by (rule mem_quiet; simp)+
    show "client_keeps mem_advs (b_rsv mem_env)"
      using rsv_lens.mem_client_keeps [of mem_advs] by (simp add: mem_env_def)
    show "client_keeps mem_rsvs (b_adv mem_env)"
      using adv_lens.mem_client_keeps [of mem_rsvs] by (simp add: mem_env_def)
  qed
qed

end
