(* ===== verification/BrokerDto.thy ===== *)
theory BrokerDto
  imports BrokerWorld
begin

text \<open>
  The broker's wire format (resource-broker/internal/transport/dto): quantities as strings, and the
  conversions to and from the API types. A JSON field with \<open>omitempty\<close> that is absent decodes to the
  zero value, so the DTO records hold what \<open>encoding/json\<close> leaves in the Go structs.
\<close>

section \<open>The DTOs\<close>

record ResourceQuantitiesDTO =
  qd_CPU :: string
  qd_Memory :: string
  qd_GPU :: string
  qd_Storage :: string

record ResourceMetricsDTO =
  md_Capacity :: ResourceQuantitiesDTO
  md_Allocatable :: ResourceQuantitiesDTO
  md_Allocated :: ResourceQuantitiesDTO
  md_Reserved :: "ResourceQuantitiesDTO option"
  md_Available :: ResourceQuantitiesDTO

record CostInfoDTO =
  cd_Renewable :: bool
  cd_EnergyCost :: float64

record LocationDTO =
  ld_ContinentCode :: string
  ld_CountryCode :: string
  ld_Region :: string
  ld_RegionName :: string
  ld_City :: string
  ld_Lat :: float64
  ld_Lon :: float64
  ld_ISP :: string
  ld_Org :: string
  ld_AS :: string

record AdvertisementDTO =
  ad_ClusterID :: string
  ad_ClusterName :: string
  ad_Resources :: ResourceMetricsDTO
  ad_Cost :: "CostInfoDTO option"
  ad_Location :: "LocationDTO option"
  ad_Policy :: string
  ad_Timestamp :: time
  ad_CarbonIntensity :: "int list"
  ad_CarbonLastUpdate :: "time option"

record ReservationStatusDTO =
  sd_Phase :: string
  sd_Message :: string
  sd_ReservedAt :: "time option"
  sd_ExpiresAt :: "time option"
  sd_PeeringKubeconfig :: string

record ReservationDTO =
  vd_ID :: string
  vd_RequesterID :: string
  vd_TargetClusterID :: string
  vd_RequestedResources :: ResourceQuantitiesDTO
  vd_Status :: ReservationStatusDTO
  vd_CreatedAt :: time

record ReservationRequestDTO =
  qr_RequestedResources :: ResourceQuantitiesDTO
  qr_Priority :: "32 word"
  qr_Duration :: string
  qr_TargetClusterID :: string
  qr_Location :: "LocationDTO option"
  qr_CurrentProviderID :: string
  qr_MeasuredLatencyMs :: "float64 option"

record CandidateClusterDTO =
  cc_ClusterID :: string
  cc_Information :: string

record EvaluationResponseDTO =
  ev_CandidateClusters :: "CandidateClusterDTO list"

record AdvertisementResponseDTO =
  ar_Advertisement :: AdvertisementDTO
  ar_ProviderInstructions :: "ReservationDTO list"

section \<open>Conversions\<close>

definition toResourceQuantitiesDTO :: "'q QuantityOps \<Rightarrow> 'q ResourceQuantities \<Rightarrow> ResourceQuantitiesDTO" where
  "toResourceQuantitiesDTO Q rq =
     \<lparr>qd_CPU = q_String Q (rq_CPU rq),
      qd_Memory = q_String Q (rq_Memory rq),
      qd_GPU = (case rq_GPU rq of None \<Rightarrow> '''' | Some g \<Rightarrow> q_String Q g),
      qd_Storage = (case rq_Storage rq of None \<Rightarrow> '''' | Some s \<Rightarrow> q_String Q s)\<rparr>"

text \<open>An optional amount: the empty string is absent.\<close>

definition parse_optional :: "'q QuantityOps \<Rightarrow> string \<Rightarrow> string + 'q option" where
  "parse_optional Q s =
     (if s = '''' then Inr None
      else case q_Parse Q s of Inl e \<Rightarrow> Inl e | Inr q \<Rightarrow> Inr (Some q))"

definition fromResourceQuantitiesDTO ::
  "'q QuantityOps \<Rightarrow> ResourceQuantitiesDTO \<Rightarrow> string + 'q ResourceQuantities" where
  "fromResourceQuantitiesDTO Q d =
     (case q_Parse Q (qd_CPU d) of
        Inl e \<Rightarrow> Inl e
      | Inr cpu \<Rightarrow>
     (case q_Parse Q (qd_Memory d) of
        Inl e \<Rightarrow> Inl e
      | Inr mem \<Rightarrow>
     (case parse_optional Q (qd_GPU d) of
        Inl e \<Rightarrow> Inl e
      | Inr gpu \<Rightarrow>
     (case parse_optional Q (qd_Storage d) of
        Inl e \<Rightarrow> Inl e
      | Inr storage \<Rightarrow>
          Inr \<lparr>rq_CPU = cpu, rq_Memory = mem, rq_GPU = gpu, rq_Storage = storage\<rparr>))))"

definition to_location :: "LocationDTO \<Rightarrow> LocationInfo" where
  "to_location l =
     \<lparr>li_ContinentCode = ld_ContinentCode l, li_CountryCode = ld_CountryCode l, li_Region = ld_Region l,
      li_RegionName = ld_RegionName l, li_City = ld_City l, li_Lat = ld_Lat l, li_Lon = ld_Lon l,
      li_ISP = ld_ISP l, li_Org = ld_Org l, li_AS = ld_AS l\<rparr>"

definition from_location :: "LocationInfo \<Rightarrow> LocationDTO" where
  "from_location l =
     \<lparr>ld_ContinentCode = li_ContinentCode l, ld_CountryCode = li_CountryCode l, ld_Region = li_Region l,
      ld_RegionName = li_RegionName l, ld_City = li_City l, ld_Lat = li_Lat l, ld_Lon = li_Lon l,
      ld_ISP = li_ISP l, ld_Org = li_Org l, ld_AS = li_AS l\<rparr>"

definition to_cost :: "CostInfoDTO \<Rightarrow> CostInfo" where
  "to_cost c = \<lparr>ci_CPUCost = '''', ci_MemoryCost = '''', ci_Currency = '''',
     ci_Renewable = cd_Renewable c, ci_EnergyCost = cd_EnergyCost c\<rparr>"

definition from_cost :: "CostInfo \<Rightarrow> CostInfoDTO" where
  "from_cost c = \<lparr>cd_Renewable = ci_Renewable c, cd_EnergyCost = ci_EnergyCost c\<rparr>"

text \<open>The four mandatory amounts in the order of the code, then Reserved.\<close>

definition to_metrics :: "'q QuantityOps \<Rightarrow> ResourceMetricsDTO \<Rightarrow> string + 'q ResourceMetrics" where
  "to_metrics Q d =
     (case fromResourceQuantitiesDTO Q (md_Capacity d) of
        Inl e \<Rightarrow> Inl e
      | Inr capacity \<Rightarrow>
     (case fromResourceQuantitiesDTO Q (md_Allocatable d) of
        Inl e \<Rightarrow> Inl e
      | Inr allocatable \<Rightarrow>
     (case fromResourceQuantitiesDTO Q (md_Allocated d) of
        Inl e \<Rightarrow> Inl e
      | Inr allocated \<Rightarrow>
     (case fromResourceQuantitiesDTO Q (md_Available d) of
        Inl e \<Rightarrow> Inl e
      | Inr available \<Rightarrow>
     (case md_Reserved d of
        None \<Rightarrow> Inr \<lparr>rm_Capacity = capacity, rm_Allocatable = allocatable, rm_Allocated = allocated,
                   rm_Reserved = None, rm_Available = available\<rparr>
      | Some r \<Rightarrow>
          (case fromResourceQuantitiesDTO Q r of
             Inl e \<Rightarrow> Inl e
           | Inr reserved \<Rightarrow>
               Inr \<lparr>rm_Capacity = capacity, rm_Allocatable = allocatable, rm_Allocated = allocated,
                 rm_Reserved = Some reserved, rm_Available = available\<rparr>))))))"

definition ToClusterAdvertisement ::
  "'q QuantityOps \<Rightarrow> AdvertisementDTO \<Rightarrow> string \<Rightarrow> string + 'q ClusterAdvertisement" where
  "ToClusterAdvertisement Q d namespace =
     (case to_metrics Q (ad_Resources d) of
        Inl e \<Rightarrow> Inl e
      | Inr resources \<Rightarrow>
          Inr \<lparr>o_meta = new_meta (ad_ClusterID d @ ''-adv'') namespace,
            o_spec =
              \<lparr>ca_ClusterID = ad_ClusterID d, ca_ClusterName = ad_ClusterName d,
               ca_Resources = resources,
               ca_Cost = map_option to_cost (ad_Cost d),
               ca_Location = map_option to_location (ad_Location d),
               ca_Timestamp = ad_Timestamp d, ca_EndpointURL = '''', ca_Policy = ad_Policy d,
               ca_CarbonIntensity = ad_CarbonIntensity d,
               ca_CarbonLastUpdate =
                 (if ad_CarbonIntensity d \<noteq> [] then case ad_CarbonLastUpdate d of None \<Rightarrow> 0 | Some t \<Rightarrow> t
                  else 0)\<rparr>,
            o_status = zero_adv_status\<rparr>)"

definition from_metrics :: "'q QuantityOps \<Rightarrow> 'q ResourceMetrics \<Rightarrow> ResourceMetricsDTO" where
  "from_metrics Q m =
     \<lparr>md_Capacity = toResourceQuantitiesDTO Q (rm_Capacity m),
      md_Allocatable = toResourceQuantitiesDTO Q (rm_Allocatable m),
      md_Allocated = toResourceQuantitiesDTO Q (rm_Allocated m),
      md_Reserved = map_option (toResourceQuantitiesDTO Q) (rm_Reserved m),
      md_Available = toResourceQuantitiesDTO Q (rm_Available m)\<rparr>"

definition FromClusterAdvertisement :: "'q QuantityOps \<Rightarrow> 'q ClusterAdvertisement \<Rightarrow> AdvertisementDTO" where
  "FromClusterAdvertisement Q a =
     (let s = o_spec a
      in \<lparr>ad_ClusterID = ca_ClusterID s, ad_ClusterName = ca_ClusterName s,
          ad_Resources = from_metrics Q (ca_Resources s),
          ad_Cost = map_option from_cost (ca_Cost s),
          ad_Location = map_option from_location (ca_Location s),
          ad_Policy = ca_Policy s, ad_Timestamp = ca_Timestamp s,
          ad_CarbonIntensity = ca_CarbonIntensity s,
          ad_CarbonLastUpdate =
            (if ca_CarbonIntensity s \<noteq> [] \<and> \<not> time_is_zero (ca_CarbonLastUpdate s)
             then Some (ca_CarbonLastUpdate s) else None)\<rparr>)"

definition FromReservation :: "'q QuantityOps \<Rightarrow> 'q Reservation \<Rightarrow> ReservationDTO" where
  "FromReservation Q r =
     \<lparr>vd_ID = o_Name r,
      vd_RequesterID = rs_RequesterID (o_spec r),
      vd_TargetClusterID = rsv_target r,
      vd_RequestedResources =
        \<lparr>qd_CPU = q_String Q (rsv_cpu r), qd_Memory = q_String Q (rsv_memory r),
         qd_GPU = (case rr_GPU (rs_RequestedResources (o_spec r)) of None \<Rightarrow> '''' | Some g \<Rightarrow> q_String Q g),
         qd_Storage = ''''\<rparr>,
      vd_Status =
        \<lparr>sd_Phase = phase_string (rsv_phase r), sd_Message = rst_Message (o_status r),
         sd_ReservedAt = rst_ReservedAt (o_status r), sd_ExpiresAt = rst_ExpiresAt (o_status r),
         sd_PeeringKubeconfig = rst_PeeringKubeconfig (o_status r)\<rparr>,
      vd_CreatedAt = m_CreationTimestamp (o_meta r)\<rparr>"

section \<open>Round trips\<close>

text \<open>Equal amounts: the same fields are present, with the same values.\<close>

definition same_amount :: "('q \<Rightarrow> rat) \<Rightarrow> 'q ResourceQuantities \<Rightarrow> 'q ResourceQuantities \<Rightarrow> bool" where
  "same_amount v x y \<longleftrightarrow>
     v (rq_CPU x) = v (rq_CPU y) \<and> v (rq_Memory x) = v (rq_Memory y) \<and>
     map_option v (rq_GPU x) = map_option v (rq_GPU y) \<and>
     map_option v (rq_Storage x) = map_option v (rq_Storage y)"

definition same_metrics :: "('q \<Rightarrow> rat) \<Rightarrow> 'q ResourceMetrics \<Rightarrow> 'q ResourceMetrics \<Rightarrow> bool" where
  "same_metrics v x y \<longleftrightarrow>
     same_amount v (rm_Capacity x) (rm_Capacity y) \<and> same_amount v (rm_Allocatable x) (rm_Allocatable y) \<and>
     same_amount v (rm_Allocated x) (rm_Allocated y) \<and> same_amount v (rm_Available x) (rm_Available y) \<and>
     rel_option (same_amount v) (rm_Reserved x) (rm_Reserved y)"

context quantity
begin

lemma parse_optional_string:
  "\<exists>y. parse_optional Q (case x of None \<Rightarrow> '''' | Some g \<Rightarrow> q_String Q g) = Inr y \<and> map_option v y = map_option v x"
proof (cases x)
  case None
  then show ?thesis by (simp add: parse_optional_def)
next
  case (Some g)
  obtain q where "q_Parse Q (q_String Q g) = Inr q" "v q = v g" by (rule parse_stringE)
  then show ?thesis
    using Some string_nonempty [of g] by (simp add: parse_optional_def)
qed

lemma amount_roundtrip:
  "\<exists>y. fromResourceQuantitiesDTO Q (toResourceQuantitiesDTO Q x) = Inr y \<and> same_amount v y x"
proof -
  obtain c where c: "q_Parse Q (q_String Q (rq_CPU x)) = Inr c" "v c = v (rq_CPU x)" by (rule parse_stringE)
  obtain m where m: "q_Parse Q (q_String Q (rq_Memory x)) = Inr m" "v m = v (rq_Memory x)" by (rule parse_stringE)
  obtain g where g: "parse_optional Q (case rq_GPU x of None \<Rightarrow> '''' | Some g \<Rightarrow> q_String Q g) = Inr g"
    "map_option v g = map_option v (rq_GPU x)" using parse_optional_string by blast
  obtain s where s: "parse_optional Q (case rq_Storage x of None \<Rightarrow> '''' | Some g \<Rightarrow> q_String Q g) = Inr s"
    "map_option v s = map_option v (rq_Storage x)" using parse_optional_string by blast
  from c m g s show ?thesis
    by (simp add: fromResourceQuantitiesDTO_def toResourceQuantitiesDTO_def same_amount_def)
qed

lemma metrics_roundtrip: "\<exists>y. to_metrics Q (from_metrics Q x) = Inr y \<and> same_metrics v y x"
proof -
  obtain c where c: "fromResourceQuantitiesDTO Q (toResourceQuantitiesDTO Q (rm_Capacity x)) = Inr c"
    "same_amount v c (rm_Capacity x)" using amount_roundtrip by blast
  obtain a where a: "fromResourceQuantitiesDTO Q (toResourceQuantitiesDTO Q (rm_Allocatable x)) = Inr a"
    "same_amount v a (rm_Allocatable x)" using amount_roundtrip by blast
  obtain l where l: "fromResourceQuantitiesDTO Q (toResourceQuantitiesDTO Q (rm_Allocated x)) = Inr l"
    "same_amount v l (rm_Allocated x)" using amount_roundtrip by blast
  obtain z where z: "fromResourceQuantitiesDTO Q (toResourceQuantitiesDTO Q (rm_Available x)) = Inr z"
    "same_amount v z (rm_Available x)" using amount_roundtrip by blast
  show ?thesis
  proof (cases "rm_Reserved x")
    case None
    with c a l z show ?thesis by (simp add: to_metrics_def from_metrics_def same_metrics_def)
  next
    case (Some r)
    obtain r' where "fromResourceQuantitiesDTO Q (toResourceQuantitiesDTO Q r) = Inr r'" "same_amount v r' r"
      using amount_roundtrip by blast
    with Some c a l z show ?thesis by (simp add: to_metrics_def from_metrics_def same_metrics_def)
  qed
qed

end

section \<open>Properties\<close>

text \<open>
  C39. Reading back what was written: converting an advertisement to the wire format and back always
  succeeds and gives the same identity, name, policy, location and time, and the same amounts (with
  Reserved, and GPU and storage where present); the carbon values come back with their date unless
  there are no values. Of the costs only the renewable flag and the energy cost come back: CPU cost,
  memory cost and currency are empty afterwards, as are the endpoint and the status.
\<close>

theorem advertisement_roundtrip:
  assumes "quantity Q v"
  shows "\<exists>b. ToClusterAdvertisement Q (FromClusterAdvertisement Q a) ns = Inr b \<and>
    obj_key b = (ns, adv_id a @ ''-adv'') \<and> adv_id b = adv_id a \<and>
    ca_ClusterName (o_spec b) = ca_ClusterName (o_spec a) \<and> ca_Policy (o_spec b) = ca_Policy (o_spec a) \<and>
    ca_Location (o_spec b) = ca_Location (o_spec a) \<and> ca_Timestamp (o_spec b) = ca_Timestamp (o_spec a) \<and>
    ca_Cost (o_spec b) = map_option (\<lambda>c. \<lparr>ci_CPUCost = '''', ci_MemoryCost = '''', ci_Currency = '''',
      ci_Renewable = ci_Renewable c, ci_EnergyCost = ci_EnergyCost c\<rparr>) (ca_Cost (o_spec a)) \<and>
    ca_EndpointURL (o_spec b) = '''' \<and> o_status b = zero_adv_status \<and>
    same_metrics v (adv_resources b) (adv_resources a) \<and>
    ca_CarbonIntensity (o_spec b) = ca_CarbonIntensity (o_spec a) \<and>
    (ca_CarbonIntensity (o_spec a) \<noteq> [] \<longrightarrow> ca_CarbonLastUpdate (o_spec b) = ca_CarbonLastUpdate (o_spec a))"
proof -
  obtain m where m: "to_metrics Q (from_metrics Q (adv_resources a)) = Inr m" "same_metrics v m (adv_resources a)"
    using quantity.metrics_roundtrip [OF assms] by blast
  have "to_location (from_location l) = l" for l
    by (simp add: to_location_def from_location_def)
  then have "to_location \<circ> from_location = id"
    by (simp add: fun_eq_iff)
  then show ?thesis
    using m
    by (simp add: ToClusterAdvertisement_def FromClusterAdvertisement_def Let_def option.map_comp
        option.map_id to_cost_def from_cost_def o_def time_is_zero_def meta_key_def)
qed

lemma advertisement_roundtrip_witness:
  "\<exists>b. ToClusterAdvertisement nano_ops (FromClusterAdvertisement nano_ops (sample_adv ''b'' 6 48)) ''default'' = Inr b \<and>
    same_metrics nano_value (adv_resources b) (adv_resources (sample_adv ''b'' 6 48))"
  using advertisement_roundtrip [OF nano.quantity_axioms, of "sample_adv ''b'' 6 48" "''default''"] by blast

end
