(* ===== verification/Middleware.thy ===== *)
theory Middleware
  imports BrokerDto
begin

text \<open>
  The HTTP layer under the handlers (resource-broker/internal/api/middleware): a handler is a
  function from a request to an effect with the response, \<open>None\<close> being a panic, which net/http
  answers by closing the connection. The request carries what the decoder makes of its body for
  each of the types the handlers decode into.
\<close>

section \<open>Requests and responses\<close>

record Certificate =
  x_CommonName :: string

record HttpRequest =
  hr_Method :: string
  hr_Path :: string
  hr_TLS :: "Certificate list option"
  hr_ClusterID :: "string option"
  hr_PathValue :: string
  hr_AdvBody :: "string + AdvertisementDTO"
  hr_RsvBody :: "string + ReservationRequestDTO"
  hr_KubeconfigBody :: "string + string"

datatype HttpBody =
    TextBody string
  | ErrorBody string
  | AdvBody AdvertisementDTO
  | AdvResponseBody AdvertisementResponseDTO
  | RsvBody ReservationDTO
  | InstructionsBody "ReservationDTO list"
  | EvalBody EvaluationResponseDTO

record HttpResponse =
  hs_Status :: nat
  hs_Body :: HttpBody

type_synonym 'w handler = "HttpRequest \<Rightarrow> ('w, HttpResponse option) state"

definition StatusOK :: nat where "StatusOK = 200"
definition StatusCreated :: nat where "StatusCreated = 201"
definition StatusBadRequest :: nat where "StatusBadRequest = 400"
definition StatusUnauthorized :: nat where "StatusUnauthorized = 401"
definition StatusForbidden :: nat where "StatusForbidden = 403"
definition StatusNotFound :: nat where "StatusNotFound = 404"
definition StatusMethodNotAllowed :: nat where "StatusMethodNotAllowed = 405"
definition StatusConflict :: nat where "StatusConflict = 409"
definition StatusInternalServerError :: nat where "StatusInternalServerError = 500"

lemmas status_defs = StatusOK_def StatusCreated_def StatusBadRequest_def StatusUnauthorized_def
  StatusForbidden_def StatusNotFound_def StatusMethodNotAllowed_def StatusConflict_def
  StatusInternalServerError_def

text \<open>\<open>http.Error\<close>, \<open>respondWithError\<close>, and a JSON answer.\<close>

definition http_error :: "string \<Rightarrow> nat \<Rightarrow> ('w, HttpResponse option) state" where
  "http_error message code = ret (Some \<lparr>hs_Status = code, hs_Body = TextBody message\<rparr>)"

definition respondWithError :: "nat \<Rightarrow> string \<Rightarrow> ('w, HttpResponse option) state" where
  "respondWithError code message = ret (Some \<lparr>hs_Status = code, hs_Body = ErrorBody message\<rparr>)"

definition respond_json :: "nat \<Rightarrow> HttpBody \<Rightarrow> ('w, HttpResponse option) state" where
  "respond_json code body = ret (Some \<lparr>hs_Status = code, hs_Body = body\<rparr>)"

lemmas respond_defs = http_error_def respondWithError_def respond_json_def

section \<open>auth.go\<close>

definition extractClusterID :: "Certificate \<Rightarrow> string" where
  "extractClusterID cert = x_CommonName cert"

definition ValidateClientCertificate :: "'w handler \<Rightarrow> 'w handler" where
  "ValidateClientCertificate next r =
     (if hr_Path r = ''/healthz'' then next r
      else case hr_TLS r of
        None \<Rightarrow> http_error ''Client certificate required'' StatusUnauthorized
      | Some [] \<Rightarrow> http_error ''Client certificate required'' StatusUnauthorized
      | Some (cert # _) \<Rightarrow>
          (let clusterID = extractClusterID cert
           in if clusterID = '''' then http_error ''Invalid certificate: no cluster ID in CN'' StatusForbidden
              else next (r\<lparr>hr_ClusterID := Some clusterID\<rparr>)))"

text \<open>The identifier and the \<open>ok\<close> flag of the type assertion.\<close>

definition GetClusterID :: "HttpRequest \<Rightarrow> string \<times> bool" where
  "GetClusterID r = (case hr_ClusterID r of None \<Rightarrow> ('''', False) | Some c \<Rightarrow> (c, True))"

definition Chain :: "'w handler \<Rightarrow> ('w handler \<Rightarrow> 'w handler) list \<Rightarrow> 'w handler" where
  "Chain h middlewares = foldr (\<lambda>m h. m h) middlewares h"

section \<open>logging.go\<close>

text \<open>
  The wrapped writer captures the status for the log line, which goes nowhere else; what remains
  are the two readings of the clock around the handler. A panic skips the second one.
\<close>

definition Logging :: "('w, 'q) BrokerEnv \<Rightarrow> 'w handler \<Rightarrow> 'w handler" where
  "Logging E next r = do {
     start \<leftarrow> b_now E;
     response \<leftarrow> next r;
     case response of
       None \<Rightarrow> ret None
     | Some wrapped \<Rightarrow> do {
         duration \<leftarrow> b_since E start;
         ret (Some wrapped)
       }
   }"

definition sample_http :: HttpRequest where
  "sample_http =
     \<lparr>hr_Method = ''GET'', hr_Path = ''/api/v1/instructions'', hr_TLS = Some [\<lparr>x_CommonName = ''a''\<rparr>],
      hr_ClusterID = None, hr_PathValue = '''', hr_AdvBody = Inl '''', hr_RsvBody = Inl '''',
      hr_KubeconfigBody = Inl ''''\<rparr>"

end
