(* ===== verification/DecisionCost.thy ===== *)
theory DecisionCost
  imports BrokerWorld
begin

text \<open>
  Energy prices (resource-broker/internal/broker/decisionCostEnergy.go): before a ranking the
  broker refreshes the price of every cluster with a known region, through a cache of forecasts per
  region and a cache of exchange rates, and writes it into the advertisement list it ranks. The
  part of \<open>updateCosts\<close> for one cluster is split at its numbered comments: \<open>refresh_price\<close> (2),
  \<open>convert_costs\<close> (3), \<open>set_energy_cost\<close> (4); \<open>None\<close> is a \<open>continue\<close>.
\<close>

definition targetCurrencyUnit :: string where "targetCurrencyUnit = ''EUR/MWh''"
definition targetCurrency :: string where "targetCurrency = ''EUR''"

text \<open>The common tail of the three fetch functions: status code, then the JSON body.\<close>

fun decode_reply :: "string \<Rightarrow> 'b http_reply \<Rightarrow> go_error + 'b" where
  "decode_reply service (HttpFail e) = Inl (ErrWrap ''HTTP request failed'' (ErrMsg e))"
| "decode_reply service (HttpReply status body) =
     (if status \<noteq> 200 then Inl (ErrMsg (service @ '' returned status '' @ show_nat status))
      else case body of
             Inl e \<Rightarrow> Inl (ErrWrap ''failed to decode response'' (ErrMsg e))
           | Inr b \<Rightarrow> Inr b)"

definition fetchPriceForecast ::
  "('w, 'q) BrokerEnv \<Rightarrow> DecisionEngine \<Rightarrow> string \<Rightarrow> ('w, go_error + float64 list \<times> string) state" where
  "fetchPriceForecast E D region =
     (if de_MockEcoURL D = '''' then ret (Inl (ErrMsg ''MockEcoURL is not configured''))
      else do {
        reply \<leftarrow> b_get_price E (de_MockEcoURL D @ ''/v4/price-day-ahead/forecast?zone='' @ region);
        ret (case decode_reply ''mock-eco'' reply of
               Inl e \<Rightarrow> Inl e
             | Inr resp \<Rightarrow>
                 (case pf_Data resp of
                    [] \<Rightarrow> Inl (ErrMsg (''empty forecast for region '' @ region))
                  | d # ds \<Rightarrow> Inr (map pd_Value (d # ds), pd_Unit d)))
      })"

definition fetchExchangeRates ::
  "('w, 'q) BrokerEnv \<Rightarrow> DecisionEngine \<Rightarrow> string \<Rightarrow> ('w, go_error + (string \<rightharpoonup> float64) option) state" where
  "fetchExchangeRates E D baseCurrency =
     (if de_MockCurrencyURL D = '''' then ret (Inl (ErrMsg ''MockCurrencyURL is not configured''))
      else do {
        reply \<leftarrow> b_get_rates E (de_MockCurrencyURL D @ ''/v1/latest?base_currency='' @ baseCurrency);
        ret (case decode_reply ''mock-currency'' reply of
               Inl e \<Rightarrow> Inl e
             | Inr resp \<Rightarrow> Inr (er_Data resp))
      })"

definition extractCurrencyCode :: "string \<Rightarrow> string" where
  "extractCurrencyCode unit = (case split_on CHR ''/'' unit of [] \<Rightarrow> unit | p # _ \<Rightarrow> p)"

definition refresh_price ::
  "('w, 'q) BrokerEnv \<Rightarrow> DecisionEngine \<Rightarrow> string \<Rightarrow> string \<Rightarrow> ('w, RegionForecast option) state" where
  "refresh_price E D ns region = do {
     found \<leftarrow> c_get (b_forecast E) (ns, to_lower region);
     needsFetch \<leftarrow> (case found of
         Inl _ \<Rightarrow> ret True
       | Inr f \<Rightarrow> do {
           age \<leftarrow> b_since E (rf_LastUpdateCost (o_spec f));
           ret (age > go_hour \<or> rf_Cost (o_spec f) = [])
         });
     if \<not> needsFetch then ret (case found of Inl _ \<Rightarrow> None | Inr f \<Rightarrow> Some f)
     else do {
       fetched \<leftarrow> fetchPriceForecast E D region;
       case fetched of
         Inl _ \<Rightarrow> ret None
       | Inr (values, unit) \<Rightarrow> do {
           now \<leftarrow> b_now E;
           stored \<leftarrow> (case found of
               Inl _ \<Rightarrow> c_create (b_forecast E)
                 \<lparr>o_meta = new_meta (to_lower region) ns,
                  o_spec = zero_forecast\<lparr>rf_Region := region, rf_Cost := values,
                    rf_CostUnit := unit, rf_LastUpdateCost := now\<rparr>,
                  o_status = \<lparr>rfs_LastUpdateTime = 0\<rparr>\<rparr>
             | Inr f \<Rightarrow> c_update (b_forecast E)
                 (f\<lparr>o_spec := (o_spec f)\<lparr>rf_Cost := values, rf_CostUnit := unit, rf_LastUpdateCost := now\<rparr>\<rparr>));
           ret (case stored of Inl _ \<Rightarrow> None | Inr f \<Rightarrow> Some f)
         }
     }
   }"

definition exchangesName :: string where "exchangesName = ''global-exchanges''"

definition refresh_rates ::
  "('w, 'q) BrokerEnv \<Rightarrow> DecisionEngine \<Rightarrow> string \<Rightarrow> ('w, UnitExchanges option) state" where
  "refresh_rates E D ns = do {
     found \<leftarrow> c_get (b_exchanges E) (ns, exchangesName);
     needsExFetch \<leftarrow> (case found of
         Inl _ \<Rightarrow> ret True
       | Inr x \<Rightarrow> do {
           age \<leftarrow> b_since E (ux_LastUpdateUnit (o_spec x));
           ret (age > 24 * go_hour \<or> ux_Rates (o_spec x) = None)
         });
     if \<not> needsExFetch then ret (case found of Inl _ \<Rightarrow> None | Inr x \<Rightarrow> Some x)
     else do {
       fetched \<leftarrow> fetchExchangeRates E D targetCurrency;
       case fetched of
         Inl _ \<Rightarrow> ret None
       | Inr rates \<Rightarrow> do {
           now \<leftarrow> b_now E;
           stored \<leftarrow> (case found of
               Inl _ \<Rightarrow> c_create (b_exchanges E)
                 \<lparr>o_meta = new_meta exchangesName ns,
                  o_spec = \<lparr>ux_PrimaryUnit = targetCurrencyUnit, ux_Rates = rates, ux_LastUpdateUnit = now\<rparr>,
                  o_status = \<lparr>uxs_LastUpdateTime = 0\<rparr>\<rparr>
             | Inr x \<Rightarrow> c_update (b_exchanges E)
                 (x\<lparr>o_spec := (o_spec x)\<lparr>ux_Rates := rates, ux_LastUpdateUnit := now\<rparr>\<rparr>));
           ret (case stored of Inl _ \<Rightarrow> None | Inr x \<Rightarrow> Some x)
         }
     }
   }"

definition convert_costs ::
  "('w, 'q) BrokerEnv \<Rightarrow> DecisionEngine \<Rightarrow> string \<Rightarrow> RegionForecast \<Rightarrow> ('w, RegionForecast option) state" where
  "convert_costs E D ns forecast =
     (if rf_CostUnit (o_spec forecast) \<noteq> targetCurrencyUnit \<and> rf_Cost (o_spec forecast) \<noteq> [] then do {
        let currencyCode = extractCurrencyCode (rf_CostUnit (o_spec forecast));
        exchanges \<leftarrow> refresh_rates E D ns;
        case exchanges of
          None \<Rightarrow> ret None
        | Some x \<Rightarrow>
            (case rate_of (o_spec x) currencyCode of
               None \<Rightarrow> ret None
             | Some rate \<Rightarrow>
                 if rate > 0 then do {
                   let converted = forecast\<lparr>o_spec := (o_spec forecast)\<lparr>
                         rf_Cost := map (\<lambda>c. c / rate) (rf_Cost (o_spec forecast)),
                         rf_CostUnit := targetCurrencyUnit\<rparr>\<rparr>;
                   stored \<leftarrow> c_update (b_forecast E) converted;
                   ret (case stored of Inl _ \<Rightarrow> Some converted | Inr f \<Rightarrow> Some f)
                 }
                 else ret None)
      }
      else ret (Some forecast))"

definition set_energy_cost :: "float64 list \<Rightarrow> 'q ClusterAdvertisement \<Rightarrow> 'q ClusterAdvertisement" where
  "set_energy_cost costs cluster =
     (case costs of
        [] \<Rightarrow> cluster
      | currentCost # _ \<Rightarrow>
          cluster\<lparr>o_spec := (o_spec cluster)\<lparr>ca_Cost := Some
            (case ca_Cost (o_spec cluster) of
               None \<Rightarrow> \<lparr>ci_CPUCost = [], ci_MemoryCost = [], ci_Currency = ''EUR'', ci_Renewable = False,
                        ci_EnergyCost = currentCost\<rparr>
             | Some c \<Rightarrow> c\<lparr>ci_EnergyCost := currentCost, ci_Currency := ''EUR''\<rparr>)\<rparr>\<rparr>)"

definition update_cost ::
  "('w, 'q) BrokerEnv \<Rightarrow> DecisionEngine \<Rightarrow> 'q ClusterAdvertisement \<Rightarrow> ('w, 'q ClusterAdvertisement) state" where
  "update_cost E D cluster =
     (case ca_Location (o_spec cluster) of
        None \<Rightarrow> ret cluster
      | Some loc \<Rightarrow>
          if li_Region loc = '''' then ret cluster
          else do {
            forecast \<leftarrow> refresh_price E D (o_Namespace cluster) (li_Region loc);
            case forecast of
              None \<Rightarrow> ret cluster
            | Some f \<Rightarrow> do {
                converted \<leftarrow> convert_costs E D (o_Namespace cluster) f;
                case converted of
                  None \<Rightarrow> ret cluster
                | Some g \<Rightarrow> ret (set_energy_cost (rf_Cost (o_spec g)) cluster)
              }
          })"

definition updateCosts ::
  "('w, 'q) BrokerEnv \<Rightarrow> DecisionEngine \<Rightarrow> 'q ClusterAdvertisement list \<Rightarrow> ('w, 'q ClusterAdvertisement list) state" where
  "updateCosts E D items = State_Monad.traverse_list (update_cost E D) items"

section \<open>Frames\<close>

text \<open>
  A cost update touches the advertisement's Cost only, and of an existing Cost only the energy cost
  and the currency.
\<close>

definition same_but_cost :: "'q ClusterAdvertisement \<Rightarrow> 'q ClusterAdvertisement \<Rightarrow> bool" where
  "same_but_cost a b \<longleftrightarrow>
     b = a\<lparr>o_spec := (o_spec a)\<lparr>ca_Cost := ca_Cost (o_spec b)\<rparr>\<rparr> \<and>
     (\<forall>c. ca_Cost (o_spec a) = Some c \<longrightarrow>
        (\<exists>c'. ca_Cost (o_spec b) = Some c' \<and> c' = c\<lparr>ci_EnergyCost := ci_EnergyCost c', ci_Currency := ci_Currency c'\<rparr>))"

lemma same_but_cost_refl [simp]: "same_but_cost a a"
  by (simp add: same_but_cost_def)

lemma same_but_costD:
  assumes "same_but_cost a b"
  shows "adv_id b = adv_id a" "o_meta b = o_meta a" "o_status b = o_status a" "adv_resources b = adv_resources a"
    "ca_Location (o_spec b) = ca_Location (o_spec a)" "ca_CarbonIntensity (o_spec b) = ca_CarbonIntensity (o_spec a)"
proof -
  from assms have b: "b = a\<lparr>o_spec := (o_spec a)\<lparr>ca_Cost := ca_Cost (o_spec b)\<rparr>\<rparr>"
    by (simp add: same_but_cost_def)
  show "adv_id b = adv_id a" "o_meta b = o_meta a" "o_status b = o_status a" "adv_resources b = adv_resources a"
    "ca_Location (o_spec b) = ca_Location (o_spec a)" "ca_CarbonIntensity (o_spec b) = ca_CarbonIntensity (o_spec a)"
    by (subst b, simp)+
qed

lemma set_energy_cost_frame: "same_but_cost a (set_energy_cost costs a)"
  by (auto simp: same_but_cost_def set_energy_cost_def split: list.split option.split)

lemma update_cost_shape:
  assumes "run_state (update_cost E D a) w = (b, w')"
  shows "b = a \<or> (\<exists>f g w1 w2. run_state (convert_costs E D (o_Namespace a) f) w1 = (Some g, w2) \<and>
    b = set_energy_cost (rf_Cost (o_spec g)) a)"
proof (cases "ca_Location (o_spec a)")
  case None
  with assms show ?thesis by (simp add: update_cost_def)
next
  case (Some loc)
  show ?thesis
  proof (cases "li_Region loc = ''''")
    case True
    with Some assms show ?thesis by (simp add: update_cost_def)
  next
    case False
    obtain f w1 where price: "run_state (refresh_price E D (o_Namespace a) (li_Region loc)) w = (f, w1)"
      by fastforce
    show ?thesis
    proof (cases f)
      case None
      with Some False assms price show ?thesis by (simp add: update_cost_def)
    next
      case f: (Some f1)
      obtain g w2 where conv: "run_state (convert_costs E D (o_Namespace a) f1) w1 = (g, w2)"
        by fastforce
      show ?thesis
      proof (cases g)
        case None
        with Some False assms price f conv show ?thesis by (simp add: update_cost_def)
      next
        case (Some g1)
        with \<open>ca_Location (o_spec a) = Some loc\<close> False assms price f conv
        have "b = set_energy_cost (rf_Cost (o_spec g1)) a" by (simp add: update_cost_def)
        with conv Some show ?thesis by blast
      qed
    qed
  qed
qed

lemma update_cost_frame: "run_state (update_cost E D a) w = (b, w') \<Longrightarrow> same_but_cost a b"
  using update_cost_shape [of E D a w b w'] set_energy_cost_frame by fastforce

lemma traverse_list_all2:
  assumes "\<And>x w y w'. run_state (f x) w = (y, w') \<Longrightarrow> R x y"
    and "run_state (State_Monad.traverse_list f xs) w = (ys, w')"
  shows "list_all2 R xs ys"
  using assms(2)
proof (induction xs arbitrary: ys w w')
  case Nil
  then show ?case by simp
next
  case (Cons x xs)
  obtain y w1 where y: "run_state (f x) w = (y, w1)" by fastforce
  obtain zs w2 where zs: "run_state (State_Monad.traverse_list f xs) w1 = (zs, w2)" by fastforce
  from Cons.prems y zs have "ys = y # zs" by simp
  with Cons.IH [OF zs] assms(1) [OF y] show ?case by simp
qed

lemma keeps_traverse [keeps_intros]:
  "(\<And>x. x \<in> set xs \<Longrightarrow> keeps f (g x)) \<Longrightarrow> keeps f (State_Monad.traverse_list g xs)"
  by (induction xs) (auto intro!: keeps_intros)

lemma keeps_price: "quiet f E \<Longrightarrow> keeps f (fetchPriceForecast E D r)"
  unfolding fetchPriceForecast_def by (auto intro!: keeps_intros)

lemma keeps_rates: "quiet f E \<Longrightarrow> keeps f (fetchExchangeRates E D c)"
  unfolding fetchExchangeRates_def by (auto intro!: keeps_intros)

lemma keeps_refresh_price: "quiet f E \<Longrightarrow> keeps f (refresh_price E D ns r)"
  unfolding refresh_price_def by (auto intro!: keeps_intros keeps_price)

lemma keeps_refresh_rates: "quiet f E \<Longrightarrow> keeps f (refresh_rates E D ns)"
  unfolding refresh_rates_def by (auto intro!: keeps_intros keeps_rates)

lemma keeps_convert: "quiet f E \<Longrightarrow> keeps f (convert_costs E D ns g)"
  unfolding convert_costs_def by (auto intro!: keeps_intros keeps_refresh_rates)

lemma keeps_update_cost: "quiet f E \<Longrightarrow> keeps f (update_cost E D a)"
  unfolding update_cost_def by (auto intro!: keeps_intros keeps_refresh_price keeps_convert)

lemma keeps_updateCosts [keeps_intros]: "quiet f E \<Longrightarrow> keeps f (updateCosts E D items)"
  unfolding updateCosts_def by (intro keeps_intros keeps_update_cost)

section \<open>Properties\<close>

text \<open>
  Refreshing the energy prices before a ranking returns the same advertisements in the same
  order with at most the energy cost and the currency changed, whatever the caches, the web
  services and the clock answer; and it writes neither an advertisement nor a reservation to the API.
\<close>

theorem updateCosts_frame:
  assumes "broker_world E v advs rsvs" "run_state (updateCosts E D items) w = (items', w')"
  shows "list_all2 same_but_cost items items' \<and> advs w' = advs w \<and> rsvs w' = rsvs w"
proof (intro conjI)
  show "list_all2 same_but_cost items items'"
    using assms(2) unfolding updateCosts_def by (rule traverse_list_all2 [rotated]) (rule update_cost_frame)
  show "advs w' = advs w"
    using broker_world.quiet_advs [OF assms(1)] by (rule keepsD [OF keeps_updateCosts assms(2)])
  show "rsvs w' = rsvs w"
    using broker_world.quiet_rsvs [OF assms(1)] by (rule keepsD [OF keeps_updateCosts assms(2)])
qed

definition priced_region :: "RegionForecast" where
  "priced_region =
     \<lparr>o_meta = new_meta ''pie'' ''default'',
      o_spec = zero_forecast\<lparr>rf_Region := ''PIE'', rf_Cost := [Fin 90], rf_CostUnit := ''EUR/MWh'',
        rf_LastUpdateCost := 10 * go_hour\<rparr>,
      o_status = \<lparr>rfs_LastUpdateTime = 0\<rparr>\<rparr>"

definition priced_adv :: "nano_quantity ClusterAdvertisement" where
  "priced_adv = (let a = sample_adv ''b'' 6 48 in a\<lparr>o_spec := (o_spec a)\<lparr>ca_Location := Some (sample_location ''PIE'')\<rparr>\<rparr>)"

definition priced_world :: mem_world where
  "priced_world = empty_world\<lparr>mw_forecasts := [priced_region]\<rparr>"

lemma priced_update:
  "run_state (updateCosts mem_env D [priced_adv]) priced_world = ([set_energy_cost [Fin 90] priced_adv], priced_world)"
proof -
  have "to_lower ''PIE'' = ''pie''" by code_simp
  then show ?thesis
    by (simp add: updateCosts_def update_cost_def refresh_price_def convert_costs_def priced_adv_def
        priced_world_def priced_region_def empty_world_def sample_defs zero_forecast_def
        targetCurrencyUnit_def meta_key_def duration_defs)
qed

lemma updateCosts_frame_witness:
  "list_all2 same_but_cost [priced_adv] [set_energy_cost [Fin 90] priced_adv] \<and>
    mem_advs priced_world = mem_advs priced_world \<and> mem_rsvs priced_world = mem_rsvs priced_world"
  by (rule updateCosts_frame [OF mem.broker_world_axioms priced_update])

text \<open>
  A price is written into an advertisement only after it was normalised: the energy cost comes
  from the head of a price list whose unit is EUR/MWh, and with it the currency is set to EUR; in
  every other case (no region, a failed fetch or write, no usable exchange rate, no prices) the
  advertisement is left as it was.
\<close>

theorem prices_in_euro:
  assumes "kube_client (b_forecast E) forecasts" "run_state (update_cost E D a) w = (b, w')"
  shows "b = a \<or> (\<exists>price. \<exists>prices. \<exists>f::RegionForecast.
    rf_Cost (o_spec f) = price # prices \<and> rf_CostUnit (o_spec f) = targetCurrencyUnit \<and>
    map_option ci_EnergyCost (ca_Cost (o_spec b)) = Some price \<and>
    map_option ci_Currency (ca_Cost (o_spec b)) = Some targetCurrency)"
proof -
  have unit: "rf_CostUnit (o_spec g) = targetCurrencyUnit \<or> rf_Cost (o_spec g) = []"
    if "run_state (convert_costs E D ns f) w1 = (Some g, w2)" for ns f g w1 w2
    using that kube_client.update_ok [OF assms(1)]
    by (fastforce simp: convert_costs_def Let_def split: if_splits option.splits prod.splits sum.splits)
  show ?thesis
  proof (cases "b = a")
    case False
    with update_cost_shape [OF assms(2)] obtain f g w1 w2 where
      g: "run_state (convert_costs E D (o_Namespace a) f) w1 = (Some g, w2)"
      "b = set_energy_cost (rf_Cost (o_spec g)) a" by blast
    with False obtain price prices where p: "rf_Cost (o_spec g) = price # prices"
      by (cases "rf_Cost (o_spec g)") (auto simp: set_energy_cost_def)
    with unit [OF g(1)] have "rf_CostUnit (o_spec g) = targetCurrencyUnit" by simp
    with p g(2) show ?thesis
      by (auto simp: set_energy_cost_def targetCurrency_def split: option.splits)
  qed simp
qed

lemma prices_in_euro_witness:
  "set_energy_cost [Fin 90] priced_adv = priced_adv \<or> (\<exists>price. \<exists>prices. \<exists>f::RegionForecast.
    rf_Cost (o_spec f) = price # prices \<and> rf_CostUnit (o_spec f) = targetCurrencyUnit \<and>
    map_option ci_EnergyCost (ca_Cost (o_spec (set_energy_cost [Fin 90] priced_adv))) = Some price \<and>
    map_option ci_Currency (ca_Cost (o_spec (set_energy_cost [Fin 90] priced_adv))) = Some targetCurrency)"
proof -
  have k: "kube_client (b_forecast mem_env) (\<lambda>w. store_get (mw_forecasts w))"
    using forecast_lens.kube_client_axioms by simp
  have "run_state (update_cost mem_env D priced_adv) priced_world =
      (set_energy_cost [Fin 90] priced_adv, priced_world)" for D
    using priced_update [of D] by (simp add: updateCosts_def split_beta prod_eq_iff)
  then show ?thesis
    by (rule prices_in_euro [OF k])
qed

end
