(* ===== verification/DecisionEco.thy ===== *)
theory DecisionEco
  imports DecisionCost
begin

text \<open>
  The eco policy (resource-broker/internal/broker/decisionEco.go): the score of a cluster is the
  weighted average of the first six hourly carbon intensities, taken from the advertisement, from
  the forecast of its region or from the web service, in that order; a low score is good.
\<close>

definition ecoWeights :: "float64 list" where
  "ecoWeights = [lit (40/100), lit (25/100), lit (15/100), lit (10/100), lit (6/100), lit (4/100)]"

definition no_data_score :: float64 where
  "no_data_score = lit 999"

text \<open>One round of the summing loop, and the loop over at most six values.\<close>

fun eco_sums :: "float64 list \<Rightarrow> int list \<Rightarrow> float64 \<times> float64 \<Rightarrow> float64 \<times> float64" where
  "eco_sums (w # ws) (x # xs) (score, totalWeight) =
     eco_sums ws xs (score + fl_of_int x * w, totalWeight + w)"
| "eco_sums _ _ acc = acc"

definition computeEcoScore :: "int list \<Rightarrow> float64 \<times> bool" where
  "computeEcoScore values =
     (case values of
        [] \<Rightarrow> (no_data_score, False)
      | v0 # vs \<Rightarrow>
          (let limit = (if length values > 6 then 6 else length values);
               (score, totalWeight) = eco_sums ecoWeights (take limit values) (0, 0);
               increase = (case vs of [] \<Rightarrow> False | v1 # _ \<Rightarrow> v1 > v0)
           in (score / totalWeight, increase)))"

definition fetchCarbonForecast ::
  "('w, 'q) BrokerEnv \<Rightarrow> DecisionEngine \<Rightarrow> string \<Rightarrow> ('w, go_error + int list) state" where
  "fetchCarbonForecast E D region =
     (if de_MockEcoURL D = '''' then ret (Inl (ErrMsg ''MockEcoURL is not configured''))
      else do {
        reply \<leftarrow> b_get_carbon E (de_MockEcoURL D @ ''/v4/carbon-intensity/forecast?zone='' @ region);
        ret (case decode_reply ''mock-eco'' reply of
               Inl e \<Rightarrow> Inl e
             | Inr resp \<Rightarrow>
                 if cf_Forecast resp = [] then Inl (ErrMsg (''empty forecast for region '' @ region))
                 else Inr (map fe_CarbonIntensity (cf_Forecast resp)))
      })"

text \<open>
  Steps 3 to 5 of \<open>calculateScoreEco\<close>: the forecast of the region, fetched when it is missing or older
  than an hour. A failed write is only logged, and a failed fetch falls back on stale values;
  \<open>None\<close> means no data at all.
\<close>

definition carbon_forecast ::
  "('w, 'q) BrokerEnv \<Rightarrow> DecisionEngine \<Rightarrow> string \<Rightarrow> string \<Rightarrow> ('w, RegionForecast option) state" where
  "carbon_forecast E D ns region = do {
     found \<leftarrow> c_get (b_forecast E) (ns, to_lower region);
     needsFetch \<leftarrow> (case found of
         Inl _ \<Rightarrow> ret True
       | Inr f \<Rightarrow> do {
           age \<leftarrow> b_since E (rf_LastUpdateCarbon (o_spec f));
           ret (age > go_hour)
         });
     if \<not> needsFetch then ret (case found of Inl _ \<Rightarrow> None | Inr f \<Rightarrow> Some f)
     else do {
       fetched \<leftarrow> fetchCarbonForecast E D region;
       case fetched of
         Inl _ \<Rightarrow> ret (case found of
             Inl _ \<Rightarrow> None
           | Inr f \<Rightarrow> if rf_CarbonIntensity (o_spec f) \<noteq> [] then Some f else None)
       | Inr values \<Rightarrow> do {
           now \<leftarrow> b_now E;
           case found of
             Inl _ \<Rightarrow> do {
               let fresh = \<lparr>o_meta = new_meta (to_lower region) ns,
                 o_spec = zero_forecast\<lparr>rf_Region := region, rf_CarbonIntensity := values,
                   rf_LastUpdateCarbon := now\<rparr>,
                 o_status = \<lparr>rfs_LastUpdateTime = 0\<rparr>\<rparr>;
               stored \<leftarrow> c_create (b_forecast E) fresh;
               ret (Some (case stored of Inl _ \<Rightarrow> fresh | Inr f \<Rightarrow> f))
             }
           | Inr f \<Rightarrow> do {
               let fresh = f\<lparr>o_spec := (o_spec f)\<lparr>rf_CarbonIntensity := values, rf_LastUpdateCarbon := now\<rparr>\<rparr>;
               stored \<leftarrow> c_update (b_forecast E) fresh;
               ret (Some (case stored of Inl _ \<Rightarrow> fresh | Inr g \<Rightarrow> g))
             }
         }
     }
   }"

definition calculateScoreEco ::
  "('w, 'q) BrokerEnv \<Rightarrow> DecisionEngine \<Rightarrow> 'q ClusterAdvertisement \<Rightarrow> ('w, float64 \<times> bool) state" where
  "calculateScoreEco E D cluster = do {
     fresh \<leftarrow> (if length (ca_CarbonIntensity (o_spec cluster)) \<ge> 1 \<and>
                 \<not> time_is_zero (ca_CarbonLastUpdate (o_spec cluster))
              then do {
                age \<leftarrow> b_since E (ca_CarbonLastUpdate (o_spec cluster));
                ret (age < go_hour)
              }
              else ret False);
     if fresh then ret (computeEcoScore (ca_CarbonIntensity (o_spec cluster)))
     else case ca_Location (o_spec cluster) of
       None \<Rightarrow> ret (no_data_score, False)
     | Some loc \<Rightarrow>
         if li_Region loc = '''' then ret (no_data_score, False)
         else do {
           got \<leftarrow> carbon_forecast E D (o_Namespace cluster) (li_Region loc);
           case got of
             None \<Rightarrow> ret (no_data_score, False)
           | Some f \<Rightarrow> do {
               _ \<leftarrow> (if rf_CarbonIntensity (o_spec f) \<noteq> []
                    then b_go E (CarbonCopy (o_Name cluster) (o_Namespace cluster)
                           (rf_CarbonIntensity (o_spec f)) (rf_LastUpdateCarbon (o_spec f)))
                    else ret ());
               ret (computeEcoScore (rf_CarbonIntensity (o_spec f)))
             }
         }
   }"

text \<open>The goroutine of step 6, with the values it captured.\<close>

definition copy_carbon ::
  "('w, 'q) BrokerEnv \<Rightarrow> string \<Rightarrow> string \<Rightarrow> int list \<Rightarrow> time \<Rightarrow> ('w, unit) state" where
  "copy_carbon E clusterName ns values lu = do {
     got \<leftarrow> c_get (b_adv E) (ns, clusterName);
     case got of
       Inl _ \<Rightarrow> ret ()
     | Inr latest \<Rightarrow> do {
         _ \<leftarrow> c_update (b_adv E)
           (latest\<lparr>o_spec := (o_spec latest)\<lparr>ca_CarbonIntensity := values, ca_CarbonLastUpdate := lu\<rparr>\<rparr>);
         ret ()
       }
   }"

definition cost_string :: "'q ClusterAdvertisement \<Rightarrow> string" where
  "cost_string cluster =
     (case ca_Cost (o_spec cluster) of None \<Rightarrow> ''unknown'' | Some c \<Rightarrow> fmt2 (ci_EnergyCost c))"

record 'q RankedCluster =
  rk_Cluster :: "'q ClusterAdvertisement"
  rk_Information :: string

text \<open>\<open>for i, sc := range scoredClusters { if i >= maxResults { break } ... }\<close>\<close>

definition first_results :: "int \<Rightarrow> 'a list \<Rightarrow> 'a list" where
  "first_results maxResults xs = take (nat maxResults) xs"

definition eco_info :: "'q ScoredCluster \<Rightarrow> string" where
  "eco_info sc =
     (let currentCI = (case ca_CarbonIntensity (o_spec (sc_cluster sc)) of [] \<Rightarrow> 0 | c # _ \<Rightarrow> c);
          trend = (if sc_increase sc then ''estimated to increase'' else ''estimated to decrease'')
      in ''cost: '' @ cost_string (sc_cluster sc) @ ''. info: current carbonIntensity = '' @
         show_int currentCI @ '', '' @ trend)"

definition rankEco ::
  "('w, 'q) BrokerEnv \<Rightarrow> 'q ScoredCluster list \<Rightarrow> int \<Rightarrow> 'q RankedCluster list" where
  "rankEco E scoredClusters maxResults =
     map (\<lambda>sc. \<lparr>rk_Cluster = sc_cluster sc, rk_Information = eco_info sc\<rparr>)
       (first_results maxResults (b_sort E (\<lambda>x y. sc_score x < sc_score y) scoredClusters))"

section \<open>The weighted average\<close>

lemma eco_sums_take [simp]: "eco_sums ws (take (length ws) xs) acc = eco_sums ws xs acc"
  by (induction ws xs acc rule: eco_sums.induct) auto

lemma computeEcoScore_prefix:
  assumes "vals \<noteq> []"
  shows "computeEcoScore vals = computeEcoScore (take 6 vals)"
proof -
  obtain v vs where v: "vals = v # vs" using assms by (cases vals) auto
  show ?thesis
    by (cases vs) (auto simp: v computeEcoScore_def Let_def min_def split: list.split)
qed

lemma keeps_carbon: "quiet f E \<Longrightarrow> keeps f (fetchCarbonForecast E D r)"
  unfolding fetchCarbonForecast_def by (auto intro!: keeps_intros)

lemma keeps_carbon_forecast: "quiet f E \<Longrightarrow> keeps f (carbon_forecast E D ns r)"
  unfolding carbon_forecast_def by (auto intro!: keeps_intros keeps_carbon)

lemma keeps_scoreEco [keeps_intros]: "quiet f E \<Longrightarrow> keeps f (calculateScoreEco E D c)"
  unfolding calculateScoreEco_def by (auto intro!: keeps_intros keeps_carbon_forecast)

lemma ecoWeights_values:
  "ecoWeights = [Fin (3602879701896397/9007199254740992), Fin (1/4), Fin (5404319552844595/36028797018963968),
     Fin (3602879701896397/36028797018963968), Fin (1080863910568919/18014398509481984),
     Fin (5764607523034235/144115188075855872)]"
proof -
  have "lit (40/100) = Fin (3602879701896397/9007199254740992)"
    using rnd_cert [of 54 "40/100" 7205759403792794] by (simp add: lit_def)
  moreover have "lit (25/100) = Fin (1/4)"
    using rnd_cert [of 54 "25/100" 4503599627370496] by (simp add: lit_def)
  moreover have "lit (15/100) = Fin (5404319552844595/36028797018963968)"
    using rnd_cert [of 55 "15/100" 5404319552844595] by (simp add: lit_def)
  moreover have "lit (10/100) = Fin (3602879701896397/36028797018963968)"
    using rnd_cert [of 56 "10/100" 7205759403792794] by (simp add: lit_def)
  moreover have "lit (6/100) = Fin (1080863910568919/18014398509481984)"
    using rnd_cert [of 57 "6/100" 8646911284551352] by (simp add: lit_def)
  moreover have "lit (4/100) = Fin (5764607523034235/144115188075855872)"
    using rnd_cert [of 57 "4/100" 5764607523034235] by (simp add: lit_def)
  ultimately show ?thesis
    unfolding ecoWeights_def by simp
qed

lemma ecoWeights_range: "w \<in> set ecoWeights \<Longrightarrow> in_range (1/100) 1 w"
  by (auto simp: ecoWeights_values)

text \<open>
  The sums of two forecasts of the same length, one below the other: the scores stay ordered, the
  weights are the same, finite and at least the first weight.
\<close>

definition nonneg :: "float64 \<Rightarrow> bool" where
  "nonneg x \<longleftrightarrow> fl_le (Fin 0) x"

lemma nonneg_add: "nonneg x \<Longrightarrow> nonneg y \<Longrightarrow> nonneg (x + y)"
  using rnd_mono [of 0] by (cases x; cases y) (auto simp: nonneg_def float64_defs)

lemma nonneg_scaled: "0 \<le> i \<Longrightarrow> 0 \<le> c \<Longrightarrow> fl_of_int i * Fin c \<noteq> NaN \<Longrightarrow> nonneg (fl_of_int i * Fin c)"
  using rnd_mono [of 0 "of_int i"] rnd_mono [of 0]
  by (cases "rnd (of_int i)") (auto simp: nonneg_def float64_defs fl_of_int_def of_sign_def)

lemma scaled_not_nan: "0 < c \<Longrightarrow> fl_of_int i * Fin c \<noteq> NaN"
  by (cases "rnd (of_int i)") (auto simp: float64_defs fl_of_int_def of_sign_def)

lemma add_mono_nonneg:
  assumes "fl_le x y" "fl_le x' y'" "nonneg x" "nonneg x'"
  shows "fl_le (x + x') (y + y')"
proof -
  have ny: "nonneg y" "nonneg y'"
    using assms by (auto simp: nonneg_def dest: fl_le_trans)
  have nan: "nonneg a \<Longrightarrow> a \<noteq> NaN" for a
    by (auto simp: nonneg_def)
  have "fl_le (fl_add x x') (fl_add y x')"
    using assms nonneg_add [of x x'] nonneg_add [of y x'] ny nan
    by (intro fl_add_mono) (auto simp: float64_defs)
  moreover have "fl_le (fl_add x' y) (fl_add y' y)"
    using assms nonneg_add [of x' y] nonneg_add [of y' y] ny nan
    by (intro fl_add_mono) (auto simp: float64_defs)
  ultimately show ?thesis
    by (metis fl_add_commute fl_le_trans plus_float64_def)
qed

lemma eco_sums_mono:
  assumes "list_all2 (\<le>) xs ys" "\<forall>x \<in> set xs. 0 \<le> x" "\<forall>w \<in> set ws. \<exists>c. w = Fin c \<and> 0 < c"
    "fl_le s t" "nonneg s"
  shows "snd (eco_sums ws xs (s, u)) = snd (eco_sums ws ys (t, u)) \<and>
    fl_le (fst (eco_sums ws xs (s, u))) (fst (eco_sums ws ys (t, u)))"
  using assms
proof (induction xs ys arbitrary: ws s t u rule: list_all2_induct)
  case Nil
  then show ?case by (cases ws) auto
next
  case (Cons x xs y ys)
  show ?case
  proof (cases ws)
    case Nil
    then show ?thesis using Cons.prems by simp
  next
    case w: (Cons w ws')
    then obtain c where c: "w = Fin c" "0 < c" using Cons.prems(2) by auto
    have "fl_le (fl_of_int x * w) (fl_of_int y * w)"
      using Cons.hyps(1) c by (auto simp: fl_of_int_def times_float64_def intro!: fl_mul_mono rnd_mono)
    moreover have "nonneg (fl_of_int x * w)"
      using Cons.prems(1) c scaled_not_nan [of c x] by (auto intro: nonneg_scaled)
    ultimately have "fl_le (s + fl_of_int x * w) (t + fl_of_int y * w)" "nonneg (s + fl_of_int x * w)"
      using Cons.prems(3,4) by (auto intro: add_mono_nonneg nonneg_add)
    then show ?thesis
      using Cons.IH [of ws' "s + fl_of_int x * w" "t + fl_of_int y * w" "u + w"] Cons.prems(1,2) w
      by auto
  qed
qed

text \<open>The sum of the weights of up to six values is a number between a quarter and six.\<close>

lemma eco_total:
  assumes "in_range (1/4) k u" "\<forall>w \<in> set ws. in_range 0 1 w" "\<forall>n \<le> length ws. rnd (k + of_nat n) = Fin (k + of_nat n)"
  shows "in_range (1/4) (k + of_nat (length ws)) (snd (eco_sums ws xs (s, u)))"
  using assms
proof (induction ws xs "(s, u)" arbitrary: s u k rule: eco_sums.induct)
  case (1 w ws x xs s u)
  have q: "rnd (1/4) = Fin (1/4)"
    using rnd_cert [of 54 "1/4" 4503599627370496] by simp
  have "in_range (1/4) (k + 1) (u + w)"
    using 1(2,3,4) q by (intro in_range_fl_add [of "1/4" k u 0 1 w]) auto
  moreover have "\<forall>n \<le> length ws. rnd (k + 1 + of_nat n) = Fin (k + 1 + of_nat n)"
    using 1(4) by (auto simp: add.assoc dest: spec [of _ "Suc _"])
  ultimately have "in_range (1/4) (k + 1 + of_nat (length ws)) (snd (eco_sums ws xs (s + fl_of_int x * w, u + w)))"
    using 1(1) [of "k + 1"] 1(3) by simp
  then show ?case by (simp add: add.assoc add.commute add.left_commute)
qed (auto elim: in_range_weaken)

lemma rnd_small_nat: "n \<le> 12 \<Longrightarrow> rnd (of_nat n) = Fin (of_nat n)"
  using rnd_int [of "int n"] by simp

lemma eco_total_pos:
  assumes "x # xs = vals"
  obtains c where "snd (eco_sums ecoWeights vals (0, 0)) = Fin c" "0 < c"
proof -
  have q: "rnd (1/4) = Fin (1/4)"
    using rnd_cert [of 54 "1/4" 4503599627370496] by simp
  obtain w ws where w: "ecoWeights = w # ws"
    by (simp add: ecoWeights_def)
  have len: "length ws = 5"
    using w by (auto simp: ecoWeights_def)
  have range: "in_range (1/4) 1 w" "\<forall>u \<in> set ws. in_range 0 1 u"
    using w by (auto simp: ecoWeights_values)
  then obtain c where c: "w = Fin c" "1/4 \<le> c" "c \<le> 1"
    by (auto simp: in_range_def)
  then have "in_range (1/4) 1 (0 + w)"
    using q rnd_zero_one by (auto simp: float64_defs intro!: in_range_rnd)
  moreover have "\<forall>n \<le> length ws. rnd (1 + of_nat n) = Fin (1 + of_nat n)"
    using rnd_small_nat [of "Suc _"] by (auto simp: len)
  ultimately have "in_range (1/4) (1 + of_nat (length ws)) (snd (eco_sums ws xs (0 + fl_of_int x * w, 0 + w)))"
    using range(2) by (intro eco_total)
  then obtain d where "snd (eco_sums ws xs (0 + fl_of_int x * w, 0 + w)) = Fin d" "1/4 \<le> d"
    by (rule in_rangeE)
  moreover have "eco_sums ecoWeights vals (0, 0) = eco_sums ws xs (0 + fl_of_int x * w, 0 + w)"
    unfolding w assms [symmetric] by (rule eco_sums.simps(1))
  ultimately show ?thesis
    by (intro that [of d]) simp_all
qed

lemma computeEcoScore_Cons:
  "computeEcoScore (x # xs) =
    (fst (eco_sums ecoWeights (x # xs) (0, 0)) / snd (eco_sums ecoWeights (x # xs) (0, 0)),
     case xs of [] \<Rightarrow> False | y # _ \<Rightarrow> x < y)"
proof -
  have "length ecoWeights = 6" by (simp add: ecoWeights_def)
  then have "eco_sums ecoWeights (take 6 (x # xs)) (0, 0) = eco_sums ecoWeights (x # xs) (0, 0)"
    by (metis eco_sums_take)
  moreover have "take (min (length (x # xs)) 6) (x # xs) = take 6 (x # xs)"
    by (metis min.commute take_all_iff take_take nle_le order_refl)
  moreover have "(if length (x # xs) > 6 then 6 else length (x # xs)) = min (length (x # xs)) 6"
    by simp
  ultimately show ?thesis
    unfolding computeEcoScore_def by (simp add: Let_def split_beta)
qed

section \<open>Properties\<close>

text \<open>
  The eco score orders clusters by their forecast: of two forecasts of the same length with
  non-negative intensities, one below the other hour by hour, the lower one never has the higher
  score, and only the first six hours and the step from the first hour to the second count.
\<close>

theorem eco_score_monotone:
  assumes "list_all2 (\<le>) xs ys" "\<forall>x \<in> set xs. 0 \<le> x"
  shows "fl_le (fst (computeEcoScore xs)) (fst (computeEcoScore ys)) \<and>
    (xs \<noteq> [] \<longrightarrow> computeEcoScore xs = computeEcoScore (take 6 xs))"
proof (cases xs)
  case Nil
  then show ?thesis
    using assms(1) by (simp add: computeEcoScore_def no_data_score_def lit_def)
next
  case (Cons x xs')
  then obtain y ys' where y: "ys = y # ys'"
    using assms(1) by (auto simp: list_all2_Cons1)
  have sums: "snd (eco_sums ecoWeights xs (0, 0)) = snd (eco_sums ecoWeights ys (0, 0)) \<and>
      fl_le (fst (eco_sums ecoWeights xs (0, 0))) (fst (eco_sums ecoWeights ys (0, 0)))"
    using assms ecoWeights_range
    by (intro eco_sums_mono) (fastforce simp: nonneg_def zero_float64_def elim: in_rangeE)+
  obtain c where "snd (eco_sums ecoWeights xs (0, 0)) = Fin c" "0 < c"
    using eco_total_pos [of x xs' xs] Cons by metis
  with sums have "fl_le (fst (eco_sums ecoWeights xs (0, 0)) / snd (eco_sums ecoWeights xs (0, 0)))
      (fst (eco_sums ecoWeights ys (0, 0)) / snd (eco_sums ecoWeights ys (0, 0)))"
    using fl_div_mono [of "fst (eco_sums ecoWeights xs (0, 0))" "fst (eco_sums ecoWeights ys (0, 0))" c]
    by (simp add: divide_float64_def)
  then have "fl_le (fst (computeEcoScore xs)) (fst (computeEcoScore ys))"
    unfolding Cons y computeEcoScore_Cons by simp
  with Cons computeEcoScore_prefix [of xs] show ?thesis by simp
qed

lemma eco_score_monotone_witness:
  "fl_le (fst (computeEcoScore [100, 90])) (fst (computeEcoScore [100, 95]))"
  using eco_score_monotone [of "[100, 90]" "[100, 95]"] by simp

text \<open>
  Where a score comes from: fresh values of the advertisement win without any call; a cluster
  without a region, or one for which neither the cache nor the service has anything, gets the
  penalty 999; values of the region's forecast are scored and handed to the background copy.
\<close>

theorem eco_score_sources:
  assumes "run_state (b_now E) w = (t, w)" "run_state (calculateScoreEco E D c) w = (r, w')"
  shows "(let own = ca_CarbonIntensity (o_spec c); last = ca_CarbonLastUpdate (o_spec c) in
      own \<noteq> [] \<and> last \<noteq> 0 \<and> time_sub t last < go_hour \<and> r = computeEcoScore own \<and> w' = w) \<or>
    (r = (no_data_score, False) \<and>
      (w' = w \<or> (\<exists>loc. ca_Location (o_spec c) = Some loc \<and>
         run_state (carbon_forecast E D (o_Namespace c) (li_Region loc)) w = (None, w')))) \<or>
    (\<exists>loc f w1. ca_Location (o_spec c) = Some loc \<and> li_Region loc \<noteq> '''' \<and>
       run_state (carbon_forecast E D (o_Namespace c) (li_Region loc)) w = (Some f, w1) \<and>
       r = computeEcoScore (rf_CarbonIntensity (o_spec f)) \<and>
       (rf_CarbonIntensity (o_spec f) = [] \<and> w' = w1 \<or>
        ((), w') = run_state (b_go E (CarbonCopy (o_Name c) (o_Namespace c)
          (rf_CarbonIntensity (o_spec f)) (rf_LastUpdateCarbon (o_spec f)))) w1))"
proof -
  have since: "run_state (b_since E u) w = (time_sub t u, w)" for u
    by (simp add: b_since_def assms(1))
  define own where "own = ca_CarbonIntensity (o_spec c)"
  define fresh where "fresh = (own \<noteq> [] \<and> ca_CarbonLastUpdate (o_spec c) \<noteq> 0 \<and>
    time_sub t (ca_CarbonLastUpdate (o_spec c)) < go_hour)"
  show ?thesis
  proof (cases fresh)
    case True
    then have "r = computeEcoScore own \<and> w' = w"
      using assms(2) since
      by (auto simp: calculateScoreEco_def time_is_zero_def fresh_def own_def Suc_le_eq)
    with True show ?thesis by (simp add: fresh_def own_def Let_def)
  next
    case False
    then have rest: "run_state (case ca_Location (o_spec c) of
         None \<Rightarrow> ret (no_data_score, False)
       | Some loc \<Rightarrow>
           if li_Region loc = '''' then ret (no_data_score, False)
           else State_Monad.bind (carbon_forecast E D (o_Namespace c) (li_Region loc)) (\<lambda>got. case got of
               None \<Rightarrow> ret (no_data_score, False)
             | Some f \<Rightarrow> State_Monad.bind (if rf_CarbonIntensity (o_spec f) \<noteq> []
                    then b_go E (CarbonCopy (o_Name c) (o_Namespace c)
                           (rf_CarbonIntensity (o_spec f)) (rf_LastUpdateCarbon (o_spec f)))
                    else ret ()) (\<lambda>_. ret (computeEcoScore (rf_CarbonIntensity (o_spec f)))))) w = (r, w')"
      using assms(2) since
      by (auto simp: calculateScoreEco_def time_is_zero_def fresh_def own_def Suc_le_eq split: if_splits)
    show ?thesis
    proof (cases "ca_Location (o_spec c)")
      case None
      with rest show ?thesis by simp
    next
      case (Some loc)
      obtain got w1 where got: "run_state (carbon_forecast E D (o_Namespace c) (li_Region loc)) w = (got, w1)"
        by fastforce
      with rest Some show ?thesis
        by (cases "li_Region loc = ''''"; cases got) (auto split: if_splits prod.splits)
    qed
  qed
qed

lemma eco_score_sources_witness:
  "fst (run_state (calculateScoreEco mem_env sample_engine (sample_adv ''b'' 6 48)) empty_world) =
    (no_data_score, False)"
proof -
  obtain r w' where run: "run_state (calculateScoreEco mem_env sample_engine (sample_adv ''b'' 6 48)) empty_world = (r, w')"
    by fastforce
  have "run_state (b_now mem_env) empty_world = (10 * go_hour, empty_world)"
    by (simp add: empty_world_def)
  from eco_score_sources [OF this run] run show ?thesis
    by (auto simp: sample_defs)
qed

text \<open>
  The background copy never disturbs the accounting: it changes at most the carbon fields of
  the one advertisement it was started for, so Available, Reserved, the policy and the status of
  every advertisement stay as they are in the API at that moment.
\<close>

theorem carbon_copy_frame:
  assumes "broker_world E v advs rsvs" "run_state (copy_carbon E name ns vals lu) w = (u, w')" "advs w' k = Some a'"
  shows "\<exists>a. advs w k = Some a \<and> adv_resources a' = adv_resources a \<and> o_status a' = o_status a \<and>
    o_spec a' = (o_spec a)\<lparr>ca_CarbonIntensity := ca_CarbonIntensity (o_spec a'),
      ca_CarbonLastUpdate := ca_CarbonLastUpdate (o_spec a')\<rparr> \<and>
    (a' = a \<or> k = (ns, name) \<and> ca_CarbonIntensity (o_spec a') = vals)"
proof -
  note adv = broker_worldD(2) [OF assms(1)]
  obtain got w1 where get: "run_state (c_get (b_adv E) (ns, name)) w = (got, w1)" by fastforce
  have same: "advs w1 = advs w"
    by (rule kube_client.get_same [OF adv get])
  show ?thesis
  proof (cases got)
    case (Inl e)
    then show ?thesis using assms(2,3) get same by (auto simp: copy_carbon_def)
  next
    case (Inr latest)
    define x where "x = latest\<lparr>o_spec := (o_spec latest)\<lparr>ca_CarbonIntensity := vals, ca_CarbonLastUpdate := lu\<rparr>\<rparr>"
    obtain r w2 where upd: "run_state (c_update (b_adv E) x) w1 = (r, w2)" by fastforce
    have w': "w' = w2"
      using assms(2) get Inr upd by (simp add: copy_carbon_def x_def)
    have key: "obj_key x = (ns, name)" "advs w (ns, name) = Some latest"
      using kube_client.get_found [OF adv, of "(ns, name)" w latest w1] get Inr by (simp_all add: x_def)
    from kube_client.update_after [OF adv upd, of k a'] assms(3) w' same key show ?thesis
      by (auto simp: x_def)
  qed
qed

lemma carbon_copy_frame_witness:
  "\<exists>a. mem_advs (empty_world\<lparr>mw_advs := [sample_adv ''b'' 6 48]\<rparr>) (''default'', ''b-adv'') = Some a \<and>
    adv_resources (sample_adv ''b'' 6 48) = adv_resources a"
proof -
  define w where "w = empty_world\<lparr>mw_advs := [sample_adv ''b'' 6 48]\<rparr>"
  have "run_state (copy_carbon mem_env ''other'' ''default'' [1] 1) w = ((), w)"
    by (simp add: copy_carbon_def w_def sample_defs meta_key_def)
  moreover have "mem_advs w (''default'', ''b-adv'') = Some (sample_adv ''b'' 6 48)"
    by (simp add: w_def sample_defs meta_key_def)
  ultimately show ?thesis
    using carbon_copy_frame [OF mem.broker_world_axioms, of "''other''" "''default''" "[1]" 1 w "()" w]
    unfolding w_def by blast
qed

end
