(* ===== verification/DecisionLatency.thy ===== *)
theory DecisionLatency
  imports DecisionEco
begin

text \<open>
  The latency policy (resource-broker/internal/broker/decisionLatency.go): measured latencies come
  from NetworkBond objects, estimates from the great-circle distance of the two locations; the
  best cluster the requester never connected to is promoted to the front of the ranking.
\<close>

section \<open>Estimates\<close>

definition math_Pi :: float64 where
  "math_Pi = lit (314159265358979323846264338327950288419716939937510582097494459 / 10 ^ 62)"

definition toRad :: "float64 \<Rightarrow> float64" where
  "toRad deg = deg * math_Pi / lit 180"

text \<open>The penalty for crossing two known, different autonomous systems or providers.\<close>

definition crossing_penalty :: "string \<Rightarrow> string \<Rightarrow> float64 \<Rightarrow> float64" where
  "crossing_penalty x y rttMs = (if x \<noteq> '''' \<and> y \<noteq> '''' \<and> x \<noteq> y then rttMs + lit 20 else rttMs)"

definition haversine_a :: "MathOps \<Rightarrow> LocationInfo \<Rightarrow> LocationInfo \<Rightarrow> float64" where
  "haversine_a M loc1 loc2 =
     (let phi1 = toRad (li_Lat loc1);
          phi2 = toRad (li_Lat loc2);
          dPhi = toRad (li_Lat loc2 - li_Lat loc1);
          dLambda = toRad (li_Lon loc2 - li_Lon loc1)
      in mt_sin M (dPhi / lit 2) * mt_sin M (dPhi / lit 2) +
         mt_cos M phi1 * mt_cos M phi2 * mt_sin M (dLambda / lit 2) * mt_sin M (dLambda / lit 2))"

definition estimatedRTTms :: "MathOps \<Rightarrow> LocationInfo \<Rightarrow> LocationInfo \<Rightarrow> float64" where
  "estimatedRTTms M loc1 loc2 =
     (let a = haversine_a M loc1 loc2;
          c = lit 2 * mt_atan2 M (mt_sqrt M a) (mt_sqrt M (1 - a));
          distanceKm = lit 6371 * c;
          fiberDistanceKm = distanceKm * lit (13/10);
          rttMs = (fiberDistanceKm * lit 2) / lit 200
      in crossing_penalty (li_ISP loc1) (li_ISP loc2) (crossing_penalty (li_AS loc1) (li_AS loc2) rttMs))"

definition regionMatch :: "LocationInfo option \<Rightarrow> LocationInfo option \<Rightarrow> string" where
  "regionMatch loc1 loc2 =
     (case (loc1, loc2) of
        (Some l1, Some l2) \<Rightarrow>
          if li_Region l1 = '''' \<or> li_Region l2 = '''' then ''''
          else let (a, b) = (if str_less (li_Region l2) (li_Region l1)
                             then (li_Region l2, li_Region l1) else (li_Region l1, li_Region l2))
               in a @ ''-'' @ b
      | _ \<Rightarrow> '''')"

section \<open>The score\<close>

text \<open>\<open>None\<close> is the panic of \<open>estimatedRTTms\<close> on a nil location.\<close>

definition rtt_between :: "MathOps \<Rightarrow> 'q ClusterAdvertisement \<Rightarrow> 'q ClusterAdvertisement \<Rightarrow> float64 option" where
  "rtt_between M requesterAdv cluster =
     (case (ca_Location (o_spec requesterAdv), ca_Location (o_spec cluster)) of
        (Some l1, Some l2) \<Rightarrow> Some (estimatedRTTms M l1 l2)
      | _ \<Rightarrow> None)"

definition measured_between :: "string \<Rightarrow> NetworkBond list \<Rightarrow> float64" where
  "measured_between match bonds =
     (case List.find (\<lambda>b. nb_Match (o_spec b) = match \<and> nb_ActualLatency (o_spec b) > 0) bonds of
        None \<Rightarrow> 0
      | Some b \<Rightarrow> nb_ActualLatency (o_spec b))"

definition calculateScoreLatency ::
  "('w, 'q) BrokerEnv \<Rightarrow> 'q ClusterAdvertisement \<Rightarrow> 'q ClusterAdvertisement \<Rightarrow>
   ('w, (float64 \<times> bool) option) state" where
  "calculateScoreLatency E requesterAdv cluster = do {
     let bondName = adv_id requesterAdv @ ''-'' @ adv_id cluster;
     found \<leftarrow> c_get (b_bond E) (o_Namespace cluster, bondName);
     case found of
       Inr bond \<Rightarrow> do {
         expired \<leftarrow> (if time_is_zero (nb_Timestamp (o_spec bond)) then ret False
                    else do {
                      age \<leftarrow> b_since E (nb_Timestamp (o_spec bond));
                      ret (age > 30 * 24 * go_hour)
                    });
         if expired then
           (case rtt_between (b_math E) requesterAdv cluster of
              None \<Rightarrow> ret None
            | Some rtt \<Rightarrow> do {
                now \<leftarrow> b_now E;
                let renewed = bond\<lparr>o_spec := (o_spec bond)\<lparr>nb_ActualLatency := 0,
                      nb_EstimatedLatency := rtt, nb_Timestamp := now\<rparr>\<rparr>;
                stored \<leftarrow> c_update (b_bond E) renewed;
                ret (Some (nb_EstimatedLatency (o_spec (case stored of Inl _ \<Rightarrow> renewed | Inr b \<Rightarrow> b)), False))
              })
         else if nb_ActualLatency (o_spec bond) > 0 then ret (Some (nb_ActualLatency (o_spec bond), True))
         else ret (Some (nb_EstimatedLatency (o_spec bond), False))
       }
     | Inl _ \<Rightarrow> do {
         let match = regionMatch (ca_Location (o_spec requesterAdv)) (ca_Location (o_spec cluster));
         measured \<leftarrow> (if match \<noteq> '''' then do {
                         listed \<leftarrow> c_list (b_bond E);
                         ret (case listed of Inl _ \<Rightarrow> 0 | Inr bonds \<Rightarrow> measured_between match bonds)
                       }
                       else ret 0);
         case (if measured = 0 then rtt_between (b_math E) requesterAdv cluster else Some measured) of
           None \<Rightarrow> ret None
         | Some latency \<Rightarrow> do {
             _ \<leftarrow> b_go E (CreateBond bondName (o_Namespace cluster) (adv_id requesterAdv) (adv_id cluster) latency match);
             ret (Some (latency, False))
           }
       }
   }"

text \<open>The goroutine of step 2b.\<close>

definition create_bond ::
  "('w, 'q) BrokerEnv \<Rightarrow> string \<Rightarrow> string \<Rightarrow> string \<Rightarrow> string \<Rightarrow> float64 \<Rightarrow> string \<Rightarrow> ('w, unit) state" where
  "create_bond E bondName ns reqID provID lat m = do {
     _ \<leftarrow> c_create (b_bond E)
       \<lparr>o_meta = new_meta bondName ns,
        o_spec = \<lparr>nb_RequesterClusterID = reqID, nb_ProviderClusterID = provID, nb_EstimatedLatency = lat,
          nb_ActualLatency = 0, nb_Timestamp = 0, nb_Match = m\<rparr>,
        o_status = \<lparr>nbs_LastUpdateTime = 0\<rparr>\<rparr>;
     ret ()
   }"

definition run_job :: "('w, 'q) BrokerEnv \<Rightarrow> background_job \<Rightarrow> ('w, unit) state" where
  "run_job E j =
     (case j of
        CarbonCopy name ns vals lu \<Rightarrow> copy_carbon E name ns vals lu
      | CreateBond bondName ns reqID provID lat m \<Rightarrow> create_bond E bondName ns reqID provID lat m)"

section \<open>The ranking\<close>

text \<open>The index of the first element that was never connected to, the loop's \<open>i\<close> when it breaks.\<close>

fun first_never :: "'q ScoredCluster list \<Rightarrow> nat option" where
  "first_never [] = None"
| "first_never (sc # scs) = (if \<not> sc_isActual sc then Some 0 else map_option Suc (first_never scs))"

definition promote_never :: "'q ScoredCluster list \<Rightarrow> 'q ScoredCluster list" where
  "promote_never scs =
     (case first_never scs of
        None \<Rightarrow> scs
      | Some i \<Rightarrow> scs ! i # take i scs @ drop (Suc i) scs)"

definition latency_info :: "'q ScoredCluster \<Rightarrow> string" where
  "latency_info sc =
     (let baseInfo = (if sc_isActual sc then ''Already connected with this cluster''
                      else ''Never connected to this cluster'')
      in ''cost: '' @ cost_string (sc_cluster sc) @ ''. info: '' @ baseInfo)"

definition rankLatency ::
  "('w, 'q) BrokerEnv \<Rightarrow> 'q ScoredCluster list \<Rightarrow> int \<Rightarrow> 'q RankedCluster list" where
  "rankLatency E scoredClusters maxResults =
     map (\<lambda>sc. \<lparr>rk_Cluster = sc_cluster sc, rk_Information = latency_info sc\<rparr>)
       (first_results maxResults
         (promote_never (b_sort E (\<lambda>x y. sc_score x < sc_score y) scoredClusters)))"

lemma keeps_scoreLatency [keeps_intros]: "quiet f E \<Longrightarrow> keeps f (calculateScoreLatency E r c)"
  unfolding calculateScoreLatency_def Let_def by (auto intro!: keeps_intros)

lemma calculateScoreLatency_no_panic:
  assumes "ca_Location (o_spec r) \<noteq> None" "ca_Location (o_spec c) \<noteq> None"
  shows "fst (run_state (calculateScoreLatency E r c) w) \<noteq> None"
proof -
  obtain rtt where "rtt_between (b_math E) r c = Some rtt"
    using assms by (auto simp: rtt_between_def)
  then show ?thesis
    by (auto simp: calculateScoreLatency_def Let_def split_beta split: sum.split)
qed

lemma first_neverE:
  assumes "first_never scs = Some i"
  shows "i < length scs" "\<not> sc_isActual (scs ! i)" "\<forall>j < i. sc_isActual (scs ! j)"
  using assms
proof (induction scs arbitrary: i)
  case (Cons sc scs)
  {
    case 1
    then show ?case using Cons.IH(1) by (auto split: if_splits)
  next
    case 2
    then show ?case using Cons.IH(2) by (auto split: if_splits)
  next
    case 3
    then show ?case using Cons.IH(3) by (auto simp: less_Suc_eq_0_disj split: if_splits)
  }
qed simp_all

lemma first_never_None: "first_never scs = None \<longleftrightarrow> (\<forall>sc \<in> set scs. sc_isActual sc)"
  by (induction scs) auto

lemma mset_promote [simp]: "mset (promote_never scs) = mset scs"
proof (cases "first_never scs")
  case (Some i)
  then show ?thesis
    using mset_remove_at [of i scs] first_neverE(1) [OF Some] by (simp add: promote_never_def)
qed (simp add: promote_never_def)

section \<open>Properties\<close>

lemma toRad_minus: "toRad (- x) = - toRad x"
  by (simp add: toRad_def float_neg_simps)

text \<open>
  The estimated round trip time does not depend on which of the two clusters asks, provided
  the sine is an odd function.
\<close>

theorem estimatedRTT_symmetric:
  assumes "\<And>x. mt_sin M (- x) = - mt_sin M x"
  shows "estimatedRTTms M l1 l2 = estimatedRTTms M l2 l1"
proof -
  have half: "mt_sin M (toRad (x - y) / lit 2) = - mt_sin M (toRad (y - x) / lit 2)" for x y
    by (subst float_minus_swap) (simp add: toRad_minus float_neg_simps assms)
  have "haversine_a M l1 l2 = haversine_a M l2 l1"
    unfolding haversine_a_def Let_def half [of "li_Lat l2"] half [of "li_Lon l2"]
    by (simp add: float_neg_simps float_mul_commute [of "mt_cos M (toRad (li_Lat l1))"])
  moreover have "crossing_penalty x y = crossing_penalty y x" for x y
    by (auto simp: crossing_penalty_def)
  ultimately show ?thesis
    unfolding estimatedRTTms_def Let_def by metis
qed

lemma estimatedRTT_symmetric_witness:
  "estimatedRTTms (b_math mem_env) (sample_location ''PIE'') (sample_location ''LOM'') =
   estimatedRTTms (b_math mem_env) (sample_location ''LOM'') (sample_location ''PIE'')"
  by (rule estimatedRTT_symmetric) (simp add: mem_env_def)

text \<open>
  The key under which bonds of a pair of regions are found is the same for both directions,
  and it is empty exactly when one of the regions is unknown.
\<close>

theorem regionMatch_symmetric:
  "regionMatch l1 l2 = regionMatch l2 l1 \<and>
   (regionMatch l1 l2 = '''' \<longleftrightarrow> \<not> (\<exists>a b. l1 = Some a \<and> l2 = Some b \<and> li_Region a \<noteq> '''' \<and> li_Region b \<noteq> ''''))"
proof (cases l1; cases l2)
  fix a b
  assume "l1 = Some a" "l2 = Some b"
  then show ?thesis
    using str_less_asym [of "li_Region a" "li_Region b"] str_less_total [of "li_Region a" "li_Region b"]
    by (auto simp: regionMatch_def)
qed (auto simp: regionMatch_def)

text \<open>
  A score counts as measured only when the bond of the two clusters exists, is not older than
  thirty days and has a positive measured latency, and then it is that latency and nothing is
  written or started; in every other answer of the bond lookup the score is marked as an estimate.
\<close>

theorem measured_score:
  assumes "kube_client (b_bond E) bonds" "keeps bonds (b_now E)"
    "run_state (calculateScoreLatency E requesterAdv cluster) w = (Some (score, True), w')"
  shows "\<exists>bond. bonds w (o_Namespace cluster, adv_id requesterAdv @ ''-'' @ adv_id cluster) = Some bond \<and>
    score = nb_ActualLatency (o_spec bond) \<and> 0 < score \<and> bonds w' = bonds w \<and>
    (nb_Timestamp (o_spec bond) \<noteq> 0 \<longrightarrow>
      (\<exists>t w1 w2. run_state (b_now E) w1 = (t, w2) \<and> time_sub t (nb_Timestamp (o_spec bond)) \<le> 30 * 24 * go_hour))"
proof -
  define k where "k = (o_Namespace cluster, adv_id requesterAdv @ ''-'' @ adv_id cluster)"
  obtain found w1 where get: "run_state (c_get (b_bond E) k) w = (found, w1)" by fastforce
  show ?thesis
  proof (cases found)
    case (Inl e)
    then show ?thesis
      using assms(3) get
      by (auto simp: calculateScoreLatency_def Let_def k_def split_beta split: option.splits if_splits)
  next
    case (Inr bond)
    obtain t w2 where now: "run_state (b_now E) w1 = (t, w2)" by fastforce
    have b: "bonds w k = Some bond" "bonds w1 = bonds w" "bonds w2 = bonds w1"
      using kube_client.get_found [OF assms(1), of k w bond w1] get Inr
        kube_client.get_same [OF assms(1) get] keepsD [OF assms(2) now] by simp_all
    show ?thesis
    proof (cases "nb_Timestamp (o_spec bond) = 0")
      case True
      with assms(3) get Inr b show ?thesis
        by (auto simp: calculateScoreLatency_def Let_def time_is_zero_def k_def split: if_splits)
    next
      case False
      have run: "run_state (b_since E (nb_Timestamp (o_spec bond))) w1 = (time_sub t (nb_Timestamp (o_spec bond)), w2)"
        using now by (simp add: b_since_def)
      show ?thesis
      proof (cases "time_sub t (nb_Timestamp (o_spec bond)) > 30 * 24 * go_hour")
        case True
        with False assms(3) get Inr run show ?thesis
          by (auto simp: calculateScoreLatency_def Let_def time_is_zero_def k_def split_beta split: option.splits)
      next
        case fresh: False
        with False assms(3) get Inr run have "score = nb_ActualLatency (o_spec bond)" "0 < score" "w' = w2"
          by (auto simp: calculateScoreLatency_def Let_def time_is_zero_def k_def split: if_splits)
        moreover have "time_sub t (nb_Timestamp (o_spec bond)) \<le> 30 * 24 * go_hour"
          using fresh by simp
        ultimately show ?thesis
          using b now by (intro exI [of _ bond] conjI impI exI [of _ t] exI [of _ w1] exI [of _ w2])
            (simp_all only: k_def)
      qed
    qed
  qed
qed

definition bond_world :: mem_world where
  "bond_world = empty_world\<lparr>mw_bonds :=
     [\<lparr>o_meta = new_meta ''a-b'' ''default'',
       o_spec = \<lparr>nb_RequesterClusterID = ''a'', nb_ProviderClusterID = ''b'', nb_EstimatedLatency = 0,
         nb_ActualLatency = Fin 7, nb_Timestamp = go_hour, nb_Match = []\<rparr>,
       o_status = \<lparr>nbs_LastUpdateTime = 0\<rparr>\<rparr>]\<rparr>"

lemma measured_score_witness:
  "\<exists>bond. store_get (mw_bonds bond_world) (''default'', ''a-b'') = Some bond \<and>
    Fin 7 = nb_ActualLatency (o_spec bond)"
proof -
  have bonds: "kube_client (b_bond mem_env) (\<lambda>w. store_get (mw_bonds w))"
    using bond_lens.kube_client_axioms by simp
  have clock: "keeps (\<lambda>w. store_get (mw_bonds w)) (b_now mem_env)"
    by (simp add: keeps_def)
  have "run_state (calculateScoreLatency mem_env (sample_adv ''a'' 6 48) (sample_adv ''b'' 6 48)) bond_world =
      (Some (Fin 7, True), bond_world)"
    by (simp add: calculateScoreLatency_def bond_world_def empty_world_def sample_defs meta_key_def
        time_is_zero_def duration_defs float64_defs Let_def)
  from measured_score [OF bonds clock this] show ?thesis
    by (auto simp: sample_defs)
qed

lemma strict_weak_score:
  "\<forall>x \<in> S. sc_score x \<noteq> NaN \<Longrightarrow> strict_weak (\<lambda>x y. sc_score x < sc_score y) S"
proof -
  assume n: "\<forall>x \<in> S. sc_score x \<noteq> NaN"
  have "a < b \<or> b < c" if "a < c" "a \<noteq> NaN" "b \<noteq> NaN" "c \<noteq> NaN" for a b c :: float64
    using that float_not_less [of a b] float_not_less [of b c] fl_le_trans [of c b a]
    by (auto simp: float64_defs)
  moreover have "\<not> b < a" if "a < b" for a b :: float64
    using that by (auto simp: float64_defs)
  ultimately show ?thesis
    unfolding strict_weak_def using n by blast
qed

lemma promote_neverE:
  assumes "sorted_wrt (\<lambda>x y. \<not> lt y x) scs" "\<forall>x. \<not> lt x x"
  shows "promote_never scs = scs \<and> (\<forall>x \<in> set scs. sc_isActual x) \<or>
    (\<exists>p rest. promote_never scs = p # rest \<and> p \<in> set scs \<and> \<not> sc_isActual p \<and> sorted_wrt (\<lambda>x y. \<not> lt y x) rest \<and>
       (\<forall>x \<in> set scs. \<not> sc_isActual x \<longrightarrow> \<not> lt x p))"
proof (cases "first_never scs")
  case None
  then have "promote_never scs = scs" by (simp add: promote_never_def)
  with None show ?thesis by (simp add: first_never_None)
next
  case (Some i)
  note i = first_neverE [OF Some]
  have "sorted_wrt (\<lambda>x y. \<not> lt y x) (take i scs @ drop (Suc i) scs)"
  proof -
    have "sorted_wrt (\<lambda>x y. \<not> lt y x) (take i scs @ scs ! i # drop (Suc i) scs)"
      using assms(1) by (simp only: id_take_nth_drop [OF i(1), symmetric])
    then show ?thesis by (auto simp: sorted_wrt_append)
  qed
  moreover have "\<not> lt (scs ! j) (scs ! i)" if "j < length scs" "\<not> sc_isActual (scs ! j)" for j
  proof -
    have "i \<le> j" using i(3) that(2) by (meson not_le)
    then show ?thesis
      using assms that(1) sorted_wrt_nth_less [OF assms(1), of i j] by (cases "i = j") auto
  qed
  ultimately show ?thesis
    using Some i(1,2) by (auto simp: promote_never_def in_set_conv_nth)
qed

text \<open>
  C38. The latency ranking: the results are the first \<open>maxResults\<close> of a rearrangement of the scored
  clusters. If some cluster was never connected to, the first one is such a cluster with the
  lowest score among them; and apart from that first one the order is by ascending score.
\<close>

theorem latency_ranking:
  assumes "sort_slice (b_sort E)" "\<forall>x \<in> set scs. sc_score x \<noteq> NaN"
  shows "\<exists>order. mset order = mset scs \<and>
    map rk_Cluster (rankLatency E scs n) = map sc_cluster (take (nat n) order) \<and>
    (if \<exists>x \<in> set scs. \<not> sc_isActual x
     then order \<noteq> [] \<and> \<not> sc_isActual (hd order) \<and>
       (\<forall>x \<in> set scs. \<not> sc_isActual x \<longrightarrow> \<not> sc_score x < sc_score (hd order)) \<and>
       sorted_wrt (\<lambda>x y. \<not> sc_score y < sc_score x) (tl order)
     else sorted_wrt (\<lambda>x y. \<not> sc_score y < sc_score x) order)"
proof -
  define sorted where "sorted = b_sort E (\<lambda>x y. sc_score x < sc_score y) scs"
  have ms: "mset sorted = mset scs" "set sorted = set scs"
    using sort_slice.mset_sort [OF assms(1)] sort_slice.set_sort [OF assms(1)] by (simp_all add: sorted_def)
  have sw: "sorted_wrt (\<lambda>x y. \<not> sc_score y < sc_score x) sorted"
    unfolding sorted_def by (rule sort_slice.sorted_sort [OF assms(1) strict_weak_score [OF assms(2)]])
  have "map rk_Cluster (rankLatency E scs n) = map sc_cluster (take (nat n) (promote_never sorted))"
    by (simp add: rankLatency_def first_results_def sorted_def o_def)
  with promote_neverE [of "\<lambda>x y. sc_score x < sc_score y", OF sw] ms sw show ?thesis
    by (intro exI [of _ "promote_never sorted"]) auto
qed

definition sample_scored :: "string \<Rightarrow> rat \<Rightarrow> bool \<Rightarrow> nano_quantity ScoredCluster" where
  "sample_scored cid score actual =
     \<lparr>sc_cluster = sample_adv cid 6 48, sc_score = Fin score, sc_isActual = actual, sc_increase = False\<rparr>"

lemma latency_ranking_witness:
  "\<exists>order. mset order = mset [sample_scored ''b'' 3 True, sample_scored ''c'' 9 False] \<and>
    map rk_Cluster (rankLatency mem_env [sample_scored ''b'' 3 True, sample_scored ''c'' 9 False] 1) =
      map sc_cluster (take 1 order) \<and> \<not> sc_isActual (hd order)"
proof -
  have "sort_slice (b_sort mem_env)"
    by (simp add: insertion.sort_slice_axioms)
  from latency_ranking [OF this, of "[sample_scored ''b'' 3 True, sample_scored ''c'' 9 False]" 1]
  show ?thesis
    by (auto simp: sample_scored_def)
qed

end
