(* ===== verification/Decision.thy ===== *)
theory Decision
  imports DecisionLatency
begin

text \<open>
  The decision engine (resource-broker/internal/broker/decision.go): \<open>RankClusters\<close> lists the
  advertisements, refreshes the energy prices, keeps the active clusters other than the requester
  that have the requested resources, scores them by the requester's policy and returns the best
  ones. \<open>None\<close> is a panic (a nil pointer dereference), which \<open>RankClusters\<close> never has.
\<close>

section \<open>Filters and scores\<close>

definition gpu_requested :: "'q QuantityOps \<Rightarrow> 'q option \<Rightarrow> 'q option" where
  "gpu_requested Q requestedGPU =
     (case requestedGPU of None \<Rightarrow> None | Some g \<Rightarrow> if q_Sign Q g > 0 then Some g else None)"

definition hasEnoughResources ::
  "'q QuantityOps \<Rightarrow> 'q ClusterAdvertisement \<Rightarrow> 'q \<Rightarrow> 'q \<Rightarrow> 'q option \<Rightarrow> bool" where
  "hasEnoughResources Q cluster requestedCPU requestedMemory requestedGPU =
     (let available = adv_available cluster;
          hasCPUAndMem = (q_Cmp Q (rq_CPU available) requestedCPU \<ge> 0 \<and>
                          q_Cmp Q (rq_Memory available) requestedMemory \<ge> 0)
      in case gpu_requested Q requestedGPU of
           None \<Rightarrow> hasCPUAndMem
         | Some g \<Rightarrow>
             (case rq_GPU available of
                None \<Rightarrow> False
              | Some ag \<Rightarrow> if q_Cmp Q ag g < 0 then False else hasCPUAndMem))"

definition utilization :: "float64 \<Rightarrow> float64 \<Rightarrow> float64 \<Rightarrow> float64" where
  "utilization available requested allocatable = 1 - ((available - requested) / allocatable)"

text \<open>
  The GPU's utilisation when it counts (the code's \<open>gpuWeight > 0\<close>); the outer \<open>None\<close> is the panic on
  an absent available amount.
\<close>

definition gpu_utilization ::
  "'q QuantityOps \<Rightarrow> 'q ClusterAdvertisement \<Rightarrow> 'q option \<Rightarrow> float64 option option" where
  "gpu_utilization Q cluster requestedGPU =
     (case (gpu_requested Q requestedGPU, rq_GPU (adv_allocatable cluster)) of
        (Some g, Some alloc) \<Rightarrow>
          (case rq_GPU (adv_available cluster) of
             None \<Rightarrow> None
           | Some avail \<Rightarrow>
               if q_Float Q alloc > 0
               then Some (Some (utilization (q_Float Q avail) (q_Float Q g) (q_Float Q alloc)))
               else Some None)
      | _ \<Rightarrow> Some None)"

definition energy_terms :: "'q ClusterAdvertisement \<Rightarrow> float64 \<times> float64" where
  "energy_terms cluster =
     (case ca_Cost (o_spec cluster) of
        None \<Rightarrow> (0, 0)
      | Some c \<Rightarrow> (ci_EnergyCost c, if ci_Renewable c then lit (1/10) else 0))"

definition weighted_score :: "'q ClusterAdvertisement \<Rightarrow> float64 \<Rightarrow> float64" where
  "weighted_score cluster resourceAvailability =
     (let (energyCost, renewableBonus) = energy_terms cluster
      in (resourceAvailability * lit (7/10)) + ((1 - energyCost) * lit (2/10)) + renewableBonus)"

definition calculateScore ::
  "'q QuantityOps \<Rightarrow> 'q ClusterAdvertisement \<Rightarrow> 'q \<Rightarrow> 'q \<Rightarrow> 'q option \<Rightarrow> 32 word \<Rightarrow> float64 option" where
  "calculateScore Q cluster requestedCPU requestedMemory requestedGPU priority =
     (let cpuUtilization = utilization (q_Float Q (rq_CPU (adv_available cluster)))
            (q_Float Q requestedCPU) (q_Float Q (rq_CPU (adv_allocatable cluster)));
          memoryUtilization = utilization (q_Float Q (rq_Memory (adv_available cluster)))
            (q_Float Q requestedMemory) (q_Float Q (rq_Memory (adv_allocatable cluster)))
      in case gpu_utilization Q cluster requestedGPU of
           None \<Rightarrow> None
         | Some gpu \<Rightarrow>
             let resourceAvailability =
                   (case gpu of
                      Some gpuUtilization \<Rightarrow>
                        ((1 - cpuUtilization) * lit (33/100)) + ((1 - memoryUtilization) * lit (34/100)) +
                        ((1 - gpuUtilization) * lit (33/100))
                    | None \<Rightarrow> ((1 - cpuUtilization) * lit (1/2)) + ((1 - memoryUtilization) * lit (1/2)));
                 priorityBonus = fl_of_int (sint priority) * lit (1/100)
             in Some (weighted_score cluster resourceAvailability + priorityBonus))"

definition calculateBaseScore :: "'q QuantityOps \<Rightarrow> 'q ClusterAdvertisement \<Rightarrow> float64" where
  "calculateBaseScore Q cluster =
     (let allocatableCPU = q_Float Q (rq_CPU (adv_allocatable cluster));
          availableCPU = q_Float Q (rq_CPU (adv_available cluster));
          allocatableMemory = q_Float Q (rq_Memory (adv_allocatable cluster));
          availableMemory = q_Float Q (rq_Memory (adv_available cluster))
      in if allocatableCPU = 0 \<or> allocatableMemory = 0 then 0
         else weighted_score cluster
           (((availableCPU / allocatableCPU) * lit (1/2)) + ((availableMemory / allocatableMemory) * lit (1/2))))"

definition UpdateClusterScore :: "'q QuantityOps \<Rightarrow> 'q ClusterAdvertisement \<Rightarrow> 'q ClusterAdvertisement" where
  "UpdateClusterScore Q cluster =
     cluster\<lparr>o_status := (o_status cluster)\<lparr>cas_Score := fmt2 (calculateBaseScore Q cluster)\<rparr>\<rparr>"

section \<open>The standard ranking\<close>

definition buildStandardInfo :: "'q QuantityOps \<Rightarrow> 'q ClusterAdvertisement \<Rightarrow> string" where
  "buildStandardInfo Q cluster =
     (let allocCPU = q_Float Q (rq_CPU (adv_allocatable cluster));
          allocMem = q_Float Q (rq_Memory (adv_allocatable cluster));
          availCPU = q_Float Q (rq_CPU (adv_available cluster));
          availMem = q_Float Q (rq_Memory (adv_available cluster));
          avgRatio = (if allocCPU > 0 \<and> allocMem > 0
                      then ((availCPU / allocCPU) + (availMem / allocMem)) / lit 2 else 0);
          tier = (if avgRatio \<ge> lit (6/10) then ''High resource availability''
                  else if avgRatio \<ge> lit (3/10) then ''Moderate resource availability''
                  else ''Low resource availability'');
          baseInfo = (case ca_Cost (o_spec cluster) of
              None \<Rightarrow> tier
            | Some c \<Rightarrow> tier @ (if ci_Renewable c then '', eco-friendly'' else '''') @
                (if ci_EnergyCost c < lit (3/10) then '', low energy cost'' else ''''))
      in ''cost: '' @ cost_string cluster @ ''. info: '' @ baseInfo)"

definition rankStandard ::
  "('w, 'q) BrokerEnv \<Rightarrow> 'q ScoredCluster list \<Rightarrow> int \<Rightarrow> 'q RankedCluster list" where
  "rankStandard E scoredClusters maxResults =
     map (\<lambda>sc. \<lparr>rk_Cluster = sc_cluster sc, rk_Information = buildStandardInfo (b_Q E) (sc_cluster sc)\<rparr>)
       (first_results maxResults (b_sort E (\<lambda>x y. sc_score y < sc_score x) scoredClusters))"

section \<open>RankClusters\<close>

record 'q rank_request =
  rk_requesterID :: string
  rk_cpu :: 'q
  rk_memory :: 'q
  rk_gpu :: "'q option"
  rk_priority :: "32 word"
  rk_maxResults :: int
  rk_policy :: string

text \<open>
  The body of the second loop for one cluster: no element (\<open>continue\<close>) or one scored element. The
  requester's advertisement is set when the policy is latency.
\<close>

definition score_cluster ::
  "('w, 'q) BrokerEnv \<Rightarrow> DecisionEngine \<Rightarrow> 'q rank_request \<Rightarrow> 'q ClusterAdvertisement option \<Rightarrow>
   'q ClusterAdvertisement \<Rightarrow> ('w, 'q ScoredCluster list option) state" where
  "score_cluster E D req requesterAdv cluster =
     (if adv_id cluster = rk_requesterID req then ret (Some [])
      else if \<not> cas_Active (o_status cluster) then ret (Some [])
      else if \<not> hasEnoughResources (b_Q E) cluster (rk_cpu req) (rk_memory req) (rk_gpu req) then ret (Some [])
      else if rk_policy req = ''latency'' \<and> ca_Location (o_spec cluster) \<noteq> None then
        (case requesterAdv of
           None \<Rightarrow> ret None
         | Some r \<Rightarrow> do {
             scored \<leftarrow> calculateScoreLatency E r cluster;
             ret (case scored of
                None \<Rightarrow> None
              | Some (score, isActual) \<Rightarrow>
                  Some [\<lparr>sc_cluster = cluster, sc_score = score, sc_isActual = isActual, sc_increase = False\<rparr>])
           })
      else if rk_policy req = ''eco'' then do {
        (score, increase) \<leftarrow> calculateScoreEco E D cluster;
        ret (Some [\<lparr>sc_cluster = cluster, sc_score = score, sc_isActual = False, sc_increase = increase\<rparr>])
      }
      else ret (case calculateScore (b_Q E) cluster (rk_cpu req) (rk_memory req) (rk_gpu req) (rk_priority req) of
          None \<Rightarrow> None
        | Some score \<Rightarrow>
            Some [\<lparr>sc_cluster = cluster, sc_score = score, sc_isActual = False, sc_increase = False\<rparr>]))"

fun score_clusters ::
  "('w, 'q) BrokerEnv \<Rightarrow> DecisionEngine \<Rightarrow> 'q rank_request \<Rightarrow> 'q ClusterAdvertisement option \<Rightarrow>
   'q ClusterAdvertisement list \<Rightarrow> ('w, 'q ScoredCluster list option) state" where
  "score_clusters E D req requesterAdv [] = ret (Some [])"
| "score_clusters E D req requesterAdv (c # cs) = do {
     scored \<leftarrow> score_cluster E D req requesterAdv c;
     case scored of
       None \<Rightarrow> ret None
     | Some xs \<Rightarrow> do {
         rest \<leftarrow> score_clusters E D req requesterAdv cs;
         ret (map_option (\<lambda>ys. xs @ ys) rest)
       }
   }"

text \<open>
  The requester's own advertisement under the latency policy: the first with its identifier, and
  an error unless it has a location. \<open>updateCosts\<close> changes the costs of the list's elements in
  place, which the latency score does not read.
\<close>

definition latency_requester ::
  "'q rank_request \<Rightarrow> 'q ClusterAdvertisement list \<Rightarrow> go_error + 'q ClusterAdvertisement option" where
  "latency_requester req items =
     (if rk_policy req = ''latency'' then
        (case List.find (\<lambda>a. adv_id a = rk_requesterID req) items of
           None \<Rightarrow> Inl (ErrMsg ''requester location not found for latency policy'')
         | Some a \<Rightarrow> if ca_Location (o_spec a) = None
             then Inl (ErrMsg ''requester location not found for latency policy'')
             else Inr (Some a))
      else Inr None)"

definition rank_by_policy ::
  "('w, 'q) BrokerEnv \<Rightarrow> 'q rank_request \<Rightarrow> 'q ScoredCluster list \<Rightarrow> 'q RankedCluster list" where
  "rank_by_policy E req scored =
     (if rk_policy req = ''latency'' then rankLatency E scored (rk_maxResults req)
      else if rk_policy req = ''eco'' then rankEco E scored (rk_maxResults req)
      else rankStandard E scored (rk_maxResults req))"

definition RankClusters ::
  "('w, 'q) BrokerEnv \<Rightarrow> DecisionEngine \<Rightarrow> 'q rank_request \<Rightarrow>
   ('w, (go_error + 'q RankedCluster list) option) state" where
  "RankClusters E D req = do {
     listed \<leftarrow> c_list (b_adv E);
     case listed of
       Inl e \<Rightarrow> ret (Some (Inl (ErrWrap ''failed to list cluster advertisements'' (ErrApi e))))
     | Inr items \<Rightarrow>
         if items = [] then ret (Some (Inl (ErrMsg ''no clusters available'')))
         else case latency_requester req items of
           Inl e \<Rightarrow> ret (Some (Inl e))
         | Inr requesterAdv \<Rightarrow> do {
             items' \<leftarrow> updateCosts E D items;
             scored \<leftarrow> score_clusters E D req requesterAdv items';
             ret (case scored of
                None \<Rightarrow> None
              | Some scs \<Rightarrow> Some
                  (if scs = [] then Inl (ErrMsg ''no suitable cluster found for requested resources'')
                   else Inr (rank_by_policy E req scs)))
           }
   }"

section \<open>What a ranking selects\<close>

definition eligible :: "'q QuantityOps \<Rightarrow> 'q rank_request \<Rightarrow> 'q ClusterAdvertisement \<Rightarrow> bool" where
  "eligible Q req a \<longleftrightarrow>
     adv_id a \<noteq> rk_requesterID req \<and> cas_Active (o_status a) \<and>
     hasEnoughResources Q a (rk_cpu req) (rk_memory req) (rk_gpu req)"

lemma eligible_same_but_cost: "same_but_cost a b \<Longrightarrow> eligible Q req b = eligible Q req a"
  by (simp add: eligible_def hasEnoughResources_def same_but_costD)

lemma calculateScore_no_panic:
  assumes "hasEnoughResources Q a cpu memory gpu"
  shows "\<exists>s. calculateScore Q a cpu memory gpu p = Some s"
proof -
  have "\<exists>u. gpu_utilization Q a gpu = Some u"
    using assms by (auto simp: gpu_utilization_def hasEnoughResources_def Let_def split: option.splits)
  then show ?thesis
    by (auto simp: calculateScore_def Let_def)
qed

definition located :: "'q rank_request \<Rightarrow> 'q ClusterAdvertisement option \<Rightarrow> bool" where
  "located req rq \<longleftrightarrow>
     rk_policy req = ''latency'' \<longrightarrow> (\<exists>r. rq = Some r \<and> ca_Location (o_spec r) \<noteq> None)"

lemma score_cluster_selects:
  assumes "located req rq"
  shows "\<exists>scs w'. run_state (score_cluster E D req rq c) w = (Some scs, w') \<and>
    map sc_cluster scs = (if eligible (b_Q E) req c then [c] else [])"
proof (cases "eligible (b_Q E) req c")
  case False
  then show ?thesis by (auto simp: score_cluster_def eligible_def)
next
  case True
  then have e: "adv_id c \<noteq> rk_requesterID req" "cas_Active (o_status c)"
    "hasEnoughResources (b_Q E) c (rk_cpu req) (rk_memory req) (rk_gpu req)"
    by (simp_all add: eligible_def)
  show ?thesis
  proof (cases "rk_policy req = ''latency'' \<and> ca_Location (o_spec c) \<noteq> None")
    case latency: True
    then obtain r where r: "rq = Some r" "ca_Location (o_spec r) \<noteq> None"
      using assms by (auto simp: located_def)
    obtain scored w' where run: "run_state (calculateScoreLatency E r c) w = (scored, w')" by fastforce
    with calculateScoreLatency_no_panic [OF r(2), of c E w] latency
    obtain s a where "scored = Some (s, a)" by auto
    with run r(1) e True latency show ?thesis
      by (simp add: score_cluster_def)
  next
    case False
    obtain s where "calculateScore (b_Q E) c (rk_cpu req) (rk_memory req) (rk_gpu req) (rk_priority req) = Some s"
      using calculateScore_no_panic [OF e(3)] by blast
    with False e True show ?thesis
      by (auto simp: score_cluster_def split_beta)
  qed
qed

lemma score_clusters_select:
  assumes "located req rq"
  shows "\<exists>scs w'. run_state (score_clusters E D req rq cs) w = (Some scs, w') \<and>
    map sc_cluster scs = filter (eligible (b_Q E) req) cs"
proof (induction cs arbitrary: w)
  case Nil
  then show ?case by simp
next
  case (Cons c cs)
  obtain xs w1 where c: "run_state (score_cluster E D req rq c) w = (Some xs, w1)"
    "map sc_cluster xs = (if eligible (b_Q E) req c then [c] else [])"
    using score_cluster_selects [OF assms, of E D c w] by (elim exE conjE)
  obtain ys w2 where cs: "run_state (score_clusters E D req rq cs) w1 = (Some ys, w2)"
    "map sc_cluster ys = filter (eligible (b_Q E) req) cs"
    using Cons.IH [of w1] by (elim exE conjE)
  from c cs show ?case by auto
qed

lemma latency_requester_located:
  assumes "latency_requester req items = Inr rq"
  shows "located req rq"
proof (cases "List.find (\<lambda>a. adv_id a = rk_requesterID req) items")
  case None
  with assms show ?thesis by (simp add: latency_requester_def located_def split: if_splits)
next
  case (Some a)
  with assms have "rk_policy req = ''latency'' \<longrightarrow> rq = Some a \<and> ca_Location (o_spec a) \<noteq> None"
    by (auto simp: latency_requester_def split: if_splits)
  then show ?thesis by (simp add: located_def)
qed

text \<open>
  The shape of every run of \<open>RankClusters\<close>: one of the three early errors, or the ranking of
  scored clusters that are exactly the eligible ones of the refreshed list.
\<close>

lemma RankClusters_cases:
  assumes "run_state (RankClusters E D req) w = (r, w')"
  obtains (list_error) e where "run_state (c_list (b_adv E)) w = (Inl e, w')"
      "r = Some (Inl (ErrWrap ''failed to list cluster advertisements'' (ErrApi e)))"
  | (empty) "run_state (c_list (b_adv E)) w = (Inr [], w')" "r = Some (Inl (ErrMsg ''no clusters available''))"
  | (no_location) items e where "run_state (c_list (b_adv E)) w = (Inr items, w')" "items \<noteq> []"
      "latency_requester req items = Inl e" "r = Some (Inl e)"
  | (scored) items items' scs rq w1 w2 where "run_state (c_list (b_adv E)) w = (Inr items, w1)" "items \<noteq> []"
      "latency_requester req items = Inr rq" "run_state (updateCosts E D items) w1 = (items', w2)"
      "run_state (score_clusters E D req rq items') w2 = (Some scs, w')"
      "map sc_cluster scs = filter (eligible (b_Q E) req) items'"
      "r = Some (if scs = [] then Inl (ErrMsg ''no suitable cluster found for requested resources'')
                 else Inr (rank_by_policy E req scs))"
proof -
  obtain listed w1 where l: "run_state (c_list (b_adv E)) w = (listed, w1)" by fastforce
  show ?thesis
  proof (cases listed)
    case (Inl e)
    with l assms show ?thesis by (intro list_error) (auto simp: RankClusters_def)
  next
    case (Inr items)
    show ?thesis
    proof (cases "items = []")
      case True
      with l Inr assms show ?thesis by (intro empty) (auto simp: RankClusters_def)
    next
      case items: False
      show ?thesis
      proof (cases "latency_requester req items")
        case (Inl e)
        with l \<open>listed = Inr items\<close> items assms show ?thesis
          by (intro no_location) (auto simp: RankClusters_def)
      next
        case rq: (Inr rq)
        obtain items' w2 where u: "run_state (updateCosts E D items) w1 = (items', w2)" by fastforce
        obtain scs w3 where s: "run_state (score_clusters E D req rq items') w2 = (Some scs, w3)"
          "map sc_cluster scs = filter (eligible (b_Q E) req) items'"
          using score_clusters_select [OF latency_requester_located [OF rq], of E D items' w2]
          by (elim exE conjE)
        from l \<open>listed = Inr items\<close> items rq u s(1) assms
        have "w3 = w'" "r = Some (if scs = [] then Inl (ErrMsg ''no suitable cluster found for requested resources'')
            else Inr (rank_by_policy E req scs))"
          by (auto simp: RankClusters_def)
        with l \<open>listed = Inr items\<close> items rq u s show ?thesis
          by (intro scored) auto
      qed
    qed
  qed
qed

lemma updateCosts_all2:
  "run_state (updateCosts E D items) w = (items', w') \<Longrightarrow> list_all2 same_but_cost items items'"
  using traverse_list_all2 [of "update_cost E D" same_but_cost items w items' w'] update_cost_frame [of E D]
  by (simp add: updateCosts_def)

lemma filter_eligible_all2:
  "list_all2 same_but_cost items items' \<Longrightarrow>
   list_all2 same_but_cost (filter (eligible Q req) items) (filter (eligible Q req) items')"
  by (induction rule: list_all2_induct) (auto simp: eligible_same_but_cost)

text \<open>The ranked clusters are the first of a rearrangement of the scored ones, whatever the policy.\<close>

lemma rank_by_policy_order:
  assumes "sort_slice (b_sort E)"
  shows "\<exists>order. mset order = mset scs \<and>
    map rk_Cluster (rank_by_policy E req scs) = map sc_cluster (take (nat (rk_maxResults req)) order)"
proof -
  note m = sort_slice.mset_sort [OF assms]
  consider "rk_policy req = ''latency''" | "rk_policy req \<noteq> ''latency''" "rk_policy req = ''eco''"
    | "rk_policy req \<noteq> ''latency''" "rk_policy req \<noteq> ''eco''" by blast
  then show ?thesis
  proof cases
    case 1
    show ?thesis
      by (rule exI [of _ "promote_never (b_sort E (\<lambda>x y. sc_score x < sc_score y) scs)"])
        (simp add: 1 m rank_by_policy_def rankLatency_def first_results_def o_def)
  next
    case 2
    show ?thesis
      by (rule exI [of _ "b_sort E (\<lambda>x y. sc_score x < sc_score y) scs"])
        (simp add: 2 m rank_by_policy_def rankEco_def first_results_def o_def)
  next
    case 3
    show ?thesis
      by (rule exI [of _ "b_sort E (\<lambda>x y. sc_score y < sc_score x) scs"])
        (simp add: 3 m rank_by_policy_def rankStandard_def first_results_def o_def)
  qed
qed

lemma keeps_score_cluster: "quiet f E \<Longrightarrow> keeps f (score_cluster E D req rq c)"
  unfolding score_cluster_def by (auto intro!: keeps_intros)

lemma keeps_score_clusters: "quiet f E \<Longrightarrow> keeps f (score_clusters E D req rq cs)"
  by (induction cs) (auto intro!: keeps_intros keeps_score_cluster)

lemma keeps_RankClusters [keeps_intros]:
  "quiet f E \<Longrightarrow> keeps f (c_list (b_adv E)) \<Longrightarrow> keeps f (RankClusters E D req)"
  unfolding RankClusters_def by (auto intro!: keeps_intros keeps_score_clusters)

lemma RankClusters_ranked:
  assumes "run_state (c_list (b_adv E)) w = (Inr items, w1)" "latency_requester req items = Inr rq"
    "filter (eligible (b_Q E) req) items \<noteq> []"
  obtains ranked w' where "run_state (RankClusters E D req) w = (Some (Inr ranked), w')"
proof -
  obtain r w' where run: "run_state (RankClusters E D req) w = (r, w')" by fastforce
  then show ?thesis
  proof (cases rule: RankClusters_cases)
    case (scored items2 items' scs rq2 w1 w2)
    have "list_all2 same_but_cost (filter (eligible (b_Q E) req) items) (filter (eligible (b_Q E) req) items')"
      using updateCosts_all2 [OF scored(4)] assms(1) scored(1) by (intro filter_eligible_all2) simp
    with assms(3) have "filter (eligible (b_Q E) req) items' \<noteq> []"
      by (auto dest: list_all2_lengthD)
    with scored(6) have "scs \<noteq> []" by auto
    with run scored(7) that show ?thesis by simp
  qed (use assms in auto)
qed

lemma RankClusters_returns: obtains r w' where "run_state (RankClusters E D req) w = (Some r, w')"
proof -
  obtain r w' where run: "run_state (RankClusters E D req) w = (r, w')" by fastforce
  then have "r \<noteq> None"
    by (cases rule: RankClusters_cases) simp_all
  with run that show ?thesis by auto
qed

lemma RankClusters_quiet:
  assumes "broker_world E v advs rsvs" "run_state (RankClusters E D req) w = (r, w')"
  shows "advs w' = advs w" "rsvs w' = rsvs w"
proof -
  have "keeps advs (RankClusters E D req)" "keeps rsvs (RankClusters E D req)"
    using broker_world.quiet_advs [OF assms(1)] broker_world.quiet_rsvs [OF assms(1)]
      kube_client.list_keeps [OF broker_worldD(2) [OF assms(1)]] broker_world.adv_keeps_rsvs [OF assms(1)]
    by (auto intro!: keeps_RankClusters keeps_intros)
  with keepsD [OF _ assms(2)] show "advs w' = advs w" "rsvs w' = rsvs w" by blast+
qed

lemma RankClusters_selects:
  assumes "broker_world E v advs rsvs" "run_state (RankClusters E D req) w = (Some (Inr ranked), w')"
  shows "length ranked \<le> nat (rk_maxResults req)"
    "\<forall>x \<in> set ranked. \<exists>a. advs w (obj_key a) = Some a \<and> same_but_cost a (rk_Cluster x) \<and> eligible (b_Q E) req a"
proof -
  note adv = broker_worldD(2) [OF assms(1)]
  from assms(2) obtain items items' scs rq w1 w2 where
    run: "run_state (c_list (b_adv E)) w = (Inr items, w1)"
      "run_state (updateCosts E D items) w1 = (items', w2)"
      "map sc_cluster scs = filter (eligible (b_Q E) req) items'"
    and ranked: "ranked = rank_by_policy E req scs"
    by (cases rule: RankClusters_cases) (auto split: if_splits)
  obtain order where order: "mset order = mset scs"
    "map rk_Cluster ranked = map sc_cluster (take (nat (rk_maxResults req)) order)"
    using rank_by_policy_order [OF broker_worldD(5) [OF assms(1)]] ranked by metis
  show "length ranked \<le> nat (rk_maxResults req)"
    using arg_cong [OF order(2), of length] by simp
  have "\<exists>a. advs w (obj_key a) = Some a \<and> same_but_cost a (rk_Cluster x) \<and> eligible (b_Q E) req a"
    if "x \<in> set ranked" for x
  proof -
    have "rk_Cluster x \<in> set (map rk_Cluster ranked)"
      using that by simp
    then have "rk_Cluster x \<in> sc_cluster ` set order"
      unfolding order(2) by (auto dest: in_set_takeD)
    also have "set order = set scs"
      using order(1) by (metis set_mset_mset)
    finally have "rk_Cluster x \<in> set (filter (eligible (b_Q E) req) items')"
      using run(3) by (metis list.set_map)
    then obtain i where i: "i < length items'" "items' ! i = rk_Cluster x" "eligible (b_Q E) req (rk_Cluster x)"
      by (auto simp: in_set_conv_nth)
    define a where "a = items ! i"
    have "a \<in> set items" "same_but_cost a (rk_Cluster x)"
      using updateCosts_all2 [OF run(2)] i unfolding a_def
      by (simp_all add: list_all2_conv_all_nth) (metis i(2))
    with i(3) have "a \<in> set items" "same_but_cost a (rk_Cluster x)" "eligible (b_Q E) req (rk_Cluster x)"
      by simp_all
    moreover from this have "a \<in> ran (advs w)"
      using kube_client.list_all [OF adv run(1)] by simp
    ultimately show ?thesis
      using kube_client.list_key [OF adv] eligible_same_but_cost by metis
  qed
  then show "\<forall>x \<in> set ranked. \<exists>a. advs w (obj_key a) = Some a \<and> same_but_cost a (rk_Cluster x) \<and> eligible (b_Q E) req a"
    by blast
qed

section \<open>Properties\<close>

text \<open>
  \<open>RankClusters\<close> never panics, whatever the API, the clock, the web services and the
  advertisements hold: no location, cost or GPU amount it dereferences is absent.
\<close>

theorem RankClusters_no_panic: "fst (run_state (RankClusters E D req) w) \<noteq> None"
  by (rule RankClusters_returns [of E D req w]) simp

lemma hasEnough_amounts:
  assumes "quantity Q v" "hasEnoughResources Q a cpu memory gpu"
  shows "v cpu \<le> v (rq_CPU (adv_available a)) \<and> v memory \<le> v (rq_Memory (adv_available a)) \<and>
    (\<forall>g. gpu = Some g \<longrightarrow> 0 < v g \<longrightarrow> (\<exists>ag. rq_GPU (adv_available a) = Some ag \<and> v g \<le> v ag))"
  using assms(2) quantity.cmp_laws [OF assms(1)]
  by (auto simp: hasEnoughResources_def gpu_requested_def Let_def not_less split: option.splits if_splits)

text \<open>
  C10. Soundness of a ranking: at most \<open>maxResults\<close> clusters, and each is, up to its refreshed energy
  price, an advertisement of the API that is active, is not the requester's, and has the requested
  CPU, memory and (if a positive amount is requested) GPU available. Ranking writes no
  advertisement and no reservation.
\<close>

theorem RankClusters_sound:
  assumes "broker_world E v advs rsvs" "run_state (RankClusters E D req) w = (Some (Inr ranked), w')"
  shows "length ranked \<le> nat (rk_maxResults req) \<and> advs w' = advs w \<and> rsvs w' = rsvs w \<and>
    (\<forall>x \<in> set ranked. \<exists>a. advs w (obj_key a) = Some a \<and> same_but_cost a (rk_Cluster x) \<and>
       adv_id a \<noteq> rk_requesterID req \<and> cas_Active (o_status a) \<and>
       v (rk_cpu req) \<le> v (rq_CPU (adv_available a)) \<and> v (rk_memory req) \<le> v (rq_Memory (adv_available a)) \<and>
       (\<forall>g. rk_gpu req = Some g \<longrightarrow> 0 < v g \<longrightarrow>
          (\<exists>ag. rq_GPU (adv_available a) = Some ag \<and> v g \<le> v ag)))"
proof -
  from RankClusters_selects [OF assms] RankClusters_quiet [OF assms] show ?thesis
    using hasEnough_amounts [OF broker_worldD(1) [OF assms(1)]] unfolding eligible_def by fast
qed

text \<open>
  C11. Completeness of a ranking: once the advertisements are listed (and, for the latency policy,
  the requester's location is known), the answer is an error exactly when no listed cluster is
  eligible, and otherwise it has the smaller of \<open>maxResults\<close> and the number of eligible clusters.
\<close>

theorem RankClusters_complete:
  assumes "sort_slice (b_sort E)" "run_state (c_list (b_adv E)) w = (Inr items, w1)"
    "latency_requester req items = Inr rq"
  shows "\<exists>r w'. run_state (RankClusters E D req) w = (Some r, w') \<and>
    (case r of
       Inl _ \<Rightarrow> filter (eligible (b_Q E) req) items = []
     | Inr ranked \<Rightarrow> filter (eligible (b_Q E) req) items \<noteq> [] \<and>
         length ranked = min (nat (rk_maxResults req)) (length (filter (eligible (b_Q E) req) items)))"
proof -
  obtain r w' where run: "run_state (RankClusters E D req) w = (r, w')" by fastforce
  then show ?thesis
  proof (cases rule: RankClusters_cases)
    case (list_error e)
    then show ?thesis using assms(2) by simp
  next
    case empty
    then show ?thesis using assms(2) run by auto
  next
    case (no_location items e)
    then show ?thesis using assms(2,3) by simp
  next
    case (scored items2 items' scs rq2 w1 w2)
    then have [simp]: "items2 = items" using assms(2) by simp
    have all2: "list_all2 same_but_cost (filter (eligible (b_Q E) req) items) (filter (eligible (b_Q E) req) items')"
      using updateCosts_all2 [OF scored(4)] by (intro filter_eligible_all2) simp
    then have len: "length scs = length (filter (eligible (b_Q E) req) items)"
      using arg_cong [OF scored(6), of length] by (simp add: list_all2_lengthD)
    obtain order where "mset order = mset scs"
      "map rk_Cluster (rank_by_policy E req scs) = map sc_cluster (take (nat (rk_maxResults req)) order)"
      using rank_by_policy_order [OF assms(1)] by metis
    then have "length (rank_by_policy E req scs) = min (nat (rk_maxResults req)) (length scs)"
      by (metis length_map length_take min.commute mset_eq_length)
    then show ?thesis
      using run scored(7) len by auto
  qed
qed

definition sample_request :: "nano_quantity rank_request" where
  "sample_request =
     \<lparr>rk_requesterID = ''a'', rk_cpu = nano_units 2, rk_memory = nano_units 8, rk_gpu = None,
      rk_priority = 0, rk_maxResults = 1, rk_policy = []\<rparr>"

definition rank_world :: mem_world where
  "rank_world = empty_world\<lparr>mw_advs := [sample_adv ''a'' 6 48, sample_adv ''b'' 6 48, sample_adv ''c'' 1 1]\<rparr>"

lemma rank_world_list:
  "run_state (c_list (b_adv mem_env)) rank_world =
    (Inr [sample_adv ''a'' 6 48, sample_adv ''b'' 6 48, sample_adv ''c'' 1 1], rank_world)"
  by (simp add: rank_world_def sample_defs meta_key_def)

lemma rank_world_eligible:
  "filter (eligible (b_Q mem_env) sample_request) [sample_adv ''a'' 6 48, sample_adv ''b'' 6 48, sample_adv ''c'' 1 1] =
    [sample_adv ''b'' 6 48]"
  by (simp add: eligible_def hasEnoughResources_def gpu_requested_def sample_request_def sample_defs nano_simps)

lemma rank_world_requester:
  "latency_requester sample_request [sample_adv ''a'' 6 48, sample_adv ''b'' 6 48, sample_adv ''c'' 1 1] = Inr None"
  by (simp add: latency_requester_def sample_request_def)

lemma RankClusters_complete_witness:
  "\<exists>r w'. run_state (RankClusters mem_env sample_engine sample_request) rank_world = (Some r, w') \<and>
    (case r of
       Inl _ \<Rightarrow> [sample_adv ''b'' 6 48] = []
     | Inr ranked \<Rightarrow> [sample_adv ''b'' 6 48] \<noteq> [] \<and>
         length ranked = min (nat (rk_maxResults sample_request)) (length [sample_adv ''b'' 6 48]))"
proof -
  have "sort_slice (b_sort mem_env)"
    by (simp add: insertion.sort_slice_axioms)
  from RankClusters_complete [OF this rank_world_list rank_world_requester, of sample_engine]
  show ?thesis
    unfolding rank_world_eligible .
qed

lemma RankClusters_sound_witness:
  "\<exists>ranked w'. run_state (RankClusters mem_env sample_engine sample_request) rank_world = (Some (Inr ranked), w') \<and>
    length ranked \<le> nat (rk_maxResults sample_request) \<and> mem_advs w' = mem_advs rank_world"
proof -
  obtain ranked w' where run: "run_state (RankClusters mem_env sample_engine sample_request) rank_world = (Some (Inr ranked), w')"
    using rank_world_eligible by (rule_tac RankClusters_ranked [OF rank_world_list rank_world_requester]) auto
  with RankClusters_sound [OF mem.broker_world_axioms run] show ?thesis by auto
qed

lemma score_consts:
  "lit (7/10) = Fin (3152519739159347/4503599627370496)"
  "lit (2/10) = Fin (3602879701896397/18014398509481984)"
  "lit (1/10) = Fin (3602879701896397/36028797018963968)"
  "lit (1/2) = Fin (1/2)"
  "lit (33/100) = Fin (5944751508129055/18014398509481984)"
  "lit (34/100) = Fin (6124895493223875/18014398509481984)"
  "lit (1/100) = Fin (5764607523034235/576460752303423488)"
proof -
  show "lit (7/10) = Fin (3152519739159347/4503599627370496)"
    using rnd_cert [of 53 "7/10" 6305039478318694] by (simp add: lit_def)
  show "lit (2/10) = Fin (3602879701896397/18014398509481984)"
    using rnd_cert [of 55 "2/10" 7205759403792794] by (simp add: lit_def)
  show "lit (1/10) = Fin (3602879701896397/36028797018963968)"
    using rnd_cert [of 56 "1/10" 7205759403792794] by (simp add: lit_def)
  show "lit (1/2) = Fin (1/2)"
    using rnd_cert [of 53 "1/2" 4503599627370496] by (simp add: lit_def)
  show "lit (33/100) = Fin (5944751508129055/18014398509481984)"
    using rnd_cert [of 54 "33/100" 5944751508129055] by (simp add: lit_def)
  show "lit (34/100) = Fin (6124895493223875/18014398509481984)"
    using rnd_cert [of 54 "34/100" 6124895493223875] by (simp add: lit_def)
  show "lit (1/100) = Fin (5764607523034235/576460752303423488)"
    using rnd_cert [of 59 "1/100" 5764607523034235] by (simp add: lit_def)
qed

text \<open>The extremes of the weighted sum.\<close>

lemma score_extremes:
  "rnd (3152519739159347/4503599627370496) = Fin (3152519739159347/4503599627370496)"
  "rnd (3602879701896397/18014398509481984) = Fin (3602879701896397/18014398509481984)"
  "rnd (3602879701896397/36028797018963968) = Fin (3602879701896397/36028797018963968)"
  "rnd (16212958658533785/18014398509481984) = Fin (2026619832316723/2251799813685248)"
  "rnd (36028797018963965/36028797018963968) = Fin (9007199254740991/9007199254740992)"
  "rnd (- (18014398509481985/18014398509481984)) = Fin (- (1))"
  "rnd (- (1351079888211149/4503599627370496)) = Fin (- (1351079888211149/4503599627370496))"
  "rnd (- (7205759403792795/36028797018963968)) = Fin (- (7205759403792795/36028797018963968))"
  "rnd (1/2) = Fin (1/2)"
proof -
  show "rnd (3152519739159347/4503599627370496) = Fin (3152519739159347/4503599627370496)"
    using rnd_cert [of 53 "3152519739159347/4503599627370496" 6305039478318694] by simp
  show "rnd (3602879701896397/18014398509481984) = Fin (3602879701896397/18014398509481984)"
    using rnd_cert [of 55 "3602879701896397/18014398509481984" 7205759403792794] by simp
  show "rnd (3602879701896397/36028797018963968) = Fin (3602879701896397/36028797018963968)"
    using rnd_cert [of 56 "3602879701896397/36028797018963968" 7205759403792794] by simp
  show "rnd (16212958658533785/18014398509481984) = Fin (2026619832316723/2251799813685248)"
    using rnd_cert [of 53 "16212958658533785/18014398509481984" 8106479329266892] by simp
  show "rnd (36028797018963965/36028797018963968) = Fin (9007199254740991/9007199254740992)"
    using rnd_cert [of 53 "36028797018963965/36028797018963968" 9007199254740991] by simp
  show "rnd (- (18014398509481985/18014398509481984)) = Fin (- (1))"
    using rnd_cert [of 52 "18014398509481985/18014398509481984" 4503599627370496] by (subst rnd_minus) simp
  show "rnd (- (1351079888211149/4503599627370496)) = Fin (- (1351079888211149/4503599627370496))"
    using rnd_cert [of 54 "1351079888211149/4503599627370496" 5404319552844596] by (subst rnd_minus) simp
  show "rnd (- (7205759403792795/36028797018963968)) = Fin (- (7205759403792795/36028797018963968))"
    using rnd_cert [of 55 "7205759403792795/36028797018963968" 7205759403792795] by (subst rnd_minus) simp
  show "rnd (1/2) = Fin (1/2)"
    using rnd_cert [of 53 "1/2" 4503599627370496] by simp
qed

lemma price_extremes:
  "rnd (- (3599276822194500603/18014398509481984)) = Fin (- (3514918771674317/17592186044416))"
  "rnd (- (3514918771674317/17592186044416)) = Fin (- (3514918771674317/17592186044416))"
proof -
  show "rnd (- (3599276822194500603/18014398509481984)) = Fin (- (3514918771674317/17592186044416))"
    using rnd_cert [of 45 "3599276822194500603/18014398509481984" 7029837543348634] by (subst rnd_minus) simp
  show "rnd (- (3514918771674317/17592186044416)) = Fin (- (3514918771674317/17592186044416))"
    using rnd_cert [of 45 "3514918771674317/17592186044416" 7029837543348634] by (subst rnd_minus) simp
qed

definition normalised_cost :: "rat \<Rightarrow> rat \<Rightarrow> 'q ClusterAdvertisement \<Rightarrow> bool" where
  "normalised_cost lo hi a \<longleftrightarrow>
     (case ca_Cost (o_spec a) of None \<Rightarrow> lo \<le> 0 | Some c \<Rightarrow> in_range lo hi (ci_EnergyCost c))"

lemma energy_terms_range:
  assumes "normalised_cost lo hi a" "0 \<le> hi"
  shows "in_range lo hi (fst (energy_terms a))"
    "in_range 0 (3602879701896397/36028797018963968) (snd (energy_terms a))"
  using assms
  by (auto simp: normalised_cost_def energy_terms_def score_consts zero_float64_def split: option.splits)

lemma weighted_score_range:
  assumes "in_range 0 1 x" "normalised_cost 0 1 a"
  shows "in_range 0 1 (weighted_score a x)"
proof -
  have "in_range 0 (3152519739159347/4503599627370496) (x * lit (7/10))"
    unfolding score_consts by (rule in_range_prod [OF assms(1)]) (simp_all add: score_extremes)
  moreover have "in_range 0 1 (1 - fst (energy_terms a))"
    by (rule in_range_minus [OF energy_terms_range(1) [OF assms(2)]]) (use rnd_zero_one in simp_all)
  then have "in_range 0 (3602879701896397/18014398509481984) ((1 - fst (energy_terms a)) * lit (2/10))"
    unfolding score_consts by (rule in_range_prod) (simp_all add: score_extremes)
  ultimately have "in_range 0 (2026619832316723/2251799813685248) (x * lit (7/10) + (1 - fst (energy_terms a)) * lit (2/10))"
    by (rule in_range_sum) (simp_all add: score_extremes)
  then have "in_range 0 (9007199254740991/9007199254740992) (x * lit (7/10) + (1 - fst (energy_terms a)) * lit (2/10) + snd (energy_terms a))"
    using energy_terms_range(2) [OF assms(2)] by (rule in_range_sum) (simp_all add: score_extremes)
  then show ?thesis
    by (auto simp: weighted_score_def split_beta elim: in_range_weaken)
qed

lemma weighted_score_priced:
  assumes "in_range 0 1 x" "normalised_cost 6 1000 a"
  shows "in_range (- 200) (- 1/5) (weighted_score a x)"
proof -
  have i: "rnd (1 - 6) = Fin (1 - 6)" "rnd (1 - 1000) = Fin (1 - 1000)"
    using rnd_int [of "- 5"] rnd_int [of "- 999"] by simp_all
  have "in_range 0 (3152519739159347/4503599627370496) (x * lit (7/10))"
    unfolding score_consts by (rule in_range_prod [OF assms(1)]) (simp_all add: score_extremes)
  moreover have "in_range (1 - 1000) (1 - 6) (1 - fst (energy_terms a))"
    by (rule in_range_minus [OF energy_terms_range(1) [OF assms(2)]]) (use i in simp_all)
  then have "in_range (- (3514918771674317/17592186044416)) (- 1) ((1 - fst (energy_terms a)) * lit (2/10))"
    unfolding score_consts by (rule in_range_prod) (simp_all add: score_extremes price_extremes)
  ultimately have "in_range (- (3514918771674317/17592186044416)) (- (1351079888211149/4503599627370496)) (x * lit (7/10) + (1 - fst (energy_terms a)) * lit (2/10))"
    by (rule in_range_sum) (simp_all add: score_extremes price_extremes)
  then have "in_range (- (3514918771674317/17592186044416)) (- (7205759403792795/36028797018963968)) (x * lit (7/10) + (1 - fst (energy_terms a)) * lit (2/10) + snd (energy_terms a))"
    using energy_terms_range(2) [OF assms(2)] by (rule in_range_sum) (simp_all add: score_extremes price_extremes)
  then show ?thesis
    by (auto simp: weighted_score_def split_beta elim: in_range_weaken)
qed

lemma base_availability_range:
  assumes "q_Float Q (rq_CPU (adv_allocatable a)) = Fin ac" "q_Float Q (rq_CPU (adv_available a)) = Fin vc"
    "q_Float Q (rq_Memory (adv_allocatable a)) = Fin am" "q_Float Q (rq_Memory (adv_available a)) = Fin vm"
    "0 \<le> vc" "vc \<le> ac" "0 < ac" "0 \<le> vm" "vm \<le> am" "0 < am"
  obtains x where "in_range 0 1 x" "calculateBaseScore Q a = weighted_score a x"
proof -
  have half: "in_range 0 (1/2) (Fin p / Fin q * lit (1/2))" if "0 \<le> p" "p \<le> q" "0 < q" for p q
    unfolding score_consts
    by (rule in_range_prod [OF in_range_div [OF that]]) (simp_all add: score_extremes)
  have "in_range 0 1 (Fin vc / Fin ac * lit (1/2) + Fin vm / Fin am * lit (1/2))"
    by (rule in_range_sum [OF half half]) (use assms rnd_zero_one in simp_all)
  then show ?thesis
    using that assms by (auto simp: calculateBaseScore_def zero_float64_def)
qed

text \<open>
  C37. The standard and eco rankings are best first: the results are the first \<open>maxResults\<close> of the
  scored clusters in an order in which no cluster is followed by one with a strictly better score
  (higher for the standard policy, lower for eco), provided no score is NaN.
\<close>

theorem best_first_ranking:
  assumes "sort_slice (b_sort E)" "\<forall>x \<in> set scs. sc_score x \<noteq> NaN" "rk_policy req \<noteq> ''latency''"
  shows "\<exists>order. mset order = mset scs \<and>
    map rk_Cluster (rank_by_policy E req scs) = map sc_cluster (take (nat (rk_maxResults req)) order) \<and>
    sorted_wrt (\<lambda>x y. if rk_policy req = ''eco'' then \<not> sc_score y < sc_score x else \<not> sc_score x < sc_score y) order"
proof -
  note sort = sort_slice.mset_sort [OF assms(1)] sort_slice.sorted_sort [OF assms(1)]
  have desc: "strict_weak (\<lambda>x y. sc_score y < sc_score x) (set scs)"
    using strict_weak_score [OF assms(2)] unfolding strict_weak_def by blast
  show ?thesis
  proof (cases "rk_policy req = ''eco''")
    case True
    with sort(2) [OF strict_weak_score [OF assms(2)]] show ?thesis
      by (intro exI [of _ "b_sort E (\<lambda>x y. sc_score x < sc_score y) scs"])
        (simp add: sort(1) rank_by_policy_def rankEco_def first_results_def o_def)
  next
    case False
    with sort(2) [OF desc] assms(3) show ?thesis
      by (intro exI [of _ "b_sort E (\<lambda>x y. sc_score y < sc_score x) scs"])
        (simp add: sort(1) rank_by_policy_def rankStandard_def first_results_def o_def)
  qed
qed

lemma best_first_witness:
  "\<exists>order. mset order = mset [sample_scored ''b'' 3 False, sample_scored ''c'' 9 False] \<and>
    map rk_Cluster (rank_by_policy mem_env sample_request [sample_scored ''b'' 3 False, sample_scored ''c'' 9 False]) =
      map sc_cluster (take (nat (rk_maxResults sample_request)) order) \<and>
    sorted_wrt (\<lambda>x y. if rk_policy sample_request = ''eco'' then \<not> sc_score y < sc_score x
      else \<not> sc_score x < sc_score y) order"
  by (rule best_first_ranking)
    (auto simp: insertion.sort_slice_axioms sample_scored_def sample_request_def)

text \<open>
  The base score shown in the status lies between 0 and 1 when the advertised amounts are
  consistent (Available between 0 and a positive Allocatable) and the energy cost is normalised to
  the range from 0 to 1, as the comment on the function and the one on \<open>CostInfo.EnergyCost\<close> expect.
\<close>

theorem base_score_range:
  assumes "q_Float Q (rq_CPU (adv_allocatable a)) = Fin ac" "q_Float Q (rq_CPU (adv_available a)) = Fin vc"
    "q_Float Q (rq_Memory (adv_allocatable a)) = Fin am" "q_Float Q (rq_Memory (adv_available a)) = Fin vm"
    "0 \<le> vc" "vc \<le> ac" "0 < ac" "0 \<le> vm" "vm \<le> am" "0 < am" "normalised_cost 0 1 a"
  shows "0 \<le> calculateBaseScore Q a \<and> calculateBaseScore Q a \<le> 1"
proof -
  obtain x where "in_range 0 1 x" "calculateBaseScore Q a = weighted_score a x"
    using assms by (elim base_availability_range)
  with weighted_score_range [OF _ assms(11)] have "in_range 0 1 (calculateBaseScore Q a)"
    by simp
  then show ?thesis
    by (auto simp: float64_defs elim!: in_rangeE)
qed

lemma sample_floats:
  "q_Float nano_ops (nano_units n) = rnd (of_int n)"
  by (simp add: nano_simps)

lemma sample_adv_floats:
  "q_Float nano_ops (rq_CPU (adv_allocatable (sample_adv cid c m))) = Fin 8"
  "q_Float nano_ops (rq_Memory (adv_allocatable (sample_adv cid c m))) = Fin 64"
  "\<bar>c\<bar> \<le> 2 ^ 53 \<Longrightarrow> q_Float nano_ops (rq_CPU (adv_available (sample_adv cid c m))) = Fin (of_int c)"
  "\<bar>m\<bar> \<le> 2 ^ 53 \<Longrightarrow> q_Float nano_ops (rq_Memory (adv_available (sample_adv cid c m))) = Fin (of_int m)"
  using rnd_int [of 8] rnd_int [of 64] rnd_int [of c] rnd_int [of m]
  by (simp_all add: sample_defs sample_floats)

lemma base_score_range_witness:
  "0 \<le> calculateBaseScore nano_ops (sample_adv ''b'' 6 48) \<and> calculateBaseScore nano_ops (sample_adv ''b'' 6 48) \<le> 1"
  by (rule base_score_range [OF sample_adv_floats(1) sample_adv_floats(3) sample_adv_floats(2) sample_adv_floats(4)])
    (simp_all add: normalised_cost_def sample_defs)

text \<open>
  The price written by \<open>updateCosts\<close> is not normalised: with an energy cost of 6 to 1000 (any
  ordinary EUR/MWh price) the base score of a cluster is negative however much it has available,
  so the documented range does not hold and the price outweighs the availability.
\<close>

theorem priced_score_negative:
  assumes "q_Float Q (rq_CPU (adv_allocatable a)) = Fin ac" "q_Float Q (rq_CPU (adv_available a)) = Fin vc"
    "q_Float Q (rq_Memory (adv_allocatable a)) = Fin am" "q_Float Q (rq_Memory (adv_available a)) = Fin vm"
    "0 \<le> vc" "vc \<le> ac" "0 < ac" "0 \<le> vm" "vm \<le> am" "0 < am" "normalised_cost 6 1000 a"
  shows "calculateBaseScore Q a < 0"
proof -
  obtain x where "in_range 0 1 x" "calculateBaseScore Q a = weighted_score a x"
    using assms by (elim base_availability_range)
  with weighted_score_priced [OF _ assms(11)] have "in_range (- 200) (- 1/5) (calculateBaseScore Q a)"
    by simp
  then show ?thesis
    by (auto simp: float64_defs elim!: in_rangeE)
qed

lemma priced_score_negative_witness:
  "calculateBaseScore nano_ops (set_energy_cost [Fin 90] (sample_adv ''b'' 8 64)) < 0"
proof -
  define a where "a = set_energy_cost [Fin 90] (sample_adv ''b'' 8 64)"
  have "adv_resources a = adv_resources (sample_adv ''b'' 8 64)"
    using same_but_costD(4) [OF set_energy_cost_frame] unfolding a_def .
  then show ?thesis
    unfolding a_def [symmetric] using sample_adv_floats(1,2) [of "''b''" 8 64] sample_adv_floats(3,4) [of 8 "''b''" 64]
      sample_adv_floats(4) [of 64 "''b''" 8]
    by (intro priced_score_negative [of nano_ops a 8 8 64 64])
      (simp_all add: a_def normalised_cost_def set_energy_cost_def sample_adv_def)
qed

definition resource_availability ::
  "'q QuantityOps \<Rightarrow> 'q ClusterAdvertisement \<Rightarrow> 'q \<Rightarrow> 'q \<Rightarrow> float64 option \<Rightarrow> float64" where
  "resource_availability Q a cpu memory gpu =
     (let cu = utilization (q_Float Q (rq_CPU (adv_available a))) (q_Float Q cpu) (q_Float Q (rq_CPU (adv_allocatable a)));
          mu = utilization (q_Float Q (rq_Memory (adv_available a))) (q_Float Q memory) (q_Float Q (rq_Memory (adv_allocatable a)))
      in case gpu of
           Some g \<Rightarrow> ((1 - cu) * lit (33/100)) + ((1 - mu) * lit (34/100)) + ((1 - g) * lit (33/100))
         | None \<Rightarrow> ((1 - cu) * lit (1/2)) + ((1 - mu) * lit (1/2)))"

definition priority_bonus :: "32 word \<Rightarrow> float64" where
  "priority_bonus p = fl_of_int (sint p) * lit (1/100)"

lemma calculateScore_split:
  "calculateScore Q a cpu memory gpu p =
    map_option (\<lambda>g. weighted_score a (resource_availability Q a cpu memory g) + priority_bonus p)
      (gpu_utilization Q a gpu)"
  by (simp add: calculateScore_def resource_availability_def priority_bonus_def Let_def split: option.split)

lemma priority_bonus_finite: "\<exists>c. priority_bonus p = Fin c"
proof -
  have s: "\<bar>sint p\<bar> \<le> 2 ^ 53"
    using sint_range_size [of p] by (simp add: word_size abs_le_iff)
  have "\<bar>of_int (sint p) * (5764607523034235/576460752303423488 :: rat)\<bar> \<le> of_int (2 ^ 53)"
  proof -
    have "\<bar>of_int (sint p) :: rat\<bar> \<le> of_int (2 ^ 53)"
      using s by (metis of_int_abs of_int_le_iff)
    then have "\<bar>of_int (sint p) :: rat\<bar> * (5764607523034235/576460752303423488) \<le> of_int (2 ^ 53) * 1"
      by (intro mult_mono) simp_all
    then show ?thesis by (simp add: abs_mult)
  qed
  then have b: "- (2 ^ 53) \<le> of_int (sint p) * (5764607523034235/576460752303423488 :: rat)"
    "of_int (sint p) * (5764607523034235/576460752303423488 :: rat) \<le> 2 ^ 53"
    unfolding abs_le_iff by (simp_all only: of_int_power of_int_numeral) linarith
  have "rnd (2 ^ 53) = Fin (2 ^ 53)" "rnd (- (2 ^ 53)) = Fin (- (2 ^ 53))"
    using rnd_int [of "2 ^ 53"] rnd_int [of "- (2 ^ 53)"] by simp_all
  then obtain c where "rnd (of_int (sint p) * (5764607523034235/576460752303423488)) = Fin c"
    using rnd_between b by metis
  then show ?thesis
    using rnd_int [OF s] by (simp add: priority_bonus_def fl_of_int_def score_consts float64_defs)
qed

lemma fl_add_finite_mono: "fl_le x y \<Longrightarrow> fl_le (fl_add x (Fin c)) (fl_add y (Fin c))"
  by (rule fl_add_mono2) (cases x; cases y; simp)+

text \<open>
  The priority of a request cannot change which cluster is chosen: it adds the same finite
  bonus to the score of every cluster, and adding it keeps the order of any two scores.
\<close>

theorem priority_same_bonus:
  assumes "hasEnoughResources Q a cpu memory gpu" "hasEnoughResources Q b cpu memory gpu"
  shows "\<exists>sa sb. \<forall>p. calculateScore Q a cpu memory gpu p = Some (sa + priority_bonus p) \<and>
    calculateScore Q b cpu memory gpu p = Some (sb + priority_bonus p) \<and>
    (sa \<le> sb \<longrightarrow> sa + priority_bonus p \<le> sb + priority_bonus p)"
proof -
  have "\<exists>s. \<forall>p. calculateScore Q x cpu memory gpu p = Some (s + priority_bonus p)"
    if enough: "hasEnoughResources Q x cpu memory gpu" for x
  proof -
    obtain g where "gpu_utilization Q x gpu = Some g"
      using calculateScore_no_panic [OF enough, where p = 0] by (auto simp: calculateScore_split)
    then show ?thesis by (auto simp: calculateScore_split)
  qed
  then obtain sa sb where "\<forall>p. calculateScore Q a cpu memory gpu p = Some (sa + priority_bonus p)"
    "\<forall>p. calculateScore Q b cpu memory gpu p = Some (sb + priority_bonus p)"
    using assms by metis
  moreover have "sa + priority_bonus p \<le> sb + priority_bonus p" if "sa \<le> sb" for p
    using that priority_bonus_finite [of p] fl_add_finite_mono [of sa sb] by (auto simp: float64_defs)
  ultimately show ?thesis by blast
qed

lemma priority_same_bonus_witness:
  "\<exists>sa sb. calculateScore nano_ops (sample_adv ''b'' 6 48) (nano_units 2) (nano_units 8) None 7 = Some (sa + priority_bonus 7) \<and>
    calculateScore nano_ops (sample_adv ''c'' 5 40) (nano_units 2) (nano_units 8) None 7 = Some (sb + priority_bonus 7)"
proof -
  have "hasEnoughResources nano_ops (sample_adv cid c m) (nano_units 2) (nano_units 8) None"
    if "2 \<le> c" "8 \<le> m" for cid c m
    using that by (simp add: hasEnoughResources_def gpu_requested_def sample_defs nano_simps sgn_if)
  from priority_same_bonus [OF this this, of 6 48 5 40 "''b''" "''c''"] show ?thesis by auto
qed

lemma availability_term_mono:
  assumes "fl_le x y" "0 < c" "1 - utilization y r (Fin c) \<noteq> NaN" "1 - utilization x r (Fin c) \<noteq> NaN"
  shows "fl_le (1 - utilization x r (Fin c)) (1 - utilization y r (Fin c))"
proof -
  have sub: "fl_le (x - r) (y - r)"
    using assms unfolding float64_defs utilization_def
    by (intro fl_add_mono) (auto dest!: fl_add_not_nan fl_div_not_nan)
  then have "fl_le ((x - r) / Fin c) ((y - r) / Fin c)"
    using assms(2) by (simp add: divide_float64_def fl_div_mono)
  then have "fl_le (- ((y - r) / Fin c)) (- ((x - r) / Fin c))"
    by (simp add: uminus_float64_def fl_neg_antimono)
  then have "fl_le (utilization y r (Fin c)) (utilization x r (Fin c))"
    using assms(3,4) unfolding utilization_def float64_defs
    by (intro fl_add_mono2) (auto dest!: fl_add_not_nan)
  then have "fl_le (- utilization x r (Fin c)) (- utilization y r (Fin c))"
    by (simp add: uminus_float64_def fl_neg_antimono)
  then show ?thesis
    using assms(3,4) unfolding float64_defs by (intro fl_add_mono2) auto
qed

text \<open>
  More availability never lowers the standard score: of two clusters with the same positive
  allocatable amounts and the same cost, without a GPU in the request, the one with at least as
  much CPU and memory available has at least the score of the other (neither score being NaN).
\<close>

theorem score_monotone:
  assumes "q_Float Q (rq_CPU (adv_allocatable a)) = Fin ac" "0 < ac"
    "q_Float Q (rq_Memory (adv_allocatable a)) = Fin am" "0 < am"
    "adv_allocatable b = adv_allocatable a" "ca_Cost (o_spec b) = ca_Cost (o_spec a)"
    "q_Float Q (rq_CPU (adv_available a)) \<le> q_Float Q (rq_CPU (adv_available b))"
    "q_Float Q (rq_Memory (adv_available a)) \<le> q_Float Q (rq_Memory (adv_available b))"
    "calculateScore Q a cpu memory None p = Some sa" "calculateScore Q b cpu memory None p = Some sb"
    "sa \<noteq> NaN" "sb \<noteq> NaN"
  shows "sa \<le> sb"
proof -
  define t where "t x r c = 1 - utilization x r (Fin c)" for x r c
  define ra where "ra = t (q_Float Q (rq_CPU (adv_available a))) (q_Float Q cpu) ac * lit (1/2) +
    t (q_Float Q (rq_Memory (adv_available a))) (q_Float Q memory) am * lit (1/2)"
  define rb where "rb = t (q_Float Q (rq_CPU (adv_available b))) (q_Float Q cpu) ac * lit (1/2) +
    t (q_Float Q (rq_Memory (adv_available b))) (q_Float Q memory) am * lit (1/2)"
  have sa: "sa = weighted_score a ra + priority_bonus p" and sb: "sb = weighted_score b rb + priority_bonus p"
    using assms(1,3,5,9,10)
    by (auto simp: calculateScore_split gpu_utilization_def gpu_requested_def resource_availability_def
        ra_def rb_def t_def)
  have e: "energy_terms b = energy_terms a"
    using assms(6) by (simp add: energy_terms_def)
  have nan: "ra \<noteq> NaN" "rb \<noteq> NaN"
    using assms(11,12) unfolding sa sb weighted_score_def float64_defs
    by (auto simp: split_beta dest!: fl_add_not_nan fl_mul_not_nan)
  have parts: "x \<noteq> NaN \<and> y \<noteq> NaN" if "x * lit (1/2) + y * lit (1/2) \<noteq> NaN" for x y
    using that fl_add_not_nan [of "x * lit (1/2)" "y * lit (1/2)"] fl_mul_not_nan [of x "lit (1/2)"]
      fl_mul_not_nan [of y "lit (1/2)"]
    by (simp add: plus_float64_def times_float64_def)
  note na = parts [OF nan(1) [unfolded ra_def]] and nb = parts [OF nan(2) [unfolded rb_def]]
  have cpu: "fl_le (t (q_Float Q (rq_CPU (adv_available a))) (q_Float Q cpu) ac)
      (t (q_Float Q (rq_CPU (adv_available b))) (q_Float Q cpu) ac)"
    using assms(2,7) na nb unfolding t_def less_eq_float64_def by (intro availability_term_mono) simp_all
  have memory: "fl_le (t (q_Float Q (rq_Memory (adv_available a))) (q_Float Q memory) am)
      (t (q_Float Q (rq_Memory (adv_available b))) (q_Float Q memory) am)"
    using assms(4,8) na nb unfolding t_def less_eq_float64_def by (intro availability_term_mono) simp_all
  have "fl_le ra rb"
    using nan cpu memory unfolding ra_def rb_def score_consts plus_float64_def times_float64_def
    by (intro fl_add_mono2 fl_mul_mono) simp_all
  then have "fl_le (fl_mul ra (Fin (3152519739159347/4503599627370496))) (fl_mul rb (Fin (3152519739159347/4503599627370496)))"
    by (rule fl_mul_mono) simp
  then have "fl_le (ra * lit (7/10)) (rb * lit (7/10))"
    by (simp add: score_consts times_float64_def)
  moreover have "fl_le (x + z) (y + z)" if "fl_le x y" "x + z \<noteq> NaN" "y + z \<noteq> NaN" for x y z
    using that by (simp add: plus_float64_def fl_add_mono)
  moreover have "x + z \<noteq> NaN \<Longrightarrow> x \<noteq> NaN" for x z
    using fl_add_not_nan [of x z] by (simp add: plus_float64_def)
  ultimately have "fl_le sa sb"
    using assms(11,12) unfolding sa sb weighted_score_def e by (simp add: split_beta) metis
  then show ?thesis
    by (simp add: less_eq_float64_def)
qed

lemma availability_term_range:
  assumes "0 \<le> r" "r \<le> x" "x \<le> c" "0 < c" "rnd c = Fin c"
  shows "in_range 0 1 (1 - utilization (Fin x) (Fin r) (Fin c))"
proof -
  have "in_range 0 c (Fin x - Fin r)"
    unfolding minus_float64_def using assms by (auto intro!: in_range_rnd)
  then obtain d where "Fin x - Fin r = Fin d" "0 \<le> d" "d \<le> c"
    by (rule in_rangeE)
  then have "in_range 0 1 ((Fin x - Fin r) / Fin c)"
    using in_range_div [of d c] assms(4) by simp
  then have "in_range 0 1 (utilization (Fin x) (Fin r) (Fin c))"
    unfolding utilization_def by (rule in_range_minus) (use rnd_zero_one in simp_all)
  then show ?thesis
    by (rule in_range_minus) (use rnd_zero_one in simp_all)
qed

lemma sample_score:
  assumes "2 \<le> c" "c \<le> 8" "8 \<le> m" "m \<le> 64"
  obtains s where "calculateScore nano_ops (sample_adv cid c m) (nano_units 2) (nano_units 8) None 0 = Some s" "s \<noteq> NaN"
proof -
  let ?a = "sample_adv cid c m"
  have ints: "rnd 2 = Fin 2" "rnd 8 = Fin 8" "rnd 64 = Fin 64"
    using rnd_int [of 2] rnd_int [of 8] rnd_int [of 64] by simp_all
  have t: "in_range 0 1 (1 - utilization (Fin (of_int c)) (Fin 2) (Fin 8))"
    "in_range 0 1 (1 - utilization (Fin (of_int m)) (Fin 8) (Fin 64))"
    using assms ints by (auto intro!: availability_term_range)
  have "in_range 0 (1/2) ((1 - utilization (Fin (of_int c)) (Fin 2) (Fin 8)) * lit (1/2))"
    "in_range 0 (1/2) ((1 - utilization (Fin (of_int m)) (Fin 8) (Fin 64)) * lit (1/2))"
    unfolding score_consts by (rule in_range_prod [OF t(1)]; simp add: score_extremes)
      (rule in_range_prod [OF t(2)]; simp add: score_extremes)
  then have "in_range 0 1 ((1 - utilization (Fin (of_int c)) (Fin 2) (Fin 8)) * lit (1/2) +
      (1 - utilization (Fin (of_int m)) (Fin 8) (Fin 64)) * lit (1/2))"
    by (rule in_range_sum) (use rnd_zero_one in simp_all)
  then have "in_range 0 1 (resource_availability nano_ops ?a (nano_units 2) (nano_units 8) None)"
  proof -
    have "\<bar>c\<bar> \<le> 2 ^ 53" "\<bar>m\<bar> \<le> 2 ^ 53"
      using assms by simp_all
    then show "in_range 0 1 ((1 - utilization (Fin (of_int c)) (Fin 2) (Fin 8)) * lit (1/2) +
        (1 - utilization (Fin (of_int m)) (Fin 8) (Fin 64)) * lit (1/2)) \<Longrightarrow> ?thesis"
      using ints by (simp add: resource_availability_def sample_floats sample_adv_floats)
  qed
  then have "in_range 0 1 (weighted_score ?a (resource_availability nano_ops ?a (nano_units 2) (nano_units 8) None))"
    by (rule weighted_score_range) (simp add: normalised_cost_def sample_defs)
  moreover have "in_range 0 0 (priority_bonus 0)"
    by (simp add: priority_bonus_def fl_of_int_def score_consts float64_defs)
  ultimately have "in_range 0 1 (weighted_score ?a (resource_availability nano_ops ?a (nano_units 2) (nano_units 8) None) +
      priority_bonus 0)"
    by (rule in_range_sum) (use rnd_zero_one in simp_all)
  then show ?thesis
    using that by (auto simp: calculateScore_split gpu_utilization_def gpu_requested_def in_range_def)
qed

lemma score_monotone_witness:
  "the (calculateScore nano_ops (sample_adv ''b'' 5 40) (nano_units 2) (nano_units 8) None 0) \<le>
   the (calculateScore nano_ops (sample_adv ''c'' 6 48) (nano_units 2) (nano_units 8) None 0)"
proof -
  obtain sa where sa: "calculateScore nano_ops (sample_adv ''b'' 5 40) (nano_units 2) (nano_units 8) None 0 = Some sa" "sa \<noteq> NaN"
    by (rule sample_score [of 5 40 "''b''"]) simp_all
  obtain sb where sb: "calculateScore nano_ops (sample_adv ''c'' 6 48) (nano_units 2) (nano_units 8) None 0 = Some sb" "sb \<noteq> NaN"
    by (rule sample_score [of 6 48 "''c''"]) simp_all
  have "sa \<le> sb"
    by (rule score_monotone [OF sample_adv_floats(1) _ sample_adv_floats(2) _ _ _ _ _ sa(1) sb(1) sa(2) sb(2)])
      (simp_all add: sample_adv_floats less_eq_float64_def, simp_all add: sample_defs)
  then show ?thesis using sa sb by simp
qed

end
