(* ===== verification/Availability.thy ===== *)
theory Availability
  imports Samples
begin

text \<open>
  The resource accounting of the broker (resource-broker/internal/resource): availability.go
  computes Available from Allocatable, Allocated and Reserved; calculator.go moves amounts between
  Available and Reserved of one advertisement. The locale \<open>ledger\<close> is the contract the lock and
  release code relies on; every lawful quantity gives an instance of it (\<open>quantity_ledger\<close>).
\<close>

section \<open>availability.go\<close>

definition CalculateAvailable :: "'q QuantityOps \<Rightarrow> 'q \<Rightarrow> 'q \<Rightarrow> 'q option \<Rightarrow> 'q" where
  "CalculateAvailable Q allocatable allocated reserved =
     (let available = q_Sub Q allocatable allocated
      in case reserved of None \<Rightarrow> available | Some r \<Rightarrow> q_Sub Q available r)"

text \<open>
  \<open>None\<close> is the panic of \<open>*resources.Allocated.GPU\<close> on a nil pointer, which happens after CPU and
  memory have been written; the whole call is lost with it.
\<close>

definition UpdateAvailableResources :: "'q QuantityOps \<Rightarrow> 'q ResourceMetrics \<Rightarrow> 'q ResourceMetrics option" where
  "UpdateAvailableResources Q m =
     (let reservedCPU = (case rm_Reserved m of None \<Rightarrow> q_New Q 0 DecimalSI | Some r \<Rightarrow> rq_CPU r);
          reservedMemory = (case rm_Reserved m of None \<Rightarrow> q_New Q 0 BinarySI | Some r \<Rightarrow> rq_Memory r);
          av = (rm_Available m)\<lparr>
            rq_CPU := CalculateAvailable Q (rq_CPU (rm_Allocatable m)) (rq_CPU (rm_Allocated m)) (Some reservedCPU),
            rq_Memory := CalculateAvailable Q (rq_Memory (rm_Allocatable m)) (rq_Memory (rm_Allocated m)) (Some reservedMemory)\<rparr>
      in case rq_GPU (rm_Allocatable m) of
           None \<Rightarrow> Some (m\<lparr>rm_Available := av\<rparr>)
         | Some gpu \<Rightarrow>
             (case rq_GPU (rm_Allocated m) of
                None \<Rightarrow> None
              | Some allocatedGPU \<Rightarrow>
                  let reservedGPU = (case rm_Reserved m of
                        None \<Rightarrow> q_New Q 0 DecimalSI
                      | Some r \<Rightarrow> (case rq_GPU r of None \<Rightarrow> q_New Q 0 DecimalSI | Some g \<Rightarrow> g))
                  in Some (m\<lparr>rm_Available :=
                       av\<lparr>rq_GPU := Some (CalculateAvailable Q gpu allocatedGPU (Some reservedGPU))\<rparr>\<rparr>)))"

section \<open>calculator.go\<close>

definition CanReserve :: "'q QuantityOps \<Rightarrow> 'q ClusterAdvertisement \<Rightarrow> 'q \<Rightarrow> 'q \<Rightarrow> bool" where
  "CanReserve Q clusterAdv requestedCPU requestedMemory =
     (let available = adv_available clusterAdv
      in if q_Cmp Q (rq_CPU available) requestedCPU < 0 then False
         else if q_Cmp Q (rq_Memory available) requestedMemory < 0 then False
         else True)"

definition AddReservation ::
  "'q QuantityOps \<Rightarrow> 'q ClusterAdvertisement \<Rightarrow> 'q \<Rightarrow> 'q \<Rightarrow> go_error + 'q ClusterAdvertisement" where
  "AddReservation Q clusterAdv cpuToReserve memoryToReserve =
     Inr (with_resources (\<lambda>m.
       let reserved = (case rm_Reserved m of
             None \<Rightarrow> \<lparr>rq_CPU = q_New Q 0 DecimalSI, rq_Memory = q_New Q 0 BinarySI, rq_GPU = None, rq_Storage = None\<rparr>
           | Some r \<Rightarrow> r);
           available = rm_Available m
       in m\<lparr>rm_Reserved := Some (reserved\<lparr>
              rq_CPU := q_Add Q (rq_CPU reserved) cpuToReserve,
              rq_Memory := q_Add Q (rq_Memory reserved) memoryToReserve\<rparr>),
            rm_Available := available\<lparr>
              rq_CPU := q_Sub Q (rq_CPU available) cpuToReserve,
              rq_Memory := q_Sub Q (rq_Memory available) memoryToReserve\<rparr>\<rparr>) clusterAdv)"

definition RemoveReservation ::
  "'q QuantityOps \<Rightarrow> 'q ClusterAdvertisement \<Rightarrow> 'q \<Rightarrow> 'q \<Rightarrow> go_error + 'q ClusterAdvertisement" where
  "RemoveReservation Q clusterAdv cpuToRelease memoryToRelease =
     (case adv_reserved clusterAdv of
        None \<Rightarrow> Inl (ErrMsg ''no reserved resources to release'')
      | Some reserved \<Rightarrow>
          Inr (with_resources (\<lambda>m.
            let available = rm_Available m
            in m\<lparr>rm_Reserved := Some (reserved\<lparr>
                   rq_CPU := q_Sub Q (rq_CPU reserved) cpuToRelease,
                   rq_Memory := q_Sub Q (rq_Memory reserved) memoryToRelease\<rparr>),
                 rm_Available := available\<lparr>
                   rq_CPU := q_Add Q (rq_CPU available) cpuToRelease,
                   rq_Memory := q_Add Q (rq_Memory available) memoryToRelease\<rparr>\<rparr>) clusterAdv))"

section \<open>The contract: a ledger\<close>

text \<open>
  A state \<open>'a\<close> holds a free and a held amount per resource; a demand \<open>'d\<close> is taken when it fits and
  given back later. The client's facts: taking and giving conserve the total, a taken demand
  leaves the free amounts non-negative, and after any run of guarded takes and matched gives the
  held amount is exactly the sum of the outstanding demands.
\<close>

datatype res = ResCPU | ResMemory

lemma res_cases: "(\<forall>r. P r) \<longleftrightarrow> P ResCPU \<and> P ResMemory"
  by (metis res.exhaust)

locale ledger =
  fixes can :: "'a \<Rightarrow> 'd \<Rightarrow> bool"
    and take_it :: "'a \<Rightarrow> 'd \<Rightarrow> 'a"
    and give :: "'a \<Rightarrow> 'd \<Rightarrow> 'a option"
    and free held :: "'a \<Rightarrow> res \<Rightarrow> rat"
    and amount :: "'d \<Rightarrow> res \<Rightarrow> rat"
  assumes can_iff: "can a d \<longleftrightarrow> (\<forall>r. amount d r \<le> free a r)"
    and free_take [simp]: "free (take_it a d) r = free a r - amount d r"
    and held_take [simp]: "held (take_it a d) r = held a r + amount d r"
    and free_give: "give a d = Some b \<Longrightarrow> free b r = free a r + amount d r"
    and held_give: "give a d = Some b \<Longrightarrow> held b r = held a r - amount d r"
    and give_taken: "\<exists>b. give (take_it a d) d' = Some b"
    and give_given: "give a d = Some b \<Longrightarrow> \<exists>c. give b d' = Some c"
begin

lemma take_total: "free (take_it a d) r + held (take_it a d) r = free a r + held a r"
  by simp

lemma give_total: "give a d = Some b \<Longrightarrow> free b r + held b r = free a r + held a r"
  by (simp add: free_give held_give)

lemma take_nonneg: "can a d \<Longrightarrow> 0 \<le> free (take_it a d) r"
  by (simp add: can_iff)

lemma give_take:
  obtains b where "give (take_it a d) d = Some b" "free b = free a" "held b = held a"
proof -
  obtain b where b: "give (take_it a d) d = Some b"
    using give_taken by blast
  moreover from b have "free b = free a" "held b = held a"
    by (simp_all add: fun_eq_iff free_give held_give)
  ultimately show ?thesis using that by blast
qed

inductive ledger_run :: "'a \<Rightarrow> 'd multiset \<Rightarrow> 'a \<Rightarrow> bool" where
  start: "ledger_run a {#} a"
| taken: "ledger_run a out b \<Longrightarrow> can b d \<Longrightarrow> ledger_run a (add_mset d out) (take_it b d)"
| given: "ledger_run a (add_mset d out) b \<Longrightarrow> give b d = Some c \<Longrightarrow> ledger_run a out c"

lemma run_total: "ledger_run a out b \<Longrightarrow> free b r + held b r = free a r + held a r"
  by (induction rule: ledger_run.induct) (simp_all add: give_total)

lemma run_held: "ledger_run a out b \<Longrightarrow> held b r = held a r + (\<Sum>d \<in># out. amount d r)"
  by (induction rule: ledger_run.induct) (simp_all add: held_give)

lemma run_nonneg:
  assumes "ledger_run a out b" "\<And>r. 0 \<le> free a r" "\<And>d r. 0 \<le> amount d r"
  shows "0 \<le> free b r"
  using assms(1,2)
proof (induction rule: ledger_run.induct)
  case start
  then show ?case by simp
next
  case (taken a out b d)
  then show ?case by (simp add: can_iff)
next
  case (given a d out b c)
  then show ?case using assms(3) [of d r] by (simp add: free_give)
qed

end

section \<open>The broker's advertisements as a ledger\<close>

fun free_of :: "('q \<Rightarrow> rat) \<Rightarrow> 'q ClusterAdvertisement \<Rightarrow> res \<Rightarrow> rat" where
  "free_of v a ResCPU = v (rq_CPU (adv_available a))"
| "free_of v a ResMemory = v (rq_Memory (adv_available a))"

fun held_of :: "('q \<Rightarrow> rat) \<Rightarrow> 'q ClusterAdvertisement \<Rightarrow> res \<Rightarrow> rat" where
  "held_of v a ResCPU = (case adv_reserved a of None \<Rightarrow> 0 | Some r \<Rightarrow> v (rq_CPU r))"
| "held_of v a ResMemory = (case adv_reserved a of None \<Rightarrow> 0 | Some r \<Rightarrow> v (rq_Memory r))"

fun demand_of :: "('q \<Rightarrow> rat) \<Rightarrow> 'q \<times> 'q \<Rightarrow> res \<Rightarrow> rat" where
  "demand_of v (cpu, memory) ResCPU = v cpu"
| "demand_of v (cpu, memory) ResMemory = v memory"

definition can_take :: "'q QuantityOps \<Rightarrow> 'q ClusterAdvertisement \<Rightarrow> 'q \<times> 'q \<Rightarrow> bool" where
  "can_take Q a d = CanReserve Q a (fst d) (snd d)"

definition take_from :: "'q QuantityOps \<Rightarrow> 'q ClusterAdvertisement \<Rightarrow> 'q \<times> 'q \<Rightarrow> 'q ClusterAdvertisement" where
  "take_from Q a d = (case AddReservation Q a (fst d) (snd d) of Inl _ \<Rightarrow> a | Inr b \<Rightarrow> b)"

definition give_to :: "'q QuantityOps \<Rightarrow> 'q ClusterAdvertisement \<Rightarrow> 'q \<times> 'q \<Rightarrow> 'q ClusterAdvertisement option" where
  "give_to Q a d = (case RemoveReservation Q a (fst d) (snd d) of Inl _ \<Rightarrow> None | Inr b \<Rightarrow> Some b)"

lemmas ledger_ops = can_take_def take_from_def give_to_def

text \<open>What the two operations leave alone: everything but CPU and memory of Available and Reserved.\<close>

definition same_but_ledger :: "'q ClusterAdvertisement \<Rightarrow> 'q ClusterAdvertisement \<Rightarrow> bool" where
  "same_but_ledger a b \<longleftrightarrow>
     b = with_resources (\<lambda>_. adv_resources b) a \<and>
     rm_Capacity (adv_resources b) = rm_Capacity (adv_resources a) \<and>
     adv_allocatable b = adv_allocatable a \<and>
     rm_Allocated (adv_resources b) = rm_Allocated (adv_resources a) \<and>
     rq_GPU (adv_available b) = rq_GPU (adv_available a) \<and>
     rq_Storage (adv_available b) = rq_Storage (adv_available a) \<and>
     Option.bind (adv_reserved b) rq_GPU = Option.bind (adv_reserved a) rq_GPU \<and>
     Option.bind (adv_reserved b) rq_Storage = Option.bind (adv_reserved a) rq_Storage"

lemma AddReservation_frame [go_frames]:
  "AddReservation Q a c m = Inr b \<Longrightarrow> same_but_ledger a b"
  by (auto simp: AddReservation_def same_but_ledger_def with_resources_def Let_def split: option.splits)

lemma RemoveReservation_frame [go_frames]:
  "RemoveReservation Q a c m = Inr b \<Longrightarrow> same_but_ledger a b"
  by (auto simp: RemoveReservation_def same_but_ledger_def with_resources_def Let_def split: option.splits)

lemma same_but_ledgerD:
  assumes "same_but_ledger a b"
  shows "o_meta b = o_meta a" "o_status b = o_status a" "adv_id b = adv_id a"
    "adv_allocatable b = adv_allocatable a" "ca_Policy (o_spec b) = ca_Policy (o_spec a)"
    "ca_Cost (o_spec b) = ca_Cost (o_spec a)" "rq_GPU (adv_available b) = rq_GPU (adv_available a)"
proof -
  from assms have b: "b = with_resources (\<lambda>_. adv_resources b) a"
    by (simp add: same_but_ledger_def)
  show "o_meta b = o_meta a" "o_status b = o_status a" "adv_id b = adv_id a"
    "ca_Policy (o_spec b) = ca_Policy (o_spec a)" "ca_Cost (o_spec b) = ca_Cost (o_spec a)"
    by (subst b, simp add: with_resources_def)+
  show "adv_allocatable b = adv_allocatable a" "rq_GPU (adv_available b) = rq_GPU (adv_available a)"
    using assms by (simp_all add: same_but_ledger_def)
qed

context quantity
begin

lemma CanReserve_iff:
  "CanReserve Q a c m \<longleftrightarrow> v c \<le> v (rq_CPU (adv_available a)) \<and> v m \<le> v (rq_Memory (adv_available a))"
  by (auto simp: CanReserve_def Let_def cmp_laws)

lemma AddReservation_amounts:
  assumes "AddReservation Q a c m = Inr b"
  shows "free_of v b ResCPU = free_of v a ResCPU - v c" "free_of v b ResMemory = free_of v a ResMemory - v m"
    "held_of v b ResCPU = held_of v a ResCPU + v c" "held_of v b ResMemory = held_of v a ResMemory + v m"
    "adv_reserved b \<noteq> None"
  using assms by (auto simp: AddReservation_def Let_def split: option.splits)

lemma RemoveReservation_amounts:
  assumes "RemoveReservation Q a c m = Inr b"
  shows "free_of v b ResCPU = free_of v a ResCPU + v c" "free_of v b ResMemory = free_of v a ResMemory + v m"
    "held_of v b ResCPU = held_of v a ResCPU - v c" "held_of v b ResMemory = held_of v a ResMemory - v m"
    "adv_reserved b \<noteq> None"
  using assms by (auto simp: RemoveReservation_def Let_def split: option.splits)

lemma RemoveReservation_defined: "adv_reserved a \<noteq> None \<Longrightarrow> \<exists>b. RemoveReservation Q a c m = Inr b"
  by (auto simp: RemoveReservation_def)

end

sublocale quantity \<subseteq> quantity_ledger:
  ledger "can_take Q" "take_from Q" "give_to Q" "free_of v" "held_of v" "demand_of v"
proof
  show "can_take Q a d \<longleftrightarrow> (\<forall>r. demand_of v d r \<le> free_of v a r)" for a d
    by (cases d) (simp add: can_take_def CanReserve_iff res_cases)
  have add: "\<exists>b. AddReservation Q a (fst d) (snd d) = Inr b" for a d
    by (simp add: AddReservation_def)
  show "free_of v (take_from Q a d) r = free_of v a r - demand_of v d r"
    "held_of v (take_from Q a d) r = held_of v a r + demand_of v d r" for a d r
    using add [of a d] AddReservation_amounts [of a "fst d" "snd d"]
    by (cases d; cases r; auto simp: take_from_def)+
  show "free_of v b r = free_of v a r + demand_of v d r"
    "held_of v b r = held_of v a r - demand_of v d r" if "give_to Q a d = Some b" for a d b r
    using that RemoveReservation_amounts [of a "fst d" "snd d"]
    by (cases d; cases r; auto simp: give_to_def split: sum.splits)+
  show "\<exists>b. give_to Q (take_from Q a d) d' = Some b" for a d d'
  proof -
    obtain b where "AddReservation Q a (fst d) (snd d) = Inr b" using add by blast
    with AddReservation_amounts(5) [OF this] RemoveReservation_defined [of b "fst d'" "snd d'"]
    show ?thesis by (auto simp: take_from_def give_to_def)
  qed
  show "\<exists>c. give_to Q b d' = Some c" if "give_to Q a d = Some b" for a d b d'
    using that RemoveReservation_amounts(5) [of a "fst d" "snd d" b]
      RemoveReservation_defined [of b "fst d'" "snd d'"]
    by (auto simp: give_to_def split: sum.splits)
qed

interpretation nano_ledger: ledger "can_take nano_ops" "take_from nano_ops" "give_to nano_ops"
  "free_of nano_value" "held_of nano_value" "demand_of nano_value"
  by (rule nano.quantity_ledger.ledger_axioms)

section \<open>Runs of locks and releases\<close>

text \<open>
  A history of one advertisement: a lock that is refused when the request does not fit, and the
  release of the \<open>i\<close>-th outstanding lock. The result has the advertisement and the outstanding
  requests; \<open>None\<close> would be a release that \<open>RemoveReservation\<close> refuses.
\<close>

datatype 'q ledger_op = Lock 'q 'q | Release nat

definition lock_step ::
  "'q QuantityOps \<Rightarrow> 'q ledger_op \<Rightarrow> 'q ClusterAdvertisement \<times> ('q \<times> 'q) list \<Rightarrow>
   ('q ClusterAdvertisement \<times> ('q \<times> 'q) list) option" where
  "lock_step Q op st =
     (case (op, st) of
        (Lock c m, (a, out)) \<Rightarrow>
          if CanReserve Q a c m
          then case AddReservation Q a c m of Inl _ \<Rightarrow> None | Inr b \<Rightarrow> Some (b, (c, m) # out)
          else Some (a, out)
      | (Release i, (a, out)) \<Rightarrow>
          if i < length out
          then case RemoveReservation Q a (fst (out ! i)) (snd (out ! i)) of
                 Inl _ \<Rightarrow> None
               | Inr b \<Rightarrow> Some (b, take i out @ drop (Suc i) out)
          else Some (a, out))"

fun lock_run ::
  "'q QuantityOps \<Rightarrow> 'q ledger_op list \<Rightarrow> 'q ClusterAdvertisement \<times> ('q \<times> 'q) list \<Rightarrow>
   ('q ClusterAdvertisement \<times> ('q \<times> 'q) list) option" where
  "lock_run Q [] st = Some st"
| "lock_run Q (op # ops) st = (case lock_step Q op st of None \<Rightarrow> None | Some st' \<Rightarrow> lock_run Q ops st')"

fun ledger_op_nonneg :: "('q \<Rightarrow> rat) \<Rightarrow> 'q ledger_op \<Rightarrow> bool" where
  "ledger_op_nonneg v (Lock c m) \<longleftrightarrow> 0 \<le> v c \<and> 0 \<le> v m"
| "ledger_op_nonneg v (Release i) \<longleftrightarrow> True"

context quantity
begin

text \<open>
  The invariant of a history from \<open>a0\<close>: it is a ledger run with the outstanding requests, and
  Reserved is set as soon as something is outstanding.
\<close>

definition history :: "'q ClusterAdvertisement \<Rightarrow> 'q ClusterAdvertisement \<times> ('q \<times> 'q) list \<Rightarrow> bool" where
  "history a0 st \<longleftrightarrow>
     quantity_ledger.ledger_run a0 (mset (snd st)) (fst st) \<and> (snd st \<noteq> [] \<longrightarrow> adv_reserved (fst st) \<noteq> None)"

lemma lock_step_history:
  assumes "history a0 (a, out)"
  shows "\<exists>st'. lock_step Q op (a, out) = Some st' \<and> history a0 st'"
proof (cases op)
  case (Lock c m)
  show ?thesis
  proof (cases "CanReserve Q a c m")
    case True
    obtain b where b: "AddReservation Q a c m = Inr b"
      by (simp add: AddReservation_def)
    moreover have "quantity_ledger.ledger_run a0 (add_mset (c, m) (mset out)) (take_from Q a (c, m))"
      using assms True by (intro quantity_ledger.taken) (simp_all add: history_def can_take_def)
    ultimately show ?thesis
      using Lock True AddReservation_amounts(5) [OF b]
      by (simp add: lock_step_def history_def take_from_def)
  next
    case False
    then show ?thesis using Lock assms by (simp add: lock_step_def)
  qed
next
  case (Release i)
  show ?thesis
  proof (cases "i < length out")
    case True
    then have "adv_reserved a \<noteq> None"
      using assms by (auto simp: history_def)
    then obtain b where b: "RemoveReservation Q a (fst (out ! i)) (snd (out ! i)) = Inr b"
      using RemoveReservation_defined by blast
    from b have g: "give_to Q a (out ! i) = Some b"
      by (simp add: give_to_def)
    from assms have "quantity_ledger.ledger_run a0 (mset out) a"
      by (simp add: history_def)
    then have "quantity_ledger.ledger_run a0 (mset (take i out @ drop (Suc i) out)) b"
      unfolding mset_remove_at [OF True, symmetric] using g by (rule quantity_ledger.given)
    with b show ?thesis
      using Release True RemoveReservation_amounts(5) [OF b]
      by (simp add: lock_step_def history_def)
  next
    case False
    then show ?thesis using Release assms by (simp add: lock_step_def)
  qed
qed

lemma lock_run_history:
  "history a0 st \<Longrightarrow> \<exists>st'. lock_run Q ops st = Some st' \<and> history a0 st'"
proof (induction ops arbitrary: st)
  case Nil
  then show ?case by simp
next
  case (Cons op ops)
  obtain a out where st: "st = (a, out)" by (cases st)
  with Cons.prems lock_step_history [of a0 a out op] obtain st' where
    "lock_step Q op st = Some st'" "history a0 st'" by blast
  with Cons.IH [of st'] show ?case by simp
qed

lemma lock_step_nonneg:
  assumes "\<forall>r. 0 \<le> free_of v a r" "\<forall>d \<in> set out. 0 \<le> v (fst d) \<and> 0 \<le> v (snd d)"
    "ledger_op_nonneg v op" "lock_step Q op (a, out) = Some (b, out')"
  shows "(\<forall>r. 0 \<le> free_of v b r) \<and> (\<forall>d \<in> set out'. 0 \<le> v (fst d) \<and> 0 \<le> v (snd d))"
proof (cases op)
  case (Lock c m)
  then show ?thesis
    using assms AddReservation_amounts(1,2) [of a c m]
    by (auto simp: lock_step_def res_cases CanReserve_iff split: if_splits sum.splits)
next
  case (Release i)
  show ?thesis
  proof (cases "i < length out")
    case True
    then have "0 \<le> v (fst (out ! i)) \<and> 0 \<le> v (snd (out ! i))"
      using assms(2) by simp
    moreover from True Release assms(4) have
      "RemoveReservation Q a (fst (out ! i)) (snd (out ! i)) = Inr b" "out' = take i out @ drop (Suc i) out"
      by (auto simp: lock_step_def split: sum.splits)
    moreover have "set (take i out @ drop (Suc i) out) \<subseteq> set out"
      by (auto dest: in_set_takeD in_set_dropD)
    ultimately show ?thesis
      using assms(1,2) RemoveReservation_amounts(1,2) [of a "fst (out ! i)" "snd (out ! i)" b]
      by (auto simp: res_cases)
  next
    case False
    then show ?thesis using Release assms by (simp add: lock_step_def)
  qed
qed

lemma lock_run_nonneg:
  assumes "\<forall>r. 0 \<le> free_of v (fst st) r" "\<forall>d \<in> set (snd st). 0 \<le> v (fst d) \<and> 0 \<le> v (snd d)"
    "\<forall>op \<in> set ops. ledger_op_nonneg v op" "lock_run Q ops st = Some st'"
  shows "\<forall>r. 0 \<le> free_of v (fst st') r"
  using assms
proof (induction ops arbitrary: st)
  case Nil
  then show ?case by simp
next
  case (Cons op ops)
  obtain a out where st: "st = (a, out)" by (cases st)
  from Cons.prems(4) obtain b out' where step: "lock_step Q op (a, out) = Some (b, out')"
    "lock_run Q ops (b, out') = Some st'"
    by (auto simp: st split: option.splits)
  have "(\<forall>r. 0 \<le> free_of v b r) \<and> (\<forall>d \<in> set out'. 0 \<le> v (fst d) \<and> 0 \<le> v (snd d))"
    using Cons.prems step(1) by (intro lock_step_nonneg [of a out op]) (simp_all add: st)
  then show ?case
    using Cons.IH [of "(b, out')"] Cons.prems(3) step(2) by simp
qed

lemma lock_run_balance:
  assumes "lock_run Q ops (a, []) = Some (b, out)"
  shows "free_of v b r + held_of v b r = free_of v a r + held_of v a r"
    "held_of v b r = held_of v a r + (\<Sum>d \<leftarrow> out. demand_of v d r)"
proof -
  have "history a (a, [])"
    by (simp add: history_def quantity_ledger.start)
  then have "history a (b, out)"
    using lock_run_history [of a "(a, [])" ops] assms by simp
  then have run: "quantity_ledger.ledger_run a (mset out) b"
    by (simp add: history_def)
  show "free_of v b r + held_of v b r = free_of v a r + held_of v a r"
    by (rule quantity_ledger.run_total [OF run])
  show "held_of v b r = held_of v a r + (\<Sum>d \<leftarrow> out. demand_of v d r)"
    using quantity_ledger.run_held [OF run, of r] by (simp flip: sum_mset_sum_list)
qed

lemma lock_run_defined: "\<exists>b out. lock_run Q ops (a, []) = Some (b, out)"
  using lock_run_history [of a "(a, [])" ops]
  by (auto simp: history_def quantity_ledger.start)

lemma UpdateAvailable_amounts:
  assumes "UpdateAvailableResources Q m = Some m'"
  shows "v (rq_CPU (rm_Available m')) = v (rq_CPU (rm_Allocatable m)) - v (rq_CPU (rm_Allocated m)) -
      (case rm_Reserved m of None \<Rightarrow> 0 | Some r \<Rightarrow> v (rq_CPU r))"
    "v (rq_Memory (rm_Available m')) = v (rq_Memory (rm_Allocatable m)) - v (rq_Memory (rm_Allocated m)) -
      (case rm_Reserved m of None \<Rightarrow> 0 | Some r \<Rightarrow> v (rq_Memory r))"
    "rm_Reserved m' = rm_Reserved m" "rm_Allocatable m' = rm_Allocatable m" "rm_Allocated m' = rm_Allocated m"
  using assms
  by (auto simp: UpdateAvailableResources_def CalculateAvailable_def Let_def split: option.splits)

end

section \<open>Properties\<close>

text \<open>
  \<open>Available = Allocatable - Allocated - Reserved\<close>, the equation availability.go calls the single
  source of truth, for CPU and memory.
\<close>

definition balanced :: "('q \<Rightarrow> rat) \<Rightarrow> 'q ResourceMetrics \<Rightarrow> bool" where
  "balanced v m \<longleftrightarrow>
     v (rq_CPU (rm_Available m)) = v (rq_CPU (rm_Allocatable m)) - v (rq_CPU (rm_Allocated m)) -
       (case rm_Reserved m of None \<Rightarrow> 0 | Some r \<Rightarrow> v (rq_CPU r)) \<and>
     v (rq_Memory (rm_Available m)) = v (rq_Memory (rm_Allocatable m)) - v (rq_Memory (rm_Allocated m)) -
       (case rm_Reserved m of None \<Rightarrow> 0 | Some r \<Rightarrow> v (rq_Memory r))"

context quantity
begin

lemma balanced_amounts:
  assumes "same_but_ledger a b" "\<And>r. free_of v b r + held_of v b r = free_of v a r + held_of v a r"
    "balanced v (adv_resources a)"
  shows "balanced v (adv_resources b)"
proof -
  have "adv_allocatable b = adv_allocatable a" "rm_Allocated (adv_resources b) = rm_Allocated (adv_resources a)"
    using assms(1) by (simp_all add: same_but_ledger_def)
  with assms(2) [of ResCPU] assms(2) [of ResMemory] assms(3) show ?thesis
    by (simp add: balanced_def)
qed

end

text \<open>
  C30. A history of locks (refused when the request does not fit) and releases of outstanding locks
  never fails, and from an advertisement with non-negative Available it keeps Available
  non-negative, keeps Available + Reserved constant, and has in Reserved exactly what it had plus
  the outstanding requests, for CPU and memory.
\<close>

theorem lock_history_sound:
  assumes "quantity Q v" "\<forall>r. 0 \<le> free_of v a r" "\<forall>op \<in> set ops. ledger_op_nonneg v op"
  shows "\<exists>b out. lock_run Q ops (a, []) = Some (b, out) \<and>
    (\<forall>r. 0 \<le> free_of v b r \<and>
         free_of v b r + held_of v b r = free_of v a r + held_of v a r \<and>
         held_of v b r = held_of v a r + (\<Sum>d \<leftarrow> out. demand_of v d r))"
proof -
  obtain b out where run: "lock_run Q ops (a, []) = Some (b, out)"
    using quantity.lock_run_defined [OF assms(1)] by blast
  then have "\<forall>r. 0 \<le> free_of v b r"
    using quantity.lock_run_nonneg [OF assms(1), of "(a, [])" ops "(b, out)"] assms(2,3) by simp
  with run quantity.lock_run_balance [OF assms(1) run] show ?thesis by blast
qed

lemma lock_history_witness:
  "\<exists>b out. lock_run nano_ops [Lock (nano_units 2) (nano_units 8), Release 0, Lock (nano_units 9) (nano_units 1)]
      (sample_adv ''b'' 6 48, []) = Some (b, out) \<and>
    (\<forall>r. 0 \<le> free_of nano_value b r \<and>
         free_of nano_value b r + held_of nano_value b r =
           free_of nano_value (sample_adv ''b'' 6 48) r + held_of nano_value (sample_adv ''b'' 6 48) r \<and>
         held_of nano_value b r =
           held_of nano_value (sample_adv ''b'' 6 48) r + (\<Sum>d \<leftarrow> out. demand_of nano_value d r))"
  by (rule lock_history_sound [OF nano.quantity_axioms])
    (auto simp: res_cases sample_defs nano_simps)

text \<open>
  A granted lock: when the request fits, \<open>AddReservation\<close> succeeds, moves exactly the requested
  CPU and memory from Available to Reserved, leaves Available non-negative, and changes nothing
  else of the advertisement; in particular a GPU amount is neither checked nor moved.
\<close>

theorem granted_lock:
  assumes "quantity Q v" "CanReserve Q a c m"
  shows "\<exists>b. AddReservation Q a c m = Inr b \<and> same_but_ledger a b \<and>
    (\<forall>r. free_of v b r = free_of v a r - demand_of v (c, m) r \<and> 0 \<le> free_of v b r \<and>
         held_of v b r = held_of v a r + demand_of v (c, m) r)"
proof -
  obtain b where b: "AddReservation Q a c m = Inr b"
    by (simp add: AddReservation_def)
  with AddReservation_frame [OF b] quantity.AddReservation_amounts [OF assms(1) b]
    quantity.CanReserve_iff [OF assms(1), of a c m] assms(2)
  show ?thesis by (auto simp: res_cases)
qed

lemma granted_lock_witness:
  "\<exists>b. AddReservation nano_ops (sample_adv ''b'' 6 48) (nano_units 2) (nano_units 8) = Inr b \<and>
    same_but_ledger (sample_adv ''b'' 6 48) b \<and>
    (\<forall>r. free_of nano_value b r = free_of nano_value (sample_adv ''b'' 6 48) r -
           demand_of nano_value (nano_units 2, nano_units 8) r \<and> 0 \<le> free_of nano_value b r \<and>
         held_of nano_value b r = held_of nano_value (sample_adv ''b'' 6 48) r +
           demand_of nano_value (nano_units 2, nano_units 8) r)"
  by (rule granted_lock [OF nano.quantity_axioms])
    (simp add: CanReserve_def sample_defs nano_simps)

text \<open>
  \<open>RemoveReservation\<close> fails exactly when nothing was ever reserved, and undoes a lock: the
  amounts of Available and Reserved are those before it.
\<close>

theorem release_undoes_lock:
  assumes "quantity Q v" "AddReservation Q a c m = Inr b"
  shows "\<exists>b'. RemoveReservation Q b c m = Inr b' \<and> free_of v b' = free_of v a \<and>
      held_of v b' = held_of v a \<and> same_but_ledger b b' \<and>
      ((\<exists>e. RemoveReservation Q a c m = Inl e) = (adv_reserved a = None))"
proof -
  obtain b' where b': "RemoveReservation Q b c m = Inr b'"
    using quantity.RemoveReservation_defined [OF assms(1)]
      quantity.AddReservation_amounts(5) [OF assms(1,2)] by blast
  have "(\<exists>e. RemoveReservation Q a c m = Inl e) = (adv_reserved a = None)"
    by (simp add: RemoveReservation_def split: option.split)
  moreover have "free_of v b' r = free_of v a r \<and> held_of v b' r = held_of v a r" for r
    using quantity.RemoveReservation_amounts [OF assms(1) b']
      quantity.AddReservation_amounts [OF assms(1,2)] by (cases r) auto
  ultimately show ?thesis
    using b' RemoveReservation_frame [OF b'] by (auto simp: fun_eq_iff)
qed

lemma release_undoes_lock_witness:
  "\<exists>b. AddReservation nano_ops (sample_adv ''b'' 6 48) (nano_units 2) (nano_units 8) = Inr b \<and>
    (\<exists>b'. RemoveReservation nano_ops b (nano_units 2) (nano_units 8) = Inr b' \<and>
      free_of nano_value b' = free_of nano_value (sample_adv ''b'' 6 48) \<and>
      held_of nano_value b' = held_of nano_value (sample_adv ''b'' 6 48) \<and> same_but_ledger b b' \<and>
      ((\<exists>e. RemoveReservation nano_ops (sample_adv ''b'' 6 48) (nano_units 2) (nano_units 8) = Inl e) =
        (adv_reserved (sample_adv ''b'' 6 48) = None)))"
proof -
  obtain b where b: "AddReservation nano_ops (sample_adv ''b'' 6 48) (nano_units 2) (nano_units 8) = Inr b"
    by (simp add: AddReservation_def)
  show ?thesis
    by (rule exI [of _ b], rule conjI [OF b release_undoes_lock [OF nano.quantity_axioms b]])
qed

text \<open>
  \<open>UpdateAvailableResources\<close> panics exactly when a GPU is allocatable but the allocated amount is
  absent; otherwise it establishes Available = Allocatable - Allocated - Reserved and touches
  nothing but Available.
\<close>

theorem update_available:
  assumes "quantity Q v"
  shows "case UpdateAvailableResources Q m of
      None \<Rightarrow> rq_GPU (rm_Allocatable m) \<noteq> None \<and> rq_GPU (rm_Allocated m) = None
    | Some m' \<Rightarrow> (rq_GPU (rm_Allocatable m) = None \<or> rq_GPU (rm_Allocated m) \<noteq> None) \<and>
        balanced v m' \<and> m' = m\<lparr>rm_Available := rm_Available m'\<rparr>"
proof (cases "UpdateAvailableResources Q m")
  case None
  then show ?thesis
    by (auto simp: UpdateAvailableResources_def Let_def split: option.splits)
next
  case (Some m')
  moreover have "balanced v m'"
    using quantity.UpdateAvailable_amounts [OF assms Some] by (simp add: balanced_def)
  ultimately show ?thesis
    by (auto simp: UpdateAvailableResources_def Let_def split: option.splits)
qed

lemma update_available_witness:
  "case UpdateAvailableResources nano_ops (sample_metrics 1 1) of
      None \<Rightarrow> rq_GPU (rm_Allocatable (sample_metrics 1 1)) \<noteq> None \<and> rq_GPU (rm_Allocated (sample_metrics 1 1)) = None
    | Some m' \<Rightarrow> (rq_GPU (rm_Allocatable (sample_metrics 1 1)) = None \<or> rq_GPU (rm_Allocated (sample_metrics 1 1)) \<noteq> None) \<and>
        balanced nano_value m' \<and> m' = (sample_metrics 1 1)\<lparr>rm_Available := rm_Available m'\<rparr>"
  by (rule update_available [OF nano.quantity_axioms])

text \<open>
  Locking and releasing keep the equation Available = Allocatable - Allocated - Reserved, so
  the broker's bookkeeping agrees with a recomputation.
\<close>

theorem balanced_invariant:
  assumes "quantity Q v" "balanced v (adv_resources a)"
    "AddReservation Q a c m = Inr b \<or> RemoveReservation Q a c m = Inr b"
  shows "balanced v (adv_resources b)"
proof -
  have "same_but_ledger a b"
    using assms(3) by (auto intro: AddReservation_frame RemoveReservation_frame)
  moreover have "free_of v b r + held_of v b r = free_of v a r + held_of v a r" for r
    using assms(3) quantity.AddReservation_amounts [OF assms(1), of a c m b]
      quantity.RemoveReservation_amounts [OF assms(1), of a c m b]
    by (cases r) auto
  ultimately show ?thesis
    by (rule quantity.balanced_amounts [OF assms(1)]) (rule assms(2))
qed

lemma balanced_invariant_witness:
  "\<exists>b. RemoveReservation nano_ops (with_resources (\<lambda>m. m\<lparr>rm_Reserved := Some (sample_quantities 1 2)\<rparr>)
        (sample_adv ''b'' 5 46)) (nano_units 1) (nano_units 2) = Inr b \<and> balanced nano_value (adv_resources b)"
proof -
  define a where "a = with_resources (\<lambda>m. m\<lparr>rm_Reserved := Some (sample_quantities 1 2)\<rparr>) (sample_adv ''b'' 5 46)"
  obtain b where "RemoveReservation nano_ops a (nano_units 1) (nano_units 2) = Inr b"
    by (simp add: RemoveReservation_def a_def)
  moreover have "balanced nano_value (adv_resources a)"
    by (simp add: a_def balanced_def sample_defs nano_simps)
  ultimately show ?thesis
    using balanced_invariant [OF nano.quantity_axioms, of a _ _ b] unfolding a_def by blast
qed

end
