(* ===== verification/AdvertisementHandler.thy ===== *)
theory AdvertisementHandler
  imports Middleware Decision Availability
begin

text \<open>
  The advertisement endpoints (resource-broker/internal/api/handlers/advertisement.go and
  handler.go). \<open>PostAdvertisement\<close> merges what an agent reports with what the broker keeps in the
  stored advertisement (Reserved, policy, carbon values, energy price) under a conflict retry.
\<close>

text \<open>
  \<open>Handler\<close>: the API client and the decision engine's client are in the environment; what remains
  are the namespace and the engine's configuration.
\<close>

record Handler =
  h_namespace :: string
  h_decisionEngine :: DecisionEngine

definition NewHandler :: "string \<Rightarrow> DecisionEngine \<Rightarrow> Handler" where
  "NewHandler namespace engine = \<lparr>h_namespace = namespace, h_decisionEngine = engine\<rparr>"

section \<open>Merging\<close>

definition keep_carbon :: "'q ClusterAdvertisementSpec \<Rightarrow> 'q ClusterAdvertisementSpec \<Rightarrow> 'q ClusterAdvertisementSpec" where
  "keep_carbon old s =
     (if ca_CarbonIntensity s = [] \<and> ca_CarbonIntensity old \<noteq> []
      then s\<lparr>ca_CarbonIntensity := ca_CarbonIntensity old, ca_CarbonLastUpdate := ca_CarbonLastUpdate old\<rparr>
      else s)"

definition keep_cost :: "CostInfo option \<Rightarrow> CostInfo option \<Rightarrow> CostInfo option" where
  "keep_cost oldCost new =
     (case oldCost of
        None \<Rightarrow> new
      | Some old \<Rightarrow>
          if ci_EnergyCost old > 0 then
            (case new of
               None \<Rightarrow> Some \<lparr>ci_CPUCost = '''', ci_MemoryCost = '''', ci_Currency = ci_Currency old,
                         ci_Renewable = False, ci_EnergyCost = ci_EnergyCost old\<rparr>
             | Some c \<Rightarrow>
                 if ci_EnergyCost c = 0 then
                   Some (c\<lparr>ci_EnergyCost := ci_EnergyCost old,
                           ci_Currency := (if ci_Currency c = '''' then ci_Currency old else ci_Currency c)\<rparr>)
                 else Some c)
          else new)"

definition subtract_reserved ::
  "'q QuantityOps \<Rightarrow> 'q ResourceQuantities option \<Rightarrow> 'q ResourceQuantities \<Rightarrow> 'q ResourceQuantities" where
  "subtract_reserved Q reserved available =
     (case reserved of
        None \<Rightarrow> available
      | Some r \<Rightarrow>
          available\<lparr>
            rq_CPU := q_Sub Q (rq_CPU available) (rq_CPU r),
            rq_Memory := q_Sub Q (rq_Memory available) (rq_Memory r),
            rq_GPU := (case (rq_GPU r, rq_GPU available) of
                (Some rg, Some ag) \<Rightarrow> Some (q_Sub Q ag rg)
              | _ \<Rightarrow> rq_GPU available)\<rparr>)"

definition merge_advertisement ::
  "'q QuantityOps \<Rightarrow> 'q ClusterAdvertisement \<Rightarrow> 'q ClusterAdvertisement \<Rightarrow> 'q ClusterAdvertisement" where
  "merge_advertisement Q latest incoming =
     (let old = o_spec latest;
          reserved = rm_Reserved (ca_Resources old);
          s1 = (o_spec incoming)\<lparr>
            ca_Resources := (ca_Resources (o_spec incoming))\<lparr>rm_Reserved := reserved\<rparr>,
            ca_Policy := ca_Policy old\<rparr>;
          s2 = keep_carbon old s1;
          s3 = s2\<lparr>ca_Cost := keep_cost (ca_Cost old) (ca_Cost s2)\<rparr>;
          s4 = s3\<lparr>ca_Resources := (ca_Resources s3)\<lparr>
            rm_Available := subtract_reserved Q reserved (rm_Available (ca_Resources s3))\<rparr>\<rparr>
      in latest\<lparr>o_spec := s4\<rparr>)"

section \<open>PostAdvertisement\<close>

text \<open>The function retried on conflict.\<close>

definition update_advertisement ::
  "('w, 'q) BrokerEnv \<Rightarrow> Handler \<Rightarrow> AdvertisementDTO \<Rightarrow> ('w, go_error + ReservationStatus option) state" where
  "update_advertisement E h incomingAdv = do {
     got \<leftarrow> c_get (b_adv E) (h_namespace h, ad_ClusterID incomingAdv @ ''-adv'');
     case got of
       Inl e \<Rightarrow> ret (Inl (ErrApi e))
     | Inr latest \<Rightarrow>
         (case ToClusterAdvertisement (b_Q E) incomingAdv (h_namespace h) of
            Inl e \<Rightarrow> ret (Inl (ErrMsg e))
          | Inr clusterAdvRetry \<Rightarrow> do {
              r \<leftarrow> c_update (b_adv E) (merge_advertisement (b_Q E) latest clusterAdvRetry);
              ret (case r of Inl e \<Rightarrow> Inl (ErrApi e) | Inr _ \<Rightarrow> Inr None)
            })
   }"

text \<open>The reserved reservations whose provider is the calling cluster.\<close>

definition instructions_for :: "'q QuantityOps \<Rightarrow> string \<Rightarrow> 'q Reservation list \<Rightarrow> ReservationDTO list" where
  "instructions_for Q clusterID rsvs =
     map (FromReservation Q) (filter (\<lambda>r. rsv_phase r = PhaseReserved \<and> rsv_target r = clusterID) rsvs)"

definition advertisement_response ::
  "('w, 'q) BrokerEnv \<Rightarrow> AdvertisementDTO \<Rightarrow> 'q ClusterAdvertisement \<Rightarrow> ('w, HttpResponse option) state" where
  "advertisement_response E incomingAdv clusterAdv = do {
     listed \<leftarrow> c_list (b_rsv E);
     respond_json StatusOK (AdvResponseBody
       \<lparr>ar_Advertisement = FromClusterAdvertisement (b_Q E) clusterAdv,
        ar_ProviderInstructions = (case listed of
            Inl _ \<Rightarrow> []
          | Inr rsvs \<Rightarrow> instructions_for (b_Q E) (ad_ClusterID incomingAdv) rsvs)\<rparr>)
   }"

definition PostAdvertisement :: "('w, 'q) BrokerEnv \<Rightarrow> Handler \<Rightarrow> 'w handler" where
  "PostAdvertisement E h r =
     (case hr_AdvBody r of
        Inl _ \<Rightarrow> http_error ''Invalid request body'' StatusBadRequest
      | Inr incomingAdv \<Rightarrow>
          if ad_ClusterID incomingAdv \<noteq> fst (GetClusterID r)
          then http_error ''Cluster ID does not match certificate'' StatusForbidden
          else do {
            existing \<leftarrow> c_get (b_adv E) (h_namespace h, ad_ClusterID incomingAdv @ ''-adv'');
            case ToClusterAdvertisement (b_Q E) incomingAdv (h_namespace h) of
              Inl _ \<Rightarrow> http_error ''Failed to process advertisement'' StatusInternalServerError
            | Inr clusterAdv \<Rightarrow>
                (case existing of
                   Inr _ \<Rightarrow> do {
                     updated \<leftarrow> b_retry E (update_advertisement E h incomingAdv);
                     case updated of
                       Inl e \<Rightarrow> http_error (''Failed to update advertisement: '' @ err_text e) StatusInternalServerError
                     | Inr _ \<Rightarrow> advertisement_response E incomingAdv clusterAdv
                   }
                 | Inl e \<Rightarrow>
                     if is_not_found (ErrApi e) then do {
                       created \<leftarrow> c_create (b_adv E) clusterAdv;
                       case created of
                         Inl e \<Rightarrow> http_error (''Failed to create advertisement: '' @ api_text e) StatusInternalServerError
                       | Inr stored \<Rightarrow> advertisement_response E incomingAdv stored
                     }
                     else http_error ''Internal server error'' StatusInternalServerError)
          })"

section \<open>The other two endpoints\<close>

definition GetAdvertisement :: "('w, 'q) BrokerEnv \<Rightarrow> Handler \<Rightarrow> 'w handler" where
  "GetAdvertisement E h r =
     (let clusterID = hr_PathValue r
      in if clusterID = '''' then http_error ''Missing clusterID parameter'' StatusBadRequest
         else do {
           got \<leftarrow> c_get (b_adv E) (h_namespace h, clusterID @ ''-adv'');
           case got of
             Inl e \<Rightarrow> if is_not_found (ErrApi e) then http_error ''Advertisement not found'' StatusNotFound
                      else http_error ''Internal server error'' StatusInternalServerError
           | Inr existing \<Rightarrow> respond_json StatusOK (AdvBody (FromClusterAdvertisement (b_Q E) existing))
         })"

definition GetInstructions :: "('w, 'q) BrokerEnv \<Rightarrow> 'w handler" where
  "GetInstructions E r =
     (let (clusterID, ok) = GetClusterID r
      in if \<not> ok \<or> clusterID = ''''
         then respondWithError StatusForbidden ''Could not determine cluster ID from certificate''
         else do {
           listed \<leftarrow> c_list (b_rsv E);
           case listed of
             Inl _ \<Rightarrow> respondWithError StatusInternalServerError ''Failed to list reservations''
           | Inr rsvs \<Rightarrow> respond_json StatusOK (InstructionsBody (instructions_for (b_Q E) clusterID rsvs))
         })"

section \<open>What a merge keeps\<close>

lemma keep_carbon_simps [simp]:
  "ca_Resources (keep_carbon old s) = ca_Resources s" "ca_Policy (keep_carbon old s) = ca_Policy s"
  "ca_ClusterID (keep_carbon old s) = ca_ClusterID s" "ca_Timestamp (keep_carbon old s) = ca_Timestamp s"
  by (simp_all add: keep_carbon_def)

lemma merge_simps [simp]:
  "o_meta (merge_advertisement Q latest incoming) = o_meta latest"
  "o_status (merge_advertisement Q latest incoming) = o_status latest"
  "adv_reserved (merge_advertisement Q latest incoming) = adv_reserved latest"
  "ca_Policy (o_spec (merge_advertisement Q latest incoming)) = ca_Policy (o_spec latest)"
  "adv_id (merge_advertisement Q latest incoming) = adv_id incoming"
  "adv_allocatable (merge_advertisement Q latest incoming) = adv_allocatable incoming"
  "ca_Timestamp (o_spec (merge_advertisement Q latest incoming)) = ca_Timestamp (o_spec incoming)"
  "adv_available (merge_advertisement Q latest incoming) =
     subtract_reserved Q (adv_reserved latest) (adv_available incoming)"
  by (simp_all add: merge_advertisement_def Let_def)

definition reported_minus_reserved ::
  "('q \<Rightarrow> rat) \<Rightarrow> 'q ClusterAdvertisement \<Rightarrow> 'q ClusterAdvertisement \<Rightarrow> 'q ClusterAdvertisement \<Rightarrow> bool" where
  "reported_minus_reserved v old incoming new \<longleftrightarrow>
     (\<forall>r. free_of v new r = free_of v incoming r - held_of v old r)"

context quantity
begin

lemma merge_available: "reported_minus_reserved v old incoming (merge_advertisement Q old incoming)"
  by (simp add: reported_minus_reserved_def res_cases subtract_reserved_def split: option.splits)

end

lemma update_advertisement_conflict:
  assumes "broker_world E v advs rsvs" "run_state (update_advertisement E h inc) w = (Inl e, w')"
  shows "advs w' = advs w"
proof -
  note adv = broker_worldD(2) [OF assms(1)]
  obtain got w1 where get: "run_state (c_get (b_adv E) (h_namespace h, ad_ClusterID inc @ ''-adv'')) w = (got, w1)"
    by fastforce
  with assms(2) kube_client.get_same [OF adv get] kube_client.write_fail(2) [OF adv]
  show ?thesis
    by (fastforce simp: update_advertisement_def split: sum.splits prod.splits)
qed

lemma update_advertisement_ok:
  assumes "broker_world E v advs rsvs" "run_state (update_advertisement E h inc) w = (Inr x, w')"
    "k = (h_namespace h, ad_ClusterID inc @ ''-adv'')"
  obtains old new incoming where "advs w k = Some old"
    "ToClusterAdvertisement (b_Q E) inc (h_namespace h) = Inr incoming"
    "advs w' = (advs w)(k := if finalized old old then None else Some new)"
    "obj_key new = k" "o_spec new = o_spec (merge_advertisement (b_Q E) old incoming)" "o_status new = o_status old"
proof -
  note adv = broker_worldD(2) [OF assms(1)]
  obtain got w1 where get: "run_state (c_get (b_adv E) k) w = (got, w1)"
    by fastforce
  with assms(2,3) obtain old where got: "got = Inr old"
    by (auto simp: update_advertisement_def split: sum.splits)
  with assms(2,3) get obtain incoming where inc: "ToClusterAdvertisement (b_Q E) inc (h_namespace h) = Inr incoming"
    by (auto simp: update_advertisement_def split: sum.splits)
  define m where "m = merge_advertisement (b_Q E) old incoming"
  have old: "advs w k = Some old" "obj_key old = k" "advs w1 = advs w"
    using kube_client.get_found [OF adv, of k w old w1] kube_client.get_same [OF adv get] get got by simp_all
  obtain r w2 where upd: "run_state (c_update (b_adv E) m) w1 = (r, w2)" by fastforce
  with assms(2,3) get got inc obtain new where new: "r = Inr new" "w2 = w'"
    by (auto simp: update_advertisement_def m_def split: sum.splits)
  have key: "obj_key m = k"
    using old(2) by (simp add: m_def)
  have "finalized old m = finalized old old"
    by (simp add: finalized_def m_def)
  with kube_client.update_ok [OF adv, of m w1 new w'] upd new old key
  have "advs w' = (advs w)(k := if finalized old old then None else Some new)" "obj_key new = k"
    "o_spec new = o_spec m" "o_status new = o_status old"
    by auto
  with old(1) inc that show ?thesis by (simp add: m_def)
qed

lemma advertisement_response_effect:
  assumes "broker_world E v advs rsvs" "run_state (advertisement_response E inc a) w = (r, w')"
  shows "advs w' = advs w \<and> rsvs w' = rsvs w \<and>
    (\<exists>is. r = Some \<lparr>hs_Status = StatusOK, hs_Body = AdvResponseBody
        \<lparr>ar_Advertisement = FromClusterAdvertisement (b_Q E) a, ar_ProviderInstructions = is\<rparr>\<rparr>)"
proof -
  note rsv = broker_worldD(3) [OF assms(1)]
  obtain listed w1 where l: "run_state (c_list (b_rsv E)) w = (listed, w1)" by fastforce
  then have "w' = w1"
    using assms(2) by (simp add: advertisement_response_def respond_json_def)
  moreover have "advs w1 = advs w"
    using broker_world.rsv_keeps_advs [OF assms(1)] keepsD [OF client_keepsD(2) l] by blast
  moreover have "rsvs w1 = rsvs w"
    by (rule kube_client.list_same [OF rsv l])
  ultimately show ?thesis
    using assms(2) l by (auto simp: advertisement_response_def respond_json_def)
qed

lemma retried_update_ok:
  assumes "broker_world E v advs rsvs" "run_state (b_retry E (update_advertisement E h inc)) w = (Inr x, w')"
    "ToClusterAdvertisement (b_Q E) inc (h_namespace h) = Inr incoming" "k = (h_namespace h, ad_ClusterID inc @ ''-adv'')"
    "\<forall>k a. advs w k = Some a \<longrightarrow> m_DeletionTimestamp (o_meta a) = None"
  obtains old new where "advs w k = Some old" "advs w' = (advs w)(k \<mapsto> new)" "adv_id new = ad_ClusterID inc"
    "adv_reserved new = adv_reserved old \<and> ca_Policy (o_spec new) = ca_Policy (o_spec old) \<and>
     o_status new = o_status old \<and> reported_minus_reserved v old incoming new"
proof -
  obtain w0 where w0: "advs w0 = advs w" "run_state (update_advertisement E h inc) w0 = (Inr x, w')"
    using update_advertisement_conflict [OF assms(1)]
    by (rule_tac retry_on_conflict.retry_last_run [OF broker_worldD(4) [OF assms(1)] _ assms(2), of advs]) auto
  obtain old new incoming' where eff: "advs w0 k = Some old"
    "ToClusterAdvertisement (b_Q E) inc (h_namespace h) = Inr incoming'"
    "advs w' = (advs w0)(k := if finalized old old then None else Some new)"
    "o_spec new = o_spec (merge_advertisement (b_Q E) old incoming')" "o_status new = o_status old"
    by (rule update_advertisement_ok [OF assms(1) w0(2) assms(4)]) blast
  have [simp]: "incoming' = incoming" using eff(2) assms(3) by simp
  have old: "advs w k = Some old" using eff(1) w0(1) by simp
  have "free_of v new r = free_of v (merge_advertisement (b_Q E) old incoming) r" for r
    using eff(4) by (cases r) simp_all
  with quantity.merge_available [OF broker_worldD(1) [OF assms(1)], of old incoming]
  have minus: "reported_minus_reserved v old incoming new" by (simp add: reported_minus_reserved_def)
  have stored: "advs w' = (advs w)(k \<mapsto> new)"
    using eff(3) w0(1) assms(5) old by (auto simp: finalized_def)
  have id: "adv_id new = ad_ClusterID inc"
    using assms(3) eff(4) by (auto simp: ToClusterAdvertisement_def split: sum.splits)
  show ?thesis using minus eff(4,5) by (intro that [OF old stored id]) simp
qed

lemma retried_update_fail:
  assumes "broker_world E v advs rsvs" "run_state (b_retry E (update_advertisement E h inc)) w = (Inl e, w')"
  shows "advs w' = advs w"
proof -
  obtain w0 where "advs w0 = advs w" "run_state (update_advertisement E h inc) w0 = (Inl e, w')"
    using update_advertisement_conflict [OF assms(1)]
    by (rule_tac retry_on_conflict.retry_last_run [OF broker_worldD(4) [OF assms(1)] _ assms(2), of advs]) auto
  with update_advertisement_conflict [OF assms(1)] show ?thesis by simp
qed

lemma post_advertisement_refused:
  assumes "broker_world E v advs rsvs" "run_state (PostAdvertisement E h r) w = (Some resp, w')"
    "\<nexists>inc incoming. hr_AdvBody r = Inr inc \<and> ad_ClusterID inc = fst (GetClusterID r) \<and>
      ToClusterAdvertisement (b_Q E) inc (h_namespace h) = Inr incoming"
  shows "hs_Status resp \<noteq> StatusOK \<and> advs w' = advs w"
proof (cases "hr_AdvBody r")
  case (Inl e)
  then show ?thesis using assms(2) by (auto simp: PostAdvertisement_def respond_defs status_defs)
next
  case (Inr inc)
  obtain existing w1 where "run_state (c_get (b_adv E) (h_namespace h, ad_ClusterID inc @ ''-adv'')) w = (existing, w1)"
    by fastforce
  with kube_client.get_same [OF broker_worldD(2) [OF assms(1)] this] assms(3) Inr show ?thesis
    using assms(2)
    by (cases "ToClusterAdvertisement (b_Q E) inc (h_namespace h)")
      (auto simp: PostAdvertisement_def respond_defs status_defs split: if_splits)
qed

text \<open>The two ways a report is stored: a first one as it is, a later one merged into what is there.\<close>

lemma first_report:
  assumes "broker_world E v advs rsvs" "ToClusterAdvertisement (b_Q E) inc ns = Inr incoming" "k = (ns, ad_ClusterID inc @ ''-adv'')"
    "run_state (c_create (b_adv E) incoming) w = (Inr st, w1)" "run_state (advertisement_response E inc st) w1 = (Some resp, w')"
  shows "hs_Status resp = StatusOK \<and> advs w' = (advs w)(k \<mapsto> st) \<and> o_spec st = o_spec incoming \<and> adv_id incoming = ad_ClusterID inc"
proof -
  have "obj_key incoming = k" "adv_id incoming = ad_ClusterID inc"
    using assms(2,3) by (auto simp: ToClusterAdvertisement_def split: sum.splits)
  with kube_client.create_ok [OF broker_worldD(2) [OF assms(1)] assms(4)] advertisement_response_effect [OF assms(1,5)]
  show ?thesis by auto
qed

lemma later_report:
  assumes "broker_world E v advs rsvs" "\<forall>k a. advs w k = Some a \<longrightarrow> m_DeletionTimestamp (o_meta a) = None"
    "ToClusterAdvertisement (b_Q E) inc (h_namespace h) = Inr incoming" "k = (h_namespace h, ad_ClusterID inc @ ''-adv'')"
    "run_state (b_retry E (update_advertisement E h inc)) w = (Inr x, w1)"
    "run_state (advertisement_response E inc incoming) w1 = (Some resp, w')"
  obtains old new where "hs_Status resp = StatusOK" "advs w k = Some old" "advs w' = (advs w)(k \<mapsto> new)"
    "adv_id new = ad_ClusterID inc" "adv_reserved new = adv_reserved old" "ca_Policy (o_spec new) = ca_Policy (o_spec old)"
    "o_status new = o_status old" "reported_minus_reserved v old incoming new"
proof -
  obtain old new where eff: "advs w k = Some old" "advs w1 = (advs w)(k \<mapsto> new)" "adv_id new = ad_ClusterID inc"
    "adv_reserved new = adv_reserved old \<and> ca_Policy (o_spec new) = ca_Policy (o_spec old) \<and>
     o_status new = o_status old \<and> reported_minus_reserved v old incoming new"
    by (rule retried_update_ok [OF assms(1,5,3,4)]) (use assms(2) in auto)
  with advertisement_response_effect [OF assms(1,6)] that show thesis by auto
qed

lemma post_advertisement_cases:
  assumes "broker_world E v advs rsvs" "run_state (PostAdvertisement E h r) w = (Some resp, w')"
    "\<forall>k a. advs w k = Some a \<longrightarrow> m_DeletionTimestamp (o_meta a) = None"
  obtains (rejected) "hs_Status resp \<noteq> StatusOK" "advs w' = advs w"
  | (stored) inc incoming new k where "hs_Status resp = StatusOK" "hr_AdvBody r = Inr inc"
      "ad_ClusterID inc = fst (GetClusterID r)" "k = (h_namespace h, ad_ClusterID inc @ ''-adv'')"
      "ToClusterAdvertisement (b_Q E) inc (h_namespace h) = Inr incoming" "advs w' = (advs w)(k \<mapsto> new)"
      "case advs w k of
          None \<Rightarrow> o_spec new = o_spec incoming
        | Some old \<Rightarrow> adv_reserved new = adv_reserved old \<and> ca_Policy (o_spec new) = ca_Policy (o_spec old) \<and>
            o_status new = o_status old \<and> reported_minus_reserved v old incoming new"
      "adv_id new = ad_ClusterID inc"
proof (cases "\<exists>inc incoming. hr_AdvBody r = Inr inc \<and> ad_ClusterID inc = fst (GetClusterID r) \<and>
    ToClusterAdvertisement (b_Q E) inc (h_namespace h) = Inr incoming")
  case False
  with post_advertisement_refused [OF assms(1,2)] rejected show ?thesis by blast
next
  case True
  note adv = broker_worldD(2) [OF assms(1)]
  from True obtain inc incoming where inc: "hr_AdvBody r = Inr inc" "ad_ClusterID inc = fst (GetClusterID r)"
    "ToClusterAdvertisement (b_Q E) inc (h_namespace h) = Inr incoming" by blast
  define k where "k = (h_namespace h, ad_ClusterID inc @ ''-adv'')"
  obtain existing w1 where get: "run_state (c_get (b_adv E) k) w = (existing, w1)" by fastforce
  have same: "advs w1 = advs w" by (rule kube_client.get_same [OF adv get])
  note posted = PostAdvertisement_def respond_defs status_defs k_def
  obtain upd w2 where upd: "run_state (b_retry E (update_advertisement E h inc)) w1 = (upd, w2)" by fastforce
  obtain created w3 where cr: "run_state (c_create (b_adv E) incoming) w1 = (created, w3)" by fastforce
  note run = assms(2) inc get upd cr
  consider (error) e where "existing = Inl e" "\<not> is_not_found (ErrApi e)"
    | (unwritten) old0 e where "existing = Inr old0" "upd = Inl e" | (update) old0 x where "existing = Inr old0" "upd = Inr x"
    | (uncreated) e e' where "existing = Inl e" "is_not_found (ErrApi e)" "created = Inl e'"
    | (create) e st where "existing = Inl e" "is_not_found (ErrApi e)" "created = Inr st"
    by (cases existing; cases upd; cases created) auto
  then show ?thesis
  proof cases
    case error
    with run same show ?thesis by (intro rejected) (auto simp: posted)
  next
    case unwritten
    with retried_update_fail [OF assms(1)] upd same have "advs w2 = advs w" by simp
    with unwritten run show ?thesis by (intro rejected) (auto simp: posted)
  next
    case update
    with run have "run_state (advertisement_response E inc incoming) w2 = (Some resp, w')" by (simp add: PostAdvertisement_def k_def)
    with later_report [OF assms(1) _ inc(3) k_def upd [unfolded update(2)]] assms(3)
    obtain old new where "hs_Status resp = StatusOK" "advs w k = Some old" "advs w' = (advs w)(k \<mapsto> new)"
      "adv_id new = ad_ClusterID inc" "adv_reserved new = adv_reserved old" "ca_Policy (o_spec new) = ca_Policy (o_spec old)"
      "o_status new = o_status old" "reported_minus_reserved v old incoming new"
      unfolding same by blast
    with stored [OF _ inc(1,2) k_def inc(3)] show ?thesis by simp
  next
    case uncreated
    with kube_client.write_fail(1) [OF adv] cr same have "advs w3 = advs w" by metis
    with uncreated run show ?thesis by (intro rejected) (auto simp: posted)
  next
    case create
    then have missing: "advs w k = None"
      using kube_client.get_missing [OF adv, of k w _ w1] get by (cases e) auto
    from create run have "run_state (advertisement_response E inc st) w3 = (Some resp, w')" by (simp add: PostAdvertisement_def k_def)
    note first = first_report [OF assms(1) inc(3) k_def cr [unfolded create(3)] this]
    show ?thesis by (rule stored [OF _ inc(1,2) k_def inc(3), of st]) (use first missing same in simp_all)
  qed
qed

section \<open>Properties\<close>

text \<open>
  C6. What \<open>POST /api/v1/advertisements\<close> does to the stored advertisements: unless it answers 200 it
  changes none. With 200 the reported cluster is the one of the certificate and exactly its
  advertisement changed: a first report is stored as converted, and an update keeps Reserved, the
  policy and the status and sets Available to the reported amounts minus Reserved.
\<close>

theorem post_advertisement_effect:
  assumes "broker_world E v advs rsvs" "run_state (PostAdvertisement E h r) w = (Some resp, w')"
    "\<forall>k a. advs w k = Some a \<longrightarrow> m_DeletionTimestamp (o_meta a) = None"
  shows "(hs_Status resp \<noteq> StatusOK \<and> advs w' = advs w) \<or>
    (hs_Status resp = StatusOK \<and> (\<exists>inc incoming new k. hr_AdvBody r = Inr inc \<and>
       ad_ClusterID inc = fst (GetClusterID r) \<and> k = (h_namespace h, ad_ClusterID inc @ ''-adv'') \<and>
       ToClusterAdvertisement (b_Q E) inc (h_namespace h) = Inr incoming \<and> advs w' = (advs w)(k \<mapsto> new) \<and>
       (case advs w k of
          None \<Rightarrow> o_spec new = o_spec incoming
        | Some old \<Rightarrow> adv_reserved new = adv_reserved old \<and> ca_Policy (o_spec new) = ca_Policy (o_spec old) \<and>
            o_status new = o_status old \<and> reported_minus_reserved v old incoming new)))"
  using assms
proof (cases rule: post_advertisement_cases)
  case rejected
  then show ?thesis by blast
next
  case (stored inc incoming new k)
  then show ?thesis
    by (intro disjI2 conjI exI [of _ inc] exI [of _ incoming] exI [of _ new] exI [of _ k])
qed

definition sample_report :: "string \<Rightarrow> int \<Rightarrow> int \<Rightarrow> HttpRequest" where
  "sample_report cid cpu memory = sample_http\<lparr>hr_ClusterID := Some cid,
     hr_AdvBody := Inr (FromClusterAdvertisement nano_ops (sample_adv cid cpu memory))\<rparr>"

definition sample_handler :: Handler where
  "sample_handler = NewHandler ''default'' sample_engine"

lemma sample_handler_simps [simp]:
  "h_namespace sample_handler = ''default''" "h_decisionEngine sample_handler = sample_engine"
  by (simp_all add: sample_handler_def NewHandler_def)

lemma sample_report_simps [simp]:
  "hr_AdvBody (sample_report cid c m) = Inr (FromClusterAdvertisement nano_ops (sample_adv cid c m))"
  "GetClusterID (sample_report cid c m) = (cid, True)"
  by (simp_all add: sample_report_def GetClusterID_def)

lemma sample_report_converted:
  obtains incoming where "ToClusterAdvertisement nano_ops (FromClusterAdvertisement nano_ops (sample_adv cid c m)) ns = Inr incoming"
proof -
  obtain y where "to_metrics nano_ops (from_metrics nano_ops (adv_resources (sample_adv cid c m))) = Inr y"
    using nano.metrics_roundtrip by blast
  then show ?thesis
    using that by (simp add: ToClusterAdvertisement_def FromClusterAdvertisement_def Let_def)
qed

lemma report_clusterID [simp]: "ad_ClusterID (FromClusterAdvertisement Q a) = adv_id a"
  by (simp add: FromClusterAdvertisement_def Let_def)

lemma sample_adv_simps [simp]:
  "adv_id (sample_adv cid c m) = cid" "obj_key (sample_adv cid c m) = (''default'', cid @ ''-adv'')"
  "m_DeletionTimestamp (o_meta (sample_adv cid c m)) = None"
  by (simp_all add: sample_defs meta_key_def)

lemma sample_update_answer:
  assumes "w = empty_world\<lparr>mw_advs := [sample_adv ''a'' 5 40]\<rparr>"
  shows "\<exists>resp w'. run_state (PostAdvertisement mem_env sample_handler (sample_report ''a'' 6 48)) w = (Some resp, w') \<and>
    hs_Status resp = StatusOK"
proof -
  obtain incoming where inc: "ToClusterAdvertisement nano_ops
      (FromClusterAdvertisement nano_ops (sample_adv ''a'' 6 48)) ''default'' = Inr incoming"
    by (rule sample_report_converted)
  have "obj_key (merge_advertisement nano_ops (sample_adv ''a'' 5 40) incoming) = (''default'', ''a-adv'')"
    by simp
  then show ?thesis
    using inc assms
    by (simp add: PostAdvertisement_def update_advertisement_def advertisement_response_def respond_json_def
        store_get_def empty_world_def mem_write_defs numeral_eq_Suc Let_def)
qed

theorem post_advertisement_witness:
  "\<exists>resp w' new. run_state (PostAdvertisement mem_env sample_handler (sample_report ''a'' 6 48))
      (empty_world\<lparr>mw_advs := [sample_adv ''a'' 5 40]\<rparr>) = (Some resp, w') \<and> hs_Status resp = StatusOK \<and>
    mem_advs w' (''default'', ''a-adv'') = Some new \<and> adv_reserved new = None"
proof -
  obtain resp w' where run: "run_state (PostAdvertisement mem_env sample_handler (sample_report ''a'' 6 48))
      (empty_world\<lparr>mw_advs := [sample_adv ''a'' 5 40]\<rparr>) = (Some resp, w')" "hs_Status resp = StatusOK"
    using sample_update_answer by blast
  have none: "adv_reserved (sample_adv ''a'' 5 40) = None"
    by (simp add: sample_defs)
  from post_advertisement_effect [OF mem.broker_world_axioms run(1)] show ?thesis
    using run none by (fastforce simp: store_get_def split: if_splits)
qed

text \<open>
  C34. What \<open>GET /api/v1/instructions\<close> answers: it changes nothing; it answers with 200 unless the
  certificate names no cluster or the reservations cannot be listed, and then its body lists exactly
  the reservations in phase Reserved whose provider is the cluster of the certificate.
\<close>

theorem get_instructions_exact:
  assumes "broker_world E v advs rsvs" "run_state (GetInstructions E r) w = (Some resp, w')"
  shows "advs w' = advs w \<and> rsvs w' = rsvs w \<and>
    (hs_Status resp = StatusOK \<longrightarrow> (\<exists>c is. GetClusterID r = (c, True) \<and> c \<noteq> '''' \<and>
       hs_Body resp = InstructionsBody is \<and>
       set is = FromReservation (b_Q E) ` {x \<in> ran (rsvs w). rsv_phase x = PhaseReserved \<and> rsv_target x = c})) \<and>
    (hs_Status resp \<noteq> StatusOK \<longrightarrow> \<not> snd (GetClusterID r) \<or> fst (GetClusterID r) = '''' \<or>
       (\<exists>e. fst (run_state (c_list (b_rsv E)) w) = Inl e))"
proof -
  note rsv = broker_worldD(3) [OF assms(1)]
  obtain listed w1 where l: "run_state (c_list (b_rsv E)) w = (listed, w1)" by fastforce
  have same: "advs w1 = advs w" "rsvs w1 = rsvs w"
    using broker_world.rsv_keeps_advs [OF assms(1)] keepsD [OF client_keepsD(2) l] kube_client.list_same [OF rsv l]
    by blast+
  have "w' = w \<or> w' = w1"
    using assms(2) l
    by (cases "GetClusterID r") (auto simp: GetInstructions_def respond_defs split: if_splits sum.splits)
  moreover have "\<exists>c is. GetClusterID r = (c, True) \<and> c \<noteq> '''' \<and> hs_Body resp = InstructionsBody is \<and>
      set is = FromReservation (b_Q E) ` {x \<in> ran (rsvs w). rsv_phase x = PhaseReserved \<and> rsv_target x = c}"
    if "hs_Status resp = StatusOK"
  proof (cases listed)
    case (Inl e)
    then show ?thesis
      using assms(2) l that
      by (cases "GetClusterID r") (auto simp: GetInstructions_def respond_defs status_defs split: if_splits)
  next
    case (Inr xs)
    then have "set xs = ran (rsvs w)"
      using kube_client.list_all [OF rsv] l by blast
    then show ?thesis
      using assms(2) l that Inr
      by (cases "GetClusterID r")
        (auto simp: GetInstructions_def respond_defs status_defs instructions_for_def split: if_splits)
  qed
  moreover have "\<not> snd (GetClusterID r) \<or> fst (GetClusterID r) = '''' \<or> (\<exists>e. listed = Inl e)" if "hs_Status resp \<noteq> StatusOK"
    using assms(2) l that
    by (cases "GetClusterID r") (auto simp: GetInstructions_def respond_defs split: if_splits sum.splits)
  ultimately show ?thesis using same l by auto
qed

theorem get_instructions_witness:
  "\<exists>resp w' is. run_state (GetInstructions mem_env (sample_report ''b'' 6 48))
      (empty_world\<lparr>mw_rsvs := [(sample_rsv ''b'' 1 8)\<lparr>o_status := zero_rsv_status\<lparr>rst_Phase := PhaseReserved\<rparr>\<rparr>]\<rparr>) = (Some resp, w') \<and>
    hs_Body resp = InstructionsBody is \<and> vd_ID ` set is = {''rsv-a-1''}"
proof -
  define x where "x = (sample_rsv ''b'' 1 8)\<lparr>o_status := zero_rsv_status\<lparr>rst_Phase := PhaseReserved\<rparr>\<rparr>"
  define w where "w = empty_world\<lparr>mw_rsvs := [x]\<rparr>"
  obtain resp w' where run: "run_state (GetInstructions mem_env (sample_report ''b'' 6 48)) w = (Some resp, w')"
    "hs_Status resp = StatusOK"
    by (simp add: GetInstructions_def respond_defs)
  have "mem_rsvs w = [obj_key x \<mapsto> x]"
    by (rule ext) (simp add: store_get_def w_def)
  then have ran: "ran (mem_rsvs w) = {x}" by simp
  have x: "rsv_phase x = PhaseReserved" "rsv_target x = ''b''" "vd_ID (FromReservation nano_ops x) = ''rsv-a-1''"
    by (simp_all add: sample_defs FromReservation_def x_def)
  from get_instructions_exact [OF mem.broker_world_axioms run(1)] run(2)
  obtain c instr where "GetClusterID (sample_report ''b'' 6 48) = (c, True)" "hs_Body resp = InstructionsBody instr"
    and s: "set instr = FromReservation nano_ops ` {y \<in> ran (mem_rsvs w). rsv_phase y = PhaseReserved \<and> rsv_target y = c}"
    by auto
  moreover from this(1) have "{y \<in> ran (mem_rsvs w). rsv_phase y = PhaseReserved \<and> rsv_target y = c} = {x}"
    unfolding ran using x(1,2) by auto
  with s x(3) have "vd_ID ` set instr = {''rsv-a-1''}" by simp
  ultimately show ?thesis
    using run(1) unfolding w_def x_def by blast
qed

text \<open>
  What the 200 answer to an update shows: the advertisement as reported by the agent, with the
  agent's Reserved, policy and Available, not the one that was just stored.
\<close>

theorem update_answer_is_report:
  assumes "broker_world E v advs rsvs" "run_state (PostAdvertisement E h r) w = (Some resp, w')"
    "hr_AdvBody r = Inr inc" "ToClusterAdvertisement (b_Q E) inc (h_namespace h) = Inr incoming"
    "advs w (h_namespace h, ad_ClusterID inc @ ''-adv'') = Some old" "hs_Status resp = StatusOK"
  shows "\<exists>is. hs_Body resp = AdvResponseBody
    \<lparr>ar_Advertisement = FromClusterAdvertisement (b_Q E) incoming, ar_ProviderInstructions = is\<rparr>"
proof -
  note adv = broker_worldD(2) [OF assms(1)]
  define k where "k = (h_namespace h, ad_ClusterID inc @ ''-adv'')"
  obtain existing w1 where get: "run_state (c_get (b_adv E) k) w = (existing, w1)" by fastforce
  have id: "ad_ClusterID inc = fst (GetClusterID r)"
    using assms(2,3,6) by (auto simp: PostAdvertisement_def respond_defs status_defs split: if_splits)
  show ?thesis
  proof (cases existing)
    case (Inl e)
    have "\<not> is_not_found (ErrApi e)"
      using kube_client.get_missing [OF adv, of k w _ w1] get Inl assms(5) by (cases e) (auto simp: k_def)
    with Inl get id assms show ?thesis
      by (auto simp: PostAdvertisement_def respond_defs status_defs k_def)
  next
    case (Inr x)
    obtain upd w2 where upd: "run_state (b_retry E (update_advertisement E h inc)) w1 = (upd, w2)" by fastforce
    show ?thesis
    proof (cases upd)
      case (Inl e)
      with Inr get upd id assms show ?thesis
        by (auto simp: PostAdvertisement_def respond_defs status_defs k_def)
    next
      case ok: (Inr y)
      with Inr get upd id assms have "run_state (advertisement_response E inc incoming) w2 = (Some resp, w')"
        by (simp add: PostAdvertisement_def k_def)
      from advertisement_response_effect [OF assms(1) this] show ?thesis by auto
    qed
  qed
qed

theorem update_answer_witness:
  "\<exists>resp w' incoming is. run_state (PostAdvertisement mem_env sample_handler (sample_report ''a'' 6 48))
      (empty_world\<lparr>mw_advs := [sample_adv ''a'' 5 40]\<rparr>) = (Some resp, w') \<and>
    hs_Body resp = AdvResponseBody
      \<lparr>ar_Advertisement = FromClusterAdvertisement nano_ops incoming, ar_ProviderInstructions = is\<rparr>"
proof -
  obtain resp w' where run: "run_state (PostAdvertisement mem_env sample_handler (sample_report ''a'' 6 48))
      (empty_world\<lparr>mw_advs := [sample_adv ''a'' 5 40]\<rparr>) = (Some resp, w')" "hs_Status resp = StatusOK"
    using sample_update_answer by blast
  obtain incoming where "ToClusterAdvertisement nano_ops
      (FromClusterAdvertisement nano_ops (sample_adv ''a'' 6 48)) ''default'' = Inr incoming"
    by (rule sample_report_converted)
  then obtain instr where "hs_Body resp = AdvResponseBody
      \<lparr>ar_Advertisement = FromClusterAdvertisement nano_ops incoming, ar_ProviderInstructions = instr\<rparr>"
    using update_answer_is_report [OF mem.broker_world_axioms run(1), of _ incoming "sample_adv ''a'' 5 40"] run(2)
    by (auto simp: store_get_def)
  with run(1) show ?thesis by blast
qed

end
