(* ===== verification/ReservationHandler.thy ===== *)
theory ReservationHandler
  imports AdvertisementHandler
begin

text \<open>
  The reservation endpoints (resource-broker/internal/api/handlers/reservation.go):
  \<open>PostReservation\<close> validates the request, chooses a cluster (the one named or the first of the
  ranking), records a Reservation and locks the amounts in the chosen advertisement; a provider
  uploads a kubeconfig with \<open>PostPeeringKubeconfig\<close>; \<open>GetReservation\<close> reads one reservation.
\<close>

section \<open>Validation\<close>

text \<open>
  What both \<open>PostReservation\<close> and \<open>PostEvaluation\<close> check before they choose, in the order of the
  code; a failed check is the status and the message of the answer. A GPU amount that does not
  parse or is not positive is dropped without an error.
\<close>

record 'q checked_request =
  cr_requesterID :: string
  cr_dto :: ReservationRequestDTO
  cr_CPU :: 'q
  cr_Memory :: 'q
  cr_GPU :: "'q option"

definition requested_gpu :: "'q QuantityOps \<Rightarrow> string \<Rightarrow> 'q option" where
  "requested_gpu Q s =
     (if s \<noteq> '''' then
        (case q_Parse Q s of
           Inl _ \<Rightarrow> None
         | Inr gpuParsed \<Rightarrow> if 0 < q_Sign Q gpuParsed then Some gpuParsed else None)
      else None)"

definition check_request :: "'q QuantityOps \<Rightarrow> HttpRequest \<Rightarrow> nat \<times> string + 'q checked_request" where
  "check_request Q r =
     (case hr_RsvBody r of
        Inl _ \<Rightarrow> Inl (StatusBadRequest, ''Invalid request body'')
      | Inr reqDTO \<Rightarrow>
          let (requesterID, ok) = GetClusterID r;
              wanted = qr_RequestedResources reqDTO
          in if \<not> ok \<or> requesterID = ''''
             then Inl (StatusForbidden, ''Could not determine cluster ID from certificate'')
             else if qd_CPU wanted = '''' \<or> qd_Memory wanted = ''''
             then Inl (StatusBadRequest, ''requestedResources.cpu and requestedResources.memory are required'')
             else case q_Parse Q (qd_CPU wanted) of
               Inl e \<Rightarrow> Inl (StatusBadRequest, ''Invalid CPU quantity: '' @ e)
             | Inr requestedCPU \<Rightarrow>
                 (case q_Parse Q (qd_Memory wanted) of
                    Inl e \<Rightarrow> Inl (StatusBadRequest, ''Invalid memory quantity: '' @ e)
                  | Inr requestedMemory \<Rightarrow>
                      if q_Sign Q requestedCPU \<le> 0 \<or> q_Sign Q requestedMemory \<le> 0
                      then Inl (StatusBadRequest, ''Requested CPU and memory must be greater than zero'')
                      else Inr \<lparr>cr_requesterID = requesterID, cr_dto = reqDTO, cr_CPU = requestedCPU,
                             cr_Memory = requestedMemory, cr_GPU = requested_gpu Q (qd_GPU wanted)\<rparr>))"

section \<open>Choosing the cluster\<close>

text \<open>The first listed advertisement with the named identifier, if it is active.\<close>

definition active_target :: "string \<Rightarrow> 'q ClusterAdvertisement list \<Rightarrow> 'q ClusterAdvertisement option" where
  "active_target target items =
     (case List.find (\<lambda>a. adv_id a = target) items of
        None \<Rightarrow> None
      | Some a \<Rightarrow> if cas_Active (o_status a) then Some a else None)"

definition requester_policy :: "string \<Rightarrow> ApiError + 'q ClusterAdvertisement list \<Rightarrow> string" where
  "requester_policy requesterID listed =
     (case listed of
        Inl _ \<Rightarrow> ''''
      | Inr items \<Rightarrow>
          (case List.find (\<lambda>a. adv_id a = requesterID) items of
             None \<Rightarrow> ''''
           | Some a \<Rightarrow> ca_Policy (o_spec a)))"

definition rank_arguments :: "'q checked_request \<Rightarrow> int \<Rightarrow> string \<Rightarrow> 'q rank_request" where
  "rank_arguments c maxResults policy =
     \<lparr>rk_requesterID = cr_requesterID c, rk_cpu = cr_CPU c, rk_memory = cr_Memory c, rk_gpu = cr_GPU c,
      rk_priority = qr_Priority (cr_dto c), rk_maxResults = maxResults, rk_policy = policy\<rparr>"

definition choose_cluster ::
  "('w, 'q) BrokerEnv \<Rightarrow> Handler \<Rightarrow> 'q checked_request \<Rightarrow>
   ('w, (nat \<times> string + 'q ClusterAdvertisement) option) state" where
  "choose_cluster E h c =
     (let target = qr_TargetClusterID (cr_dto c)
      in if target \<noteq> '''' then do {
           listed \<leftarrow> c_list (b_adv E);
           ret (Some (case listed of
               Inl _ \<Rightarrow> Inl (StatusInternalServerError, ''Failed to list cluster advertisements'')
             | Inr items \<Rightarrow>
                 (case active_target target items of
                    None \<Rightarrow> Inl (StatusNotFound, ''Target cluster '' @ target @ '' not found or inactive'')
                  | Some a \<Rightarrow> Inr a)))
         }
         else do {
           listed \<leftarrow> c_list (b_adv E);
           ranked \<leftarrow> RankClusters E (h_decisionEngine h)
             (rank_arguments c 1 (requester_policy (cr_requesterID c) listed));
           ret (case ranked of
               None \<Rightarrow> None
             | Some (Inl e) \<Rightarrow> Some (Inl (StatusConflict, ''No suitable cluster found: '' @ err_text e))
             | Some (Inr []) \<Rightarrow> Some (Inl (StatusConflict, ''No suitable cluster found: <nil>''))
             | Some (Inr (best # _)) \<Rightarrow> Some (Inr (rk_Cluster best)))
         })"

section \<open>PostReservation\<close>

text \<open>\<open>UnixMilli\<close> of an instant counted from Go's zero time.\<close>

definition unix_milli :: "time \<Rightarrow> int" where
  "unix_milli t = (t - 62135596800 * go_second) div 1000000"

text \<open>The function of the first retry: read the advertisement again, check, lock, write.\<close>

definition lock_resources ::
  "('w, 'q) BrokerEnv \<Rightarrow> 'q ClusterAdvertisement \<Rightarrow> 'q \<Rightarrow> 'q \<Rightarrow> ('w, go_error + ReservationStatus option) state" where
  "lock_resources E bestCluster requestedCPU requestedMemory = do {
     got \<leftarrow> c_get (b_adv E) (obj_key bestCluster);
     case got of
       Inl e \<Rightarrow> ret (Inl (if is_not_found (ErrApi e) then ErrMsg (''target cluster not found: '' @ adv_id bestCluster)
                       else ErrApi e))
     | Inr clusterAdv \<Rightarrow>
         if \<not> CanReserve (b_Q E) clusterAdv requestedCPU requestedMemory
         then ret (Inl (ErrMsg (''insufficient resources in cluster '' @ adv_id bestCluster)))
         else case AddReservation (b_Q E) clusterAdv requestedCPU requestedMemory of
           Inl e \<Rightarrow> ret (Inl e)
         | Inr locked \<Rightarrow> do {
             r \<leftarrow> c_update (b_adv E) locked;
             ret (case r of Inl e \<Rightarrow> Inl (ErrApi e) | Inr _ \<Rightarrow> Inr None)
           }
   }"

text \<open>
  The shape of the other retries: read the reservation, change its status at the current time,
  write the status, and answer with the status the server stored.
\<close>

definition change_status ::
  "('w, 'q) BrokerEnv \<Rightarrow> key \<Rightarrow> (time \<Rightarrow> 'q Reservation \<Rightarrow> ReservationStatus) \<Rightarrow>
   ('w, go_error + ReservationStatus option) state" where
  "change_status E k f = do {
     got \<leftarrow> c_get (b_rsv E) k;
     case got of
       Inl e \<Rightarrow> ret (Inl (ErrApi e))
     | Inr latest \<Rightarrow> do {
         now \<leftarrow> b_now E;
         r \<leftarrow> c_status_update (b_rsv E) (latest\<lparr>o_status := f now latest\<rparr>);
         ret (case r of Inl e \<Rightarrow> Inl (ErrApi e) | Inr stored \<Rightarrow> Inr (Some (o_status stored)))
       }
   }"

definition failed_status :: "go_error \<Rightarrow> time \<Rightarrow> 'q Reservation \<Rightarrow> ReservationStatus" where
  "failed_status lockErr now latest = (o_status latest)
     \<lparr>rst_Phase := PhaseFailed, rst_Message := ''Failed to lock resources: '' @ err_text lockErr,
      rst_LastUpdateTime := now\<rparr>"

definition reserved_status :: "string \<Rightarrow> time \<Rightarrow> 'q Reservation \<Rightarrow> ReservationStatus" where
  "reserved_status target now latest =
     (let s = (o_status latest)
            \<lparr>rst_Phase := PhaseReserved, rst_Message := ''Resources locked in cluster '' @ target,
             rst_ReservedAt := Some now, rst_LastUpdateTime := now\<rparr>
      in case rs_Duration (o_spec latest) of None \<Rightarrow> s | Some d \<Rightarrow> s\<lparr>rst_ExpiresAt := Some (now + d)\<rparr>)"

definition new_reservation ::
  "Handler \<Rightarrow> string \<Rightarrow> 'q checked_request \<Rightarrow> string \<Rightarrow> duration option \<Rightarrow> 'q Reservation" where
  "new_reservation h name c target d =
     \<lparr>o_meta = new_meta name (h_namespace h),
      o_spec = \<lparr>rs_TargetClusterID = target,
        rs_RequestedResources =
          \<lparr>rr_CPU = cr_CPU c, rr_Memory = cr_Memory c, rr_GPU = None, rr_Storage = None\<rparr>,
        rs_Duration = d, rs_Priority = qr_Priority (cr_dto c), rs_RequesterID = cr_requesterID c\<rparr>,
      o_status = zero_rsv_status\<rparr>"

definition requested_duration :: "('w, 'q) BrokerEnv \<Rightarrow> string \<Rightarrow> string + duration option" where
  "requested_duration E s =
     (if s = '''' then Inr None
      else case b_parse_duration E s of Inl e \<Rightarrow> Inl e | Inr d \<Rightarrow> Inr (Some d))"

text \<open>From the creation on: finalizer, lock, status, answer.\<close>

definition record_and_lock ::
  "('w, 'q) BrokerEnv \<Rightarrow> 'q ClusterAdvertisement \<Rightarrow> 'q checked_request \<Rightarrow> 'q Reservation \<Rightarrow>
   ('w, HttpResponse option) state" where
  "record_and_lock E bestCluster c reservation0 = do {
     created \<leftarrow> c_create (b_rsv E) reservation0;
     case created of
       Inl _ \<Rightarrow> respondWithError StatusInternalServerError ''Failed to create reservation''
     | Inr created_rsv \<Rightarrow> do {
         updated \<leftarrow> c_update (b_rsv E) (add_finalizer ReservationFinalizer created_rsv);
         let reservation = (case updated of Inl _ \<Rightarrow> add_finalizer ReservationFinalizer created_rsv | Inr y \<Rightarrow> y);
         locked \<leftarrow> b_retry E (lock_resources E bestCluster (cr_CPU c) (cr_Memory c));
         case locked of
           Inl lockErr \<Rightarrow> do {
             _ \<leftarrow> b_retry E (change_status E (obj_key reservation) (failed_status lockErr));
             respondWithError StatusConflict (''Failed to reserve resources: '' @ err_text lockErr)
           }
         | Inr _ \<Rightarrow> do {
             marked \<leftarrow> b_retry E (change_status E (obj_key reservation) (reserved_status (adv_id bestCluster)));
             respond_json StatusCreated (RsvBody (FromReservation (b_Q E)
               (case marked of Inr (Some s) \<Rightarrow> reservation\<lparr>o_status := s\<rparr> | _ \<Rightarrow> reservation)))
           }
       }
   }"

definition PostReservation :: "('w, 'q) BrokerEnv \<Rightarrow> Handler \<Rightarrow> 'w handler" where
  "PostReservation E h r =
     (case check_request (b_Q E) r of
        Inl (code, message) \<Rightarrow> respondWithError code message
      | Inr c \<Rightarrow> do {
          chosen \<leftarrow> choose_cluster E h c;
          case chosen of
            None \<Rightarrow> ret None
          | Some (Inl (code, message)) \<Rightarrow> respondWithError code message
          | Some (Inr bestCluster) \<Rightarrow> do {
              now \<leftarrow> b_now E;
              let name = ''rsv-'' @ cr_requesterID c @ ''-'' @ show_int (unix_milli now);
              case requested_duration E (qr_Duration (cr_dto c)) of
                Inl e \<Rightarrow> respondWithError StatusBadRequest (''Invalid duration: '' @ e)
              | Inr d \<Rightarrow> record_and_lock E bestCluster c (new_reservation h name c (adv_id bestCluster) d)
            }
        })"

section \<open>The other two endpoints\<close>

definition kubeconfig_status :: "string \<Rightarrow> time \<Rightarrow> 'q Reservation \<Rightarrow> ReservationStatus" where
  "kubeconfig_status kubeconfig now latest =
     (o_status latest)\<lparr>rst_PeeringKubeconfig := kubeconfig, rst_LastUpdateTime := now\<rparr>"

definition PostPeeringKubeconfig :: "('w, 'q) BrokerEnv \<Rightarrow> Handler \<Rightarrow> 'w handler" where
  "PostPeeringKubeconfig E h r =
     (let reservationID = hr_PathValue r; (providerID, ok) = GetClusterID r
      in if reservationID = '''' then respondWithError StatusBadRequest ''Missing reservation id parameter''
         else if \<not> ok \<or> providerID = ''''
         then respondWithError StatusForbidden ''Could not determine cluster ID from certificate''
         else case hr_KubeconfigBody r of
           Inl _ \<Rightarrow> respondWithError StatusBadRequest ''Invalid request body''
         | Inr kubeconfig \<Rightarrow>
             if kubeconfig = '''' then respondWithError StatusBadRequest ''Kubeconfig cannot be empty''
             else do {
               got \<leftarrow> c_get (b_rsv E) (h_namespace h, reservationID);
               case got of
                 Inl e \<Rightarrow> if is_not_found (ErrApi e) then respondWithError StatusNotFound ''Reservation not found''
                          else respondWithError StatusInternalServerError ''Internal server error''
               | Inr reservation \<Rightarrow>
                   if rsv_target reservation \<noteq> providerID
                   then respondWithError StatusForbidden ''Only the assigned provider can upload the peering kubeconfig''
                   else do {
                     r \<leftarrow> b_retry E (change_status E (obj_key reservation) (kubeconfig_status kubeconfig));
                     case r of
                       Inl _ \<Rightarrow> respondWithError StatusInternalServerError ''Failed to save peering kubeconfig''
                     | Inr _ \<Rightarrow> ret (Some \<lparr>hs_Status = StatusOK, hs_Body = TextBody ''{\"status\":\"success\"}''\<rparr>)
                   }
             })"

definition GetReservation :: "('w, 'q) BrokerEnv \<Rightarrow> Handler \<Rightarrow> 'w handler" where
  "GetReservation E h r =
     (let reservationID = hr_PathValue r
      in if reservationID = '''' then respondWithError StatusBadRequest ''Missing reservation id parameter''
         else do {
           got \<leftarrow> c_get (b_rsv E) (h_namespace h, reservationID);
           case got of
             Inl e \<Rightarrow> if is_not_found (ErrApi e) then respondWithError StatusNotFound ''Reservation not found''
                      else respondWithError StatusInternalServerError ''Internal server error''
           | Inr reservation \<Rightarrow> respond_json StatusOK (RsvBody (FromReservation (b_Q E) reservation))
         })"

section \<open>Effects of the steps\<close>

text \<open>A written advertisement without a deletion timestamp stays in the store.\<close>

definition undeleted :: "('s, 't) store \<Rightarrow> bool" where
  "undeleted S \<longleftrightarrow> (\<forall>k a. S k = Some a \<longrightarrow> m_DeletionTimestamp (o_meta a) = None)"

lemma undeletedD:
  assumes "undeleted S" "S k = Some a"
  shows "\<not> finalized a x"
  using assms(1) [unfolded undeleted_def, rule_format, OF assms(2)] by (simp add: finalized_def)

lemma lock_resources_keeps_rsvs:
  "broker_world E v advs rsvs \<Longrightarrow> keeps rsvs (lock_resources E a cpu memory)"
  using broker_world.adv_keeps_rsvs unfolding lock_resources_def by (fastforce intro!: keeps_intros)

lemma lock_resources_fail:
  assumes "broker_world E v advs rsvs" "run_state (lock_resources E a cpu memory) w = (Inl e, w')"
  shows "advs w' = advs w"
proof -
  note adv = broker_worldD(2) [OF assms(1)]
  obtain got w1 where get: "run_state (c_get (b_adv E) (obj_key a)) w = (got, w1)" by fastforce
  from kube_client.get_same [OF adv get] kube_client.write_fail(2) [OF adv] get assms(2) show ?thesis
    by (fastforce simp: lock_resources_def split: sum.splits prod.splits if_splits)
qed

lemma lock_resources_ok:
  assumes "broker_world E v advs rsvs" "run_state (lock_resources E a cpu memory) w = (Inr s, w')"
    "undeleted (advs w)"
  obtains old locked new where "advs w (obj_key a) = Some old" "CanReserve (b_Q E) old cpu memory"
    "AddReservation (b_Q E) old cpu memory = Inr locked" "advs w' = (advs w)(obj_key a \<mapsto> new)"
    "o_spec new = o_spec locked" "o_status new = o_status old"
proof -
  note adv = broker_worldD(2) [OF assms(1)]
  obtain got w1 where get: "run_state (c_get (b_adv E) (obj_key a)) w = (got, w1)" by fastforce
  with assms(2) obtain old where got: "got = Inr old" by (auto simp: lock_resources_def split: sum.splits)
  have old: "advs w (obj_key a) = Some old" "obj_key old = obj_key a" "advs w1 = advs w"
    using kube_client.get_found [OF adv, of "obj_key a" w old w1] kube_client.get_same [OF adv get] get got
    by simp_all
  from assms(2) get got obtain locked where l: "CanReserve (b_Q E) old cpu memory"
    "AddReservation (b_Q E) old cpu memory = Inr locked"
    by (auto simp: lock_resources_def split: sum.splits if_splits)
  note same = same_but_ledgerD [OF AddReservation_frame [OF l(2)]]
  obtain r w2 where upd: "run_state (c_update (b_adv E) locked) w1 = (r, w2)" by fastforce
  with assms(2) get got l obtain new where new: "r = Inr new" "w2 = w'"
    by (auto simp: lock_resources_def split: sum.splits)
  from kube_client.update_ok [OF adv, of locked w1 new w'] upd new old same undeletedD [OF assms(3) old(1)]
  have "advs w' = (advs w)(obj_key a \<mapsto> new)" "o_spec new = o_spec locked" "o_status new = o_status old"
    by auto
  with old(1) l that show ?thesis by blast
qed

lemma change_status_keeps_advs:
  assumes "broker_world E v advs rsvs"
  shows "keeps advs (change_status E k f)"
  using broker_world.quiet_advs [OF assms] broker_world.rsv_keeps_advs [OF assms]
  unfolding change_status_def by (auto intro!: keeps_intros)

lemma change_status_effect:
  assumes "broker_world E v advs rsvs" "run_state (change_status E k f) w = (r, w')"
  shows "case r of
      Inl _ \<Rightarrow> rsvs w' = rsvs w
    | Inr s \<Rightarrow> \<exists>old new now. rsvs w k = Some old \<and> rsvs w' = (rsvs w)(k \<mapsto> new) \<and> o_spec new = o_spec old \<and>
        o_status new = f now old \<and> s = Some (o_status new)"
proof -
  note rsv = broker_worldD(3) [OF assms(1)]
  obtain got w1 where get: "run_state (c_get (b_rsv E) k) w = (got, w1)" by fastforce
  have same: "rsvs w1 = rsvs w" by (rule kube_client.get_same [OF rsv get])
  show ?thesis
  proof (cases got)
    case (Inl e)
    with get same assms(2) show ?thesis by (auto simp: change_status_def)
  next
    case (Inr old)
    obtain now w2 where n: "run_state (b_now E) w1 = (now, w2)" by fastforce
    have same2: "rsvs w2 = rsvs w"
      using keepsD [OF quietD(4) [OF broker_world.quiet_rsvs [OF assms(1)]] n] same by simp
    have old: "rsvs w k = Some old" "obj_key old = k"
      using kube_client.get_found [OF rsv] get Inr by blast+
    obtain u w3 where u: "run_state (c_status_update (b_rsv E) (old\<lparr>o_status := f now old\<rparr>)) w2 = (u, w3)"
      by fastforce
    with get n Inr assms(2) have "w' = w3"
      "r = (case u of Inl e \<Rightarrow> Inl (ErrApi e) | Inr stored \<Rightarrow> Inr (Some (o_status stored)))"
      by (simp_all add: change_status_def)
    then show ?thesis
      using kube_client.write_fail(3) [OF rsv] kube_client.status_ok [OF rsv, of "old\<lparr>o_status := f now old\<rparr>" w2 _ w3]
        u same2 old by (cases u) auto
  qed
qed

lemma retry_status_effect:
  assumes "broker_world E v advs rsvs" "run_state (b_retry E (change_status E k f)) w = (r, w')"
  shows "advs w' = advs w"
    "case r of
      Inl _ \<Rightarrow> rsvs w' = rsvs w
    | Inr s \<Rightarrow> \<exists>old new now. rsvs w k = Some old \<and> rsvs w' = (rsvs w)(k \<mapsto> new) \<and> o_spec new = o_spec old \<and>
        o_status new = f now old \<and> s = Some (o_status new)"
proof -
  note retry = broker_worldD(4) [OF assms(1)]
  show "advs w' = advs w"
    by (rule keepsD [OF retry_on_conflict.retry_keeps [OF retry change_status_keeps_advs [OF assms(1)]] assms(2)])
  obtain w0 where w0: "rsvs w0 = rsvs w" "run_state (change_status E k f) w0 = (r, w')"
    using change_status_effect [OF assms(1)]
    by (rule_tac retry_on_conflict.retry_last_run [OF retry _ assms(2), of rsvs]) (fastforce split: sum.splits)+
  from change_status_effect [OF assms(1) w0(2)]
  show "case r of
      Inl _ \<Rightarrow> rsvs w' = rsvs w
    | Inr s \<Rightarrow> \<exists>old new now. rsvs w k = Some old \<and> rsvs w' = (rsvs w)(k \<mapsto> new) \<and> o_spec new = o_spec old \<and>
        o_status new = f now old \<and> s = Some (o_status new)"
    unfolding w0(1) .
qed

lemma choose_cluster_quiet:
  assumes "broker_world E v advs rsvs" "run_state (choose_cluster E h c) w = (r, w')"
  shows "advs w' = advs w" "rsvs w' = rsvs w"
proof -
  have "keeps f (choose_cluster E h c)" if "quiet f E" "keeps f (c_list (b_adv E))" for f :: "'a \<Rightarrow> 'c"
    using that unfolding choose_cluster_def by (auto intro!: keeps_intros)
  moreover have "keeps f (choose_cluster E h c)" if "quiet f E" "keeps f (c_list (b_adv E))" for f :: "'a \<Rightarrow> 'd"
    using that unfolding choose_cluster_def by (auto intro!: keeps_intros)
  ultimately have "keeps advs (choose_cluster E h c)" "keeps rsvs (choose_cluster E h c)"
    using broker_world.quiet_advs [OF assms(1)] broker_world.quiet_rsvs [OF assms(1)]
      kube_client.list_keeps [OF broker_worldD(2) [OF assms(1)]]
      client_keepsD(2) [OF broker_world.adv_keeps_rsvs [OF assms(1)]]
    unfolding choose_cluster_def by (auto intro!: keeps_intros)
  with keepsD [OF _ assms(2)] show "advs w' = advs w" "rsvs w' = rsvs w" by blast+
qed

lemma active_target_some:
  "active_target target items = Some a \<Longrightarrow> a \<in> set items \<and> adv_id a = target \<and> cas_Active (o_status a)"
  by (auto simp: active_target_def dest: find_SomeD split: option.splits if_splits)

lemma choose_cluster_ok:
  assumes "broker_world E v advs rsvs" "run_state (choose_cluster E h c) w = (Some (Inr best), w')"
  obtains a where "advs w (obj_key best) = Some a" "adv_id best = adv_id a" "cas_Active (o_status a)"
    "if qr_TargetClusterID (cr_dto c) \<noteq> '''' then adv_id a = qr_TargetClusterID (cr_dto c)
     else adv_id a \<noteq> cr_requesterID c"
proof (cases "qr_TargetClusterID (cr_dto c) = ''''")
  case False
  note adv = broker_worldD(2) [OF assms(1)]
  obtain listed w1 where l: "run_state (c_list (b_adv E)) w = (listed, w1)" by fastforce
  with assms(2) False obtain items where "listed = Inr items"
    "active_target (qr_TargetClusterID (cr_dto c)) items = Some best"
    by (auto simp: choose_cluster_def Let_def split: sum.splits option.splits)
  with l kube_client.list_all [OF adv] active_target_some [OF this(2)]
  have "best \<in> ran (advs w)" "adv_id best = qr_TargetClusterID (cr_dto c)" "cas_Active (o_status best)"
    by auto
  with kube_client.list_key [OF adv] False that [of best] show ?thesis by simp
next
  case True
  obtain listed w1 where l: "run_state (c_list (b_adv E)) w = (listed, w1)" by fastforce
  define req where "req = rank_arguments c 1 (requester_policy (cr_requesterID c) listed)"
  obtain ranked w2 where r: "run_state (RankClusters E (h_decisionEngine h) req) w1 = (ranked, w2)" by fastforce
  with assms(2) True l obtain x xs where x: "ranked = Some (Inr (x # xs))" "best = rk_Cluster x"
    by (auto simp: choose_cluster_def Let_def req_def split: option.splits sum.splits list.splits)
  with RankClusters_selects(2) [OF assms(1), of "h_decisionEngine h" req w1 "x # xs" w2] r
  obtain a where a: "advs w1 (obj_key a) = Some a" "same_but_cost a best" "eligible (b_Q E) req a"
    by auto
  have "advs w1 = advs w"
    by (rule kube_client.list_same [OF broker_worldD(2) [OF assms(1)] l])
  with a same_but_costD [OF a(2)] True that [of a] show ?thesis
    by (simp add: eligible_def req_def rank_arguments_def)
qed

text \<open>
  A request is refused where the reservation cannot be created. Otherwise it stays created, whatever
  comes of its finalizer, the lock and its status, and the answer tells of the lock.
\<close>

lemma record_and_lock_run:
  assumes "broker_world E v advs rsvs" "run_state (record_and_lock E best c rsv0) w = (Some resp, w')"
  obtains (refused) "hs_Status resp = StatusInternalServerError" "advs w' = advs w" "rsvs w' = rsvs w"
  | (recorded) y w1 w2 x locked w3 q where "run_state (c_create (b_rsv E) rsv0) w = (Inr y, w1)"
    "rsvs w (obj_key rsv0) = None" "advs w2 = advs w"
    "rsvs w2 = (rsvs w)(obj_key rsv0 \<mapsto> x)" "o_spec x = o_spec rsv0" "o_status x = o_status y"
    "run_state (b_retry E (lock_resources E best (cr_CPU c) (cr_Memory c))) w2 = (locked, w3)" "rsvs w3 = rsvs w2"
    "run_state (b_retry E (change_status E (obj_key rsv0)
       (case locked of Inl e \<Rightarrow> failed_status e | Inr _ \<Rightarrow> reserved_status (adv_id best)))) w3 = (q, w')"
    "hs_Status resp = (case locked of Inl _ \<Rightarrow> StatusConflict | Inr _ \<Rightarrow> StatusCreated)"
proof -
  note rsv = broker_worldD(3) [OF assms(1)]
  obtain created w1 where cr: "run_state (c_create (b_rsv E) rsv0) w = (created, w1)" by fastforce
  then have a1: "advs w1 = advs w"
    by (rule keepsD [OF client_keepsD(3) [OF broker_world.rsv_keeps_advs [OF assms(1)]]])
  show thesis
  proof (cases created)
    case (Inl e)
    with assms(2) cr a1 kube_client.write_fail(1) [OF rsv] show thesis
      by (intro refused) (auto simp: record_and_lock_def respondWithError_def)
  next
    case created: (Inr y)
    with kube_client.create_ok [OF rsv, of rsv0 w y w1] cr have r1: "rsvs w (obj_key rsv0) = None"
      "rsvs w1 = (rsvs w)(obj_key rsv0 \<mapsto> y)" "obj_key y = obj_key rsv0" "o_spec y = o_spec rsv0"
      by blast+
    let ?z = "add_finalizer ReservationFinalizer y"
    have z: "obj_key ?z = obj_key rsv0" "o_spec ?z = o_spec rsv0" "\<not> finalized y ?z"
      using r1(3,4) by (auto simp: add_finalizer_def finalized_def meta_key_def)
    obtain updated w2 where up: "run_state (c_update (b_rsv E) ?z) w1 = (updated, w2)" by fastforce
    then have a2: "advs w2 = advs w1"
      by (rule keepsD [OF client_keepsD(4) [OF broker_world.rsv_keeps_advs [OF assms(1)]]])
    define rv where "rv = (case updated of Inl _ \<Rightarrow> ?z | Inr y \<Rightarrow> y)"
    have r2: "\<exists>x. rsvs w2 = (rsvs w)(obj_key rsv0 \<mapsto> x) \<and> o_spec x = o_spec rsv0 \<and> o_status x = o_status y" "obj_key rv = obj_key rsv0"
      using kube_client.write_fail(2) [OF rsv] kube_client.update_ok [OF rsv] up r1 z
      by (cases updated; fastforce simp: rv_def)+
    then obtain x where x: "rsvs w2 = (rsvs w)(obj_key rsv0 \<mapsto> x)" "o_spec x = o_spec rsv0" "o_status x = o_status y" by blast
    obtain locked w3 where lk: "run_state (b_retry E (lock_resources E best (cr_CPU c) (cr_Memory c))) w2 = (locked, w3)"
      by fastforce
    have r3: "rsvs w3 = rsvs w2"
      using retry_on_conflict.retry_keeps [OF broker_worldD(4) [OF assms(1)] lock_resources_keeps_rsvs [OF assms(1)]]
      by (rule keepsD [OF _ lk])
    obtain q w4 where q: "run_state (b_retry E (change_status E (obj_key rsv0)
        (case locked of Inl e \<Rightarrow> failed_status e | Inr _ \<Rightarrow> reserved_status (adv_id best)))) w3 = (q, w4)" by fastforce
    have "w' = w4 \<and> hs_Status resp = (case locked of Inl _ \<Rightarrow> StatusConflict | Inr _ \<Rightarrow> StatusCreated)"
    proof (cases locked)
      case (Inl e)
      with assms(2) cr up lk created q show ?thesis
        by (auto simp: record_and_lock_def respondWithError_def Let_def rv_def [symmetric] r2(2))
    next
      case (Inr s)
      with assms(2) cr up lk created q show ?thesis
        by (auto simp: record_and_lock_def respond_json_def Let_def rv_def [symmetric] r2(2))
    qed
    with recorded [OF cr [unfolded created] r1(1) _ x lk r3] q a1 a2 show thesis by simp
  qed
qed

text \<open>
  \<open>record_and_lock\<close> either answers with an error and no advertisement changed, or answers 201 and the
  amounts have moved in the chosen advertisement, with a new reservation that records them.
\<close>

lemma record_and_lock_effect:
  assumes "broker_world E v advs rsvs" "undeleted (advs w)"
    "run_state (record_and_lock E best c rsv0) w = (Some resp, w')"
  shows "(hs_Status resp \<noteq> StatusCreated \<and> advs w' = advs w) \<or>
    (hs_Status resp = StatusCreated \<and> (\<exists>old locked new x.
       advs w (obj_key best) = Some old \<and> CanReserve (b_Q E) old (cr_CPU c) (cr_Memory c) \<and>
       AddReservation (b_Q E) old (cr_CPU c) (cr_Memory c) = Inr locked \<and>
       advs w' = (advs w)(obj_key best \<mapsto> new) \<and> o_spec new = o_spec locked \<and> o_status new = o_status old \<and>
       rsvs w (obj_key rsv0) = None \<and> rsvs w' = (rsvs w)(obj_key rsv0 \<mapsto> x) \<and> o_spec x = o_spec rsv0))"
  using assms(1,3)
proof (cases rule: record_and_lock_run)
  case refused
  then show ?thesis by (simp add: status_defs)
next
  case (recorded y w1 w2 x locked w3 q)
  obtain w20 where l0: "advs w20 = advs w2" "run_state (lock_resources E best (cr_CPU c) (cr_Memory c)) w20 = (locked, w3)"
    using lock_resources_fail [OF assms(1)]
    by (rule_tac retry_on_conflict.retry_last_run [OF broker_worldD(4) [OF assms(1)] _ recorded(7), of advs]) auto
  note a4 = retry_status_effect(1) [OF assms(1) recorded(9)]
  show ?thesis
  proof (cases locked)
    case (Inl e)
    with a4 lock_resources_fail [OF assms(1), of best] l0 recorded(3,10) show ?thesis by (auto simp: status_defs)
  next
    case (Inr s)
    obtain old new locked' where ok: "advs w (obj_key best) = Some old" "CanReserve (b_Q E) old (cr_CPU c) (cr_Memory c)"
      "AddReservation (b_Q E) old (cr_CPU c) (cr_Memory c) = Inr locked'" "advs w3 = (advs w)(obj_key best \<mapsto> new)"
      "o_spec new = o_spec locked'" "o_status new = o_status old"
      using lock_resources_ok [OF assms(1) l0(2) [unfolded Inr]] l0(1) recorded(3) assms(2) by metis
    moreover have "\<exists>x. rsvs w' = (rsvs w)(obj_key rsv0 \<mapsto> x) \<and> o_spec x = o_spec rsv0"
      using retry_status_effect(2) [OF assms(1) recorded(9)] recorded(4,5,8) by (fastforce split: sum.splits)
    moreover have "hs_Status resp = StatusCreated" using recorded(10) Inr by simp
    ultimately show ?thesis using a4 recorded(2) by metis
  qed
qed

definition sample_wanted :: ResourceQuantitiesDTO where
  "sample_wanted = \<lparr>qd_CPU = ''2'', qd_Memory = ''8'', qd_GPU = '''', qd_Storage = ''''\<rparr>"

text \<open>Cluster \<open>a\<close> asks for two CPUs and eight units of memory of the cluster \<open>target\<close>.\<close>

definition sample_order :: "string \<Rightarrow> HttpRequest" where
  "sample_order target = sample_http\<lparr>hr_ClusterID := Some ''a'', hr_PathValue := ''rsv-a-1'',
     hr_RsvBody := Inr \<lparr>qr_RequestedResources = sample_wanted, qr_Priority = 0, qr_Duration = '''',
       qr_TargetClusterID = target, qr_Location = None, qr_CurrentProviderID = '''',
       qr_MeasuredLatencyMs = None\<rparr>\<rparr>"

lemma sample_parse:
  "q_Parse nano_ops ''2'' = Inr (nano_units 2)" "q_Parse nano_ops ''8'' = Inr (nano_units 8)"
  by (simp_all add: nano_ops_def nano_parse_def is_digit_def digits_value_def suffixes_def nano_units_def)

lemma sample_sign: "q_Sign nano_ops (nano_units n) = sgn n"
  by (simp add: nano_ops_def nano_units_def sgn_if)

definition sample_checked :: "string \<Rightarrow> nano_quantity checked_request" where
  "sample_checked target =
     \<lparr>cr_requesterID = ''a'', cr_dto = projr (hr_RsvBody (sample_order target)), cr_CPU = nano_units 2,
      cr_Memory = nano_units 8, cr_GPU = None\<rparr>"

lemma sample_order_checked: "check_request nano_ops (sample_order target) = Inr (sample_checked target)"
  by (simp add: check_request_def sample_order_def sample_wanted_def GetClusterID_def sample_parse
      requested_gpu_def sample_checked_def sample_sign Let_def)

definition order_world :: mem_world where
  "order_world = empty_world\<lparr>mw_advs := [sample_adv ''a'' 6 48, sample_adv ''b'' 6 48]\<rparr>"

lemma order_world_undeleted: "undeleted (mem_advs order_world)"
  by (simp add: undeleted_def order_world_def store_get_def)

lemma active [simp]: "cas_Active (o_status (sample_adv cid c m))" by (simp add: sample_defs)
lemma order_chosen:
  "run_state (choose_cluster mem_env sample_handler (sample_checked ''b'')) order_world =
    (Some (Inr (sample_adv ''b'' 6 48)), order_world)"
  by (simp add: choose_cluster_def sample_checked_def sample_order_def order_world_def store_get_def
      active_target_def active Let_def)

lemma order_locks:
  assumes "mw_advs w = mw_advs order_world"
  shows "\<exists>s w'. run_state (attempts n (lock_resources mem_env (sample_adv ''b'' 6 48) (nano_units 2) (nano_units 8))) w = (Inr s, w')"
proof -
  have can: "CanReserve nano_ops (sample_adv ''b'' 6 48) (nano_units 2) (nano_units 8)"
    by (simp add: CanReserve_def sample_defs nano_simps sgn_if)
  obtain b where b: "AddReservation nano_ops (sample_adv ''b'' 6 48) (nano_units 2) (nano_units 8) = Inr b"
    by (simp add: AddReservation_def)
  note same = same_but_ledgerD(1) [OF AddReservation_frame [OF b]]
  have "m_ResourceVersion (o_meta (sample_adv ''b'' 6 48)) = 0"
    by (simp add: sample_defs)
  then have "\<exists>s w'. run_state (lock_resources mem_env (sample_adv ''b'' 6 48) (nano_units 2) (nano_units 8)) w = (Inr s, w')"
    using can b same assms
    by (simp add: lock_resources_def order_world_def store_get_def mem_write_def Let_def)
  then show ?thesis by (cases n) auto
qed

lemma order_created:
  "\<exists>resp w'. run_state (PostReservation mem_env sample_handler (sample_order ''b'')) order_world = (Some resp, w') \<and>
    hs_Status resp = StatusCreated"
proof -
  define rsv0 where "rsv0 = new_reservation sample_handler (''rsv-a-'' @ show_int (unix_milli (10 * go_hour)))
     (sample_checked ''b'') ''b'' None"
  obtain y w1 where cr: "run_state (c_create (b_rsv mem_env) rsv0) order_world = (Inr y, w1)" "mw_advs w1 = mw_advs order_world"
    by (simp add: order_world_def store_get_def empty_world_def)
  obtain u w2 where up1: "run_state (c_update (b_rsv mem_env) (add_finalizer ReservationFinalizer y)) w1 = (u, w2)"
    by fastforce
  have "client_keeps mw_advs (b_rsv mem_env)"
    using rsv_lens.mem_client_keeps [of mw_advs] by (simp add: mem_env_def)
  from keepsD [OF client_keepsD(4) [OF this] up1] cr(2) have "mw_advs w2 = mw_advs order_world" by simp
  note up = up1 this
  obtain s w3 where "run_state (attempts 4 (lock_resources mem_env (sample_adv ''b'' 6 48) (nano_units 2) (nano_units 8))) w2 = (Inr s, w3)"
    using order_locks [OF up(2)] by blast
  moreover have "requested_duration mem_env (qr_Duration (cr_dto (sample_checked ''b''))) = Inr None"
    "cr_requesterID (sample_checked ''b'') = ''a''" "cr_CPU (sample_checked ''b'') = nano_units 2" "cr_Memory (sample_checked ''b'') = nano_units 8"
    "mw_clock order_world = 10 * go_hour"
    by (simp_all add: requested_duration_def sample_checked_def sample_order_def order_world_def empty_world_def)
  ultimately show ?thesis
    using cr(1) up(1)
    by (simp add: PostReservation_def sample_order_checked order_chosen record_and_lock_def rsv0_def [simplified, symmetric] Let_def respond_json_def split: prod.split del: mem_env_simps(6))
qed

lemma choose_cluster_codes:
  "run_state (choose_cluster E h c) w = (Some (Inl (code, message)), w') \<Longrightarrow> code \<noteq> StatusCreated"
  by (auto simp: choose_cluster_def Let_def status_defs split: if_splits sum.splits option.splits list.splits
      prod.splits)

lemma post_reservation_run:
  assumes "broker_world E v advs rsvs" "run_state (PostReservation E h r) w = (Some resp, w')"
  obtains (refused) "hs_Status resp \<noteq> StatusCreated" "advs w' = advs w" "rsvs w' = rsvs w"
  | (recorded) c best old name d w2 where "check_request (b_Q E) r = Inr c" "cr_requesterID c = fst (GetClusterID r)"
      "advs w (obj_key best) = Some old" "adv_id best = adv_id old" "cas_Active (o_status old)"
      "if qr_TargetClusterID (cr_dto c) \<noteq> '''' then adv_id old = qr_TargetClusterID (cr_dto c)
       else adv_id old \<noteq> cr_requesterID c"
      "advs w2 = advs w" "rsvs w2 = rsvs w"
      "run_state (record_and_lock E best c (new_reservation h name c (adv_id best) d)) w2 = (Some resp, w')"
proof (cases "check_request (b_Q E) r")
  case (Inl e)
  with assms(2) show thesis
    by (intro refused) (auto simp: PostReservation_def respondWithError_def check_request_def status_defs split_beta Let_def
        split: sum.splits if_splits)
next
  case chk: (Inr c)
  then have requester: "cr_requesterID c = fst (GetClusterID r)"
    by (auto simp: check_request_def split_beta Let_def split: sum.splits if_splits)
  obtain chosen w1 where ch: "run_state (choose_cluster E h c) w = (chosen, w1)" by fastforce
  note q = choose_cluster_quiet [OF assms(1) ch]
  show thesis
  proof (cases "\<exists>best. chosen = Some (Inr best)")
    case False
    with assms(2) chk ch q choose_cluster_codes [of E h c w] show thesis
      by (intro refused) (auto simp: PostReservation_def respondWithError_def split: option.splits sum.splits)
  next
    case True
    then obtain best where best: "chosen = Some (Inr best)" by blast
    obtain now w2 where n: "run_state (b_now E) w1 = (now, w2)" by fastforce
    have same: "advs w2 = advs w" "rsvs w2 = rsvs w"
      using q keepsD [OF quietD(4) [OF broker_world.quiet_advs [OF assms(1)]] n]
        keepsD [OF quietD(4) [OF broker_world.quiet_rsvs [OF assms(1)]] n] by simp_all
    show thesis
    proof (cases "requested_duration E (qr_Duration (cr_dto c))")
      case (Inl e)
      with assms(2) chk ch best n same show thesis
        by (intro refused) (auto simp: PostReservation_def respondWithError_def status_defs)
    next
      case (Inr d)
      with assms(2) chk ch best n have "run_state (record_and_lock E best c
          (new_reservation h (''rsv-'' @ cr_requesterID c @ ''-'' @ show_int (unix_milli now)) c (adv_id best) d)) w2 = (Some resp, w')"
        by (simp add: PostReservation_def)
      with choose_cluster_ok [OF assms(1) ch [unfolded best]] recorded [OF chk requester _ _ _ _ same] show thesis by metis
    qed
  qed
qed

lemma post_reservation_cases:
  assumes "broker_world E v advs rsvs" "undeleted (advs w)"
    "run_state (PostReservation E h r) w = (Some resp, w')"
  obtains (rejected) "hs_Status resp \<noteq> StatusCreated" "advs w' = advs w"
  | (created) c k old locked new key x where "hs_Status resp = StatusCreated" "check_request (b_Q E) r = Inr c"
      "cr_requesterID c = fst (GetClusterID r)" "advs w k = Some old" "cas_Active (o_status old)"
      "if qr_TargetClusterID (cr_dto c) \<noteq> '''' then adv_id old = qr_TargetClusterID (cr_dto c)
       else adv_id old \<noteq> cr_requesterID c"
      "v (cr_CPU c) \<le> v (rq_CPU (adv_available old))" "v (cr_Memory c) \<le> v (rq_Memory (adv_available old))"
      "AddReservation (b_Q E) old (cr_CPU c) (cr_Memory c) = Inr locked"
      "advs w' = (advs w)(k \<mapsto> new)" "o_spec new = o_spec locked" "o_status new = o_status old"
      "rsvs w key = None" "rsvs w' = (rsvs w)(key \<mapsto> x)"
      "rs_RequesterID (o_spec x) = cr_requesterID c" "rsv_target x = adv_id old"
      "rsv_cpu x = cr_CPU c" "rsv_memory x = cr_Memory c" "rr_GPU (rs_RequestedResources (o_spec x)) = None"
  using assms(1,3)
proof (cases rule: post_reservation_run)
  case refused
  then show thesis by (intro rejected)
next
  case (recorded c best old name d w2)
  let ?rsv = "new_reservation h name c (adv_id best) d"
  from recorded(7) assms(2) have "undeleted (advs w2)" by simp
  from record_and_lock_effect [OF assms(1) this recorded(9)] recorded(7,8)
  consider "hs_Status resp \<noteq> StatusCreated" "advs w' = advs w"
    | (made) old' locked new x where "hs_Status resp = StatusCreated" "advs w (obj_key best) = Some old'"
      "CanReserve (b_Q E) old' (cr_CPU c) (cr_Memory c)" "AddReservation (b_Q E) old' (cr_CPU c) (cr_Memory c) = Inr locked"
      "advs w' = (advs w)(obj_key best \<mapsto> new)" "o_spec new = o_spec locked" "o_status new = o_status old'"
      "rsvs w (obj_key ?rsv) = None" "rsvs w' = (rsvs w)(obj_key ?rsv \<mapsto> x)" "o_spec x = o_spec ?rsv"
    by auto
  then show thesis
  proof cases
    case made
    have [simp]: "old' = old" using made(2) recorded(3) by simp
    from made(3) quantity.CanReserve_iff [OF broker_worldD(1) [OF assms(1)]]
    have "v (cr_CPU c) \<le> v (rq_CPU (adv_available old))" "v (cr_Memory c) \<le> v (rq_Memory (adv_available old))"
      by simp_all
    with made recorded show thesis
      by (intro created [of c "obj_key best" old locked new "obj_key ?rsv" x]) (simp_all add: new_reservation_def)
  qed (rule rejected)
qed

section \<open>Properties\<close>

text \<open>
  C4. What \<open>POST /api/v1/reservations\<close> does: unless it answers 201 no advertisement changes. With 201
  the request was valid, the requester is the cluster of the certificate, the advertisement of one
  active cluster (the one named, else another than the requester) had the requested CPU and memory
  available, exactly these have moved to Reserved there and nothing else of it changed, and exactly
  one reservation, recording requester, provider and amounts but never a GPU, was added.
\<close>

theorem post_reservation_effect:
  assumes "broker_world E v advs rsvs" "undeleted (advs w)"
    "run_state (PostReservation E h r) w = (Some resp, w')"
  shows "(hs_Status resp \<noteq> StatusCreated \<and> advs w' = advs w) \<or>
    (hs_Status resp = StatusCreated \<and> (\<exists>c k old locked new key x.
       check_request (b_Q E) r = Inr c \<and> cr_requesterID c = fst (GetClusterID r) \<and>
       advs w k = Some old \<and> cas_Active (o_status old) \<and>
       (if qr_TargetClusterID (cr_dto c) \<noteq> '''' then adv_id old = qr_TargetClusterID (cr_dto c)
        else adv_id old \<noteq> cr_requesterID c) \<and>
       v (cr_CPU c) \<le> v (rq_CPU (adv_available old)) \<and> v (cr_Memory c) \<le> v (rq_Memory (adv_available old)) \<and>
       AddReservation (b_Q E) old (cr_CPU c) (cr_Memory c) = Inr locked \<and>
       advs w' = (advs w)(k \<mapsto> new) \<and> o_spec new = o_spec locked \<and> o_status new = o_status old \<and>
       rsvs w key = None \<and> rsvs w' = (rsvs w)(key \<mapsto> x) \<and>
       rs_RequesterID (o_spec x) = cr_requesterID c \<and> rsv_target x = adv_id old \<and>
       rsv_cpu x = cr_CPU c \<and> rsv_memory x = cr_Memory c \<and> rr_GPU (rs_RequestedResources (o_spec x)) = None))"
  using assms
proof (cases rule: post_reservation_cases)
  case rejected
  then show ?thesis by blast
next
  case (created c k old locked new key x)
  then show ?thesis
    by (intro disjI2 conjI exI [of _ c] exI [of _ k] exI [of _ old] exI [of _ locked] exI [of _ new]
        exI [of _ key] exI [of _ x])
qed

theorem post_reservation_witness:
  "\<exists>resp w' new. run_state (PostReservation mem_env sample_handler (sample_order ''b'')) order_world = (Some resp, w') \<and>
    hs_Status resp = StatusCreated \<and> mem_advs w' (''default'', ''b-adv'') = Some new \<and>
    free_of nano_value new ResCPU = 4 \<and> held_of nano_value new ResMemory = 8"
proof -
  obtain resp w' where run: "run_state (PostReservation mem_env sample_handler (sample_order ''b'')) order_world = (Some resp, w')"
    "hs_Status resp = StatusCreated" using order_created by blast
  from post_reservation_effect [OF mem.broker_world_axioms order_world_undeleted run(1)] run(2)
  obtain c k old locked new where eff: "check_request nano_ops (sample_order ''b'') = Inr c"
    "mem_advs order_world k = Some old" "if qr_TargetClusterID (cr_dto c) \<noteq> '''' then adv_id old = qr_TargetClusterID (cr_dto c)
        else adv_id old \<noteq> cr_requesterID c"
    "AddReservation nano_ops old (cr_CPU c) (cr_Memory c) = Inr locked" "mem_advs w' = (mem_advs order_world)(k \<mapsto> new)"
    "o_spec new = o_spec locked"
    by auto
  have [simp]: "c = sample_checked ''b''" using eff(1) sample_order_checked by simp
  have "adv_id old = ''b''" using eff(3) by (simp add: sample_checked_def sample_order_def)
  with eff(2) have old: "old = sample_adv ''b'' 6 48" "k = (''default'', ''b-adv'')"
    by (auto simp: order_world_def store_get_def split: if_splits)
  have "free_of nano_value new r = free_of nano_value locked r" "held_of nano_value new r = held_of nano_value locked r" for r
    using eff(6) by (cases r; simp)+
  moreover have "free_of nano_value old ResCPU = 6" "held_of nano_value old ResMemory = 0"
    "cr_CPU c = nano_units 2" "cr_Memory c = nano_units 8" "nano_value (nano_units 2) = 2" "nano_value (nano_units 8) = 8"
    unfolding old(1) by (simp_all add: sample_checked_def sample_defs nano_value_def nano_units_def)
  ultimately have "free_of nano_value new ResCPU = 4" "held_of nano_value new ResMemory = 8"
    using nano.AddReservation_amounts [OF eff(4)] by (simp_all del: free_of.simps held_of.simps)
  with run eff(5) old(2) show ?thesis by auto
qed

text \<open>
  C31. Only the provider of a reservation can set its kubeconfig: \<open>PostPeeringKubeconfig\<close> changes no
  advertisement, and either no reservation (the answer being an error) or exactly the named one,
  whose provider is the cluster of the certificate, and of it only the kubeconfig and the update
  time.
\<close>

theorem kubeconfig_only_provider:
  assumes "broker_world E v advs rsvs" "run_state (PostPeeringKubeconfig E h r) w = (Some resp, w')"
  shows "advs w' = advs w \<and>
    ((hs_Status resp \<noteq> StatusOK \<and> rsvs w' = rsvs w) \<or>
     (hs_Status resp = StatusOK \<and> (\<exists>old new kubeconfig t. rsvs w (h_namespace h, hr_PathValue r) = Some old \<and>
        GetClusterID r = (rsv_target old, True) \<and> hr_KubeconfigBody r = Inr kubeconfig \<and> kubeconfig \<noteq> '''' \<and>
        rsvs w' = (rsvs w)((h_namespace h, hr_PathValue r) \<mapsto> new) \<and> o_spec new = o_spec old \<and>
        o_status new = (o_status old)\<lparr>rst_PeeringKubeconfig := kubeconfig, rst_LastUpdateTime := t\<rparr>)))"
proof -
  note rsv = broker_worldD(3) [OF assms(1)]
  define k where "k = (h_namespace h, hr_PathValue r)"
  obtain got w1 where get: "run_state (c_get (b_rsv E) k) w = (got, w1)" by fastforce
  have same: "rsvs w1 = rsvs w" "advs w1 = advs w"
    using kube_client.get_same [OF rsv get]
      keepsD [OF client_keepsD(1) [OF broker_world.rsv_keeps_advs [OF assms(1)]] get] by blast+
  show ?thesis
  proof (cases "\<exists>x kc. got = Inr x \<and> GetClusterID r = (rsv_target x, True) \<and> hr_KubeconfigBody r = Inr kc \<and> kc \<noteq> '''' \<and>
      hr_PathValue r \<noteq> '''' \<and> rsv_target x \<noteq> ''''")
    case False
    obtain p ok where gid: "GetClusterID r = (p, ok)" by fastforce
    have "(w' = w \<or> w' = w1) \<and> hs_Status resp \<noteq> StatusOK"
      using assms(2) False get gid
      by (cases "hr_KubeconfigBody r"; cases got)
        (auto simp: PostPeeringKubeconfig_def k_def [symmetric] respondWithError_def status_defs Let_def split: if_splits)
    with same show ?thesis by auto
  next
    case True
    then obtain x kc where x: "got = Inr x" "GetClusterID r = (rsv_target x, True)" "hr_KubeconfigBody r = Inr kc"
      "kc \<noteq> ''''" "hr_PathValue r \<noteq> ''''" "rsv_target x \<noteq> ''''" by blast
    with kube_client.get_found [OF rsv] get have old: "rsvs w k = Some x" "obj_key x = k" by blast+
    obtain u w2 where u: "run_state (b_retry E (change_status E k (kubeconfig_status kc))) w1 = (u, w2)" by fastforce
    have w': "w' = w2" and resp: "hs_Status resp = (case u of Inl _ \<Rightarrow> StatusInternalServerError | Inr _ \<Rightarrow> StatusOK)"
      using assms(2) x get u old(2)
      by (auto simp: PostPeeringKubeconfig_def respondWithError_def k_def [symmetric] Let_def split: sum.splits)
    from retry_status_effect [OF assms(1) u] same old(1) x resp w' show ?thesis
      by (auto simp: k_def kubeconfig_status_def status_defs split: sum.splits)
  qed
qed

definition sample_upload :: HttpRequest where
  "sample_upload = sample_http\<lparr>hr_ClusterID := Some ''b'', hr_PathValue := ''rsv-a-1'', hr_KubeconfigBody := Inr ''kc''\<rparr>"

definition reserved_world :: mem_world where
  "reserved_world = empty_world\<lparr>mw_advs := [sample_adv ''b'' 6 48],
     mw_rsvs := [(sample_rsv ''b'' 2 8)\<lparr>o_status := zero_rsv_status\<lparr>rst_Phase := PhaseReserved\<rparr>\<rparr>]\<rparr>"

lemma sample_rsv_simps [simp]:
  "obj_key (sample_rsv t c m) = (''default'', ''rsv-a-1'')" "rsv_target (sample_rsv t c m) = t"
  "m_ResourceVersion (o_meta (sample_rsv t c m)) = 0" "m_DeletionTimestamp (o_meta (sample_rsv t c m)) = None"
  by (simp_all add: sample_defs meta_key_def)

theorem kubeconfig_witness:
  "\<exists>resp w' new. run_state (PostPeeringKubeconfig mem_env sample_handler sample_upload) reserved_world = (Some resp, w') \<and>
    mem_rsvs w' (''default'', ''rsv-a-1'') = Some new \<and> rst_PeeringKubeconfig (o_status new) = ''kc'' \<and>
    rsv_phase new = PhaseReserved"
proof -
  let ?x = "(sample_rsv ''b'' 2 8)\<lparr>o_status := zero_rsv_status\<lparr>rst_Phase := PhaseReserved\<rparr>\<rparr>"
  have found: "mem_rsvs reserved_world (''default'', ''rsv-a-1'') = Some ?x"
    by (simp add: reserved_world_def store_get_def)
  obtain resp w' where run: "run_state (PostPeeringKubeconfig mem_env sample_handler sample_upload) reserved_world = (Some resp, w')"
    "hs_Status resp = StatusOK"
    by (simp add: PostPeeringKubeconfig_def sample_upload_def GetClusterID_def reserved_world_def store_get_def
        change_status_def numeral_eq_Suc mem_write_def mem_status_def Let_def)
  from kubeconfig_only_provider [OF mem.broker_world_axioms run(1)] run found show ?thesis
    by (auto simp: sample_upload_def status_defs)
qed

end
