(* ===== verification/EvaluationHandler.thy ===== *)
theory EvaluationHandler
  imports ReservationHandler
begin

text \<open>
  \<open>PostEvaluation\<close> (resource-broker/internal/api/handlers/evaluation.go) ranks providers without
  reserving: it validates as \<open>PostReservation\<close> does, stores the latency the requester measured to
  its current provider in their NetworkBond, and answers with the best ten clusters.
\<close>

definition measured_bond :: "float64 option \<Rightarrow> time \<Rightarrow> NetworkBond \<Rightarrow> NetworkBond" where
  "measured_bond measured now bond =
     (let s = o_spec bond;
          s1 = (case measured of
              Some ms \<Rightarrow> s\<lparr>nb_ActualLatency := ms\<rparr>
            | None \<Rightarrow> if nb_ActualLatency s = 0 then s\<lparr>nb_ActualLatency := nb_EstimatedLatency s\<rparr> else s)
      in bond\<lparr>o_spec := s1\<lparr>nb_Timestamp := now\<rparr>\<rparr>)"

definition record_latency :: "('w, 'q) BrokerEnv \<Rightarrow> string \<Rightarrow> ReservationRequestDTO \<Rightarrow> ('w, unit) state" where
  "record_latency E requesterID reqDTO =
     (if qr_CurrentProviderID reqDTO = '''' then ret ()
      else do {
        got \<leftarrow> c_get (b_bond E) (''default'', requesterID @ ''-'' @ qr_CurrentProviderID reqDTO);
        case got of
          Inl _ \<Rightarrow> ret ()
        | Inr bond \<Rightarrow> do {
            now \<leftarrow> b_now E;
            _ \<leftarrow> c_update (b_bond E) (measured_bond (qr_MeasuredLatencyMs reqDTO) now bond);
            ret ()
          }
      })"

definition candidate :: "'q RankedCluster \<Rightarrow> CandidateClusterDTO" where
  "candidate ranked = \<lparr>cc_ClusterID = adv_id (rk_Cluster ranked), cc_Information = rk_Information ranked\<rparr>"

definition PostEvaluation :: "('w, 'q) BrokerEnv \<Rightarrow> Handler \<Rightarrow> 'w handler" where
  "PostEvaluation E h r =
     (case check_request (b_Q E) r of
        Inl (code, message) \<Rightarrow> respondWithError code message
      | Inr c \<Rightarrow> do {
          listed \<leftarrow> c_list (b_adv E);
          _ \<leftarrow> record_latency E (cr_requesterID c) (cr_dto c);
          ranked \<leftarrow> RankClusters E (h_decisionEngine h)
            (rank_arguments c 10 (requester_policy (cr_requesterID c) listed));
          case ranked of
            None \<Rightarrow> ret None
          | Some (Inl e) \<Rightarrow> respondWithError StatusConflict (''No suitable cluster found: '' @ err_text e)
          | Some (Inr bestClusters) \<Rightarrow>
              respond_json StatusOK (EvalBody \<lparr>ev_CandidateClusters = map candidate bestClusters\<rparr>)
        })"

section \<open>Properties\<close>

lemma keeps_record_latency [keeps_intros]: "quiet f E \<Longrightarrow> keeps f (record_latency E i d)"
  unfolding record_latency_def by (auto intro!: keeps_intros)

lemma keeps_PostEvaluation: "quiet f E \<Longrightarrow> keeps f (c_list (b_adv E)) \<Longrightarrow> keeps f (PostEvaluation E h r)"
  unfolding PostEvaluation_def respond_defs by (auto intro!: keeps_intros)

text \<open>
  An evaluation reserves nothing, whatever it answers, and always answers: no panic, and no
  advertisement and no reservation changes. With 200 it names at most ten clusters, each of them
  active, not the requester, and with the requested CPU and memory available.
\<close>

theorem evaluation_reserves_nothing:
  assumes "broker_world E v advs rsvs" "run_state (PostEvaluation E h r) w = (answer, w')"
  shows "advs w' = advs w \<and> rsvs w' = rsvs w \<and> (\<exists>resp. answer = Some resp \<and>
    (hs_Status resp = StatusOK \<longrightarrow> (\<exists>c cs. check_request (b_Q E) r = Inr c \<and>
       hs_Body resp = EvalBody \<lparr>ev_CandidateClusters = cs\<rparr> \<and> length cs \<le> 10 \<and>
       (\<forall>x \<in> set cs. \<exists>k a. advs w k = Some a \<and> cc_ClusterID x = adv_id a \<and> adv_id a \<noteq> cr_requesterID c \<and>
          cas_Active (o_status a) \<and> v (cr_CPU c) \<le> v (rq_CPU (adv_available a)) \<and>
          v (cr_Memory c) \<le> v (rq_Memory (adv_available a))))))"
proof (cases "check_request (b_Q E) r")
  case (Inl e)
  with assms(2) show ?thesis
    by (auto simp: PostEvaluation_def respondWithError_def check_request_def status_defs split_beta Let_def
        split: sum.splits if_splits)
next
  case (Inr c)
  note adv = broker_worldD(2) [OF assms(1)]
  note quiet = broker_world.quiet_advs [OF assms(1)] broker_world.quiet_rsvs [OF assms(1)]
  have "advs w' = advs w"
    by (rule keepsD [OF keeps_PostEvaluation [OF quiet(1) kube_client.list_keeps [OF adv]] assms(2)])
  moreover have "rsvs w' = rsvs w"
    by (rule keepsD [OF keeps_PostEvaluation [OF quiet(2)
        client_keepsD(2) [OF broker_world.adv_keeps_rsvs [OF assms(1)]]] assms(2)])
  moreover obtain listed w1 where l: "run_state (c_list (b_adv E)) w = (listed, w1)" by fastforce
  moreover obtain u w2 where rec: "run_state (record_latency E (cr_requesterID c) (cr_dto c)) w1 = (u, w2)" by (metis surj_pair)
  moreover define req where "req = rank_arguments c 10 (requester_policy (cr_requesterID c) listed)"
  moreover obtain ranked w3 where rk: "run_state (RankClusters E (h_decisionEngine h) req) w2 = (Some ranked, w3)"
    by (rule RankClusters_returns)
  moreover have "\<exists>k a. advs w k = Some a \<and> cc_ClusterID (candidate x) = adv_id a \<and> adv_id a \<noteq> cr_requesterID c \<and>
      cas_Active (o_status a) \<and> v (cr_CPU c) \<le> v (rq_CPU (adv_available a)) \<and>
      v (cr_Memory c) \<le> v (rq_Memory (adv_available a))"
    if ranked: "ranked = Inr xs" "x \<in> set xs" for xs x
  proof -
    from RankClusters_selects(2) [OF assms(1) rk [unfolded ranked(1)]] ranked(2) obtain a where
      a: "advs w2 (obj_key a) = Some a" "same_but_cost a (rk_Cluster x)" "eligible (b_Q E) req a" by blast
    have "advs w2 = advs w"
      using kube_client.list_same [OF adv l] keepsD [OF keeps_record_latency [OF quiet(1)] rec] by simp
    with a same_but_costD(1) [OF a(2)] hasEnough_amounts [OF broker_worldD(1) [OF assms(1)], of a]
    show ?thesis
      by (intro exI [of _ "obj_key a"] exI [of _ a])
        (auto simp: eligible_def req_def rank_arguments_def candidate_def)
  qed
  moreover have "length xs \<le> 10" if "ranked = Inr xs" for xs
    using RankClusters_selects(1) [OF assms(1) rk [unfolded that]] by (simp add: req_def rank_arguments_def)
  ultimately show ?thesis
    using assms(2) Inr
    by (cases ranked) (auto simp: PostEvaluation_def respond_defs status_defs)
qed

theorem evaluation_witness:
  "\<exists>resp w'. run_state (PostEvaluation mem_env sample_handler (sample_order '''')) order_world = (Some resp, w') \<and>
    mem_advs w' = mem_advs order_world \<and> mem_rsvs w' = mem_rsvs order_world"
proof -
  obtain answer w' where run: "run_state (PostEvaluation mem_env sample_handler (sample_order '''')) order_world = (answer, w')"
    by fastforce
  from evaluation_reserves_nothing [OF mem.broker_world_axioms run] run show ?thesis by auto
qed

end
