(* ===== verification/Server.thy ===== *)
theory Server
  imports EvaluationHandler
begin

text \<open>
  The broker's HTTP server (resource-broker/internal/api/server.go): the routes and the middleware
  chain. \<open>net/http\<close>'s multiplexer matches a method and a path; the wildcard of a route is the one
  segment the handler reads with \<open>PathValue\<close>. A path that no route has is answered 404, one whose
  routes have other methods 405. Certificates, keys and the TLS handshake are the library's.
\<close>

datatype Route =
    PostAdvertisements | GetOneAdvertisement string | PostReservations | PostEvaluations
  | GetOneReservation string | PostKubeconfig string | GetAllInstructions | Healthz

definition route_method :: "Route \<Rightarrow> string" where
  "route_method r =
     (case r of
        PostAdvertisements \<Rightarrow> ''POST'' | GetOneAdvertisement _ \<Rightarrow> ''GET'' | PostReservations \<Rightarrow> ''POST''
      | PostEvaluations \<Rightarrow> ''POST'' | GetOneReservation _ \<Rightarrow> ''GET'' | PostKubeconfig _ \<Rightarrow> ''POST''
      | GetAllInstructions \<Rightarrow> ''GET'' | Healthz \<Rightarrow> ''GET'')"

text \<open>The routes of a path, from its segments; a wildcard matches a non-empty segment.\<close>

definition path_routes :: "string \<Rightarrow> Route list" where
  "path_routes p =
     (case split_on (CHR ''/'') p of
        [[], a] \<Rightarrow> if a = ''healthz'' then [Healthz] else []
      | [[], a, b, c] \<Rightarrow>
          if a = ''api'' \<and> b = ''v1'' then
            (if c = ''advertisements'' then [PostAdvertisements]
             else if c = ''reservations'' then [PostReservations]
             else if c = ''evaluations'' then [PostEvaluations]
             else if c = ''instructions'' then [GetAllInstructions] else [])
          else []
      | [[], a, b, c, d] \<Rightarrow>
          if a = ''api'' \<and> b = ''v1'' \<and> d \<noteq> [] then
            (if c = ''advertisements'' then [GetOneAdvertisement d]
             else if c = ''reservations'' then [GetOneReservation d] else [])
          else []
      | [[], a, b, c, d, e] \<Rightarrow>
          if a = ''api'' \<and> b = ''v1'' \<and> c = ''reservations'' \<and> d \<noteq> [] \<and> e = ''kubeconfig''
          then [PostKubeconfig d] else []
      | _ \<Rightarrow> [])"

text \<open>A \<open>GET\<close> route also serves \<open>HEAD\<close>.\<close>

definition method_matches :: "string \<Rightarrow> Route \<Rightarrow> bool" where
  "method_matches m r \<longleftrightarrow> m = route_method r \<or> (m = ''HEAD'' \<and> route_method r = ''GET'')"

definition healthz :: "'w handler" where
  "healthz r = ret (Some \<lparr>hs_Status = StatusOK, hs_Body = TextBody ''ok''\<rparr>)"

definition dispatch :: "('w, 'q) BrokerEnv \<Rightarrow> Handler \<Rightarrow> Route \<Rightarrow> 'w handler" where
  "dispatch E h route r =
     (case route of
        PostAdvertisements \<Rightarrow> PostAdvertisement E h r
      | GetOneAdvertisement c \<Rightarrow> GetAdvertisement E h (r\<lparr>hr_PathValue := c\<rparr>)
      | PostReservations \<Rightarrow> PostReservation E h r
      | PostEvaluations \<Rightarrow> PostEvaluation E h r
      | GetOneReservation i \<Rightarrow> GetReservation E h (r\<lparr>hr_PathValue := i\<rparr>)
      | PostKubeconfig i \<Rightarrow> PostPeeringKubeconfig E h (r\<lparr>hr_PathValue := i\<rparr>)
      | GetAllInstructions \<Rightarrow> GetInstructions E r
      | Healthz \<Rightarrow> healthz r)"

definition mux :: "('w, 'q) BrokerEnv \<Rightarrow> Handler \<Rightarrow> 'w handler" where
  "mux E h r =
     (case filter (method_matches (hr_Method r)) (path_routes (hr_Path r)) of
        route # _ \<Rightarrow> dispatch E h route r
      | [] \<Rightarrow> if path_routes (hr_Path r) = [] then http_error ''404 page not found'' StatusNotFound
              else http_error ''Method Not Allowed'' StatusMethodNotAllowed)"

definition NewServer :: "('w, 'q) BrokerEnv \<Rightarrow> Handler \<Rightarrow> 'w handler" where
  "NewServer E h = Chain (mux E h) [ValidateClientCertificate, Logging E]"

section \<open>Every request is answered\<close>

definition answers :: "('w, HttpResponse option) state \<Rightarrow> bool" where
  "answers m \<longleftrightarrow> (\<forall>w. fst (run_state m w) \<noteq> None)"

named_theorems answers_intros \<open>rules for answers\<close>

lemma answersD: "answers m \<Longrightarrow> run_state m w = (r, w') \<Longrightarrow> \<exists>resp. r = Some resp"
  unfolding answers_def by (metis fst_conv not_Some_eq)

lemma answers_ret [answers_intros]: "answers (ret (Some x))" "answers (respondWithError c s)"
  "answers (respond_json c b)" "answers (http_error s c)"
  by (simp_all add: answers_def respond_defs)

lemma answers_bind [answers_intros]: "(\<And>x. answers (f x)) \<Longrightarrow> answers (State_Monad.bind m f)"
  by (simp add: answers_def split_beta)

lemma answers_split [answers_intros]:
  "(b \<Longrightarrow> answers m) \<Longrightarrow> (\<not> b \<Longrightarrow> answers n) \<Longrightarrow> answers (if b then m else n)"
  "(\<And>y. s = Inl y \<Longrightarrow> answers (f y)) \<Longrightarrow> (\<And>y. s = Inr y \<Longrightarrow> answers (g y)) \<Longrightarrow>
   answers (case s of Inl y \<Rightarrow> f y | Inr y \<Rightarrow> g y)"
  "(\<And>y z. p = (y, z) \<Longrightarrow> answers (f2 y z)) \<Longrightarrow> answers (case p of (y, z) \<Rightarrow> f2 y z)"
  "answers (f3 x) \<Longrightarrow> answers (let y = x in f3 y)"
  by (auto simp: split: sum.split prod.split)

text \<open>Only the two handlers that rank could lose a request, and ranking always returns.\<close>

lemma answers_after:
  assumes "\<And>w. \<exists>y w'. run_state m w = (Some y, w')" "\<And>y. answers (f (Some y))"
  shows "answers (State_Monad.bind m f)"
  unfolding answers_def
proof
  fix w
  obtain y w' where "run_state m w = (Some y, w')" using assms(1) by blast
  then show "fst (run_state (State_Monad.bind m f) w) \<noteq> None"
    using assms(2) [of y] by (simp add: answers_def)
qed

lemma choose_cluster_returns: "\<exists>y w'. run_state (choose_cluster E h c) w = (Some y, w')"
proof (cases "qr_TargetClusterID (cr_dto c) = ''''")
  case True
  obtain listed w1 where l: "run_state (c_list (b_adv E)) w = (listed, w1)" by fastforce
  obtain r w2 where "run_state (RankClusters E (h_decisionEngine h)
      (rank_arguments c 1 (requester_policy (cr_requesterID c) listed))) w1 = (Some r, w2)"
    by (rule RankClusters_returns)
  with True l show ?thesis
    by (cases r) (auto simp: choose_cluster_def split: list.split)
qed (simp add: choose_cluster_def Let_def split_beta)

lemma answers_handlers:
  "answers (PostAdvertisement E h r)" "answers (GetAdvertisement E h r)" "answers (PostReservation E h r)"
  "answers (PostEvaluation E h r)" "answers (GetReservation E h r)" "answers (PostPeeringKubeconfig E h r)"
  "answers (GetInstructions E r)"
proof -
  show "answers (PostAdvertisement E h r)" "answers (GetAdvertisement E h r)" "answers (GetReservation E h r)"
    "answers (PostPeeringKubeconfig E h r)" "answers (GetInstructions E r)"
    unfolding PostAdvertisement_def advertisement_response_def GetAdvertisement_def GetReservation_def
      PostPeeringKubeconfig_def GetInstructions_def
    by (auto intro!: answers_intros)
  show "answers (PostReservation E h r)"
  proof (cases "check_request (b_Q E) r")
    case (Inr c)
    show ?thesis
      unfolding PostReservation_def Inr sum.case
      by (rule answers_after [OF choose_cluster_returns])
        (auto simp: record_and_lock_def intro!: answers_intros split: sum.split)
  qed (auto simp: PostReservation_def intro!: answers_intros)
  show "answers (PostEvaluation E h r)"
  proof (cases "check_request (b_Q E) r")
    case (Inr c)
    have ranks: "\<exists>y w'. run_state (RankClusters E D req) w = (Some y, w')" for D req w
      by (metis RankClusters_returns)
    show ?thesis
      unfolding PostEvaluation_def Inr sum.case
      by (intro answers_bind answers_after [OF ranks]) (auto intro!: answers_intros split: sum.split)
  qed (auto simp: PostEvaluation_def intro!: answers_intros)
qed

lemma answers_mux: "answers (mux E h r)"
  unfolding mux_def dispatch_def healthz_def
  by (auto intro!: answers_intros answers_handlers split: list.split Route.split)

section \<open>What a request does to the accounting\<close>

text \<open>
  From one set of stored advertisements to another by one request of cluster \<open>cn\<close>: an advertisement
  stays as it is, or is the caller's own with its Reserved and policy kept, or amounts moved from
  its Available to its Reserved, none of the two becoming negative by it.
\<close>

definition request_keeps ::
  "('q \<Rightarrow> rat) \<Rightarrow> key \<Rightarrow> ('q ClusterAdvertisementSpec, ClusterAdvertisementStatus) store \<Rightarrow>
   ('q ClusterAdvertisementSpec, ClusterAdvertisementStatus) store \<Rightarrow> bool" where
  "request_keeps v own S S' \<longleftrightarrow>
     (\<forall>k a. S k = Some a \<longrightarrow> (\<exists>b. S' k = Some b \<and>
        (b = a \<or>
         (k = own \<and> adv_reserved b = adv_reserved a \<and> ca_Policy (o_spec b) = ca_Policy (o_spec a)) \<or>
         (\<forall>x. free_of v b x + held_of v b x = free_of v a x + held_of v a x \<and>
            0 \<le> free_of v b x \<and> held_of v a x < held_of v b x))))"

lemma request_keeps_refl [simp]: "request_keeps v own S S"
  by (simp add: request_keeps_def)

lemma post_advertisement_keeps:
  assumes "broker_world E v advs rsvs" "undeleted (advs w)" "run_state (PostAdvertisement E h r) w = (Some resp, w')"
  shows "request_keeps v (h_namespace h, fst (GetClusterID r) @ ''-adv'') (advs w) (advs w')"
  using assms(1,3) assms(2) [unfolded undeleted_def]
proof (cases rule: post_advertisement_cases)
  case rejected
  then show ?thesis by simp
next
  case (stored inc incoming new k)
  then show ?thesis by (auto simp: request_keeps_def)
qed

lemma checked_amounts:
  assumes "quantity Q v" "check_request Q r = Inr c"
  shows "0 < v (cr_CPU c)" "0 < v (cr_Memory c)"
  using assms(2) quantity.cmp_laws [OF assms(1)]
  by (auto simp: check_request_def split_beta Let_def not_le split: sum.splits if_splits)

lemma post_reservation_keeps:
  assumes "broker_world E v advs rsvs" "undeleted (advs w)" "run_state (PostReservation E h r) w = (Some resp, w')"
  shows "request_keeps v own (advs w) (advs w')"
  using assms
proof (cases rule: post_reservation_cases)
  case rejected
  then show ?thesis by simp
next
  case (created c k old locked new key x)
  note Q = broker_worldD(1) [OF assms(1)]
  have "free_of v new y = free_of v locked y" "held_of v new y = held_of v locked y" for y
    using created(11) by (cases y; simp)+
  moreover have "v (cr_CPU c) \<le> free_of v old ResCPU" "v (cr_Memory c) \<le> free_of v old ResMemory"
    using created(7,8) by simp_all
  ultimately have "free_of v new y + held_of v new y = free_of v old y + held_of v old y \<and> 0 \<le> free_of v new y \<and>
      held_of v old y < held_of v new y" for y
    using quantity.AddReservation_amounts [OF Q created(9)] checked_amounts [OF Q created(2)]
    by (cases y) (simp_all del: free_of.simps held_of.simps)
  with created(4,10) show ?thesis
    by (auto simp: request_keeps_def simp del: free_of.simps held_of.simps)
qed

lemma other_routes_keep:
  assumes "broker_world E v advs rsvs"
  shows "keeps advs (GetAdvertisement E h r)" "keeps advs (PostEvaluation E h r)" "keeps advs (GetReservation E h r)"
    "keeps advs (PostPeeringKubeconfig E h r)" "keeps advs (GetInstructions E r)"
proof -
  note quiet = broker_world.quiet_advs [OF assms]
  note adv = kube_client.get_keeps [OF broker_worldD(2) [OF assms]] kube_client.list_keeps [OF broker_worldD(2) [OF assms]]
  note rsv = client_keepsD [OF broker_world.rsv_keeps_advs [OF assms]]
  note retry = retry_on_conflict.retry_keeps [OF broker_worldD(4) [OF assms] change_status_keeps_advs [OF assms]]
  show "keeps advs (PostEvaluation E h r)"
    by (rule keeps_PostEvaluation [OF quiet adv(2)])
  show "keeps advs (GetAdvertisement E h r)" "keeps advs (GetReservation E h r)"
    "keeps advs (PostPeeringKubeconfig E h r)" "keeps advs (GetInstructions E r)"
    unfolding GetAdvertisement_def GetReservation_def PostPeeringKubeconfig_def GetInstructions_def respond_defs Let_def
    by (auto intro!: keeps_intros adv rsv retry)
qed

lemma mux_keeps:
  assumes "broker_world E v advs rsvs" "undeleted (advs w)" "run_state (mux E h r) w = (Some resp, w')"
  shows "request_keeps v (h_namespace h, fst (GetClusterID r) @ ''-adv'') (advs w) (advs w')"
proof (cases "filter (method_matches (hr_Method r)) (path_routes (hr_Path r))")
  case Nil
  with assms(3) show ?thesis by (auto simp: mux_def http_error_def split: if_splits)
next
  case (Cons route rest)
  with assms(3) have run: "run_state (dispatch E h route r) w = (Some resp, w')"
    by (simp add: mux_def)
  have "request_keeps v own (advs w) (advs w')" if "keeps advs m" "run_state m w = (Some resp, w')" for m :: "('a, _) state" and own
    using keepsD [OF that] by simp
  note quiet = this [OF other_routes_keep(1) [OF assms(1)]] this [OF other_routes_keep(2) [OF assms(1)]]
    this [OF other_routes_keep(3) [OF assms(1)]] this [OF other_routes_keep(4) [OF assms(1)]]
    this [OF other_routes_keep(5) [OF assms(1)]]
  from run show ?thesis
    using post_advertisement_keeps [OF assms(1,2)] post_reservation_keeps [OF assms(1,2)] quiet
    by (cases route) (auto simp: dispatch_def healthz_def)
qed

lemma served_request:
  assumes "broker_world E v advs rsvs" "undeleted (advs w)" "run_state (NewServer E h r) w = (answer, w')"
  shows "(\<exists>resp. answer = Some resp) \<and>
    (\<exists>own. request_keeps v own (advs w) (advs w') \<and>
      (\<forall>cert certs. hr_TLS r = Some (cert # certs) \<longrightarrow> hr_Path r \<noteq> ''/healthz'' \<longrightarrow>
         own = (h_namespace h, x_CommonName cert @ ''-adv'')))"
proof -
  have log: "(\<exists>resp. answer = Some resp) \<and> request_keeps v (h_namespace h, fst (GetClusterID q) @ ''-adv'') (advs w) (advs w')"
    if "run_state (Logging E (mux E h) q) w = (answer, w')" for q
  proof -
    note now = keepsD [OF quietD(4) [OF broker_world.quiet_advs [OF assms(1)]]]
    obtain t w1 where t: "run_state (b_now E) w = (t, w1)" by fastforce
    obtain m w2 where m: "run_state (mux E h q) w1 = (m, w2)" by fastforce
    obtain resp where resp: "m = Some resp" using answersD [OF answers_mux m] by blast
    obtain d w3 where d: "run_state (b_since E t) w2 = (d, w3)" by fastforce
    have "advs w1 = advs w" "advs w3 = advs w2"
      using now [OF t] keepsD [OF keeps_since [OF quietD(4) [OF broker_world.quiet_advs [OF assms(1)]]] d] by blast+
    with mux_keeps [OF assms(1) _ m [unfolded resp]] assms(2) that t m d resp show ?thesis
      by (auto simp: Logging_def)
  qed
  show ?thesis
    using assms(3) log [of r] log [of "r\<lparr>hr_ClusterID := Some c\<rparr>" for c]
    unfolding NewServer_def Chain_def ValidateClientCertificate_def extractClusterID_def
    by (auto simp: http_error_def GetClusterID_def Let_def split: option.splits list.splits if_splits)
qed

section \<open>Properties\<close>

text \<open>
  Authentication: but for \<open>/healthz\<close>, a request without a client certificate or with an empty
  common name is answered 401 or 403 without any effect, and any other is routed with the common
  name of its first certificate as its identity, whatever identity the request came with.
\<close>

theorem server_authenticates:
  assumes "hr_Path r \<noteq> ''/healthz''"
  shows "(\<exists>cert certs. hr_TLS r = Some (cert # certs) \<and> x_CommonName cert \<noteq> '''' \<and>
      NewServer E h r = Logging E (mux E h) (r\<lparr>hr_ClusterID := Some (x_CommonName cert)\<rparr>)) \<or>
    ((\<forall>cert certs. hr_TLS r = Some (cert # certs) \<longrightarrow> x_CommonName cert = '''') \<and>
     (\<exists>resp. NewServer E h r = ret (Some resp) \<and> (hs_Status resp = 401 \<or> hs_Status resp = 403)))"
  using assms
  by (auto simp: NewServer_def Chain_def ValidateClientCertificate_def extractClusterID_def http_error_def
      status_defs Let_def split: option.split list.split)

theorem server_authenticates_witness:
  "\<exists>resp. NewServer mem_env sample_handler (sample_http\<lparr>hr_TLS := None\<rparr>) = ret (Some resp) \<and>
    (hs_Status resp = 401 \<or> hs_Status resp = 403)"
  using server_authenticates [of "sample_http\<lparr>hr_TLS := None\<rparr>" mem_env sample_handler]
  by (simp add: sample_http_def)

text \<open>
  C9. Every request to the server is answered, and none takes anything that is reserved: after it,
  every advertisement is as it was, or is the one of the calling cluster with Reserved and policy
  unchanged, or has had a positive amount moved from Available to Reserved with nothing lost and
  Available not negative. No advertisement disappears.
\<close>

theorem server_keeps_reserved:
  assumes "broker_world E v advs rsvs" "undeleted (advs w)" "run_state (NewServer E h r) w = (answer, w')"
  shows "(\<exists>resp. answer = Some resp) \<and>
    (\<exists>own. request_keeps v own (advs w) (advs w') \<and>
      (\<forall>cert certs. hr_TLS r = Some (cert # certs) \<longrightarrow> hr_Path r \<noteq> ''/healthz'' \<longrightarrow>
         own = (h_namespace h, x_CommonName cert @ ''-adv'')))"
  by (rule served_request [OF assms])

theorem server_keeps_reserved_witness:
  "\<exists>answer w'. run_state (NewServer mem_env sample_handler
      ((sample_order ''b'')\<lparr>hr_Method := ''POST'', hr_Path := ''/api/v1/reservations''\<rparr>)) order_world = (answer, w') \<and>
    request_keeps nano_value (''default'', ''a-adv'') (mem_advs order_world) (mem_advs w')"
proof -
  let ?r = "(sample_order ''b'')\<lparr>hr_Method := ''POST'', hr_Path := ''/api/v1/reservations''\<rparr>"
  obtain answer w' where run: "run_state (NewServer mem_env sample_handler ?r) order_world = (answer, w')"
    by fastforce
  have "hr_TLS ?r = Some [\<lparr>x_CommonName = ''a''\<rparr>]" "hr_Path ?r \<noteq> ''/healthz''"
    by (simp_all add: sample_order_def sample_http_def)
  with server_keeps_reserved [OF mem.broker_world_axioms order_world_undeleted run] run show ?thesis by auto
qed

end
