(* ===== verification/AdvertisementController.thy ===== *)
theory AdvertisementController
  imports Decision
begin

text \<open>
  The advertisement controller (resource-broker/internal/controller/clusteradvertisement_controller.go):
  one \<open>Reconcile\<close> of an advertisement refreshes its status, that is whether it is active or stale,
  its base score and its three conditions. The first retry of the code compares the available
  amounts with themselves, since the call that recalculated them is commented out.
\<close>

section \<open>updateConditions\<close>

definition mk_condition :: "string \<Rightarrow> bool \<Rightarrow> string \<Rightarrow> string \<Rightarrow> time \<Rightarrow> Condition" where
  "mk_condition t b reason message now =
     \<lparr>cn_Type = t, cn_Status = (if b then ConditionTrue else ConditionFalse), cn_Reason = reason,
      cn_Message = message, cn_LastTransitionTime = now\<rparr>"

definition isOvercommitted :: "'q QuantityOps \<Rightarrow> 'q ClusterAdvertisement \<Rightarrow> bool" where
  "isOvercommitted Q clusterAdv =
     (case adv_reserved clusterAdv of
        None \<Rightarrow> False
      | Some reserved \<Rightarrow>
          q_Cmp Q (rq_CPU reserved) (rq_CPU (adv_available clusterAdv)) > 0 \<or>
          q_Cmp Q (rq_Memory reserved) (rq_Memory (adv_available clusterAdv)) > 0)"

definition updateConditions ::
  "('w, 'q) BrokerEnv \<Rightarrow> 'q ClusterAdvertisement \<Rightarrow> bool \<Rightarrow> ('w, 'q ClusterAdvertisement) state" where
  "updateConditions E clusterAdv isStale = do {
     now \<leftarrow> b_now E;
     let ready = mk_condition ClusterAdvertisementConditionReady (\<not> isStale)
           (if isStale then ''ClusterStale'' else ''ClusterActive'')
           (if isStale then ''Cluster advertisement is stale and not accepting new reservations''
            else ''Cluster is active and ready to accept reservations'') now;
     let stale = mk_condition ClusterAdvertisementConditionStale isStale ''AdvertisementAge''
           ''Advertisement freshness check'' now;
     let overcommitted = isOvercommitted (b_Q E) clusterAdv;
     let over = mk_condition ClusterAdvertisementConditionOvercommitted overcommitted ''ResourceCheck''
           (if overcommitted then ''Reserved resources exceed available capacity''
            else ''Resources are within acceptable limits'') now;
     let s = o_status clusterAdv;
     let cs = b_set_condition E over (b_set_condition E stale (b_set_condition E ready (cas_Conditions s)));
     ret (clusterAdv\<lparr>o_status := s\<lparr>cas_Conditions := cs\<rparr>\<rparr>)
   }"

section \<open>Reconcile\<close>

definition respec_available ::
  "('w, 'q) BrokerEnv \<Rightarrow> key \<Rightarrow> ('w, go_error + ReservationStatus option) state" where
  "respec_available E k = do {
     got \<leftarrow> c_get (b_adv E) k;
     case got of
       Inl e \<Rightarrow> ret (Inl (ErrApi e))
     | Inr latest \<Rightarrow>
         let oldCPU = rq_CPU (adv_available latest); oldMem = rq_Memory (adv_available latest)
         in if q_Cmp (b_Q E) oldCPU (rq_CPU (adv_available latest)) = 0 \<and>
               q_Cmp (b_Q E) oldMem (rq_Memory (adv_available latest)) = 0
            then ret (Inr None)
            else do {
              u \<leftarrow> c_update (b_adv E) latest;
              ret (case u of Inl e \<Rightarrow> Inl (ErrApi e) | Inr _ \<Rightarrow> Inr None)
            }
   }"

definition staleness_threshold :: "duration \<Rightarrow> duration" where
  "staleness_threshold configured = (if configured = 0 then 2 * go_minute else configured)"

definition fresh_status :: "bool \<Rightarrow> 'q ClusterAdvertisement \<Rightarrow> 'q ClusterAdvertisement" where
  "fresh_status isStale latest = latest\<lparr>o_status := (o_status latest)
     \<lparr>cas_Active := \<not> isStale, cas_Phase := (if isStale then ''Stale'' else ''Active''),
      cas_Message := (if isStale then ''Advertisement has not been updated recently''
                      else ''Cluster is active and available'')\<rparr>\<rparr>"

definition refresh_status ::
  "('w, 'q) BrokerEnv \<Rightarrow> duration \<Rightarrow> key \<Rightarrow> ('w, go_error + ReservationStatus option) state" where
  "refresh_status E stalenessThreshold k = do {
     got \<leftarrow> c_get (b_adv E) k;
     case got of
       Inl e \<Rightarrow> ret (Inl (ErrApi e))
     | Inr latest \<Rightarrow> do {
         age \<leftarrow> b_since E (ca_Timestamp (o_spec latest));
         let isStale = age > staleness_threshold stalenessThreshold;
         updated \<leftarrow> updateConditions E (UpdateClusterScore (b_Q E) (fresh_status isStale latest)) isStale;
         now \<leftarrow> b_now E;
         u \<leftarrow> c_status_update (b_adv E)
           (updated\<lparr>o_status := (o_status updated)\<lparr>cas_LastUpdateTime := now\<rparr>\<rparr>);
         ret (case u of Inl e \<Rightarrow> Inl (ErrApi e) | Inr _ \<Rightarrow> Inr None)
       }
   }"

definition Reconcile :: "('w, 'q) BrokerEnv \<Rightarrow> duration \<Rightarrow> key \<Rightarrow> ('w, go_error + duration) state" where
  "Reconcile E stalenessThreshold k = do {
     got \<leftarrow> c_get (b_adv E) k;
     case got of
       Inl e \<Rightarrow> ret (if is_not_found (ErrApi e) then Inr 0 else Inl (ErrApi e))
     | Inr _ \<Rightarrow> do {
         _ \<leftarrow> b_retry E (respec_available E k);
         r \<leftarrow> b_retry E (refresh_status E stalenessThreshold k);
         ret (case r of Inl e \<Rightarrow> Inl e | Inr _ \<Rightarrow> Inr (5 * go_minute))
       }
   }"

section \<open>Effects\<close>

lemma fresh_status_simps [simp]:
  "o_spec (fresh_status b a) = o_spec a" "o_meta (fresh_status b a) = o_meta a"
  "cas_Active (o_status (fresh_status b a)) = (\<not> b)"
  "cas_Phase (o_status (fresh_status b a)) = (if b then ''Stale'' else ''Active'')"
  "cas_Conditions (o_status (fresh_status b a)) = cas_Conditions (o_status a)"
  by (simp_all add: fresh_status_def)

lemma UpdateClusterScore_simps [simp]:
  "o_spec (UpdateClusterScore Q a) = o_spec a" "o_meta (UpdateClusterScore Q a) = o_meta a"
  "cas_Active (o_status (UpdateClusterScore Q a)) = cas_Active (o_status a)"
  "cas_Phase (o_status (UpdateClusterScore Q a)) = cas_Phase (o_status a)"
  "cas_Conditions (o_status (UpdateClusterScore Q a)) = cas_Conditions (o_status a)"
  by (simp_all add: UpdateClusterScore_def)

text \<open>What the status says of an advertisement that is stale, or not.\<close>

definition status_tells :: "'q QuantityOps \<Rightarrow> bool \<Rightarrow> 'q ClusterAdvertisement \<Rightarrow> bool" where
  "status_tells Q isStale a \<longleftrightarrow>
     cas_Active (o_status a) = (\<not> isStale) \<and> cas_Phase (o_status a) = (if isStale then ''Stale'' else ''Active'') \<and>
     condition_status ''Ready'' (cas_Conditions (o_status a)) = Some (if isStale then ''False'' else ''True'') \<and>
     condition_status ''Stale'' (cas_Conditions (o_status a)) = Some (if isStale then ''True'' else ''False'') \<and>
     condition_status ''Overcommitted'' (cas_Conditions (o_status a)) =
       Some (if isOvercommitted Q a then ''True'' else ''False'')"

lemma mk_condition_simps [simp]:
  "cn_Type (mk_condition t b r m now) = t"
  "cn_Status (mk_condition t b r m now) = (if b then ''True'' else ''False'')"
  by (simp_all add: mk_condition_def condition_defs)

lemma isOvercommitted_status [simp]: "isOvercommitted Q (a\<lparr>o_status := s\<rparr>) = isOvercommitted Q a"
  by (simp add: isOvercommitted_def split: option.split)

lemma updateConditions_tells:
  assumes "status_conditions (b_set_condition E)" "cas_Active (o_status a) = (\<not> b)"
    "cas_Phase (o_status a) = (if b then ''Stale'' else ''Active'')" "run_state (updateConditions E a b) w = (c, w')"
  shows "status_tells (b_Q E) b c \<and> o_spec c = o_spec a \<and> o_meta c = o_meta a"
  using assms(2-4)
  by (cases "run_state (b_now E) w")
    (auto simp: updateConditions_def Let_def status_tells_def condition_defs status_conditions.set_status [OF assms(1)])

lemma keeps_updateConditions: "keeps f (b_now E) \<Longrightarrow> keeps f (updateConditions E a b)"
  unfolding updateConditions_def Let_def by (auto intro!: keeps_intros)

definition read_clock :: "('w, 'q) BrokerEnv \<Rightarrow> time \<Rightarrow> bool" where
  "read_clock E t \<longleftrightarrow> (\<exists>w w'. run_state (b_now E) w = (t, w'))"

lemma refresh_status_effect:
  assumes "broker_world E v advs rsvs" "run_state (refresh_status E thr k) w = (r, w')"
  shows "case r of
      Inl _ \<Rightarrow> advs w' = advs w
    | Inr _ \<Rightarrow> \<exists>old new now w1 w2. advs w k = Some old \<and> advs w' = (advs w)(k \<mapsto> new) \<and> o_spec new = o_spec old \<and>
        run_state (b_now E) w1 = (now, w2) \<and>
        status_tells (b_Q E) (time_sub now (ca_Timestamp (o_spec old)) > staleness_threshold thr) new \<and>
        read_clock E (cas_LastUpdateTime (o_status new))"
proof -
  note adv = broker_worldD(2) [OF assms(1)]
  note now = quietD(4) [OF broker_world.quiet_advs [OF assms(1)]]
  obtain got w1 where g: "run_state (c_get (b_adv E) k) w = (got, w1)" by fastforce
  note s1 = kube_client.get_same [OF adv g]
  show ?thesis
  proof (cases got)
    case (Inl e)
    with g s1 assms(2) show ?thesis by (auto simp: refresh_status_def)
  next
    case (Inr old)
    with kube_client.get_found [OF adv, of k w old w1] g have old: "advs w k = Some old" "obj_key old = k" by auto
    obtain t w2 where t: "run_state (b_now E) w1 = (t, w2)" by fastforce
    define b where "b = (time_sub t (ca_Timestamp (o_spec old)) > staleness_threshold thr)"
    define a where "a = UpdateClusterScore (b_Q E) (fresh_status b old)"
    obtain c w3 where c: "run_state (updateConditions E a b) w2 = (c, w3)" by fastforce
    obtain n w4 where n: "run_state (b_now E) w3 = (n, w4)" by fastforce
    define x where "x = c\<lparr>o_status := (o_status c)\<lparr>cas_LastUpdateTime := n\<rparr>\<rparr>"
    obtain u w5 where u: "run_state (c_status_update (b_adv E) x) w4 = (u, w5)" by fastforce
    have tells: "status_tells (b_Q E) b c" "o_spec c = o_spec old" "o_meta c = o_meta old"
      using updateConditions_tells [OF broker_worldD(6) [OF assms(1)] _ _ c] by (auto simp: a_def)
    from g Inr t c n u assms(2) have r: "w' = w5" "r = (case u of Inl e \<Rightarrow> Inl (ErrApi e) | Inr _ \<Rightarrow> Inr None)"
      by (simp_all add: refresh_status_def b_since_def b_def a_def x_def Let_def)
    have same: "advs w4 = advs w"
      using s1 keepsD [OF now t] keepsD [OF keeps_updateConditions [OF now] c] keepsD [OF now n] by simp
    show ?thesis
    proof (cases u)
      case (Inl e)
      with r same kube_client.write_fail(3) [OF adv] u show ?thesis by auto
    next
      case new: (Inr new)
      with kube_client.status_ok [OF adv, of x w4 new w5] u same old tells(3)
      have eff: "advs w5 = (advs w)(k \<mapsto> new)" "o_spec new = o_spec old" "o_status new = o_status x"
        by (auto simp: x_def)
      have "isOvercommitted (b_Q E) new = isOvercommitted (b_Q E) c"
        unfolding isOvercommitted_def eff(2) tells(2) ..
      with eff(3) tells(1) have "status_tells (b_Q E) b new"
        by (simp add: status_tells_def x_def)
      moreover have "read_clock E (cas_LastUpdateTime (o_status new))"
        using n eff(3) by (auto simp: read_clock_def x_def)
      ultimately show ?thesis using r new eff old(1) t
        unfolding b_def r(2) new sum.case r(1)
        by (intro exI [of _ old] exI [of _ new] exI [of _ t] exI [of _ w1] exI [of _ w2]) simp
    qed
  qed
qed

lemma respec_available_keeps:
  assumes "broker_world E v advs rsvs"
  shows "keeps advs (respec_available E k)" "keeps rsvs (respec_available E k)"
proof -
  have "respec_available E k = State_Monad.bind (c_get (b_adv E) k) (\<lambda>got. ret (case got of Inl e \<Rightarrow> Inl (ErrApi e) | Inr _ \<Rightarrow> Inr None))"
    unfolding respec_available_def
    by (rule arg_cong [of _ _ "State_Monad.bind (c_get (b_adv E) k)"])
      (auto simp: fun_eq_iff quantity.cmp_zero [OF broker_worldD(1) [OF assms]] split: sum.split)
  then show "keeps advs (respec_available E k)" "keeps rsvs (respec_available E k)"
    using kube_client.get_keeps [OF broker_worldD(2) [OF assms]]
      client_keepsD(1) [OF broker_world.adv_keeps_rsvs [OF assms]]
    by (simp_all add: keeps_bind keeps_return)
qed

lemma refresh_status_keeps_rsvs:
  assumes "broker_world E v advs rsvs"
  shows "keeps rsvs (refresh_status E thr k)"
  using broker_world.adv_keeps_rsvs [OF assms] quietD(4) [OF broker_world.quiet_rsvs [OF assms]]
  unfolding refresh_status_def Let_def by (auto intro!: keeps_intros keeps_updateConditions)

lemma status_refreshed:
  assumes "broker_world E v advs rsvs" "run_state (Reconcile E thr k) w = (r, w')"
  shows "rsvs w' = rsvs w \<and>
    (advs w' = advs w \<and> (\<forall>d. r = Inr d \<longrightarrow> advs w k = None) \<or>
     (\<exists>old new now w1 w2. r = Inr (5 * go_minute) \<and> advs w k = Some old \<and> advs w' = (advs w)(k \<mapsto> new) \<and>
        o_spec new = o_spec old \<and> run_state (b_now E) w1 = (now, w2) \<and>
        status_tells (b_Q E) (time_sub now (ca_Timestamp (o_spec old)) > staleness_threshold thr) new \<and>
        read_clock E (cas_LastUpdateTime (o_status new))))"
proof -
  note adv = broker_worldD(2) [OF assms(1)] and retry = broker_worldD(4) [OF assms(1)]
  obtain got w1 where g: "run_state (c_get (b_adv E) k) w = (got, w1)" by fastforce
  have s1: "advs w1 = advs w" "rsvs w1 = rsvs w"
    using kube_client.get_same [OF adv g] keepsD [OF client_keepsD(1) [OF broker_world.adv_keeps_rsvs [OF assms(1)]] g]
    by simp_all
  show ?thesis
  proof (cases got)
    case (Inl e)
    have "advs w k = None" if "is_not_found (ErrApi e)"
      using that kube_client.get_missing [OF adv, of k w _ w1] g Inl by (cases e) auto
    with g Inl s1 assms(2) show ?thesis by (auto simp: Reconcile_def split: if_splits)
  next
    case (Inr x)
    obtain f w2 where f: "run_state (b_retry E (respec_available E k)) w1 = (f, w2)" by fastforce
    obtain u w3 where u: "run_state (b_retry E (refresh_status E thr k)) w2 = (u, w3)" by fastforce
    have r: "w' = w3" "r = (case u of Inl e \<Rightarrow> Inl e | Inr _ \<Rightarrow> Inr (5 * go_minute))"
      using assms(2) g Inr f u by (simp_all add: Reconcile_def)
    note rk = retry_on_conflict.retry_keeps [OF retry]
    have s2: "advs w2 = advs w" "rsvs w2 = rsvs w" "rsvs w3 = rsvs w"
      using keepsD [OF rk [OF respec_available_keeps(1) [OF assms(1)]] f] s1
        keepsD [OF rk [OF respec_available_keeps(2) [OF assms(1)]] f]
        keepsD [OF rk [OF refresh_status_keeps_rsvs [OF assms(1)]] u] by simp_all
    obtain w20 where "advs w20 = advs w2" "run_state (refresh_status E thr k) w20 = (u, w3)"
      using refresh_status_effect [OF assms(1)]
      by (rule_tac retry_on_conflict.retry_last_run [OF retry _ u, of advs]) (fastforce split: sum.splits)+
    with refresh_status_effect [OF assms(1) this(2)] s2 r show ?thesis
      by (cases u) auto
  qed
qed

section \<open>Properties\<close>

text \<open>
  C33. A reconciliation of an advertisement changes nothing of the accounting: no reservation, no
  spec and no other advertisement. When it answers without an error and the advertisement exists,
  the stored status says active exactly when the age of the report, by a reading of the clock, is
  at most the threshold (two minutes when none is configured), and phase and conditions say the same.
\<close>

theorem advertisement_status_fresh:
  assumes "broker_world E v advs rsvs" "run_state (Reconcile E thr k) w = (r, w')"
  shows "rsvs w' = rsvs w \<and>
    (advs w' = advs w \<and> (\<forall>d. r = Inr d \<longrightarrow> advs w k = None) \<or>
     (\<exists>old new now w1 w2. r = Inr (5 * go_minute) \<and> advs w k = Some old \<and> advs w' = (advs w)(k \<mapsto> new) \<and>
        o_spec new = o_spec old \<and> run_state (b_now E) w1 = (now, w2) \<and>
        status_tells (b_Q E) (time_sub now (ca_Timestamp (o_spec old)) > staleness_threshold thr) new))"
  using status_refreshed [OF assms] by blast

theorem advertisement_status_witness:
  "\<exists>r w'. run_state (Reconcile mem_env 0 (''default'', ''b-adv'')) (empty_world\<lparr>mw_advs := [sample_adv ''b'' 6 48]\<rparr>) = (r, w') \<and>
    mem_rsvs w' = mem_rsvs (empty_world\<lparr>mw_advs := [sample_adv ''b'' 6 48]\<rparr>)"
proof -
  obtain r w' where run: "run_state (Reconcile mem_env 0 (''default'', ''b-adv'')) (empty_world\<lparr>mw_advs := [sample_adv ''b'' 6 48]\<rparr>) = (r, w')"
    by fastforce
  from advertisement_status_fresh [OF mem.broker_world_axioms run] run show ?thesis by auto
qed

end
