(* ===== verification/ReservationController.thy ===== *)
theory ReservationController
  imports ReservationHandler
begin

text \<open>
  The reservation controller (resource-broker/internal/controller/reservation_controller.go): one
  \<open>Reconcile\<close> of a reservation, which validates it, chooses and locks a cluster while it is new or
  pending, promotes or expires it while it is reserved or active, and releases its amounts when it
  leaves the reserved phase or is deleted. The answer is the error, or the requeue delay (0: none);
  \<open>None\<close> is a panic.
\<close>

type_synonym result = "go_error + duration"

section \<open>Helpers\<close>

fun is_target_not_found :: "go_error \<Rightarrow> bool" where
  "is_target_not_found (ErrTargetClusterNotFound _) = True"
| "is_target_not_found (ErrWrap _ e) = is_target_not_found e"
| "is_target_not_found _ = False"

fun is_insufficient :: "go_error \<Rightarrow> bool" where
  "is_insufficient ErrInsufficientResources = True"
| "is_insufficient (ErrWrap _ e) = is_insufficient e"
| "is_insufficient _ = False"

definition reservationHasCondition :: "'q Reservation \<Rightarrow> string \<Rightarrow> bool" where
  "reservationHasCondition r conditionType \<longleftrightarrow>
     list_ex (\<lambda>cond. cn_Type cond = conditionType \<and> cn_Status cond = ConditionTrue) (rst_Conditions (o_status r))"

definition validateReservationSpec :: "'q QuantityOps \<Rightarrow> 'q Reservation \<Rightarrow> string option" where
  "validateReservationSpec Q r =
     (if rs_RequesterID (o_spec r) = '''' then Some ''spec.requesterID must be set''
      else if q_Sign Q (rsv_cpu r) \<le> 0 then Some ''requested CPU must be greater than zero''
      else if q_Sign Q (rsv_memory r) \<le> 0 then Some ''requested memory must be greater than zero''
      else None)"

definition findClusterByID ::
  "('w, 'q) BrokerEnv \<Rightarrow> string \<Rightarrow> ('w, go_error + 'q ClusterAdvertisement) state" where
  "findClusterByID E clusterID = do {
     listed \<leftarrow> c_list (b_adv E);
     case listed of
       Inl e \<Rightarrow> ret (Inl (ErrApi e))
     | Inr items \<Rightarrow>
         (case List.find (\<lambda>item. adv_id item = clusterID) items of
            None \<Rightarrow> ret (Inl (ErrTargetClusterNotFound clusterID))
          | Some item \<Rightarrow> do {
              got \<leftarrow> c_get (b_adv E) (obj_key item);
              ret (case got of
                  Inl e \<Rightarrow> Inl (if is_not_found (ErrApi e) then ErrTargetClusterNotFound clusterID else ErrApi e)
                | Inr cluster \<Rightarrow> Inr cluster)
            })
   }"

text \<open>Writing a new status of the reservation the controller holds.\<close>

definition write_status ::
  "('w, 'q) BrokerEnv \<Rightarrow> 'q Reservation \<Rightarrow> (time \<Rightarrow> ReservationStatus) \<Rightarrow> duration \<Rightarrow> ('w, result) state" where
  "write_status E r f requeueAfter = do {
     now \<leftarrow> b_now E;
     written \<leftarrow> c_status_update (b_rsv E) (r\<lparr>o_status := f now\<rparr>);
     ret (case written of Inl e \<Rightarrow> Inl (ErrApi e) | Inr _ \<Rightarrow> Inr requeueAfter)
   }"

definition phase_status :: "'q Reservation \<Rightarrow> ReservationPhase \<Rightarrow> string \<Rightarrow> time \<Rightarrow> ReservationStatus" where
  "phase_status r phase message now =
     (o_status r)\<lparr>rst_Phase := phase, rst_Message := message, rst_LastUpdateTime := now\<rparr>"

definition quoted :: "string \<Rightarrow> string" where
  "quoted s = [CHR 0x27] @ s @ [CHR 0x27]"

section \<open>Locking\<close>

definition lock_target :: "('w, 'q) BrokerEnv \<Rightarrow> 'q Reservation \<Rightarrow> ('w, go_error + ReservationStatus option) state" where
  "lock_target E r = do {
     found \<leftarrow> findClusterByID E (rsv_target r);
     case found of
       Inl e \<Rightarrow> ret (Inl e)
     | Inr clusterAdv \<Rightarrow>
         if \<not> CanReserve (b_Q E) clusterAdv (rsv_cpu r) (rsv_memory r) then ret (Inl ErrInsufficientResources)
         else case AddReservation (b_Q E) clusterAdv (rsv_cpu r) (rsv_memory r) of
           Inl e \<Rightarrow> ret (Inl e)
         | Inr locked \<Rightarrow> do {
             u \<leftarrow> c_update (b_adv E) locked;
             ret (case u of Inl e \<Rightarrow> Inl (ErrApi e) | Inr _ \<Rightarrow> Inr None)
           }
   }"

definition amounts_text :: "'q QuantityOps \<Rightarrow> 'q Reservation \<Rightarrow> string" where
  "amounts_text Q r = q_String Q (rsv_cpu r) @ '' CPU, '' @ q_String Q (rsv_memory r) @ '' Memory. ''"

definition reserveInTargetCluster :: "('w, 'q) BrokerEnv \<Rightarrow> 'q Reservation \<Rightarrow> ('w, result) state" where
  "reserveInTargetCluster E r = do {
     lockErr \<leftarrow> b_retry E (lock_target E r);
     case lockErr of
       Inl e \<Rightarrow>
         if is_target_not_found e then
           write_status E r (phase_status r PhaseFailed (''Target cluster '' @ quoted (rsv_target r) @ '' not found. '' @
             ''The cluster may have been removed or is not registered with the broker.'')) 0
         else if is_insufficient e then
           write_status E r (phase_status r PhaseFailed (''Insufficient resources in cluster '' @ quoted (rsv_target r) @
             ''. Requested: '' @ amounts_text (b_Q E) r @
             ''The cluster may have insufficient available capacity or resources may have been allocated to other reservations.'')) 0
         else ret (Inl e)
     | Inr _ \<Rightarrow> write_status E r (\<lambda>now. reserved_status (rsv_target r) now r) go_minute
   }"

definition handlePendingReservation ::
  "('w, 'q) BrokerEnv \<Rightarrow> DecisionEngine \<Rightarrow> 'q Reservation \<Rightarrow> ('w, result option) state" where
  "handlePendingReservation E D r =
     (if rsv_target r \<noteq> '''' then State_Monad.bind (reserveInTargetCluster E r) (\<lambda>x. ret (Some x))
      else do {
        requesterAdv \<leftarrow> findClusterByID E (rs_RequesterID (o_spec r));
        ranked \<leftarrow> RankClusters E D
          \<lparr>rk_requesterID = rs_RequesterID (o_spec r), rk_cpu = rsv_cpu r, rk_memory = rsv_memory r,
           rk_gpu = rr_GPU (rs_RequestedResources (o_spec r)), rk_priority = rs_Priority (o_spec r),
           rk_maxResults = 1,
           rk_policy = (case requesterAdv of Inl _ \<Rightarrow> '''' | Inr a \<Rightarrow> ca_Policy (o_spec a))\<rparr>;
        case ranked of
          None \<Rightarrow> ret None
        | Some (Inr (best # _)) \<Rightarrow> do {
            updated \<leftarrow> c_update (b_rsv E) (r\<lparr>o_spec := (o_spec r)\<lparr>rs_TargetClusterID := adv_id (rk_Cluster best)\<rparr>\<rparr>);
            case updated of
              Inl e \<Rightarrow> ret (Some (Inl (ErrApi e)))
            | Inr r' \<Rightarrow> State_Monad.bind (reserveInTargetCluster E r') (\<lambda>x. ret (Some x))
          }
        | Some _ \<Rightarrow> State_Monad.bind
            (write_status E r (phase_status r PhaseFailed (''No suitable cluster found. Requested: '' @ amounts_text (b_Q E) r @
               ''Ensure clusters are registered, active, and have sufficient available resources.'')) 0)
            (\<lambda>x. ret (Some x))
      })"

section \<open>Releasing\<close>

definition releaseResources :: "('w, 'q) BrokerEnv \<Rightarrow> 'q Reservation \<Rightarrow> ('w, go_error + unit) state" where
  "releaseResources E r =
     (if rsv_phase r \<noteq> PhaseReserved then ret (Inr ())
      else do {
        listed \<leftarrow> c_list (b_adv E);
        case listed of
          Inl e \<Rightarrow> ret (Inl (ErrApi e))
        | Inr items \<Rightarrow>
            (case List.find (\<lambda>item. adv_id item = rsv_target r) items of
               None \<Rightarrow> ret (Inr ())
             | Some targetCluster \<Rightarrow>
                 (case RemoveReservation (b_Q E) targetCluster (rsv_cpu r) (rsv_memory r) of
                    Inl e \<Rightarrow> ret (Inl (ErrWrap ''failed to remove reservation'' e))
                  | Inr released \<Rightarrow> do {
                      u \<leftarrow> c_update (b_adv E) released;
                      ret (case u of
                          Inl e \<Rightarrow> Inl (ErrWrap ''failed to update cluster after releasing resources'' (ErrApi e))
                        | Inr _ \<Rightarrow> Inr ())
                    }))
      })"

definition release_then ::
  "('w, 'q) BrokerEnv \<Rightarrow> 'q Reservation \<Rightarrow> ReservationPhase \<Rightarrow> string \<Rightarrow> duration \<Rightarrow> ('w, result) state" where
  "release_then E r phase message requeueAfter = do {
     released \<leftarrow> releaseResources E r;
     case released of
       Inl e \<Rightarrow> ret (Inl e)
     | Inr _ \<Rightarrow> write_status E r (phase_status r phase message) requeueAfter
   }"

definition expired :: "('w, 'q) BrokerEnv \<Rightarrow> 'q Reservation \<Rightarrow> ('w, bool) state" where
  "expired E r =
     (case rst_ExpiresAt (o_status r) of
        None \<Rightarrow> ret False
      | Some t \<Rightarrow> do { now \<leftarrow> b_now E; ret (t < now) })"

definition handleReservedReservation :: "('w, 'q) BrokerEnv \<Rightarrow> 'q Reservation \<Rightarrow> ('w, result) state" where
  "handleReservedReservation E r =
     (if reservationHasCondition r ReservationConditionRequesterActive
      then release_then E r PhaseActive ''Requester confirmed activation'' go_minute
      else do {
        e \<leftarrow> expired E r;
        if e then release_then E r PhaseReleased ''Reservation expired and resources released'' 0
        else ret (Inr go_minute)
      })"

definition handleActiveReservation :: "('w, 'q) BrokerEnv \<Rightarrow> 'q Reservation \<Rightarrow> ('w, result) state" where
  "handleActiveReservation E r =
     (if reservationHasCondition r ReservationConditionRequesterReleased
      then release_then E r PhaseReleased ''Requester released reservation'' 0
      else do {
        e \<leftarrow> expired E r;
        if e then release_then E r PhaseReleased ''Reservation expired and released'' 0
        else ret (Inr go_minute)
      })"

section \<open>Reconcile\<close>

definition reconcile_deleted :: "('w, 'q) BrokerEnv \<Rightarrow> 'q Reservation \<Rightarrow> ('w, result) state" where
  "reconcile_deleted E r =
     (if ReservationFinalizer \<in> set (m_Finalizers (o_meta r)) then do {
        released \<leftarrow> releaseResources E r;
        case released of
          Inl e \<Rightarrow> ret (Inl e)
        | Inr _ \<Rightarrow> do {
            u \<leftarrow> c_update (b_rsv E) (remove_finalizer ReservationFinalizer r);
            ret (case u of Inl e \<Rightarrow> Inl (ErrApi e) | Inr _ \<Rightarrow> Inr 0)
          }
      }
      else ret (Inr 0))"

definition reconcile_phase ::
  "('w, 'q) BrokerEnv \<Rightarrow> DecisionEngine \<Rightarrow> 'q Reservation \<Rightarrow> ('w, result option) state" where
  "reconcile_phase E D r =
     (case validateReservationSpec (b_Q E) r of
        Some err \<Rightarrow> State_Monad.bind
          (write_status E r (phase_status r PhaseFailed (''Invalid reservation specification: '' @ err @ ''. '' @
             ''Please check that requesterID is set and requested resources are positive values.'')) 0)
          (\<lambda>x. ret (Some x))
      | None \<Rightarrow>
          (case rsv_phase r of
             PhaseUnset \<Rightarrow> handlePendingReservation E D r
           | PhasePending \<Rightarrow> handlePendingReservation E D r
           | PhaseReserved \<Rightarrow> State_Monad.bind (handleReservedReservation E r) (\<lambda>x. ret (Some x))
           | PhaseActive \<Rightarrow> State_Monad.bind (handleActiveReservation E r) (\<lambda>x. ret (Some x))
           | _ \<Rightarrow> ret (Some (Inr 0))))"

definition Reconcile :: "('w, 'q) BrokerEnv \<Rightarrow> DecisionEngine \<Rightarrow> key \<Rightarrow> ('w, result option) state" where
  "Reconcile E D k = do {
     got \<leftarrow> c_get (b_rsv E) k;
     case got of
       Inl e \<Rightarrow> ret (Some (if is_not_found (ErrApi e) then Inr 0 else Inl (ErrApi e)))
     | Inr r \<Rightarrow>
         if m_DeletionTimestamp (o_meta r) \<noteq> None
         then State_Monad.bind (reconcile_deleted E r) (\<lambda>x. ret (Some x))
         else if ReservationFinalizer \<in> set (m_Finalizers (o_meta r)) then reconcile_phase E D r
         else do {
           u \<leftarrow> c_update (b_rsv E) (add_finalizer ReservationFinalizer r);
           case u of
             Inl e \<Rightarrow> ret (Some (Inl (ErrApi e)))
           | Inr r' \<Rightarrow> reconcile_phase E D r'
         }
   }"

section \<open>Effects\<close>

text \<open>One lock, one release, of the advertisement of one cluster.\<close>

definition locked_one ::
  "'q QuantityOps \<Rightarrow> 'q Reservation \<Rightarrow> ('q ClusterAdvertisementSpec, ClusterAdvertisementStatus) store \<Rightarrow>
   ('q ClusterAdvertisementSpec, ClusterAdvertisementStatus) store \<Rightarrow> bool" where
  "locked_one Q r S S' \<longleftrightarrow>
     (\<exists>k old locked new. S k = Some old \<and> adv_id old = rsv_target r \<and> CanReserve Q old (rsv_cpu r) (rsv_memory r) \<and>
        AddReservation Q old (rsv_cpu r) (rsv_memory r) = Inr locked \<and> S' = S(k \<mapsto> new) \<and>
        o_spec new = o_spec locked \<and> o_status new = o_status old)"

definition released_one ::
  "'q QuantityOps \<Rightarrow> 'q Reservation \<Rightarrow> ('q ClusterAdvertisementSpec, ClusterAdvertisementStatus) store \<Rightarrow>
   ('q ClusterAdvertisementSpec, ClusterAdvertisementStatus) store \<Rightarrow> bool" where
  "released_one Q r S S' \<longleftrightarrow>
     (if \<exists>a \<in> ran S. adv_id a = rsv_target r
      then \<exists>k old released new. S k = Some old \<and> adv_id old = rsv_target r \<and>
        RemoveReservation Q old (rsv_cpu r) (rsv_memory r) = Inr released \<and> S' = S(k \<mapsto> new) \<and>
        o_spec new = o_spec released \<and> o_status new = o_status old
      else S' = S)"

lemma locked_oneI:
  assumes "S k = Some old" "adv_id old = rsv_target r" "CanReserve Q old (rsv_cpu r) (rsv_memory r)"
    "AddReservation Q old (rsv_cpu r) (rsv_memory r) = Inr locked" "S' = S(k \<mapsto> new)"
    "o_spec new = o_spec locked" "o_status new = o_status old"
  shows "locked_one Q r S S'"
  unfolding locked_one_def using assms
  by (intro exI [of _ k] exI [of _ old] exI [of _ locked] exI [of _ new]) simp

lemma released_oneI:
  assumes "S k = Some old" "adv_id old = rsv_target r"
    "RemoveReservation Q old (rsv_cpu r) (rsv_memory r) = Inr released" "S' = S(k \<mapsto> new)"
    "o_spec new = o_spec released" "o_status new = o_status old"
  shows "released_one Q r S S'"
proof -
  have "\<exists>a \<in> ran S. adv_id a = rsv_target r"
    using assms(1,2) by (auto intro: ranI)
  then show ?thesis
    unfolding released_one_def using assms
    by (simp only: if_True) (intro exI [of _ k] exI [of _ old] exI [of _ released] exI [of _ new], simp)
qed

lemma update_store:
  assumes "kube_client C objs" "undeleted (objs w)" "objs w (obj_key y) = Some x" "run_state (c_update C y) w = (Inr z, w')"
  shows "objs w' = (objs w)(obj_key y \<mapsto> z) \<and> obj_key z = obj_key y \<and> o_spec z = o_spec y \<and> o_status z = o_status x"
  using kube_client.update_ok [OF assms(1,4)] assms(3) undeletedD [OF assms(2,3), of y] by auto

lemma keeps_findClusterByID: "client_keeps f (b_adv E) \<Longrightarrow> keeps f (findClusterByID E i)"
  unfolding findClusterByID_def by (auto intro!: keeps_intros)

lemma findClusterByID_effect:
  assumes "kube_client (b_adv E) advs" "run_state (findClusterByID E i) w = (r, w')"
  shows "advs w' = advs w" "r = Inr a \<Longrightarrow> advs w (obj_key a) = Some a \<and> adv_id a = i"
proof -
  obtain listed w1 where l: "run_state (c_list (b_adv E)) w = (listed, w1)" by fastforce
  have s1: "advs w1 = advs w" by (rule kube_client.list_same [OF assms(1) l])
  have "advs w' = advs w \<and> (r = Inr a \<longrightarrow> advs w (obj_key a) = Some a \<and> adv_id a = i)"
  proof (cases "\<exists>items item. listed = Inr items \<and> List.find (\<lambda>item. adv_id item = i) items = Some item")
    case False
    with assms(2) l s1 show ?thesis by (auto simp: findClusterByID_def split: sum.splits option.splits)
  next
    case True
    then obtain items item where f: "listed = Inr items" "List.find (\<lambda>item. adv_id item = i) items = Some item" by blast
    with kube_client.list_all [OF assms(1)] l find_SomeD [OF f(2)] have item: "item \<in> ran (advs w)" "adv_id item = i" by auto
    obtain got w2 where g: "run_state (c_get (b_adv E) (obj_key item)) w1 = (got, w2)" by fastforce
    with assms(2) l f have w': "w' = w2" and r: "r = (case got of
        Inl e \<Rightarrow> Inl (if is_not_found (ErrApi e) then ErrTargetClusterNotFound i else ErrApi e) | Inr cluster \<Rightarrow> Inr cluster)"
      by (simp_all add: findClusterByID_def)
    have "advs w2 = advs w" using kube_client.get_same [OF assms(1) g] s1 by simp
    moreover have "advs w (obj_key a) = Some a \<and> adv_id a = i" if "r = Inr a"
    proof -
      from that r have "got = Inr a" by (cases got) auto
      with kube_client.get_found [OF assms(1), of "obj_key item" w1 a w2] g s1 have "advs w (obj_key item) = Some a" "obj_key a = obj_key item" by auto
      with kube_client.list_key [OF assms(1) item(1)] item(2) show ?thesis by simp
    qed
    ultimately show ?thesis using w' by simp
  qed
  then show "advs w' = advs w" "r = Inr a \<Longrightarrow> advs w (obj_key a) = Some a \<and> adv_id a = i" by simp_all
qed

lemma lock_target_effect:
  assumes "broker_world E v advs rsvs" "run_state (lock_target E r) w = (x, w')"
  shows "case x of Inl _ \<Rightarrow> advs w' = advs w
    | Inr _ \<Rightarrow> undeleted (advs w) \<longrightarrow> locked_one (b_Q E) r (advs w) (advs w')"
proof -
  note adv = broker_worldD(2) [OF assms(1)]
  obtain found w1 where f: "run_state (findClusterByID E (rsv_target r)) w = (found, w1)" by fastforce
  note same = findClusterByID_effect [OF adv f]
  show ?thesis
  proof (cases "\<exists>a b. found = Inr a \<and> CanReserve (b_Q E) a (rsv_cpu r) (rsv_memory r) \<and>
      AddReservation (b_Q E) a (rsv_cpu r) (rsv_memory r) = Inr b")
    case False
    with f assms(2) same(1) show ?thesis
      by (auto simp: lock_target_def split: sum.splits if_splits)
  next
    case True
    then obtain a b where a: "found = Inr a" "CanReserve (b_Q E) a (rsv_cpu r) (rsv_memory r)"
      "AddReservation (b_Q E) a (rsv_cpu r) (rsv_memory r) = Inr b" by blast
    note a' = same(2) [OF a(1)] and led = same_but_ledgerD [OF AddReservation_frame [OF a(3)]]
    obtain u w2 where u: "run_state (c_update (b_adv E) b) w1 = (u, w2)" by fastforce
    with f a assms(2) have x: "w' = w2" "x = (case u of Inl e \<Rightarrow> Inl (ErrApi e) | Inr _ \<Rightarrow> Inr None)"
      by (simp_all add: lock_target_def)
    show ?thesis
    proof (cases u)
      case (Inl e)
      with x same(1) kube_client.write_fail(2) [OF adv] u show ?thesis by auto
    next
      case (Inr z)
      have "locked_one (b_Q E) r (advs w) (advs w2)" if "undeleted (advs w)"
        using update_store [OF adv, of w1 b a z w2] u same(1) that Inr a a' led
        by (intro locked_oneI [of _ "obj_key a" a _ _ b _ z]) simp_all
      with x Inr show ?thesis by simp
    qed
  qed
qed

lemma keeps_lock_target: "client_keeps f (b_adv E) \<Longrightarrow> keeps f (lock_target E r)"
  unfolding lock_target_def by (auto intro!: keeps_intros keeps_findClusterByID)

lemma retry_lock_effect:
  assumes "broker_world E v advs rsvs" "run_state (b_retry E (lock_target E r)) w = (x, w')" "undeleted (advs w)"
  shows "rsvs w' = rsvs w"
    "case x of Inl _ \<Rightarrow> advs w' = advs w | Inr _ \<Rightarrow> locked_one (b_Q E) r (advs w) (advs w')"
proof -
  note retry = broker_worldD(4) [OF assms(1)]
  show "rsvs w' = rsvs w"
    using retry_on_conflict.retry_keeps [OF retry keeps_lock_target [OF broker_world.adv_keeps_rsvs [OF assms(1)]]]
    by (rule keepsD [OF _ assms(2)])
  obtain w0 where "advs w0 = advs w" "run_state (lock_target E r) w0 = (x, w')"
    using lock_target_effect [OF assms(1)]
    by (rule_tac retry_on_conflict.retry_last_run [OF retry _ assms(2), of advs]) (fastforce split: sum.splits)+
  with lock_target_effect [OF assms(1) this(2)] assms(3)
  show "case x of Inl _ \<Rightarrow> advs w' = advs w | Inr _ \<Rightarrow> locked_one (b_Q E) r (advs w) (advs w')"
    by (simp split: sum.splits)
qed

lemma write_status_effect:
  assumes "broker_world E v advs rsvs" "run_state (write_status E r f d) w = (x, w')" "rsvs w (obj_key r) = Some r0"
  shows "advs w' = advs w"
    "case x of
       Inl _ \<Rightarrow> rsvs w' = rsvs w
     | Inr d' \<Rightarrow> \<exists>new now. rsvs w' = (rsvs w)(obj_key r \<mapsto> new) \<and> o_spec new = o_spec r0 \<and> o_status new = f now"
proof -
  note rsv = broker_worldD(3) [OF assms(1)]
  obtain now w1 where n: "run_state (b_now E) w = (now, w1)" by fastforce
  obtain u w2 where u: "run_state (c_status_update (b_rsv E) (r\<lparr>o_status := f now\<rparr>)) w1 = (u, w2)" by fastforce
  have x: "w' = w2" "x = (case u of Inl e \<Rightarrow> Inl (ErrApi e) | Inr _ \<Rightarrow> Inr d)"
    using assms(2) n u by (simp_all add: write_status_def)
  have r1: "rsvs w1 = rsvs w" "advs w1 = advs w"
    using keepsD [OF quietD(4) [OF broker_world.quiet_rsvs [OF assms(1)]] n]
      keepsD [OF quietD(4) [OF broker_world.quiet_advs [OF assms(1)]] n] by simp_all
  show "advs w' = advs w"
    using keepsD [OF client_keepsD(5) [OF broker_world.rsv_keeps_advs [OF assms(1)]] u] r1 x by simp
  show "case x of
       Inl _ \<Rightarrow> rsvs w' = rsvs w
     | Inr d' \<Rightarrow> \<exists>new now. rsvs w' = (rsvs w)(obj_key r \<mapsto> new) \<and> o_spec new = o_spec r0 \<and> o_status new = f now"
  proof (cases u)
    case (Inl e)
    with x r1 kube_client.write_fail(3) [OF rsv] u show ?thesis by auto
  next
    case (Inr z)
    with kube_client.status_ok [OF rsv, of "r\<lparr>o_status := f now\<rparr>" w1 z w2] u x r1 assms(3) show ?thesis by auto
  qed
qed

lemma release_writes:
  assumes "kube_client (b_adv E) advs" "undeleted (advs w)" "a \<in> ran (advs w)" "adv_id a = rsv_target r"
    "RemoveReservation (b_Q E) a (rsv_cpu r) (rsv_memory r) = Inr b" "run_state (c_update (b_adv E) b) w = (Inr z, w')"
  shows "released_one (b_Q E) r (advs w) (advs w')"
proof -
  have "advs w' = (advs w)(obj_key a \<mapsto> z)" "o_spec z = o_spec b" "o_status z = o_status a" "advs w (obj_key a) = Some a"
    using update_store [OF assms(1), of w b a z w'] assms(2,3,6) same_but_ledgerD [OF RemoveReservation_frame [OF assms(5)]]
      kube_client.list_key [OF assms(1,3)] by simp_all
  with assms(4,5) show ?thesis by (intro released_oneI [of _ "obj_key a" a _ _ b _ z])
qed

lemma releaseResources_effect:
  assumes "broker_world E v advs rsvs" "run_state (releaseResources E r) w = (x, w')"
  shows "rsvs w' = rsvs w"
    "case x of Inl _ \<Rightarrow> advs w' = advs w
     | Inr _ \<Rightarrow> if rsv_phase r = PhaseReserved
         then undeleted (advs w) \<longrightarrow> released_one (b_Q E) r (advs w) (advs w') else advs w' = advs w"
proof -
  note adv = broker_worldD(2) [OF assms(1)]
  have "keeps rsvs (releaseResources E r)"
    using broker_world.adv_keeps_rsvs [OF assms(1)]
    unfolding releaseResources_def by (auto intro!: keeps_intros)
  then show "rsvs w' = rsvs w" by (rule keepsD [OF _ assms(2)])
  obtain listed w1 where l: "run_state (c_list (b_adv E)) w = (listed, w1)" by fastforce
  have s1: "advs w1 = advs w" by (rule kube_client.list_same [OF adv l])
  consider (early) "rsv_phase r \<noteq> PhaseReserved \<or> (\<exists>e. listed = Inl e)"
    | (gone) items where "rsv_phase r = PhaseReserved" "listed = Inr items" "List.find (\<lambda>item. adv_id item = rsv_target r) items = None"
    | (found) items a where "rsv_phase r = PhaseReserved" "listed = Inr items"
        "List.find (\<lambda>item. adv_id item = rsv_target r) items = Some a"
    by (cases listed) fastforce+
  then show "case x of Inl _ \<Rightarrow> advs w' = advs w
     | Inr _ \<Rightarrow> if rsv_phase r = PhaseReserved
         then undeleted (advs w) \<longrightarrow> released_one (b_Q E) r (advs w) (advs w') else advs w' = advs w"
  proof cases
    case early
    with l s1 assms(2) show ?thesis by (auto simp: releaseResources_def split: if_splits)
  next
    case gone
    with kube_client.list_all [OF adv, of w items w1] l have "\<forall>a \<in> ran (advs w). adv_id a \<noteq> rsv_target r"
      by (auto simp: find_None)
    with gone l s1 assms(2) show ?thesis by (auto simp: releaseResources_def released_one_def)
  next
    case found
    with kube_client.list_all [OF adv, of w items w1] l find_SomeD [OF found(3)] have a: "a \<in> ran (advs w1)" "adv_id a = rsv_target r"
      using s1 by auto
    show ?thesis
    proof (cases "RemoveReservation (b_Q E) a (rsv_cpu r) (rsv_memory r)")
      case (Inl e)
      with found l s1 assms(2) show ?thesis by (auto simp: releaseResources_def)
    next
      case b: (Inr b)
      obtain u w2 where u: "run_state (c_update (b_adv E) b) w1 = (u, w2)" by fastforce
      with found l b assms(2) have x: "w' = w2"
        "x = (case u of Inl e \<Rightarrow> Inl (ErrWrap ''failed to update cluster after releasing resources'' (ErrApi e)) | Inr _ \<Rightarrow> Inr ())"
        by (simp_all add: releaseResources_def)
      with found(1) s1 u kube_client.write_fail(2) [OF adv] release_writes [OF adv _ a b] show ?thesis
        by (cases u) auto
    qed
  qed
qed

section \<open>One reconciliation as a step\<close>

text \<open>
  What one \<open>Reconcile\<close> may do to a valid reservation: \<open>x\<close> and \<open>y\<close> are the stored reservation before
  and after, \<open>S\<close> and \<open>S'\<close> the stored advertisements, the last argument whether it answers without an
  error. The two \<open>lost\<close> steps are a lock and a release after which the status was not written.
\<close>

inductive reconcile_step ::
  "'q QuantityOps \<Rightarrow> 'q Reservation \<Rightarrow> ('q ClusterAdvertisementSpec, ClusterAdvertisementStatus) store \<Rightarrow>
   'q Reservation \<Rightarrow> ('q ClusterAdvertisementSpec, ClusterAdvertisementStatus) store \<Rightarrow> bool \<Rightarrow> bool"
  for Q where
  stay: "o_status y = o_status x \<Longrightarrow> (rsv_phase x = PhaseReserved \<Longrightarrow> o_spec y = o_spec x) \<Longrightarrow>
    reconcile_step Q x S y S ok"
| fail: "rsv_phase x \<in> {PhaseUnset, PhasePending} \<Longrightarrow> rsv_phase y = PhaseFailed \<Longrightarrow> reconcile_step Q x S y S True"
| lock: "rsv_phase x \<in> {PhaseUnset, PhasePending} \<Longrightarrow> locked_one Q y S S' \<Longrightarrow> rsv_phase y = PhaseReserved \<Longrightarrow>
    reconcile_step Q x S y S' True"
| lock_lost: "rsv_phase x \<in> {PhaseUnset, PhasePending} \<Longrightarrow> locked_one Q y S S' \<Longrightarrow> o_status y = o_status x \<Longrightarrow>
    reconcile_step Q x S y S' False"
| leave: "rsv_phase x = PhaseReserved \<Longrightarrow> released_one Q x S S' \<Longrightarrow> rsv_phase y \<in> {PhaseActive, PhaseReleased} \<Longrightarrow>
    reconcile_step Q x S y S' True"
| leave_lost: "rsv_phase x = PhaseReserved \<Longrightarrow> released_one Q x S S' \<Longrightarrow> o_status y = o_status x \<Longrightarrow>
    o_spec y = o_spec x \<Longrightarrow> reconcile_step Q x S y S' False"
| finish: "rsv_phase x = PhaseActive \<Longrightarrow> rsv_phase y = PhaseReleased \<Longrightarrow> reconcile_step Q x S y S True"

inductive_cases step_from: "reconcile_step Q x S y S' ok"

text \<open>Two reservations with the same request: all of the spec but the chosen provider.\<close>

definition same_request :: "'q Reservation \<Rightarrow> 'q Reservation \<Rightarrow> bool" where
  "same_request x y \<longleftrightarrow> (\<exists>t. o_spec y = (o_spec x)\<lparr>rs_TargetClusterID := t\<rparr> \<and> (rsv_target x = '''' \<or> t = rsv_target x))"

lemma same_request_refl [simp]: "same_request x x"
  unfolding same_request_def by (rule exI [of _ "rsv_target x"]) simp

lemma same_request_spec: "o_spec y = o_spec x \<Longrightarrow> same_request x y"
  unfolding same_request_def by (rule exI [of _ "rsv_target x"]) simp

lemma same_requestD:
  assumes "same_request x y"
  shows "rsv_cpu y = rsv_cpu x" "rsv_memory y = rsv_memory x" "rs_RequesterID (o_spec y) = rs_RequesterID (o_spec x)"
  using assms by (auto simp: same_request_def)

lemma locked_one_cong:
  "o_spec y = o_spec x \<Longrightarrow> locked_one Q y S S' = locked_one Q x S S'"
  by (simp add: locked_one_def)

lemma released_one_cong: "o_spec y = o_spec x \<Longrightarrow> released_one Q y S S' = released_one Q x S S'"
  by (simp add: released_one_def)

lemma step_same_status:
  assumes "reconcile_step Q x S y S' ok" "o_status x' = o_status x" "o_spec x' = o_spec x \<or> rsv_phase x \<noteq> PhaseReserved"
  shows "reconcile_step Q x' S y S' ok"
  using assms released_one_cong [of x' x]
  by (cases rule: reconcile_step.cases) (auto intro: reconcile_step.intros)

text \<open>The effect of a part of \<open>Reconcile\<close> on the stored reservation \<open>x\<close> it works on.\<close>

definition steps_to ::
  "'q QuantityOps \<Rightarrow> 'q Reservation \<Rightarrow>
   ('q ClusterAdvertisementSpec, ClusterAdvertisementStatus) store \<times> ('q ReservationSpec, ReservationStatus) store \<Rightarrow>
   ('q ClusterAdvertisementSpec, ClusterAdvertisementStatus) store \<times> ('q ReservationSpec, ReservationStatus) store \<Rightarrow>
   result \<Rightarrow> bool" where
  "steps_to Q x before after res \<longleftrightarrow>
     (\<exists>y. snd after = (snd before)(obj_key x \<mapsto> y) \<and> same_request x y \<and>
        reconcile_step Q x (fst before) y (fst after) (\<exists>d. res = Inr d))"

lemma steps_to_stay:
  assumes "R (obj_key x) = Some x"
  shows "steps_to Q x (S, R) (S, R) res"
proof -
  have "R = R(obj_key x \<mapsto> x)" using assms by (simp add: fun_upd_idem)
  then show ?thesis
    unfolding steps_to_def fst_conv snd_conv
    by (intro exI [of _ x] conjI) (simp_all add: reconcile_step.stay)
qed

lemma steps_to_ok:
  assumes "R' = R(obj_key x \<mapsto> y)" "o_spec y = o_spec x" "reconcile_step Q x S y S' True"
  shows "steps_to Q x (S, R) (S', R') (Inr d)"
  unfolding steps_to_def using assms by (intro exI [of _ y]) (simp add: same_request_spec)

lemma steps_to_lost:
  assumes "R (obj_key x) = Some x" "reconcile_step Q x S x S' False"
  shows "steps_to Q x (S, R) (S', R) (Inl e)"
  unfolding steps_to_def using assms by (intro exI [of _ x]) (simp add: fun_upd_idem)

lemma phase_status_simps [simp]:
  "rst_Phase (phase_status r p m now) = p" "rst_Phase (reserved_status t now r) = PhaseReserved"
  by (simp_all add: phase_status_def reserved_status_def Let_def split: option.split)

text \<open>What a step moved, and then its write of the status, which may be lost.\<close>

lemma written_steps:
  assumes "broker_world E v advs rsvs" "run_state (write_status E r f d) w1 = (x, w')" "rsvs w1 = rsvs w"
    "rsvs w (obj_key r) = Some r"
    and lost: "reconcile_step Q r (advs w) r (advs w1) False"
    and written: "\<And>y now. o_spec y = o_spec r \<Longrightarrow> o_status y = f now \<Longrightarrow> reconcile_step Q r (advs w) y (advs w1) True"
  shows "steps_to Q r (advs w, rsvs w) (advs w', rsvs w') x"
proof -
  note wr = write_status_effect [OF assms(1,2), of r]
  show ?thesis
  proof (cases x)
    case (Inl e)
    with wr assms(3,4) lost show ?thesis by (simp add: steps_to_lost)
  next
    case (Inr d')
    with wr(2) assms(3,4) obtain y now where y: "rsvs w' = (rsvs w)(obj_key r \<mapsto> y)" "o_spec y = o_spec r" "o_status y = f now"
      by auto
    from written [OF y(2,3)] wr(1) assms(3,4) Inr show ?thesis by (simp add: steps_to_ok [OF y(1,2)])
  qed
qed

lemma failed_steps:
  assumes "broker_world E v advs rsvs" "run_state (write_status E r (phase_status r PhaseFailed msg) d) w1 = (x, w')"
    "rsvs w1 = rsvs w" "advs w1 = advs w" "rsvs w (obj_key r) = Some r" "rsv_phase r \<in> {PhaseUnset, PhasePending}"
  shows "steps_to Q r (advs w, rsvs w) (advs w', rsvs w') x"
  by (rule written_steps [OF assms(1,2,3,5)]) (use assms(4,6) in \<open>auto intro: reconcile_step.stay reconcile_step.fail\<close>)

lemma reserve_steps:
  assumes "broker_world E v advs rsvs" "undeleted (advs w)" "rsvs w (obj_key r) = Some r"
    "rsv_phase r \<in> {PhaseUnset, PhasePending}" "run_state (reserveInTargetCluster E r) w = (x, w')"
  shows "steps_to (b_Q E) r (advs w, rsvs w) (advs w', rsvs w') x"
proof -
  obtain lk w1 where l: "run_state (b_retry E (lock_target E r)) w = (lk, w1)" by fastforce
  note eff = retry_lock_effect [OF assms(1) l assms(2)]
  show ?thesis
  proof (cases lk)
    case (Inl e)
    with eff(2) have same: "advs w1 = advs w" by simp
    show ?thesis
    proof (cases "is_target_not_found e \<or> is_insufficient e")
      case False
      with assms(5) l Inl have "w' = w1" by (auto simp: reserveInTargetCluster_def)
      with same eff(1) steps_to_stay [of "rsvs w" r, OF assms(3)] show ?thesis by simp
    next
      case True
      with assms(5) l Inl obtain msg where "run_state (write_status E r (phase_status r PhaseFailed msg) 0) w1 = (x, w')"
        by (auto simp: reserveInTargetCluster_def split: if_splits)
      from failed_steps [OF assms(1) this eff(1) same assms(3,4)] show ?thesis .
    qed
  next
    case (Inr s)
    with eff(2) have locked: "locked_one (b_Q E) r (advs w) (advs w1)" by simp
    from assms(5) l Inr have "run_state (write_status E r (\<lambda>now. reserved_status (rsv_target r) now r) go_minute) w1 = (x, w')"
      by (simp add: reserveInTargetCluster_def)
    then show ?thesis
    proof (rule written_steps [OF assms(1) _ eff(1) assms(3)])
      show "reconcile_step (b_Q E) r (advs w) r (advs w1) False"
        by (rule reconcile_step.lock_lost [OF assms(4) locked]) simp
      show "reconcile_step (b_Q E) r (advs w) y (advs w1) True"
        if "o_spec y = o_spec r" "o_status y = reserved_status (rsv_target r) now r" for y now
        by (rule reconcile_step.lock [OF assms(4)]) (use that locked in \<open>simp_all add: locked_one_cong [OF that(1)]\<close>)
    qed
  qed
qed

lemma release_then_steps:
  assumes "broker_world E v advs rsvs" "undeleted (advs w)" "rsvs w (obj_key r) = Some r"
    "(rsv_phase r = PhaseReserved \<and> p \<in> {PhaseActive, PhaseReleased}) \<or> (rsv_phase r = PhaseActive \<and> p = PhaseReleased)"
    "run_state (release_then E r p msg d) w = (x, w')"
  shows "steps_to (b_Q E) r (advs w, rsvs w) (advs w', rsvs w') x"
proof -
  obtain rel w1 where l: "run_state (releaseResources E r) w = (rel, w1)" by fastforce
  note eff = releaseResources_effect [OF assms(1) l]
  show ?thesis
  proof (cases rel)
    case (Inl e)
    with assms(5) l eff assms(3) show ?thesis
      by (auto simp: release_then_def intro!: steps_to_stay)
  next
    case (Inr u)
    with assms(5) l have ws: "run_state (write_status E r (phase_status r p msg) d) w1 = (x, w')"
      by (simp add: release_then_def)
    show ?thesis
    proof (rule written_steps [OF assms(1) ws eff(1) assms(3)])
      show "reconcile_step (b_Q E) r (advs w) r (advs w1) False"
        using eff(2) Inr assms(2,4) by (auto intro: reconcile_step.leave_lost reconcile_step.stay)
      show "reconcile_step (b_Q E) r (advs w) y (advs w1) True" if "o_status y = phase_status r p msg now" for y now
      proof -
        have "rsv_phase y = p" using that by simp
        with eff(2) Inr assms(2,4) show ?thesis by (auto intro: reconcile_step.leave reconcile_step.finish)
      qed
    qed
  qed
qed

lemma same_request_trans:
  assumes "same_request x y" "same_request y z"
  shows "same_request x z"
proof -
  from assms obtain s t where st: "o_spec y = (o_spec x)\<lparr>rs_TargetClusterID := s\<rparr>" "rsv_target x = '''' \<or> s = rsv_target x"
    "o_spec z = (o_spec y)\<lparr>rs_TargetClusterID := t\<rparr>" "rsv_target y = '''' \<or> t = rsv_target y"
    unfolding same_request_def by blast
  then have "rsv_target x = '''' \<or> t = rsv_target x" by auto
  with st show ?thesis
    unfolding same_request_def by (intro exI [of _ t]) simp
qed

text \<open>A write of the reservation itself that keeps its status can come before the steps.\<close>

lemma steps_to_pre:
  assumes "steps_to Q x1 (S, R(obj_key x \<mapsto> x1)) (S', R') res" "obj_key x1 = obj_key x" "o_status x1 = o_status x"
    "same_request x x1" "o_spec x1 = o_spec x \<or> rsv_phase x \<noteq> PhaseReserved"
  shows "steps_to Q x (S, R) (S', R') res"
proof -
  from assms(1,2) obtain y where y: "R' = R(obj_key x \<mapsto> y)" "same_request x1 y"
    "reconcile_step Q x1 S y S' (\<exists>d. res = Inr d)"
    by (auto simp: steps_to_def)
  moreover have "reconcile_step Q x S y S' (\<exists>d. res = Inr d)"
    using step_same_status [OF y(3), of x] assms(3,5) by metis
  ultimately show ?thesis
    unfolding steps_to_def using same_request_trans [OF assms(4) y(2)] by (intro exI [of _ y]) simp
qed

lemma update_reservation:
  assumes "broker_world E v advs rsvs" "rsvs w (obj_key y) = Some x" "m_Finalizers (o_meta y) \<noteq> []"
    "run_state (c_update (b_rsv E) y) w = (r, w')"
  shows "advs w' = advs w"
    "case r of Inl _ \<Rightarrow> rsvs w' = rsvs w
     | Inr z \<Rightarrow> rsvs w' = (rsvs w)(obj_key y \<mapsto> z) \<and> obj_key z = obj_key y \<and> o_spec z = o_spec y \<and>
         o_status z = o_status x \<and> m_Finalizers (o_meta z) = m_Finalizers (o_meta y)"
proof -
  note rsv = broker_worldD(3) [OF assms(1)]
  show "advs w' = advs w"
    by (rule keepsD [OF client_keepsD(4) [OF broker_world.rsv_keeps_advs [OF assms(1)]] assms(4)])
  show "case r of Inl _ \<Rightarrow> rsvs w' = rsvs w
     | Inr z \<Rightarrow> rsvs w' = (rsvs w)(obj_key y \<mapsto> z) \<and> obj_key z = obj_key y \<and> o_spec z = o_spec y \<and>
         o_status z = o_status x \<and> m_Finalizers (o_meta z) = m_Finalizers (o_meta y)"
  proof (cases r)
    case (Inl e)
    with kube_client.write_fail(2) [OF rsv] assms(4) show ?thesis by auto
  next
    case (Inr z)
    with kube_client.update_ok [OF rsv, of y w z w'] kube_client.update_finalizers [OF rsv, of y w z w'] assms
    show ?thesis by (auto simp: finalized_def)
  qed
qed

lemma placed_steps:
  assumes "broker_world E v advs rsvs" "undeleted (advs w)" "rsvs w (obj_key r) = Some r" "rsv_phase r \<in> {PhaseUnset, PhasePending}"
    "m_Finalizers (o_meta r) \<noteq> []" "rsv_target r = ''''" "advs w2 = advs w" "rsvs w2 = rsvs w"
    "run_state (c_update (b_rsv E) (r\<lparr>o_spec := (o_spec r)\<lparr>rs_TargetClusterID := t\<rparr>\<rparr>)) w2 = (Inr z, w3)"
    "run_state (reserveInTargetCluster E z) w3 = (res, w4)"
  shows "steps_to (b_Q E) r (advs w, rsvs w) (advs w4, rsvs w4) res"
proof -
  let ?y = "r\<lparr>o_spec := (o_spec r)\<lparr>rs_TargetClusterID := t\<rparr>\<rparr>"
  have y: "obj_key ?y = obj_key r" "m_Finalizers (o_meta ?y) \<noteq> []" using assms(5) by simp_all
  note up = update_reservation [OF assms(1) _ y(2) assms(9), unfolded y(1), of r]
  from up(2) assms(3,8) have z: "rsvs w3 = (rsvs w)(obj_key r \<mapsto> z)" "obj_key z = obj_key r" "o_spec z = o_spec ?y"
    "o_status z = o_status r" by simp_all
  have "same_request r z"
    unfolding same_request_def z(3) by (rule exI [of _ t]) (simp add: assms(6))
  moreover have "steps_to (b_Q E) z (advs w, (rsvs w)(obj_key r \<mapsto> z)) (advs w4, rsvs w4) res"
    using reserve_steps [OF assms(1) _ _ _ assms(10)] assms(2-4,7,8) up(1) z by simp
  ultimately show ?thesis
    using z assms(4) by (auto intro!: steps_to_pre [of _ z])
qed

lemma pending_steps:
  assumes "broker_world E v advs rsvs" "undeleted (advs w)" "rsvs w (obj_key r) = Some r"
    "rsv_phase r \<in> {PhaseUnset, PhasePending}" "m_Finalizers (o_meta r) \<noteq> []"
    "run_state (handlePendingReservation E D r) w = (x, w')"
  shows "\<exists>res. x = Some res \<and> steps_to (b_Q E) r (advs w, rsvs w) (advs w', rsvs w') res"
proof (cases "rsv_target r = ''''")
  case False
  obtain res w1 where "run_state (reserveInTargetCluster E r) w = (res, w1)" by fastforce
  with reserve_steps [OF assms(1-4)] False assms(6) show ?thesis
    by (auto simp: handlePendingReservation_def)
next
  case True
  obtain found w1 where f: "run_state (findClusterByID E (rs_RequesterID (o_spec r))) w = (found, w1)" by fastforce
  obtain ranked w2 where rk: "run_state (RankClusters E D
      \<lparr>rk_requesterID = rs_RequesterID (o_spec r), rk_cpu = rsv_cpu r, rk_memory = rsv_memory r,
       rk_gpu = rr_GPU (rs_RequestedResources (o_spec r)), rk_priority = rs_Priority (o_spec r), rk_maxResults = 1,
       rk_policy = (case found of Inl _ \<Rightarrow> '''' | Inr a \<Rightarrow> ca_Policy (o_spec a))\<rparr>) w1 = (Some ranked, w2)"
    by (rule RankClusters_returns)
  have same: "advs w2 = advs w" "rsvs w2 = rsvs w"
    using findClusterByID_effect(1) [OF broker_worldD(2) [OF assms(1)] f] RankClusters_quiet [OF assms(1) rk]
      keepsD [OF keeps_findClusterByID [OF broker_world.adv_keeps_rsvs [OF assms(1)]] f] by simp_all
  show ?thesis
  proof (cases "\<exists>best rest. ranked = Inr (best # rest)")
    case False
    with assms(6) True f rk obtain msg res where "x = Some res"
      and ws: "run_state (write_status E r (phase_status r PhaseFailed msg) 0) w2 = (res, w')"
      unfolding handlePendingReservation_def by (auto split: sum.splits list.splits prod.splits)
    with failed_steps [OF assms(1) ws same(2,1) assms(3,4)] show ?thesis by simp
  next
    case found_one: True
    then obtain best rest where best: "ranked = Inr (best # rest)" by blast
    let ?y = "r\<lparr>o_spec := (o_spec r)\<lparr>rs_TargetClusterID := adv_id (rk_Cluster best)\<rparr>\<rparr>"
    obtain u w3 where u: "run_state (c_update (b_rsv E) ?y) w2 = (u, w3)" by fastforce
    show ?thesis
    proof (cases u)
      case (Inl e)
      with assms(6) True f rk best u have x: "x = Some (Inl (ErrApi e))" "w' = w3"
        unfolding handlePendingReservation_def by auto
      from update_reservation [OF assms(1) _ _ u, of r] Inl same assms(3,5) have "advs w' = advs w" "rsvs w' = rsvs w"
        using x by simp_all
      with x(1) steps_to_stay [of "rsvs w" r, OF assms(3)] show ?thesis by simp
    next
      case (Inr z)
      with assms(6) True f rk best u obtain res where "x = Some res" "run_state (reserveInTargetCluster E z) w3 = (res, w')"
        unfolding handlePendingReservation_def by (auto split: prod.splits)
      with placed_steps [OF assms(1-5) True same u [unfolded Inr]] show ?thesis by blast
    qed
  qed
qed

lemma expired_quiet:
  assumes "broker_world E v advs rsvs" "run_state (expired E r) w = (b, w')"
  shows "advs w' = advs w" "rsvs w' = rsvs w"
proof -
  have "quiet f E \<Longrightarrow> keeps f (expired E r)" for f :: "'a \<Rightarrow> 'c"
    unfolding expired_def by (auto intro!: keeps_intros)
  moreover have "keeps advs (expired E r)" "keeps rsvs (expired E r)"
    using broker_world.quiet_advs [OF assms(1)] broker_world.quiet_rsvs [OF assms(1)]
    unfolding expired_def by (auto intro!: keeps_intros)
  ultimately show "advs w' = advs w" "rsvs w' = rsvs w" using keepsD [OF _ assms(2)] by blast+
qed

lemma reserved_steps:
  assumes "broker_world E v advs rsvs" "undeleted (advs w)" "rsvs w (obj_key r) = Some r" "rsv_phase r = PhaseReserved"
    "run_state (handleReservedReservation E r) w = (x, w')"
  shows "steps_to (b_Q E) r (advs w, rsvs w) (advs w', rsvs w') x"
proof (cases "reservationHasCondition r ReservationConditionRequesterActive")
  case True
  with assms(5) release_then_steps [OF assms(1-3), of PhaseActive] assms(4) show ?thesis
    by (auto simp: handleReservedReservation_def)
next
  case False
  obtain e w1 where e: "run_state (expired E r) w = (e, w1)" by fastforce
  note same = expired_quiet [OF assms(1) e]
  show ?thesis
  proof (cases e)
    case True
    with assms(5) False e release_then_steps [OF assms(1), of w1 r PhaseReleased] assms(2-4) same show ?thesis
      by (auto simp: handleReservedReservation_def)
  next
    case no: False
    with assms(5) False e same steps_to_stay [of "rsvs w" r, OF assms(3)] show ?thesis
      by (auto simp: handleReservedReservation_def)
  qed
qed

lemma active_steps:
  assumes "broker_world E v advs rsvs" "undeleted (advs w)" "rsvs w (obj_key r) = Some r" "rsv_phase r = PhaseActive"
    "run_state (handleActiveReservation E r) w = (x, w')"
  shows "steps_to (b_Q E) r (advs w, rsvs w) (advs w', rsvs w') x"
proof (cases "reservationHasCondition r ReservationConditionRequesterReleased")
  case True
  with assms(5) release_then_steps [OF assms(1-3), of PhaseReleased] assms(4) show ?thesis
    by (auto simp: handleActiveReservation_def)
next
  case False
  obtain e w1 where e: "run_state (expired E r) w = (e, w1)" by fastforce
  note same = expired_quiet [OF assms(1) e]
  show ?thesis
  proof (cases e)
    case True
    with assms(5) False e release_then_steps [OF assms(1), of w1 r PhaseReleased] assms(2-4) same show ?thesis
      by (auto simp: handleActiveReservation_def)
  next
    case no: False
    with assms(5) False e same steps_to_stay [of "rsvs w" r, OF assms(3)] show ?thesis
      by (auto simp: handleActiveReservation_def)
  qed
qed

lemma phase_steps:
  assumes "broker_world E v advs rsvs" "undeleted (advs w)" "rsvs w (obj_key r) = Some r"
    "m_Finalizers (o_meta r) \<noteq> []" "validateReservationSpec (b_Q E) r = None"
    "run_state (reconcile_phase E D r) w = (x, w')"
  shows "\<exists>res. x = Some res \<and> steps_to (b_Q E) r (advs w, rsvs w) (advs w', rsvs w') res"
proof -
  have lift: "\<exists>res. x = Some res \<and> steps_to (b_Q E) r (advs w, rsvs w) (advs w', rsvs w') res"
    if "run_state (State_Monad.bind m (\<lambda>x. ret (Some x))) w = (x, w')"
      "\<And>res w1. run_state m w = (res, w1) \<Longrightarrow> steps_to (b_Q E) r (advs w, rsvs w) (advs w1, rsvs w1) res" for m
    using that by (cases "run_state m w") auto
  show ?thesis
  proof (cases "rsv_phase r")
    case PhaseReserved
    with assms(5,6) reserved_steps [OF assms(1-3)] show ?thesis
      by (auto simp: reconcile_phase_def intro!: lift)
  next
    case PhaseActive
    with assms(5,6) active_steps [OF assms(1-3)] show ?thesis
      by (auto simp: reconcile_phase_def intro!: lift)
  qed (use assms(5,6) pending_steps [OF assms(1-3) _ assms(4)] steps_to_stay [of "rsvs w" r, OF assms(3)]
      in \<open>auto simp: reconcile_phase_def\<close>)
qed

lemma add_finalizer_simps [simp]:
  "obj_key (add_finalizer f x) = obj_key x" "o_spec (add_finalizer f x) = o_spec x"
  "o_status (add_finalizer f x) = o_status x" "m_Finalizers (o_meta (add_finalizer f x)) \<noteq> []"
  by (auto simp: add_finalizer_def meta_key_def)

text \<open>The finalizer of a new reservation is written first; that is no step.\<close>

lemma finalizer_steps:
  assumes "broker_world E v advs rsvs" "undeleted (advs w)" "rsvs w (obj_key r) = Some r" "validateReservationSpec (b_Q E) r = None"
    "run_state (c_update (b_rsv E) (add_finalizer ReservationFinalizer r)) w = (Inr z, w1)"
    "run_state (reconcile_phase E D z) w1 = (x, w')"
  shows "\<exists>res. x = Some res \<and> steps_to (b_Q E) r (advs w, rsvs w) (advs w', rsvs w') res"
proof -
  from update_reservation [OF assms(1) _ _ assms(5), of r] assms(3)
  have z: "rsvs w1 = (rsvs w)(obj_key r \<mapsto> z)" "obj_key z = obj_key r" "o_spec z = o_spec r" "o_status z = o_status r"
    "m_Finalizers (o_meta z) \<noteq> []" "advs w1 = advs w" by simp_all
  have "validateReservationSpec (b_Q E) z = validateReservationSpec (b_Q E) r"
    using z(3) by (simp add: validateReservationSpec_def)
  note this [unfolded assms(4)]
  from phase_steps [OF assms(1) _ _ z(5) this assms(6)] z assms(2)
  obtain res where res: "x = Some res" "steps_to (b_Q E) z (advs w1, rsvs w1) (advs w', rsvs w') res"
    by auto
  have "steps_to (b_Q E) r (advs w, rsvs w) (advs w', rsvs w') res"
    by (rule steps_to_pre [of _ z]) (use res(2) z in \<open>simp_all add: same_request_spec\<close>)
  with res(1) show ?thesis by simp
qed

lemma Reconcile_steps:
  assumes "broker_world E v advs rsvs" "undeleted (advs w)" "rsvs w k = Some r"
    "m_DeletionTimestamp (o_meta r) = None" "validateReservationSpec (b_Q E) r = None"
    "run_state (Reconcile E D k) w = (x, w')"
  shows "\<exists>res. x = Some res \<and> steps_to (b_Q E) r (advs w, rsvs w) (advs w', rsvs w') res"
proof -
  note rsv = broker_worldD(3) [OF assms(1)]
  obtain got w1 where g: "run_state (c_get (b_rsv E) k) w = (got, w1)" by fastforce
  have same: "rsvs w1 = rsvs w" "advs w1 = advs w"
    using kube_client.get_same [OF rsv g]
      keepsD [OF client_keepsD(1) [OF broker_world.rsv_keeps_advs [OF assms(1)]] g] by simp_all
  have rk: "rsvs w (obj_key r) = Some r"
    using kube_client.list_key [OF rsv ranI] assms(3) by metis
  have stay: ?thesis if "x = Some res" "w' = w2" "rsvs w2 = rsvs w" "advs w2 = advs w" for res w2
    using that steps_to_stay [of "rsvs w" r, OF rk] by simp
  show ?thesis
  proof (cases got)
    case (Inl e)
    with assms(6) g same stay show ?thesis by (auto simp: Reconcile_def)
  next
    case (Inr r')
    with kube_client.get_found [OF rsv, of k w r' w1] g assms(3) have [simp]: "r' = r" "obj_key r = k" by auto
    show ?thesis
    proof (cases "ReservationFinalizer \<in> set (m_Finalizers (o_meta r))")
      case True
      with assms(4,6) g Inr have "run_state (reconcile_phase E D r) w1 = (x, w')" by (simp add: Reconcile_def)
      with phase_steps [OF assms(1) _ _ _ assms(5) this] same assms(2) rk True show ?thesis by fastforce
    next
      case False
      obtain u w2 where u: "run_state (c_update (b_rsv E) (add_finalizer ReservationFinalizer r)) w1 = (u, w2)" by fastforce
      show ?thesis
      proof (cases u)
        case (Inl e)
        with assms(4,6) g \<open>got = Inr r'\<close> False u have "x = Some (Inl (ErrApi e))" "w' = w2"
          by (simp_all add: Reconcile_def)
        with update_reservation [OF assms(1) _ _ u, of r] Inl same rk show ?thesis by (intro stay [of _ w2]) simp_all
      next
        case (Inr z)
        with assms(4,6) g \<open>got = Inr r'\<close> False u have "run_state (reconcile_phase E D z) w2 = (x, w')"
          by (simp add: Reconcile_def)
        with finalizer_steps [OF assms(1) _ _ assms(5) u [unfolded Inr]] same assms(2) rk show ?thesis by simp
      qed
    qed
  qed
qed

section \<open>The life cycle and the accounting\<close>

text \<open>
  Amounts \<open>d\<close> moved from Available to Reserved of the advertisement of cluster \<open>i\<close> (back, where \<open>d\<close> is
  negative), everything else about identity and amounts being equal.
\<close>

definition moved ::
  "('q \<Rightarrow> rat) \<Rightarrow> (res \<Rightarrow> rat) \<Rightarrow> string \<Rightarrow> ('q ClusterAdvertisementSpec, ClusterAdvertisementStatus) store \<Rightarrow>
   ('q ClusterAdvertisementSpec, ClusterAdvertisementStatus) store \<Rightarrow> bool" where
  "moved v d i S S' \<longleftrightarrow> dom S' = dom S \<and>
     (\<forall>k a b. S k = Some a \<longrightarrow> S' k = Some b \<longrightarrow> adv_id b = adv_id a \<and>
        (\<forall>r. held_of v b r = held_of v a r + (if adv_id a = i then d r else 0) \<and>
             free_of v b r = free_of v a r - (if adv_id a = i then d r else 0)))"

definition unique_ids :: "('q ClusterAdvertisementSpec, ClusterAdvertisementStatus) store \<Rightarrow> bool" where
  "unique_ids S \<longleftrightarrow> (\<forall>k l a b. S k = Some a \<longrightarrow> S l = Some b \<longrightarrow> adv_id a = adv_id b \<longrightarrow> k = l)"

definition demand :: "('q \<Rightarrow> rat) \<Rightarrow> 'q Reservation \<Rightarrow> res \<Rightarrow> rat" where
  "demand v r = demand_of v (rsv_cpu r, rsv_memory r)"

lemma moved_zero [simp]: "moved v (\<lambda>_. 0) i S S"
  by (simp add: moved_def)

lemma moved_zero_id: "moved v (\<lambda>_. 0) i S S' \<Longrightarrow> moved v (\<lambda>_. 0) j S S'"
  by (simp add: moved_def)

lemma movedD:
  assumes "moved v d i S S'" "S' k = Some b"
  obtains a where "S k = Some a" "adv_id b = adv_id a"
    "\<And>r. held_of v b r = held_of v a r + (if adv_id a = i then d r else 0)"
    "\<And>r. free_of v b r = free_of v a r - (if adv_id a = i then d r else 0)"
proof -
  have "dom S' = dom S" using assms(1) by (simp add: moved_def)
  then obtain a where "S k = Some a" using assms(2) by blast
  with that assms show ?thesis unfolding moved_def by blast
qed

lemma unique_idsD: "unique_ids S \<Longrightarrow> S k = Some a \<Longrightarrow> S l = Some b \<Longrightarrow> adv_id a = adv_id b \<Longrightarrow> k = l"
  unfolding unique_ids_def by blast

lemma moved_unique:
  assumes "moved v d i S S'" "unique_ids S"
  shows "unique_ids S'"
  unfolding unique_ids_def
proof (intro allI impI)
  fix k l a b
  assume kl: "S' k = Some a" "S' l = Some b" "adv_id a = adv_id b"
  obtain a' where "S k = Some a'" "adv_id a = adv_id a'" by (rule movedD [OF assms(1) kl(1)])
  moreover obtain b' where "S l = Some b'" "adv_id b = adv_id b'" by (rule movedD [OF assms(1) kl(2)])
  ultimately show "k = l" using unique_idsD [OF assms(2), of k a' l b'] kl(3) by simp
qed

lemma moved_trans:
  assumes "moved v d i S S'" "moved v e i S' S''"
  shows "moved v (\<lambda>r. d r + e r) i S S''"
  unfolding moved_def
proof (intro conjI allI impI)
  show "dom S'' = dom S" using assms by (simp add: moved_def)
  fix k a c
  assume k: "S k = Some a" "S'' k = Some c"
  obtain b where b: "S' k = Some b" "adv_id c = adv_id b"
    "\<And>r. held_of v c r = held_of v b r + (if adv_id b = i then e r else 0)"
    "\<And>r. free_of v c r = free_of v b r - (if adv_id b = i then e r else 0)"
    by (rule movedD [OF assms(2) k(2)]) blast
  obtain a' where a: "S k = Some a'" "adv_id b = adv_id a'"
    "\<And>r. held_of v b r = held_of v a' r + (if adv_id a' = i then d r else 0)"
    "\<And>r. free_of v b r = free_of v a' r - (if adv_id a' = i then d r else 0)"
    by (rule movedD [OF assms(1) b(1)]) blast
  have [simp]: "a' = a" using a(1) k(1) by simp
  show "adv_id c = adv_id a" using a b by simp
  show "held_of v c r = held_of v a r + (if adv_id a = i then d r + e r else 0)"
    "free_of v c r = free_of v a r - (if adv_id a = i then d r + e r else 0)" for r
    using a(2,3,4) b(2,3,4) by (simp_all del: held_of.simps free_of.simps)
qed

lemma moved_one:
  assumes "S k = Some old" "adv_id old = i" "unique_ids S" "adv_id new = adv_id old"
    "\<And>r. held_of v new r = held_of v old r + d r" "\<And>r. free_of v new r = free_of v old r - d r"
  shows "moved v d i S (S(k \<mapsto> new))"
  unfolding moved_def
proof (intro conjI allI impI)
  show "dom (S(k \<mapsto> new)) = dom S" using assms(1) by auto
  fix l a b
  assume l: "S l = Some a" "(S(k \<mapsto> new)) l = Some b"
  have other: "adv_id a \<noteq> i" if "l \<noteq> k"
    using assms(1,2,3) l(1) that unfolding unique_ids_def by blast
  show "adv_id b = adv_id a" using l assms(1,4) by (auto split: if_splits)
  show "held_of v b r = held_of v a r + (if adv_id a = i then d r else 0)"
    "free_of v b r = free_of v a r - (if adv_id a = i then d r else 0)" for r
    using l assms(1,2) assms(5,6) [of r] other
    by (cases "l = k"; simp del: held_of.simps free_of.simps)+
qed

lemma moved_absent: "\<not> (\<exists>a \<in> ran S. adv_id a = i) \<Longrightarrow> moved v d i S S"
  unfolding moved_def by (auto intro: ranI)

context quantity
begin

lemma locked_moved:
  assumes "locked_one Q r S S'" "unique_ids S"
  shows "moved v (demand v r) (rsv_target r) S S'"
proof -
  from assms(1) obtain k old locked new where l: "S k = Some old" "adv_id old = rsv_target r"
    "AddReservation Q old (rsv_cpu r) (rsv_memory r) = Inr locked" "S' = S(k \<mapsto> new)" "o_spec new = o_spec locked"
    by (auto simp: locked_one_def)
  have "held_of v new x = held_of v locked x" "free_of v new x = free_of v locked x" for x
    using l(5) by (cases x; simp)+
  moreover have "held_of v locked x = held_of v old x + demand v r x" "free_of v locked x = free_of v old x - demand v r x" for x
    using AddReservation_amounts [OF l(3)] by (cases x; simp add: demand_def del: held_of.simps free_of.simps)+
  moreover have "adv_id new = adv_id old"
    using same_but_ledgerD(3) [OF AddReservation_frame [OF l(3)]] l(5) by simp
  ultimately show ?thesis
    unfolding l(4) using l(1,2) assms(2) by (intro moved_one [of S k old]) simp_all
qed

lemma released_moved:
  assumes "released_one Q r S S'" "unique_ids S"
  shows "moved v (\<lambda>x. - demand v r x) (rsv_target r) S S'"
proof (cases "\<exists>a \<in> ran S. adv_id a = rsv_target r")
  case False
  with assms(1) show ?thesis by (simp add: released_one_def moved_absent)
next
  case True
  with assms(1) obtain k old released new where l: "S k = Some old" "adv_id old = rsv_target r"
    "RemoveReservation Q old (rsv_cpu r) (rsv_memory r) = Inr released" "S' = S(k \<mapsto> new)" "o_spec new = o_spec released"
    unfolding released_one_def by (simp only: if_True) blast
  have "held_of v new x = held_of v released x" "free_of v new x = free_of v released x" for x
    using l(5) by (cases x; simp)+
  moreover have "held_of v released x = held_of v old x - demand v r x" "free_of v released x = free_of v old x + demand v r x" for x
    using RemoveReservation_amounts [OF l(3)] by (cases x; simp add: demand_def del: held_of.simps free_of.simps)+
  moreover have "adv_id new = adv_id old"
    using same_but_ledgerD(3) [OF RemoveReservation_frame [OF l(3)]] l(5) by simp
  ultimately show ?thesis
    unfolding l(4) using l(1,2) assms(2) by (intro moved_one [of S k old]) simp_all
qed

end

text \<open>
  Runs in which the reservation stored under \<open>k\<close> is reconciled any number of times, each time answered
  without an error. Between two of them time passes and others may change the reservation (set a
  condition, upload a kubeconfig), but neither its spec nor its phase, and no advertisement.
\<close>

inductive reconciled ::
  "('w, 'q) BrokerEnv \<Rightarrow> DecisionEngine \<Rightarrow> ('w \<Rightarrow> ('q ClusterAdvertisementSpec, ClusterAdvertisementStatus) store) \<Rightarrow>
   ('w \<Rightarrow> ('q ReservationSpec, ReservationStatus) store) \<Rightarrow> key \<Rightarrow> 'w \<Rightarrow> 'w \<Rightarrow> bool"
  for E D advs rsvs k w where
  start: "reconciled E D advs rsvs k w w"
| reconcile: "reconciled E D advs rsvs k w w1 \<Longrightarrow> undeleted (advs w1) \<Longrightarrow> rsvs w1 k = Some y \<Longrightarrow>
    m_DeletionTimestamp (o_meta y) = None \<Longrightarrow> run_state (Reconcile E D k) w1 = (Some (Inr d), w2) \<Longrightarrow>
    reconciled E D advs rsvs k w w2"
| others: "reconciled E D advs rsvs k w w1 \<Longrightarrow> advs w2 = advs w1 \<Longrightarrow> rsvs w1 k = Some y \<Longrightarrow> rsvs w2 k = Some z \<Longrightarrow>
    o_spec z = o_spec y \<Longrightarrow> rsv_phase z = rsv_phase y \<Longrightarrow> reconciled E D advs rsvs k w w2"

lemma step_advances: "reconcile_step Q x S y S' True \<Longrightarrow> rsv_phase x \<le> rsv_phase y"
  by (erule step_from) (auto simp: less_eq_ReservationPhase_def)

text \<open>What a reservation holds of its provider since \<open>S\<close>, after one more step without an error.\<close>

abbreviation holding where
  "holding v y S S' \<equiv> moved v (\<lambda>r. if rsv_phase y = PhaseReserved then demand v y r else 0) (rsv_target y) S S'"

lemma step_moved:
  assumes "quantity Q v" "unique_ids S" "holding v y S S'" "reconcile_step Q y S' z S'' True"
  shows "holding v z S S''"
  using assms(4)
proof (cases rule: reconcile_step.cases)
  case lock
  have "moved v (\<lambda>_. 0) (rsv_target z) S S'" using assms(3) lock(1) by (auto intro: moved_zero_id)
  from moved_trans [OF this quantity.locked_moved [OF assms(1) lock(2) moved_unique [OF assms(3,2)]]] lock(3)
  show ?thesis by simp
next
  case stay
  then show ?thesis
    using assms(3) by (cases "rsv_phase y = PhaseReserved") (auto intro: moved_zero_id simp: demand_def)
next
  case *: leave
  have "moved v (\<lambda>r. demand v y r + - demand v y r) (rsv_target y) S S''"
    by (rule moved_trans [OF _ quantity.released_moved [OF assms(1) *(2) moved_unique [OF assms(3,2)]]])
      (use assms(3) *(1) in simp)
  then have "moved v (\<lambda>_. 0) (rsv_target y) S S''" by simp
  then show ?thesis using *(3) by (auto intro: moved_zero_id)
qed (use assms(3) in \<open>auto intro: moved_zero_id simp: demand_def\<close>)

lemma holding_cong:
  assumes "o_spec z = o_spec y" "rsv_phase z = rsv_phase y"
  shows "holding v z S S' = holding v y S S'"
proof -
  have "demand v z = demand v y" using assms(1) by (simp add: demand_def)
  with assms show ?thesis by (simp cong: if_cong)
qed

lemma answered_key:
  assumes "broker_world E v advs rsvs" "rsvs w k = Some y" "run_state (Reconcile E D k) w = (Some (Inr d), w')"
  shows "obj_key y = k"
proof -
  note rsv = broker_worldD(3) [OF assms(1)]
  obtain got w1 where g: "run_state (c_get (b_rsv E) k) w = (got, w1)" by fastforce
  show ?thesis
  proof (cases got)
    case (Inl e)
    with assms(3) g obtain s where "e = NotFound s" by (cases e) (auto simp: Reconcile_def)
    with kube_client.get_missing [OF rsv] g Inl assms(2) show ?thesis by fastforce
  next
    case (Inr r)
    with kube_client.get_found [OF rsv, of k w r w1] g assms(2) show ?thesis by simp
  qed
qed

lemma validate_same_request: "same_request x y \<Longrightarrow> validateReservationSpec Q y = validateReservationSpec Q x"
  by (simp add: validateReservationSpec_def same_requestD)

section \<open>Where the status cannot be written\<close>

text \<open>
  An API that fails every write of a reservation's status, while it answers what else \<open>Reconcile\<close>
  asks in phase Reserved: it reads what is stored, and takes an update of the current version.
\<close>

locale unwritable_status = broker_world E v advs rsvs
  for E :: "('w, 'q) BrokerEnv" and v :: "'q \<Rightarrow> rat"
    and advs :: "'w \<Rightarrow> ('q ClusterAdvertisementSpec, ClusterAdvertisementStatus) store"
    and rsvs :: "'w \<Rightarrow> ('q ReservationSpec, ReservationStatus) store" +
  assumes unwritten: "\<exists>e w'. run_state (c_status_update (b_rsv E) r) w = (Inl e, w')"
    and readable: "rsvs w k = Some x \<Longrightarrow> \<exists>w'. run_state (c_get (b_rsv E) k) w = (Inr x, w')"
    and listable: "\<exists>xs w'. run_state (c_list (b_adv E)) w = (Inr xs, w')"
    and updatable: "advs w (obj_key y) = Some old \<Longrightarrow>
      m_ResourceVersion (o_meta old) = m_ResourceVersion (o_meta y) \<Longrightarrow> m_DeletionTimestamp (o_meta y) = None \<Longrightarrow>
      \<exists>z w'. run_state (c_update (b_adv E) y) w = (Inr z, w') \<and> m_DeletionTimestamp (o_meta z) = None"

text \<open>A reservation in phase Reserved that the next reconciliation has leave it.\<close>

definition release_due :: "('w, 'q) BrokerEnv \<Rightarrow> 'q Reservation \<Rightarrow> bool" where
  "release_due E x \<longleftrightarrow> reservationHasCondition x ReservationConditionRequesterActive \<or>
     (\<exists>t. rst_ExpiresAt (o_status x) = Some t \<and> (\<forall>w. t < fst (run_state (b_now E) w)))"

text \<open>Its provider has one advertisement, with a record of what is reserved.\<close>

definition releasable ::
  "('q ClusterAdvertisementSpec, ClusterAdvertisementStatus) store \<Rightarrow> 'q Reservation \<Rightarrow> bool" where
  "releasable S x \<longleftrightarrow> undeleted S \<and> unique_ids S \<and> (\<exists>a \<in> ran S. adv_id a = rsv_target x) \<and>
     (\<forall>a \<in> ran S. adv_id a = rsv_target x \<longrightarrow> adv_reserved a \<noteq> None)"

lemma releasableI:
  assumes "undeleted S" "unique_ids S" "S l = Some a" "adv_id a = rsv_target x" "adv_reserved a \<noteq> None"
  shows "releasable S x"
  unfolding releasable_def
proof (intro conjI ballI impI assms(1,2))
  show "\<exists>a \<in> ran S. adv_id a = rsv_target x" using assms(3,4) by (auto intro: ranI)
  show "adv_reserved b \<noteq> None" if "b \<in> ran S" "adv_id b = rsv_target x" for b
  proof -
    from that(1) obtain k where "S k = Some b" by (auto simp: ran_def)
    moreover from unique_idsD [OF assms(2) this assms(3)] that(2) assms(4) have "k = l" by simp
    ultimately show ?thesis using assms(3,5) by simp
  qed
qed

fun reconciles :: "('w, 'q) BrokerEnv \<Rightarrow> DecisionEngine \<Rightarrow> key \<Rightarrow> nat \<Rightarrow> 'w \<Rightarrow> 'w" where
  "reconciles E D k 0 w = w"
| "reconciles E D k (Suc n) w = snd (run_state (Reconcile E D k) (reconciles E D k n w))"

context unwritable_status
begin

lemma release_succeeds:
  assumes "releasable (advs w) x" "rsv_phase x = PhaseReserved"
  shows "\<exists>w'. run_state (releaseResources E x) w = (Inr (), w') \<and> releasable (advs w') x"
proof -
  obtain items w1 where l: "run_state (c_list (b_adv E)) w = (Inr items, w1)" using listable by blast
  have s1: "advs w1 = advs w" by (rule adv_client.list_same [OF l])
  from assms(1) adv_client.list_all [OF l] have "\<not> (\<forall>a \<in> set items. adv_id a \<noteq> rsv_target x)"
    by (auto simp: releasable_def)
  then obtain a where f: "List.find (\<lambda>item. adv_id item = rsv_target x) items = Some a"
    by (cases "List.find (\<lambda>item. adv_id item = rsv_target x) items") (auto simp: find_None)
  from find_SomeD [OF f] adv_client.list_all [OF l] have a: "a \<in> ran (advs w)" "adv_id a = rsv_target x" by auto
  from assms(1) a have "adv_reserved a \<noteq> None" by (simp add: releasable_def)
  then obtain b where b: "RemoveReservation (b_Q E) a (rsv_cpu x) (rsv_memory x) = Inr b"
    by (auto simp: RemoveReservation_def)
  note same = same_but_ledgerD [OF RemoveReservation_frame [OF b]]
  have at: "advs w1 (obj_key b) = Some a" using adv_client.list_key [OF a(1)] s1 same(1) by simp
  have u1: "undeleted (advs w1)" using assms(1) s1 by (simp add: releasable_def)
  have "m_DeletionTimestamp (o_meta b) = None"
    using u1 [unfolded undeleted_def, rule_format, OF at] same(1) by simp
  with updatable [OF at] same(1) obtain z w2 where u: "run_state (c_update (b_adv E) b) w1 = (Inr z, w2)"
    "m_DeletionTimestamp (o_meta z) = None" by auto
  from update_store [OF adv_client.kube_client_axioms u1 at u(1)]
  have z: "advs w2 = (advs w)(obj_key b \<mapsto> z)" "o_spec z = o_spec b" using s1 by simp_all
  have run: "run_state (releaseResources E x) w = (Inr (), w2)"
    using assms(2) l f b u(1) by (simp add: releaseResources_def)
  moreover have "releasable (advs w2) x"
  proof -
    have "undeleted (advs w2)" using assms(1) u(2) z(1) by (auto simp: releasable_def undeleted_def)
    moreover have "unique_ids (advs w2)"
      using releaseResources_effect(2) [OF broker_world_axioms run] assms released_moved [of x "advs w" "advs w2"] moved_unique
      by (fastforce simp: releasable_def)
    moreover have "adv_reserved z \<noteq> None" "adv_id z = rsv_target x"
      using RemoveReservation_amounts(5) [OF b] z(2) same(3) a(2) by simp_all
    ultimately show ?thesis using z(1) by (intro releasableI [of _ "obj_key b" z]) simp_all
  qed
  ultimately show ?thesis using run by blast
qed

lemma release_unwritten:
  assumes "releasable (advs w) x" "rsv_phase x = PhaseReserved"
  shows "\<exists>e w'. run_state (release_then E x p msg d) w = (Inl e, w') \<and> rsvs w' = rsvs w \<and> releasable (advs w') x \<and>
    moved v (\<lambda>r. - demand v x r) (rsv_target x) (advs w) (advs w')"
proof -
  obtain w1 where rel: "run_state (releaseResources E x) w = (Inr (), w1)" "releasable (advs w1) x"
    using release_succeeds [OF assms] by blast
  from releaseResources_effect [OF broker_world_axioms rel(1)] assms have one: "rsvs w1 = rsvs w"
    "released_one (b_Q E) x (advs w) (advs w1)" by (simp_all add: releasable_def)
  obtain now w2 where n: "run_state (b_now E) w1 = (now, w2)" by fastforce
  obtain e w3 where u: "run_state (c_status_update (b_rsv E) (x\<lparr>o_status := phase_status x p msg now\<rparr>)) w2 = (Inl e, w3)"
    using unwritten by blast
  have same: "advs w3 = advs w1" "rsvs w3 = rsvs w1"
    using keepsD [OF quietD(4) [OF quiet_advs] n] keepsD [OF quietD(4) [OF quiet_rsvs] n]
      keepsD [OF client_keepsD(5) [OF rsv_keeps_advs] u] rsv_client.write_fail(3) [OF u] by simp_all
  have "run_state (release_then E x p msg d) w = (Inl (ErrApi e), w3)"
    using rel(1) n u by (simp add: release_then_def write_status_def)
  moreover have "unique_ids (advs w)" using assms(1) by (simp add: releasable_def)
  ultimately show ?thesis using one rel(2) same released_moved [OF one(2)] by auto
qed

lemma Reconcile_unwritten:
  assumes "rsvs w k = Some x" "rsv_phase x = PhaseReserved" "m_DeletionTimestamp (o_meta x) = None"
    "ReservationFinalizer \<in> set (m_Finalizers (o_meta x))" "validateReservationSpec (b_Q E) x = None" "release_due E x"
    "releasable (advs w) x"
  shows "\<exists>e w'. run_state (Reconcile E D k) w = (Some (Inl e), w') \<and> rsvs w' = rsvs w \<and> releasable (advs w') x \<and>
    moved v (\<lambda>r. - demand v x r) (rsv_target x) (advs w) (advs w')"
proof -
  obtain w1 where g: "run_state (c_get (b_rsv E) k) w = (Inr x, w1)" using readable [OF assms(1)] by blast
  have same: "rsvs w1 = rsvs w" "advs w1 = advs w"
    using rsv_client.get_same [OF g] keepsD [OF client_keepsD(1) [OF rsv_keeps_advs] g] by simp_all
  obtain e now where e: "run_state (expired E x) w1 = (e, now)" by fastforce
  note q = expired_quiet [OF broker_world_axioms e]
  have "\<exists>e w'. run_state (handleReservedReservation E x) w1 = (Inl e, w') \<and> rsvs w' = rsvs w1 \<and> releasable (advs w') x \<and>
    moved v (\<lambda>r. - demand v x r) (rsv_target x) (advs w1) (advs w')"
  proof (cases "reservationHasCondition x ReservationConditionRequesterActive")
    case True
    then show ?thesis
      using release_unwritten [of w1 x] assms(2,7) same by (simp add: handleReservedReservation_def)
  next
    case False
    with assms(6) obtain t where "rst_ExpiresAt (o_status x) = Some t" "\<forall>w. t < fst (run_state (b_now E) w)"
      by (auto simp: release_due_def)
    with e have "e" by (auto simp: expired_def split: prod.splits) (metis fst_conv)
    with False e show ?thesis
      using release_unwritten [of now x] assms(2,7) same q by (simp add: handleReservedReservation_def)
  qed
  with g assms(2-5) same show ?thesis by (auto simp: Reconcile_def reconcile_phase_def)
qed

lemma reconciles_release:
  assumes "rsvs w k = Some x" "rsv_phase x = PhaseReserved" "m_DeletionTimestamp (o_meta x) = None"
    "ReservationFinalizer \<in> set (m_Finalizers (o_meta x))" "validateReservationSpec (b_Q E) x = None" "release_due E x"
    "releasable (advs w) x"
  shows "\<exists>e. rsvs (reconciles E D k n w) = rsvs w \<and>
    moved v (\<lambda>r. - (of_nat n * demand v x r)) (rsv_target x) (advs w) (advs (reconciles E D k n w)) \<and>
    fst (run_state (Reconcile E D k) (reconciles E D k n w)) = Some (Inl e)"
proof -
  have inv: "rsvs (reconciles E D k n w) = rsvs w \<and> releasable (advs (reconciles E D k n w)) x \<and>
    moved v (\<lambda>r. - (of_nat n * demand v x r)) (rsv_target x) (advs w) (advs (reconciles E D k n w))"
  proof (induction n)
    case 0
    with assms(7) show ?case by simp
  next
    case (Suc n)
    let ?w = "reconciles E D k n w"
    from Suc.IH assms(1) have "rsvs ?w k = Some x" "releasable (advs ?w) x" by simp_all
    from Reconcile_unwritten [OF this(1) assms(2-6) this(2), of D] obtain e w' where
      step: "run_state (Reconcile E D k) ?w = (Some (Inl e), w')" "rsvs w' = rsvs ?w" "releasable (advs w') x"
      "moved v (\<lambda>r. - demand v x r) (rsv_target x) (advs ?w) (advs w')" by blast
    from Suc.IH moved_trans [OF _ step(4), of _ "advs w"]
    have "moved v (\<lambda>r. - (of_nat n * demand v x r) + - demand v x r) (rsv_target x) (advs w) (advs w')" by blast
    then show ?case using step Suc.IH by (simp add: algebra_simps)
  qed
  then have "rsvs (reconciles E D k n w) k = Some x" "releasable (advs (reconciles E D k n w)) x" using assms(1) by simp_all
  from Reconcile_unwritten [OF this(1) assms(2-6) this(2), of D] inv show ?thesis by auto
qed

end

section \<open>Properties\<close>

text \<open>
  C2. One reconciliation implements the life cycle: of a valid reservation not under deletion,
  \<open>Reconcile\<close> never panics, changes no other reservation and nothing of the request but the chosen
  provider, and what it does to the status and to the advertisements is one step of
  \<open>reconcile_step\<close>, an error being answered by a step that may be without an error or \<open>lost\<close>.
\<close>

theorem reconcile_refines_life_cycle:
  assumes "broker_world E v advs rsvs" "undeleted (advs w)" "rsvs w (obj_key x) = Some x"
    "m_DeletionTimestamp (o_meta x) = None" "validateReservationSpec (b_Q E) x = None"
    "run_state (Reconcile E D (obj_key x)) w = (answer, w')"
  shows "\<exists>res y. answer = Some res \<and> rsvs w' = (rsvs w)(obj_key x \<mapsto> y) \<and> same_request x y \<and>
    reconcile_step (b_Q E) x (advs w) y (advs w') (\<exists>d. res = Inr d)"
  using Reconcile_steps [OF assms] by (auto simp: steps_to_def)

text \<open>
  C5. A reservation is counted exactly once: after any run of \<open>Reconcile\<close> on one new valid
  reservation in which no call answered with an error, its phase has only advanced, its request is
  the same, and Reserved of its provider's advertisement is above what it was at first by its amounts
  when the phase is Reserved and by nothing otherwise, Available being lower by the same; no other
  advertisement's amounts have changed. (\<open>BrokerSystem\<close> has all reservations together, and the errors.)
\<close>

theorem reserved_exactly_once:
  assumes "broker_world E v advs rsvs" "unique_ids (advs w)" "rsvs w k = Some x" "rsv_phase x = PhaseUnset"
    "validateReservationSpec (b_Q E) x = None" "reconciled E D advs rsvs k w w'"
  shows "\<exists>y. rsvs w' k = Some y \<and> same_request x y \<and> rsv_phase x \<le> rsv_phase y \<and>
    moved v (\<lambda>r. if rsv_phase y = PhaseReserved then demand v y r else 0) (rsv_target y) (advs w) (advs w')"
  using assms(6)
proof (induction rule: reconciled.induct)
  case start
  with assms(3,4) show ?case by simp
next
  case (reconcile w1 y d w2)
  from reconcile.IH reconcile.hyps(3) have y: "same_request x y" "rsv_phase x \<le> rsv_phase y" "holding v y (advs w) (advs w1)"
    by simp_all
  have valid: "validateReservationSpec (b_Q E) y = None" using validate_same_request [OF y(1)] assms(5) by simp
  have "obj_key y = k" by (rule answered_key [OF assms(1) reconcile.hyps(3,5)])
  with Reconcile_steps [OF assms(1) reconcile.hyps(2-4) valid reconcile.hyps(5)]
  obtain z where z: "rsvs w2 k = Some z" "same_request y z" "reconcile_step (b_Q E) y (advs w1) z (advs w2) True"
    by (auto simp: steps_to_def)
  have "rsv_phase x \<le> rsv_phase z" using y(2) step_advances [OF z(3)] by (rule order_trans)
  with z(1) same_request_trans [OF y(1) z(2)] step_moved [OF broker_worldD(1) [OF assms(1)] assms(2) y(3) z(3)]
  show ?case by blast
next
  case (others w1 w2 y z)
  then have y: "same_request x y" "rsv_phase x \<le> rsv_phase y" "holding v y (advs w) (advs w1)" by simp_all
  show ?case
    using same_request_trans [OF y(1) same_request_spec [OF others.hyps(5)]] y(2,3) others.hyps(2,4,6)
      holding_cong [OF others.hyps(5,6), of v "advs w"] by (intro exI [of _ z]) simp
qed

definition stored_rsv :: "nano_quantity Reservation" where
  "stored_rsv = add_finalizer ReservationFinalizer (sample_rsv ''b'' 2 8)"

definition pending_world :: mem_world where
  "pending_world = empty_world\<lparr>mw_advs := [sample_adv ''b'' 6 48], mw_rsvs := [stored_rsv]\<rparr>"

lemma stored_rsv_simps [simp]:
  "obj_key stored_rsv = (''default'', ''rsv-a-1'')" "m_DeletionTimestamp (o_meta stored_rsv) = None"
  "rsv_target stored_rsv = ''b''" "rsv_phase stored_rsv = PhaseUnset" "rsv_cpu stored_rsv = nano_units 2"
  "rsv_memory stored_rsv = nano_units 8" "m_ResourceVersion (o_meta stored_rsv) = 0"
  "ReservationFinalizer \<in> set (m_Finalizers (o_meta stored_rsv))"
  by (simp_all add: stored_rsv_def add_finalizer_def sample_defs meta_key_def)

lemma stored_rsv_valid: "o_spec r = o_spec stored_rsv \<Longrightarrow> validateReservationSpec nano_ops r = None"
  by (simp add: validateReservationSpec_def stored_rsv_def sample_rsv_def sample_sign)

theorem reconcile_refines_witness:
  "\<exists>res w' y. run_state (Reconcile mem_env sample_engine (''default'', ''rsv-a-1'')) pending_world = (Some res, w') \<and>
    mem_rsvs w' (''default'', ''rsv-a-1'') = Some y \<and>
    reconcile_step nano_ops stored_rsv (mem_advs pending_world) y (mem_advs w') (\<exists>d. res = Inr d)"
proof -
  obtain answer w' where run: "run_state (Reconcile mem_env sample_engine (obj_key stored_rsv)) pending_world = (answer, w')"
    by fastforce
  have "undeleted (mem_advs pending_world)" "mem_rsvs pending_world (obj_key stored_rsv) = Some stored_rsv"
    by (simp_all add: undeleted_def pending_world_def store_get_def)
  from reconcile_refines_life_cycle [OF mem.broker_world_axioms this _ _ run] stored_rsv_valid [of stored_rsv] run
  show ?thesis by auto
qed

text \<open>The reconciliation that reserves the two CPUs of the sample.\<close>

lemma pending_locks:
  "\<exists>w'. run_state (attempts n (lock_target mem_env stored_rsv)) pending_world = (Inr None, w') \<and>
    mw_rsvs w' = mw_rsvs pending_world"
proof -
  obtain a where a: "AddReservation nano_ops (sample_adv ''b'' 6 48) (nano_units 2) (nano_units 8) = Inr a"
    by (simp add: AddReservation_def)
  note same = same_but_ledgerD(1) [OF AddReservation_frame [OF a]]
  have "CanReserve nano_ops (sample_adv ''b'' 6 48) (nano_units 2) (nano_units 8)" "adv_id (sample_adv ''b'' 6 48) = ''b''"
    "obj_key (sample_adv ''b'' 6 48) = (''default'', ''b-adv'')"
    by (simp_all add: CanReserve_def sample_defs nano_simps sgn_if meta_key_def)
  then have "\<exists>w'. run_state (lock_target mem_env stored_rsv) pending_world = (Inr None, w') \<and> mw_rsvs w' = mw_rsvs pending_world"
    using a same
    by (simp add: lock_target_def findClusterByID_def pending_world_def store_get_def mem_write_def Let_def finalized_def)
  then show ?thesis by (cases n) auto
qed

definition settled_world :: mem_world where
  "settled_world = snd (run_state (Reconcile mem_env sample_engine (''default'', ''rsv-a-1'')) pending_world)"

lemma pending_reserved:
  "\<exists>d y. run_state (Reconcile mem_env sample_engine (''default'', ''rsv-a-1'')) pending_world = (Some (Inr d), settled_world) \<and>
    mem_rsvs settled_world (''default'', ''rsv-a-1'') = Some y \<and> rsv_phase y = PhaseReserved"
proof -
  let ?k = "(''default'', ''rsv-a-1'')"
  obtain w1 where l: "run_state (attempts 4 (lock_target mem_env stored_rsv)) pending_world = (Inr None, w1)"
    "mw_rsvs w1 = mw_rsvs pending_world"
    using pending_locks by blast
  let ?f = "\<lambda>now. reserved_status (rsv_target stored_rsv) now stored_rsv"
  obtain x w2 where ws: "run_state (write_status mem_env stored_rsv ?f go_minute) w1 = (x, w2)" by fastforce
  have "mw_rsvs w1 = [stored_rsv]" "o_Namespace stored_rsv = ''default''" "o_Name stored_rsv = ''rsv-a-1''"
    using l(2) by (simp_all add: pending_world_def stored_rsv_def add_finalizer_def sample_defs)
  with ws have x: "x = Inr go_minute" "mem_rsvs w2 ?k \<noteq> None" "\<forall>y. mem_rsvs w2 ?k = Some y \<longrightarrow> rsv_phase y = PhaseReserved"
    by (auto simp: write_status_def mem_write_defs store_get_def Let_def split: prod.splits)
  have "mem_rsvs pending_world ?k = Some stored_rsv" by (simp add: pending_world_def store_get_def)
  then have run: "run_state (Reconcile mem_env sample_engine ?k) pending_world = (Some x, w2)"
    using l(1) ws stored_rsv_valid [of stored_rsv]
    by (simp add: Reconcile_def reconcile_phase_def handlePendingReservation_def reserveInTargetCluster_def)
  then have "settled_world = w2" by (simp add: settled_world_def)
  with run x show ?thesis by auto
qed

theorem reserved_exactly_once_witness:
  "\<exists>y. reconciled mem_env sample_engine mem_advs mem_rsvs (''default'', ''rsv-a-1'') pending_world settled_world \<and>
    mem_rsvs settled_world (''default'', ''rsv-a-1'') = Some y \<and> rsv_phase y = PhaseReserved \<and>
    moved nano_value (demand nano_value y) ''b'' (mem_advs pending_world) (mem_advs settled_world)"
proof -
  let ?k = "(''default'', ''rsv-a-1'')"
  obtain d y where y: "run_state (Reconcile mem_env sample_engine ?k) pending_world = (Some (Inr d), settled_world)"
    "mem_rsvs settled_world ?k = Some y" "rsv_phase y = PhaseReserved" using pending_reserved by blast
  have w: "undeleted (mem_advs pending_world)" "unique_ids (mem_advs pending_world)" "mem_rsvs pending_world ?k = Some stored_rsv"
    by (auto simp: undeleted_def unique_ids_def pending_world_def store_get_def split: if_splits)
  have run: "reconciled mem_env sample_engine mem_advs mem_rsvs ?k pending_world settled_world"
    by (rule reconciled.reconcile [where y = stored_rsv and d = d and ?w1.0 = pending_world])
      (use w(1,3) y(1) in \<open>auto intro: reconciled.start\<close>)
  from reserved_exactly_once [OF mem.broker_world_axioms w(2,3) _ _ run] stored_rsv_valid [of stored_rsv] y
  have "same_request stored_rsv y" "holding nano_value y (mem_advs pending_world) (mem_advs settled_world)"
    by auto
  with run y(2,3) show ?thesis by (auto simp: same_request_def)
qed

text \<open>
  An environment in which the status of a reservation cannot be written, and the worlds that a
  reservation in phase Reserved goes through once it has expired.
\<close>

definition no_status_env :: "(mem_world, nano_quantity) BrokerEnv" where
  "no_status_env = mem_env\<lparr>b_rsv := (b_rsv mem_env)\<lparr>c_status_update := (\<lambda>x. ret (Inl (OtherApiError ''timeout'')))\<rparr>,
     b_now := ret (10 * go_hour)\<rparr>"

lemma no_status_lawful: "broker_world no_status_env nano_value mem_advs mem_rsvs"
proof -
  have r: "b_rsv no_status_env = (b_rsv mem_env)\<lparr>c_status_update := (\<lambda>x. ret (Inl (OtherApiError ''timeout'')))\<rparr>"
    by (simp add: no_status_env_def)
  have "kube_client (b_rsv no_status_env) mem_rsvs"
    using mem.rsv_client.kube_client_axioms unfolding kube_client_def r
    by (simp add: keeps_return del: mem_env_simps mem_client_get mem_client_list mem_client_update
        mem_client_status mem_client_create)
  moreover have "quiet mem_advs no_status_env" "quiet mem_rsvs no_status_env"
    using mem.quiet_advs mem.quiet_rsvs by (simp_all add: no_status_env_def quiet_def keeps_return)
  moreover have "client_keeps mem_advs (b_rsv no_status_env)" "client_keeps mem_rsvs (b_adv no_status_env)"
    using mem.rsv_keeps_advs mem.adv_keeps_rsvs by (simp_all add: no_status_env_def client_keeps_def keeps_return)
  moreover have "b_Q no_status_env = b_Q mem_env" "b_adv no_status_env = b_adv mem_env" "b_retry no_status_env = b_retry mem_env"
    "b_sort no_status_env = b_sort mem_env" "b_set_condition no_status_env = b_set_condition mem_env"
    by (simp_all add: no_status_env_def)
  ultimately show ?thesis
    using mem.broker_world_axioms unfolding broker_world_def broker_world_axioms_def by metis
qed

definition leak_adv :: "nat \<Rightarrow> nano_quantity ClusterAdvertisement" where
  "leak_adv n = (with_resources (\<lambda>m. m\<lparr>rm_Reserved := Some (sample_quantities (2 - 2 * int n) (8 - 8 * int n)),
       rm_Available := sample_quantities (4 + 2 * int n) (40 + 8 * int n)\<rparr>) (sample_adv ''b'' 4 40))
     \<lparr>o_meta := (new_meta ''b-adv'' ''default'')\<lparr>m_ResourceVersion := n\<rparr>\<rparr>"

definition leak_world :: "nat \<Rightarrow> mem_world" where
  "leak_world n = empty_world\<lparr>mw_advs := [leak_adv n],
     mw_rsvs := [stored_rsv\<lparr>o_status := zero_rsv_status\<lparr>rst_Phase := PhaseReserved, rst_ExpiresAt := Some 0\<rparr>\<rparr>]\<rparr>"

interpretation no_status: unwritable_status no_status_env nano_value mem_advs mem_rsvs
proof (intro unwritable_status.intro unwritable_status_axioms.intro no_status_lawful)
  show "\<exists>e w'. run_state (c_status_update (b_rsv no_status_env) y) w = (Inl e, w')" for y w
    by (simp add: no_status_env_def)
  show "\<exists>w'. run_state (c_get (b_rsv no_status_env) k) w = (Inr x, w')" if "mem_rsvs w k = Some x" for w k x
    using that by (simp add: no_status_env_def)
  show "\<exists>xs w'. run_state (c_list (b_adv no_status_env)) w = (Inr xs, w')" for w
    by (simp add: no_status_env_def)
  show "\<exists>z w'. run_state (c_update (b_adv no_status_env) y) w = (Inr z, w') \<and> m_DeletionTimestamp (o_meta z) = None"
    if "mem_advs w (obj_key y) = Some old" "m_ResourceVersion (o_meta old) = m_ResourceVersion (o_meta y)"
      "m_DeletionTimestamp (o_meta y) = None" for w y old
    using that by (simp add: no_status_env_def mem_write_def mem_update_def next_version_def Let_def)
qed

text \<open>
  C24. A release is repeated as long as the status cannot be written: where every write of a
  reservation's status fails while the rest of the API works, a reservation in phase Reserved that is
  due to leave it (its requester is active, or it has expired) is released by every reconciliation.
  After \<open>n\<close> of them its provider's advertisement has \<open>n\<close> times its amounts less in Reserved, below
  zero if need be, and as much more in Available, while the reservation is as it was, still in phase
  Reserved; each answers with an error, which is what has it tried again.
\<close>

theorem unwritten_release_repeats:
  assumes "unwritable_status E v advs rsvs" "undeleted (advs w)" "unique_ids (advs w)"
    "rsvs w k = Some x" "rsv_phase x = PhaseReserved" "m_DeletionTimestamp (o_meta x) = None"
    "ReservationFinalizer \<in> set (m_Finalizers (o_meta x))" "validateReservationSpec (b_Q E) x = None" "release_due E x"
    "advs w l = Some a" "adv_id a = rsv_target x" "adv_reserved a \<noteq> None"
  shows "\<exists>b e. advs (reconciles E D k n w) l = Some b \<and> rsvs (reconciles E D k n w) = rsvs w \<and>
    fst (run_state (Reconcile E D k) (reconciles E D k n w)) = Some (Inl e) \<and>
    (\<forall>r. held_of v b r = held_of v a r - of_nat n * demand v x r \<and>
         free_of v b r = free_of v a r + of_nat n * demand v x r)"
proof -
  have "releasable (advs w) x" using assms(2,3,10-12) by (rule releasableI)
  from unwritable_status.reconciles_release [OF assms(1,4-9) this, of D n]
  obtain e where n: "rsvs (reconciles E D k n w) = rsvs w"
    "moved v (\<lambda>r. - (of_nat n * demand v x r)) (rsv_target x) (advs w) (advs (reconciles E D k n w))"
    "fst (run_state (Reconcile E D k) (reconciles E D k n w)) = Some (Inl e)" by blast
  then have "l \<in> dom (advs (reconciles E D k n w))" using assms(10) by (auto simp: moved_def)
  then obtain b where "advs (reconciles E D k n w) l = Some b" by blast
  with n assms(10,11) show ?thesis unfolding moved_def by fastforce
qed

lemma unwritten_release_witness:
  "\<exists>b. mem_advs (reconciles no_status_env sample_engine (''default'', ''rsv-a-1'') 3 (leak_world 0)) (''default'', ''b-adv'') = Some b \<and>
    held_of nano_value b ResCPU = -4 \<and> free_of nano_value b ResCPU = 10"
proof -
  let ?k = "(''default'', ''rsv-a-1'')" and ?l = "(''default'', ''b-adv'')"
  let ?r = "stored_rsv\<lparr>o_status := zero_rsv_status\<lparr>rst_Phase := PhaseReserved, rst_ExpiresAt := Some 0\<rparr>\<rparr>"
  have a: "adv_id (leak_adv 0) = ''b''" "obj_key (leak_adv 0) = ?l" "m_DeletionTimestamp (o_meta (leak_adv 0)) = None"
    "adv_reserved (leak_adv 0) \<noteq> None" "held_of nano_value (leak_adv 0) ResCPU = 2" "free_of nano_value (leak_adv 0) ResCPU = 4"
    by (simp_all add: leak_adv_def with_resources_def sample_defs meta_key_def sample_quantities_def nano_value_def nano_units_def)
  then have w: "mem_advs (leak_world 0) = [?l \<mapsto> leak_adv 0]" by (auto simp: leak_world_def store_get_def fun_eq_iff)
  then have "undeleted (mem_advs (leak_world 0))" "unique_ids (mem_advs (leak_world 0))" "mem_advs (leak_world 0) ?l = Some (leak_adv 0)"
    using a(3) by (auto simp: undeleted_def unique_ids_def split: if_splits)
  moreover have "mem_rsvs (leak_world 0) ?k = Some ?r" by (simp add: leak_world_def store_get_def)
  moreover have "release_due no_status_env ?r"
    by (simp add: release_due_def no_status_env_def zero_rsv_status_def duration_defs)
  moreover have "validateReservationSpec (b_Q no_status_env) ?r = None"
    using stored_rsv_valid [of ?r] by (simp add: no_status_env_def)
  moreover have "demand nano_value ?r ResCPU = 2" by (simp add: demand_def stored_rsv_def sample_defs nano_value_def nano_units_def)
  ultimately show ?thesis
    using unwritten_release_repeats [OF no_status.unwritable_status_axioms, of "leak_world 0" ?k ?r ?l "leak_adv 0" sample_engine 3] a
    by (auto simp del: held_of.simps free_of.simps)
qed

end
