(* ===== verification/BrokerSystem.thy ===== *)
theory BrokerSystem
  imports Server AdvertisementController ReservationController
begin

text \<open>
  The broker as a whole: its HTTP endpoints and its two controllers take steps in any order on the
  same advertisements and reservations. The invariant is the balance of the books: what an
  advertisement has in Reserved, less the amounts of the reservations in phase Reserved for its
  cluster, does not change.
\<close>

section \<open>The books\<close>

text \<open>What one reservation holds of a cluster, and all of them.\<close>

definition holds :: "('q \<Rightarrow> rat) \<Rightarrow> 'q Reservation \<Rightarrow> string \<Rightarrow> res \<Rightarrow> rat" where
  "holds v x i r = (if rsv_phase x = PhaseReserved \<and> rsv_target x = i then demand v x r else 0)"

definition booked ::
  "('q \<Rightarrow> rat) \<Rightarrow> ('q ReservationSpec, ReservationStatus) store \<Rightarrow> string \<Rightarrow> res \<Rightarrow> rat" where
  "booked v R i r = (\<Sum>k\<in>dom R. holds v (the (R k)) i r)"

definition old_holds ::
  "('q \<Rightarrow> rat) \<Rightarrow> ('q ReservationSpec, ReservationStatus) store \<Rightarrow> key \<Rightarrow> string \<Rightarrow> res \<Rightarrow> rat" where
  "old_holds v R k i r = (case R k of None \<Rightarrow> 0 | Some x \<Rightarrow> holds v x i r)"

lemma booked_upd:
  assumes "finite (dom R)"
  shows "booked v (R(k \<mapsto> y)) i r = booked v R i r - old_holds v R k i r + holds v y i r"
proof -
  have split: "booked v R i r = (\<Sum>l\<in>dom R - {k}. holds v (the (R l)) i r) + old_holds v R k i r"
  proof (cases "R k")
    case None
    then have "dom R - {k} = dom R" by auto
    with None show ?thesis by (simp add: booked_def old_holds_def)
  next
    case (Some x)
    then have "dom R = insert k (dom R - {k})" by auto
    moreover have "(\<Sum>l\<in>insert k (dom R - {k}). holds v (the (R l)) i r) =
      holds v (the (R k)) i r + (\<Sum>l\<in>dom R - {k}. holds v (the (R l)) i r)"
      by (rule sum.insert) (use assms in auto)
    ultimately show ?thesis using Some by (simp add: booked_def old_holds_def)
  qed
  have "dom (R(k \<mapsto> y)) = insert k (dom R - {k})" by auto
  then have "booked v (R(k \<mapsto> y)) i r = (\<Sum>l\<in>insert k (dom R - {k}). holds v (the ((R(k \<mapsto> y)) l)) i r)"
    by (simp add: booked_def)
  also have "\<dots> = holds v y i r + (\<Sum>l\<in>dom R - {k}. holds v (the ((R(k \<mapsto> y)) l)) i r)"
    by (subst sum.insert) (use assms in auto)
  also have "(\<Sum>l\<in>dom R - {k}. holds v (the ((R(k \<mapsto> y)) l)) i r) = (\<Sum>l\<in>dom R - {k}. holds v (the (R l)) i r)"
    by (rule sum.cong) auto
  finally show ?thesis using split by linarith
qed

lemma booked_same: "finite (dom R) \<Longrightarrow> (\<And>i r. holds v y i r = old_holds v R k i r) \<Longrightarrow> booked v (R(k \<mapsto> y)) = booked v R"
  by (intro ext) (simp add: booked_upd)

text \<open>
  What a failed operation can leave wrong between the two: \<open>Kept x\<close>, the amounts of \<open>x\<close> stay in Reserved
  though no reservation in phase Reserved accounts for them any more; \<open>Freed x\<close>, they have been taken
  out though \<open>x\<close> is still in phase Reserved. The drift is their sum.
\<close>

datatype 'q mishap = Kept "'q Reservation" | Freed "'q Reservation"

definition claim :: "('q \<Rightarrow> rat) \<Rightarrow> 'q Reservation \<Rightarrow> string \<Rightarrow> res \<Rightarrow> rat" where
  "claim v x i r = (if i = rsv_target x then demand v x r else 0)"

primrec mishap_drift :: "('q \<Rightarrow> rat) \<Rightarrow> 'q mishap \<Rightarrow> string \<Rightarrow> res \<Rightarrow> rat" where
  "mishap_drift v (Kept x) i r = claim v x i r"
| "mishap_drift v (Freed x) i r = - claim v x i r"

primrec drift :: "('q \<Rightarrow> rat) \<Rightarrow> 'q mishap list \<Rightarrow> string \<Rightarrow> res \<Rightarrow> rat" where
  "drift v [] i r = 0"
| "drift v (m # ms) i r = mishap_drift v m i r + drift v ms i r"

lemma drift_Nil [simp]: "drift v [] = (\<lambda>i r. 0)"
  by (intro ext) simp


text \<open>The difference between Reserved and the reservations changes by \<open>d\<close> for every advertisement.\<close>

definition drifted ::
  "('q \<Rightarrow> rat) \<Rightarrow> (string \<Rightarrow> res \<Rightarrow> rat) \<Rightarrow>
   ('q ClusterAdvertisementSpec, ClusterAdvertisementStatus) store \<Rightarrow> (string \<Rightarrow> res \<Rightarrow> rat) \<Rightarrow>
   ('q ClusterAdvertisementSpec, ClusterAdvertisementStatus) store \<Rightarrow> (string \<Rightarrow> res \<Rightarrow> rat) \<Rightarrow> bool" where
  "drifted v d S B S' B' \<longleftrightarrow>
     (\<forall>k a. S k = Some a \<longrightarrow> (\<exists>b. S' k = Some b \<and> adv_id b = adv_id a \<and>
        (\<forall>r. held_of v b r - B' (adv_id b) r = held_of v a r - B (adv_id a) r + d (adv_id a) r)))"

abbreviation balanced_between where
  "balanced_between v \<equiv> drifted v (\<lambda>i r. 0)"

lemma balanced_refl [simp]: "balanced_between v S B S B"
  by (simp add: drifted_def)


text \<open>A move of amounts, and what the reservations hold instead: the rest is the drift.\<close>

lemma drifted_moved:
  assumes "moved v d i S S'" "\<And>j r. B' j r = B j r + (if j = i then d r else 0) - e j r"
  shows "drifted v e S B S' B'"
  unfolding drifted_def
proof (intro allI impI)
  fix l a
  assume a: "S l = Some a"
  with assms(1) have "l \<in> dom S'" by (auto simp: moved_def)
  then obtain b where b: "S' l = Some b" by blast
  with a assms(1) have eq: "adv_id b = adv_id a" "\<And>r. held_of v b r = held_of v a r + (if adv_id a = i then d r else 0)"
    unfolding moved_def by blast+
  have "held_of v b r - B' (adv_id b) r = held_of v a r - B (adv_id a) r + e (adv_id a) r" for r
    using eq(2) [of r] unfolding eq(1) assms(2) by simp
  with b eq(1) show "\<exists>b. S' l = Some b \<and> adv_id b = adv_id a \<and>
      (\<forall>r. held_of v b r - B' (adv_id b) r = held_of v a r - B (adv_id a) r + e (adv_id a) r)" by blast
qed

lemma balanced_moved:
  assumes "finite (dom R)" "moved v d i S S'"
    "\<And>j r. holds v y j r = old_holds v R k j r + (if j = i then d r else 0)"
  shows "balanced_between v S (booked v R) S' (booked v (R(k \<mapsto> y)))"
  by (rule drifted_moved [OF assms(2)]) (simp add: booked_upd [OF assms(1)] assms(3))


text \<open>The reservations in phase Reserved, and their specs, are the same.\<close>

definition same_holdings ::
  "('q ReservationSpec, ReservationStatus) store \<Rightarrow> ('q ReservationSpec, ReservationStatus) store \<Rightarrow> bool" where
  "same_holdings R R' \<longleftrightarrow> (\<forall>k s. (\<exists>x. R k = Some x \<and> rsv_phase x = PhaseReserved \<and> o_spec x = s) \<longleftrightarrow>
     (\<exists>y. R' k = Some y \<and> rsv_phase y = PhaseReserved \<and> o_spec y = s))"

lemma same_holdings_refl [simp]: "same_holdings R R"
  by (simp add: same_holdings_def)



text \<open>That, and no reservation has come or gone.\<close>

definition same_books ::
  "('q ReservationSpec, ReservationStatus) store \<Rightarrow> ('q ReservationSpec, ReservationStatus) store \<Rightarrow> bool" where
  "same_books R R' \<longleftrightarrow> same_holdings R R' \<and> dom R' = dom R"

lemma same_books_refl [simp]: "same_books R R"
  by (simp add: same_books_def)



section \<open>Names\<close>





section \<open>The steps\<close>







section \<open>What the handlers do to the reservations\<close>






section \<open>One step\<close>










section \<open>Reconciliations of any reservation\<close>










section \<open>A sample run\<close>









section \<open>Properties\<close>



end
