(* ===== verification/FilePath.thy ===== *)
theory FilePath
  imports Prelude
begin

text \<open>
  \<open>filepath.Join\<close> and \<open>filepath.Clean\<close> of Go's standard library, on Unix: empty elements are dropped,
  the rest is joined with slashes, and the result is cleaned lexically.
\<close>

text \<open>The segments of a path, the ones that stay in reverse order in \<open>out\<close>.\<close>

fun clean_segments :: "bool \<Rightarrow> string list \<Rightarrow> string list \<Rightarrow> string list" where
  "clean_segments rooted out [] = rev out"
| "clean_segments rooted out (s # ss) =
     (if s = '''' \<or> s = ''.'' then clean_segments rooted out ss
      else if s = ''..'' then
        (case out of
           [] \<Rightarrow> clean_segments rooted (if rooted then [] else [''..'']) ss
         | a # as \<Rightarrow>
             if a = ''..'' then clean_segments rooted (''..'' # out) ss else clean_segments rooted as ss)
      else clean_segments rooted (s # out) ss)"

fun join_slash :: "string list \<Rightarrow> string" where
  "join_slash [] = ''''"
| "join_slash [s] = s"
| "join_slash (s # ss) = s @ ''/'' @ join_slash ss"

definition path_Clean :: "string \<Rightarrow> string" where
  "path_Clean p =
     (if p = '''' then ''.''
      else let rooted = (hd p = CHR ''/'');
               body = join_slash (clean_segments rooted [] (split_on (CHR ''/'') p))
           in if rooted then ''/'' @ body else if body = '''' then ''.'' else body)"

definition path_Join :: "string list \<Rightarrow> string" where
  "path_Join elems =
     (case filter (\<lambda>e. e \<noteq> '''') elems of [] \<Rightarrow> '''' | es \<Rightarrow> path_Clean (join_slash es))"

lemma path_Join_examples:
  "path_Join [''/etc/broker/certs'', ''tls.crt''] = ''/etc/broker/certs/tls.crt''"
  "path_Join ['''', ''c.kubeconfig''] = ''c.kubeconfig''"
  "path_Join [''/a/./b/../c//'', ''../x''] = ''/a/x''"
  "path_Join [''..'', ''../x/..''] = ''../..''"
  "path_Join [''/..'', ''''] = ''/''"
  by (simp_all add: path_Join_def path_Clean_def)

text \<open>A path that was made clean has no empty and no dot segment.\<close>

lemma clean_segments_proper:
  "set out \<inter> {'''', ''.''} = {} \<Longrightarrow> set (clean_segments rooted out ss) \<inter> {'''', ''.''} = {}"
  by (induction rooted out ss rule: clean_segments.induct) (auto split: list.splits)

end
