(* ===== verification/ManagerSetup.thy ===== *)
theory ManagerSetup
  imports KubeApi FilePath
begin

text \<open>
  What the two programs do alike when they start (cmd/main.go of the agent and of the broker): the
  options of the controller manager, its metrics and webhook servers, and the certificates of the
  mutual TLS between agent and broker. Reading files, parsing keys and certificates and the manager
  itself are of the libraries.
\<close>

section \<open>Starting in steps\<close>

text \<open>A step that fails logs its error and ends the program with \<open>os.Exit(1)\<close>.\<close>

definition or_exit ::
  "('w, go_error + 'a) state \<Rightarrow> ('a \<Rightarrow> ('w, go_error + 'b) state) \<Rightarrow> ('w, go_error + 'b) state" where
  "or_exit m f = State_Monad.bind m (\<lambda>r. case r of Inl e \<Rightarrow> ret (Inl e) | Inr a \<Rightarrow> f a)"

lemma or_exit_Inr:
  assumes "run_state (or_exit m f) w = (Inr b, w')"
  obtains a w1 where "run_state m w = (Inr a, w1)" "run_state (f a) w1 = (Inr b, w')"
  using assms by (auto simp: or_exit_def split: prod.splits sum.splits)

lemma or_exit_steps:
  assumes "run_state (or_exit m f) w = (r, w')"
  obtains (stops) e where "run_state m w = (Inl e, w')" "r = Inl e"
    | (continues) a w1 where "run_state m w = (Inr a, w1)" "run_state (f a) w1 = (r, w')"
  using assms by (auto simp: or_exit_def split: prod.splits sum.splits)

lemma keeps_or_exit_steps:
  assumes "keeps g m" "run_state (or_exit m f) w = (r, w')"
  obtains (stops) e where "g w' = g w" "r = Inl e"
    | (continues) a w1 where "g w1 = g w" "run_state m w = (Inr a, w1)" "run_state (f a) w1 = (r, w')"
  using assms(2) by (rule or_exit_steps) (use keepsD [OF assms(1)] in blast)+

lemma run_or_exit [simp]:
  "run_state m w = (Inr a, w1) \<Longrightarrow> run_state (or_exit m f) w = run_state (f a) w1"
  "run_state m w = (Inl e, w1) \<Longrightarrow> run_state (or_exit m f) w = (Inl e, w1)"
  by (simp_all add: or_exit_def)

lemma keeps_or_exit [keeps_intros]: "keeps f m \<Longrightarrow> (\<And>a. keeps f (g a)) \<Longrightarrow> keeps f (or_exit m g)"
  unfolding or_exit_def by (intro keeps_intros)

text \<open>\<open>SetupWithManager\<close>, and the health checks, of one component after the other.\<close>

fun setup_all :: "(string \<Rightarrow> ('w, go_error + unit) state) \<Rightarrow> string list \<Rightarrow> ('w, go_error + unit) state" where
  "setup_all setup [] = ret (Inr ())"
| "setup_all setup (c # cs) = or_exit (setup c) (\<lambda>_. setup_all setup cs)"

lemma keeps_setup_all: "(\<And>c. keeps f (setup c)) \<Longrightarrow> keeps f (setup_all setup cs)"
  by (induction cs) (auto intro!: keeps_intros)

section \<open>TLS\<close>

datatype ClientAuthType = NoClientCert | RequireAndVerifyClientCert

text \<open>The fields of \<open>tls.Config\<close> the programs set; \<open>NextProtos\<close> are the protocols offered.\<close>

record ('c, 'p) TlsConfig =
  tc_Certificates :: "'c list"
  tc_RootCAs :: "'p option"
  tc_ClientAuth :: ClientAuthType
  tc_ClientCAs :: "'p option"
  tc_MinVersion :: int
  tc_NextProtos :: "string list"

definition zero_tls :: "('c, 'p) TlsConfig" where
  "zero_tls =
     \<lparr>tc_Certificates = [], tc_RootCAs = None, tc_ClientAuth = NoClientCert, tc_ClientCAs = None,
      tc_MinVersion = 0, tc_NextProtos = []\<rparr>"

definition VersionTLS12 :: int where "VersionTLS12 = 771"

text \<open>
  \<open>tls.LoadX509KeyPair\<close>, \<open>os.ReadFile\<close>, and \<open>AppendCertsFromPEM\<close> on a new pool, which tells whether it
  found a certificate.
\<close>

record ('w, 'c, 'p) CryptoEnv =
  cy_load_pair :: "string \<Rightarrow> string \<Rightarrow> ('w, go_error + 'c) state"
  cy_read_file :: "string \<Rightarrow> ('w, go_error + string) state"
  cy_pool :: "string \<Rightarrow> 'p option"

text \<open>Key pair and authority of one side, whose certificate the error names.\<close>

definition load_mtls :: "('w, 'c, 'p) CryptoEnv \<Rightarrow> string \<Rightarrow> string \<Rightarrow> ('w, go_error + 'c \<times> 'p) state" where
  "load_mtls Y side certPath = do {
     cert \<leftarrow> cy_load_pair Y (path_Join [certPath, ''tls.crt'']) (path_Join [certPath, ''tls.key'']);
     case cert of
       Inl e \<Rightarrow> ret (Inl (ErrWrap (''failed to load '' @ side @ '' certificate'') e))
     | Inr c \<Rightarrow> do {
         caCert \<leftarrow> cy_read_file Y (path_Join [certPath, ''ca.crt'']);
         ret (case caCert of
             Inl e \<Rightarrow> Inl (ErrWrap ''failed to load CA certificate'' e)
           | Inr pem \<Rightarrow>
               (case cy_pool Y pem of
                  None \<Rightarrow> Inl (ErrMsg ''failed to append CA certificate'')
                | Some caCertPool \<Rightarrow> Inr (c, caCertPool)))
       }
   }"

lemma load_mtls_loaded:
  assumes "run_state (load_mtls Y side certPath) w = (Inr (c, p), w')"
  obtains w1 pem where "run_state (cy_load_pair Y (path_Join [certPath, ''tls.crt'']) (path_Join [certPath, ''tls.key''])) w = (Inr c, w1)"
    "run_state (cy_read_file Y (path_Join [certPath, ''ca.crt''])) w1 = (Inr pem, w')" "cy_pool Y pem = Some p"
  using assms by (auto simp: load_mtls_def split: prod.splits sum.splits option.splits)

lemma keeps_load_mtls [keeps_intros]:
  "(\<And>c k. keeps f (cy_load_pair Y c k)) \<Longrightarrow> (\<And>p. keeps f (cy_read_file Y p)) \<Longrightarrow> keeps f (load_mtls Y s d)"
  unfolding load_mtls_def by (intro keeps_intros)

text \<open>Files whose contents are their names.\<close>

definition sample_crypto :: "('w, string, string) CryptoEnv" where
  "sample_crypto = \<lparr>cy_load_pair = (\<lambda>c k. ret (Inr c)), cy_read_file = (\<lambda>p. ret (Inr p)), cy_pool = Some\<rparr>"

section \<open>The manager\<close>

text \<open>The flags both programs have.\<close>

record ManagerFlags =
  mf_metricsAddr :: string
  mf_probeAddr :: string
  mf_enableLeaderElection :: bool
  mf_secureMetrics :: bool
  mf_webhookCertPath :: string
  mf_webhookCertName :: string
  mf_webhookCertKey :: string
  mf_metricsCertPath :: string
  mf_metricsCertName :: string
  mf_metricsCertKey :: string
  mf_enableHTTP2 :: bool

definition default_manager_flags :: ManagerFlags where
  "default_manager_flags =
     \<lparr>mf_metricsAddr = ''0'', mf_probeAddr = '':8081'', mf_enableLeaderElection = False, mf_secureMetrics = True,
      mf_webhookCertPath = '''', mf_webhookCertName = ''tls.crt'', mf_webhookCertKey = ''tls.key'',
      mf_metricsCertPath = '''', mf_metricsCertName = ''tls.crt'', mf_metricsCertKey = ''tls.key'',
      mf_enableHTTP2 = False\<rparr>"

text \<open>A TLS option changes the configuration of a server before it listens.\<close>

type_synonym ('c, 'p) tls_option = "('c, 'p) TlsConfig \<Rightarrow> ('c, 'p) TlsConfig"

definition disableHTTP2 :: "('c, 'p) tls_option" where
  "disableHTTP2 c = c\<lparr>tc_NextProtos := [''http/1.1'']\<rparr>"

definition tls_options :: "bool \<Rightarrow> ('c, 'p) tls_option list" where
  "tls_options enableHTTP2 = (if enableHTTP2 then [] else [disableHTTP2])"

record ('c, 'p) WebhookOptions =
  wo_TLSOpts :: "('c, 'p) tls_option list"
  wo_CertDir :: string
  wo_CertName :: string
  wo_KeyName :: string

definition webhook_options :: "ManagerFlags \<Rightarrow> ('c, 'p) WebhookOptions" where
  "webhook_options F =
     (let o1 = \<lparr>wo_TLSOpts = tls_options (mf_enableHTTP2 F), wo_CertDir = '''', wo_CertName = '''', wo_KeyName = ''''\<rparr>
      in if 0 < length (mf_webhookCertPath F)
         then o1\<lparr>wo_CertDir := mf_webhookCertPath F, wo_CertName := mf_webhookCertName F, wo_KeyName := mf_webhookCertKey F\<rparr>
         else o1)"

datatype FilterProvider = WithAuthenticationAndAuthorization

record ('c, 'p) MetricsOptions =
  mo_BindAddress :: string
  mo_SecureServing :: bool
  mo_TLSOpts :: "('c, 'p) tls_option list"
  mo_FilterProvider :: "FilterProvider option"
  mo_CertDir :: string
  mo_CertName :: string
  mo_KeyName :: string

definition metrics_options :: "ManagerFlags \<Rightarrow> ('c, 'p) MetricsOptions" where
  "metrics_options F =
     (let o1 = \<lparr>mo_BindAddress = mf_metricsAddr F, mo_SecureServing = mf_secureMetrics F,
            mo_TLSOpts = tls_options (mf_enableHTTP2 F), mo_FilterProvider = None,
            mo_CertDir = '''', mo_CertName = '''', mo_KeyName = ''''\<rparr>;
          o2 = (if mf_secureMetrics F then o1\<lparr>mo_FilterProvider := Some WithAuthenticationAndAuthorization\<rparr> else o1)
      in if 0 < length (mf_metricsCertPath F)
         then o2\<lparr>mo_CertDir := mf_metricsCertPath F, mo_CertName := mf_metricsCertName F, mo_KeyName := mf_metricsCertKey F\<rparr>
         else o2)"

record ('c, 'p) ManagerOptions =
  mg_Metrics :: "('c, 'p) MetricsOptions"
  mg_WebhookServer :: "('c, 'p) WebhookOptions"
  mg_HealthProbeBindAddress :: string
  mg_LeaderElection :: bool
  mg_LeaderElectionID :: string

definition manager_options :: "string \<Rightarrow> ManagerFlags \<Rightarrow> ('c, 'p) ManagerOptions" where
  "manager_options electionID F =
     \<lparr>mg_Metrics = metrics_options F, mg_WebhookServer = webhook_options F,
      mg_HealthProbeBindAddress = mf_probeAddr F, mg_LeaderElection = mf_enableLeaderElection F,
      mg_LeaderElectionID = electionID\<rparr>"

text \<open>
  The metrics are guarded exactly where they are served securely, and without HTTP/2 no server of the
  manager offers it, whatever its configuration was before the options.
\<close>

definition protocols :: "('c, 'p) tls_option list \<Rightarrow> ('c, 'p) TlsConfig \<Rightarrow> string list" where
  "protocols opts c = tc_NextProtos (fold (\<lambda>f. f) opts c)"

lemma manager_guarded:
  "mo_FilterProvider (mg_Metrics (manager_options i F)) \<noteq> None \<longleftrightarrow> mf_secureMetrics F"
  "\<not> mf_enableHTTP2 F \<Longrightarrow> protocols (mo_TLSOpts (mg_Metrics (manager_options i F))) c = [''http/1.1'']"
  "\<not> mf_enableHTTP2 F \<Longrightarrow> protocols (wo_TLSOpts (mg_WebhookServer (manager_options i F))) c = [''http/1.1'']"
  by (simp_all add: manager_options_def metrics_options_def webhook_options_def tls_options_def protocols_def
      disableHTTP2_def Let_def)

end
