(* ===== verification/BrokerMain.thy ===== *)
theory BrokerMain
  imports BrokerSystem ManagerSetup
begin

text \<open>
  The start of the broker (resource-broker/cmd/main.go) and of its HTTPS server
  (resource-broker/internal/api/server.go): the flags, the controllers and the decision engine, and
  the interface for the agents. The manager, the certificate files and the TLS handshake are of the
  libraries.
\<close>

record BrokerFlags =
  bf_Manager :: ManagerFlags
  bf_brokerInterface :: string
  bf_httpPort :: string
  bf_httpCertPath :: string
  bf_httpNamespace :: string
  bf_mockEcoURL :: string
  bf_mockCurrencyURL :: string

definition default_broker_flags :: BrokerFlags where
  "default_broker_flags =
     \<lparr>bf_Manager = default_manager_flags, bf_brokerInterface = ''kubernetes'', bf_httpPort = ''8443'',
      bf_httpCertPath = ''/etc/broker/certs'', bf_httpNamespace = ''default'',
      bf_mockEcoURL = ''http://mock-eco:8081'', bf_mockCurrencyURL = ''http://mock-currency:8082''\<rparr>"

section \<open>The server\<close>

record ('w, 'c, 'p) ApiServer =
  as_Addr :: string
  as_Handler :: "'w handler"
  as_TLSConfig :: "('c, 'p) TlsConfig"

definition new_api_server ::
  "('w, 'c, 'p) CryptoEnv \<Rightarrow> ('w, 'q) BrokerEnv \<Rightarrow> string \<Rightarrow> string \<Rightarrow> Handler \<Rightarrow>
   ('w, go_error + ('w, 'c, 'p) ApiServer) state" where
  "new_api_server Y E port certPath handler = do {
     loaded \<leftarrow> load_mtls Y ''server'' certPath;
     ret (case loaded of
         Inl e \<Rightarrow> Inl e
       | Inr (cert, caCertPool) \<Rightarrow>
           Inr \<lparr>as_Addr = '':'' @ port, as_Handler = NewServer E handler,
             as_TLSConfig = zero_tls\<lparr>tc_Certificates := [cert], tc_ClientAuth := RequireAndVerifyClientCert,
               tc_ClientCAs := Some caCertPool, tc_MinVersion := VersionTLS12\<rparr>\<rparr>)
   }"

text \<open>
  What a TLS server lets through to its handler: with \<open>RequireAndVerifyClientCert\<close> the handshake fails
  unless the client shows a certificate that \<open>verifies\<close> accepts for the pool; the request then carries
  that certificate first.
\<close>

definition handshake :: "('p \<Rightarrow> Certificate \<Rightarrow> bool) \<Rightarrow> ('c, 'p) TlsConfig \<Rightarrow> HttpRequest \<Rightarrow> bool" where
  "handshake verifies cfg r \<longleftrightarrow>
     (case tc_ClientAuth cfg of
        NoClientCert \<Rightarrow> True
      | RequireAndVerifyClientCert \<Rightarrow>
          (case hr_TLS r of
             Some (cert # _) \<Rightarrow> (case tc_ClientCAs cfg of None \<Rightarrow> False | Some pool \<Rightarrow> verifies pool cert)
           | _ \<Rightarrow> False))"

section \<open>main\<close>

record ('w, 'c, 'p) BrokerPlan =
  bp_DecisionEngine :: DecisionEngine
  bp_Server :: "('w, 'c, 'p) ApiServer option"

record ('w, 'k, 'c, 'p) BrokerStart =
  bs_config :: "('w, go_error + 'k) state"
  bs_manager :: "'k \<Rightarrow> ('c, 'p) ManagerOptions \<Rightarrow> ('w, go_error + unit) state"
  bs_setup :: "string \<Rightarrow> ('w, go_error + unit) state"
  bs_crypto :: "('w, 'c, 'p) CryptoEnv"

definition broker_manager_options :: "BrokerFlags \<Rightarrow> ('c, 'p) ManagerOptions" where
  "broker_manager_options F = manager_options ''dd42f48e.fluidos.eu'' (bf_Manager F)"

definition decision_engine :: "BrokerFlags \<Rightarrow> DecisionEngine" where
  "decision_engine F = \<lparr>de_MockEcoURL = bf_mockEcoURL F, de_MockCurrencyURL = bf_mockCurrencyURL F\<rparr>"

definition start_interface ::
  "('w, 'q) BrokerEnv \<Rightarrow> ('w, 'k, 'c, 'p) BrokerStart \<Rightarrow> BrokerFlags \<Rightarrow> ('w, go_error + ('w, 'c, 'p) ApiServer option) state" where
  "start_interface E S F =
     (if bf_brokerInterface F = ''http'' then
        or_exit (new_api_server (bs_crypto S) E (bf_httpPort F) (bf_httpCertPath F)
            (NewHandler (bf_httpNamespace F) (decision_engine F)))
          (\<lambda>server. ret (Inr (Some server)))
      else if bf_brokerInterface F = ''kubernetes'' then ret (Inr None)
      else ret (Inl (ErrMsg ''Invalid broker-interface value'')))"

definition broker_main ::
  "('w, 'q) BrokerEnv \<Rightarrow> ('w, 'k, 'c, 'p) BrokerStart \<Rightarrow> BrokerFlags \<Rightarrow> ('w, go_error + ('w, 'c, 'p) BrokerPlan) state" where
  "broker_main E S F =
     or_exit (bs_config S) (\<lambda>cfg.
     or_exit (bs_manager S cfg (broker_manager_options F)) (\<lambda>_.
     or_exit (setup_all (bs_setup S) [''ClusterAdvertisement'', ''Reservation'']) (\<lambda>_.
     or_exit (start_interface E S F) (\<lambda>server.
     or_exit (setup_all (bs_setup S) [''healthz'', ''readyz'']) (\<lambda>_.
       ret (Inr \<lparr>bp_DecisionEngine = decision_engine F, bp_Server = server\<rparr>))))))"

lemma broker_main_server:
  assumes "run_state (broker_main E S F) w = (Inr P, w')"
  shows "bp_DecisionEngine P = decision_engine F"
    "bp_Server P = None \<longleftrightarrow> bf_brokerInterface F = ''kubernetes''"
    "bp_Server P = Some A \<Longrightarrow> \<exists>wa wb. run_state (new_api_server (bs_crypto S) E (bf_httpPort F) (bf_httpCertPath F)
      (NewHandler (bf_httpNamespace F) (decision_engine F))) wa = (Inr A, wb)"
proof -
  from assms obtain wa server wb where run: "run_state (start_interface E S F) wa = (Inr server, wb)"
    and P: "P = \<lparr>bp_DecisionEngine = decision_engine F, bp_Server = server\<rparr>"
    unfolding broker_main_def by (auto elim!: or_exit_Inr)
  show "bp_DecisionEngine P = decision_engine F" by (simp add: P)
  show "bp_Server P = None \<longleftrightarrow> bf_brokerInterface F = ''kubernetes''"
    "bp_Server P = Some A \<Longrightarrow> \<exists>wa wb. run_state (new_api_server (bs_crypto S) E (bf_httpPort F) (bf_httpCertPath F)
      (NewHandler (bf_httpNamespace F) (decision_engine F))) wa = (Inr A, wb)"
    using run by (auto simp: P start_interface_def split: if_splits elim!: or_exit_Inr) (intro exI, assumption)
qed

section \<open>What a started broker serves\<close>

text \<open>A request over the network: without a handshake it never reaches the handler.\<close>

definition serve ::
  "('p \<Rightarrow> Certificate \<Rightarrow> bool) \<Rightarrow> ('w, 'c, 'p) ApiServer \<Rightarrow> 'w handler" where
  "serve verifies A r = (if handshake verifies (as_TLSConfig A) r then as_Handler A r else ret None)"

lemma new_api_server_made:
  assumes "run_state (new_api_server Y E port certPath h) w = (Inr A, w')"
  obtains cert pool where "run_state (load_mtls Y ''server'' certPath) w = (Inr (cert, pool), w')"
    "as_Handler A = NewServer E h" "tc_ClientAuth (as_TLSConfig A) = RequireAndVerifyClientCert"
    "tc_ClientCAs (as_TLSConfig A) = Some pool" "tc_MinVersion (as_TLSConfig A) = VersionTLS12"
  using assms by (auto simp: new_api_server_def split: prod.splits sum.splits)

definition sample_broker_start :: "('w, unit, string, string) BrokerStart" where
  "sample_broker_start =
     \<lparr>bs_config = ret (Inr ()), bs_manager = (\<lambda>c opts. ret (Inr ())), bs_setup = (\<lambda>c. ret (Inr ())),
      bs_crypto = sample_crypto\<rparr>"

section \<open>Properties\<close>

text \<open>
  C8. Who a broker started with the HTTP interface serves: a request that gets an answer came with a
  certificate that verifies against the authority in the certificate directory of the flags, and it
  takes nothing that is reserved: apart from \<open>/healthz\<close>, of the advertisements only the one named
  after that certificate may be replaced, Reserved and policy unchanged, or an amount may move from
  Available to Reserved without loss. The endpoints rank with the same engine the controllers use.
\<close>

theorem started_broker_serves_known:
  assumes "broker_world E v advs rsvs" "run_state (broker_main E S F) w0 = (Inr P, w1)" "bp_Server P = Some A"
    "undeleted (advs w)" "run_state (serve verifies A r) w = (Some resp, w')"
  shows "\<exists>cert certs pem pool wa wb own. hr_TLS r = Some (cert # certs) \<and> verifies pool cert \<and>
    run_state (cy_read_file (bs_crypto S) (path_Join [bf_httpCertPath F, ''ca.crt''])) wa = (Inr pem, wb) \<and>
    cy_pool (bs_crypto S) pem = Some pool \<and> as_Handler A = NewServer E (NewHandler (bf_httpNamespace F) (bp_DecisionEngine P)) \<and>
    request_keeps v own (advs w) (advs w') \<and>
    (hr_Path r = ''/healthz'' \<or> own = (bf_httpNamespace F, x_CommonName cert @ ''-adv''))"
proof -
  let ?h = "NewHandler (bf_httpNamespace F) (decision_engine F)"
  from broker_main_server(3) [OF assms(2,3)] obtain wc wd where
    "run_state (new_api_server (bs_crypto S) E (bf_httpPort F) (bf_httpCertPath F) ?h) wc = (Inr A, wd)" by blast
  then obtain crt pool where made: "run_state (load_mtls (bs_crypto S) ''server'' (bf_httpCertPath F)) wc = (Inr (crt, pool), wd)"
    "as_Handler A = NewServer E ?h" "tc_ClientAuth (as_TLSConfig A) = RequireAndVerifyClientCert"
    "tc_ClientCAs (as_TLSConfig A) = Some pool" by (rule new_api_server_made)
  obtain wa pem where ca: "run_state (cy_read_file (bs_crypto S) (path_Join [bf_httpCertPath F, ''ca.crt''])) wa = (Inr pem, wd)"
    "cy_pool (bs_crypto S) pem = Some pool" by (rule load_mtls_loaded [OF made(1)])
  from assms(5) have hs: "handshake verifies (as_TLSConfig A) r" and run: "run_state (as_Handler A r) w = (Some resp, w')"
    by (auto simp: serve_def split: if_splits)
  from hs made(3,4) obtain cert certs where cert: "hr_TLS r = Some (cert # certs)" "verifies pool cert"
    by (auto simp: handshake_def split: option.splits list.splits)
  from served_request [OF assms(1,4) run [unfolded made(2)]] cert(1) obtain own where
    own: "request_keeps v own (advs w) (advs w')" "hr_Path r \<noteq> ''/healthz'' \<longrightarrow> own = (bf_httpNamespace F, x_CommonName cert @ ''-adv'')"
    by (auto simp: NewHandler_def)
  have "as_Handler A = NewServer E (NewHandler (bf_httpNamespace F) (bp_DecisionEngine P))"
    using made(2) broker_main_server(1) [OF assms(2)] by simp
  with cert ca own show ?thesis by blast
qed

lemma started_broker_witness:
  "\<exists>P w1 A resp w'. run_state (broker_main mem_env sample_broker_start (default_broker_flags\<lparr>bf_brokerInterface := ''http''\<rparr>)) order_world = (Inr P, w1) \<and>
    bp_Server P = Some A \<and>
    run_state (serve (\<lambda>pool cert. x_CommonName cert = ''a'') A
      ((sample_order ''b'')\<lparr>hr_Method := ''POST'', hr_Path := ''/api/v1/reservations''\<rparr>)) order_world = (Some resp, w') \<and>
    request_keeps nano_value (''default'', ''a-adv'') (mem_advs order_world) (mem_advs w')"
proof -
  let ?F = "default_broker_flags\<lparr>bf_brokerInterface := ''http''\<rparr>"
  let ?r = "(sample_order ''b'')\<lparr>hr_Method := ''POST'', hr_Path := ''/api/v1/reservations''\<rparr>"
  let ?ok = "\<lambda>(pool :: string) cert. x_CommonName cert = ''a''"
  obtain P w1 A where run: "run_state (broker_main mem_env sample_broker_start ?F) order_world = (Inr P, w1)" "bp_Server P = Some A"
    "tc_ClientAuth (as_TLSConfig A) = RequireAndVerifyClientCert" "tc_ClientCAs (as_TLSConfig A) \<noteq> None"
    "as_Handler A = NewServer mem_env (NewHandler ''default'' (decision_engine ?F))"
    by (auto simp: broker_main_def or_exit_def start_interface_def new_api_server_def load_mtls_def sample_broker_start_def sample_crypto_def
        default_broker_flags_def)
  have tls: "hr_TLS ?r = Some [\<lparr>x_CommonName = ''a''\<rparr>]" "hr_Path ?r \<noteq> ''/healthz''"
    by (simp_all add: sample_order_def sample_http_def)
  obtain answer w' where ans: "run_state (NewServer mem_env (NewHandler ''default'' (decision_engine ?F)) ?r) order_world = (answer, w')"
    by fastforce
  from served_request [OF mem.broker_world_axioms order_world_undeleted ans] obtain resp where resp: "answer = Some resp" by blast
  have "handshake ?ok (as_TLSConfig A) ?r" using run(3,4) tls by (auto simp: handshake_def)
  with ans resp run(5) have serve: "run_state (serve ?ok A ?r) order_world = (Some resp, w')" by (simp add: serve_def)
  from started_broker_serves_known [OF mem.broker_world_axioms run(1,2) order_world_undeleted serve] tls
  have "request_keeps nano_value (''default'', ''a-adv'') (mem_advs order_world) (mem_advs w')"
    by (auto simp: default_broker_flags_def)
  with run(1,2) serve show ?thesis by blast
qed

end
