(* ===== verification/Interleaving.thy ===== *)
theory Interleaving
  imports ReservationController
begin

text \<open>
  The concurrent writers of one stored advertisement. The locks of \<open>PostReservation\<close> and of the
  reservation controller, the controller's releases and the agents' reports all read the
  advertisement, compute a new one and write it back, which the API server accepts only if the
  version is still the one that was read; on a conflict the retry reads again or gives up. Here the
  reads and the writes of any number of such writers interleave in any order. A writer may read again
  after a conflict or give up at any time, which covers both the bounded retries of the locks and the
  reports (\<open>RetryOnConflict\<close>) and the releases, which the code does not retry.
\<close>

section \<open>Writers\<close>

datatype 'q write_op = LockOp 'q 'q | ReleaseOp 'q 'q | ReportOp "'q ClusterAdvertisement"

text \<open>What a writer writes after it has read \<open>a\<close>; \<open>None\<close> when the code returns an error instead.\<close>

fun op_result :: "'q QuantityOps \<Rightarrow> 'q write_op \<Rightarrow> 'q ClusterAdvertisement \<Rightarrow> 'q ClusterAdvertisement option" where
  "op_result Q (LockOp c m) a =
     (if CanReserve Q a c m then (case AddReservation Q a c m of Inl _ \<Rightarrow> None | Inr b \<Rightarrow> Some b) else None)"
| "op_result Q (ReleaseOp c m) a = (case RemoveReservation Q a c m of Inl _ \<Rightarrow> None | Inr b \<Rightarrow> Some b)"
| "op_result Q (ReportOp incoming) a = Some (merge_advertisement Q a incoming)"

fun_cases op_result_some: "op_result Q op a = Some b"

datatype 'q pc = Ready | Holding "'q ClusterAdvertisement" | Written | Failed

record 'q sys =
  stored :: "'q ClusterAdvertisement"
  pcs :: "nat \<Rightarrow> 'q pc"
  written :: "nat list"

definition adv_version :: "'q ClusterAdvertisement \<Rightarrow> nat" where
  "adv_version a = m_ResourceVersion (o_meta a)"

definition bump :: "'q ClusterAdvertisement \<Rightarrow> 'q ClusterAdvertisement" where
  "bump a = a\<lparr>o_meta := next_version (o_meta a)\<rparr>"

inductive cas_step :: "'q QuantityOps \<Rightarrow> (nat \<Rightarrow> 'q write_op) \<Rightarrow> 'q sys \<Rightarrow> 'q sys \<Rightarrow> bool"
  for Q ops where
  read: "pcs s i = Ready \<Longrightarrow> cas_step Q ops s (s\<lparr>pcs := (pcs s)(i := Holding (stored s))\<rparr>)"
| refuse: "pcs s i = Holding a \<Longrightarrow> op_result Q (ops i) a = None \<Longrightarrow>
    cas_step Q ops s (s\<lparr>pcs := (pcs s)(i := Failed)\<rparr>)"
| commit: "pcs s i = Holding a \<Longrightarrow> op_result Q (ops i) a = Some b \<Longrightarrow> adv_version a = adv_version (stored s) \<Longrightarrow>
    cas_step Q ops s (s\<lparr>stored := bump b, pcs := (pcs s)(i := Written), written := i # written s\<rparr>)"
| retry: "pcs s i = Holding a \<Longrightarrow> adv_version a \<noteq> adv_version (stored s) \<Longrightarrow>
    cas_step Q ops s (s\<lparr>pcs := (pcs s)(i := Ready)\<rparr>)"
| give_up: "pcs s i = Holding a \<Longrightarrow> cas_step Q ops s (s\<lparr>pcs := (pcs s)(i := Failed)\<rparr>)"

inductive_cases cas_stepE: "cas_step Q ops s s'"

inductive reachable :: "'q QuantityOps \<Rightarrow> (nat \<Rightarrow> 'q write_op) \<Rightarrow> 'q ClusterAdvertisement \<Rightarrow> 'q sys \<Rightarrow> bool"
  for Q ops a0 where
  init: "reachable Q ops a0 \<lparr>stored = a0, pcs = (\<lambda>_. Ready), written = []\<rparr>"
| next_step: "reachable Q ops a0 s \<Longrightarrow> cas_step Q ops s s' \<Longrightarrow> reachable Q ops a0 s'"

section \<open>The invariant\<close>

text \<open>What a writer adds to Reserved.\<close>

fun op_holds :: "('q \<Rightarrow> rat) \<Rightarrow> 'q write_op \<Rightarrow> res \<Rightarrow> rat" where
  "op_holds v (LockOp c m) r = demand_of v (c, m) r"
| "op_holds v (ReleaseOp c m) r = - demand_of v (c, m) r"
| "op_holds v (ReportOp _) r = 0"

fun is_report :: "'q write_op \<Rightarrow> bool" where
  "is_report (ReportOp _) = True"
| "is_report _ = False"

fun op_nonneg :: "('q \<Rightarrow> rat) \<Rightarrow> 'q write_op \<Rightarrow> bool" where
  "op_nonneg v (LockOp c m) \<longleftrightarrow> 0 \<le> v c \<and> 0 \<le> v m"
| "op_nonneg v (ReleaseOp c m) \<longleftrightarrow> 0 \<le> v c \<and> 0 \<le> v m"
| "op_nonneg v (ReportOp _) \<longleftrightarrow> True"

lemma bump_simps [simp]:
  "o_spec (bump a) = o_spec a" "o_status (bump a) = o_status a" "adv_version (bump a) = Suc (adv_version a)"
  "held_of v (bump a) r = held_of v a r" "free_of v (bump a) r = free_of v a r"
  by (simp_all add: bump_def adv_version_def next_version_def, (cases r; simp)+)

lemma op_result_version: "op_result Q op a = Some b \<Longrightarrow> adv_version b = adv_version a"
  by (erule op_result_some)
    (auto simp: adv_version_def split: if_splits sum.splits
      dest: same_but_ledgerD(1) [OF AddReservation_frame] same_but_ledgerD(1) [OF RemoveReservation_frame])

context quantity
begin

lemma op_result_held: "op_result Q op a = Some b \<Longrightarrow> held_of v b r = held_of v a r + op_holds v op r"
proof (cases op)
  case (ReportOp inc)
  moreover assume "op_result Q op a = Some b"
  ultimately show ?thesis by (cases r) auto
qed (cases r; auto simp: AddReservation_amounts RemoveReservation_amounts simp del: held_of.simps split: if_splits sum.splits)+

lemma op_result_free:
  "op_result Q op a = Some b \<Longrightarrow> \<not> is_report op \<Longrightarrow> free_of v b r = free_of v a r - op_holds v op r"
  by (cases op; cases r)
    (auto simp: AddReservation_amounts RemoveReservation_amounts simp del: free_of.simps split: if_splits sum.splits)

lemma op_result_nonneg:
  assumes "op_result Q op a = Some b" "\<not> is_report op" "op_nonneg v op" "\<And>r. 0 \<le> free_of v a r"
  shows "0 \<le> free_of v b r"
proof (cases op)
  case (LockOp c m)
  with assms(1) have "CanReserve Q a c m" by (simp split: if_splits)
  then have "demand_of v (c, m) r \<le> free_of v a r"
    by (cases r) (simp_all add: CanReserve_iff)
  with LockOp op_result_free [OF assms(1,2), of r] show ?thesis
    by (simp del: free_of.simps demand_of.simps)
next
  case (ReleaseOp c m)
  with op_result_free [OF assms(1,2), of r] assms(3) assms(4) [of r] show ?thesis
    by (cases r) (simp_all del: free_of.simps)
next
  case (ReportOp x)
  with assms(2) show ?thesis by simp
qed

text \<open>A read that has not gone stale is the stored advertisement itself.\<close>

definition cas_inv :: "(nat \<Rightarrow> 'q write_op) \<Rightarrow> 'q ClusterAdvertisement \<Rightarrow> 'q sys \<Rightarrow> bool" where
  "cas_inv ops a0 s \<longleftrightarrow>
     (\<forall>i a. pcs s i = Holding a \<longrightarrow> adv_version a \<le> adv_version (stored s) \<and>
        (adv_version a = adv_version (stored s) \<longrightarrow> a = stored s)) \<and>
     distinct (written s) \<and> set (written s) = {i. pcs s i = Written} \<and>
     (\<forall>r. held_of v (stored s) r = held_of v a0 r + (\<Sum>i \<leftarrow> written s. op_holds v (ops i) r))"

lemma cas_inv_read: "cas_inv ops a0 s \<Longrightarrow> pcs s i = Ready \<Longrightarrow> cas_inv ops a0 (s\<lparr>pcs := (pcs s)(i := Holding (stored s))\<rparr>)"
  unfolding cas_inv_def by auto

lemma cas_inv_leave:
  assumes "cas_inv ops a0 s" "pcs s i = Holding a" "p = Ready \<or> p = Failed"
  shows "cas_inv ops a0 (s\<lparr>pcs := (pcs s)(i := p)\<rparr>)"
  using assms unfolding cas_inv_def by auto

lemma cas_inv_commit:
  assumes "cas_inv ops a0 s" "pcs s i = Holding a" "op_result Q (ops i) a = Some b" "adv_version a = adv_version (stored s)"
  shows "cas_inv ops a0 (s\<lparr>stored := bump b, pcs := (pcs s)(i := Written), written := i # written s\<rparr>)"
proof -
  have a: "a = stored s" using assms(1,2,4) unfolding cas_inv_def by blast
  have ver: "adv_version (bump b) = Suc (adv_version (stored s))"
    using op_result_version [OF assms(3)] a by simp
  have "held_of v (bump b) r = held_of v a0 r + (\<Sum>j \<leftarrow> i # written s. op_holds v (ops j) r)" for r
    using op_result_held [OF assms(3), of r] assms(1) unfolding a cas_inv_def by (simp add: add.commute add.left_commute)
  moreover have "adv_version c \<le> Suc (adv_version (stored s)) \<and> adv_version c \<noteq> Suc (adv_version (stored s))"
    if "pcs s j = Holding c" for j c
    using assms(1) that unfolding cas_inv_def by fastforce
  ultimately show ?thesis
    using assms(1,2) ver unfolding cas_inv_def by (auto split: if_splits)
qed

lemma reachable_inv: "reachable Q ops a0 s \<Longrightarrow> cas_inv ops a0 s"
proof (induction rule: reachable.induct)
  case init
  then show ?case by (simp add: cas_inv_def)
next
  case (next_step s s')
  from next_step.hyps(2) next_step.IH show ?case
    by (cases rule: cas_step.cases) (auto intro: cas_inv_read cas_inv_leave cas_inv_commit)
qed

lemma reachable_free:
  assumes "reachable Q ops a0 s" "\<And>i. \<not> is_report (ops i)" "\<And>i. op_nonneg v (ops i)" "\<And>r. 0 \<le> free_of v a0 r"
  shows "0 \<le> free_of v (stored s) r \<and> free_of v (stored s) r + held_of v (stored s) r = free_of v a0 r + held_of v a0 r"
  using assms(1)
proof (induction arbitrary: r rule: reachable.induct)
  case init
  then show ?case using assms(4) by simp
next
  case (next_step s s')
  from next_step.hyps(2) show ?case
  proof (cases rule: cas_step.cases)
    case (commit i a b)
    have a: "a = stored s" using reachable_inv [OF next_step.hyps(1)] commit unfolding cas_inv_def by blast
    have "0 \<le> free_of v b r"
      by (rule op_result_nonneg [OF commit(3) assms(2,3)]) (use next_step.IH a in blast)
    then show ?thesis
      using op_result_free [OF commit(3) assms(2), of r] op_result_held [OF commit(3), of r] next_step.IH [of r] a commit(1)
      by simp
  qed (use next_step.IH [of r] in simp_all)
qed

end

section \<open>A concrete race\<close>

text \<open>
  Two locks read the same advertisement of 6 free CPUs; the first writes, the second finds its read
  stale, reads again and is refused.
\<close>

definition race_ops :: "nat \<Rightarrow> nano_quantity write_op" where
  "race_ops i = (if i = 0 then LockOp (nano_units 2) (nano_units 8) else LockOp (nano_units 5) (nano_units 8))"

definition race_start :: "nano_quantity ClusterAdvertisement" where
  "race_start = sample_adv ''b'' 6 48"

lemma nano_units_value: "nano_value (nano_units k) = of_int k"
  by (simp add: nano_simps)

lemma race_free: "free_of nano_value race_start r = (case r of ResCPU \<Rightarrow> 6 | ResMemory \<Rightarrow> 48)"
  by (cases r) (simp_all add: race_start_def sample_defs nano_simps)

lemma race_first: obtains b where "op_result nano_ops (race_ops 0) race_start = Some b"
proof -
  have "CanReserve nano_ops race_start (nano_units 2) (nano_units 8)"
    using race_free [of ResCPU] race_free [of ResMemory] by (simp add: nano.CanReserve_iff nano_units_value)
  then show ?thesis by (intro that) (simp add: race_ops_def AddReservation_def)
qed

lemma race_run:
  obtains s where "reachable nano_ops race_ops race_start s" "written s = [0]" "pcs s 1 = Failed"
proof -
  let ?R = "reachable nano_ops race_ops race_start"
  let ?s0 = "\<lparr>stored = race_start, pcs = (\<lambda>_. Ready), written = []\<rparr>"
  have s0: "?R ?s0" by (rule reachable.init)
  let ?s1 = "?s0\<lparr>pcs := (pcs ?s0)(0 := Holding (stored ?s0))\<rparr>"
  have s1: "?R ?s1" by (rule next_step [OF s0 read]) simp
  let ?s2 = "?s1\<lparr>pcs := (pcs ?s1)(1 := Holding (stored ?s1))\<rparr>"
  have s2: "?R ?s2" by (rule next_step [OF s1 read]) simp
  obtain b where b: "op_result nano_ops (race_ops 0) race_start = Some b" by (rule race_first)
  let ?s3 = "?s2\<lparr>stored := bump b, pcs := (pcs ?s2)(0 := Written), written := 0 # written ?s2\<rparr>"
  have s3: "?R ?s3" by (rule next_step [OF s2 commit [where a = race_start]]) (simp_all add: b)
  have vb: "adv_version b = adv_version race_start" by (rule op_result_version [OF b])
  let ?s4 = "?s3\<lparr>pcs := (pcs ?s3)(1 := Ready)\<rparr>"
  have s4: "?R ?s4" by (rule next_step [OF s3 retry [where a = race_start]]) (simp_all add: vb)
  let ?s5 = "?s4\<lparr>pcs := (pcs ?s4)(1 := Holding (stored ?s4))\<rparr>"
  have s5: "?R ?s5" by (rule next_step [OF s4 read]) simp
  have "free_of nano_value (bump b) ResCPU = 4"
    using nano.op_result_free [OF b, of ResCPU] race_free [of ResCPU] by (simp add: race_ops_def nano_units_value)
  then have "op_result nano_ops (race_ops 1) (bump b) = None"
    by (simp add: race_ops_def nano.CanReserve_iff nano_units_value)
  then have "?R (?s5\<lparr>pcs := (pcs ?s5)(1 := Failed)\<rparr>)"
    by (intro next_step [OF s5 refuse [where a = "bump b"]]) simp_all
  then show ?thesis by (rule that) simp_all
qed

section \<open>Properties\<close>

text \<open>
  C7. No lock is lost and none is counted twice, under any interleaving of locks, releases and
  reports with the server's version check: Reserved of the stored advertisement is what it was at
  the start plus the amounts of exactly the writers whose write succeeded, each counted once.
\<close>

theorem concurrent_locks_counted_once:
  assumes "quantity Q v" "reachable Q ops a0 s"
  shows "distinct (written s) \<and> set (written s) = {i. pcs s i = Written} \<and>
    (\<forall>r. held_of v (stored s) r = held_of v a0 r + (\<Sum>i \<leftarrow> written s. op_holds v (ops i) r))"
  using quantity.reachable_inv [OF assms] unfolding quantity.cas_inv_def [OF assms(1)] by blast

lemma concurrent_locks_counted_witness:
  "\<exists>s. reachable nano_ops race_ops race_start s \<and> written s = [0] \<and> pcs s 1 = Failed \<and> held_of nano_value (stored s) ResCPU = 2"
proof -
  obtain s where s: "reachable nano_ops race_ops race_start s" "written s = [0]" "pcs s 1 = Failed"
    by (rule race_run)
  have "held_of nano_value race_start ResCPU = 0" by (simp add: race_start_def sample_defs nano_simps)
  then have "held_of nano_value (stored s) ResCPU = 2"
    using concurrent_locks_counted_once [OF nano.quantity_axioms s(1)] s(2)
    by (simp add: race_ops_def res_cases nano_units_value)
  with s show ?thesis by blast
qed

text \<open>
  C3. No over-allocation under concurrency: while only locks and releases of non-negative amounts
  interleave, Available never becomes negative and Available plus Reserved does not change.
\<close>

theorem concurrent_locks_never_overdraw:
  assumes "quantity Q v" "reachable Q ops a0 s" "\<And>i. \<not> is_report (ops i)" "\<And>i. op_nonneg v (ops i)"
    "\<And>r. 0 \<le> free_of v a0 r"
  shows "0 \<le> free_of v (stored s) r \<and> free_of v (stored s) r + held_of v (stored s) r = free_of v a0 r + held_of v a0 r"
  by (rule quantity.reachable_free [OF assms])

lemma concurrent_locks_overdraw_witness:
  "\<exists>s. reachable nano_ops race_ops race_start s \<and> written s = [0] \<and> 0 \<le> free_of nano_value (stored s) ResCPU"
proof -
  obtain s where s: "reachable nano_ops race_ops race_start s" "written s = [0]"
    by (rule race_run)
  have "0 \<le> free_of nano_value (stored s) ResCPU"
    by (rule conjunct1 [OF concurrent_locks_never_overdraw [OF nano.quantity_axioms s(1)]])
      (simp_all add: race_ops_def race_free nano_units_value split: res.split)
  with s show ?thesis by blast
qed

end
