(* ===== verification/AgentTypes.thy ===== *)
theory AgentTypes
  imports KubeApi Quantity "HOL-Library.Word"
begin

text \<open>
  The agent's API types (resource-agent/api/v1alpha1), one record per Go struct and one field per Go
  field, and the fields of the core Kubernetes types (nodes, pods) that the agent reads. The
  conventions are those of the broker's types; the agent keeps requested amounts as strings.
\<close>

section \<open>Advertisement\<close>

record 'q ResourceQuantities =
  aq_CPU :: 'q
  aq_Memory :: 'q
  aq_GPU :: "'q option"
  aq_Storage :: "'q option"

record 'q ResourceMetrics =
  am_Capacity :: "'q ResourceQuantities"
  am_Allocatable :: "'q ResourceQuantities"
  am_Allocated :: "'q ResourceQuantities"
  am_Used :: "'q ResourceQuantities option"
  am_Available :: "'q ResourceQuantities"

record CostInfo =
  aco_CPUCost :: string
  aco_MemoryCost :: string
  aco_Currency :: string
  aco_Renewable :: bool
  aco_EnergyCost :: float64

record 'q AdvertisementSpec =
  asp_ClusterID :: string
  asp_Resources :: "'q ResourceMetrics"
  asp_Policy :: string
  asp_Cost :: "CostInfo option"
  asp_Timestamp :: time

record AdvertisementStatus =
  ast_Phase :: string
  ast_LastUpdateTime :: time
  ast_Published :: bool
  ast_Message :: string

type_synonym 'q Advertisement = "('q AdvertisementSpec, AdvertisementStatus) Obj"

section \<open>ProviderInstruction\<close>

record ProviderInstructionSpec =
  pis_ReservationName :: string
  pis_RequesterClusterID :: string
  pis_RequestedCPU :: string
  pis_RequestedMemory :: string
  pis_RequestedGPU :: string
  pis_Message :: string
  pis_ExpiresAt :: "time option"

record ProviderInstructionStatus =
  pst_Enforced :: bool
  pst_LastUpdateTime :: time

type_synonym ProviderInstruction = "(ProviderInstructionSpec, ProviderInstructionStatus) Obj"

definition zero_pi_status :: ProviderInstructionStatus where
  "zero_pi_status = \<lparr>pst_Enforced = False, pst_LastUpdateTime = 0\<rparr>"

section \<open>ReservationInstruction\<close>

record ReservationInstructionSpec =
  ris_ReservationName :: string
  ris_TargetClusterID :: string
  ris_RequestedCPU :: string
  ris_RequestedMemory :: string
  ris_RequestedGPU :: string
  ris_Message :: string
  ris_ExpiresAt :: "time option"
  ris_PeeringKubeconfig :: string

record ReservationInstructionStatus =
  rit_ObservedReservationResourceVersion :: string
  rit_Delivered :: bool
  rit_LastUpdateTime :: time

type_synonym ReservationInstruction = "(ReservationInstructionSpec, ReservationInstructionStatus) Obj"

definition zero_ri_status :: ReservationInstructionStatus where
  "zero_ri_status =
     \<lparr>rit_ObservedReservationResourceVersion = [], rit_Delivered = False, rit_LastUpdateTime = 0\<rparr>"

section \<open>ResourceRequest\<close>

record ResourceRequestSpec =
  rqs_RequestedCPU :: string
  rqs_RequestedMemory :: string
  rqs_RequestedGPU :: string
  rqs_Priority :: "32 word"
  rqs_Duration :: string

record ResourceRequestStatus =
  rqt_Phase :: string
  rqt_TargetClusterID :: string
  rqt_ReservationName :: string
  rqt_Message :: string
  rqt_LastUpdateTime :: time

type_synonym ResourceRequest = "(ResourceRequestSpec, ResourceRequestStatus) Obj"

section \<open>Nodes and pods\<close>

text \<open>
  A \<open>corev1.ResourceList\<close> is a map from resource names; a node condition is its type and status.
\<close>

type_synonym 'q resource_list = "string \<rightharpoonup> 'q"

record 'q Node =
  nd_Conditions :: "(string \<times> string) list"
  nd_Capacity :: "'q resource_list"
  nd_Allocatable :: "'q resource_list"

record 'q Container =
  ct_Requests :: "'q resource_list"
  ct_Ports :: "(string \<times> int) list"

record 'q Pod =
  pd_Name :: string
  pd_Phase :: string
  pd_PodIP :: string
  pd_Containers :: "'q Container list"
  pd_InitContainers :: "'q Container list"
  pd_Overhead :: "'q resource_list option"

section \<open>More methods of a quantity\<close>

text \<open>
  What only the agent uses of \<open>resource.Quantity\<close>: the zero value of the struct, \<open>Value\<close> and
  \<open>MilliValue\<close> (the amount and a thousand times the amount, rounded up, while it fits an \<open>int64\<close>),
  \<open>NewMilliQuantity\<close> and \<open>Equal\<close>.
\<close>

record 'q QuantityMore =
  qm_Zero :: 'q
  qm_Value :: "'q \<Rightarrow> int"
  qm_MilliValue :: "'q \<Rightarrow> int"
  qm_NewMilli :: "int \<Rightarrow> QFormat \<Rightarrow> 'q"
  qm_Equal :: "'q \<Rightarrow> 'q \<Rightarrow> bool"

definition max_int64 :: int where
  "max_int64 = 9223372036854775807"

locale quantity_more = quantity Q v
  for Q :: "'q QuantityOps" and v :: "'q \<Rightarrow> rat" +
  fixes M :: "'q QuantityMore"
  assumes v_zero [simp]: "v (qm_Zero M) = 0"
    and value_ceiling: "0 \<le> v a \<Longrightarrow> v a \<le> of_int max_int64 \<Longrightarrow> qm_Value M a = \<lceil>v a\<rceil>"
    and milli_ceiling: "0 \<le> v a \<Longrightarrow> v a * 1000 \<le> of_int max_int64 \<Longrightarrow> qm_MilliValue M a = \<lceil>v a * 1000\<rceil>"
    and v_new_milli [simp]: "v (qm_NewMilli M n f) = of_int n / 1000"
    and equal_iff: "qm_Equal M a b \<longleftrightarrow> v a = v b"

definition nano_more :: "nano_quantity QuantityMore" where
  "nano_more =
     \<lparr>qm_Zero = \<lparr>nq_nano = 0, nq_format = DecimalSI\<rparr>,
      qm_Value = (\<lambda>a. \<lceil>nano_value a\<rceil>),
      qm_MilliValue = (\<lambda>a. \<lceil>nano_value a * 1000\<rceil>),
      qm_NewMilli = (\<lambda>n f. \<lparr>nq_nano = n * 1000000, nq_format = f\<rparr>),
      qm_Equal = (\<lambda>a b. nq_nano a = nq_nano b)\<rparr>"

interpretation nano_more: quantity_more nano_ops nano_value nano_more
  by unfold_locales (simp_all add: nano_more_def nano_value_def)

section \<open>float64 to int64\<close>

text \<open>
  \<open>int64(f)\<close> drops the fraction. Go leaves the result open outside the range; on amd64 it is the
  smallest integer.
\<close>

fun fl_to_int64 :: "float64 \<Rightarrow> int" where
  "fl_to_int64 (Fin r) =
     (let n = (if 0 \<le> r then \<lfloor>r\<rfloor> else \<lceil>r\<rceil>)
      in if - max_int64 - 1 \<le> n \<and> n \<le> max_int64 then n else - max_int64 - 1)"
| "fl_to_int64 _ = - max_int64 - 1"

end
