(* ===== verification/AgentDto.thy ===== *)
theory AgentDto
  imports AgentTypes
begin

text \<open>
  The agent's side of the wire format (resource-agent/internal/transport/dto). The structs have the
  JSON field names of the broker's; the two programs share no code, so they are separate types here
  too (the theory \<open>Wire\<close> puts them together).
\<close>

section \<open>The DTOs\<close>

record ResourceQuantitiesDTO =
  xq_CPU :: string
  xq_Memory :: string
  xq_GPU :: string
  xq_Storage :: string

record ResourceMetricsDTO =
  xm_Capacity :: ResourceQuantitiesDTO
  xm_Allocatable :: ResourceQuantitiesDTO
  xm_Allocated :: ResourceQuantitiesDTO
  xm_Reserved :: "ResourceQuantitiesDTO option"
  xm_Available :: ResourceQuantitiesDTO

record CostInfoDTO =
  xc_Renewable :: bool
  xc_EnergyCost :: float64

record LocationDTO =
  xl_ContinentCode :: string
  xl_CountryCode :: string
  xl_Region :: string
  xl_RegionName :: string
  xl_City :: string
  xl_Lat :: float64
  xl_Lon :: float64
  xl_ISP :: string
  xl_Org :: string
  xl_AS :: string

record AdvertisementDTO =
  xa_ClusterID :: string
  xa_ClusterName :: string
  xa_Resources :: ResourceMetricsDTO
  xa_Cost :: "CostInfoDTO option"
  xa_Location :: "LocationDTO option"
  xa_Policy :: string
  xa_Timestamp :: time
  xa_CarbonIntensity :: "int list"
  xa_CarbonLastUpdate :: "time option"

record ReservationStatusDTO =
  xs_Phase :: string
  xs_Message :: string
  xs_ReservedAt :: "time option"
  xs_ExpiresAt :: "time option"
  xs_PeeringKubeconfig :: string

record ReservationDTO =
  xv_ID :: string
  xv_RequesterID :: string
  xv_TargetClusterID :: string
  xv_RequestedResources :: ResourceQuantitiesDTO
  xv_Status :: ReservationStatusDTO
  xv_CreatedAt :: time

record ReservationRequestDTO =
  xb_RequestedResources :: ResourceQuantitiesDTO
  xb_Priority :: "32 word"
  xb_Duration :: string
  xb_TargetClusterID :: string
  xb_Location :: "LocationDTO option"
  xb_CurrentProviderID :: string
  xb_MeasuredLatencyMs :: "float64 option"

record CandidateClusterDTO =
  xk_ClusterID :: string
  xk_Information :: string

record EvaluationResponseDTO =
  xe_CandidateClusters :: "CandidateClusterDTO list"

record AdvertisementResponseDTO =
  xp_Advertisement :: "AdvertisementDTO option"
  xp_ProviderInstructions :: "ReservationDTO list"

section \<open>Conversions\<close>

definition toResourceQuantitiesDTO :: "'q QuantityOps \<Rightarrow> 'q ResourceQuantities \<Rightarrow> ResourceQuantitiesDTO" where
  "toResourceQuantitiesDTO Q rq =
     \<lparr>xq_CPU = q_String Q (aq_CPU rq),
      xq_Memory = q_String Q (aq_Memory rq),
      xq_GPU = (case aq_GPU rq of None \<Rightarrow> '''' | Some g \<Rightarrow> q_String Q g),
      xq_Storage = (case aq_Storage rq of None \<Rightarrow> '''' | Some s \<Rightarrow> q_String Q s)\<rparr>"

text \<open>An optional amount: the empty string is absent.\<close>

definition optional_amount :: "'q QuantityOps \<Rightarrow> string \<Rightarrow> string + 'q option" where
  "optional_amount Q s =
     (if s = '''' then Inr None
      else case q_Parse Q s of Inl e \<Rightarrow> Inl e | Inr q \<Rightarrow> Inr (Some q))"

definition fromResourceQuantitiesDTO ::
  "'q QuantityOps \<Rightarrow> ResourceQuantitiesDTO \<Rightarrow> string + 'q ResourceQuantities" where
  "fromResourceQuantitiesDTO Q d =
     (case q_Parse Q (xq_CPU d) of
        Inl e \<Rightarrow> Inl e
      | Inr cpu \<Rightarrow>
     (case q_Parse Q (xq_Memory d) of
        Inl e \<Rightarrow> Inl e
      | Inr mem \<Rightarrow>
     (case optional_amount Q (xq_GPU d) of
        Inl e \<Rightarrow> Inl e
      | Inr gpu \<Rightarrow>
     (case optional_amount Q (xq_Storage d) of
        Inl e \<Rightarrow> Inl e
      | Inr storage \<Rightarrow>
          Inr \<lparr>aq_CPU = cpu, aq_Memory = mem, aq_GPU = gpu, aq_Storage = storage\<rparr>))))"

text \<open>The timestamp is the moment of the conversion, and Reserved is left to the broker.\<close>

definition ToAdvertisementDTO :: "'q QuantityOps \<Rightarrow> time \<Rightarrow> 'q Advertisement \<Rightarrow> AdvertisementDTO" where
  "ToAdvertisementDTO Q now adv =
     (let s = o_spec adv; m = asp_Resources s
      in \<lparr>xa_ClusterID = asp_ClusterID s, xa_ClusterName = o_Name adv,
          xa_Resources =
            \<lparr>xm_Capacity = toResourceQuantitiesDTO Q (am_Capacity m),
             xm_Allocatable = toResourceQuantitiesDTO Q (am_Allocatable m),
             xm_Allocated = toResourceQuantitiesDTO Q (am_Allocated m),
             xm_Reserved = None,
             xm_Available = toResourceQuantitiesDTO Q (am_Available m)\<rparr>,
          xa_Cost = (case asp_Cost s of
              None \<Rightarrow> None
            | Some c \<Rightarrow> Some \<lparr>xc_Renewable = aco_Renewable c, xc_EnergyCost = aco_EnergyCost c\<rparr>),
          xa_Location = None, xa_Policy = asp_Policy s, xa_Timestamp = now,
          xa_CarbonIntensity = [], xa_CarbonLastUpdate = None\<rparr>)"

definition FromReservationDTO :: "ReservationDTO \<Rightarrow> string \<times> string \<times> string \<times> string \<times> time option" where
  "FromReservationDTO d =
     (xv_RequesterID d, xv_TargetClusterID d, xq_CPU (xv_RequestedResources d),
      xq_Memory (xv_RequestedResources d), xs_ExpiresAt (xv_Status d))"

end
