(* ===== verification/AgentWorld.thy ===== *)
theory AgentWorld
  imports AgentDto
begin

text \<open>
  The agent's environment: the Kubernetes API of its own cluster, the clock, and the interface
  \<open>transport.BrokerCommunicator\<close> through which it talks to the broker. \<open>agent_mem\<close> is an executable
  environment on which the hypotheses of the theorems are discharged.
\<close>

section \<open>transport/interface.go\<close>

record 'w BrokerCommunicator =
  bc_PublishAdvertisement :: "AdvertisementDTO \<Rightarrow> ('w, go_error + ReservationDTO list) state"
  bc_RequestReservation :: "ReservationRequestDTO \<Rightarrow> ('w, go_error + ReservationDTO) state"
  bc_EvaluateProviders :: "ReservationRequestDTO \<Rightarrow> ('w, go_error + EvaluationResponseDTO) state"
  bc_FetchInstructions :: "('w, go_error + ReservationDTO list) state"
  bc_GetReservation :: "string \<Rightarrow> ('w, go_error + ReservationDTO) state"
  bc_UploadPeeringKubeconfig :: "string \<Rightarrow> string \<Rightarrow> ('w, go_error + unit) state"
  bc_Ping :: "('w, go_error + unit) state"
  bc_Close :: "('w, go_error + unit) state"

section \<open>The environment\<close>

text \<open>
  \<open>g_pods\<close> lists all pods or those of one namespace, \<open>g_namespace_uid\<close> reads the UID of a namespace,
  \<open>g_rand\<close> is \<open>rand.Int63n\<close>, and the delete of a reservation instruction is the one \<open>Delete\<close> the
  agent uses.
\<close>

record ('w, 'q) AgentEnv =
  g_Q :: "'q QuantityOps"
  g_M :: "'q QuantityMore"
  g_now :: "('w, time) state"
  g_rand :: "int \<Rightarrow> ('w, int) state"
  g_nodes :: "('w, ApiError + 'q Node list) state"
  g_pods :: "string option \<Rightarrow> ('w, ApiError + 'q Pod list) state"
  g_namespace_uid :: "string \<Rightarrow> ('w, ApiError + string) state"
  g_adv :: "('w, 'q AdvertisementSpec, AdvertisementStatus) Client"
  g_pi :: "('w, ProviderInstructionSpec, ProviderInstructionStatus) Client"
  g_ri :: "('w, ReservationInstructionSpec, ReservationInstructionStatus) Client"
  g_rr :: "('w, ResourceRequestSpec, ResourceRequestStatus) Client"
  g_delete_ri :: "ReservationInstruction \<Rightarrow> ('w, ApiError + unit) state"
  g_retry :: "('w, unit) retry"

definition g_since :: "('w, 'q) AgentEnv \<Rightarrow> time \<Rightarrow> ('w, duration) state" where
  "g_since E t = State_Monad.bind (g_now E) (\<lambda>now. ret (time_sub now t))"

definition g_until :: "('w, 'q) AgentEnv \<Rightarrow> time \<Rightarrow> ('w, duration) state" where
  "g_until E t = State_Monad.bind (g_now E) (\<lambda>now. ret (time_sub t now))"

lemma keeps_g_since [keeps_intros]: "keeps f (g_now E) \<Longrightarrow> keeps f (g_since E t)"
  unfolding g_since_def by (rule keeps_bind) (auto intro: keeps_return)

lemma keeps_g_until [keeps_intros]: "keeps f (g_now E) \<Longrightarrow> keeps f (g_until E t)"
  unfolding g_until_def by (rule keeps_bind) (auto intro: keeps_return)

section \<open>Delete\<close>

text \<open>
  \<open>Delete\<close> of an object with finalizers only marks it, so that the controllers can finish; without
  finalizers the object goes. A failed call changes nothing.
\<close>

locale deleting_client = kube_client C objs
  for C :: "('w, 's, 't) Client" and objs :: "'w \<Rightarrow> ('s, 't) store" +
  fixes D :: "('s, 't) Obj \<Rightarrow> ('w, ApiError + unit) state"
  assumes delete_ok: "run_state (D x) w = (Inr u, w') \<Longrightarrow>
      \<exists>old. objs w (obj_key x) = Some old \<and>
        (if m_Finalizers (o_meta old) = [] then objs w' = (objs w)(obj_key x := None)
         else \<exists>y. objs w' = (objs w)(obj_key x \<mapsto> y) \<and> obj_key y = obj_key x \<and> o_spec y = o_spec old \<and>
           o_status y = o_status old \<and> m_Finalizers (o_meta y) = m_Finalizers (o_meta old) \<and>
           m_DeletionTimestamp (o_meta y) \<noteq> None)"
    and delete_fail: "run_state (D x) w = (Inl e, w') \<Longrightarrow> objs w' = objs w"
    and delete_missing: "run_state (D x) w = (Inl (NotFound s), w') \<Longrightarrow> objs w (obj_key x) = None"

definition mem_delete ::
  "('w \<Rightarrow> ('s, 't) Obj list) \<Rightarrow> (('s, 't) Obj list \<Rightarrow> 'w \<Rightarrow> 'w) \<Rightarrow> ('w \<Rightarrow> time) \<Rightarrow> ('s, 't) Obj \<Rightarrow>
   ('w, ApiError + unit) state" where
  "mem_delete get put clock x =
     State (\<lambda>w. case store_get (get w) (obj_key x) of
         None \<Rightarrow> (Inl (NotFound ''not found''), w)
       | Some old \<Rightarrow>
           (Inr (), put (if m_Finalizers (o_meta old) = [] then store_del (obj_key x) (get w)
              else store_put (old\<lparr>o_meta := (next_version (o_meta old))\<lparr>m_DeletionTimestamp := Some (clock w)\<rparr>\<rparr>) (get w)) w))"

context store_lens
begin

lemma mem_deleting: "deleting_client (mem_client get put) (\<lambda>w. store_get (get w)) (mem_delete get put clock)"
proof unfold_locales
  fix x w u w'
  assume run: "run_state (mem_delete get put clock x) w = (Inr u, w')"
  then obtain old where old: "store_get (get w) (obj_key x) = Some old"
    by (auto simp: mem_delete_def split: option.splits)
  then have k: "obj_key old = obj_key x" using store_get_Some by blast
  let ?y = "old\<lparr>o_meta := (next_version (o_meta old))\<lparr>m_DeletionTimestamp := Some (clock w)\<rparr>\<rparr>"
  have y: "obj_key ?y = obj_key x" using k by (simp add: meta_key_def next_version_def)
  have "store_get (store_put ?y (get w)) = (store_get (get w))(obj_key x \<mapsto> ?y)"
    using store_put_get [of "get w" ?y old] old y by simp
  with run old y show "\<exists>old. store_get (get w) (obj_key x) = Some old \<and>
      (if m_Finalizers (o_meta old) = [] then store_get (get w') = (store_get (get w))(obj_key x := None)
       else \<exists>y. store_get (get w') = (store_get (get w))(obj_key x \<mapsto> y) \<and> obj_key y = obj_key x \<and>
         o_spec y = o_spec old \<and> o_status y = o_status old \<and>
         m_Finalizers (o_meta y) = m_Finalizers (o_meta old) \<and> m_DeletionTimestamp (o_meta y) \<noteq> None)"
    by (intro exI [of _ old] conjI)
      (auto simp: mem_delete_def store_del_get next_version_def intro!: exI [of _ ?y] split: if_splits)
qed (auto simp: mem_delete_def split: option.splits)

end

section \<open>An executable environment\<close>

record agent_world =
  aw_nodes :: "nano_quantity Node list"
  aw_pods :: "nano_quantity Pod list"
  aw_advs :: "nano_quantity Advertisement list"
  aw_pis :: "ProviderInstruction list"
  aw_ris :: "ReservationInstruction list"
  aw_rrs :: "ResourceRequest list"
  aw_clock :: time
  aw_commands :: "string list list"

definition agent_env :: "(agent_world, nano_quantity) AgentEnv" where
  "agent_env =
     \<lparr>g_Q = nano_ops, g_M = nano_more,
      g_now = State (\<lambda>w. (aw_clock w, w)),
      g_rand = (\<lambda>n. ret 0),
      g_nodes = State (\<lambda>w. (Inr (aw_nodes w), w)),
      g_pods = (\<lambda>ns. State (\<lambda>w. (Inr (aw_pods w), w))),
      g_namespace_uid = (\<lambda>n. ret (Inr ''uid'')),
      g_adv = mem_client aw_advs (\<lambda>xs. aw_advs_update (\<lambda>_. xs)),
      g_pi = mem_client aw_pis (\<lambda>xs. aw_pis_update (\<lambda>_. xs)),
      g_ri = mem_client aw_ris (\<lambda>xs. aw_ris_update (\<lambda>_. xs)),
      g_rr = mem_client aw_rrs (\<lambda>xs. aw_rrs_update (\<lambda>_. xs)),
      g_delete_ri = mem_delete aw_ris (\<lambda>xs. aw_ris_update (\<lambda>_. xs)) aw_clock,
      g_retry = attempts 4\<rparr>"

interpretation aw_adv: store_lens aw_advs "\<lambda>xs. aw_advs_update (\<lambda>_. xs)"
  by standard simp

interpretation aw_pi: store_lens aw_pis "\<lambda>xs. aw_pis_update (\<lambda>_. xs)"
  by standard simp

interpretation aw_ri: store_lens aw_ris "\<lambda>xs. aw_ris_update (\<lambda>_. xs)"
  by standard simp

interpretation aw_rr: store_lens aw_rrs "\<lambda>xs. aw_rrs_update (\<lambda>_. xs)"
  by standard simp

interpretation aw_ri_delete: deleting_client "mem_client aw_ris (\<lambda>xs. aw_ris_update (\<lambda>_. xs))"
  "\<lambda>w. store_get (aw_ris w)" "mem_delete aw_ris (\<lambda>xs. aw_ris_update (\<lambda>_. xs)) aw_clock"
  by (rule aw_ri.mem_deleting)

lemma agent_env_simps [simp]:
  "g_Q agent_env = nano_ops" "g_M agent_env = nano_more" "run_state (g_now agent_env) w = (aw_clock w, w)"
  "run_state (g_nodes agent_env) w = (Inr (aw_nodes w), w)" "run_state (g_pods agent_env ns) w = (Inr (aw_pods w), w)"
  "g_adv agent_env = mem_client aw_advs (\<lambda>xs. aw_advs_update (\<lambda>_. xs))"
  "g_pi agent_env = mem_client aw_pis (\<lambda>xs. aw_pis_update (\<lambda>_. xs))"
  "g_ri agent_env = mem_client aw_ris (\<lambda>xs. aw_ris_update (\<lambda>_. xs))"
  "g_rr agent_env = mem_client aw_rrs (\<lambda>xs. aw_rrs_update (\<lambda>_. xs))"
  "g_delete_ri agent_env = mem_delete aw_ris (\<lambda>xs. aw_ris_update (\<lambda>_. xs)) aw_clock"
  "g_retry agent_env = attempts 4" "g_rand agent_env n = ret 0"
  by (simp_all add: agent_env_def)

definition sample_instruction :: "string \<Rightarrow> ProviderInstruction" where
  "sample_instruction n =
     \<lparr>o_meta = (new_meta n ''default'')\<lparr>m_ResourceVersion := 1\<rparr>,
      o_spec = \<lparr>pis_ReservationName = ''rsv-a-1'', pis_RequesterClusterID = ''a'', pis_RequestedCPU = ''2'',
        pis_RequestedMemory = ''8'', pis_RequestedGPU = [], pis_Message = [], pis_ExpiresAt = None\<rparr>,
      o_status = zero_pi_status\<lparr>pst_Enforced := True\<rparr>\<rparr>"

definition sample_agent_world :: agent_world where
  "sample_agent_world =
     \<lparr>aw_nodes =
        [\<lparr>nd_Conditions = [(''Ready'', ''True'')],
          nd_Capacity = [''cpu'' \<mapsto> nano_units 8, ''memory'' \<mapsto> nano_units 64],
          nd_Allocatable = [''cpu'' \<mapsto> nano_units 8, ''memory'' \<mapsto> nano_units 64]\<rparr>],
      aw_pods =
        [\<lparr>pd_Name = ''p'', pd_Phase = ''Running'', pd_PodIP = [], pd_Containers =
            [\<lparr>ct_Requests = [''cpu'' \<mapsto> nano_units 2, ''memory'' \<mapsto> nano_units 16], ct_Ports = []\<rparr>],
          pd_InitContainers = [\<lparr>ct_Requests = [''cpu'' \<mapsto> nano_units 3], ct_Ports = []\<rparr>], pd_Overhead = None\<rparr>],
      aw_advs = [], aw_pis = [sample_instruction ''rsv-a-1-provider''], aw_ris = [], aw_rrs = [],
      aw_clock = 10 * go_hour, aw_commands = []\<rparr>"

definition sample_agent_metrics :: "nano_quantity ResourceMetrics" where
  "sample_agent_metrics =
     (let a = (\<lambda>c m. \<lparr>aq_CPU = nano_units c, aq_Memory = nano_units m, aq_GPU = None, aq_Storage = None\<rparr>)
      in \<lparr>am_Capacity = a 8 64, am_Allocatable = a 8 64, am_Allocated = a 3 16, am_Used = None, am_Available = a 3 40\<rparr>)"

definition sample_agent_adv :: "nano_quantity Advertisement" where
  "sample_agent_adv =
     \<lparr>o_meta = (new_meta ''adv'' ''default'')\<lparr>m_ResourceVersion := 1\<rparr>,
      o_spec = \<lparr>asp_ClusterID = ''b'', asp_Resources = sample_agent_metrics, asp_Policy = [], asp_Cost = None, asp_Timestamp = 0\<rparr>,
      o_status = \<lparr>ast_Phase = [], ast_LastUpdateTime = 0, ast_Published = False, ast_Message = []\<rparr>\<rparr>"

text \<open>A broker that cannot be reached.\<close>

definition silent_broker :: "'w BrokerCommunicator" where
  "silent_broker =
     \<lparr>bc_PublishAdvertisement = (\<lambda>d. ret (Inl (ErrMsg ''connection refused''))),
      bc_RequestReservation = (\<lambda>d. ret (Inl (ErrMsg ''connection refused''))),
      bc_EvaluateProviders = (\<lambda>d. ret (Inl (ErrMsg ''connection refused''))),
      bc_FetchInstructions = ret (Inl (ErrMsg ''connection refused'')),
      bc_GetReservation = (\<lambda>d. ret (Inl (ErrMsg ''connection refused''))),
      bc_UploadPeeringKubeconfig = (\<lambda>d k. ret (Inl (ErrMsg ''connection refused''))),
      bc_Ping = ret (Inl (ErrMsg ''connection refused'')), bc_Close = ret (Inr ())\<rparr>"

end
