(* ===== verification/AgentHttp.thy ===== *)
theory AgentHttp
  imports AgentWorld ManagerSetup
begin

text \<open>
  The agent's HTTP transport (resource-agent/internal/transport/http/client.go): every call of the
  interface \<open>BrokerCommunicator\<close> over requests to the broker, and \<open>doWithRetry\<close> with its exponential
  backoff. The HTTP client, JSON and the context are of the standard library: \<open>h_do\<close> sends a request
  and gives the reply or an error, \<open>h_sleep\<close> waits for a duration and tells whether it passed before
  the context was cancelled, the \<open>enc\<close> and \<open>dec\<close> fields are \<open>json.Marshal\<close> and \<open>json.Decoder\<close>.
\<close>

record Request =
  rq_Method :: string
  rq_URL :: string
  rq_Body :: "string option"

record Reply =
  rp_StatusCode :: int
  rp_Body :: string

record 'w HttpEnv =
  h_new_request_error :: "string \<Rightarrow> go_error option"
  h_do :: "Request \<Rightarrow> ('w, go_error + Reply) state"
  h_sleep :: "duration \<Rightarrow> ('w, bool) state"
  h_ctx_err :: go_error
  enc_advertisement :: "AdvertisementDTO \<Rightarrow> go_error + string"
  enc_request :: "ReservationRequestDTO \<Rightarrow> go_error + string"
  enc_kubeconfig :: "string \<Rightarrow> go_error + string"
  dec_advertisement :: "string \<Rightarrow> go_error + AdvertisementDTO"
  dec_response :: "string \<Rightarrow> go_error + AdvertisementResponseDTO"
  dec_reservation :: "string \<Rightarrow> go_error + ReservationDTO"
  dec_reservations :: "string \<Rightarrow> go_error + ReservationDTO list"
  dec_evaluation :: "string \<Rightarrow> go_error + EvaluationResponseDTO"

record HTTPCommunicator =
  hc_baseURL :: string
  hc_clusterID :: string
  hc_maxRetries :: int

text \<open>The configuration of the HTTP client and its transport.\<close>

record ('c, 'p) HttpClient =
  hx_TLS :: "('c, 'p) TlsConfig"
  hx_MaxIdleConns :: int
  hx_MaxConnsPerHost :: int
  hx_IdleConnTimeout :: duration
  hx_TLSHandshakeTimeout :: duration
  hx_Timeout :: duration

definition NewHTTPCommunicator ::
  "('w, 'c, 'p) CryptoEnv \<Rightarrow> string \<Rightarrow> string \<Rightarrow> string \<Rightarrow>
   ('w, go_error + ('c, 'p) HttpClient \<times> HTTPCommunicator) state" where
  "NewHTTPCommunicator Y brokerURL certPath clusterID = do {
     loaded \<leftarrow> load_mtls Y ''client'' certPath;
     ret (case loaded of
         Inl e \<Rightarrow> Inl e
       | Inr (cert, caCertPool) \<Rightarrow>
           Inr
             (\<lparr>hx_TLS = zero_tls\<lparr>tc_Certificates := [cert], tc_RootCAs := Some caCertPool, tc_MinVersion := VersionTLS12\<rparr>,
               hx_MaxIdleConns = 10, hx_MaxConnsPerHost = 10, hx_IdleConnTimeout = 90 * go_second,
               hx_TLSHandshakeTimeout = 10 * go_second, hx_Timeout = 30 * go_second\<rparr>,
              \<lparr>hc_baseURL = brokerURL, hc_clusterID = clusterID, hc_maxRetries = 3\<rparr>))
   }"

lemma NewHTTPCommunicator_retries:
  "run_state (NewHTTPCommunicator Y url certPath cid) w = (Inr (client, c), w') \<Longrightarrow> hc_maxRetries c = 3"
  by (auto simp: NewHTTPCommunicator_def split: prod.splits sum.splits)

section \<open>doWithRetry\<close>

definition first_backoff :: duration where "first_backoff = 1 * go_second"
definition max_backoff :: duration where "max_backoff = 16 * go_second"

definition next_backoff :: "duration \<Rightarrow> duration" where
  "next_backoff b = (if b * 2 > max_backoff then max_backoff else b * 2)"

text \<open>
  The loop with \<open>n\<close> attempts left after this one. A reply of 500 or more has had its body closed
  when it is returned after the last attempt, so nothing more can be read from it.
\<close>

fun retry_loop :: "'w HttpEnv \<Rightarrow> Request \<Rightarrow> nat \<Rightarrow> duration \<Rightarrow> ('w, go_error + Reply) state" where
  "retry_loop H req 0 backoff = State_Monad.bind (h_do H req) (\<lambda>r.
     case r of
       Inl e \<Rightarrow> ret (Inl (ErrWrap ''max retries exceeded'' e))
     | Inr resp \<Rightarrow>
         if rp_StatusCode resp < 500 then ret (Inr resp) else ret (Inr (resp\<lparr>rp_Body := []\<rparr>)))"
| "retry_loop H req (Suc n) backoff = State_Monad.bind (h_do H req) (\<lambda>r.
     case r of
       Inr resp \<Rightarrow>
         if rp_StatusCode resp < 500 then ret (Inr resp)
         else State_Monad.bind (h_sleep H backoff) (\<lambda>passed.
           if passed then retry_loop H req n (next_backoff backoff) else ret (Inl (h_ctx_err H)))
     | Inl e \<Rightarrow> State_Monad.bind (h_sleep H backoff) (\<lambda>passed.
           if passed then retry_loop H req n (next_backoff backoff) else ret (Inl (h_ctx_err H))))"

definition doWithRetry :: "'w HttpEnv \<Rightarrow> HTTPCommunicator \<Rightarrow> Request \<Rightarrow> ('w, go_error + Reply) state" where
  "doWithRetry H c req =
     (if hc_maxRetries c < 0 then ret (Inl (ErrMsg ''max retries exceeded''))
      else retry_loop H req (nat (hc_maxRetries c)) first_backoff)"

section \<open>The calls\<close>

definition status_error :: "Reply \<Rightarrow> go_error" where
  "status_error resp = ErrMsg (''broker returned status '' @ show_int (rp_StatusCode resp) @ '': '' @ rp_Body resp)"

definition new_request ::
  "'w HttpEnv \<Rightarrow> string \<Rightarrow> string \<Rightarrow> string option \<Rightarrow> string \<Rightarrow> go_error + Request" where
  "new_request H m url body what =
     (case h_new_request_error H url of
        Some e \<Rightarrow> Inl (ErrWrap what e)
      | None \<Rightarrow> Inr \<lparr>rq_Method = m, rq_URL = url, rq_Body = body\<rparr>)"

text \<open>Step 1 of a publication: the broker's Reserved replaces the agent's, if it can be read.\<close>

definition preserve_reserved :: "'w HttpEnv \<Rightarrow> go_error + Reply \<Rightarrow> AdvertisementDTO \<Rightarrow> AdvertisementDTO" where
  "preserve_reserved H got adv =
     (case got of
        Inl _ \<Rightarrow> adv
      | Inr resp \<Rightarrow>
          if rp_StatusCode resp = 200 then
            (case dec_advertisement H (rp_Body resp) of
               Inl _ \<Rightarrow> adv
             | Inr existing \<Rightarrow>
                 (case xm_Reserved (xa_Resources existing) of
                    None \<Rightarrow> adv
                  | Some r \<Rightarrow> adv\<lparr>xa_Resources := (xa_Resources adv)\<lparr>xm_Reserved := Some r\<rparr>\<rparr>))
          else adv)"

definition PublishAdvertisement ::
  "'w HttpEnv \<Rightarrow> HTTPCommunicator \<Rightarrow> AdvertisementDTO \<Rightarrow> ('w, go_error + ReservationDTO list) state" where
  "PublishAdvertisement H c adv =
     (case new_request H ''GET'' (hc_baseURL c @ ''/api/v1/advertisements/'' @ xa_ClusterID adv) None
             ''failed to create GET request'' of
        Inl e \<Rightarrow> ret (Inl e)
      | Inr get_req \<Rightarrow> do {
          got \<leftarrow> doWithRetry H c get_req;
          let adv' = preserve_reserved H got adv;
          case enc_advertisement H adv' of
            Inl e \<Rightarrow> ret (Inl (ErrWrap ''failed to marshal advertisement'' e))
          | Inr body \<Rightarrow>
              (case new_request H ''POST'' (hc_baseURL c @ ''/api/v1/advertisements'') (Some body)
                      ''failed to create POST request'' of
                 Inl e \<Rightarrow> ret (Inl e)
               | Inr post_req \<Rightarrow> do {
                   posted \<leftarrow> doWithRetry H c post_req;
                   ret (case posted of
                       Inl e \<Rightarrow> Inl (ErrWrap ''failed to publish advertisement'' e)
                     | Inr resp \<Rightarrow>
                         if rp_StatusCode resp \<noteq> 200 \<and> rp_StatusCode resp \<noteq> 201 then Inl (status_error resp)
                         else case dec_response H (rp_Body resp) of
                             Inl _ \<Rightarrow> Inr []
                           | Inr r \<Rightarrow> Inr (xp_ProviderInstructions r))
                 })
        })"

definition RequestReservation ::
  "'w HttpEnv \<Rightarrow> HTTPCommunicator \<Rightarrow> ReservationRequestDTO \<Rightarrow> ('w, go_error + ReservationDTO) state" where
  "RequestReservation H c d =
     (case enc_request H d of
        Inl e \<Rightarrow> ret (Inl (ErrWrap ''failed to marshal reservation request'' e))
      | Inr body \<Rightarrow>
          (case new_request H ''POST'' (hc_baseURL c @ ''/api/v1/reservations'') (Some body) ''failed to create request'' of
             Inl e \<Rightarrow> ret (Inl e)
           | Inr req \<Rightarrow> do {
               r \<leftarrow> doWithRetry H c req;
               ret (case r of
                   Inl e \<Rightarrow> Inl (ErrWrap ''failed to send reservation request'' e)
                 | Inr resp \<Rightarrow>
                     if rp_StatusCode resp \<noteq> 201 \<and> rp_StatusCode resp \<noteq> 200 then Inl (status_error resp)
                     else case dec_reservation H (rp_Body resp) of
                         Inl e \<Rightarrow> Inl (ErrWrap ''failed to decode reservation response'' e)
                       | Inr reservation \<Rightarrow> Inr reservation)
             }))"

definition EvaluateProviders ::
  "'w HttpEnv \<Rightarrow> HTTPCommunicator \<Rightarrow> ReservationRequestDTO \<Rightarrow> ('w, go_error + EvaluationResponseDTO) state" where
  "EvaluateProviders H c d =
     (case enc_request H d of
        Inl e \<Rightarrow> ret (Inl (ErrWrap ''failed to marshal evaluation request'' e))
      | Inr body \<Rightarrow>
          (case new_request H ''POST'' (hc_baseURL c @ ''/api/v1/evaluations'') (Some body) ''failed to create request'' of
             Inl e \<Rightarrow> ret (Inl e)
           | Inr req \<Rightarrow> do {
               r \<leftarrow> doWithRetry H c req;
               ret (case r of
                   Inl e \<Rightarrow> Inl (ErrWrap ''failed to send evaluation request'' e)
                 | Inr resp \<Rightarrow>
                     if rp_StatusCode resp \<noteq> 200 then Inl (status_error resp)
                     else case dec_evaluation H (rp_Body resp) of
                         Inl e \<Rightarrow> Inl (ErrWrap ''failed to decode evaluation response'' e)
                       | Inr evaluation \<Rightarrow> Inr evaluation)
             }))"

text \<open>The two calls that poll do not retry.\<close>

definition FetchInstructions :: "'w HttpEnv \<Rightarrow> HTTPCommunicator \<Rightarrow> ('w, go_error + ReservationDTO list) state" where
  "FetchInstructions H c =
     (case new_request H ''GET'' (hc_baseURL c @ ''/api/v1/instructions'') None ''failed to create request'' of
        Inl e \<Rightarrow> ret (Inl e)
      | Inr req \<Rightarrow> do {
          r \<leftarrow> h_do H req;
          ret (case r of
              Inl e \<Rightarrow> Inl (ErrWrap ''failed to fetch instructions'' e)
            | Inr resp \<Rightarrow>
                if rp_StatusCode resp \<noteq> 200 then Inl (status_error resp)
                else case dec_reservations H (rp_Body resp) of
                    Inl e \<Rightarrow> Inl (ErrWrap ''failed to decode instructions'' e)
                  | Inr instructions \<Rightarrow> Inr instructions)
        })"

definition GetReservation :: "'w HttpEnv \<Rightarrow> HTTPCommunicator \<Rightarrow> string \<Rightarrow> ('w, go_error + ReservationDTO) state" where
  "GetReservation H c reservationID =
     (case new_request H ''GET'' (hc_baseURL c @ ''/api/v1/reservations/'' @ reservationID) None ''failed to create request'' of
        Inl e \<Rightarrow> ret (Inl e)
      | Inr req \<Rightarrow> do {
          r \<leftarrow> h_do H req;
          ret (case r of
              Inl e \<Rightarrow> Inl (ErrWrap ''failed to fetch reservation'' e)
            | Inr resp \<Rightarrow>
                if rp_StatusCode resp \<noteq> 200 then Inl (status_error resp)
                else case dec_reservation H (rp_Body resp) of
                    Inl e \<Rightarrow> Inl (ErrWrap ''failed to decode reservation'' e)
                  | Inr reservation \<Rightarrow> Inr reservation)
        })"

definition UploadPeeringKubeconfig ::
  "'w HttpEnv \<Rightarrow> HTTPCommunicator \<Rightarrow> string \<Rightarrow> string \<Rightarrow> ('w, go_error + unit) state" where
  "UploadPeeringKubeconfig H c reservationID kubeconfig =
     (case enc_kubeconfig H kubeconfig of
        Inl e \<Rightarrow> ret (Inl (ErrWrap ''failed to marshal kubeconfig payload'' e))
      | Inr body \<Rightarrow>
          (case new_request H ''POST'' (hc_baseURL c @ ''/api/v1/reservations/'' @ reservationID @ ''/kubeconfig'')
                  (Some body) ''failed to create request'' of
             Inl e \<Rightarrow> ret (Inl e)
           | Inr req \<Rightarrow> do {
               r \<leftarrow> doWithRetry H c req;
               ret (case r of
                   Inl e \<Rightarrow> Inl (ErrWrap ''failed to upload peering kubeconfig'' e)
                 | Inr resp \<Rightarrow>
                     if rp_StatusCode resp \<noteq> 200 \<and> rp_StatusCode resp \<noteq> 201 then Inl (status_error resp) else Inr ())
             }))"

definition Ping :: "'w HttpEnv \<Rightarrow> HTTPCommunicator \<Rightarrow> ('w, go_error + unit) state" where
  "Ping H c =
     (case new_request H ''GET'' (hc_baseURL c @ ''/healthz'') None ''failed to create request'' of
        Inl e \<Rightarrow> ret (Inl e)
      | Inr req \<Rightarrow> do {
          r \<leftarrow> h_do H req;
          ret (case r of
              Inl e \<Rightarrow> Inl (ErrWrap ''ping failed'' e)
            | Inr resp \<Rightarrow>
                if rp_StatusCode resp \<noteq> 200
                then Inl (ErrMsg (''broker returned status '' @ show_int (rp_StatusCode resp))) else Inr ())
        })"

definition Close :: "('w, go_error + unit) state" where
  "Close = ret (Inr ())"

definition http_communicator :: "'w HttpEnv \<Rightarrow> HTTPCommunicator \<Rightarrow> 'w BrokerCommunicator" where
  "http_communicator H c =
     \<lparr>bc_PublishAdvertisement = PublishAdvertisement H c, bc_RequestReservation = RequestReservation H c,
      bc_EvaluateProviders = EvaluateProviders H c, bc_FetchInstructions = FetchInstructions H c,
      bc_GetReservation = GetReservation H c, bc_UploadPeeringKubeconfig = UploadPeeringKubeconfig H c,
      bc_Ping = Ping H c, bc_Close = Close\<rparr>"

section \<open>What a retry costs\<close>

text \<open>
  \<open>sent\<close> counts the requests and \<open>waited\<close> the nanoseconds slept: a send counts one and takes no part
  in the waiting, a sleep waits at most its duration.
\<close>

locale metered_http =
  fixes H :: "'w HttpEnv" and sent :: "'w \<Rightarrow> nat" and waited :: "'w \<Rightarrow> duration"
  assumes do_sent: "run_state (h_do H req) w = (r, w') \<Longrightarrow> sent w' = sent w + 1 \<and> waited w' = waited w"
    and sleep_waited: "run_state (h_sleep H d) w = (b, w') \<Longrightarrow> 0 \<le> d \<Longrightarrow>
      sent w' = sent w \<and> waited w \<le> waited w' \<and> waited w' \<le> waited w + d"
begin

fun backoffs :: "nat \<Rightarrow> duration \<Rightarrow> duration" where
  "backoffs 0 b = 0"
| "backoffs (Suc n) b = b + backoffs n (next_backoff b)"

lemma next_backoff_nonneg: "0 \<le> b \<Longrightarrow> 0 \<le> next_backoff b"
  by (simp add: next_backoff_def max_backoff_def duration_defs)

lemma backoffs_nonneg: "0 \<le> b \<Longrightarrow> 0 \<le> backoffs n b"
  by (induction n arbitrary: b) (simp_all add: next_backoff_nonneg)

lemma retry_loop_cost:
  assumes "run_state (retry_loop H req n b) w = (r, w')" "0 \<le> b"
  shows "sent w < sent w' \<and> sent w' \<le> sent w + n + 1 \<and> waited w \<le> waited w' \<and> waited w' \<le> waited w + backoffs n b \<and>
    (case r of
       Inr resp \<Rightarrow> 500 \<le> rp_StatusCode resp \<longrightarrow> sent w' = sent w + n + 1 \<and> rp_Body resp = []
     | Inl e \<Rightarrow> e = h_ctx_err H \<or> sent w' = sent w + n + 1 \<and> (\<exists>e'. e = ErrWrap ''max retries exceeded'' e'))"
  using assms
proof (induction n arbitrary: b w)
  case 0
  obtain r1 w1 where first: "run_state (h_do H req) w = (r1, w1)" by fastforce
  with 0 do_sent [OF first] show ?case
    by (auto split: sum.splits if_splits)
next
  case (Suc n)
  obtain r1 w1 where first: "run_state (h_do H req) w = (r1, w1)" by fastforce
  note s1 = do_sent [OF first]
  show ?case
  proof (cases "\<exists>resp. r1 = Inr resp \<and> rp_StatusCode resp < 500")
    case True
    with Suc.prems first s1 backoffs_nonneg [of b "Suc n"] show ?thesis by auto
  next
    case False
    obtain passed w2 where sleep: "run_state (h_sleep H b) w1 = (passed, w2)" by fastforce
    note s2 = sleep_waited [OF sleep Suc.prems(2)]
    have run: "run_state (if passed then retry_loop H req n (next_backoff b) else ret (Inl (h_ctx_err H))) w2 = (r, w')"
      using Suc.prems(1) first False sleep by (auto split: sum.splits if_splits)
    show ?thesis
    proof (cases passed)
      case True
      with run have "run_state (retry_loop H req n (next_backoff b)) w2 = (r, w')" by simp
      from Suc.IH [OF this next_backoff_nonneg [OF Suc.prems(2)]] s1 s2 show ?thesis
        by (auto split: sum.splits)
    next
      case False
      with run s1 s2 backoffs_nonneg [OF next_backoff_nonneg [OF Suc.prems(2)], of n] show ?thesis by auto
    qed
  qed
qed

end

section \<open>An executable transport\<close>

text \<open>A broker that answers every request with one status, and counts.\<close>

definition counting_http :: "int \<Rightarrow> (nat \<times> duration) HttpEnv" where
  "counting_http code =
     \<lparr>h_new_request_error = (\<lambda>u. None),
      h_do = (\<lambda>req. State (\<lambda>(n, d). (Inr \<lparr>rp_StatusCode = code, rp_Body = ''body''\<rparr>, (n + 1, d)))),
      h_sleep = (\<lambda>d. State (\<lambda>(n, t). (True, (n, t + d)))),
      h_ctx_err = ErrMsg ''context canceled'',
      enc_advertisement = (\<lambda>d. Inr []), enc_request = (\<lambda>d. Inr []), enc_kubeconfig = Inr,
      dec_advertisement = (\<lambda>s. Inl (ErrMsg ''EOF'')), dec_response = (\<lambda>s. Inl (ErrMsg ''EOF'')),
      dec_reservation = (\<lambda>s. Inl (ErrMsg ''EOF'')), dec_reservations = (\<lambda>s. Inr []),
      dec_evaluation = (\<lambda>s. Inl (ErrMsg ''EOF''))\<rparr>"

interpretation counting: metered_http "counting_http code" fst snd
  by unfold_locales (auto simp: counting_http_def)

section \<open>Properties\<close>

text \<open>
  C20. A call through \<open>doWithRetry\<close> of a communicator that \<open>NewHTTPCommunicator\<close> made ends: it sends
  at least one and at most four requests and sleeps at most 1 + 2 + 4 seconds; it returns a server
  error only after the fourth request, and then with nothing left to read, and any other error
  only after the fourth request or when the context is cancelled.
\<close>

theorem doWithRetry_bounded:
  assumes "metered_http H sent waited" "run_state (NewHTTPCommunicator Y url certPath cid) u = (Inr (client, c), u')"
    "run_state (doWithRetry H c req) w = (r, w')"
  shows "sent w < sent w' \<and> sent w' \<le> sent w + 4 \<and> waited w \<le> waited w' \<and> waited w' \<le> waited w + 7 * go_second \<and>
    (case r of
       Inr resp \<Rightarrow> 500 \<le> rp_StatusCode resp \<longrightarrow> sent w' = sent w + 4 \<and> rp_Body resp = []
     | Inl e \<Rightarrow> e = h_ctx_err H \<or> sent w' = sent w + 4)"
proof -
  have run: "run_state (retry_loop H req 3 first_backoff) w = (r, w')"
    using assms(3) NewHTTPCommunicator_retries [OF assms(2)] by (simp add: doWithRetry_def)
  have "metered_http.backoffs 3 first_backoff = 7 * go_second"
    by (simp add: numeral_3_eq_3 metered_http.backoffs.simps [OF assms(1)] next_backoff_def first_backoff_def
        max_backoff_def duration_defs)
  then show ?thesis
    using metered_http.retry_loop_cost [OF assms(1) run]
    by (auto simp: first_backoff_def duration_defs split: sum.splits)
qed

lemma doWithRetry_witness:
  "\<exists>client c r w'. run_state (NewHTTPCommunicator sample_crypto ''https://broker'' ''/certs'' ''a'') () = (Inr (client, c), ()) \<and>
    run_state (doWithRetry (counting_http 503) c
      \<lparr>rq_Method = ''GET'', rq_URL = ''https://broker/healthz'', rq_Body = None\<rparr>) (0, 0) = (r, w') \<and> fst w' \<le> 4"
proof -
  obtain client c where made: "run_state (NewHTTPCommunicator sample_crypto ''https://broker'' ''/certs'' ''a'') () = (Inr (client, c), ())"
    by (simp add: NewHTTPCommunicator_def load_mtls_def sample_crypto_def)
  obtain r w' where run: "run_state (doWithRetry (counting_http 503) c
      \<lparr>rq_Method = ''GET'', rq_URL = ''https://broker/healthz'', rq_Body = None\<rparr>) (0, 0) = (r, w')" by (meson surj_pair)
  from doWithRetry_bounded [OF counting.metered_http_axioms made run] show ?thesis
    using made run by (cases w') auto
qed

end
