(* ===== verification/Collector.thy ===== *)
theory Collector
  imports AgentWorld
begin

text \<open>
  The agent's metrics collector (resource-agent/internal/metrics/collector.go): what the ready nodes
  offer, what the pods and the enforced provider instructions take, and how much of the rest the
  provider shares. Each loop is a fold with the loop's variables in a record.
\<close>

record Collector =
  co_ClusterIDOverride :: string
  co_SharingLogic :: string
  co_SharingPercentage :: int
  co_SharingFixedCPU :: string
  co_SharingFixedMemory :: string
  co_SharingFixedGPU :: string

section \<open>Nodes\<close>

text \<open>The first condition of type Ready decides.\<close>

definition isNodeReady :: "'q Node \<Rightarrow> bool" where
  "isNodeReady node =
     (case List.find (\<lambda>c. fst c = ''Ready'') (nd_Conditions node) of
        None \<Rightarrow> False
      | Some c \<Rightarrow> snd c = ''True'')"

text \<open>\<open>if x, ok := m[key]; ok { total.Add(x) }\<close>\<close>

definition add_entry :: "'q QuantityOps \<Rightarrow> string \<Rightarrow> 'q resource_list \<Rightarrow> 'q \<Rightarrow> 'q" where
  "add_entry Q key m t = (case m key of None \<Rightarrow> t | Some x \<Rightarrow> q_Add Q t x)"

abbreviation gpu_key :: string where "gpu_key \<equiv> ''nvidia.com/gpu''"

definition zero_amounts :: "'q QuantityOps \<Rightarrow> 'q ResourceQuantities" where
  "zero_amounts Q =
     \<lparr>aq_CPU = q_New Q 0 DecimalSI, aq_Memory = q_New Q 0 BinarySI, aq_GPU = None, aq_Storage = None\<rparr>"

record 'q node_totals =
  nt_capacity :: "'q ResourceQuantities"
  nt_allocatable :: "'q ResourceQuantities"
  nt_capacityGPU :: 'q
  nt_allocatableGPU :: 'q
  nt_hasGPU :: bool

definition add_node :: "'q QuantityOps \<Rightarrow> 'q Node \<Rightarrow> 'q node_totals \<Rightarrow> 'q node_totals" where
  "add_node Q node t =
     (if \<not> isNodeReady node then t
      else
        \<lparr>nt_capacity = (nt_capacity t)\<lparr>
           aq_CPU := add_entry Q ''cpu'' (nd_Capacity node) (aq_CPU (nt_capacity t)),
           aq_Memory := add_entry Q ''memory'' (nd_Capacity node) (aq_Memory (nt_capacity t))\<rparr>,
         nt_allocatable = (nt_allocatable t)\<lparr>
           aq_CPU := add_entry Q ''cpu'' (nd_Allocatable node) (aq_CPU (nt_allocatable t)),
           aq_Memory := add_entry Q ''memory'' (nd_Allocatable node) (aq_Memory (nt_allocatable t))\<rparr>,
         nt_capacityGPU = add_entry Q gpu_key (nd_Capacity node) (nt_capacityGPU t),
         nt_allocatableGPU = add_entry Q gpu_key (nd_Allocatable node) (nt_allocatableGPU t),
         nt_hasGPU = (nt_hasGPU t \<or> nd_Capacity node gpu_key \<noteq> None)\<rparr>)"

definition sum_nodes :: "'q QuantityOps \<Rightarrow> 'q QuantityMore \<Rightarrow> 'q Node list \<Rightarrow> 'q node_totals" where
  "sum_nodes Q M nodes =
     fold (add_node Q) nodes
       \<lparr>nt_capacity = zero_amounts Q, nt_allocatable = zero_amounts Q, nt_capacityGPU = qm_Zero M,
        nt_allocatableGPU = qm_Zero M, nt_hasGPU = False\<rparr>"

section \<open>Pods\<close>

text \<open>The requests of the containers of a pod add up; of its init containers the largest counts.\<close>

definition sum_requests :: "'q QuantityOps \<Rightarrow> string \<Rightarrow> QFormat \<Rightarrow> 'q Container list \<Rightarrow> 'q" where
  "sum_requests Q key f cs = fold (\<lambda>c t. add_entry Q key (ct_Requests c) t) cs (q_New Q 0 f)"

definition max_requests :: "'q QuantityOps \<Rightarrow> string \<Rightarrow> QFormat \<Rightarrow> 'q Container list \<Rightarrow> 'q" where
  "max_requests Q key f cs =
     fold (\<lambda>c t. case ct_Requests c key of
         None \<Rightarrow> t
       | Some x \<Rightarrow> if q_Cmp Q x t > 0 then x else t) cs (q_New Q 0 f)"

definition contribution :: "'q QuantityOps \<Rightarrow> string \<Rightarrow> QFormat \<Rightarrow> 'q Pod \<Rightarrow> 'q" where
  "contribution Q key f pod =
     (let containers = sum_requests Q key f (pd_Containers pod);
          init_max = max_requests Q key f (pd_InitContainers pod)
      in if q_Cmp Q init_max containers > 0 then init_max else containers)"

definition requests_gpu :: "'q Pod \<Rightarrow> bool" where
  "requests_gpu pod \<longleftrightarrow>
     list_ex (\<lambda>c. ct_Requests c gpu_key \<noteq> None) (pd_Containers pod @ pd_InitContainers pod)"

definition add_overhead :: "'q QuantityOps \<Rightarrow> string \<Rightarrow> 'q Pod \<Rightarrow> 'q \<Rightarrow> 'q" where
  "add_overhead Q key pod t = (case pd_Overhead pod of None \<Rightarrow> t | Some m \<Rightarrow> add_entry Q key m t)"

record 'q pod_totals =
  pt_cpu :: 'q
  pt_memory :: 'q
  pt_gpu :: 'q
  pt_hasGPU :: bool

definition is_active_pod :: "'q Pod \<Rightarrow> bool" where
  "is_active_pod pod \<longleftrightarrow> \<not> (pd_Phase pod \<noteq> ''Running'' \<and> pd_Phase pod \<noteq> ''Pending'')"

definition add_pod :: "'q QuantityOps \<Rightarrow> 'q Pod \<Rightarrow> 'q pod_totals \<Rightarrow> 'q pod_totals" where
  "add_pod Q pod t =
     (if \<not> is_active_pod pod then t
      else
        let hasGPU = (pt_hasGPU t \<or> requests_gpu pod);
            gpu = (if hasGPU then q_Add Q (pt_gpu t) (contribution Q gpu_key DecimalSI pod) else pt_gpu t)
        in \<lparr>pt_cpu = add_overhead Q ''cpu'' pod (q_Add Q (pt_cpu t) (contribution Q ''cpu'' DecimalSI pod)),
            pt_memory = add_overhead Q ''memory'' pod (q_Add Q (pt_memory t) (contribution Q ''memory'' BinarySI pod)),
            pt_gpu = add_overhead Q gpu_key pod gpu,
            pt_hasGPU = (hasGPU \<or> (case pd_Overhead pod of None \<Rightarrow> False | Some m \<Rightarrow> m gpu_key \<noteq> None))\<rparr>)"

definition sum_pods :: "'q QuantityOps \<Rightarrow> 'q QuantityMore \<Rightarrow> 'q Pod list \<Rightarrow> 'q ResourceQuantities" where
  "sum_pods Q M pods =
     (let t = fold (add_pod Q) pods
            \<lparr>pt_cpu = q_New Q 0 DecimalSI, pt_memory = q_New Q 0 BinarySI, pt_gpu = qm_Zero M, pt_hasGPU = False\<rparr>
      in \<lparr>aq_CPU = pt_cpu t, aq_Memory = pt_memory t,
          aq_GPU = (if pt_hasGPU t then Some (pt_gpu t) else None), aq_Storage = None\<rparr>)"

definition calculateAllocatedResources :: "('w, 'q) AgentEnv \<Rightarrow> ('w, go_error + 'q ResourceQuantities) state" where
  "calculateAllocatedResources E = do {
     listed \<leftarrow> g_pods E None;
     ret (case listed of
         Inl e \<Rightarrow> Inl (ErrWrap ''failed to list pods'' (ErrApi e))
       | Inr pods \<Rightarrow> Inr (sum_pods (g_Q E) (g_M E) pods))
   }"

section \<open>Provider instructions\<close>

text \<open>
  Only enforced instructions that have not expired count. An instruction whose memory does not parse
  has added its CPU before it is skipped.
\<close>

definition add_instruction ::
  "'q QuantityOps \<Rightarrow> time \<Rightarrow> ProviderInstruction \<Rightarrow> 'q ResourceQuantities \<Rightarrow> 'q ResourceQuantities" where
  "add_instruction Q now i reserved =
     (if \<not> pst_Enforced (o_status i) then reserved
      else if (case pis_ExpiresAt (o_spec i) of None \<Rightarrow> False | Some t \<Rightarrow> t < now) then reserved
      else
        case (if pis_RequestedCPU (o_spec i) \<noteq> '''' then
                (case q_Parse Q (pis_RequestedCPU (o_spec i)) of
                   Inl _ \<Rightarrow> None
                 | Inr q \<Rightarrow> Some (reserved\<lparr>aq_CPU := q_Add Q (aq_CPU reserved) q\<rparr>))
              else Some reserved) of
          None \<Rightarrow> reserved
        | Some r \<Rightarrow>
            if pis_RequestedMemory (o_spec i) \<noteq> '''' then
              (case q_Parse Q (pis_RequestedMemory (o_spec i)) of
                 Inl _ \<Rightarrow> r
               | Inr q \<Rightarrow> r\<lparr>aq_Memory := q_Add Q (aq_Memory r) q\<rparr>)
            else r)"

definition calculateReservedResources :: "('w, 'q) AgentEnv \<Rightarrow> ('w, go_error + 'q ResourceQuantities) state" where
  "calculateReservedResources E = do {
     listed \<leftarrow> c_list (g_pi E);
     case listed of
       Inl e \<Rightarrow> ret (Inl (ErrWrap ''failed to list provider instructions'' (ErrApi e)))
     | Inr items \<Rightarrow> do {
         now \<leftarrow> g_now E;
         ret (Inr (fold (add_instruction (g_Q E) now) items (zero_amounts (g_Q E))))
       }
   }"

section \<open>Sharing\<close>

text \<open>
  \<open>hasGPU\<close> is whether a node has a GPU. Amounts that do not parse leave the limit off, and a
  percentage outside 0..99 shares everything.
\<close>

definition share_fixed :: "'q QuantityOps \<Rightarrow> 'q \<Rightarrow> string \<Rightarrow> 'q \<Rightarrow> 'q" where
  "share_fixed Q zero fixed available =
     (if fixed \<noteq> '''' then
        (case q_Parse Q fixed of
           Inl _ \<Rightarrow> available
         | Inr q \<Rightarrow> if q_Cmp Q q available < 0 then q else available)
      else zero)"

definition sharing_ratio :: "int \<Rightarrow> float64" where
  "sharing_ratio p = fl_of_int p / lit 100"

definition scaled :: "int \<Rightarrow> float64 \<Rightarrow> int" where
  "scaled n ratio = fl_to_int64 (fl_of_int n * ratio)"

definition share :: "'q QuantityOps \<Rightarrow> 'q QuantityMore \<Rightarrow> Collector \<Rightarrow> bool \<Rightarrow> 'q ResourceQuantities \<Rightarrow> 'q ResourceQuantities" where
  "share Q M c hasGPU available =
     (if co_SharingLogic c = ''percentage'' then
        (if 0 \<le> co_SharingPercentage c \<and> co_SharingPercentage c < 100 then
           let ratio = sharing_ratio (co_SharingPercentage c);
               cpuMilli = scaled (qm_MilliValue M (aq_CPU available)) ratio;
               memVal = scaled (qm_Value M (aq_Memory available)) ratio
           in available\<lparr>aq_CPU := qm_NewMilli M cpuMilli DecimalSI, aq_Memory := q_New Q memVal BinarySI,
                aq_GPU := (case aq_GPU available of
                    None \<Rightarrow> None
                  | Some g \<Rightarrow> Some (q_New Q (scaled (qm_Value M g) ratio) DecimalSI))\<rparr>
         else available)
      else if co_SharingLogic c = ''fixed'' then
        let zero = q_New Q 0 DecimalSI
        in available\<lparr>aq_CPU := share_fixed Q zero (co_SharingFixedCPU c) (aq_CPU available),
             aq_Memory := share_fixed Q zero (co_SharingFixedMemory c) (aq_Memory available),
             aq_GPU :=
               (if hasGPU then
                  (if co_SharingFixedGPU c \<noteq> '''' then
                     (case (q_Parse Q (co_SharingFixedGPU c), aq_GPU available) of
                        (Inr q, Some g) \<Rightarrow> if q_Cmp Q q g < 0 then Some q else Some g
                      | (_, g) \<Rightarrow> g)
                   else Some zero)
                else aq_GPU available)\<rparr>
      else available)"

section \<open>The whole collection\<close>

definition clamp :: "'q QuantityOps \<Rightarrow> QFormat \<Rightarrow> 'q \<Rightarrow> 'q" where
  "clamp Q f x = (if q_Cmp Q x (q_New Q 0 DecimalSI) < 0 then q_New Q 0 f else x)"

definition physical_available ::
  "'q QuantityOps \<Rightarrow> bool \<Rightarrow> 'q ResourceQuantities \<Rightarrow> 'q ResourceQuantities \<Rightarrow> 'q ResourceQuantities \<Rightarrow>
   'q ResourceQuantities" where
  "physical_available Q hasGPU allocatable allocated reserved =
     \<lparr>aq_CPU = clamp Q DecimalSI (q_Sub Q (q_Sub Q (aq_CPU allocatable) (aq_CPU allocated)) (aq_CPU reserved)),
      aq_Memory = clamp Q BinarySI (q_Sub Q (q_Sub Q (aq_Memory allocatable) (aq_Memory allocated)) (aq_Memory reserved)),
      aq_GPU =
        (if hasGPU then
           (case aq_GPU allocatable of
              None \<Rightarrow> None
            | Some g \<Rightarrow>
                let g1 = (case aq_GPU allocated of None \<Rightarrow> g | Some a \<Rightarrow> q_Sub Q g a);
                    g2 = (case aq_GPU reserved of None \<Rightarrow> g1 | Some r \<Rightarrow> q_Sub Q g1 r)
                in Some (clamp Q DecimalSI g2))
         else None),
      aq_Storage = None\<rparr>"

definition CollectClusterResources ::
  "('w, 'q) AgentEnv \<Rightarrow> Collector \<Rightarrow> ('w, go_error + 'q ResourceMetrics) state" where
  "CollectClusterResources E c = do {
     listed \<leftarrow> g_nodes E;
     case listed of
       Inl e \<Rightarrow> ret (Inl (ErrWrap ''failed to list nodes'' (ErrApi e)))
     | Inr nodes \<Rightarrow>
         if nodes = [] then ret (Inl (ErrMsg ''no nodes found in cluster''))
         else do {
           let t = sum_nodes (g_Q E) (g_M E) nodes;
           let hasGPU = nt_hasGPU t;
           let capacity = (if hasGPU then (nt_capacity t)\<lparr>aq_GPU := Some (nt_capacityGPU t)\<rparr> else nt_capacity t);
           let allocatable =
             (if hasGPU then (nt_allocatable t)\<lparr>aq_GPU := Some (nt_allocatableGPU t)\<rparr> else nt_allocatable t);
           allocated_or \<leftarrow> calculateAllocatedResources E;
           case allocated_or of
             Inl e \<Rightarrow> ret (Inl (ErrWrap ''failed to calculate allocated resources'' e))
           | Inr allocated \<Rightarrow> do {
               reserved_or \<leftarrow> calculateReservedResources E;
               case reserved_or of
                 Inl e \<Rightarrow> ret (Inl (ErrWrap ''failed to calculate reserved resources'' e))
               | Inr reserved \<Rightarrow>
                   ret (Inr
                     \<lparr>am_Capacity = capacity, am_Allocatable = allocatable, am_Allocated = allocated,
                      am_Used = None,
                      am_Available = share (g_Q E) (g_M E) c hasGPU
                        (physical_available (g_Q E) hasGPU allocatable allocated reserved)\<rparr>)
             }
         }
   }"

definition GetClusterID :: "('w, 'q) AgentEnv \<Rightarrow> Collector \<Rightarrow> ('w, go_error + string) state" where
  "GetClusterID E c =
     (if co_ClusterIDOverride c \<noteq> '''' then ret (Inr (co_ClusterIDOverride c))
      else do {
        got \<leftarrow> g_namespace_uid E ''kube-system'';
        ret (case got of
            Inl e \<Rightarrow> Inl (ErrWrap ''failed to get kube-system namespace'' (ErrApi e))
          | Inr uid \<Rightarrow> Inr uid)
      })"

section \<open>Rounding a share\<close>

lemma ratio_bounds:
  assumes "0 \<le> p" "p < 100"
  obtains r where "sharing_ratio p = Fin r" "0 \<le> r" "r \<le> 127 / 128"
proof -
  have "rnd (127 / 128) = Fin (127 / 128)"
    using rnd_cert [of 53 "127 / 128" "127 * 2 ^ 46"] by simp
  moreover have "of_int p / 100 \<le> (127 / 128 :: rat)"
    using assms by simp
  ultimately obtain r where "rnd (of_int p / 100) = Fin r" "0 \<le> r" "r \<le> 127 / 128"
    using rnd_between [of 0 "127 / 128" "of_int p / 100"] assms by auto
  moreover have "rnd (of_int p) = Fin (of_int p)" "rnd 100 = Fin 100"
    using assms rnd_int [of p] rnd_int [of 100] by simp_all
  ultimately show ?thesis
    using that by (simp add: sharing_ratio_def fl_of_int_def lit_def float64_defs)
qed

lemma scaled_large:
  assumes "2 \<le> n" "n \<le> max_int64" "0 \<le> r" "r \<le> 127 / 128"
  obtains a c where "rnd (of_int n) = Fin a" "rnd (a * r) = Fin c" "0 \<le> c" "c < of_int n"
proof -
  have "n \<le> 2 ^ 64" using assms(2) unfolding max_int64_def by simp
  then have n: "(1::rat) \<le> of_int n" "of_int n \<le> (2 ^ 64 :: rat)"
    using assms(1) by (simp, metis of_int_le_iff of_int_numeral of_int_power)
  obtain a where a: "rnd (of_int n) = Fin a" "0 \<le> a" "a \<le> of_int n * (1 + 1 / 2 ^ 52)"
    by (rule rnd_upper [of "of_int n"]) (use n in auto)
  have ar: "0 \<le> a * r" "a * r \<le> of_int n * (1 + 1 / 2 ^ 52) * (127 / 128)"
    using a assms(3,4) by (simp, intro mult_mono) (use n in auto)
  show thesis
  proof (cases "1 \<le> a * r")
    case True
    have "a * r \<le> 2 ^ 100" using ar(2) n by simp
    with True obtain c where c: "rnd (a * r) = Fin c" "0 \<le> c" "c \<le> a * r * (1 + 1 / 2 ^ 52)"
      by (rule rnd_upper)
    have "a * r * (1 + 1 / 2 ^ 52) \<le> of_int n * (1 + 1 / 2 ^ 52) * (127 / 128) * (1 + 1 / 2 ^ 52)"
      by (rule mult_right_mono [OF ar(2)]) simp
    also have "\<dots> < of_int n" using n by (simp add: field_simps)
    finally show thesis using that a(1) c by simp
  next
    case False
    obtain c where "rnd (a * r) = Fin c" "0 \<le> c" "c \<le> 1"
      by (rule rnd_between [OF rnd_zero_one ar(1)]) (use False in simp)
    then show thesis using that [of a c] a(1) assms(1) by linarith
  qed
qed

text \<open>A percentage below 100 of a whole number is a smaller one, whatever is rounded on the way.\<close>

lemma scaled_bounds:
  assumes "0 \<le> n" "n \<le> max_int64" "0 \<le> p" "p < 100"
  shows "0 \<le> scaled n (sharing_ratio p)" "scaled n (sharing_ratio p) \<le> max 0 (n - 1)"
proof -
  obtain r where r: "sharing_ratio p = Fin r" "0 \<le> r" "r \<le> 127 / 128"
    by (rule ratio_bounds [OF assms(3,4)])
  have hi: "rnd (127 / 128) = Fin (127 / 128)"
    using rnd_cert [of 53 "127 / 128" "127 * 2 ^ 46"] by simp
  consider "n = 0" | "n = 1" | "2 \<le> n" using assms(1) by linarith
  then have "0 \<le> scaled n (sharing_ratio p) \<and> scaled n (sharing_ratio p) \<le> max 0 (n - 1)"
  proof cases
    case 1
    then show ?thesis
      by (simp add: scaled_def fl_of_int_def r(1) float64_defs max_int64_def)
  next
    case 2
    obtain c where "rnd r = Fin c" "0 \<le> c" "c \<le> 127 / 128"
      by (rule rnd_between [OF rnd_zero_one(1) hi r(2,3)])
    moreover from this have "\<lfloor>c\<rfloor> = 0" by (intro floor_unique) auto
    ultimately show ?thesis
      using 2 rnd_zero_one(2) by (simp add: scaled_def fl_of_int_def r(1) float64_defs max_int64_def)
  next
    case 3
    obtain a c where c: "rnd (of_int n) = Fin a" "rnd (a * r) = Fin c" "0 \<le> c" "c < of_int n"
      by (rule scaled_large [OF 3 assms(2) r(2,3)])
    then have "0 \<le> \<lfloor>c\<rfloor>" "\<lfloor>c\<rfloor> \<le> n - 1"
      by (simp, metis floor_less_iff zle_diff1_eq)
    moreover from this have "\<lfloor>c\<rfloor> \<le> 9223372036854775807"
      using assms(2) unfolding max_int64_def by linarith
    ultimately show ?thesis
      using 3 c(3)
      by (simp add: scaled_def fl_of_int_def r(1) float64_defs c(1,2) max_int64_def Let_def)
  qed
  then show "0 \<le> scaled n (sharing_ratio p)" "scaled n (sharing_ratio p) \<le> max 0 (n - 1)" by auto
qed

text \<open>
  The share itself: \<open>p\<close> percent of \<open>n\<close>, rounded down, up to the relative error of the three roundings
  (of \<open>n\<close>, of \<open>p / 100\<close> and of their product).
\<close>

definition percent_of :: "int \<Rightarrow> rat \<Rightarrow> rat \<Rightarrow> bool" where
  "percent_of p n x \<longleftrightarrow> n * of_int p / 100 * (1 - 1 / 2 ^ 50) - 1 < x \<and> x \<le> n * of_int p / 100 * (1 + 1 / 2 ^ 50)"

lemma close_prod:
  fixes x y a b :: rat
  assumes "0 \<le> x" "0 \<le> y" "0 \<le> d" "0 \<le> e" "x * (1 - d) \<le> a" "a \<le> x * (1 + d)" "y * (1 - e) \<le> b" "b \<le> y * (1 + e)" "d \<le> 1" "e \<le> 1"
  shows "x * y * ((1 - d) * (1 - e)) \<le> a * b" "a * b \<le> x * y * ((1 + d) * (1 + e))"
proof -
  have "0 \<le> x * (1 - d)" "0 \<le> y * (1 - e)" using assms by simp_all
  then have n: "0 \<le> a" "0 \<le> b" using assms(5,7) by linarith+
  have "(x * (1 - d)) * (y * (1 - e)) \<le> a * b" using assms n by (intro mult_mono) simp_all
  then show "x * y * ((1 - d) * (1 - e)) \<le> a * b" by (simp only: ac_simps)
  have "a * b \<le> (x * (1 + d)) * (y * (1 + e))" using assms n by (intro mult_mono) simp_all
  then show "a * b \<le> x * y * ((1 + d) * (1 + e))" by (simp only: ac_simps)
qed

lemma scaled_percent:
  assumes "0 \<le> n" "n \<le> max_int64" "0 \<le> p" "p < 100"
  shows "percent_of p (of_int n) (of_int (scaled n (sharing_ratio p)))"
proof (cases "n = 0 \<or> p = 0")
  case True
  have "scaled n (sharing_ratio p) = 0"
  proof (cases "n = 0")
    case True
    with scaled_bounds [OF assms] show ?thesis by simp
  next
    case False
    with assms(1,2) have "1 \<le> n" "n \<le> 2 ^ 64" unfolding max_int64_def by simp_all
    then have "(1::rat) \<le> of_int n" "of_int n \<le> (2 ^ 64 :: rat)"
      by (simp, metis of_int_le_iff of_int_numeral of_int_power)
    then obtain a where "rnd (of_int n) = Fin a" by (rule_tac rnd_close [of "of_int n"]) auto
    with False \<open>n = 0 \<or> p = 0\<close> show ?thesis
      using rnd_int [of 100] by (simp add: scaled_def sharing_ratio_def fl_of_int_def lit_def float64_defs max_int64_def)
  qed
  with True show ?thesis by (auto simp: percent_of_def)
next
  case False
  then have np: "1 \<le> n" "1 \<le> p" using assms by linarith+
  have "n \<le> 2 ^ 64" using assms(2) unfolding max_int64_def by simp
  then have n: "(1::rat) \<le> of_int n" "of_int n \<le> (2 ^ 64 :: rat)"
    using np(1) by (simp, metis of_int_le_iff of_int_numeral of_int_power)
  have p: "1 / 100 \<le> (of_int p / 100 :: rat)" "of_int p / 100 \<le> (99 / 100 :: rat)" using np(2) assms(4) by simp_all
  obtain a where a: "rnd (of_int n) = Fin a" "of_int n * (1 - 1 / 2 ^ 52) \<le> a" "a \<le> of_int n * (1 + 1 / 2 ^ 52)"
    by (rule rnd_close [of "of_int n"]) (use n in auto)
  obtain q where q: "rnd (of_int p / 100) = Fin q" "of_int p / 100 * (1 - 1 / 2 ^ 52) \<le> q" "q \<le> of_int p / 100 * (1 + 1 / 2 ^ 52)"
    by (rule rnd_close [of "of_int p / 100"]) (use p in auto)
  have ratio: "sharing_ratio p = Fin q"
    using assms rnd_int [of p] rnd_int [of 100] q(1) by (simp add: sharing_ratio_def fl_of_int_def lit_def float64_defs)
  define z :: rat where "z = of_int n * (of_int p / 100)"
  have z: "1 / 100 \<le> z" "z \<le> of_int n * (99 / 100)"
    unfolding z_def using n p mult_mono [of 1 "of_int n" "1 / 100" "of_int p / 100 :: rat"]
    by (simp_all add: mult_left_mono)
  have aq: "z * ((1 - 1 / 2 ^ 52) * (1 - 1 / 2 ^ 52)) \<le> a * q" "a * q \<le> z * ((1 + 1 / 2 ^ 52) * (1 + 1 / 2 ^ 52))"
    unfolding z_def by (rule close_prod; use n p a q in simp)+
  have "1 / 100 * (1 / 2) \<le> z * ((1 - 1 / 2 ^ 52) * (1 - 1 / 2 ^ 52 :: rat))" using z(1) by (intro mult_mono) simp_all
  then have lo: "1 / 2 ^ 20 \<le> a * q" using aq(1) by simp
  have "z * ((1 + 1 / 2 ^ 52) * (1 + 1 / 2 ^ 52 :: rat)) \<le> 2 ^ 64 * 2" using z n by (intro mult_mono) simp_all
  then have hi: "a * q \<le> 2 ^ 100" using aq(2) by simp
  obtain c where c: "rnd (a * q) = Fin c" "a * q * (1 - 1 / 2 ^ 52) \<le> c" "c \<le> a * q * (1 + 1 / 2 ^ 52)"
    by (rule rnd_close [OF lo hi])
  have "z * (1 - 1 / 2 ^ 50) \<le> z * (((1 - 1 / 2 ^ 52) * (1 - 1 / 2 ^ 52)) * (1 - 1 / 2 ^ 52))"
    using z(1) by (intro mult_left_mono) simp_all
  also have "\<dots> \<le> a * q * (1 - 1 / 2 ^ 52)" unfolding mult.assoc [symmetric] using aq(1) by (intro mult_right_mono) (simp_all add: mult.assoc)
  also note c(2)
  finally have low: "z * (1 - 1 / 2 ^ 50) \<le> c" .
  have "a * q * (1 + 1 / 2 ^ 52) \<le> z * ((1 + 1 / 2 ^ 52) * (1 + 1 / 2 ^ 52)) * (1 + 1 / 2 ^ 52)"
    using aq(2) by (intro mult_right_mono) simp_all
  also have "\<dots> \<le> z * (1 + 1 / 2 ^ 50)" unfolding mult.assoc using z(1) by (intro mult_left_mono) simp_all
  finally have high: "c \<le> z * (1 + 1 / 2 ^ 50)" using c(3) by linarith
  have "z * (1 + 1 / 2 ^ 50) \<le> of_int n * (99 / 100) * (1 + 1 / 2 ^ 50)" using z(2) by (intro mult_right_mono) simp_all
  also have "\<dots> \<le> of_int n" using n by simp
  finally have cn: "c \<le> of_int n" using high by linarith
  have c0: "0 \<le> c" using lo c(2) by simp
  have "\<lfloor>c\<rfloor> \<le> n" using cn by (simp add: floor_le_iff)
  then have "\<lfloor>c\<rfloor> \<le> 9223372036854775807" using assms(2) unfolding max_int64_def by linarith
  then have "scaled n (sharing_ratio p) = \<lfloor>c\<rfloor>"
    using c0 c(1) a(1) ratio by (simp add: scaled_def fl_of_int_def float64_defs max_int64_def)
  then show ?thesis using low high unfolding percent_of_def z_def by simp linarith
qed

section \<open>What is counted\<close>

text \<open>The reference: what a pod requests of a resource, from the Kubernetes rules.\<close>

definition entry :: "('q \<Rightarrow> rat) \<Rightarrow> string \<Rightarrow> 'q resource_list \<Rightarrow> rat" where
  "entry v key m = (case m key of None \<Rightarrow> 0 | Some x \<Rightarrow> v x)"

definition requested :: "('q \<Rightarrow> rat) \<Rightarrow> string \<Rightarrow> 'q Pod \<Rightarrow> rat" where
  "requested v key pod =
     max (\<Sum>c \<leftarrow> pd_Containers pod. entry v key (ct_Requests c))
         (foldr max (map (\<lambda>c. entry v key (ct_Requests c)) (pd_InitContainers pod)) 0) +
     (case pd_Overhead pod of None \<Rightarrow> 0 | Some m \<Rightarrow> entry v key m)"

lemma entry_None: "m key = None \<Longrightarrow> entry v key m = 0"
  by (simp add: entry_def)

text \<open>What an instruction reserves of its CPU and of its memory.\<close>

definition counted :: "time \<Rightarrow> ProviderInstruction \<Rightarrow> bool" where
  "counted now i \<longleftrightarrow> pst_Enforced (o_status i) \<and>
     (case pis_ExpiresAt (o_spec i) of None \<Rightarrow> True | Some t \<Rightarrow> now \<le> t)"

definition parsed :: "'q QuantityOps \<Rightarrow> ('q \<Rightarrow> rat) \<Rightarrow> string \<Rightarrow> rat" where
  "parsed Q v s = (case q_Parse Q s of Inl _ \<Rightarrow> 0 | Inr q \<Rightarrow> v q)"

definition is_amount :: "'q QuantityOps \<Rightarrow> string \<Rightarrow> bool" where
  "is_amount Q s \<longleftrightarrow> (\<exists>q. q_Parse Q s = Inr q)"

lemma foldr_max_nonneg: "0 \<le> foldr max xs (0 :: rat)"
  by (induction xs) (auto simp: le_max_iff_disj)

lemma foldr_max_zero: "(\<And>x. x \<in> set xs \<Longrightarrow> x = 0) \<Longrightarrow> foldr max xs (0 :: rat) = 0"
  by (induction xs) force+

lemma unrequested_sums:
  assumes "\<not> requests_gpu pod"
  shows "(\<Sum>c \<leftarrow> pd_Containers pod. entry v gpu_key (ct_Requests c)) = 0"
    "foldr max (map (\<lambda>c. entry v gpu_key (ct_Requests c)) (pd_InitContainers pod)) 0 = 0"
proof -
  have z: "entry v gpu_key (ct_Requests c) = 0" if "c \<in> set (pd_Containers pod) \<union> set (pd_InitContainers pod)" for c
    using assms that by (force simp: requests_gpu_def list_ex_iff entry_def split: option.split)
  then show "(\<Sum>c \<leftarrow> pd_Containers pod. entry v gpu_key (ct_Requests c)) = 0"
    by (simp cong: map_cong)
  show "foldr max (map (\<lambda>c. entry v gpu_key (ct_Requests c)) (pd_InitContainers pod)) 0 = 0"
    by (rule foldr_max_zero) (use z in auto)
qed

context quantity
begin

lemma v_add_entry [simp]: "v (add_entry Q key m t) = v t + entry v key m"
  by (simp add: add_entry_def entry_def split: option.split)

lemma v_sum_requests: "v (sum_requests Q key f cs) = (\<Sum>c \<leftarrow> cs. entry v key (ct_Requests c))"
proof -
  have "v (fold (\<lambda>c t. add_entry Q key (ct_Requests c) t) cs t) = v t + (\<Sum>c \<leftarrow> cs. entry v key (ct_Requests c))" for t
    by (induction cs arbitrary: t) simp_all
  then show ?thesis by (simp add: sum_requests_def)
qed

lemma v_max_requests:
  "v (max_requests Q key f cs) = foldr max (map (\<lambda>c. entry v key (ct_Requests c)) cs) 0"
proof -
  let ?step = "\<lambda>c t. case ct_Requests c key of None \<Rightarrow> t | Some x \<Rightarrow> if q_Cmp Q x t > 0 then x else t"
  have step: "v (?step c t) = max (entry v key (ct_Requests c)) (v t)" if "0 \<le> v t" for c t
    using that by (auto simp: entry_def cmp_laws max_def split: option.split)
  have "v (fold ?step cs t) = max (foldr max (map (\<lambda>c. entry v key (ct_Requests c)) cs) 0) (v t)" if "0 \<le> v t" for t
    using that
  proof (induction cs arbitrary: t)
    case Nil
    then show ?case by simp
  next
    case (Cons c cs)
    have t: "v (?step c t) = max (entry v key (ct_Requests c)) (v t)" using Cons.prems by (rule step)
    then have "0 \<le> v (?step c t)" using Cons.prems by (simp add: le_max_iff_disj)
    from Cons.IH [OF this] t show ?case by (simp add: max.assoc max.left_commute)
  qed
  from this [of "q_New Q 0 f"] show ?thesis
    unfolding max_requests_def by (simp add: max.absorb1 foldr_max_nonneg)
qed

lemma v_contribution:
  "v (contribution Q key f pod) =
     max (\<Sum>c \<leftarrow> pd_Containers pod. entry v key (ct_Requests c))
         (foldr max (map (\<lambda>c. entry v key (ct_Requests c)) (pd_InitContainers pod)) 0)"
  by (auto simp: contribution_def Let_def cmp_laws v_sum_requests v_max_requests max_def)

lemma v_add_overhead [simp]:
  "v (add_overhead Q key pod t) = v t + (case pd_Overhead pod of None \<Rightarrow> 0 | Some m \<Rightarrow> entry v key m)"
  by (simp add: add_overhead_def split: option.split)

lemma unrequested_gpu: "\<not> requests_gpu pod \<Longrightarrow> v (contribution Q gpu_key f pod) = 0"
  by (simp add: v_contribution unrequested_sums)

lemma v_add_pod:
  "v (pt_cpu (add_pod Q pod t)) = v (pt_cpu t) + (if is_active_pod pod then requested v ''cpu'' pod else 0)"
  "v (pt_memory (add_pod Q pod t)) = v (pt_memory t) + (if is_active_pod pod then requested v ''memory'' pod else 0)"
  "v (pt_gpu (add_pod Q pod t)) = v (pt_gpu t) + (if is_active_pod pod then requested v gpu_key pod else 0)"
  using unrequested_gpu [of pod DecimalSI]
  by (auto simp: add_pod_def Let_def requested_def v_contribution)

lemma v_fold_pods:
  "v (pt_cpu (fold (add_pod Q) pods t)) = v (pt_cpu t) + (\<Sum>pod \<leftarrow> filter is_active_pod pods. requested v ''cpu'' pod)"
  "v (pt_memory (fold (add_pod Q) pods t)) = v (pt_memory t) + (\<Sum>pod \<leftarrow> filter is_active_pod pods. requested v ''memory'' pod)"
  "v (pt_gpu (fold (add_pod Q) pods t)) = v (pt_gpu t) + (\<Sum>pod \<leftarrow> filter is_active_pod pods. requested v gpu_key pod)"
  by (induction pods arbitrary: t) (simp_all add: v_add_pod)

end

text \<open>A GPU total is present only if some active pod names the resource, so an absent one is 0.\<close>

lemma no_gpu_no_sum:
  "\<not> pt_hasGPU (fold (add_pod Q) pods t) \<Longrightarrow>
   \<not> pt_hasGPU t \<and> (\<Sum>pod \<leftarrow> filter is_active_pod pods. requested v gpu_key pod) = 0"
proof (induction pods arbitrary: t)
  case Nil
  then show ?case by simp
next
  case (Cons pod pods)
  then have IH: "\<not> pt_hasGPU (add_pod Q pod t)" "(\<Sum>pod \<leftarrow> filter is_active_pod pods. requested v gpu_key pod) = 0"
    by auto
  show ?case
  proof (cases "is_active_pod pod")
    case True
    with IH(1) have no: "\<not> pt_hasGPU t" "\<not> requests_gpu pod"
      "case pd_Overhead pod of None \<Rightarrow> True | Some m \<Rightarrow> m gpu_key = None"
      by (auto simp: add_pod_def Let_def split: option.splits)
    then have "requested v gpu_key pod = 0"
      by (auto simp: requested_def unrequested_sums entry_None split: option.splits)
    with no(1) IH(2) True show ?thesis by simp
  next
    case False
    with IH show ?thesis by (simp add: add_pod_def)
  qed
qed

context quantity
begin

lemma v_add_instruction:
  "v (aq_CPU (add_instruction Q now i r)) = v (aq_CPU r) +
     (if counted now i then parsed Q v (pis_RequestedCPU (o_spec i)) else 0)"
  "v (aq_Memory (add_instruction Q now i r)) = v (aq_Memory r) +
     (if counted now i \<and> (pis_RequestedCPU (o_spec i) = [] \<or> is_amount Q (pis_RequestedCPU (o_spec i)))
      then parsed Q v (pis_RequestedMemory (o_spec i)) else 0)"
  "aq_GPU (add_instruction Q now i r) = aq_GPU r"
  using parse_empty
  by (auto simp: add_instruction_def counted_def parsed_def is_amount_def split: option.splits sum.splits if_splits)

lemma v_fold_instructions:
  "v (aq_CPU (fold (add_instruction Q now) items r)) = v (aq_CPU r) +
     (\<Sum>i \<leftarrow> filter (counted now) items. parsed Q v (pis_RequestedCPU (o_spec i)))"
  by (induction items arbitrary: r) (simp_all add: v_add_instruction)

lemma v_fold_memory:
  "v (aq_Memory (fold (add_instruction Q now) items r)) = v (aq_Memory r) +
     (\<Sum>i \<leftarrow> filter (\<lambda>i. counted now i \<and>
        (pis_RequestedCPU (o_spec i) = [] \<or> is_amount Q (pis_RequestedCPU (o_spec i)))) items.
        parsed Q v (pis_RequestedMemory (o_spec i)))"
  by (induction items arbitrary: r) (auto simp: v_add_instruction)

lemma gpu_fold_instructions: "aq_GPU (fold (add_instruction Q now) items r) = aq_GPU r"
  by (induction items arbitrary: r) (simp_all add: v_add_instruction)

lemma v_clamp [simp]: "v (clamp Q f x) = max 0 (v x)"
  by (auto simp: clamp_def cmp_laws)

lemma v_share_fixed:
  assumes "0 \<le> v a" "v zero = 0" "\<And>q. q_Parse Q fixed = Inr q \<Longrightarrow> 0 \<le> v q"
  shows "0 \<le> v (share_fixed Q zero fixed a)" "v (share_fixed Q zero fixed a) \<le> v a"
  using assms by (auto simp: share_fixed_def cmp_laws split: sum.split)

end

lemma ceiling_share:
  assumes "0 \<le> y" "y \<le> of_int max_int64" "0 \<le> p" "p < 100"
  shows "0 \<le> scaled \<lceil>y\<rceil> (sharing_ratio p)" "of_int (scaled \<lceil>y\<rceil> (sharing_ratio p)) \<le> (y :: rat)"
proof -
  have c: "0 \<le> \<lceil>y\<rceil>" "\<lceil>y\<rceil> \<le> max_int64"
    using assms(1,2) by (simp_all add: ceiling_le)
  note b = scaled_bounds [OF c assms(3,4)]
  show "0 \<le> scaled \<lceil>y\<rceil> (sharing_ratio p)" by (rule b(1))
  have "of_int (scaled \<lceil>y\<rceil> (sharing_ratio p)) \<le> (of_int (max 0 (\<lceil>y\<rceil> - 1)) :: rat)"
    using b(2) by (simp only: of_int_le_iff)
  also have "\<dots> = max 0 (of_int \<lceil>y\<rceil> - 1)" by (simp add: max_def)
  also have "\<dots> \<le> y" using assms(1) by (intro max.boundedI) linarith+
  finally show "of_int (scaled \<lceil>y\<rceil> (sharing_ratio p)) \<le> y" .
qed

text \<open>Amounts between nothing and a bound.\<close>

definition bounded_by :: "('q \<Rightarrow> rat) \<Rightarrow> 'q ResourceQuantities \<Rightarrow> 'q ResourceQuantities \<Rightarrow> bool" where
  "bounded_by v x y \<longleftrightarrow>
     0 \<le> v (aq_CPU x) \<and> v (aq_CPU x) \<le> v (aq_CPU y) \<and> 0 \<le> v (aq_Memory x) \<and> v (aq_Memory x) \<le> v (aq_Memory y) \<and>
     rel_option (\<lambda>a b. 0 \<le> v a \<and> v a \<le> v b) (aq_GPU x) (aq_GPU y)"

text \<open>
  What the configuration offers of the free amounts: the percentage (of whole milli-CPUs, bytes and
  GPUs), the fixed limit where there is one and less is not free, or everything.
\<close>

definition fixed_limit :: "'q QuantityOps \<Rightarrow> ('q \<Rightarrow> rat) \<Rightarrow> string \<Rightarrow> rat \<Rightarrow> rat" where
  "fixed_limit Q v fixed free =
     (if fixed = '''' then 0 else case q_Parse Q fixed of Inl _ \<Rightarrow> free | Inr q \<Rightarrow> min free (v q))"

definition as_configured ::
  "'q QuantityOps \<Rightarrow> ('q \<Rightarrow> rat) \<Rightarrow> Collector \<Rightarrow> 'q ResourceQuantities \<Rightarrow> 'q ResourceQuantities \<Rightarrow> bool" where
  "as_configured Q v c free x \<longleftrightarrow>
     (if co_SharingLogic c = ''percentage'' \<and> 0 \<le> co_SharingPercentage c \<and> co_SharingPercentage c < 100 then
        percent_of (co_SharingPercentage c) (of_int \<lceil>v (aq_CPU free) * 1000\<rceil>) (v (aq_CPU x) * 1000) \<and>
        percent_of (co_SharingPercentage c) (of_int \<lceil>v (aq_Memory free)\<rceil>) (v (aq_Memory x)) \<and>
        rel_option (\<lambda>g h. percent_of (co_SharingPercentage c) (of_int \<lceil>v g\<rceil>) (v h)) (aq_GPU free) (aq_GPU x)
      else if co_SharingLogic c = ''fixed'' then
        v (aq_CPU x) = fixed_limit Q v (co_SharingFixedCPU c) (v (aq_CPU free)) \<and>
        v (aq_Memory x) = fixed_limit Q v (co_SharingFixedMemory c) (v (aq_Memory free)) \<and>
        rel_option (\<lambda>g h. v h = fixed_limit Q v (co_SharingFixedGPU c) (v g)) (aq_GPU free) (aq_GPU x)
      else x = free)"

text \<open>Amounts whose milli-CPUs and bytes fit an \<open>int64\<close>.\<close>

definition fits :: "('q \<Rightarrow> rat) \<Rightarrow> 'q ResourceQuantities \<Rightarrow> bool" where
  "fits v x \<longleftrightarrow> v (aq_CPU x) * 1000 \<le> of_int max_int64 \<and> v (aq_Memory x) \<le> of_int max_int64 \<and>
     pred_option (\<lambda>g. v g \<le> of_int max_int64) (aq_GPU x)"

definition limits_nonneg :: "'q QuantityOps \<Rightarrow> ('q \<Rightarrow> rat) \<Rightarrow> Collector \<Rightarrow> bool" where
  "limits_nonneg Q v c \<longleftrightarrow>
     (\<forall>s \<in> {co_SharingFixedCPU c, co_SharingFixedMemory c, co_SharingFixedGPU c}.
        case q_Parse Q s of Inl _ \<Rightarrow> True | Inr q \<Rightarrow> 0 \<le> v q)"

context quantity_more
begin

lemma share_within:
  assumes "bounded_by v a a" "fits v a" "limits_nonneg Q v c" "hasGPU \<longleftrightarrow> aq_GPU a \<noteq> None"
  shows "bounded_by v (share Q M c hasGPU a) a"
proof -
  have nn: "0 \<le> v (aq_CPU a)" "0 \<le> v (aq_Memory a)" "\<And>g. aq_GPU a = Some g \<Longrightarrow> 0 \<le> v g"
    using assms(1) by (auto simp: bounded_by_def rel_option_iff split: option.splits)
  have fit: "v (aq_CPU a) * 1000 \<le> of_int max_int64" "v (aq_Memory a) \<le> of_int max_int64"
    "\<And>g. aq_GPU a = Some g \<Longrightarrow> v g \<le> of_int max_int64"
    using assms(2) by (auto simp: fits_def)
  have lim: "\<And>q. q_Parse Q (co_SharingFixedCPU c) = Inr q \<Longrightarrow> 0 \<le> v q"
    "\<And>q. q_Parse Q (co_SharingFixedMemory c) = Inr q \<Longrightarrow> 0 \<le> v q"
    "\<And>q. q_Parse Q (co_SharingFixedGPU c) = Inr q \<Longrightarrow> 0 \<le> v q"
    using assms(3) by (simp_all add: limits_nonneg_def split: sum.splits)
  consider (pct) "co_SharingLogic c = ''percentage''" "0 \<le> co_SharingPercentage c" "co_SharingPercentage c < 100"
    | (fixed) "co_SharingLogic c = ''fixed''" | (all) "share Q M c hasGPU a = a"
    by (force simp: share_def)
  then show ?thesis
  proof cases
    case pct
    note cs = ceiling_share [OF _ _ pct(2,3)]
    have milli: "qm_MilliValue M (aq_CPU a) = \<lceil>v (aq_CPU a) * 1000\<rceil>"
      and mem: "qm_Value M (aq_Memory a) = \<lceil>v (aq_Memory a)\<rceil>"
      using nn fit by (simp_all add: milli_ceiling value_ceiling)
    have gpu: "qm_Value M g = \<lceil>v g\<rceil>" if "aq_GPU a = Some g" for g
      using nn(3) fit(3) that by (simp add: value_ceiling)
    have s: "share Q M c hasGPU a = a\<lparr>
        aq_CPU := qm_NewMilli M (scaled \<lceil>v (aq_CPU a) * 1000\<rceil> (sharing_ratio (co_SharingPercentage c))) DecimalSI,
        aq_Memory := q_New Q (scaled \<lceil>v (aq_Memory a)\<rceil> (sharing_ratio (co_SharingPercentage c))) BinarySI,
        aq_GPU := map_option (\<lambda>g. q_New Q (scaled \<lceil>v g\<rceil> (sharing_ratio (co_SharingPercentage c))) DecimalSI) (aq_GPU a)\<rparr>"
      using pct gpu by (simp add: share_def Let_def milli mem split: option.split)
    have cpu: "0 \<le> v (aq_CPU a) * 1000" using nn(1) by simp
    show ?thesis
      unfolding s bounded_by_def
      using cs [OF cpu fit(1)] cs [OF nn(2) fit(2)] cs [OF nn(3) fit(3)]
      by (cases "aq_GPU a") simp_all
  next
    case fixed
    have z: "v (q_New Q 0 DecimalSI) = 0" by simp
    show ?thesis
      using v_share_fixed [OF nn(1) z lim(1)] v_share_fixed [OF nn(2) z lim(2)] fixed nn(3) lim(3) assms(4)
      by (cases "aq_GPU a") (auto simp: share_def Let_def bounded_by_def cmp_laws rel_option_iff split: sum.split)
  next
    case all
    then show ?thesis using assms(1) by simp
  qed
qed

lemma scaled_ceiling:
  assumes "0 \<le> y" "y \<le> of_int max_int64" "0 \<le> p" "p < 100"
  shows "percent_of p (of_int \<lceil>y\<rceil>) (of_int (scaled \<lceil>y\<rceil> (sharing_ratio p)))"
  by (rule scaled_percent) (use assms in \<open>simp_all add: ceiling_le\<close>)

lemma share_configured:
  assumes "bounded_by v a a" "fits v a" "hasGPU \<longleftrightarrow> aq_GPU a \<noteq> None"
  shows "as_configured Q v c a (share Q M c hasGPU a)"
proof -
  have nn: "0 \<le> v (aq_CPU a) * 1000" "0 \<le> v (aq_Memory a)" "\<And>g. aq_GPU a = Some g \<Longrightarrow> 0 \<le> v g"
    using assms(1) by (auto simp: bounded_by_def rel_option_iff split: option.splits)
  have fit: "v (aq_CPU a) * 1000 \<le> of_int max_int64" "v (aq_Memory a) \<le> of_int max_int64"
    "\<And>g. aq_GPU a = Some g \<Longrightarrow> v g \<le> of_int max_int64"
    using assms(2) by (auto simp: fits_def)
  let ?p = "co_SharingPercentage c"
  consider (pct) "co_SharingLogic c = ''percentage''" "0 \<le> ?p" "?p < 100"
    | (fixed) "co_SharingLogic c = ''fixed''"
    | (all) "co_SharingLogic c \<noteq> ''fixed''" "\<not> (co_SharingLogic c = ''percentage'' \<and> 0 \<le> ?p \<and> ?p < 100)"
    by blast
  then show ?thesis
  proof cases
    case pct
    have "qm_MilliValue M (aq_CPU a) = \<lceil>v (aq_CPU a) * 1000\<rceil>" "qm_Value M (aq_Memory a) = \<lceil>v (aq_Memory a)\<rceil>"
      "\<And>g. aq_GPU a = Some g \<Longrightarrow> qm_Value M g = \<lceil>v g\<rceil>"
      using nn fit by (simp_all add: milli_ceiling value_ceiling)
    with pct show ?thesis
      using scaled_ceiling [OF nn(1) fit(1) pct(2,3)] scaled_ceiling [OF nn(2) fit(2) pct(2,3)]
        scaled_ceiling [OF nn(3) fit(3) pct(2,3)]
      by (cases "aq_GPU a") (simp_all add: as_configured_def share_def Let_def)
  next
    case fixed
    then show ?thesis
      using assms(3)
      by (cases "aq_GPU a")
        (auto simp: as_configured_def share_def share_fixed_def fixed_limit_def Let_def cmp_laws split: sum.split)
  next
    case all
    then show ?thesis by (auto simp: as_configured_def share_def)
  qed
qed

lemma physical_within:
  assumes "hasGPU \<longleftrightarrow> aq_GPU allocatable \<noteq> None"
  shows "bounded_by v (physical_available Q hasGPU allocatable allocated reserved)
    (physical_available Q hasGPU allocatable allocated reserved)"
  using assms by (cases "aq_GPU allocatable") (simp_all add: bounded_by_def physical_available_def Let_def)

end

section \<open>The collection as a function of what is listed\<close>

definition node_capacity :: "'q node_totals \<Rightarrow> 'q ResourceQuantities" where
  "node_capacity t = (if nt_hasGPU t then (nt_capacity t)\<lparr>aq_GPU := Some (nt_capacityGPU t)\<rparr> else nt_capacity t)"

definition node_allocatable :: "'q node_totals \<Rightarrow> 'q ResourceQuantities" where
  "node_allocatable t =
     (if nt_hasGPU t then (nt_allocatable t)\<lparr>aq_GPU := Some (nt_allocatableGPU t)\<rparr> else nt_allocatable t)"

definition unshared ::
  "'q QuantityOps \<Rightarrow> 'q QuantityMore \<Rightarrow> 'q Node list \<Rightarrow> 'q Pod list \<Rightarrow> ProviderInstruction list \<Rightarrow> time \<Rightarrow>
   'q ResourceQuantities" where
  "unshared Q M nodes pods items now =
     (let t = sum_nodes Q M nodes
      in physical_available Q (nt_hasGPU t) (node_allocatable t) (sum_pods Q M pods)
           (fold (add_instruction Q now) items (zero_amounts Q)))"

lemma nodes_no_gpu: "aq_GPU (nt_allocatable (sum_nodes Q M nodes)) = None"
proof -
  have "aq_GPU (nt_allocatable t) = None \<Longrightarrow> aq_GPU (nt_allocatable (fold (add_node Q) nodes t)) = None" for t
    by (induction nodes arbitrary: t) (simp_all add: add_node_def)
  then show ?thesis by (simp add: sum_nodes_def zero_amounts_def)
qed

lemma allocatable_gpu: "aq_GPU (node_allocatable (sum_nodes Q M nodes)) \<noteq> None \<longleftrightarrow> nt_hasGPU (sum_nodes Q M nodes)"
  by (simp add: node_allocatable_def nodes_no_gpu)

lemma physical_gpu:
  "hasGPU \<longleftrightarrow> aq_GPU allocatable \<noteq> None \<Longrightarrow>
   aq_GPU (physical_available Q hasGPU allocatable allocated reserved) \<noteq> None \<longleftrightarrow> hasGPU"
  by (auto simp: physical_available_def Let_def)

lemma collect_runs:
  assumes "run_state (g_nodes E) w = (Inr nodes, w1)" "nodes \<noteq> []"
    and "run_state (g_pods E None) w1 = (Inr pods, w2)" "run_state (c_list (g_pi E)) w2 = (Inr items, w3)"
    and "run_state (g_now E) w3 = (now, w4)"
  shows "run_state (CollectClusterResources E c) w =
    (Inr \<lparr>am_Capacity = node_capacity (sum_nodes (g_Q E) (g_M E) nodes),
          am_Allocatable = node_allocatable (sum_nodes (g_Q E) (g_M E) nodes),
          am_Allocated = sum_pods (g_Q E) (g_M E) pods, am_Used = None,
          am_Available = share (g_Q E) (g_M E) c (nt_hasGPU (sum_nodes (g_Q E) (g_M E) nodes))
            (unshared (g_Q E) (g_M E) nodes pods items now)\<rparr>, w4)"
  using assms
  by (simp add: CollectClusterResources_def calculateAllocatedResources_def calculateReservedResources_def
      unshared_def node_capacity_def node_allocatable_def Let_def)

section \<open>Properties\<close>

text \<open>
  C17. What a provider offers: once nodes, pods and instructions are listed, the collection answers
  with an availability that is neither negative nor more than what is free (allocatable minus what the
  pods are allocated minus what the enforced, unexpired instructions reserve, or nothing where that is
  negative), and is what the sharing configuration makes of it: the configured percentage of it,
  rounded down, up to a relative error of \<open>2^-50\<close>; the smaller of it and the fixed limit (nothing
  where no limit is given, and all of it where the limit does not parse); or all of it in every other
  mode, a percentage outside 0..99 included. The fixed limits must not be negative, and the amounts
  must fit an \<open>int64\<close>.
\<close>

theorem collected_available_bounds:
  assumes "quantity_more (g_Q E) v (g_M E)"
    and "run_state (g_nodes E) w = (Inr nodes, w1)" "nodes \<noteq> []"
    and "run_state (g_pods E None) w1 = (Inr pods, w2)" "run_state (c_list (g_pi E)) w2 = (Inr items, w3)"
    and "run_state (g_now E) w3 = (now, w4)"
    and "limits_nonneg (g_Q E) v c" "fits v (unshared (g_Q E) (g_M E) nodes pods items now)"
  shows "\<exists>m. run_state (CollectClusterResources E c) w = (Inr m, w4) \<and> am_Allocated m = sum_pods (g_Q E) (g_M E) pods \<and>
    bounded_by v (am_Available m) (unshared (g_Q E) (g_M E) nodes pods items now) \<and>
    as_configured (g_Q E) v c (unshared (g_Q E) (g_M E) nodes pods items now) (am_Available m) \<and>
    v (aq_CPU (am_Available m)) \<le> max 0 (v (aq_CPU (am_Allocatable m)) - v (aq_CPU (am_Allocated m)) -
      (\<Sum>i \<leftarrow> filter (counted now) items. parsed (g_Q E) v (pis_RequestedCPU (o_spec i)))) \<and>
    v (aq_Memory (am_Available m)) \<le> max 0 (v (aq_Memory (am_Allocatable m)) - v (aq_Memory (am_Allocated m)) -
      (\<Sum>i \<leftarrow> filter (\<lambda>i. counted now i \<and>
          (pis_RequestedCPU (o_spec i) = [] \<or> is_amount (g_Q E) (pis_RequestedCPU (o_spec i)))) items.
        parsed (g_Q E) v (pis_RequestedMemory (o_spec i))))"
proof -
  note q = quantity_more.axioms(1) [OF assms(1)]
  let ?t = "sum_nodes (g_Q E) (g_M E) nodes" and ?u = "unshared (g_Q E) (g_M E) nodes pods items now"
  have u: "bounded_by v ?u ?u" "nt_hasGPU ?t \<longleftrightarrow> aq_GPU ?u \<noteq> None"
    unfolding unshared_def Let_def
    by (rule quantity_more.physical_within [OF assms(1)], rule allocatable_gpu [symmetric])
      (rule physical_gpu [OF allocatable_gpu [symmetric], symmetric])
  have "bounded_by v (share (g_Q E) (g_M E) c (nt_hasGPU ?t) ?u) ?u"
    by (rule quantity_more.share_within [OF assms(1) u(1) assms(8,7) u(2)])
  moreover have "as_configured (g_Q E) v c ?u (share (g_Q E) (g_M E) c (nt_hasGPU ?t) ?u)"
    by (rule quantity_more.share_configured [OF assms(1) u(1) assms(8) u(2)])
  ultimately show ?thesis
    using quantity.v_fold_instructions [OF q] quantity.v_fold_memory [OF q]
    by (simp add: collect_runs [OF assms(2-6)] bounded_by_def unshared_def Let_def physical_available_def
        quantity.v_clamp [OF q] quantity.v_sub [OF q] quantity.v_new [OF q] zero_amounts_def algebra_simps)
qed

text \<open>
  C18. What the pods take: the loop over the pods, with its running sums and maxima, computes the
  reference: per running or pending pod the larger of the sum over its containers and the maximum
  over its init containers, plus its overhead, for CPU, memory and GPU (absent standing for none).
\<close>

theorem allocated_is_reference:
  assumes "quantity_more (g_Q E) v (g_M E)" "run_state (g_pods E None) w = (Inr pods, w')"
  shows "\<exists>a. run_state (calculateAllocatedResources E) w = (Inr a, w') \<and>
    v (aq_CPU a) = (\<Sum>pod \<leftarrow> filter is_active_pod pods. requested v ''cpu'' pod) \<and>
    v (aq_Memory a) = (\<Sum>pod \<leftarrow> filter is_active_pod pods. requested v ''memory'' pod) \<and>
    (case aq_GPU a of None \<Rightarrow> 0 | Some g \<Rightarrow> v g) = (\<Sum>pod \<leftarrow> filter is_active_pod pods. requested v gpu_key pod)"
proof -
  note q = quantity_more.axioms(1) [OF assms(1)]
  show ?thesis
    using assms(2) no_gpu_no_sum [where v = v and Q = "g_Q E" and pods = pods]
    by (simp add: calculateAllocatedResources_def sum_pods_def Let_def quantity.v_fold_pods [OF q]
        quantity.v_new [OF q] quantity_more.v_zero [OF assms(1)])
qed

lemma collected_available_witness:
  "\<exists>m. run_state (CollectClusterResources agent_env
      \<lparr>co_ClusterIDOverride = ''b'', co_SharingLogic = ''percentage'', co_SharingPercentage = 50,
       co_SharingFixedCPU = [], co_SharingFixedMemory = [], co_SharingFixedGPU = []\<rparr>) sample_agent_world =
    (Inr m, sample_agent_world) \<and> 1 < nano_value (aq_CPU (am_Available m)) \<and> nano_value (aq_CPU (am_Available m)) < 2"
proof -
  let ?c = "\<lparr>co_ClusterIDOverride = ''b'', co_SharingLogic = ''percentage'', co_SharingPercentage = 50,
       co_SharingFixedCPU = [], co_SharingFixedMemory = [], co_SharingFixedGPU = []\<rparr>"
  let ?w = sample_agent_world
  let ?u = "unshared nano_ops nano_more (aw_nodes ?w) (aw_pods ?w) (aw_pis ?w) (aw_clock ?w)"
  have items: "run_state (c_list (g_pi agent_env)) ?w = (Inr (aw_pis ?w), ?w)"
    by (simp add: sample_agent_world_def sample_instruction_def)
  have lim: "limits_nonneg (g_Q agent_env) nano_value ?c"
    by (simp add: limits_nonneg_def nano_ops_def nano_parse_def)
  have u: "nano_value (aq_CPU ?u) = 3 \<and> nano_value (aq_Memory ?u) = 40 \<and> aq_GPU ?u = None"
    by code_simp
  then have "fits nano_value ?u" by (simp add: fits_def max_int64_def)
  then obtain m where "run_state (CollectClusterResources agent_env ?c) ?w = (Inr m, ?w)"
    "as_configured nano_ops nano_value ?c ?u (am_Available m)"
    using collected_available_bounds [where E = agent_env and w = ?w and nodes = "aw_nodes ?w" and ?w1.0 = ?w
        and pods = "aw_pods ?w" and ?w2.0 = ?w and items = "aw_pis ?w" and ?w3.0 = ?w and now = "aw_clock ?w"
        and ?w4.0 = ?w and v = nano_value and c = ?c] items lim
      nano_more.quantity_more_axioms
    by (auto simp: sample_agent_world_def)
  with u show ?thesis by (auto simp: as_configured_def percent_of_def)
qed

lemma allocated_is_reference_witness:
  "\<exists>a. run_state (calculateAllocatedResources agent_env) sample_agent_world = (Inr a, sample_agent_world) \<and>
    nano_value (aq_CPU a) = 3"
proof -
  have "requested nano_value ''cpu'' (hd (aw_pods sample_agent_world)) = 3" by code_simp
  then show ?thesis
    using allocated_is_reference [of agent_env nano_value sample_agent_world "aw_pods sample_agent_world" sample_agent_world]
      nano_more.quantity_more_axioms
    by simp (auto simp: sample_agent_world_def is_active_pod_def)
qed

end
