(* ===== verification/Instructions.thy ===== *)
theory Instructions
  imports AgentWorld
begin

text \<open>
  How a provider learns what it has to hold (resource-agent/internal/controller): the instructions
  come with the answer to an advertisement (advertisement_controller.go,
  \<open>processProviderInstructions\<close>) and from the poller (instruction_poller.go); both create one
  \<open>ProviderInstruction\<close> per reservation in the phase Reserved, and neither overwrites one that is
  there.
\<close>

section \<open>Creating the instructions\<close>

definition instruction_name :: "ReservationDTO \<Rightarrow> string" where
  "instruction_name rsv = xv_ID rsv @ ''-provider''"

definition hold_message :: "ReservationDTO \<Rightarrow> string" where
  "hold_message rsv =
     ''Hold '' @ xq_CPU (xv_RequestedResources rsv) @ '' CPU / '' @ xq_Memory (xv_RequestedResources rsv) @
     '' Memory / '' @ xq_GPU (xv_RequestedResources rsv) @ '' GPU for requester '' @ xv_RequesterID rsv"

definition instruction_spec :: "ReservationDTO \<Rightarrow> ProviderInstructionSpec" where
  "instruction_spec rsv =
     \<lparr>pis_ReservationName = xv_ID rsv,
      pis_RequesterClusterID = xv_RequesterID rsv,
      pis_RequestedCPU = xq_CPU (xv_RequestedResources rsv),
      pis_RequestedMemory = xq_Memory (xv_RequestedResources rsv),
      pis_RequestedGPU = xq_GPU (xv_RequestedResources rsv),
      pis_Message = hold_message rsv,
      pis_ExpiresAt = xs_ExpiresAt (xv_Status rsv)\<rparr>"

definition new_instruction :: "string \<Rightarrow> ReservationDTO \<Rightarrow> ProviderInstruction" where
  "new_instruction ns rsv =
     \<lparr>o_meta = new_meta (instruction_name rsv) ns, o_spec = instruction_spec rsv, o_status = zero_pi_status\<rparr>"

text \<open>One turn of the loop: any error of the lookup leads to the attempt to create.\<close>

definition deliver :: "('w, 'q) AgentEnv \<Rightarrow> string \<Rightarrow> ReservationDTO \<Rightarrow> ('w, unit) state" where
  "deliver E ns rsv =
     (if xs_Phase (xv_Status rsv) \<noteq> ''Reserved'' then ret ()
      else do {
        existing \<leftarrow> c_get (g_pi E) (ns, instruction_name rsv);
        case existing of
          Inr _ \<Rightarrow> ret ()
        | Inl _ \<Rightarrow> State_Monad.bind (c_create (g_pi E) (new_instruction ns rsv)) (\<lambda>_. ret ())
      })"

fun deliver_all :: "('w, 'q) AgentEnv \<Rightarrow> string \<Rightarrow> ReservationDTO list \<Rightarrow> ('w, unit) state" where
  "deliver_all E ns [] = ret ()"
| "deliver_all E ns (rsv # rsvs) = State_Monad.bind (deliver E ns rsv) (\<lambda>_. deliver_all E ns rsvs)"

section \<open>instruction_poller.go\<close>

record 'w InstructionPoller =
  ip_BrokerCommunicator :: "'w BrokerCommunicator"
  ip_PollInterval :: duration
  ip_InstructionNamespace :: string

definition processInstructions ::
  "('w, 'q) AgentEnv \<Rightarrow> 'w InstructionPoller \<Rightarrow> ReservationDTO list \<Rightarrow> ('w, unit) state" where
  "processInstructions E p instructions = deliver_all E (ip_InstructionNamespace p) instructions"

text \<open>What one tick of the ticker does.\<close>

definition poll :: "('w, 'q) AgentEnv \<Rightarrow> 'w InstructionPoller \<Rightarrow> ('w, unit) state" where
  "poll E p = do {
     fetched \<leftarrow> bc_FetchInstructions (ip_BrokerCommunicator p);
     case fetched of
       Inl _ \<Rightarrow> ret ()
     | Inr instructions \<Rightarrow> if instructions \<noteq> [] then processInstructions E p instructions else ret ()
   }"

text \<open>The loop runs until the context is cancelled: \<open>n\<close> ticks come before that.\<close>

fun Start :: "nat \<Rightarrow> ('w, 'q) AgentEnv \<Rightarrow> 'w InstructionPoller \<Rightarrow> ('w, go_error + unit) state" where
  "Start 0 E p = ret (Inr ())"
| "Start (Suc n) E p = State_Monad.bind (poll E p) (\<lambda>_. Start n E p)"

section \<open>advertisement_controller.go\<close>

definition processProviderInstructions ::
  "('w, 'q) AgentEnv \<Rightarrow> string \<Rightarrow> key \<Rightarrow> ReservationDTO list \<Rightarrow> ('w, unit) state" where
  "processProviderInstructions E instructionNamespace targetKey instructions =
     deliver_all E (if instructionNamespace = '''' then fst targetKey else instructionNamespace) instructions"

section \<open>What is delivered\<close>

text \<open>
  Nothing that is there is touched, and what is new is the instruction of a Reserved reservation.
\<close>

definition instruction_of :: "string \<Rightarrow> ReservationDTO set \<Rightarrow> key \<Rightarrow> ProviderInstruction \<Rightarrow> bool" where
  "instruction_of ns R k y \<longleftrightarrow>
     (\<exists>rsv \<in> R. xs_Phase (xv_Status rsv) = ''Reserved'' \<and> k = (ns, instruction_name rsv) \<and>
        obj_key y = k \<and> o_spec y = instruction_spec rsv)"

definition delivered :: "string \<Rightarrow> ReservationDTO set \<Rightarrow> (ProviderInstructionSpec, ProviderInstructionStatus) store \<Rightarrow>
   (ProviderInstructionSpec, ProviderInstructionStatus) store \<Rightarrow> bool" where
  "delivered ns R s s' \<longleftrightarrow>
     (\<forall>k. s' k = s k \<or> s k = None \<and> (\<exists>y. s' k = Some y \<and> instruction_of ns R k y))"

lemma delivered_refl: "delivered ns R s s"
  by (simp add: delivered_def)

lemma deliveredD:
  assumes "delivered ns R s s'"
  shows "s k = Some x \<Longrightarrow> s' k = Some x" "s k = None \<Longrightarrow> s' k = Some y \<Longrightarrow> instruction_of ns R k y"
  using spec [OF assms [unfolded delivered_def], of k] by auto

lemma instruction_of_mono: "instruction_of ns R k y \<Longrightarrow> R \<subseteq> R' \<Longrightarrow> instruction_of ns R' k y"
  unfolding instruction_of_def by blast

lemma delivered_trans:
  assumes "delivered ns R s s'" "delivered ns R' s' s''"
  shows "delivered ns (R \<union> R') s s''"
  unfolding delivered_def
proof
  fix k
  show "s'' k = s k \<or> s k = None \<and> (\<exists>y. s'' k = Some y \<and> instruction_of ns (R \<union> R') k y)"
    using spec [OF assms(1) [unfolded delivered_def], of k] spec [OF assms(2) [unfolded delivered_def], of k]
    by (auto intro: instruction_of_mono [of ns _ k _ "R \<union> R'"])
qed

text \<open>A client whose creations fail only where the object exists already.\<close>

definition creates :: "('w, 's, 't) Client \<Rightarrow> ('w \<Rightarrow> ('s, 't) store) \<Rightarrow> bool" where
  "creates C objs \<longleftrightarrow> (\<forall>x w e w'. run_state (c_create C x) w = (Inl e, w') \<longrightarrow> objs w (obj_key x) \<noteq> None)"

lemma deliver_delivers:
  assumes "kube_client (g_pi E) pis" "run_state (deliver E ns rsv) w = (u, w')"
  shows "delivered ns {rsv} (pis w) (pis w')"
    and "creates (g_pi E) pis \<Longrightarrow> xs_Phase (xv_Status rsv) = ''Reserved'' \<Longrightarrow> pis w' (ns, instruction_name rsv) \<noteq> None"
proof -
  note C = assms(1)
  obtain got w1 where got: "run_state (c_get (g_pi E) (ns, instruction_name rsv)) w = (got, w1)" by fastforce
  obtain made w2 where made: "run_state (c_create (g_pi E) (new_instruction ns rsv)) w1 = (made, w2)" by fastforce
  have w1: "pis w1 = pis w" by (rule kube_client.get_same [OF C got])
  have key: "obj_key (new_instruction ns rsv) = (ns, instruction_name rsv)"
    "o_spec (new_instruction ns rsv) = instruction_spec rsv"
    by (simp_all add: new_instruction_def)
  show "delivered ns {rsv} (pis w) (pis w')"
  proof (cases "xs_Phase (xv_Status rsv) = ''Reserved'' \<and> (\<exists>e. got = Inl e)")
    case True
    then have w': "w' = w2" using assms(2) got made by (auto simp: deliver_def)
    show ?thesis
    proof (cases made)
      case (Inl e)
      with made kube_client.write_fail(1) [OF C] w1 w' show ?thesis by (auto simp: delivered_refl)
    next
      case (Inr y)
      have "pis w (ns, instruction_name rsv) = None \<and> pis w' = (pis w)((ns, instruction_name rsv) \<mapsto> y) \<and>
        instruction_of ns {rsv} (ns, instruction_name rsv) y"
        using kube_client.create_ok [OF C made [unfolded Inr]] key w1 w' True by (simp add: instruction_of_def)
      then show ?thesis by (simp add: delivered_def)
    qed
  next
    case False
    then have "pis w' = pis w" using assms(2) got w1 by (auto simp: deliver_def split: sum.splits if_splits)
    then show ?thesis by (simp add: delivered_refl)
  qed
  show "pis w' (ns, instruction_name rsv) \<noteq> None" if "creates (g_pi E) pis" "xs_Phase (xv_Status rsv) = ''Reserved''"
  proof (cases got)
    case (Inl e)
    then have w': "w' = w2" using assms(2) got made that(2) by (auto simp: deliver_def)
    show ?thesis
    proof (cases made)
      case (Inl e)
      with made kube_client.write_fail(1) [OF C] that(1) key w' show ?thesis
        unfolding creates_def by metis
    next
      case (Inr y)
      show ?thesis using kube_client.create_ok [OF C made [unfolded Inr]] key w' by simp
    qed
  next
    case (Inr x)
    with assms(2) got w1 that(2) kube_client.get_found [OF C, of _ w x w1] show ?thesis
      by (auto simp: deliver_def)
  qed
qed

lemma deliver_all_delivers:
  assumes "kube_client (g_pi E) pis" "run_state (deliver_all E ns rsvs) w = (u, w')"
  shows "delivered ns (set rsvs) (pis w) (pis w') \<and>
    (creates (g_pi E) pis \<longrightarrow> (\<forall>rsv \<in> set rsvs. xs_Phase (xv_Status rsv) = ''Reserved'' \<longrightarrow>
       pis w' (ns, instruction_name rsv) \<noteq> None))"
  using assms(2)
proof (induction rsvs arbitrary: w)
  case Nil
  then show ?case by (simp add: delivered_refl)
next
  case (Cons rsv rsvs)
  obtain u1 w1 where first: "run_state (deliver E ns rsv) w = (u1, w1)" by (meson surj_pair)
  with Cons.prems have rest: "run_state (deliver_all E ns rsvs) w1 = (u, w')" by simp
  note d1 = deliver_delivers [OF assms(1) first] and IH = Cons.IH [OF rest]
  have "delivered ns ({rsv} \<union> set rsvs) (pis w) (pis w')"
    by (rule delivered_trans [OF d1(1)]) (use IH in blast)
  moreover have "pis w' (ns, instruction_name rsv) \<noteq> None"
    if "creates (g_pi E) pis" "xs_Phase (xv_Status rsv) = ''Reserved''"
    using d1(2) [OF that] deliveredD(1) [OF conjunct1 [OF IH]] by (metis not_None_eq)
  ultimately show ?case using IH by simp
qed

section \<open>A sample answer\<close>

definition sample_reserved :: ReservationDTO where
  "sample_reserved =
     \<lparr>xv_ID = ''rsv-c-2'', xv_RequesterID = ''c'', xv_TargetClusterID = ''b'',
      xv_RequestedResources = \<lparr>xq_CPU = ''1'', xq_Memory = ''4'', xq_GPU = [], xq_Storage = []\<rparr>,
      xv_Status = \<lparr>xs_Phase = ''Reserved'', xs_Message = [], xs_ReservedAt = None, xs_ExpiresAt = None,
        xs_PeeringKubeconfig = []\<rparr>,
      xv_CreatedAt = 0\<rparr>"

lemma agent_creates: "creates (g_pi agent_env) (\<lambda>w. store_get (aw_pis w))"
  by (auto simp: creates_def split: option.splits)

section \<open>Properties\<close>

text \<open>
  C21. Instructions are delivered once: polling never touches an instruction that exists, creates
  only instructions of Reserved reservations the broker answered with (and with their amounts and
  expiry), and, if the API creates what does not exist, leaves an instruction for each of them; a
  second delivery of the same answer then changes nothing.
\<close>

theorem instructions_delivered_once:
  assumes "kube_client (g_pi E) pis" "run_state (processInstructions E p rsvs) w = (u, w1)"
  shows "delivered (ip_InstructionNamespace p) (set rsvs) (pis w) (pis w1) \<and>
    (creates (g_pi E) pis \<longrightarrow>
       (\<forall>rsv \<in> set rsvs. xs_Phase (xv_Status rsv) = ''Reserved'' \<longrightarrow>
          pis w1 (ip_InstructionNamespace p, instruction_name rsv) \<noteq> None) \<and>
       (\<forall>u' w2. run_state (processInstructions E p rsvs) w1 = (u', w2) \<longrightarrow> pis w2 = pis w1))"
proof -
  let ?ns = "ip_InstructionNamespace p"
  note d = deliver_all_delivers [OF assms(1) assms(2) [unfolded processInstructions_def]]
  have "pis w2 = pis w1"
    if c: "creates (g_pi E) pis" and again: "run_state (processInstructions E p rsvs) w1 = (u', w2)" for u' w2
  proof
    fix k
    note d2 = deliver_all_delivers [OF assms(1) again [unfolded processInstructions_def]]
    show "pis w2 k = pis w1 k"
    proof (cases "pis w1 k")
      case None
      have "pis w2 k \<noteq> Some y" for y
      proof
        assume "pis w2 k = Some y"
        with d2 None have "instruction_of ?ns (set rsvs) k y" by (blast dest: deliveredD(2))
        then show False using d c None unfolding instruction_of_def by blast
      qed
      with None show ?thesis by (metis not_None_eq)
    next
      case (Some x)
      with d2 show ?thesis by (metis deliveredD(1))
    qed
  qed
  with d show ?thesis by blast
qed

lemma instructions_delivered_witness:
  "\<exists>u w1. run_state (processInstructions agent_env
      \<lparr>ip_BrokerCommunicator = silent_broker, ip_PollInterval = 5 * go_second, ip_InstructionNamespace = ''default''\<rparr>
      [sample_reserved]) sample_agent_world = (u, w1) \<and>
    store_get (aw_pis w1) (''default'', instruction_name sample_reserved) \<noteq> None"
proof -
  let ?p = "\<lparr>ip_BrokerCommunicator = silent_broker, ip_PollInterval = 5 * go_second, ip_InstructionNamespace = ''default''\<rparr>"
  obtain u w1 where run: "run_state (processInstructions agent_env ?p [sample_reserved]) sample_agent_world = (u, w1)"
    by (meson surj_pair)
  have "kube_client (g_pi agent_env) (\<lambda>w. store_get (aw_pis w))"
    by (simp add: aw_pi.kube_client_axioms)
  from instructions_delivered_once [OF this run] agent_creates run show ?thesis
    by (auto simp: sample_reserved_def)
qed

end
