(* ===== verification/AgentServices.thy ===== *)
theory AgentServices
  imports AgentWorld
begin

text \<open>
  The services the agent asks: its location (resource-agent/internal/geo/client.go), the carbon
  forecast of its region (internal/eco/client.go) and the latency to a peered cluster
  (internal/metrics/latency.go). The first two keep their answer in a package variable, which is a
  cell of the world with its own operations; HTTP, JSON, SHA-256 and \<open>strconv.ParseFloat\<close> are of the
  standard library and parameters.
\<close>

datatype 'a Answer = CallFails go_error | Answered int "go_error + 'a"

record CarbonData =
  cb_CarbonIntensity :: "int list"
  cb_LastUpdate :: time

record forecastResponse =
  fr_Forecast :: "(int \<times> string) list"

text \<open>A body read line by line: the lines, and the error the scanner ends with, if any.\<close>

type_synonym scanned = "string list \<times> go_error option"

record 'w Services =
  sv_location :: "('w, LocationDTO option) state"
  sv_set_location :: "LocationDTO \<Rightarrow> ('w, unit) state"
  sv_pseudo_ip :: "string \<Rightarrow> string"
  sv_geo :: "string \<Rightarrow> ('w, LocationDTO Answer) state"
  sv_carbon :: "('w, CarbonData option) state"
  sv_set_carbon :: "CarbonData \<Rightarrow> ('w, unit) state"
  sv_eco :: "string \<Rightarrow> ('w, forecastResponse Answer) state"
  sv_metrics :: "string \<Rightarrow> ('w, scanned Answer) state"
  sv_parse_float :: "string \<Rightarrow> go_error + float64"

section \<open>geo/client.go\<close>

definition GetLocation ::
  "'w Services \<Rightarrow> string \<Rightarrow> string \<Rightarrow> string \<Rightarrow> ('w, go_error + LocationDTO option) state" where
  "GetLocation V mockGeoURL clusterID forcedIP =
     (if mockGeoURL = '''' then ret (Inr None)
      else do {
        cached \<leftarrow> sv_location V;
        case cached of
          Some l \<Rightarrow> ret (Inr (Some l))
        | None \<Rightarrow> do {
            let ipToUse = (if forcedIP = '''' then sv_pseudo_ip V clusterID else forcedIP);
            resp \<leftarrow> sv_geo V (mockGeoURL @ ''/json/'' @ ipToUse);
            case resp of
              CallFails e \<Rightarrow> ret (Inl (ErrWrap ''failed to call mock-geo'' e))
            | Answered code body \<Rightarrow>
                if code \<noteq> 200 then ret (Inl (ErrMsg (''mock-geo returned status '' @ show_int code)))
                else case body of
                    Inl e \<Rightarrow> ret (Inl (ErrWrap ''failed to decode response'' e))
                  | Inr loc \<Rightarrow> State_Monad.bind (sv_set_location V loc) (\<lambda>_. ret (Inr (Some loc)))
          }
      })"

section \<open>eco/client.go\<close>

definition stale_or :: "CarbonData option \<Rightarrow> go_error \<Rightarrow> go_error + CarbonData option" where
  "stale_or cached e = (case cached of Some d \<Rightarrow> Inr (Some d) | None \<Rightarrow> Inl e)"

definition GetCarbonForecast ::
  "('w, 'q) AgentEnv \<Rightarrow> 'w Services \<Rightarrow> string \<Rightarrow> string \<Rightarrow> ('w, go_error + CarbonData option) state" where
  "GetCarbonForecast E V mockEcoURL region =
     (if mockEcoURL = '''' \<or> region = '''' then ret (Inr None)
      else do {
        cached \<leftarrow> sv_carbon V;
        fresh \<leftarrow> (case cached of
            None \<Rightarrow> ret False
          | Some d \<Rightarrow> State_Monad.bind (g_since E (cb_LastUpdate d)) (\<lambda>age. ret (age < 1 * go_hour)));
        if fresh then ret (Inr cached)
        else do {
          resp \<leftarrow> sv_eco V (mockEcoURL @ ''/v4/carbon-intensity/forecast?zone='' @ region);
          case resp of
            CallFails e \<Rightarrow> ret (stale_or cached (ErrWrap ''failed to call mock-eco'' e))
          | Answered code body \<Rightarrow>
              if code \<noteq> 200 then ret (stale_or cached (ErrMsg (''mock-eco returned status '' @ show_int code)))
              else case body of
                  Inl e \<Rightarrow> ret (Inl (ErrWrap ''failed to decode response'' e))
                | Inr forecastResp \<Rightarrow>
                    if fr_Forecast forecastResp = [] then ret (Inl (ErrMsg (''empty forecast for region '' @ region)))
                    else do {
                      now \<leftarrow> g_now E;
                      let d = \<lparr>cb_CarbonIntensity = map fst (fr_Forecast forecastResp), cb_LastUpdate = now\<rparr>;
                      _ \<leftarrow> sv_set_carbon V d;
                      ret (Inr (Some d))
                    }
        }
      })"

section \<open>metrics/latency.go\<close>

fun has_prefix :: "string \<Rightarrow> string \<Rightarrow> bool" where
  "has_prefix [] s = True"
| "has_prefix (p # ps) [] = False"
| "has_prefix (p # ps) (c # s) = (p = c \<and> has_prefix ps s)"

fun contains :: "string \<Rightarrow> string \<Rightarrow> bool" where
  "contains p [] = (p = [])"
| "contains p (c # s) = (has_prefix p (c # s) \<or> contains p s)"

definition is_space :: "char \<Rightarrow> bool" where
  "is_space c \<longleftrightarrow> (let n = (of_char c :: nat) in n = 32 \<or> (9 \<le> n \<and> n \<le> 13))"

text \<open>\<open>strings.Fields\<close>: the runs of characters that are not white space.\<close>

function fields :: "string \<Rightarrow> string list" where
  "fields s =
     (let t = dropWhile is_space s
      in if t = [] then []
         else takeWhile (\<lambda>c. \<not> is_space c) t # fields (dropWhile (\<lambda>c. \<not> is_space c) t))"
  by pat_completeness auto

lemma dropWhile_shorter:
  assumes "t = dropWhile is_space s" "t \<noteq> []"
  shows "length (dropWhile (\<lambda>c. \<not> is_space c) t) < length s"
proof -
  obtain c u where t: "t = c # u" using assms(2) by (cases t) auto
  moreover have "\<not> is_space c" using hd_dropWhile [of is_space s] assms t
    by (metis dropWhile_eq_Nil_conv hd_dropWhile list.sel(1))
  ultimately have "length (dropWhile (\<lambda>c. \<not> is_space c) t) \<le> length u"
    by (simp add: length_dropWhile_le)
  also have "\<dots> < length t" by (simp add: t)
  also have "length t \<le> length s" using assms(1) by (simp add: length_dropWhile_le)
  finally show ?thesis .
qed

termination fields
  by (relation "measure length") (simp_all add: dropWhile_shorter)

declare fields.simps [simp del]

text \<open>
  The first line of the metric that has a value decides; a line of the metric without one is
  skipped, and one with a value that is no number is an error.
\<close>

fun scan_latency :: "'w Services \<Rightarrow> string list \<Rightarrow> (go_error + float64) option" where
  "scan_latency V [] = None"
| "scan_latency V (line # lines) =
     (if has_prefix ''#'' line \<or> list_all is_space line then scan_latency V lines
      else if has_prefix ''liqo_peer_latency_us'' line then
        (let parts = fields line
         in if length parts < 2 then scan_latency V lines
            else Some (case sv_parse_float V (last parts) of
                Inl e \<Rightarrow> Inl (ErrWrap (''failed to parse latency value '' @ last parts) e)
              | Inr latencyUs \<Rightarrow> Inr (latencyUs / lit 1000)))
      else scan_latency V lines)"

definition parseLatencyMetric :: "'w Services \<Rightarrow> scanned \<Rightarrow> go_error + float64" where
  "parseLatencyMetric V body =
     (case scan_latency V (fst body) of
        Some r \<Rightarrow> r
      | None \<Rightarrow>
          (case snd body of
             Some e \<Rightarrow> Inl (ErrWrap ''error reading metrics'' e)
           | None \<Rightarrow> Inl (ErrMsg ''liqo_peer_latency_us metric not found in response'')))"

definition scrapeMetricsEndpoint :: "'w Services \<Rightarrow> string \<Rightarrow> int \<Rightarrow> ('w, go_error + float64) state" where
  "scrapeMetricsEndpoint V podIP port = do {
     let url = ''http://'' @ podIP @ '':'' @ show_int port @ ''/metrics'';
     resp \<leftarrow> sv_metrics V url;
     ret (case resp of
         CallFails e \<Rightarrow> Inl (ErrWrap (''failed to fetch metrics from '' @ url) e)
       | Answered code body \<Rightarrow>
           if code \<noteq> 200 then Inl (ErrMsg (''metrics endpoint '' @ url @ '' returned status '' @ show_int code))
           else case body of
               Inl e \<Rightarrow> Inl (ErrWrap ''error reading metrics'' e)
             | Inr lines \<Rightarrow> parseLatencyMetric V lines)
   }"

text \<open>Ports named after metrics come first, the last named one foremost.\<close>

definition metrics_ports :: "'q Pod \<Rightarrow> int list" where
  "metrics_ports pod =
     fold (\<lambda>port acc. if contains ''metric'' (to_lower (fst port)) then snd port # acc else acc)
       (concat (map ct_Ports (pd_Containers pod))) [5872, 8080, 9090]"

fun try_ports :: "'w Services \<Rightarrow> string \<Rightarrow> string \<Rightarrow> go_error \<Rightarrow> int list \<Rightarrow> ('w, go_error + float64) state" where
  "try_ports V name podIP lastErr [] =
     ret (Inl (ErrWrap (''failed to scrape metrics from gateway pod '' @ name @ '' on any port'') lastErr))"
| "try_ports V name podIP lastErr (port # ports) =
     State_Monad.bind (scrapeMetricsEndpoint V podIP port) (\<lambda>r.
       case r of
         Inr latencyMs \<Rightarrow> ret (Inr latencyMs)
       | Inl e \<Rightarrow> try_ports V name podIP e ports)"

definition ScrapeGatewayLatency ::
  "('w, 'q) AgentEnv \<Rightarrow> 'w Services \<Rightarrow> string \<Rightarrow> ('w, go_error + float64) state" where
  "ScrapeGatewayLatency E V remoteClusterID = do {
     let namespace = ''liqo-tenant-'' @ remoteClusterID;
     listed \<leftarrow> g_pods E (Some namespace);
     case listed of
       Inl e \<Rightarrow> ret (Inl (ErrWrap (''failed to list pods in namespace '' @ namespace) (ErrApi e)))
     | Inr pods \<Rightarrow>
         (case List.find (\<lambda>p. has_prefix ''gw-'' (pd_Name p)) pods of
            None \<Rightarrow> ret (Inl (ErrMsg (''no gateway pod found in namespace '' @ namespace)))
          | Some gwPod \<Rightarrow>
              if pd_PodIP gwPod = '''' then ret (Inl (ErrMsg (''gateway pod '' @ pd_Name gwPod @ '' has no IP address'')))
              else try_ports V (pd_Name gwPod) (pd_PodIP gwPod) (ErrMsg []) (metrics_ports gwPod))
   }"

section \<open>Frames\<close>

definition services_quiet :: "('w \<Rightarrow> 'c) \<Rightarrow> 'w Services \<Rightarrow> bool" where
  "services_quiet f V \<longleftrightarrow>
     keeps f (sv_location V) \<and> (\<forall>l. keeps f (sv_set_location V l)) \<and> (\<forall>u. keeps f (sv_geo V u)) \<and>
     keeps f (sv_carbon V) \<and> (\<forall>d. keeps f (sv_set_carbon V d)) \<and> (\<forall>u. keeps f (sv_eco V u)) \<and>
     (\<forall>u. keeps f (sv_metrics V u))"

lemma services_quietD [keeps_intros]:
  assumes "services_quiet f V"
  shows "keeps f (sv_location V)" "keeps f (sv_set_location V l)" "keeps f (sv_geo V u)" "keeps f (sv_carbon V)"
    "keeps f (sv_set_carbon V d)" "keeps f (sv_eco V u)" "keeps f (sv_metrics V u)"
  using assms unfolding services_quiet_def by blast+

lemma keeps_answer [keeps_intros]:
  "(\<And>e. x = CallFails e \<Longrightarrow> keeps f (g e)) \<Longrightarrow> (\<And>c b. x = Answered c b \<Longrightarrow> keeps f (h c b)) \<Longrightarrow>
   keeps f (case x of CallFails e \<Rightarrow> g e | Answered c b \<Rightarrow> h c b)"
  by (cases x) auto

lemma keeps_GetLocation [keeps_intros]: "services_quiet f V \<Longrightarrow> keeps f (GetLocation V u c i)"
  unfolding GetLocation_def Let_def by (auto intro!: keeps_intros)

lemma keeps_GetCarbonForecast [keeps_intros]:
  "services_quiet f V \<Longrightarrow> keeps f (g_now E) \<Longrightarrow> keeps f (GetCarbonForecast E V u r)"
  unfolding GetCarbonForecast_def Let_def by (auto intro!: keeps_intros)

lemma keeps_scrape [keeps_intros]: "services_quiet f V \<Longrightarrow> keeps f (scrapeMetricsEndpoint V ip port)"
  unfolding scrapeMetricsEndpoint_def Let_def by (auto intro!: keeps_intros)

lemma keeps_try_ports [keeps_intros]: "services_quiet f V \<Longrightarrow> keeps f (try_ports V n ip e ports)"
  by (induction ports arbitrary: e) (auto intro!: keeps_intros)

lemma keeps_ScrapeGatewayLatency [keeps_intros]:
  "services_quiet f V \<Longrightarrow> (\<And>ns. keeps f (g_pods E ns)) \<Longrightarrow> keeps f (ScrapeGatewayLatency E V c)"
  unfolding ScrapeGatewayLatency_def Let_def by (auto intro!: keeps_intros)

text \<open>Services that are not there.\<close>

definition no_services :: "'w Services" where
  "no_services =
     \<lparr>sv_location = ret None, sv_set_location = (\<lambda>l. ret ()), sv_pseudo_ip = (\<lambda>c. ''10.0.0.1''),
      sv_geo = (\<lambda>u. ret (CallFails (ErrMsg ''connection refused''))), sv_carbon = ret None,
      sv_set_carbon = (\<lambda>d. ret ()), sv_eco = (\<lambda>u. ret (CallFails (ErrMsg ''connection refused''))),
      sv_metrics = (\<lambda>u. ret (CallFails (ErrMsg ''connection refused''))),
      sv_parse_float = (\<lambda>s. Inl (ErrMsg ''invalid syntax''))\<rparr>"

lemma no_services_quiet: "services_quiet f no_services"
  by (simp add: services_quiet_def no_services_def keeps_return)

end
