(* ===== verification/PeerHost.thy ===== *)
theory PeerHost
  imports AgentServices FilePath
begin

text \<open>
  What the agent does on its host (files and the \<open>liqoctl\<close> and \<open>kubectl\<close> commands), and the two peering
  operations built from it (reservationinstruction_controller.go). The packages \<open>os\<close> and \<open>os/exec\<close>
  are in the record \<open>Host\<close>; a command gives its output or an error with the output.
\<close>

datatype StatResult = FileExists | FileMissing | StatFails

record 'w Host =
  ho_stat :: "string \<Rightarrow> ('w, StatResult) state"
  ho_read_file :: "string \<Rightarrow> ('w, go_error + string) state"
  ho_create_temp :: "string \<Rightarrow> ('w, go_error + string) state"
  ho_write_string :: "string \<Rightarrow> string \<Rightarrow> ('w, go_error + unit) state"
  ho_remove :: "string \<Rightarrow> ('w, unit) state"
  ho_look_path :: "string \<Rightarrow> ('w, go_error + string) state"
  ho_run :: "duration \<Rightarrow> string \<Rightarrow> string list \<Rightarrow> ('w, (go_error \<times> string) + string) state"

definition host_quiet :: "('w \<Rightarrow> 'c) \<Rightarrow> 'w Host \<Rightarrow> bool" where
  "host_quiet f S \<longleftrightarrow>
     (\<forall>p. keeps f (ho_stat S p)) \<and> (\<forall>p. keeps f (ho_read_file S p)) \<and> (\<forall>p. keeps f (ho_create_temp S p)) \<and>
     (\<forall>p s. keeps f (ho_write_string S p s)) \<and> (\<forall>p. keeps f (ho_remove S p)) \<and>
     (\<forall>p. keeps f (ho_look_path S p)) \<and> (\<forall>d c args. keeps f (ho_run S d c args))"

lemma host_quietD [keeps_intros]:
  assumes "host_quiet f S"
  shows "keeps f (ho_stat S p)" "keeps f (ho_read_file S p)" "keeps f (ho_create_temp S p)"
    "keeps f (ho_write_string S p s)" "keeps f (ho_remove S p)" "keeps f (ho_look_path S p)" "keeps f (ho_run S d c args)"
  using assms unfolding host_quiet_def by blast+

definition broker_quiet :: "('w \<Rightarrow> 'c) \<Rightarrow> 'w BrokerCommunicator \<Rightarrow> bool" where
  "broker_quiet f B \<longleftrightarrow>
     (\<forall>d. keeps f (bc_PublishAdvertisement B d)) \<and> (\<forall>d. keeps f (bc_RequestReservation B d)) \<and>
     (\<forall>d. keeps f (bc_EvaluateProviders B d)) \<and> keeps f (bc_FetchInstructions B) \<and>
     (\<forall>i. keeps f (bc_GetReservation B i)) \<and> (\<forall>i k. keeps f (bc_UploadPeeringKubeconfig B i k)) \<and>
     keeps f (bc_Ping B) \<and> keeps f (bc_Close B)"

lemma broker_quietD [keeps_intros]:
  assumes "broker_quiet f B"
  shows "keeps f (bc_PublishAdvertisement B d)" "keeps f (bc_RequestReservation B r)" "keeps f (bc_EvaluateProviders B r)"
    "keeps f (bc_FetchInstructions B)" "keeps f (bc_GetReservation B i)" "keeps f (bc_UploadPeeringKubeconfig B i k)"
    "keeps f (bc_Ping B)" "keeps f (bc_Close B)"
  using assms unfolding broker_quiet_def by blast+

lemma silent_quiet: "broker_quiet f silent_broker"
  by (simp add: broker_quiet_def silent_broker_def keeps_return)

text \<open>\<open>filepath.Join(dir, id + ".kubeconfig")\<close>.\<close>

definition kubeconfig_path :: "string \<Rightarrow> string \<Rightarrow> string" where
  "kubeconfig_path dir clusterID = path_Join [dir, clusterID @ ''.kubeconfig'']"

text \<open>
  \<open>defer os.Remove(tmp)\<close>: the temporary file is removed on every way out.
\<close>

definition removing :: "'w Host \<Rightarrow> string \<Rightarrow> ('w, 'a) state \<Rightarrow> ('w, 'a) state" where
  "removing S tmp m = do { r \<leftarrow> m; _ \<leftarrow> ho_remove S tmp; ret r }"

lemma keeps_removing [keeps_intros]: "host_quiet f S \<Longrightarrow> keeps f m \<Longrightarrow> keeps f (removing S tmp m)"
  unfolding removing_def by (intro keeps_intros)

definition executeLiqoPeering :: "'w Host \<Rightarrow> string \<Rightarrow> string \<Rightarrow> string \<Rightarrow> string \<Rightarrow> ('w, go_error + unit) state" where
  "executeLiqoPeering S kubeconfigsDir clusterID targetClusterID remoteKubeconfigContent =
     (let localKubeconfig = kubeconfig_path kubeconfigsDir clusterID
      in State_Monad.bind (ho_create_temp S (''peering-'' @ targetClusterID @ ''-*.kubeconfig'')) (\<lambda>created.
        case created of
          Inl e \<Rightarrow> ret (Inl (ErrWrap ''failed to create temporary peering kubeconfig file'' e))
        | Inr tmp \<Rightarrow> removing S tmp (do {
            written \<leftarrow> ho_write_string S tmp remoteKubeconfigContent;
            case written of
              Inl e \<Rightarrow> ret (Inl (ErrWrap ''failed to write into temp peering file'' e))
            | Inr _ \<Rightarrow> do {
                st \<leftarrow> ho_stat S localKubeconfig;
                if st = FileMissing then ret (Inl (ErrMsg (''local kubeconfig not found: '' @ localKubeconfig)))
                else do {
                  found \<leftarrow> ho_look_path S ''liqoctl'';
                  case found of
                    Inl e \<Rightarrow> ret (Inl (ErrWrap ''liqoctl not found in PATH'' e))
                  | Inr _ \<Rightarrow> do {
                      r \<leftarrow> ho_run S (5 * go_minute) ''liqoctl''
                        [''peer'', ''--kubeconfig'', localKubeconfig, ''--remote-kubeconfig'', tmp,
                         ''--gw-server-service-type'', ''NodePort''];
                      ret (case r of
                          Inl (e, _) \<Rightarrow> Inl (ErrWrap ''liqoctl peer failed'' e)
                        | Inr _ \<Rightarrow> Inr ())
                    }
                }
              }
          })))"

definition executeLiqoUnpeer :: "'w Host \<Rightarrow> string \<Rightarrow> string \<Rightarrow> string \<Rightarrow> string \<Rightarrow> ('w, go_error + unit) state" where
  "executeLiqoUnpeer S kubeconfigsDir clusterID targetClusterID remoteKubeconfigContent =
     (let localKubeconfig = kubeconfig_path kubeconfigsDir clusterID
      in State_Monad.bind (ho_stat S localKubeconfig) (\<lambda>st.
        if st = FileMissing then ret (Inl (ErrMsg (''local kubeconfig not found: '' @ localKubeconfig)))
        else State_Monad.bind (ho_create_temp S (''unpeering-'' @ targetClusterID @ ''-*.kubeconfig'')) (\<lambda>created.
          case created of
            Inl e \<Rightarrow> ret (Inl (ErrWrap ''failed to create temporary unpeering kubeconfig file'' e))
          | Inr tmp \<Rightarrow> removing S tmp (do {
              written \<leftarrow> ho_write_string S tmp remoteKubeconfigContent;
              case written of
                Inl e \<Rightarrow> ret (Inl (ErrWrap ''failed to write into temp unpeering file'' e))
              | Inr _ \<Rightarrow> do {
                  found \<leftarrow> ho_look_path S ''liqoctl'';
                  case found of
                    Inl e \<Rightarrow> ret (Inl (ErrWrap ''liqoctl not found in PATH'' e))
                  | Inr _ \<Rightarrow> do {
                      r \<leftarrow> ho_run S (2 * go_minute) ''liqoctl''
                        [''unpeer'', ''--kubeconfig'', localKubeconfig, ''--remote-kubeconfig'', tmp];
                      ret (case r of
                          Inl (e, output) \<Rightarrow>
                            Inl (ErrWrap ''liqoctl unpeer failed'' (ErrMsg (err_text e @ '' (output: '' @ output @ '')'')))
                        | Inr _ \<Rightarrow> Inr ())
                    }
                }
            }))))"

lemma keeps_peering [keeps_intros]: "host_quiet f S \<Longrightarrow> keeps f (executeLiqoPeering S dir c t k)"
  unfolding executeLiqoPeering_def Let_def by (auto intro!: keeps_intros)

lemma keeps_unpeering [keeps_intros]: "host_quiet f S \<Longrightarrow> keeps f (executeLiqoUnpeer S dir c t k)"
  unfolding executeLiqoUnpeer_def Let_def by (auto intro!: keeps_intros)

text \<open>\<open>strings.TrimSpace\<close> on ASCII white space.\<close>

definition trim_space :: "string \<Rightarrow> string" where
  "trim_space s = rev (dropWhile is_space (rev (dropWhile is_space s)))"

text \<open>A host on which every command succeeds and the local kubeconfig is \<open>cfg\<close>.\<close>

definition sample_host :: "'w Host" where
  "sample_host =
     \<lparr>ho_stat = (\<lambda>p. ret FileExists), ho_read_file = (\<lambda>p. ret (Inr ''cfg'')), ho_create_temp = (\<lambda>p. ret (Inr ''/tmp/x'')),
      ho_write_string = (\<lambda>p s. ret (Inr ())), ho_remove = (\<lambda>p. ret ()), ho_look_path = (\<lambda>p. ret (Inr p)),
      ho_run = (\<lambda>d c args. ret (Inr ''ok''))\<rparr>"

lemma sample_host_quiet: "host_quiet f sample_host"
  by (simp add: host_quiet_def sample_host_def keeps_return)

end
