(* ===== verification/LegacyTransport.thy ===== *)
theory LegacyTransport
  imports AgentWorld FilePath
begin

text \<open>
  The agent's older transport (resource-agent/internal/publisher): it writes its advertisement into
  the broker's Kubernetes API (broker_client.go) and watches the reservations there
  (reservation_watcher.go), both with the dynamic client, whose objects are JSON trees
  (\<open>map[string]interface{}\<close>). The dynamic client, the accessors of the package \<open>unstructured\<close> and
  the formatting and parsing of times are parameters.
\<close>

section \<open>JSON trees and the dynamic client\<close>

datatype json =
    JNull
  | JBool bool
  | JNumber int
  | JString string
  | JArray "json list"
  | JObject "(string \<times> json) list"

text \<open>\<open>v.(map[string]interface{})\<close> and reading a key of it.\<close>

fun as_map :: "json \<Rightarrow> (string \<times> json) list option" where
  "as_map (JObject m) = Some m"
| "as_map _ = None"

definition map_at :: "string \<Rightarrow> (string \<times> json) list \<Rightarrow> (string \<times> json) list option" where
  "map_at key m = (case map_of m key of None \<Rightarrow> None | Some v \<Rightarrow> as_map v)"

fun json_path :: "string list \<Rightarrow> json \<Rightarrow> json option" where
  "json_path [] v = Some v"
| "json_path (key # keys) v =
     (case as_map v of
        None \<Rightarrow> None
      | Some m \<Rightarrow> (case map_of m key of None \<Rightarrow> None | Some u \<Rightarrow> json_path keys u))"

record 'w DynamicClient =
  dy_get :: "key \<Rightarrow> ('w, ApiError + json) state"
  dy_create :: "key \<Rightarrow> json \<Rightarrow> ('w, ApiError + json) state"
  dy_update :: "key \<Rightarrow> json \<Rightarrow> ('w, ApiError + json) state"
  dy_watch :: "string \<Rightarrow> ('w, ApiError + json option list) state"
  dy_sleep :: "duration \<Rightarrow> ('w, unit) state"
  dy_format :: "time \<Rightarrow> string"
  dy_parse :: "string \<Rightarrow> time option"
  un_map :: "json \<Rightarrow> string \<Rightarrow> json option"
  un_string :: "json \<Rightarrow> string \<Rightarrow> string option"
  un_name :: "json \<Rightarrow> string"
  un_version :: "json \<Rightarrow> string"

section \<open>broker_client.go\<close>

record 'w BrokerClient =
  lc_Client :: "'w DynamicClient"
  lc_ClusterID :: string
  lc_Enabled :: bool
  lc_Namespace :: string

text \<open>
  The kubeconfig of the broker: \<open>os.UserHomeDir\<close>, \<open>clientcmd.BuildConfigFromFlags\<close> and
  \<open>dynamic.NewForConfig\<close> are parameters, and so is the nil client of a disabled \<open>BrokerClient\<close>.
\<close>

record ('w, 'k) KubeconfigEnv =
  kc_home :: "('w, go_error + string) state"
  kc_build :: "string \<Rightarrow> ('w, go_error + 'k) state"
  kc_dynamic :: "'k \<Rightarrow> ('w, go_error + 'w DynamicClient) state"
  kc_nil :: "'w DynamicClient"

text \<open>A leading tilde stands for the home directory.\<close>

definition loadBrokerConfig :: "('w, 'k) KubeconfigEnv \<Rightarrow> string \<Rightarrow> ('w, go_error + 'k) state" where
  "loadBrokerConfig K kubeconfigPath =
     (if 2 \<le> length kubeconfigPath \<and> take 2 kubeconfigPath = ''~/''
      then do {
        home \<leftarrow> kc_home K;
        case home of
          Inl e \<Rightarrow> ret (Inl e)
        | Inr h \<Rightarrow> kc_build K (path_Join [h, drop 2 kubeconfigPath])
      }
      else kc_build K kubeconfigPath)"

definition NewBrokerClient ::
  "('w, 'k) KubeconfigEnv \<Rightarrow> string \<Rightarrow> string \<Rightarrow> string \<Rightarrow> ('w, go_error + 'w BrokerClient) state" where
  "NewBrokerClient K brokerKubeconfig clusterID namespace =
     (if brokerKubeconfig = ''''
      then ret (Inr \<lparr>lc_Client = kc_nil K, lc_ClusterID = '''', lc_Enabled = False, lc_Namespace = ''''\<rparr>)
      else do {
        config \<leftarrow> loadBrokerConfig K brokerKubeconfig;
        case config of
          Inl e \<Rightarrow> ret (Inl (ErrWrap ''failed to load broker kubeconfig'' e))
        | Inr c \<Rightarrow> do {
            dynamicClient \<leftarrow> kc_dynamic K c;
            ret (case dynamicClient of
                Inl e \<Rightarrow> Inl (ErrWrap ''failed to create dynamic client'' e)
              | Inr d \<Rightarrow> Inr \<lparr>lc_Client = d, lc_ClusterID = clusterID, lc_Enabled = True, lc_Namespace = namespace\<rparr>)
          }
      })"

lemma NewBrokerClient_enabled:
  "run_state (NewBrokerClient K kubeconfig clusterID ns) w = (Inr b, w') \<Longrightarrow> lc_Enabled b \<longleftrightarrow> kubeconfig \<noteq> ''''"
  by (auto simp: NewBrokerClient_def split: if_splits prod.splits sum.splits)

definition kubeconfig_quiet :: "('w \<Rightarrow> 'c) \<Rightarrow> ('w, 'k) KubeconfigEnv \<Rightarrow> bool" where
  "kubeconfig_quiet f K \<longleftrightarrow> keeps f (kc_home K) \<and> (\<forall>p. keeps f (kc_build K p)) \<and> (\<forall>c. keeps f (kc_dynamic K c))"

lemma kubeconfig_quietD [keeps_intros]:
  assumes "kubeconfig_quiet f K"
  shows "keeps f (kc_home K)" "keeps f (kc_build K p)" "keeps f (kc_dynamic K c)"
  using assms by (simp_all add: kubeconfig_quiet_def)

lemma keeps_NewBrokerClient [keeps_intros]:
  assumes "kubeconfig_quiet f K"
  shows "keeps f (NewBrokerClient K kubeconfig clusterID ns)"
  using assms unfolding NewBrokerClient_def loadBrokerConfig_def by (intro keeps_intros)

definition broker_key :: "'w BrokerClient \<Rightarrow> key" where
  "broker_key b = (if lc_Namespace b = '''' then ''default'' else lc_Namespace b, lc_ClusterID b @ ''-adv'')"

definition amounts_json :: "'q QuantityOps \<Rightarrow> 'q ResourceQuantities \<Rightarrow> json" where
  "amounts_json Q rq =
     JObject [(''cpu'', JString (q_String Q (aq_CPU rq))), (''memory'', JString (q_String Q (aq_Memory rq)))]"

text \<open>The broker's Reserved, where the object that was read has one.\<close>

definition existing_reserved :: "json \<Rightarrow> json option" where
  "existing_reserved existing =
     (case as_map existing of
        None \<Rightarrow> None
      | Some object \<Rightarrow>
     (case map_at ''spec'' object of
        None \<Rightarrow> None
      | Some spec \<Rightarrow>
     (case map_at ''resources'' spec of
        None \<Rightarrow> None
      | Some resources \<Rightarrow> map_of resources ''reserved'')))"

definition resources_json :: "'q QuantityOps \<Rightarrow> 'q ResourceMetrics \<Rightarrow> json option \<Rightarrow> json" where
  "resources_json Q m reserved =
     JObject ([(''capacity'', amounts_json Q (am_Capacity m)),
       (''allocatable'', amounts_json Q (am_Allocatable m)),
       (''allocated'', amounts_json Q (am_Allocated m)),
       (''available'', amounts_json Q (am_Available m))] @
       (case reserved of None \<Rightarrow> [] | Some r \<Rightarrow> [(''reserved'', r)]))"

definition cluster_adv_json ::
  "'q QuantityOps \<Rightarrow> 'w BrokerClient \<Rightarrow> 'q Advertisement \<Rightarrow> json option \<Rightarrow> (string \<times> json) list \<Rightarrow> json" where
  "cluster_adv_json Q b adv reserved version =
     (let s = o_spec adv
      in JObject
        [(''apiVersion'', JString ''broker.fluidos.eu/v1alpha1''),
         (''kind'', JString ''ClusterAdvertisement''),
         (''metadata'', JObject ([(''name'', JString (snd (broker_key b))),
            (''namespace'', JString (fst (broker_key b)))] @ version)),
         (''spec'', JObject
            [(''clusterID'', JString (asp_ClusterID s)),
             (''clusterName'', JString (lc_ClusterID b)),
             (''resources'', resources_json Q (asp_Resources s) reserved),
             (''timestamp'', JString (dy_format (lc_Client b) (asp_Timestamp s)))])])"

text \<open>
  An error of the lookup, whatever it is, leads to the attempt to create. The result \<open>None\<close> is the
  panic of \<open>existing.Object["metadata"].(map[string]interface{})\<close>; a missing version is \<open>nil\<close>.
\<close>

definition existing_version :: "json \<Rightarrow> json option" where
  "existing_version existing =
     (case as_map existing of
        None \<Rightarrow> None
      | Some object \<Rightarrow>
          (case map_at ''metadata'' object of
             None \<Rightarrow> None
           | Some meta \<Rightarrow>
               Some (case map_of meta ''resourceVersion'' of None \<Rightarrow> JNull | Some v \<Rightarrow> v)))"

definition PublishAdvertisement ::
  "'q QuantityOps \<Rightarrow> 'w BrokerClient \<Rightarrow> 'q Advertisement \<Rightarrow> ('w, (go_error + unit) option) state" where
  "PublishAdvertisement Q b adv =
     (if \<not> lc_Enabled b then ret (Some (Inr ()))
      else do {
        got \<leftarrow> dy_get (lc_Client b) (broker_key b);
        case got of
          Inl _ \<Rightarrow> do {
            made \<leftarrow> dy_create (lc_Client b) (broker_key b) (cluster_adv_json Q b adv None []);
            ret (Some (case made of
                Inl e \<Rightarrow> Inl (ErrWrap ''failed to create advertisement in broker'' (ErrApi e))
              | Inr _ \<Rightarrow> Inr ()))
          }
        | Inr existing \<Rightarrow>
            (case existing_version existing of
               None \<Rightarrow> ret None
             | Some v \<Rightarrow> do {
                 updated \<leftarrow> dy_update (lc_Client b) (broker_key b)
                   (cluster_adv_json Q b adv (existing_reserved existing) [(''resourceVersion'', v)]);
                 ret (Some (case updated of
                     Inl e \<Rightarrow> Inl (ErrWrap ''failed to update advertisement in broker'' (ErrApi e))
                   | Inr _ \<Rightarrow> Inr ()))
               })
      })"

section \<open>The stored object\<close>

text \<open>
  The API of the broker, seen through the dynamic client. A stored object has a version; others may
  write between a read and the write that follows it, but then the version changes; an update
  succeeds only on the version it was made from, and stores the spec it was sent.
\<close>

abbreviation version_path :: "string list" where
  "version_path \<equiv> [''metadata'', ''resourceVersion'']"

abbreviation reserved_path :: "string list" where
  "reserved_path \<equiv> [''spec'', ''resources'', ''reserved'']"

locale dynamic_client =
  fixes D :: "'w DynamicClient" and stored :: "'w \<Rightarrow> key \<Rightarrow> json option"
  assumes get_found: "run_state (dy_get D k) w = (Inr x, w') \<Longrightarrow>
      stored w k = Some x \<and> (\<exists>v. json_path version_path x = Some v \<and> v \<noteq> JNull) \<and>
      (\<forall>y. stored w' k = Some y \<longrightarrow> json_path version_path y = json_path version_path x \<longrightarrow> y = x)"
    and create_ok: "run_state (dy_create D k x) w = (Inr y, w') \<Longrightarrow>
      stored w k = None \<and> (\<exists>z. stored w' = (stored w)(k \<mapsto> z) \<and> json_path [''spec''] z = json_path [''spec''] x)"
    and update_ok: "run_state (dy_update D k x) w = (Inr y, w') \<Longrightarrow>
      \<exists>old z. stored w k = Some old \<and> stored w' = (stored w)(k \<mapsto> z) \<and>
        (\<forall>v. json_path version_path x = Some v \<longrightarrow> v \<noteq> JNull \<longrightarrow> json_path version_path old = Some v) \<and>
        json_path [''spec''] z = json_path [''spec''] x"
    and write_fail: "run_state (dy_create D k x) w = (Inl e, w') \<Longrightarrow> stored w' = stored w"
      "run_state (dy_update D k x) w = (Inl e, w') \<Longrightarrow> stored w' = stored w"

lemma json_path_spec:
  assumes "json_path [''spec''] z = json_path [''spec''] x" "json_path [''spec''] x \<noteq> None"
  shows "json_path (''spec'' # keys) z = json_path (''spec'' # keys) x"
  using assms by (auto split: option.splits)

lemma existing_reserved_path: "existing_reserved e = json_path reserved_path e"
  by (auto simp: existing_reserved_def map_at_def split: option.splits)

lemma existing_version_path: "json_path version_path e = Some v \<Longrightarrow> existing_version e = Some v"
  by (auto simp: existing_version_def map_at_def split: option.splits)

lemma cluster_adv_paths:
  "json_path [''spec''] (cluster_adv_json Q b adv r ver) \<noteq> None"
  "json_path reserved_path (cluster_adv_json Q b adv r ver) = r"
  "json_path [''spec'', ''cost''] (cluster_adv_json Q b adv r ver) = None"
  "json_path version_path (cluster_adv_json Q b adv r [(''resourceVersion'', v)]) = Some v"
  "json_path [''spec'', ''resources'', ''available''] (cluster_adv_json Q b adv r ver) =
     Some (amounts_json Q (am_Available (asp_Resources (o_spec adv))))"
  by (auto simp: cluster_adv_json_def resources_json_def Let_def split: option.splits)

lemma stored_paths:
  assumes "json_path [''spec''] z = json_path [''spec''] (cluster_adv_json Q b adv r ver)"
  shows "json_path reserved_path z = r" "json_path [''spec'', ''cost''] z = None"
    "json_path [''spec'', ''resources'', ''available''] z =
       Some (amounts_json Q (am_Available (asp_Resources (o_spec adv))))"
  using json_path_spec [OF assms cluster_adv_paths(1)] by (simp_all add: cluster_adv_paths del: json_path.simps)

section \<open>An executable broker\<close>

text \<open>Versioned specs, and a writer that changes the object right after the first read.\<close>

record tree_world =
  tw_trees :: "key \<Rightarrow> (int \<times> json) option"
  tw_race :: "json option"
  tw_events :: "json option list"
  tw_slept :: duration

definition tree :: "int \<times> json \<Rightarrow> json" where
  "tree x = JObject [(''metadata'', JObject [(''resourceVersion'', JNumber (fst x))]), (''spec'', snd x)]"

definition race :: "key \<Rightarrow> tree_world \<Rightarrow> tree_world" where
  "race k w = (case (tw_trees w k, tw_race w) of
       (Some x, Some s) \<Rightarrow> w\<lparr>tw_trees := (tw_trees w)(k \<mapsto> (fst x + 1, s)), tw_race := None\<rparr>
     | _ \<Rightarrow> w)"

definition tree_get :: "key \<Rightarrow> (tree_world, ApiError + json) state" where
  "tree_get k = State (\<lambda>w. case tw_trees w k of
       None \<Rightarrow> (Inl (NotFound ''not found''), w)
     | Some x \<Rightarrow> (Inr (tree x), race k w))"

definition tree_create :: "key \<Rightarrow> json \<Rightarrow> (tree_world, ApiError + json) state" where
  "tree_create k x = State (\<lambda>w. case (tw_trees w k, json_path [''spec''] x) of
       (None, Some s) \<Rightarrow> (Inr x, w\<lparr>tw_trees := (tw_trees w)(k \<mapsto> (1, s))\<rparr>)
     | _ \<Rightarrow> (Inl (AlreadyExists ''already exists''), w))"

definition tree_update :: "key \<Rightarrow> json \<Rightarrow> (tree_world, ApiError + json) state" where
  "tree_update k x = State (\<lambda>w. case (tw_trees w k, json_path [''spec''] x) of
       (Some old, Some s) \<Rightarrow>
         if json_path version_path x \<noteq> Some (JNumber (fst old)) then (Inl (Conflict ''conflict''), w)
         else (Inr x, w\<lparr>tw_trees := (tw_trees w)(k \<mapsto> (fst old + 1, s))\<rparr>)
     | _ \<Rightarrow> (Inl (NotFound ''not found''), w))"

definition json_string :: "json option \<Rightarrow> string option" where
  "json_string v = (case v of Some (JString t) \<Rightarrow> Some t | _ \<Rightarrow> None)"

definition tree_client :: "tree_world DynamicClient" where
  "tree_client =
     \<lparr>dy_get = tree_get, dy_create = tree_create, dy_update = tree_update,
      dy_watch = (\<lambda>ns. State (\<lambda>w. (Inr (tw_events w), w))),
      dy_sleep = (\<lambda>d. State (\<lambda>w. ((), w\<lparr>tw_slept := tw_slept w + d\<rparr>))),
      dy_format = (\<lambda>t. ''time''), dy_parse = (\<lambda>s. None), un_map = (\<lambda>j s. json_path [s] j),
      un_string = (\<lambda>j s. json_string (json_path [s] j)),
      un_name = (\<lambda>j. case json_string (json_path [''metadata'', ''name''] j) of Some t \<Rightarrow> t | None \<Rightarrow> []),
      un_version = (\<lambda>j. [])\<rparr>"

definition tree_stored :: "tree_world \<Rightarrow> key \<Rightarrow> json option" where
  "tree_stored w k = map_option tree (tw_trees w k)"

interpretation tree_broker: dynamic_client tree_client tree_stored
proof
  fix k x w w'
  assume "run_state (dy_get tree_client k) w = (Inr x, w')"
  then show "tree_stored w k = Some x \<and> (\<exists>v. json_path version_path x = Some v \<and> v \<noteq> JNull) \<and>
      (\<forall>y. tree_stored w' k = Some y \<longrightarrow> json_path version_path y = json_path version_path x \<longrightarrow> y = x)"
    by (auto simp: tree_client_def tree_get_def tree_stored_def tree_def race_def split: option.splits)
next
  fix k x w y w'
  assume "run_state (dy_create tree_client k x) w = (Inr y, w')"
  then show "tree_stored w k = None \<and>
      (\<exists>z. tree_stored w' = (tree_stored w)(k \<mapsto> z) \<and> json_path [''spec''] z = json_path [''spec''] x)"
    by (auto simp: tree_client_def tree_create_def tree_stored_def tree_def fun_eq_iff
        split: option.splits intro!: exI [of _ "tree (1, the (json_path [''spec''] x))"])
next
  fix k x w y w'
  assume "run_state (dy_update tree_client k x) w = (Inr y, w')"
  then obtain old s where "tw_trees w k = Some old" "json_path [''spec''] x = Some s"
    "json_path version_path x = Some (JNumber (fst old))" "w' = w\<lparr>tw_trees := (tw_trees w)(k \<mapsto> (fst old + 1, s))\<rparr>"
    by (auto simp del: json_path.simps simp: tree_client_def tree_update_def split: option.splits if_splits)
  then show "\<exists>old z. tree_stored w k = Some old \<and> tree_stored w' = (tree_stored w)(k \<mapsto> z) \<and>
        (\<forall>v. json_path version_path x = Some v \<longrightarrow> v \<noteq> JNull \<longrightarrow> json_path version_path old = Some v) \<and>
        json_path [''spec''] z = json_path [''spec''] x"
    by (intro exI [of _ "tree old"] exI [of _ "tree (fst old + 1, s)"]) (auto simp: tree_stored_def tree_def fun_eq_iff)
qed (auto simp: tree_client_def tree_create_def tree_update_def split: option.splits if_splits)

section \<open>Properties\<close>

text \<open>What a successful publication leaves, seen from the state \<open>s\<close> it was written to.\<close>

definition stored_anew ::
  "'q QuantityOps \<Rightarrow> 'w BrokerClient \<Rightarrow> 'q Advertisement \<Rightarrow> (key \<Rightarrow> json option) \<Rightarrow> (key \<Rightarrow> json option) \<Rightarrow> bool" where
  "stored_anew Q b adv s s' \<longleftrightarrow>
     (\<exists>z. s' = s(broker_key b \<mapsto> z) \<and>
        json_path reserved_path z = Option.bind (s (broker_key b)) (json_path reserved_path) \<and>
        json_path [''spec'', ''resources'', ''available''] z =
          Some (amounts_json Q (am_Available (asp_Resources (o_spec adv)))) \<and>
        json_path [''spec'', ''cost''] z = None)"

lemma stored_anewI:
  assumes "s' = s(broker_key b \<mapsto> z)" "json_path [''spec''] z = json_path [''spec''] (cluster_adv_json Q b adv r ver)"
    "Option.bind (s (broker_key b)) (json_path reserved_path) = r"
  shows "stored_anew Q b adv s s'"
  unfolding stored_anew_def using assms(1,3) stored_paths [OF assms(2)]
  by (intro exI [of _ z]) (simp del: json_path.simps)

context dynamic_client
begin

lemma created_anew:
  assumes "run_state (dy_create D (broker_key b) (cluster_adv_json Q b adv None [])) w = (Inr y, w')"
  shows "stored_anew Q b adv (stored w) (stored w')"
proof -
  from create_ok [OF assms] obtain z where "stored w (broker_key b) = None"
    "stored w' = (stored w)(broker_key b \<mapsto> z)" "json_path [''spec''] z = json_path [''spec''] (cluster_adv_json Q b adv None [])" by blast
  then show ?thesis by (intro stored_anewI [of _ _ _ z]) (simp_all del: json_path.simps)
qed

lemma updated_anew:
  assumes "run_state (dy_get D (broker_key b)) w0 = (Inr e, w)" "json_path version_path e = Some v"
    "run_state (dy_update D (broker_key b) (cluster_adv_json Q b adv (json_path reserved_path e) [(''resourceVersion'', v)])) w = (Inr y, w')"
  shows "stored_anew Q b adv (stored w) (stored w')"
proof -
  let ?k = "broker_key b" and ?x = "cluster_adv_json Q b adv (json_path reserved_path e) [(''resourceVersion'', v)]"
  from get_found [OF assms(1)] assms(2) have v: "v \<noteq> JNull"
    and same: "\<And>y. stored w ?k = Some y \<Longrightarrow> json_path version_path y = Some v \<Longrightarrow> y = e"
    by (auto simp del: json_path.simps)
  from update_ok [OF assms(3)] obtain old z where z: "stored w ?k = Some old"
    "stored w' = (stored w)(?k \<mapsto> z)" "json_path [''spec''] z = json_path [''spec''] ?x"
    "json_path version_path ?x = Some v \<longrightarrow> v \<noteq> JNull \<longrightarrow> json_path version_path old = Some v" by blast
  have "json_path version_path old = Some v" by (rule mp [OF mp [OF z(4) cluster_adv_paths(4)] v])
  with same z(1) have "old = e" by blast
  with z show ?thesis
    by (intro stored_anewI [of _ _ _ z]) (simp_all del: json_path.simps)
qed

lemma publish_effect:
  assumes "lc_Client b = D" "lc_Enabled b" "run_state (PublishAdvertisement Q b adv) w = (r, w')"
  obtains x w1 where "run_state (dy_get D (broker_key b)) w = (x, w1)"
    "stored w' = stored w1 \<and> (\<exists>e. r = Some (Inl e)) \<or> r = Some (Inr ()) \<and> stored_anew Q b adv (stored w1) (stored w')"
proof -
  let ?k = "broker_key b"
  obtain x w1 where got: "run_state (dy_get D ?k) w = (x, w1)" by fastforce
  show thesis
  proof (rule that [OF got], cases x)
    case (Inl e)
    let ?x = "cluster_adv_json Q b adv None []"
    obtain made w2 where made: "run_state (dy_create D ?k ?x) w1 = (made, w2)" by fastforce
    have res: "w' = w2" "r = Some (case made of
        Inl e \<Rightarrow> Inl (ErrWrap ''failed to create advertisement in broker'' (ErrApi e)) | Inr _ \<Rightarrow> Inr ())"
      using assms got Inl made by (simp_all add: PublishAdvertisement_def)
    with made write_fail(1) [of ?k ?x w1 _ w2] created_anew [of b Q adv w1 _ w2]
    show "stored w' = stored w1 \<and> (\<exists>e. r = Some (Inl e)) \<or> r = Some (Inr ()) \<and> stored_anew Q b adv (stored w1) (stored w')"
      by (cases made) simp_all
  next
    case (Inr e)
    from get_found [OF got [unfolded Inr]] obtain v where v: "json_path version_path e = Some v"
      by (auto simp del: json_path.simps)
    let ?x = "cluster_adv_json Q b adv (json_path reserved_path e) [(''resourceVersion'', v)]"
    obtain up w2 where up: "run_state (dy_update D ?k ?x) w1 = (up, w2)" by fastforce
    have res: "w' = w2" "r = Some (case up of
        Inl e \<Rightarrow> Inl (ErrWrap ''failed to update advertisement in broker'' (ErrApi e)) | Inr _ \<Rightarrow> Inr ())"
      using assms got Inr up
      by (simp_all add: PublishAdvertisement_def existing_version_path [OF v] existing_reserved_path del: json_path.simps)
    with up write_fail(2) [of ?k ?x w1 _ w2] updated_anew [OF got [unfolded Inr] v]
    show "stored w' = stored w1 \<and> (\<exists>e. r = Some (Inl e)) \<or> r = Some (Inr ()) \<and> stored_anew Q b adv (stored w1) (stored w')"
      by (cases up) (simp_all del: json_path.simps)
  qed
qed

end

text \<open>
  C26. The older transport and the broker's reservations: a publication never panics; it either
  reports an error and stores nothing, or replaces the stored object, keeping the Reserved of the
  object it replaces even where another writer changed it after it was read. The available amounts
  are those of the agent's advertisement; the costs that were stored are gone.
\<close>

theorem legacy_publish_keeps_reserved:
  assumes "dynamic_client (lc_Client b) stored" "lc_Enabled b"
    "run_state (PublishAdvertisement Q b adv) w = (r, w')"
  shows "\<exists>x w1. run_state (dy_get (lc_Client b) (broker_key b)) w = (x, w1) \<and>
    (stored w' = stored w1 \<and> (\<exists>e. r = Some (Inl e)) \<or>
     (\<exists>z. r = Some (Inr ()) \<and> stored w' = (stored w1)(broker_key b \<mapsto> z) \<and>
        json_path reserved_path z = Option.bind (stored w1 (broker_key b)) (json_path reserved_path) \<and>
        json_path [''spec'', ''resources'', ''available''] z =
          Some (amounts_json Q (am_Available (asp_Resources (o_spec adv)))) \<and>
        json_path [''spec'', ''cost''] z = None))"
  using dynamic_client.publish_effect [OF assms(1) refl assms(2,3)] unfolding stored_anew_def by metis

definition sample_legacy :: "tree_world BrokerClient" where
  "sample_legacy = \<lparr>lc_Client = tree_client, lc_ClusterID = ''b'', lc_Enabled = True, lc_Namespace = []\<rparr>"

definition sample_trees :: "json option \<Rightarrow> tree_world" where
  "sample_trees r =
     \<lparr>tw_trees = [(''default'', ''b-adv'') \<mapsto>
        (7, JObject [(''resources'', JObject [(''reserved'', JString ''2'')]), (''cost'', JString ''1'')])],
      tw_race = r, tw_events = [], tw_slept = 0\<rparr>"

lemma legacy_publish_witness:
  "\<exists>w'. run_state (PublishAdvertisement nano_ops sample_legacy sample_agent_adv) (sample_trees None) = (Some (Inr ()), w') \<and>
    (\<exists>z. tree_stored w' (''default'', ''b-adv'') = Some z \<and> json_path reserved_path z = Some (JString ''2'') \<and>
      json_path [''spec'', ''cost''] z = None)"
proof -
  obtain r w' where run: "run_state (PublishAdvertisement nano_ops sample_legacy sample_agent_adv) (sample_trees None) = (r, w')"
    by (meson surj_pair)
  have k: "broker_key sample_legacy = (''default'', ''b-adv'')"
    by (simp add: broker_key_def sample_legacy_def)
  have r: "r = Some (Inr ())"
    using run by (simp add: PublishAdvertisement_def sample_legacy_def broker_key_def tree_client_def tree_get_def
        tree_update_def sample_trees_def race_def tree_def existing_version_def map_at_def cluster_adv_json_def Let_def)
  have got: "snd (run_state (dy_get (lc_Client sample_legacy) (broker_key sample_legacy)) (sample_trees None)) = sample_trees None"
    unfolding k by (simp add: sample_legacy_def tree_client_def tree_get_def sample_trees_def race_def)
  have D: "dynamic_client (lc_Client sample_legacy) tree_stored" "lc_Enabled sample_legacy"
    using tree_broker.dynamic_client_axioms by (simp_all add: sample_legacy_def)
  from legacy_publish_keeps_reserved [OF D run] r got obtain z where
    z: "tree_stored w' = (tree_stored (sample_trees None))(broker_key sample_legacy \<mapsto> z)"
    "json_path reserved_path z = Option.bind (tree_stored (sample_trees None) (broker_key sample_legacy)) (json_path reserved_path)"
    "json_path [''spec'', ''cost''] z = None" by (auto simp del: json_path.simps)
  have "Option.bind (tree_stored (sample_trees None) (broker_key sample_legacy)) (json_path reserved_path) = Some (JString ''2'')"
    unfolding k by (simp add: tree_stored_def sample_trees_def tree_def)
  with z run r show ?thesis unfolding k by (simp del: json_path.simps)
qed

end
