(* ===== verification/AgentAdvertisement.thy ===== *)
theory AgentAdvertisement
  imports Collector Instructions AgentServices PeerHost LegacyTransport
begin

text \<open>
  The controller that measures the agent's cluster and reports it to the broker
  (resource-agent/internal/controller/advertisement_controller.go): collect, write the local
  advertisement, publish over the configured transport, process the instructions in the answer, and
  tell in the status what came of it. A result \<open>None\<close> is a panic.
\<close>

type_synonym adv_result = "(go_error + duration) option"

record 'w AdvertisementReconciler =
  ar_MetricsCollector :: Collector
  ar_BrokerClient :: "'w BrokerClient option"
  ar_BrokerCommunicator :: "'w BrokerCommunicator option"
  ar_TargetKey :: key
  ar_RequeueInterval :: duration
  ar_InstructionNamespace :: string
  ar_Renewable :: bool
  ar_EnergyCost :: float64
  ar_MockGeoURL :: string
  ar_MockEcoURL :: string
  ar_ForcedGeoIP :: string
  ar_AgentRole :: string

section \<open>The status\<close>

text \<open>
  The next report: the interval and up to a tenth of it. \<open>rand.Int63n\<close> panics unless its argument is
  positive, and \<open>Duration\<close> wraps around.
\<close>

definition wrap_duration :: "int \<Rightarrow> duration" where
  "wrap_duration x = (x + 9223372036854775808) mod 18446744073709551616 - 9223372036854775808"

definition report_interval :: "'w AdvertisementReconciler \<Rightarrow> duration" where
  "report_interval R = (if ar_RequeueInterval R = 0 then 1 * go_minute else ar_RequeueInterval R)"

definition schedule_next :: "('w, 'q) AgentEnv \<Rightarrow> 'w AdvertisementReconciler \<Rightarrow> ('w, adv_result) state" where
  "schedule_next E R =
     (let tenth = (if report_interval R < 0 then - ((- report_interval R) div 10) else report_interval R div 10)
      in if tenth \<le> 0 then ret None
         else do {
           jitter \<leftarrow> g_rand E tenth;
           ret (Some (Inr (wrap_duration (report_interval R + jitter))))
         })"

definition updateStatus ::
  "('w, 'q) AgentEnv \<Rightarrow> 'w AdvertisementReconciler \<Rightarrow> 'q Advertisement \<Rightarrow> string \<Rightarrow> bool \<Rightarrow> string \<Rightarrow> ('w, adv_result) state" where
  "updateStatus E R adv phase published message =
     (let st = o_status adv
      in if ast_Phase st \<noteq> phase \<or> ast_Published st \<noteq> published \<or> ast_Message st \<noteq> message
         then do {
           now \<leftarrow> g_now E;
           u \<leftarrow> c_status_update (g_adv E)
             (adv\<lparr>o_status := \<lparr>ast_Phase = phase, ast_LastUpdateTime = now, ast_Published = published, ast_Message = message\<rparr>\<rparr>);
           case u of
             Inl e \<Rightarrow> ret (Some (Inl (ErrApi e)))
           | Inr _ \<Rightarrow> schedule_next E R
         }
         else schedule_next E R)"

section \<open>Publishing\<close>

text \<open>The report, with the location and the carbon forecast where they are known.\<close>

definition report ::
  "('w, 'q) AgentEnv \<Rightarrow> 'w Services \<Rightarrow> 'w AdvertisementReconciler \<Rightarrow> 'q Advertisement \<Rightarrow> string \<Rightarrow> ('w, AdvertisementDTO) state" where
  "report E V R adv clusterID = do {
     now \<leftarrow> g_now E;
     let advDTO = ToAdvertisementDTO (g_Q E) now adv;
     located \<leftarrow> GetLocation V (ar_MockGeoURL R) clusterID (ar_ForcedGeoIP R);
     case located of
       Inr (Some loc) \<Rightarrow> do {
         let d = advDTO\<lparr>xa_Location := Some loc\<rparr>;
         if xl_Region loc = '''' then ret d
         else do {
           carbon \<leftarrow> GetCarbonForecast E V (ar_MockEcoURL R) (xl_Region loc);
           ret (case carbon of
               Inr (Some c) \<Rightarrow> d\<lparr>xa_CarbonIntensity := cb_CarbonIntensity c, xa_CarbonLastUpdate := Some (cb_LastUpdate c)\<rparr>
             | _ \<Rightarrow> d)
         }
       }
     | _ \<Rightarrow> ret advDTO
   }"

definition publishToBroker ::
  "('w, 'q) AgentEnv \<Rightarrow> 'w Services \<Rightarrow> 'w AdvertisementReconciler \<Rightarrow> 'q Advertisement \<Rightarrow> string \<Rightarrow>
   ('w, (go_error + unit) option) state" where
  "publishToBroker E V R adv clusterID =
     (case ar_BrokerCommunicator R of
        Some B \<Rightarrow> do {
          advDTO \<leftarrow> report E V R adv clusterID;
          answered \<leftarrow> bc_PublishAdvertisement B advDTO;
          case answered of
            Inl e \<Rightarrow> ret (Some (Inl e))
          | Inr providerInstructions \<Rightarrow> do {
              _ \<leftarrow> processProviderInstructions E (ar_InstructionNamespace R) (ar_TargetKey R) providerInstructions;
              ret (Some (Inr ()))
            }
        }
      | None \<Rightarrow>
          (case ar_BrokerClient R of
             Some b \<Rightarrow> if lc_Enabled b then PublishAdvertisement (g_Q E) b adv else ret (Some (Inr ()))
           | None \<Rightarrow> ret (Some (Inr ()))))"

section \<open>Reconcile\<close>

definition zero_metrics :: "'q QuantityMore \<Rightarrow> 'q ResourceMetrics" where
  "zero_metrics M =
     (let z = \<lparr>aq_CPU = qm_Zero M, aq_Memory = qm_Zero M, aq_GPU = None, aq_Storage = None\<rparr>
      in \<lparr>am_Capacity = z, am_Allocatable = z, am_Allocated = z, am_Used = None, am_Available = z\<rparr>)"

text \<open>A requester offers nothing; a provider what it collects.\<close>

definition measure_cluster ::
  "('w, 'q) AgentEnv \<Rightarrow> 'w AdvertisementReconciler \<Rightarrow> ('w, go_error + 'q ResourceMetrics) state" where
  "measure_cluster E R =
     (if ar_AgentRole R = ''requester'' then ret (Inr (zero_metrics (g_M E)))
      else CollectClusterResources E (ar_MetricsCollector R))"

definition measured_spec ::
  "'w AdvertisementReconciler \<Rightarrow> string \<Rightarrow> 'q ResourceMetrics \<Rightarrow> 'q AdvertisementSpec \<Rightarrow> 'q AdvertisementSpec" where
  "measured_spec R clusterID m s =
     s\<lparr>asp_ClusterID := clusterID, asp_Resources := m,
       asp_Cost := Some \<lparr>aco_CPUCost = [], aco_MemoryCost = [], aco_Currency = [],
         aco_Renewable = ar_Renewable R, aco_EnergyCost = ar_EnergyCost R\<rparr>\<rparr>"

text \<open>Go's \<open>!=\<close> of two floats holds for a NaN.\<close>

definition fl_differ :: "float64 \<Rightarrow> float64 \<Rightarrow> bool" where
  "fl_differ a b \<longleftrightarrow> \<not> (fl_le a b \<and> fl_le b a)"

definition spec_changed ::
  "'q QuantityMore \<Rightarrow> 'w AdvertisementReconciler \<Rightarrow> 'q AdvertisementSpec \<Rightarrow> 'q AdvertisementSpec \<Rightarrow> bool" where
  "spec_changed M R new old \<longleftrightarrow>
     asp_ClusterID new \<noteq> asp_ClusterID old \<or>
     (case asp_Cost old of
        None \<Rightarrow> True
      | Some c \<Rightarrow> ar_Renewable R \<noteq> aco_Renewable c \<or> fl_differ (ar_EnergyCost R) (aco_EnergyCost c)) \<or>
     \<not> qm_Equal M (aq_CPU (am_Allocatable (asp_Resources new))) (aq_CPU (am_Allocatable (asp_Resources old))) \<or>
     \<not> qm_Equal M (aq_Memory (am_Allocatable (asp_Resources new))) (aq_Memory (am_Allocatable (asp_Resources old))) \<or>
     \<not> qm_Equal M (aq_CPU (am_Available (asp_Resources new))) (aq_CPU (am_Available (asp_Resources old))) \<or>
     \<not> qm_Equal M (aq_Memory (am_Available (asp_Resources new))) (aq_Memory (am_Available (asp_Resources old)))"

text \<open>The advertisement with its measured spec, written where it changed.\<close>

definition write_spec ::
  "('w, 'q) AgentEnv \<Rightarrow> 'w AdvertisementReconciler \<Rightarrow> 'q Advertisement \<Rightarrow> 'q AdvertisementSpec \<Rightarrow>
   ('w, ApiError + 'q Advertisement) state" where
  "write_spec E R adv new =
     (if spec_changed (g_M E) R new (o_spec adv)
      then do {
        now \<leftarrow> g_now E;
        c_update (g_adv E) (adv\<lparr>o_spec := new\<lparr>asp_Timestamp := now\<rparr>\<rparr>)
      }
      else ret (Inr (adv\<lparr>o_spec := new\<rparr>)))"

text \<open>Publication, and the status that tells its outcome.\<close>

definition publish_and_report ::
  "('w, 'q) AgentEnv \<Rightarrow> 'w Services \<Rightarrow> 'w AdvertisementReconciler \<Rightarrow> 'q Advertisement \<Rightarrow> string \<Rightarrow> ('w, adv_result) state" where
  "publish_and_report E V R adv clusterID = do {
     publishErr \<leftarrow> publishToBroker E V R adv clusterID;
     case publishErr of
       None \<Rightarrow> ret None
     | Some (Inl e) \<Rightarrow>
         updateStatus E R adv ''Active'' False (''Metrics collected but broker unreachable: '' @ err_text e)
     | Some (Inr _) \<Rightarrow> updateStatus E R adv ''Active'' True ''Advertisement updated and published successfully''
   }"

definition Reconcile ::
  "('w, 'q) AgentEnv \<Rightarrow> 'w Services \<Rightarrow> 'w AdvertisementReconciler \<Rightarrow> key \<Rightarrow> ('w, adv_result) state" where
  "Reconcile E V R k = do {
     got \<leftarrow> c_get (g_adv E) k;
     case got of
       Inl e \<Rightarrow> ret (Some (if is_not_found (ErrApi e) then Inr 0 else Inl (ErrApi e)))
     | Inr adv \<Rightarrow> do {
         measured \<leftarrow> measure_cluster E R;
         case measured of
           Inl e \<Rightarrow> updateStatus E R adv ''Error'' False (''Failed to collect metrics: '' @ err_text e)
         | Inr resourceData \<Rightarrow> do {
             id \<leftarrow> GetClusterID E (ar_MetricsCollector R);
             case id of
               Inl e \<Rightarrow> updateStatus E R adv ''Error'' False (''Failed to get cluster ID: '' @ err_text e)
             | Inr clusterID \<Rightarrow> do {
                 updated \<leftarrow> write_spec E R adv (measured_spec R clusterID resourceData (o_spec adv));
                 case updated of
                   Inl e \<Rightarrow> ret (Some (Inl (ErrApi e)))
                 | Inr advertisement \<Rightarrow> publish_and_report E V R advertisement clusterID
               }
           }
       }
   }"

text \<open>The watches on nodes and pods: any change asks for the one advertisement.\<close>

definition findAdvertisementsForNode :: "'w AdvertisementReconciler \<Rightarrow> key list" where
  "findAdvertisementsForNode R = (if snd (ar_TargetKey R) = '''' then [] else [ar_TargetKey R])"

definition findAdvertisementsForPod :: "'w AdvertisementReconciler \<Rightarrow> key list" where
  "findAdvertisementsForPod R = (if snd (ar_TargetKey R) = '''' then [] else [ar_TargetKey R])"

section \<open>What a reconciliation does\<close>

text \<open>The measurement behind a spec, and the report the broker accepted.\<close>

definition measured :: "('w, 'q) AgentEnv \<Rightarrow> 'w AdvertisementReconciler \<Rightarrow> 'q ResourceMetrics \<Rightarrow> string \<Rightarrow> bool" where
  "measured E R m clusterID \<longleftrightarrow>
     (\<exists>wa wb wc wd. run_state (measure_cluster E R) wa = (Inr m, wb) \<and>
        run_state (GetClusterID E (ar_MetricsCollector R)) wc = (Inr clusterID, wd))"

definition respecified ::
  "('w, 'q) AgentEnv \<Rightarrow> 'w AdvertisementReconciler \<Rightarrow> 'q AdvertisementSpec \<Rightarrow> 'q AdvertisementSpec \<Rightarrow> bool" where
  "respecified E R old new \<longleftrightarrow>
     (\<exists>m clusterID now. measured E R m clusterID \<and> new = (measured_spec R clusterID m old)\<lparr>asp_Timestamp := now\<rparr>)"

definition accepted :: "('w, 'q) AgentEnv \<Rightarrow> 'w AdvertisementReconciler \<Rightarrow> 'w BrokerCommunicator \<Rightarrow> bool" where
  "accepted E R B \<longleftrightarrow>
     (\<exists>d rsvs wa wb m clusterID. run_state (bc_PublishAdvertisement B d) wa = (Inr rsvs, wb) \<and>
        measured E R m clusterID \<and> xa_ClusterID d = clusterID \<and>
        xm_Allocatable (xa_Resources d) = toResourceQuantitiesDTO (g_Q E) (am_Allocatable m) \<and>
        xm_Available (xa_Resources d) = toResourceQuantitiesDTO (g_Q E) (am_Available m))"

definition told ::
  "('w, 'q) AgentEnv \<Rightarrow> 'w AdvertisementReconciler \<Rightarrow> 'q Advertisement \<Rightarrow> 'q Advertisement \<Rightarrow> bool" where
  "told E R old y \<longleftrightarrow>
     (o_spec y = o_spec old \<or> respecified E R (o_spec old) (o_spec y)) \<and>
     (o_status y = o_status old \<or>
      ast_Phase (o_status y) = ''Error'' \<and> \<not> ast_Published (o_status y) \<and> o_spec y = o_spec old \<or>
      ast_Phase (o_status y) = ''Active'' \<and>
        (ast_Published (o_status y) \<longrightarrow> (\<forall>B. ar_BrokerCommunicator R = Some B \<longrightarrow> accepted E R B)))"

locale advertiser_world =
  adv: kube_client "g_adv E" advs
  for E :: "('w, 'q) AgentEnv" and advs :: "'w \<Rightarrow> ('q AdvertisementSpec, AdvertisementStatus) store" +
  fixes V :: "'w Services" and R :: "'w AdvertisementReconciler"
  assumes env_quiet: "keeps advs (g_now E)" "keeps advs (g_rand E n)" "keeps advs (g_nodes E)" "keeps advs (g_pods E ns)"
      "keeps advs (g_namespace_uid E u)"
    and pi_quiet: "client_keeps advs (g_pi E)"
    and services: "services_quiet advs V"
    and comm_quiet: "ar_BrokerCommunicator R = Some B \<Longrightarrow> broker_quiet advs B"
    and legacy_quiet: "ar_BrokerClient R = Some b \<Longrightarrow> keeps advs (dy_get (lc_Client b) k)"
      "ar_BrokerClient R = Some b \<Longrightarrow> keeps advs (dy_create (lc_Client b) k x)"
      "ar_BrokerClient R = Some b \<Longrightarrow> keeps advs (dy_update (lc_Client b) k x)"
begin

lemma keeps_measure: "keeps advs (measure_cluster E R)" "keeps advs (GetClusterID E c)"
  unfolding measure_cluster_def CollectClusterResources_def calculateAllocatedResources_def calculateReservedResources_def
    GetClusterID_def Let_def
  by (intro keeps_intros env_quiet pi_quiet)+

lemma keeps_report: "keeps advs (report E V R adv clusterID)"
  unfolding report_def Let_def by (intro keeps_intros env_quiet services)

lemma keeps_deliver: "keeps advs (deliver_all E ns rsvs)"
  by (induction rsvs) (auto simp: deliver_def intro!: keeps_intros pi_quiet)

lemma keeps_publish: "keeps advs (publishToBroker E V R adv clusterID)"
  unfolding publishToBroker_def processProviderInstructions_def PublishAdvertisement_def
  by (intro keeps_intros keeps_report keeps_deliver comm_quiet legacy_quiet | assumption)+

lemma keeps_schedule: "keeps advs (schedule_next E R)"
  unfolding schedule_next_def Let_def by (intro keeps_intros env_quiet)

lemma updateStatus_effect:
  assumes "run_state (updateStatus E R x ph pub m) w = (r, w')"
  shows "advs w' = advs w \<or> (\<exists>old y. advs w (obj_key x) = Some old \<and> advs w' = (advs w)(obj_key x \<mapsto> y) \<and>
    o_spec y = o_spec old \<and> ast_Phase (o_status y) = ph \<and> ast_Published (o_status y) = pub)"
proof (cases "ast_Phase (o_status x) \<noteq> ph \<or> ast_Published (o_status x) \<noteq> pub \<or> ast_Message (o_status x) \<noteq> m")
  case False
  with assms have "run_state (schedule_next E R) w = (r, w')" by (simp add: updateStatus_def Let_def)
  from keepsD [OF keeps_schedule this] show ?thesis by simp
next
  case True
  obtain now w1 where now: "run_state (g_now E) w = (now, w1)" by fastforce
  let ?x = "x\<lparr>o_status := \<lparr>ast_Phase = ph, ast_LastUpdateTime = now, ast_Published = pub, ast_Message = m\<rparr>\<rparr>"
  obtain u w2 where u: "run_state (c_status_update (g_adv E) ?x) w1 = (u, w2)" by fastforce
  have w1: "advs w1 = advs w" by (rule keepsD [OF env_quiet(1) now])
  have w': "advs w' = advs w2"
    using assms True now u keepsD [OF keeps_schedule, of w2] by (auto simp: updateStatus_def Let_def split: sum.splits)
  show ?thesis
  proof (cases u)
    case (Inl e)
    with adv.write_fail(3) [OF u [unfolded Inl]] w1 w' show ?thesis by simp
  next
    case (Inr y)
    from adv.status_ok [OF u [unfolded Inr]] w1 w' obtain old where "advs w (obj_key x) = Some old"
      "advs w' = (advs w)(obj_key x \<mapsto> y)" "o_spec y = o_spec old" "o_status y = o_status ?x" by auto
    then show ?thesis by (intro disjI2 exI [of _ old] exI [of _ y]) simp
  qed
qed

lemma report_fields:
  assumes "run_state (report E V R x clusterID) w = (d, w')"
  obtains now where "xa_ClusterID d = xa_ClusterID (ToAdvertisementDTO (g_Q E) now x)"
    "xa_Resources d = xa_Resources (ToAdvertisementDTO (g_Q E) now x)"
  using assms that
  by (auto simp: report_def Let_def split: prod.splits sum.splits option.splits if_splits)

lemma publish_accepted:
  assumes "run_state (publishToBroker E V R x clusterID) w = (Some (Inr u), w')" "ar_BrokerCommunicator R = Some B"
    "measured E R m (asp_ClusterID (o_spec x))" "asp_Resources (o_spec x) = m"
  shows "accepted E R B"
proof -
  obtain d w1 where d: "run_state (report E V R x clusterID) w = (d, w1)" by fastforce
  obtain a w2 where a: "run_state (bc_PublishAdvertisement B d) w1 = (a, w2)" by fastforce
  with assms(1,2) d obtain rsvs where rsvs: "a = Inr rsvs" by (cases a) (auto simp: publishToBroker_def)
  from report_fields [OF d] obtain now where f: "xa_ClusterID d = xa_ClusterID (ToAdvertisementDTO (g_Q E) now x)"
    "xa_Resources d = xa_Resources (ToAdvertisementDTO (g_Q E) now x)" .
  show ?thesis unfolding accepted_def
    by (intro exI conjI) (rule a [unfolded rsvs], rule assms(3), use f assms(4) in \<open>simp_all add: ToAdvertisementDTO_def Let_def\<close>)
qed

text \<open>The write of the spec: the store may lose an object that is being deleted.\<close>

lemma write_spec_effect:
  assumes "run_state (write_spec E R x new) w = (r, w')" "advs w (obj_key x) = Some x"
  shows "advs w' = advs w \<or> (\<exists>now. advs w' = (advs w)(obj_key x := None) \<or>
      (\<exists>y. advs w' = (advs w)(obj_key x \<mapsto> y) \<and> o_spec y = new\<lparr>asp_Timestamp := now\<rparr> \<and> o_status y = o_status x))"
    "r = Inr z \<Longrightarrow> obj_key z = obj_key x \<and> o_status z = o_status x \<and> (\<exists>now. o_spec z = new\<lparr>asp_Timestamp := now\<rparr>)"
proof -
  have "(advs w' = advs w \<or> (\<exists>now. advs w' = (advs w)(obj_key x := None) \<or>
      (\<exists>y. advs w' = (advs w)(obj_key x \<mapsto> y) \<and> o_spec y = new\<lparr>asp_Timestamp := now\<rparr> \<and> o_status y = o_status x))) \<and>
    (\<forall>z. r = Inr z \<longrightarrow> obj_key z = obj_key x \<and> o_status z = o_status x \<and> (\<exists>now. o_spec z = new\<lparr>asp_Timestamp := now\<rparr>))"
  proof (cases "spec_changed (g_M E) R new (o_spec x)")
    case False
    with assms(1) have "r = Inr (x\<lparr>o_spec := new\<rparr>)" "w' = w" by (auto simp: write_spec_def)
    then show ?thesis by (auto intro: exI [of _ "asp_Timestamp new"])
  next
    case True
    obtain now w1 where now: "run_state (g_now E) w = (now, w1)" by fastforce
    let ?x = "x\<lparr>o_spec := new\<lparr>asp_Timestamp := now\<rparr>\<rparr>"
    have u: "run_state (c_update (g_adv E) ?x) w1 = (r, w')"
      using assms(1) True now by (simp add: write_spec_def)
    have w1: "advs w1 = advs w" by (rule keepsD [OF env_quiet(1) now])
    show ?thesis
    proof (cases r)
      case (Inl e)
      with adv.write_fail(2) [OF u [unfolded Inl]] w1 show ?thesis by simp
    next
      case (Inr y)
      from adv.update_ok [OF u [unfolded Inr]] w1 assms(2) have y: "obj_key y = obj_key x" "o_spec y = new\<lparr>asp_Timestamp := now\<rparr>"
        "o_status y = o_status x" "advs w' = (advs w)(obj_key x := if finalized x ?x then None else Some y)" by auto
      then show ?thesis using Inr by (auto split: if_splits)
    qed
  qed
  then show "advs w' = advs w \<or> (\<exists>now. advs w' = (advs w)(obj_key x := None) \<or>
      (\<exists>y. advs w' = (advs w)(obj_key x \<mapsto> y) \<and> o_spec y = new\<lparr>asp_Timestamp := now\<rparr> \<and> o_status y = o_status x))"
    "r = Inr z \<Longrightarrow> obj_key z = obj_key x \<and> o_status z = o_status x \<and> (\<exists>now. o_spec z = new\<lparr>asp_Timestamp := now\<rparr>)"
    by blast+
qed

definition tells :: "key \<Rightarrow> 'q Advertisement \<Rightarrow> 'w \<Rightarrow> 'w \<Rightarrow> bool" where
  "tells k old w w' \<longleftrightarrow>
     (\<forall>k'. k' \<noteq> k \<longrightarrow> advs w' k' = advs w k') \<and> (\<forall>y. advs w' k = Some y \<longrightarrow> told E R old y)"

lemma tells_same: "advs w k = Some old \<Longrightarrow> advs w' = advs w \<Longrightarrow> tells k old w w'"
  by (simp add: tells_def told_def)

lemma error_tells:
  assumes "run_state (updateStatus E R old ''Error'' False m) w0 = (r, w')" "advs w (obj_key old) = Some old" "advs w0 = advs w"
  shows "tells (obj_key old) old w w'"
  using updateStatus_effect [OF assms(1)] assms(2,3) by (auto simp: tells_def told_def)

lemma publish_tells:
  assumes "run_state (publish_and_report E V R z clusterID) w3 = (r, w')" "obj_key z = k"
    and "\<And>k'. k' \<noteq> k \<Longrightarrow> advs w3 k' = advs w k'"
    and at: "\<And>y. advs w3 k = Some y \<Longrightarrow> o_status y = o_status old \<and> (o_spec y = o_spec old \<or> respecified E R (o_spec old) (o_spec y))"
    and m: "measured E R m (asp_ClusterID (o_spec z))" "asp_Resources (o_spec z) = m"
  shows "tells k old w w'"
proof -
  obtain p w4 where p: "run_state (publishToBroker E V R z clusterID) w3 = (p, w4)" by fastforce
  have w4: "advs w4 = advs w3" by (rule keepsD [OF keeps_publish p])
  show ?thesis
  proof (cases p)
    case None
    with assms(1) p have "w' = w4" by (simp add: publish_and_report_def)
    with w4 assms(3) at show ?thesis by (auto simp: tells_def told_def)
  next
    case (Some q)
    obtain pub msg where up: "run_state (updateStatus E R z ''Active'' pub msg) w4 = (r, w')"
      and pub: "pub \<Longrightarrow> \<exists>u. q = Inr u"
      using assms(1) p Some by (cases q) (auto simp: publish_and_report_def)
    have acc: "accepted E R B" if "pub" "ar_BrokerCommunicator R = Some B" for B
      using publish_accepted [OF _ that(2) m] p Some pub [OF that(1)] by blast
    from updateStatus_effect [OF up] w4 assms(2,3) at acc show ?thesis
      unfolding tells_def told_def by (elim disjE) auto
  qed
qed

lemma measured_tells:
  assumes "measured E R m clusterID" "advs w k = Some old" "obj_key old = k" "advs w1 = advs w"
    "run_state (write_spec E R old (measured_spec R clusterID m (o_spec old))) w1 = (z, w2)"
    "case z of Inl e \<Rightarrow> w' = w2 | Inr y \<Rightarrow> run_state (publish_and_report E V R y clusterID) w2 = (r, w')"
  shows "tells k old w w'"
proof -
  note eff = write_spec_effect [OF assms(5), unfolded assms(3,4), OF assms(2)]
  have frame: "advs w2 k' = advs w k'" if "k' \<noteq> k" for k'
    using eff(1) that by auto
  have at: "o_status y = o_status old \<and> (o_spec y = o_spec old \<or> respecified E R (o_spec old) (o_spec y))"
    if "advs w2 k = Some y" for y
    using eff(1) that assms(1,2) unfolding respecified_def by (elim disjE exE conjE) auto
  show ?thesis
  proof (cases z)
    case (Inl e)
    with assms(6) frame at show ?thesis by (auto simp: tells_def told_def)
  next
    case (Inr y)
    with assms(6) have pub: "run_state (publish_and_report E V R y clusterID) w2 = (r, w')" by simp
    have y: "asp_ClusterID (o_spec y) = clusterID" "asp_Resources (o_spec y) = m" "obj_key y = k"
      using eff(2) [OF Inr] by (auto simp: measured_spec_def)
    show ?thesis by (rule publish_tells [OF pub y(3) frame at _ y(2)]) (use assms(1) y(1) in simp_all)
  qed
qed

lemma Reconcile_tells:
  assumes "run_state (Reconcile E V R k) w = (r, w')" "advs w k = Some old"
  shows "tells k old w w'"
proof -
  obtain got w1 where got: "run_state (c_get (g_adv E) k) w = (got, w1)" by fastforce
  have w1: "advs w1 = advs w" by (rule adv.get_same [OF got])
  show ?thesis
  proof (cases got)
    case (Inl e)
    with assms got w1 show ?thesis by (auto simp: Reconcile_def intro: tells_same)
  next
    case (Inr x)
    with adv.get_found [OF got [unfolded Inr]] assms(2) have x: "x = old" "obj_key old = k" by auto
    obtain ms w2 where ms: "run_state (measure_cluster E R) w1 = (ms, w2)" by fastforce
    have w2: "advs w2 = advs w" using keepsD [OF keeps_measure(1) ms] w1 by simp
    obtain c w3 where c: "run_state (GetClusterID E (ar_MetricsCollector R)) w2 = (c, w3)" by fastforce
    have w3: "advs w3 = advs w" using keepsD [OF keeps_measure(2) c] w2 by simp
    have fail: ?thesis if "run_state (updateStatus E R old ''Error'' False msg) w0 = (r, w')" "advs w0 = advs w" for msg w0
      using error_tells [OF that(1) _ that(2)] assms(2) x by simp
    note run = assms(1) got Inr x ms c
    consider (unmeasured) e where "ms = Inl e" | (unnamed) m e where "ms = Inr m" "c = Inl e"
      | (named) m clusterID where "ms = Inr m" "c = Inr clusterID" by (cases ms; cases c) auto
    then show ?thesis
    proof cases
      case unmeasured
      with run fail [OF _ w2] show ?thesis by (auto simp: Reconcile_def)
    next
      case unnamed
      with run fail [OF _ w3] show ?thesis by (auto simp: Reconcile_def)
    next
      case named
      have meas: "measured E R m clusterID" unfolding measured_def using ms c named by blast
      obtain z w4 where z: "run_state (write_spec E R old (measured_spec R clusterID m (o_spec old))) w3 = (z, w4)" by fastforce
      from run named z have "case z of Inl e \<Rightarrow> w' = w4 | Inr y \<Rightarrow> run_state (publish_and_report E V R y clusterID) w4 = (r, w')"
        by (cases z) (simp_all add: Reconcile_def)
      from measured_tells [OF meas assms(2) x(2) w3 z this] show ?thesis .
    qed
  qed
qed

end

section \<open>Properties\<close>

text \<open>
  C19. What the agent says of itself: a reconciliation changes at most the one advertisement it is
  called for. Its spec changes only to a measurement of the cluster; its status says Error only with
  the spec untouched, and Published, where a broker communicator is configured, only if the broker
  accepted a report with measured allocatable and available amounts. A requester reports zero.
\<close>

theorem advertisement_tells_truth:
  assumes "advertiser_world E advs V R" "run_state (Reconcile E V R k) w = (r, w')"
    "advs w' k' = Some y" "advs w k' \<noteq> Some y" "advs w k = Some old"
  shows "k' = k \<and>
    (o_spec y = o_spec old \<or> respecified E R (o_spec old) (o_spec y)) \<and>
    (o_status y = o_status old \<or>
     ast_Phase (o_status y) = ''Error'' \<and> \<not> ast_Published (o_status y) \<and> o_spec y = o_spec old \<or>
     ast_Phase (o_status y) = ''Active'' \<and>
       (\<forall>B. ast_Published (o_status y) \<longrightarrow> ar_BrokerCommunicator R = Some B \<longrightarrow> accepted E R B)) \<and>
    (ar_AgentRole R = ''requester'' \<longrightarrow> (\<forall>m clusterID. measured E R m clusterID \<longrightarrow> m = zero_metrics (g_M E)))"
proof -
  note tells = advertiser_world.Reconcile_tells [OF assms(1,2,5), unfolded advertiser_world.tells_def [OF assms(1)]]
  then have k: "k' = k" using assms(3,4) by metis
  with tells assms(3) have "told E R old y" by simp
  then show ?thesis using k unfolding told_def by (auto simp: measured_def measure_cluster_def)
qed

text \<open>The delay to the next report: the interval and less than a tenth of it.\<close>

lemma schedule_next_bounds:
  assumes "\<And>n w j w'. 0 < n \<Longrightarrow> run_state (g_rand E n) w = (j, w') \<Longrightarrow> 0 \<le> j \<and> j < n"
    "10 \<le> report_interval R" "report_interval R * 2 \<le> max_duration" "run_state (schedule_next E R) w = (r, w')"
  shows "\<exists>d. r = Some (Inr d) \<and> report_interval R \<le> d \<and> d < report_interval R + report_interval R div 10"
proof -
  let ?i = "report_interval R"
  have i: "0 < ?i div 10" "?i div 10 \<le> ?i" using assms(2) by auto
  obtain j w1 where j: "run_state (g_rand E (?i div 10)) w = (j, w1)" by fastforce
  with assms(1) i(1) have "0 \<le> j" "j < ?i div 10" by blast+
  moreover from this i assms(2,3) have "wrap_duration (?i + j) = ?i + j"
    by (simp add: wrap_duration_def max_duration_def)
  ultimately show ?thesis using assms(2,4) i j by (auto simp: schedule_next_def Let_def)
qed

text \<open>A broker that accepts every report.\<close>

definition accepting_broker :: "'w BrokerCommunicator" where
  "accepting_broker = silent_broker\<lparr>bc_PublishAdvertisement := (\<lambda>d. ret (Inr []))\<rparr>"

definition sample_advertiser :: "agent_world AdvertisementReconciler" where
  "sample_advertiser =
     \<lparr>ar_MetricsCollector = \<lparr>co_ClusterIDOverride = ''b'', co_SharingLogic = [], co_SharingPercentage = 0,
        co_SharingFixedCPU = [], co_SharingFixedMemory = [], co_SharingFixedGPU = []\<rparr>,
      ar_BrokerClient = None, ar_BrokerCommunicator = Some accepting_broker, ar_TargetKey = (''default'', ''adv''),
      ar_RequeueInterval = 0, ar_InstructionNamespace = ''default'', ar_Renewable = True, ar_EnergyCost = 0,
      ar_MockGeoURL = [], ar_MockEcoURL = [], ar_ForcedGeoIP = [], ar_AgentRole = ''provider''\<rparr>"

interpretation agent_advertiser: advertiser_world agent_env "\<lambda>w. store_get (aw_advs w)" no_services sample_advertiser
proof (intro advertiser_world.intro advertiser_world_axioms.intro)
  show "kube_client (g_adv agent_env) (\<lambda>w. store_get (aw_advs w))" by (simp add: aw_adv.kube_client_axioms)
  show "client_keeps (\<lambda>w. store_get (aw_advs w)) (g_pi agent_env)"
    using aw_pi.mem_client_keeps [of "\<lambda>w. store_get (aw_advs w)"] by simp
  show "broker_quiet (\<lambda>w. store_get (aw_advs w)) B" if "ar_BrokerCommunicator sample_advertiser = Some B" for B
    using that by (auto simp: sample_advertiser_def accepting_broker_def silent_broker_def broker_quiet_def keeps_return)
qed (auto simp: keeps_def no_services_quiet sample_advertiser_def agent_env_def)

lemma advertisement_witness:
  "\<exists>r w' y. run_state (Reconcile agent_env no_services sample_advertiser (''default'', ''adv''))
      (sample_agent_world\<lparr>aw_advs := [sample_agent_adv]\<rparr>) = (r, w') \<and>
    store_get (aw_advs w') (''default'', ''adv'') = Some y \<and> ast_Published (o_status y) \<and>
    accepted agent_env sample_advertiser accepting_broker"
proof -
  let ?w = "sample_agent_world\<lparr>aw_advs := [sample_agent_adv]\<rparr>" and ?k = "(''default'', ''adv'')"
  obtain r w' where run: "run_state (Reconcile agent_env no_services sample_advertiser ?k) ?w = (r, w')"
    by (meson surj_pair)
  have at: "store_get (aw_advs ?w) ?k = Some sample_agent_adv"
    by (simp add: sample_agent_adv_def new_meta_def meta_key_def)
  have "\<exists>m. run_state (CollectClusterResources agent_env (ar_MetricsCollector sample_advertiser)) ?w = (Inr m, ?w)"
    by (rule exI, rule collect_runs [where nodes = "aw_nodes ?w" and w = ?w and ?w1.0 = ?w and ?w2.0 = ?w and ?w3.0 = ?w])
      (simp_all add: sample_agent_world_def sample_instruction_def mem_client_def)
  then obtain m where m: "run_state (CollectClusterResources agent_env (ar_MetricsCollector sample_advertiser)) ?w = (Inr m, ?w)"
    by blast
  have "\<exists>y. store_get (aw_advs w') ?k = Some y \<and> ast_Published (o_status y)"
    using run m
    by (auto simp: Reconcile_def measure_cluster_def GetClusterID_def write_spec_def spec_changed_def measured_spec_def
        publish_and_report_def publishToBroker_def report_def GetLocation_def accepting_broker_def
        processProviderInstructions_def updateStatus_def schedule_next_def report_interval_def sample_advertiser_def
        sample_agent_adv_def sample_agent_world_def new_meta_def meta_key_def mem_write_defs Let_def duration_defs)
  then obtain y where y: "store_get (aw_advs w') ?k = Some y" "ast_Published (o_status y)" by blast
  then have "store_get (aw_advs ?w) ?k \<noteq> Some y" using at by (auto simp: sample_agent_adv_def)
  from advertisement_tells_truth [where advs = "\<lambda>w. store_get (aw_advs w)",
      OF agent_advertiser.advertiser_world_axioms run y(1) this at] y run
  show ?thesis by (auto simp: sample_advertiser_def sample_agent_adv_def)
qed

end
