(* ===== verification/ProviderController.thy ===== *)
theory ProviderController
  imports PeerHost Instructions
begin

text \<open>
  The provider's controller of instructions (resource-agent/internal/controller/
  providerinstruction_controller.go): it prepares the credential of the requester, uploads it to the
  broker and only then marks the instruction Enforced, which makes the collector hold its amounts;
  an expired instruction is unmarked. The answer is the error or the requeue delay (0: none).
\<close>

type_synonym result = "go_error + duration"

record 'w ProviderInstructionReconciler =
  pr_BrokerCommunicator :: "'w BrokerCommunicator option"
  pr_KubeconfigsDir :: string
  pr_ClusterID :: string

section \<open>Reconcile\<close>

text \<open>The instruction is looked at again when it expires, or after five minutes.\<close>

definition requeue_at_expiry :: "('w, 'q) AgentEnv \<Rightarrow> time option \<Rightarrow> ('w, result) state" where
  "requeue_at_expiry E expiresAt =
     (case expiresAt of
        None \<Rightarrow> ret (Inr (5 * go_minute))
      | Some t \<Rightarrow> do {
          timeUntilExpiry \<leftarrow> g_until E t;
          ret (Inr (if timeUntilExpiry > 0 then timeUntilExpiry else 5 * go_minute))
        })"

definition cleanup_resources :: "string \<Rightarrow> string list list" where
  "cleanup_resources requester =
     [[''csr'', ''liqo-peer-user-'' @ requester],
      [''rolebinding'', ''liqo-peer-user-'' @ requester @ ''-liqo-ns-reader'', ''-n'', ''liqo''],
      [''clusterrolebinding'', ''liqo-peer-user-'' @ requester @ ''-tenant-controlplane''],
      [''clusterrole'', ''liqo-peer-user-'' @ requester @ ''-tenant-controlplane'']]"

fun cleanup :: "'w Host \<Rightarrow> string \<Rightarrow> string list list \<Rightarrow> ('w, unit) state" where
  "cleanup S localKubeconfig [] = ret ()"
| "cleanup S localKubeconfig (r # rs) =
     State_Monad.bind (ho_run S (15 * go_second) ''kubectl''
         ([''--kubeconfig'', localKubeconfig, ''delete''] @ r @ [''--ignore-not-found=true'']))
       (\<lambda>_. cleanup S localKubeconfig rs)"

text \<open>
  The credential: the local kubeconfig where there is one, else what \<open>liqoctl generate\<close> prints.
  \<open>Inl\<close> is an early return of \<open>Reconcile\<close>.
\<close>

definition peering_credential ::
  "'w Host \<Rightarrow> 'w ProviderInstructionReconciler \<Rightarrow> string \<Rightarrow> ('w, result + string) state" where
  "peering_credential S R requester = do {
     let localKubeconfig = kubeconfig_path (pr_KubeconfigsDir R) (pr_ClusterID R);
     st \<leftarrow> ho_stat S localKubeconfig;
     if st = FileExists then do {
       content \<leftarrow> ho_read_file S localKubeconfig;
       ret (case content of
           Inl e \<Rightarrow> Inl (Inl (ErrMsg (''failed to read existing local kubeconfig: '' @ err_text e)))
         | Inr s \<Rightarrow> Inr s)
     }
     else do {
       _ \<leftarrow> cleanup S localKubeconfig (cleanup_resources requester);
       r \<leftarrow> ho_run S (2 * go_minute) ''liqoctl''
         [''generate'', ''peering-user'', ''--kubeconfig'', localKubeconfig, ''--consumer-cluster-id'', requester];
       ret (case r of
           Inl _ \<Rightarrow> Inl (Inr (30 * go_second))
         | Inr out \<Rightarrow> Inr out)
     }
   }"

definition share_credential ::
  "'w Host \<Rightarrow> 'w ProviderInstructionReconciler \<Rightarrow> ProviderInstruction \<Rightarrow> ('w, result + unit) state" where
  "share_credential S R i =
     (case pr_BrokerCommunicator R of
        None \<Rightarrow> ret (Inr ())
      | Some B \<Rightarrow> do {
          cred \<leftarrow> peering_credential S R (pis_RequesterClusterID (o_spec i));
          case cred of
            Inl r \<Rightarrow> ret (Inl r)
          | Inr content \<Rightarrow> do {
              up \<leftarrow> bc_UploadPeeringKubeconfig B (pis_ReservationName (o_spec i)) (trim_space content);
              ret (case up of Inl _ \<Rightarrow> Inl (Inr (30 * go_second)) | Inr _ \<Rightarrow> Inr ())
            }
        })"

definition write_enforced ::
  "('w, 'q) AgentEnv \<Rightarrow> ProviderInstruction \<Rightarrow> bool \<Rightarrow> ('w, result) state \<Rightarrow> ('w, result) state" where
  "write_enforced E i enforced next = do {
     now \<leftarrow> g_now E;
     u \<leftarrow> c_status_update (g_pi E) (i\<lparr>o_status := \<lparr>pst_Enforced = enforced, pst_LastUpdateTime = now\<rparr>\<rparr>);
     case u of Inl e \<Rightarrow> ret (Inl (ErrApi e)) | Inr _ \<Rightarrow> next
   }"

definition expired_before :: "time option \<Rightarrow> time \<Rightarrow> bool" where
  "expired_before expiresAt now = (case expiresAt of None \<Rightarrow> False | Some t \<Rightarrow> t < now)"

definition Reconcile ::
  "('w, 'q) AgentEnv \<Rightarrow> 'w Host \<Rightarrow> 'w ProviderInstructionReconciler \<Rightarrow> key \<Rightarrow> ('w, result) state" where
  "Reconcile E S R k = do {
     got \<leftarrow> c_get (g_pi E) k;
     case got of
       Inl e \<Rightarrow> ret (if is_not_found (ErrApi e) then Inr 0 else Inl (ErrApi e))
     | Inr i \<Rightarrow> do {
         now \<leftarrow> g_now E;
         if expired_before (pis_ExpiresAt (o_spec i)) now
         then write_enforced E i False (ret (Inr 0))
         else if pst_Enforced (o_status i) then requeue_at_expiry E (pis_ExpiresAt (o_spec i))
         else do {
           shared \<leftarrow> share_credential S R i;
           case shared of
             Inl r \<Rightarrow> ret r
           | Inr _ \<Rightarrow> write_enforced E i True (requeue_at_expiry E (pis_ExpiresAt (o_spec i)))
         }
       }
   }"

section \<open>What a reconciliation does\<close>

text \<open>
  How the credential of a requester is obtained from the world \<open>w\<close> on: it is the local kubeconfig, where
  that file exists, or else what \<open>liqoctl generate peering-user\<close> prints for the requester after the
  leftovers of an earlier attempt were deleted.
\<close>

inductive credential ::
  "'w Host \<Rightarrow> 'w ProviderInstructionReconciler \<Rightarrow> string \<Rightarrow> 'w \<Rightarrow> string \<Rightarrow> 'w \<Rightarrow> bool" for S R requester where
  local_file: "run_state (ho_stat S (kubeconfig_path (pr_KubeconfigsDir R) (pr_ClusterID R))) w = (FileExists, w1) \<Longrightarrow>
    run_state (ho_read_file S (kubeconfig_path (pr_KubeconfigsDir R) (pr_ClusterID R))) w1 = (Inr content, w2) \<Longrightarrow>
    credential S R requester w content w2"
| generated: "run_state (ho_stat S (kubeconfig_path (pr_KubeconfigsDir R) (pr_ClusterID R))) w = (st, w1) \<Longrightarrow>
    st \<noteq> FileExists \<Longrightarrow>
    run_state (cleanup S (kubeconfig_path (pr_KubeconfigsDir R) (pr_ClusterID R)) (cleanup_resources requester)) w1 = ((), w2) \<Longrightarrow>
    run_state (ho_run S (2 * go_minute) ''liqoctl''
      [''generate'', ''peering-user'', ''--kubeconfig'', kubeconfig_path (pr_KubeconfigsDir R) (pr_ClusterID R),
       ''--consumer-cluster-id'', requester]) w2 = (Inr content, w3) \<Longrightarrow>
    credential S R requester w content w3"

text \<open>It has been uploaded, without surrounding white space, for the instruction's reservation.\<close>

definition uploaded :: "'w Host \<Rightarrow> 'w ProviderInstructionReconciler \<Rightarrow> ProviderInstruction \<Rightarrow> 'w \<Rightarrow> bool" where
  "uploaded S R i w \<longleftrightarrow> (\<exists>B content w1 w2. pr_BrokerCommunicator R = Some B \<and>
     credential S R (pis_RequesterClusterID (o_spec i)) w content w1 \<and>
     run_state (bc_UploadPeeringKubeconfig B (pis_ReservationName (o_spec i)) (trim_space content)) w1 = (Inr (), w2))"

lemma peering_credential_obtained:
  assumes "run_state (peering_credential S R requester) w = (Inr content, w')"
  shows "credential S R requester w content w'"
proof -
  let ?path = "kubeconfig_path (pr_KubeconfigsDir R) (pr_ClusterID R)"
  obtain st w1 where st: "run_state (ho_stat S ?path) w = (st, w1)" by fastforce
  show ?thesis
  proof (cases "st = FileExists")
    case True
    with assms st show ?thesis
      by (auto simp: peering_credential_def Let_def split: sum.splits prod.splits intro!: credential.local_file)
  next
    case False
    obtain w2 where c: "run_state (cleanup S ?path (cleanup_resources requester)) w1 = ((), w2)"
      by (cases "run_state (cleanup S ?path (cleanup_resources requester)) w1") simp
    from assms st False c show ?thesis
      by (auto simp: peering_credential_def Let_def split: sum.splits prod.splits intro: credential.generated [OF st False c])
  qed
qed

lemma share_credential_uploads:
  assumes "run_state (share_credential S R i) w = (Inr u, w')"
  shows "pr_BrokerCommunicator R = None \<or> uploaded S R i w"
proof (cases "pr_BrokerCommunicator R")
  case (Some B)
  obtain cred w1 where c: "run_state (peering_credential S R (pis_RequesterClusterID (o_spec i))) w = (cred, w1)" by fastforce
  with assms Some obtain content where content: "cred = Inr content" by (cases cred) (auto simp: share_credential_def)
  obtain up w2 where up: "run_state (bc_UploadPeeringKubeconfig B (pis_ReservationName (o_spec i)) (trim_space content)) w1 = (up, w2)"
    by fastforce
  with assms Some c content have "up = Inr ()" by (cases up) (auto simp: share_credential_def)
  with Some up peering_credential_obtained [OF c [unfolded content]] show ?thesis unfolding uploaded_def by blast
qed simp

lemma keeps_requeue [keeps_intros]: "keeps f (g_now E) \<Longrightarrow> keeps f (requeue_at_expiry E t)"
  unfolding requeue_at_expiry_def by (auto intro!: keeps_intros)

lemma keeps_cleanup [keeps_intros]: "host_quiet f S \<Longrightarrow> keeps f (cleanup S c rs)"
  by (induction rs) (auto intro!: keeps_intros)

lemma keeps_peering_credential [keeps_intros]: "host_quiet f S \<Longrightarrow> keeps f (peering_credential S R requester)"
  unfolding peering_credential_def Let_def by (auto intro!: keeps_intros)

lemma keeps_share_credential:
  assumes "host_quiet f S" "\<And>B. pr_BrokerCommunicator R = Some B \<Longrightarrow> broker_quiet f B"
  shows "keeps f (share_credential S R i)"
proof (cases "pr_BrokerCommunicator R")
  case None
  then show ?thesis by (simp add: share_credential_def keeps_return)
next
  case (Some B)
  note B = broker_quietD(6) [OF assms(2) [OF Some]]
  show ?thesis
    unfolding share_credential_def by (simp add: Some) (intro keeps_intros assms(1) B)
qed

text \<open>The environment of a provider's controller: nothing but the API writes the instructions.\<close>

locale provider_world = kube_client "g_pi E" pis
  for E :: "('w, 'q) AgentEnv" and pis :: "'w \<Rightarrow> (ProviderInstructionSpec, ProviderInstructionStatus) store" +
  fixes S :: "'w Host" and R :: "'w ProviderInstructionReconciler"
  assumes now_quiet: "keeps pis (g_now E)" and host_quiet: "host_quiet pis S"
    and comm_quiet: "pr_BrokerCommunicator R = Some B \<Longrightarrow> broker_quiet pis B"
begin

lemma write_enforced_effect:
  assumes "run_state (write_enforced E i b next) w = (r, w')" "keeps pis next" "pis w' k \<noteq> pis w k"
  obtains old y where "k = obj_key i" "pis w k = Some old" "pis w' k = Some y"
    "m_ResourceVersion (o_meta old) = m_ResourceVersion (o_meta i)"
    "o_spec y = o_spec old" "pst_Enforced (o_status y) = b"
proof -
  obtain now w1 where now: "run_state (g_now E) w = (now, w1)" by fastforce
  let ?x = "i\<lparr>o_status := \<lparr>pst_Enforced = b, pst_LastUpdateTime = now\<rparr>\<rparr>"
  obtain u w2 where u: "run_state (c_status_update (g_pi E) ?x) w1 = (u, w2)" by fastforce
  have w1: "pis w1 = pis w" by (rule keepsD [OF now_quiet now])
  have w2: "pis w' = pis w2"
    using assms(1) now u keepsD [OF assms(2)] by (cases u) (auto simp: write_enforced_def)
  show ?thesis
  proof (cases u)
    case (Inl e)
    with u w1 w2 write_fail(3) assms(3) show ?thesis by fastforce
  next
    case (Inr y)
    from status_ok [OF u [unfolded Inr]] obtain old where old: "pis w1 (obj_key i) = Some old"
      "m_ResourceVersion (o_meta old) = m_ResourceVersion (o_meta i)" "pis w2 = (pis w1)(obj_key i \<mapsto> y)"
      "o_spec y = o_spec old" "pst_Enforced (o_status y) = b" by auto
    moreover from this have "k = obj_key i" using assms(3) w1 w2 by (auto split: if_splits)
    ultimately show ?thesis using that w1 w2 by auto
  qed
qed

lemma Reconcile_effect:
  assumes "run_state (Reconcile E S R k) w = (r, w')" "pis w' k' \<noteq> pis w k'"
  obtains old y w1 now w2 where "k' = k" "pis w k = Some old" "pis w' k = Some y" "o_spec y = o_spec old"
    "run_state (c_get (g_pi E) k) w = (Inr old, w1)" "run_state (g_now E) w1 = (now, w2)"
    "expired_before (pis_ExpiresAt (o_spec old)) now \<and> \<not> pst_Enforced (o_status y) \<or>
     \<not> expired_before (pis_ExpiresAt (o_spec old)) now \<and> \<not> pst_Enforced (o_status old) \<and> pst_Enforced (o_status y) \<and>
       (pr_BrokerCommunicator R = None \<or> uploaded S R old w2)"
proof -
  obtain got w1 where got: "run_state (c_get (g_pi E) k) w = (got, w1)" by fastforce
  have w1: "pis w1 = pis w" by (rule get_same [OF got])
  obtain i where i: "got = Inr i" using assms got w1 by (cases got) (auto simp: Reconcile_def)
  from get_found [OF got [unfolded i]] have at: "pis w k = Some i" "obj_key i = k" by auto
  obtain now w2 where now: "run_state (g_now E) w1 = (now, w2)" by fastforce
  have w2: "pis w2 = pis w" using keepsD [OF now_quiet now] w1 by simp
  have req: "keeps pis (requeue_at_expiry E t)" for t using now_quiet by (rule keeps_requeue)
  show ?thesis
  proof (cases "expired_before (pis_ExpiresAt (o_spec i)) now")
    case True
    with assms(1) got i now have "run_state (write_enforced E i False (ret (Inr 0))) w2 = (r, w')"
      by (simp add: Reconcile_def)
    then obtain old y where "k' = obj_key i" "pis w2 k' = Some old" "pis w' k' = Some y" "o_spec y = o_spec old"
      "pst_Enforced (o_status y) = False"
      by (rule write_enforced_effect) (use assms(2) w2 in \<open>auto intro: keeps_return\<close>)
    then show ?thesis using that [OF _ _ _ _ got [unfolded i] now, of y] at True w2 by simp
  next
    case False
    show ?thesis
    proof (cases "pst_Enforced (o_status i)")
      case True
      with False assms(1) got i now have "run_state (requeue_at_expiry E (pis_ExpiresAt (o_spec i))) w2 = (r, w')"
        by (simp add: Reconcile_def)
      from keepsD [OF req this] w2 assms(2) show ?thesis by simp
    next
      case unenforced: False
      obtain sh w3 where sh: "run_state (share_credential S R i) w2 = (sh, w3)" by fastforce
      have w3: "pis w3 = pis w"
        using keepsD [OF keeps_share_credential [OF host_quiet comm_quiet] sh] w2 by simp
      obtain u where u: "sh = Inr u"
        using assms(1,2) got i now sh False unenforced w3 by (cases sh) (auto simp: Reconcile_def)
      with assms(1) got i now sh False unenforced
      have "run_state (write_enforced E i True (requeue_at_expiry E (pis_ExpiresAt (o_spec i)))) w3 = (r, w')"
        by (simp add: Reconcile_def)
      then obtain old y where "k' = obj_key i" "pis w3 k' = Some old" "pis w' k' = Some y" "o_spec y = o_spec old"
        "pst_Enforced (o_status y) = True"
        by (rule write_enforced_effect) (use assms(2) w3 req in auto)
      then show ?thesis
        using that [OF _ _ _ _ got [unfolded i] now, of y] at False unenforced w3 share_credential_uploads [OF sh [unfolded u]] by simp
    qed
  qed
qed

end

text \<open>A broker that takes the kubeconfig \<open>cfg\<close> for the sample reservation, and nothing else.\<close>

definition taking_broker :: "'w BrokerCommunicator" where
  "taking_broker = silent_broker\<lparr>bc_UploadPeeringKubeconfig :=
     (\<lambda>name kubeconfig. ret (if name = ''rsv-a-1'' \<and> kubeconfig = ''cfg'' then Inr () else Inl (ErrMsg ''bad request'')))\<rparr>"

definition sample_provider :: "'w ProviderInstructionReconciler" where
  "sample_provider = \<lparr>pr_BrokerCommunicator = Some taking_broker, pr_KubeconfigsDir = ''/k'', pr_ClusterID = ''b''\<rparr>"

lemma taking_quiet: "broker_quiet f taking_broker"
  by (simp add: taking_broker_def silent_broker_def broker_quiet_def keeps_return)

interpretation agent_provider: provider_world agent_env "\<lambda>w. store_get (aw_pis w)" sample_host sample_provider
  by (intro provider_world.intro provider_world_axioms.intro)
    (auto simp: aw_pi.kube_client_axioms sample_host_quiet keeps_def sample_provider_def taking_quiet)

section \<open>Properties\<close>

text \<open>
  C14. The life of an instruction on the provider: a reconciliation changes nothing but the status of
  the instruction it is called for, and that in one of two ways, read at the clock of this very run.
  An expired instruction loses Enforced, so that the collector stops counting it. One that is neither
  expired nor enforced becomes Enforced; where the agent talks to the broker, only after this run has
  obtained the credential of its requester (the local kubeconfig where there is one, else the output
  of \<open>liqoctl generate peering-user\<close> for the requester) and uploaded it, trimmed, for its reservation;
  where it does not, it is enforced with nothing shared.
\<close>

theorem provider_instruction_steps:
  assumes "provider_world E pis S R" "run_state (Reconcile E S R k) w = (r, w')" "pis w' k' \<noteq> pis w k'"
  shows "k' = k \<and> (\<exists>old y w1 now w2. pis w k = Some old \<and> pis w' k = Some y \<and> o_spec y = o_spec old \<and>
    run_state (c_get (g_pi E) k) w = (Inr old, w1) \<and> run_state (g_now E) w1 = (now, w2) \<and>
    (expired_before (pis_ExpiresAt (o_spec old)) now \<and> \<not> pst_Enforced (o_status y) \<or>
     \<not> expired_before (pis_ExpiresAt (o_spec old)) now \<and> \<not> pst_Enforced (o_status old) \<and> pst_Enforced (o_status y) \<and>
       (pr_BrokerCommunicator R = None \<or> uploaded S R old w2)))"
  by (rule provider_world.Reconcile_effect [OF assms]) blast

lemma provider_instruction_witness:
  "\<exists>r w' y. run_state (Reconcile agent_env sample_host sample_provider (''default'', ''i''))
      (sample_agent_world\<lparr>aw_pis := [(sample_instruction ''i'')\<lparr>o_status := zero_pi_status\<rparr>]\<rparr>) = (r, w') \<and>
    store_get (aw_pis w') (''default'', ''i'') = Some y \<and> pst_Enforced (o_status y) \<and>
    uploaded sample_host sample_provider ((sample_instruction ''i'')\<lparr>o_status := zero_pi_status\<rparr>)
      (sample_agent_world\<lparr>aw_pis := [(sample_instruction ''i'')\<lparr>o_status := zero_pi_status\<rparr>]\<rparr>)"
proof -
  let ?i = "(sample_instruction ''i'')\<lparr>o_status := zero_pi_status\<rparr>" and ?k = "(''default'', ''i'')"
  let ?w = "sample_agent_world\<lparr>aw_pis := [?i]\<rparr>"
  obtain r w' where run: "run_state (Reconcile agent_env sample_host sample_provider ?k) ?w = (r, w')" by (meson surj_pair)
  have at: "store_get (aw_pis ?w) ?k = Some ?i" by (simp add: sample_instruction_def meta_key_def)
  then have got: "run_state (c_get (g_pi agent_env) ?k) ?w = (Inr ?i, ?w)"
    "run_state (g_now agent_env) ?w = (aw_clock sample_agent_world, ?w)" by simp_all
  have "trim_space ''cfg'' = ''cfg''" by code_simp
  then have "store_get (aw_pis w') ?k \<noteq> store_get (aw_pis ?w) ?k"
    using run
    by (auto simp: Reconcile_def sample_instruction_def zero_pi_status_def new_meta_def expired_before_def
        share_credential_def peering_credential_def sample_provider_def taking_broker_def sample_host_def
        write_enforced_def requeue_at_expiry_def mem_write_defs Let_def)
  with provider_instruction_steps [where pis = "\<lambda>w. store_get (aw_pis w)", OF agent_provider.provider_world_axioms run, of ?k]
  obtain old y w1 now w2 where y: "store_get (aw_pis ?w) ?k = Some old" "store_get (aw_pis w') ?k = Some y"
    "run_state (c_get (g_pi agent_env) ?k) ?w = (Inr old, w1)" "run_state (g_now agent_env) w1 = (now, w2)"
    "expired_before (pis_ExpiresAt (o_spec old)) now \<and> \<not> pst_Enforced (o_status y) \<or>
     pst_Enforced (o_status y) \<and> (pr_BrokerCommunicator (sample_provider :: agent_world ProviderInstructionReconciler) = None \<or>
       uploaded sample_host sample_provider old w2)"
    by blast
  from y(3,4) got have "old = ?i" "w2 = ?w" by (metis Inr_inject prod.inject)+
  moreover have "\<not> expired_before (pis_ExpiresAt (o_spec ?i)) now" 
    "pr_BrokerCommunicator (sample_provider :: agent_world ProviderInstructionReconciler) \<noteq> None"
    by (simp_all add: expired_before_def sample_instruction_def sample_provider_def)
  ultimately show ?thesis using y(2,5) run by auto
qed

end
