(* ===== verification/RequesterController.thy ===== *)
theory RequesterController
  imports ProviderController
begin

text \<open>
  The requester's controller of instructions (resource-agent/internal/controller/
  reservationinstruction_controller.go): it fetches the credential of the provider from the broker,
  peers the clusters with it, and takes the peering down again when the instruction expires or is
  deleted, which the finalizer delays until then.
\<close>

definition peeringFinalizer :: string where
  "peeringFinalizer = ''rear.fluidos.eu/peering''"

record 'w ReservationInstructionReconciler =
  rc_BrokerCommunicator :: "'w BrokerCommunicator option"
  rc_KubeconfigsDir :: string
  rc_ClusterID :: string

section \<open>Reconcile\<close>

definition teardown ::
  "('w, 'q) AgentEnv \<Rightarrow> 'w Host \<Rightarrow> 'w ReservationInstructionReconciler \<Rightarrow> ReservationInstruction \<Rightarrow> ('w, result) state" where
  "teardown E S R i =
     (if peeringFinalizer \<in> set (m_Finalizers (o_meta i)) then do {
        unpeered \<leftarrow>
          (if rit_Delivered (o_status i)
           then executeLiqoUnpeer S (rc_KubeconfigsDir R) (rc_ClusterID R)
             (ris_TargetClusterID (o_spec i)) (ris_PeeringKubeconfig (o_spec i))
           else ret (Inr ()));
        case unpeered of
          Inl _ \<Rightarrow> ret (Inr (15 * go_second))
        | Inr _ \<Rightarrow> do {
            u \<leftarrow> c_update (g_ri E) (remove_finalizer peeringFinalizer i);
            ret (case u of Inl e \<Rightarrow> Inl (ErrApi e) | Inr _ \<Rightarrow> Inr 0)
          }
      }
      else ret (Inr 0))"

definition fetch_credential ::
  "('w, 'q) AgentEnv \<Rightarrow> 'w ReservationInstructionReconciler \<Rightarrow> ReservationInstruction \<Rightarrow> ('w, result) state" where
  "fetch_credential E R i =
     (case rc_BrokerCommunicator R of
        None \<Rightarrow> ret (Inr (30 * go_second))
      | Some B \<Rightarrow> do {
          got \<leftarrow> bc_GetReservation B (ris_ReservationName (o_spec i));
          case got of
            Inl _ \<Rightarrow> ret (Inr (10 * go_second))
          | Inr rsv \<Rightarrow>
              if xs_PeeringKubeconfig (xv_Status rsv) = '''' then ret (Inr (10 * go_second))
              else do {
                u \<leftarrow> c_update (g_ri E)
                  (i\<lparr>o_spec := (o_spec i)\<lparr>ris_PeeringKubeconfig := xs_PeeringKubeconfig (xv_Status rsv)\<rparr>\<rparr>);
                ret (case u of Inl e \<Rightarrow> Inl (ErrApi e) | Inr _ \<Rightarrow> Inr 0)
              }
        })"

definition peer ::
  "('w, 'q) AgentEnv \<Rightarrow> 'w Host \<Rightarrow> 'w ReservationInstructionReconciler \<Rightarrow> ReservationInstruction \<Rightarrow> ('w, result) state" where
  "peer E S R i = do {
     peered \<leftarrow> executeLiqoPeering S (rc_KubeconfigsDir R) (rc_ClusterID R)
       (ris_TargetClusterID (o_spec i)) (ris_PeeringKubeconfig (o_spec i));
     case peered of
       Inl _ \<Rightarrow> ret (Inr (30 * go_second))
     | Inr _ \<Rightarrow> do {
         now \<leftarrow> g_now E;
         u \<leftarrow> c_status_update (g_ri E)
           (i\<lparr>o_status := (o_status i)\<lparr>rit_Delivered := True, rit_LastUpdateTime := now\<rparr>\<rparr>);
         case u of
           Inl e \<Rightarrow> ret (Inl (ErrApi e))
         | Inr _ \<Rightarrow> requeue_at_expiry E (ris_ExpiresAt (o_spec i))
       }
   }"

definition Reconcile ::
  "('w, 'q) AgentEnv \<Rightarrow> 'w Host \<Rightarrow> 'w ReservationInstructionReconciler \<Rightarrow> key \<Rightarrow> ('w, result) state" where
  "Reconcile E S R k = do {
     got \<leftarrow> c_get (g_ri E) k;
     case got of
       Inl e \<Rightarrow> ret (if is_not_found (ErrApi e) then Inr 0 else Inl (ErrApi e))
     | Inr i \<Rightarrow>
         if m_DeletionTimestamp (o_meta i) \<noteq> None then teardown E S R i
         else if peeringFinalizer \<notin> set (m_Finalizers (o_meta i)) then do {
           u \<leftarrow> c_update (g_ri E) (add_finalizer peeringFinalizer i);
           ret (case u of Inl e \<Rightarrow> Inl (ErrApi e) | Inr _ \<Rightarrow> Inr 0)
         }
         else do {
           now \<leftarrow> g_now E;
           if expired_before (ris_ExpiresAt (o_spec i)) now then do {
             d \<leftarrow> g_delete_ri E i;
             ret (case d of Inl e \<Rightarrow> Inl (ErrApi e) | Inr _ \<Rightarrow> Inr 0)
           }
           else if rit_Delivered (o_status i) then requeue_at_expiry E (ris_ExpiresAt (o_spec i))
           else if ris_PeeringKubeconfig (o_spec i) = '''' then fetch_credential E R i
           else peer E S R i
         }
   }"

section \<open>What a reconciliation does\<close>

definition peer_with :: "'w Host \<Rightarrow> 'w ReservationInstructionReconciler \<Rightarrow> ReservationInstruction \<Rightarrow> ('w, go_error + unit) state" where
  "peer_with S R i = executeLiqoPeering S (rc_KubeconfigsDir R) (rc_ClusterID R)
     (ris_TargetClusterID (o_spec i)) (ris_PeeringKubeconfig (o_spec i))"

definition unpeer_from :: "'w Host \<Rightarrow> 'w ReservationInstructionReconciler \<Rightarrow> ReservationInstruction \<Rightarrow> ('w, go_error + unit) state" where
  "unpeer_from S R i = executeLiqoUnpeer S (rc_KubeconfigsDir R) (rc_ClusterID R)
     (ris_TargetClusterID (o_spec i)) (ris_PeeringKubeconfig (o_spec i))"

definition told_by_broker :: "'w ReservationInstructionReconciler \<Rightarrow> string \<Rightarrow> 'w \<Rightarrow> string \<Rightarrow> bool" where
  "told_by_broker R name w kubeconfig \<longleftrightarrow>
     (\<exists>B rsv w'. rc_BrokerCommunicator R = Some B \<and> run_state (bc_GetReservation B name) w = (Inr rsv, w') \<and>
        xs_PeeringKubeconfig (xv_Status rsv) = kubeconfig)"

text \<open>Not under deletion, guarded by the finalizer, and neither expired nor delivered.\<close>

definition open_at :: "time \<Rightarrow> ReservationInstruction \<Rightarrow> bool" where
  "open_at now i \<longleftrightarrow> m_DeletionTimestamp (o_meta i) = None \<and> peeringFinalizer \<in> set (m_Finalizers (o_meta i)) \<and>
     \<not> expired_before (ris_ExpiresAt (o_spec i)) now \<and> \<not> rit_Delivered (o_status i)"

text \<open>
  The steps of an instruction, from what is stored before to what is stored after (\<open>None\<close>: gone):
  the finalizer is set, the credential arrives, the clusters are peered, the expired instruction is
  marked for deletion, and the marked one loses its finalizer once the peering is down. \<open>w1\<close> is the
  world after the instruction was read, \<open>now\<close> and \<open>w2\<close> the clock and the world after it: what a step
  says of the broker and the host is what they answered there.
\<close>

inductive requester_step ::
  "'w Host \<Rightarrow> 'w ReservationInstructionReconciler \<Rightarrow> 'w \<Rightarrow> time \<Rightarrow> 'w \<Rightarrow> ReservationInstruction \<Rightarrow>
   ReservationInstruction option \<Rightarrow> bool"
  for S R w1 now w2 where
  guarded: "m_DeletionTimestamp (o_meta old) = None \<Longrightarrow> peeringFinalizer \<notin> set (m_Finalizers (o_meta old)) \<Longrightarrow>
    o_spec y = o_spec old \<Longrightarrow> o_status y = o_status old \<Longrightarrow> peeringFinalizer \<in> set (m_Finalizers (o_meta y)) \<Longrightarrow>
    requester_step S R w1 now w2 old (Some y)"
| credential: "open_at now old \<Longrightarrow> ris_PeeringKubeconfig (o_spec old) = [] \<Longrightarrow> kubeconfig \<noteq> [] \<Longrightarrow>
    told_by_broker R (ris_ReservationName (o_spec old)) w2 kubeconfig \<Longrightarrow>
    o_spec y = (o_spec old)\<lparr>ris_PeeringKubeconfig := kubeconfig\<rparr> \<Longrightarrow> o_status y = o_status old \<Longrightarrow>
    requester_step S R w1 now w2 old (Some y)"
| delivered: "open_at now old \<Longrightarrow> ris_PeeringKubeconfig (o_spec old) \<noteq> [] \<Longrightarrow>
    run_state (peer_with S R old) w2 = (Inr (), w3) \<Longrightarrow> o_spec y = o_spec old \<Longrightarrow> rit_Delivered (o_status y) \<Longrightarrow>
    requester_step S R w1 now w2 old (Some y)"
| expired: "m_DeletionTimestamp (o_meta old) = None \<Longrightarrow> peeringFinalizer \<in> set (m_Finalizers (o_meta old)) \<Longrightarrow>
    expired_before (ris_ExpiresAt (o_spec old)) now \<Longrightarrow> o_spec y = o_spec old \<Longrightarrow> o_status y = o_status old \<Longrightarrow>
    m_DeletionTimestamp (o_meta y) \<noteq> None \<Longrightarrow> peeringFinalizer \<in> set (m_Finalizers (o_meta y)) \<Longrightarrow>
    requester_step S R w1 now w2 old (Some y)"
| released: "m_DeletionTimestamp (o_meta old) \<noteq> None \<Longrightarrow> peeringFinalizer \<in> set (m_Finalizers (o_meta old)) \<Longrightarrow>
    (rit_Delivered (o_status old) \<Longrightarrow> \<exists>w3. run_state (unpeer_from S R old) w1 = (Inr (), w3)) \<Longrightarrow>
    (case n of None \<Rightarrow> True | Some y \<Rightarrow> o_spec y = o_spec old \<and> o_status y = o_status old) \<Longrightarrow>
    requester_step S R w1 now w2 old n"

inductive_cases requester_stepE: "requester_step S R w1 now w2 old n"

text \<open>
  What a reconciliation does on the host, seen through an observation \<open>cmds\<close> of it: at most one
  peering, of an open instruction with a credential, or one teardown, of a delivered one under
  deletion. An answer without error after a peering that succeeded means that Delivered is stored, and
  after a teardown that succeeded that the finalizer is gone, so that neither is done again.
\<close>

inductive liqo_run ::
  "'w Host \<Rightarrow> 'w ReservationInstructionReconciler \<Rightarrow> ('w \<Rightarrow> 'c) \<Rightarrow> 'w \<Rightarrow> time \<Rightarrow> 'w \<Rightarrow> ReservationInstruction \<Rightarrow>
   result \<Rightarrow> ReservationInstruction option \<Rightarrow> 'w \<Rightarrow> bool"
  for S R cmds w1 now w2 old r n w' where
  peers: "open_at now old \<Longrightarrow> ris_PeeringKubeconfig (o_spec old) \<noteq> [] \<Longrightarrow>
    run_state (peer_with S R old) w2 = (p, w3) \<Longrightarrow> cmds w' = cmds w3 \<Longrightarrow>
    (\<And>d. p = Inr () \<Longrightarrow> r = Inr d \<Longrightarrow> \<exists>y. n = Some y \<and> rit_Delivered (o_status y)) \<Longrightarrow>
    liqo_run S R cmds w1 now w2 old r n w'"
| unpeers: "m_DeletionTimestamp (o_meta old) \<noteq> None \<Longrightarrow> peeringFinalizer \<in> set (m_Finalizers (o_meta old)) \<Longrightarrow>
    rit_Delivered (o_status old) \<Longrightarrow> run_state (unpeer_from S R old) w1 = (p, w3) \<Longrightarrow> cmds w' = cmds w3 \<Longrightarrow>
    (\<And>d y. p = Inr () \<Longrightarrow> r = Inr d \<Longrightarrow> n = Some y \<Longrightarrow> peeringFinalizer \<notin> set (m_Finalizers (o_meta y))) \<Longrightarrow>
    liqo_run S R cmds w1 now w2 old r n w'"

text \<open>An observation of the host alone: neither the API nor the clock nor the broker changes it.\<close>

definition observes_host :: "('w \<Rightarrow> 'c) \<Rightarrow> ('w, 'q) AgentEnv \<Rightarrow> 'w ReservationInstructionReconciler \<Rightarrow> bool" where
  "observes_host cmds E R \<longleftrightarrow> client_keeps cmds (g_ri E) \<and> (\<forall>x. keeps cmds (g_delete_ri E x)) \<and> keeps cmds (g_now E) \<and>
     (\<forall>B. rc_BrokerCommunicator R = Some B \<longrightarrow> broker_quiet cmds B)"

lemma observes_hostD:
  assumes "observes_host cmds E R"
  shows "client_keeps cmds (g_ri E)" "keeps cmds (g_delete_ri E x)" "keeps cmds (g_now E)"
    "keeps cmds (requeue_at_expiry E t)" "rc_BrokerCommunicator R = Some B \<Longrightarrow> broker_quiet cmds B"
  using assms by (auto simp: observes_host_def intro: keeps_requeue)

text \<open>The environment of a requester's controller.\<close>

locale requester_world = deleting_client "g_ri E" ris "g_delete_ri E"
  for E :: "('w, 'q) AgentEnv" and ris :: "'w \<Rightarrow> (ReservationInstructionSpec, ReservationInstructionStatus) store" +
  fixes S :: "'w Host" and R :: "'w ReservationInstructionReconciler"
  assumes now_quiet: "keeps ris (g_now E)" and host_quiet: "host_quiet ris S"
    and comm_quiet: "rc_BrokerCommunicator R = Some B \<Longrightarrow> broker_quiet ris B"
begin

lemma req_quiet: "keeps ris (requeue_at_expiry E t)"
  using now_quiet by (rule keeps_requeue)

text \<open>An update of the instruction that was read, where it changed the store.\<close>

lemma update_changes:
  assumes "run_state (c_update (g_ri E) x) w = (u, w')" "ris w k = Some i" "obj_key x = k" "ris w' k' \<noteq> ris w k'"
  obtains y where "u = Inr y" "k' = k" "ris w' k = (if finalized i x then None else Some y)" "o_spec y = o_spec x"
    "o_status y = o_status i" "m_Finalizers (o_meta y) = m_Finalizers (o_meta x)"
proof (cases u)
  case (Inl e)
  with assms write_fail(2) show ?thesis by fastforce
next
  case (Inr y)
  note u = assms(1) [unfolded Inr]
  from update_ok [OF u] assms(2,3) have y: "ris w' = (ris w)(k := if finalized i x then None else Some y)"
    "o_spec y = o_spec x" "o_status y = o_status i" by auto
  moreover from this(1) have "k' = k" using assms(4) by (auto split: if_splits)
  ultimately show ?thesis using that Inr update_finalizers [OF u] by simp
qed

lemma teardown_step:
  assumes "run_state (teardown E S R i) w = (r, w')" "ris w k = Some i" "obj_key i = k" "ris w' k' \<noteq> ris w k'"
    "m_DeletionTimestamp (o_meta i) \<noteq> None"
  shows "k' = k \<and> requester_step S R w now w2 i (ris w' k)"
proof -
  let ?un = "if rit_Delivered (o_status i) then unpeer_from S R i else ret (Inr ())"
  obtain un w3 where un: "run_state ?un w = (un, w3)" by (meson surj_pair)
  have "keeps ris ?un" by (auto simp: unpeer_from_def intro: keeps_return keeps_unpeering host_quiet)
  then have w3: "ris w3 = ris w" by (rule keepsD [OF _ un])
  have fin: "peeringFinalizer \<in> set (m_Finalizers (o_meta i))"
    using assms(1,4) by (auto simp: teardown_def split: if_splits)
  note run = assms(1) [unfolded teardown_def, folded unpeer_from_def]
  have ok: "un = Inr ()"
    using run assms(4) un w3 fin by (cases un) auto
  obtain u w4 where u: "run_state (c_update (g_ri E) (remove_finalizer peeringFinalizer i)) w3 = (u, w4)" by fastforce
  have "w' = w4" using run un ok fin u by simp
  with u w3 obtain y where y: "k' = k" "ris w' k = (if finalized i (remove_finalizer peeringFinalizer i) then None else Some y)"
    "o_spec y = o_spec i" "o_status y = o_status i"
    using update_changes [OF u, of k i k'] assms(2-4) by auto
  have "\<exists>w3. run_state (unpeer_from S R i) w = (Inr (), w3)" if "rit_Delivered (o_status i)"
    using un ok that by auto
  with y fin assms(5) show ?thesis by (auto intro!: requester_step.released)
qed

lemma fetch_step:
  assumes "run_state (fetch_credential E R i) w = (r, w')" "ris w k = Some i" "obj_key i = k" "ris w' k' \<noteq> ris w k'"
    "open_at now i" "ris_PeeringKubeconfig (o_spec i) = []"
  shows "k' = k \<and> requester_step S R w1 now w i (ris w' k)"
proof -
  obtain B where B: "rc_BrokerCommunicator R = Some B"
    using assms(1,4) by (cases "rc_BrokerCommunicator R") (auto simp: fetch_credential_def)
  obtain got w3 where got: "run_state (bc_GetReservation B (ris_ReservationName (o_spec i))) w = (got, w3)" by fastforce
  have w3: "ris w3 = ris w" by (rule keepsD [OF broker_quietD(5) [OF comm_quiet [OF B]] got])
  obtain rsv where rsv: "got = Inr rsv" "xs_PeeringKubeconfig (xv_Status rsv) \<noteq> []"
    using assms(1,4) B got w3 by (cases got) (auto simp: fetch_credential_def split: if_splits)
  let ?x = "i\<lparr>o_spec := (o_spec i)\<lparr>ris_PeeringKubeconfig := xs_PeeringKubeconfig (xv_Status rsv)\<rparr>\<rparr>"
  obtain u w4 where u: "run_state (c_update (g_ri E) ?x) w3 = (u, w4)" by fastforce
  have w': "w' = w4" using assms(1) B got rsv u by (simp add: fetch_credential_def)
  have nf: "\<not> finalized i ?x" using assms(5) by (simp add: finalized_def open_at_def)
  obtain y where y: "k' = k" "ris w' k = Some y" "o_spec y = o_spec ?x" "o_status y = o_status i"
    using update_changes [OF u, of k i k'] assms(2-4) w3 w' nf by auto
  have "told_by_broker R (ris_ReservationName (o_spec i)) w (xs_PeeringKubeconfig (xv_Status rsv))"
    using B got rsv unfolding told_by_broker_def by blast
  with y rsv(2) assms(5,6) show ?thesis
    by (auto intro!: requester_step.credential [where kubeconfig = "xs_PeeringKubeconfig (xv_Status rsv)"])
qed

text \<open>The write of Delivered after a peering that succeeded.\<close>

definition deliver_status :: "time \<Rightarrow> ReservationInstruction \<Rightarrow> ReservationInstruction" where
  "deliver_status t i = i\<lparr>o_status := (o_status i)\<lparr>rit_Delivered := True, rit_LastUpdateTime := t\<rparr>\<rparr>"

lemma peer_run:
  assumes "run_state (peer E S R i) w = (r, w')"
  obtains (failed) e where "run_state (peer_with S R i) w = (Inl e, w')" "r = Inr (30 * go_second)"
  | (peered) w3 t w4 u w5 where "run_state (peer_with S R i) w = (Inr (), w3)" "run_state (g_now E) w3 = (t, w4)"
      "run_state (c_status_update (g_ri E) (deliver_status t i)) w4 = (u, w5)"
      "case u of Inl e \<Rightarrow> r = Inl (ErrApi e) \<and> w' = w5
       | Inr _ \<Rightarrow> run_state (requeue_at_expiry E (ris_ExpiresAt (o_spec i))) w5 = (r, w')"
proof -
  obtain p w3 where p: "run_state (peer_with S R i) w = (p, w3)" by fastforce
  show thesis
  proof (cases p)
    case (Inl e)
    with assms p failed show thesis by (simp add: peer_def peer_with_def)
  next
    case (Inr x)
    obtain t w4 where t: "run_state (g_now E) w3 = (t, w4)" by fastforce
    obtain u w5 where u: "run_state (c_status_update (g_ri E) (deliver_status t i)) w4 = (u, w5)" by fastforce
    with assms p Inr t peered show thesis
      by (cases u) (auto simp: peer_def peer_with_def deliver_status_def)
  qed
qed

lemma peer_step:
  assumes "run_state (peer E S R i) w = (r, w')" "ris w k = Some i" "obj_key i = k" "ris w' k' \<noteq> ris w k'"
    "open_at now i" "ris_PeeringKubeconfig (o_spec i) \<noteq> []"
  shows "k' = k \<and> requester_step S R w1 now w i (ris w' k)"
  using assms(1)
proof (cases rule: peer_run)
  case (failed e)
  have "ris w' = ris w"
    by (rule keepsD [OF keeps_peering [OF host_quiet] failed(1) [unfolded peer_with_def]])
  with assms(4) show ?thesis by simp
next
  case (peered w3 t w4 u w5)
  have "ris w3 = ris w" by (rule keepsD [OF keeps_peering [OF host_quiet] peered(1) [unfolded peer_with_def]])
  with keepsD [OF now_quiet peered(2)] have w4: "ris w4 = ris w" by simp
  have w': "ris w' = ris w5" using peered(4) keepsD [OF req_quiet] by (cases u) auto
  show ?thesis
  proof (cases u)
    case (Inl e)
    with write_fail(3) peered(3) w4 w' assms(4) show ?thesis by fastforce
  next
    case (Inr y)
    from status_ok [OF peered(3) [unfolded Inr]] assms(2,3) w4
    have y: "ris w5 = (ris w)(k \<mapsto> y)" "o_spec y = o_spec i" "o_status y = o_status (deliver_status t i)"
      by (auto simp: deliver_status_def)
    then have "k' = k" using assms(4) w' by (auto split: if_splits)
    then show ?thesis
      using y w' assms(5,6) peered(1) by (auto simp: deliver_status_def intro!: requester_step.delivered)
  qed
qed

lemma guard_step:
  assumes "run_state (c_update (g_ri E) (add_finalizer peeringFinalizer i)) w = (u, w')" "ris w k = Some i" "obj_key i = k"
    "ris w' k' \<noteq> ris w k'" "m_DeletionTimestamp (o_meta i) = None" "peeringFinalizer \<notin> set (m_Finalizers (o_meta i))"
  shows "k' = k \<and> requester_step S R w1 now w2 i (ris w' k)"
proof -
  let ?x = "add_finalizer peeringFinalizer i"
  have nf: "\<not> finalized i ?x" using assms(5) by (simp add: finalized_def)
  have pf: "peeringFinalizer \<in> set (m_Finalizers (o_meta ?x))" by (simp add: add_finalizer_def)
  obtain y where "k' = k" "ris w' k = Some y" "o_spec y = o_spec ?x" "o_status y = o_status i"
    "m_Finalizers (o_meta y) = m_Finalizers (o_meta ?x)"
    using update_changes [OF assms(1), of k i k'] assms(2-4) nf by auto
  then show ?thesis using assms(5,6) pf by (auto intro!: requester_step.guarded)
qed

lemma expire_step:
  assumes "run_state (g_delete_ri E i) w = (d, w')" "ris w k = Some i" "obj_key i = k" "ris w' k' \<noteq> ris w k'"
    "m_DeletionTimestamp (o_meta i) = None" "peeringFinalizer \<in> set (m_Finalizers (o_meta i))"
    "expired_before (ris_ExpiresAt (o_spec i)) now"
  shows "k' = k \<and> requester_step S R w1 now w2 i (ris w' k)"
proof (cases d)
  case (Inl e)
  with assms(1,4) delete_fail show ?thesis by fastforce
next
  case (Inr un)
  have "m_Finalizers (o_meta i) \<noteq> []" using assms(6) by auto
  with delete_ok [OF assms(1) [unfolded Inr]] assms(2,3) obtain y where y: "ris w' = (ris w)(k \<mapsto> y)"
    "o_spec y = o_spec i" "o_status y = o_status i" "m_Finalizers (o_meta y) = m_Finalizers (o_meta i)"
    "m_DeletionTimestamp (o_meta y) \<noteq> None" by auto
  then have "k' = k" using assms(4) by (auto split: if_splits)
  then show ?thesis using y assms(5-7) by (auto intro!: requester_step.expired)
qed

text \<open>The runs of \<open>Reconcile\<close>, by what is stored and by the clock.\<close>

lemma Reconcile_run:
  assumes "run_state (Reconcile E S R k) w = (r, w')"
  obtains (unread) e where "run_state (c_get (g_ri E) k) w = (Inl e, w')"
  | (read) i w1 now w2 where "run_state (c_get (g_ri E) k) w = (Inr i, w1)" "run_state (g_now E) w1 = (now, w2)"
      "ris w k = Some i" "obj_key i = k" "ris w1 = ris w" "ris w2 = ris w"
      "if m_DeletionTimestamp (o_meta i) \<noteq> None then run_state (teardown E S R i) w1 = (r, w')
       else if peeringFinalizer \<notin> set (m_Finalizers (o_meta i))
         then \<exists>u. run_state (c_update (g_ri E) (add_finalizer peeringFinalizer i)) w1 = (u, w')
       else if expired_before (ris_ExpiresAt (o_spec i)) now then \<exists>d. run_state (g_delete_ri E i) w2 = (d, w')
       else if rit_Delivered (o_status i) then run_state (requeue_at_expiry E (ris_ExpiresAt (o_spec i))) w2 = (r, w')
       else if ris_PeeringKubeconfig (o_spec i) = [] then run_state (fetch_credential E R i) w2 = (r, w')
       else run_state (peer E S R i) w2 = (r, w')"
proof -
  obtain got w1 where got: "run_state (c_get (g_ri E) k) w = (got, w1)" by fastforce
  show thesis
  proof (cases got)
    case (Inl e)
    with assms got unread show thesis by (simp add: Reconcile_def)
  next
    case (Inr i)
    obtain now w2 where now: "run_state (g_now E) w1 = (now, w2)" by fastforce
    have same: "ris w1 = ris w" "ris w2 = ris w" using get_same [OF got] keepsD [OF now_quiet now] by simp_all
    from get_found [OF got [unfolded Inr]] have at: "ris w k = Some i" "obj_key i = k" by auto
    show thesis
      by (rule read [OF got [unfolded Inr] now at same])
        (use assms got Inr now in \<open>auto simp: Reconcile_def split: prod.splits\<close>)
  qed
qed

lemma instruction_reconciled:
  assumes "run_state (Reconcile E S R k) w = (r, w')" "ris w' k' \<noteq> ris w k'"
  obtains old w1 now w2 where "k' = k" "ris w k = Some old" "run_state (c_get (g_ri E) k) w = (Inr old, w1)"
    "run_state (g_now E) w1 = (now, w2)" "requester_step S R w1 now w2 old (ris w' k)"
  using assms(1)
proof (cases rule: Reconcile_run)
  case (unread e)
  with get_same assms(2) show thesis by fastforce
next
  case (read i w1 now w2)
  have at: "ris w1 k = Some i" "ris w2 k = Some i" and ch: "ris w' k' \<noteq> ris w1 k'" "ris w' k' \<noteq> ris w2 k'"
    using read(3,5,6) assms(2) by simp_all
  note run = read(7)
  have "k' = k \<and> requester_step S R w1 now w2 i (ris w' k)"
  proof (cases "m_DeletionTimestamp (o_meta i) = None")
    case False
    with run show ?thesis by (intro teardown_step [OF _ at(1) read(4) ch(1)]) simp_all
  next
    case undeleted: True
    show ?thesis
    proof (cases "peeringFinalizer \<in> set (m_Finalizers (o_meta i))")
      case False
      with run undeleted guard_step [OF _ at(1) read(4) ch(1) undeleted False] show ?thesis by auto
    next
      case guarded: True
      show ?thesis
      proof (cases "expired_before (ris_ExpiresAt (o_spec i)) now")
        case True
        with run undeleted guarded expire_step [OF _ at(2) read(4) ch(2) undeleted guarded True] show ?thesis by auto
      next
        case unexpired: False
        have "\<not> rit_Delivered (o_status i)"
          using run undeleted guarded unexpired keepsD [OF req_quiet] ch(2) by (auto split: if_splits)
        then have o: "open_at now i" using undeleted guarded unexpired by (simp add: open_at_def)
        show ?thesis
        proof (cases "ris_PeeringKubeconfig (o_spec i) = []")
          case True
          with run o have "run_state (fetch_credential E R i) w2 = (r, w')" by (simp add: open_at_def)
          from fetch_step [OF this at(2) read(4) ch(2) o True] show ?thesis .
        next
          case False
          with run o have "run_state (peer E S R i) w2 = (r, w')" by (simp add: open_at_def)
          from peer_step [OF this at(2) read(4) ch(2) o False] show ?thesis .
        qed
      qed
    qed
  qed
  with that read(1-3) show thesis by blast
qed

text \<open>What is run on the host.\<close>

lemma teardown_host:
  assumes "run_state (teardown E S R i) w = (r, w')" "ris w k = Some i" "obj_key i = k" "observes_host cmds E R"
    "cmds w' \<noteq> cmds w" "m_DeletionTimestamp (o_meta i) \<noteq> None"
  shows "liqo_run S R cmds w now w2 i r (ris w' k) w'"
proof -
  note cmds = observes_hostD [OF assms(4)]
  note run = assms(1) [unfolded teardown_def, folded unpeer_from_def]
  have fin: "peeringFinalizer \<in> set (m_Finalizers (o_meta i))" using run assms(5) by (auto split: if_splits)
  have del: "rit_Delivered (o_status i)"
  proof (rule ccontr)
    assume "\<not> rit_Delivered (o_status i)"
    with run fin keepsD [OF client_keepsD(4) [OF cmds(1)]] have "cmds w' = cmds w" by (auto split: prod.splits)
    with assms(5) show False ..
  qed
  obtain p w3 where p: "run_state (unpeer_from S R i) w = (p, w3)" by fastforce
  have w3: "ris w3 = ris w" by (rule keepsD [OF keeps_unpeering [OF host_quiet] p [unfolded unpeer_from_def]])
  obtain u w4 where u: "run_state (c_update (g_ri E) (remove_finalizer peeringFinalizer i)) w3 = (u, w4)" by fastforce
  have w': "w' = (case p of Inl _ \<Rightarrow> w3 | Inr _ \<Rightarrow> w4)" "r = (case p of Inl _ \<Rightarrow> Inr (15 * go_second) | Inr _ \<Rightarrow>
      (case u of Inl e \<Rightarrow> Inl (ErrApi e) | Inr _ \<Rightarrow> Inr 0))"
    using run p u fin del by (auto split: sum.splits)
  show ?thesis
  proof (rule liqo_run.unpeers [where cmds = cmds, OF assms(6) fin del p])
    show "cmds w' = cmds w3" using w'(1) keepsD [OF client_keepsD(4) [OF cmds(1)] u] by (cases p) simp_all
    show "peeringFinalizer \<notin> set (m_Finalizers (o_meta y))" if "p = Inr ()" "r = Inr d" "ris w' k = Some y" for d y
    proof -
      from that(1,2) w' obtain z where z: "u = Inr z" "w' = w4" by (cases u) auto
      from update_ok [OF u [unfolded z(1)]] w3 assms(2,3) that(3) z(2) have "y = z" by (auto split: if_splits)
      with update_finalizers [OF u [unfolded z(1)]] show ?thesis by (simp add: remove_finalizer_def)
    qed
  qed
qed

lemma peer_host:
  assumes "run_state (peer E S R i) w = (r, w')" "ris w k = Some i" "obj_key i = k" "observes_host cmds E R"
    "open_at now i" "ris_PeeringKubeconfig (o_spec i) \<noteq> []"
  shows "liqo_run S R cmds w1 now w i r (ris w' k) w'"
proof -
  note cmds = observes_hostD [OF assms(4)]
  show ?thesis
    using assms(1)
  proof (cases rule: peer_run)
    case (failed e)
    show ?thesis by (rule liqo_run.peers [where cmds = cmds, OF assms(5,6) failed(1)]) simp_all
  next
    case (peered w3 t w4 u w5)
    show ?thesis
    proof (rule liqo_run.peers [where cmds = cmds, OF assms(5,6) peered(1)])
      show "cmds w' = cmds w3"
        using peered(4) keepsD [OF cmds(4)] keepsD [OF client_keepsD(5) [OF cmds(1)] peered(3)] keepsD [OF cmds(3) peered(2)]
        by (cases u) auto
      show "\<exists>y. ris w' k = Some y \<and> rit_Delivered (o_status y)" if "Inr () = Inr ()" "r = Inr d" for d
      proof -
        from peered(4) that(2) obtain y where y: "u = Inr y" "ris w' = ris w5"
          using keepsD [OF req_quiet] by (cases u) auto
        from status_ok [OF peered(3) [unfolded y(1)]] assms(3) y(2) show ?thesis by (auto simp: deliver_status_def)
      qed
    qed
  qed
qed

lemma keeps_fetch: "observes_host cmds E R \<Longrightarrow> keeps cmds (fetch_credential E R i)"
  unfolding fetch_credential_def by (auto intro!: keeps_intros dest: observes_hostD)

lemma host_reconciled:
  assumes "run_state (Reconcile E S R k) w = (r, w')" "observes_host cmds E R" "cmds w' \<noteq> cmds w"
  obtains old w1 now w2 where "ris w k = Some old" "run_state (c_get (g_ri E) k) w = (Inr old, w1)"
    "run_state (g_now E) w1 = (now, w2)" "liqo_run S R cmds w1 now w2 old r (ris w' k) w'"
  using assms(1)
proof (cases rule: Reconcile_run)
  case (unread e)
  with keepsD [OF client_keepsD(1) [OF observes_hostD(1) [OF assms(2)]]] assms(3) show thesis by fastforce
next
  case (read i w1 now w2)
  note cmds = observes_hostD [OF assms(2)]
  have w: "cmds w1 = cmds w" "cmds w2 = cmds w"
    using keepsD [OF client_keepsD(1) [OF cmds(1)] read(1)] keepsD [OF cmds(3) read(2)] by simp_all
  have at: "ris w1 k = Some i" "ris w2 k = Some i" and ch: "cmds w' \<noteq> cmds w1" "cmds w' \<noteq> cmds w2"
    using read(3,5,6) assms(3) w by simp_all
  note frames = keepsD [OF client_keepsD(4) [OF cmds(1)]] keepsD [OF cmds(2)] keepsD [OF cmds(4)] keepsD [OF keeps_fetch [OF assms(2)]]
  have "liqo_run S R cmds w1 now w2 i r (ris w' k) w'"
  proof (cases "m_DeletionTimestamp (o_meta i) = None")
    case False
    with read(7) show ?thesis by (intro teardown_host [OF _ at(1) read(4) assms(2) ch(1)]) simp_all
  next
    case True
    with read(7) ch frames have "open_at now i" "ris_PeeringKubeconfig (o_spec i) \<noteq> []" "run_state (peer E S R i) w2 = (r, w')"
      by (auto simp: open_at_def split: if_splits)
    then show ?thesis by (intro peer_host [OF _ at(2) read(4) assms(2)])
  qed
  with that read(1-3) show thesis by blast
qed

end

text \<open>A host that records its commands, and an agent whose broker is silent.\<close>

definition recording_host :: "agent_world Host" where
  "recording_host = sample_host\<lparr>ho_run := (\<lambda>d c args. State (\<lambda>w. (Inr ''ok'', w\<lparr>aw_commands := aw_commands w @ [c # args]\<rparr>)))\<rparr>"

definition sample_requester :: "agent_world ReservationInstructionReconciler" where
  "sample_requester = \<lparr>rc_BrokerCommunicator = Some silent_broker, rc_KubeconfigsDir = ''/k'', rc_ClusterID = ''a''\<rparr>"

interpretation agent_requester: requester_world agent_env "\<lambda>w. store_get (aw_ris w)" recording_host sample_requester
  by (intro requester_world.intro requester_world_axioms.intro)
    (auto simp: aw_ri_delete.deleting_client_axioms silent_quiet keeps_def host_quiet_def recording_host_def sample_host_def
      sample_requester_def)

lemma commands_observe: "observes_host aw_commands agent_env sample_requester"
  unfolding observes_host_def
proof (intro conjI allI impI)
  show "client_keeps aw_commands (g_ri agent_env)"
    using aw_ri.mem_client_keeps [of aw_commands] by simp
  show "keeps aw_commands (g_delete_ri agent_env x)" for x
    by (auto simp: keeps_def agent_env_def mem_delete_def split: option.splits)
  show "keeps aw_commands (g_now agent_env)" by (simp add: keeps_def)
  show "broker_quiet aw_commands B" if "rc_BrokerCommunicator sample_requester = Some B" for B
    using that silent_quiet by (auto simp: sample_requester_def)
qed

section \<open>Properties\<close>

text \<open>
  C13. The life of an instruction on the requester, whatever the API, the broker and the host answer.
  A reconciliation changes at most the instruction it is called for, and only by a step of the
  machine: the finalizer comes first; the credential is what the broker returned for this reservation
  in this run; Delivered is set only after this run has peered the clusters with that credential; an
  instruction that expired is only marked; and a delivered one loses the finalizer, and may go, only
  after this run has taken the peering down. And it runs something on the host only to peer an
  instruction that has a credential and is neither expired nor delivered, or to unpeer a delivered one
  under deletion, one of the two and once in a run. When it answers without an error after a peering
  that succeeded, Delivered is stored; so the clusters are peered again only where that write failed.
\<close>

theorem requester_instruction_steps:
  assumes "requester_world E ris S R" "observes_host cmds E R" "run_state (Reconcile E S R k) w = (r, w')"
  shows "(ris w' k' \<noteq> ris w k' \<longrightarrow> k' = k \<and>
      (\<exists>old w1 now w2. ris w k = Some old \<and> run_state (c_get (g_ri E) k) w = (Inr old, w1) \<and>
         run_state (g_now E) w1 = (now, w2) \<and> requester_step S R w1 now w2 old (ris w' k))) \<and>
    (cmds w' \<noteq> cmds w \<longrightarrow>
      (\<exists>old w1 now w2. ris w k = Some old \<and> run_state (c_get (g_ri E) k) w = (Inr old, w1) \<and>
         run_state (g_now E) w1 = (now, w2) \<and> liqo_run S R cmds w1 now w2 old r (ris w' k) w'))"
proof (intro conjI [OF impI impI])
  assume "ris w' k' \<noteq> ris w k'"
  then show "k' = k \<and> (\<exists>old w1 now w2. ris w k = Some old \<and> run_state (c_get (g_ri E) k) w = (Inr old, w1) \<and>
      run_state (g_now E) w1 = (now, w2) \<and> requester_step S R w1 now w2 old (ris w' k))"
    by (rule requester_world.instruction_reconciled [OF assms(1,3)]) blast
next
  assume "cmds w' \<noteq> cmds w"
  then show "\<exists>old w1 now w2. ris w k = Some old \<and> run_state (c_get (g_ri E) k) w = (Inr old, w1) \<and>
      run_state (g_now E) w1 = (now, w2) \<and> liqo_run S R cmds w1 now w2 old r (ris w' k) w'"
    by (rule requester_world.host_reconciled [OF assms(1,3,2)]) blast
qed

definition sample_peering :: ReservationInstruction where
  "sample_peering =
     \<lparr>o_meta = (new_meta ''rsv-a-1'' ''default'')\<lparr>m_ResourceVersion := 1, m_Finalizers := [peeringFinalizer]\<rparr>,
      o_spec = \<lparr>ris_ReservationName = ''rsv-a-1'', ris_TargetClusterID = ''b'', ris_RequestedCPU = ''2'',
        ris_RequestedMemory = ''8'', ris_RequestedGPU = [], ris_Message = [], ris_ExpiresAt = None,
        ris_PeeringKubeconfig = ''cfg''\<rparr>,
      o_status = zero_ri_status\<rparr>"

lemma requester_instruction_witness:
  "\<exists>r w' y. run_state (Reconcile agent_env recording_host sample_requester (''default'', ''rsv-a-1''))
      (sample_agent_world\<lparr>aw_ris := [sample_peering]\<rparr>) = (r, w') \<and>
    store_get (aw_ris w') (''default'', ''rsv-a-1'') = Some y \<and> rit_Delivered (o_status y) \<and>
    (\<exists>w1 now w2. requester_step recording_host sample_requester w1 now w2 sample_peering (Some y)) \<and>
    (\<exists>w1 now w2. liqo_run recording_host sample_requester aw_commands w1 now w2 sample_peering r (Some y) w')"
proof -
  let ?w = "sample_agent_world\<lparr>aw_ris := [sample_peering]\<rparr>" and ?k = "(''default'', ''rsv-a-1'')"
  obtain r w' where run: "run_state (Reconcile agent_env recording_host sample_requester ?k) ?w = (r, w')"
    by (meson surj_pair)
  have at: "store_get (aw_ris ?w) ?k = Some sample_peering"
    by (simp add: sample_peering_def meta_key_def)
  have "\<exists>y. store_get (aw_ris w') ?k = Some y \<and> rit_Delivered (o_status y) \<and> aw_commands w' \<noteq> aw_commands ?w"
    using run
    by (auto simp: Reconcile_def sample_peering_def zero_ri_status_def new_meta_def expired_before_def peer_def
        executeLiqoPeering_def removing_def recording_host_def sample_host_def requeue_at_expiry_def mem_write_defs Let_def)
  then obtain y where y: "store_get (aw_ris w') ?k = Some y" "rit_Delivered (o_status y)" "aw_commands w' \<noteq> aw_commands ?w"
    by blast
  then have "store_get (aw_ris w') ?k \<noteq> store_get (aw_ris ?w) ?k"
    using at by (auto simp: sample_peering_def zero_ri_status_def)
  with requester_instruction_steps [where ris = "\<lambda>w. store_get (aw_ris w)" and cmds = aw_commands,
      OF agent_requester.requester_world_axioms commands_observe run, of ?k] at y run
  show ?thesis by auto
qed

end
