(* ===== verification/RequestController.thy ===== *)
theory RequestController
  imports Instructions PeerHost
begin

text \<open>
  The controller of resource requests (resource-agent/internal/controller/
  resourcerequest_controller.go): a new or pending request is evaluated by the broker, reserved at
  the best candidate and turned into a \<open>ReservationInstruction\<close>; a reserved one is evaluated again
  now and then, and when another provider is best its instruction is deleted and the request starts
  over.
\<close>

type_synonym result = "go_error + duration"

record 'w ResourceRequestReconciler =
  qc_BrokerCommunicator :: "'w BrokerCommunicator option"
  qc_InstructionNamespace :: string
  qc_MockGeoURL :: string
  qc_ClusterID :: string
  qc_ForcedGeoIP :: string
  qc_ReEvalInterval :: duration

section \<open>The operations\<close>

definition request_namespace :: "'w ResourceRequestReconciler \<Rightarrow> ResourceRequest \<Rightarrow> string" where
  "request_namespace R q = (if qc_InstructionNamespace R = '''' then o_Namespace q else qc_InstructionNamespace R)"

text \<open>\<open>updateStatus\<close> reads the request again before every attempt.\<close>

definition write_request ::
  "('w, 'q) AgentEnv \<Rightarrow> key \<Rightarrow> string \<Rightarrow> string \<Rightarrow> string \<Rightarrow> string \<Rightarrow> ('w, go_error + unit) state" where
  "write_request E k phase targetClusterID reservationName message = do {
     got \<leftarrow> c_get (g_rr E) k;
     case got of
       Inl e \<Rightarrow> ret (Inl (ErrApi e))
     | Inr latest \<Rightarrow> do {
         now \<leftarrow> g_now E;
         u \<leftarrow> c_status_update (g_rr E)
           (latest\<lparr>o_status :=
             \<lparr>rqt_Phase = phase, rqt_TargetClusterID = targetClusterID, rqt_ReservationName = reservationName,
              rqt_Message = message, rqt_LastUpdateTime = now\<rparr>\<rparr>);
         ret (case u of Inl e \<Rightarrow> Inl (ErrApi e) | Inr _ \<Rightarrow> Inr ())
       }
   }"

definition updateStatus ::
  "('w, 'q) AgentEnv \<Rightarrow> ResourceRequest \<Rightarrow> string \<Rightarrow> string \<Rightarrow> string \<Rightarrow> string \<Rightarrow> ('w, result) state" where
  "updateStatus E q phase targetClusterID reservationName message = do {
     r \<leftarrow> g_retry E (write_request E (obj_key q) phase targetClusterID reservationName message);
     ret (case r of Inl e \<Rightarrow> Inl e | Inr _ \<Rightarrow> Inr 0)
   }"

definition use_message :: "ReservationDTO \<Rightarrow> string" where
  "use_message rsv =
     ''Use '' @ xv_TargetClusterID rsv @ '' for '' @ xq_CPU (xv_RequestedResources rsv) @ '' CPU / '' @
     xq_Memory (xv_RequestedResources rsv) @ '' Memory / '' @ xq_GPU (xv_RequestedResources rsv) @ '' GPU''"

definition reservation_instruction :: "string \<Rightarrow> ReservationDTO \<Rightarrow> ReservationInstruction" where
  "reservation_instruction ns rsv =
     \<lparr>o_meta = new_meta (xv_ID rsv) ns,
      o_spec =
        \<lparr>ris_ReservationName = xv_ID rsv, ris_TargetClusterID = xv_TargetClusterID rsv,
         ris_RequestedCPU = xq_CPU (xv_RequestedResources rsv),
         ris_RequestedMemory = xq_Memory (xv_RequestedResources rsv),
         ris_RequestedGPU = xq_GPU (xv_RequestedResources rsv),
         ris_Message = use_message rsv, ris_ExpiresAt = xs_ExpiresAt (xv_Status rsv),
         ris_PeeringKubeconfig = ''''\<rparr>,
      o_status = zero_ri_status\<rparr>"

definition createReservationInstruction ::
  "('w, 'q) AgentEnv \<Rightarrow> 'w ResourceRequestReconciler \<Rightarrow> ResourceRequest \<Rightarrow> ReservationDTO \<Rightarrow> ('w, go_error + unit) state" where
  "createReservationInstruction E R q rsv = do {
     let ns = request_namespace R q;
     existing \<leftarrow> c_get (g_ri E) (ns, xv_ID rsv);
     case existing of
       Inr _ \<Rightarrow> ret (Inr ())
     | Inl e \<Rightarrow>
         if \<not> is_not_found (ErrApi e) then ret (Inl (ErrApi e))
         else do {
           made \<leftarrow> c_create (g_ri E) (reservation_instruction ns rsv);
           ret (case made of Inl e \<Rightarrow> Inl (ErrApi e) | Inr _ \<Rightarrow> Inr ())
         }
   }"

text \<open>The request sent to the broker, with the location if it is known.\<close>

definition broker_request ::
  "'w Services \<Rightarrow> 'w ResourceRequestReconciler \<Rightarrow> ResourceRequest \<Rightarrow> ('w, ReservationRequestDTO) state" where
  "broker_request V R q = do {
     loc \<leftarrow> GetLocation V (qc_MockGeoURL R) (qc_ClusterID R) (qc_ForcedGeoIP R);
     ret
       \<lparr>xb_RequestedResources =
          \<lparr>xq_CPU = rqs_RequestedCPU (o_spec q), xq_Memory = rqs_RequestedMemory (o_spec q),
           xq_GPU = rqs_RequestedGPU (o_spec q), xq_Storage = ''''\<rparr>,
        xb_Priority = rqs_Priority (o_spec q), xb_Duration = rqs_Duration (o_spec q),
        xb_TargetClusterID = '''', xb_Location = (case loc of Inl _ \<Rightarrow> None | Inr l \<Rightarrow> l),
        xb_CurrentProviderID = '''', xb_MeasuredLatencyMs = None\<rparr>
   }"

text \<open>The latency to the current provider, if it can be measured.\<close>

definition with_latency ::
  "('w, 'q) AgentEnv \<Rightarrow> 'w Services \<Rightarrow> ResourceRequest \<Rightarrow> ReservationRequestDTO \<Rightarrow> ('w, ReservationRequestDTO) state" where
  "with_latency E V q d =
     (let target = rqt_TargetClusterID (o_status q)
      in if target = '''' then ret d
         else State_Monad.bind (ScrapeGatewayLatency E V target) (\<lambda>r.
           ret (case r of
               Inl _ \<Rightarrow> d\<lparr>xb_CurrentProviderID := target\<rparr>
             | Inr latencyMs \<Rightarrow> d\<lparr>xb_CurrentProviderID := target, xb_MeasuredLatencyMs := Some latencyMs\<rparr>)))"

definition reeval_interval :: "'w ResourceRequestReconciler \<Rightarrow> duration" where
  "reeval_interval R = (if qc_ReEvalInterval R = 0 then 1 * go_hour else qc_ReEvalInterval R)"

definition zero_ri_spec :: ReservationInstructionSpec where
  "zero_ri_spec =
     \<lparr>ris_ReservationName = [], ris_TargetClusterID = [], ris_RequestedCPU = [], ris_RequestedMemory = [],
      ris_RequestedGPU = [], ris_Message = [], ris_ExpiresAt = None, ris_PeeringKubeconfig = []\<rparr>"

text \<open>A request that is Reserved: evaluated again when the interval has passed.\<close>

definition reevaluate ::
  "('w, 'q) AgentEnv \<Rightarrow> 'w Services \<Rightarrow> 'w ResourceRequestReconciler \<Rightarrow> ResourceRequest \<Rightarrow> ('w, result) state" where
  "reevaluate E V R q =
     (case qc_BrokerCommunicator R of
        None \<Rightarrow> ret (Inr (reeval_interval R))
      | Some B \<Rightarrow> do {
          d \<leftarrow> broker_request V R q;
          evalReq \<leftarrow> with_latency E V q d;
          evaluated \<leftarrow> bc_EvaluateProviders B evalReq;
          case evaluated of
            Inl _ \<Rightarrow> ret (Inr (reeval_interval R))
          | Inr evaluation \<Rightarrow>
              (case xe_CandidateClusters evaluation of
                 [] \<Rightarrow> ret (Inr (reeval_interval R))
               | best # _ \<Rightarrow>
                   if xk_ClusterID best = rqt_TargetClusterID (o_status q) then ret (Inr (reeval_interval R))
                   else do {
                     let oldInstruction = \<lparr>o_meta = new_meta (rqt_ReservationName (o_status q)) (request_namespace R q),
                       o_spec = zero_ri_spec, o_status = zero_ri_status\<rparr>;
                     _ \<leftarrow> g_delete_ri E oldInstruction;
                     updateStatus E q ''Pending'' '''' '''' (''Switching to a better provider: '' @ xk_ClusterID best)
                   })
        })"

text \<open>Evaluation, reservation at the best candidate, and the local instruction.\<close>

definition reserve_best ::
  "('w, 'q) AgentEnv \<Rightarrow> 'w Services \<Rightarrow> 'w ResourceRequestReconciler \<Rightarrow> 'w BrokerCommunicator \<Rightarrow> ResourceRequest \<Rightarrow>
   ('w, result) state" where
  "reserve_best E V R B q = do {
     evalReq \<leftarrow> broker_request V R q;
     evaluated \<leftarrow> bc_EvaluateProviders B evalReq;
     case evaluated of
       Inl e \<Rightarrow> updateStatus E q ''Failed'' [] [] (''Provider evaluation failed: '' @ err_text e)
     | Inr evaluation \<Rightarrow>
         (case xe_CandidateClusters evaluation of
            [] \<Rightarrow> updateStatus E q ''Failed'' [] [] ''No suitable provider found''
          | best # _ \<Rightarrow> do {
              reserved \<leftarrow> bc_RequestReservation B (evalReq\<lparr>xb_TargetClusterID := xk_ClusterID best\<rparr>);
              case reserved of
                Inl e \<Rightarrow> updateStatus E q ''Failed'' (xk_ClusterID best) []
                  (''Reservation request to '' @ xk_ClusterID best @ '' failed: '' @ err_text e)
              | Inr rsv \<Rightarrow> do {
                  made \<leftarrow> createReservationInstruction E R q rsv;
                  case made of
                    Inl e \<Rightarrow> updateStatus E q ''Failed'' (xv_TargetClusterID rsv) (xv_ID rsv)
                      (''Reservation succeeded but failed to create local instruction: '' @ err_text e)
                  | Inr _ \<Rightarrow> updateStatus E q ''Reserved'' (xv_TargetClusterID rsv) (xv_ID rsv)
                      (''Resources reserved in cluster '' @ xv_TargetClusterID rsv)
                }
            })
   }"

definition process_request ::
  "('w, 'q) AgentEnv \<Rightarrow> 'w Services \<Rightarrow> 'w ResourceRequestReconciler \<Rightarrow> ResourceRequest \<Rightarrow> ('w, result) state" where
  "process_request E V R q =
     (case qc_BrokerCommunicator R of
        None \<Rightarrow> updateStatus E q ''Failed'' [] [] ''No broker communicator configured''
      | Some B \<Rightarrow>
          if rqt_Phase (o_status q) = [] then do {
            marked \<leftarrow> updateStatus E q ''Pending'' [] [] ''Sending reservation request to broker'';
            case marked of
              Inl e \<Rightarrow> ret (Inl e)
            | Inr _ \<Rightarrow> reserve_best E V R B q
          }
          else reserve_best E V R B q)"

section \<open>Reconcile\<close>

definition Reconcile ::
  "('w, 'q) AgentEnv \<Rightarrow> 'w Services \<Rightarrow> 'w ResourceRequestReconciler \<Rightarrow> key \<Rightarrow> ('w, result) state" where
  "Reconcile E V R k = do {
     got \<leftarrow> c_get (g_rr E) k;
     case got of
       Inl e \<Rightarrow> ret (if is_not_found (ErrApi e) then Inr 0 else Inl (ErrApi e))
     | Inr q \<Rightarrow>
         if rqt_Phase (o_status q) = ''Reserved'' then
           (if time_is_zero (rqt_LastUpdateTime (o_status q)) then reevaluate E V R q
            else do {
              age \<leftarrow> g_since E (rqt_LastUpdateTime (o_status q));
              if age < reeval_interval R then do {
                age2 \<leftarrow> g_since E (rqt_LastUpdateTime (o_status q));
                ret (Inr (reeval_interval R - age2))
              }
              else reevaluate E V R q
            })
         else if rqt_Phase (o_status q) = ''Failed'' then ret (Inr 0)
         else process_request E V R q
   }"

section \<open>What a reconciliation does\<close>

text \<open>The environment: the two stores have lawful clients, and the rest touches neither.\<close>

locale request_world =
  rr: kube_client "g_rr E" rrs + ri: deleting_client "g_ri E" ris "g_delete_ri E" + retry_on_conflict "g_retry E"
  for E :: "('w, 'q) AgentEnv" and rrs :: "'w \<Rightarrow> (ResourceRequestSpec, ResourceRequestStatus) store"
    and ris :: "'w \<Rightarrow> (ReservationInstructionSpec, ReservationInstructionStatus) store" +
  fixes V :: "'w Services" and R :: "'w ResourceRequestReconciler"
  assumes now_quiet: "keeps rrs (g_now E)" "keeps ris (g_now E)"
    and pods_quiet: "keeps rrs (g_pods E ns)" "keeps ris (g_pods E ns)"
    and services: "services_quiet rrs V" "services_quiet ris V"
    and rr_keeps_ris: "client_keeps ris (g_rr E)" and ri_keeps_rrs: "client_keeps rrs (g_ri E)"
    and delete_keeps_rrs: "keeps rrs (g_delete_ri E x)"
    and comm_quiet: "qc_BrokerCommunicator R = Some B \<Longrightarrow> broker_quiet rrs B"
      "qc_BrokerCommunicator R = Some B \<Longrightarrow> broker_quiet ris B"
begin

lemma write_request_effect:
  assumes "run_state (write_request E k ph t n m) w = (r, w')"
  shows "ris w' = ris w" "r = Inl e \<Longrightarrow> rrs w' = rrs w"
    "r = Inr u \<Longrightarrow> \<exists>old y. rrs w k = Some old \<and> rrs w' = (rrs w)(k \<mapsto> y) \<and> o_spec y = o_spec old \<and>
       rqt_Phase (o_status y) = ph \<and> rqt_TargetClusterID (o_status y) = t \<and> rqt_ReservationName (o_status y) = n"
proof -
  have "keeps ris (write_request E k ph t n m)"
    unfolding write_request_def by (intro keeps_intros rr_keeps_ris now_quiet)
  then show "ris w' = ris w" by (rule keepsD [OF _ assms])
  obtain got w1 where got: "run_state (c_get (g_rr E) k) w = (got, w1)" by fastforce
  have w1: "rrs w1 = rrs w" by (rule rr.get_same [OF got])
  have "(\<forall>e. r = Inl e \<longrightarrow> rrs w' = rrs w) \<and> (\<forall>u. r = Inr u \<longrightarrow>
      (\<exists>old y. rrs w k = Some old \<and> rrs w' = (rrs w)(k \<mapsto> y) \<and> o_spec y = o_spec old \<and>
       rqt_Phase (o_status y) = ph \<and> rqt_TargetClusterID (o_status y) = t \<and> rqt_ReservationName (o_status y) = n))"
  proof (cases got)
    case (Inl e)
    with assms got w1 show ?thesis by (auto simp: write_request_def)
  next
    case (Inr q)
    from rr.get_found [OF got [unfolded Inr]] have q: "rrs w k = Some q" "obj_key q = k" by auto
    obtain now w2 where now: "run_state (g_now E) w1 = (now, w2)" by fastforce
    have w2: "rrs w2 = rrs w" using keepsD [OF now_quiet(1) now] w1 by simp
    let ?x = "q\<lparr>o_status := \<lparr>rqt_Phase = ph, rqt_TargetClusterID = t, rqt_ReservationName = n,
      rqt_Message = m, rqt_LastUpdateTime = now\<rparr>\<rparr>"
    obtain u w3 where u: "run_state (c_status_update (g_rr E) ?x) w2 = (u, w3)" by fastforce
    show ?thesis
    proof (cases u)
      case (Inl e)
      with assms got Inr now u rr.write_fail(3) [OF u [unfolded Inl]] w2 show ?thesis
        by (auto simp: write_request_def)
    next
      case Inr_u: (Inr y)
      from rr.status_ok [OF u [unfolded Inr_u]] q w2 have "rrs w3 = (rrs w)(k \<mapsto> y)" "o_spec y = o_spec q"
        "o_status y = o_status ?x" by auto
      with assms got Inr now u Inr_u q show ?thesis by (auto simp: write_request_def)
    qed
  qed
  then show "r = Inl e \<Longrightarrow> rrs w' = rrs w"
    "r = Inr u \<Longrightarrow> \<exists>old y. rrs w k = Some old \<and> rrs w' = (rrs w)(k \<mapsto> y) \<and> o_spec y = o_spec old \<and>
       rqt_Phase (o_status y) = ph \<and> rqt_TargetClusterID (o_status y) = t \<and> rqt_ReservationName (o_status y) = n"
    by blast+
qed

lemma updateStatus_effect:
  assumes "run_state (updateStatus E q ph t n m) w = (r, w')"
  shows "ris w' = ris w"
    and "rrs w' = rrs w \<or> (\<exists>old y. rrs w (obj_key q) = Some old \<and> rrs w' = (rrs w)(obj_key q \<mapsto> y) \<and> o_spec y = o_spec old \<and>
       rqt_Phase (o_status y) = ph \<and> rqt_TargetClusterID (o_status y) = t \<and> rqt_ReservationName (o_status y) = n)"
proof -
  let ?fn = "write_request E (obj_key q) ph t n m"
  obtain r1 w1 where run: "run_state (g_retry E ?fn) w = (r1, w1)" by fastforce
  have w': "w' = w1" using assms run by (simp add: updateStatus_def)
  have "keeps ris ?fn" unfolding keeps_def by (metis prod.collapse write_request_effect(1))
  then show "ris w' = ris w" using keepsD [OF retry_keeps run] w' by simp
  obtain w0 where w0: "rrs w0 = rrs w" "run_state ?fn w0 = (r1, w1)"
    by (rule retry_last_run [where f = rrs, OF _ run]) (use write_request_effect(2) in blast)+
  show "rrs w' = rrs w \<or> (\<exists>old y. rrs w (obj_key q) = Some old \<and> rrs w' = (rrs w)(obj_key q \<mapsto> y) \<and> o_spec y = o_spec old \<and>
       rqt_Phase (o_status y) = ph \<and> rqt_TargetClusterID (o_status y) = t \<and> rqt_ReservationName (o_status y) = n)"
    using write_request_effect(2,3) [OF w0(2)] w0(1) w' by (cases r1) auto
qed

lemma create_effect:
  assumes "run_state (createReservationInstruction E R q rsv) w = (r, w')"
  shows "rrs w' = rrs w" "r = Inr u \<Longrightarrow> ris w' (request_namespace R q, xv_ID rsv) \<noteq> None"
proof -
  have "keeps rrs (createReservationInstruction E R q rsv)"
    unfolding createReservationInstruction_def Let_def by (intro keeps_intros ri_keeps_rrs)
  then show "rrs w' = rrs w" by (rule keepsD [OF _ assms])
  let ?k = "(request_namespace R q, xv_ID rsv)"
  obtain got w1 where got: "run_state (c_get (g_ri E) ?k) w = (got, w1)" by fastforce
  obtain made w2 where made: "run_state (c_create (g_ri E) (reservation_instruction (request_namespace R q) rsv)) w1 = (made, w2)"
    by fastforce
  show "ris w' ?k \<noteq> None" if "r = Inr u"
  proof (cases got)
    case (Inl e)
    with assms got made that obtain y where y: "made = Inr y" "w' = w2"
      by (auto simp: createReservationInstruction_def Let_def split: if_splits sum.splits)
    with ri.create_ok [OF made [unfolded y(1)]] show ?thesis by (simp add: reservation_instruction_def)
  next
    case (Inr x)
    with assms got ri.get_same [OF got] ri.get_found [OF got [unfolded Inr]] show ?thesis
      by (auto simp: createReservationInstruction_def Let_def)
  qed
qed

text \<open>What one run of the controller can do to the status of the request it was called for.\<close>

definition granted :: "ResourceRequest \<Rightarrow> ResourceRequestStatus \<Rightarrow> 'w \<Rightarrow> bool" where
  "granted old st w \<longleftrightarrow>
     (\<exists>B d rsv wa wb. qc_BrokerCommunicator R = Some B \<and> run_state (bc_RequestReservation B d) wa = (Inr rsv, wb) \<and>
        rqt_TargetClusterID st = xv_TargetClusterID rsv \<and> rqt_ReservationName st = xv_ID rsv) \<and>
     ris w (request_namespace R old, rqt_ReservationName st) \<noteq> None"

definition outcome :: "ResourceRequest \<Rightarrow> ResourceRequest \<Rightarrow> 'w \<Rightarrow> bool" where
  "outcome old y w \<longleftrightarrow> o_spec y = o_spec old \<and> rqt_Phase (o_status old) \<noteq> ''Failed'' \<and>
     (rqt_Phase (o_status y) = ''Pending'' \<and> rqt_TargetClusterID (o_status y) = [] \<or>
      rqt_Phase (o_status old) \<noteq> ''Reserved'' \<and> rqt_Phase (o_status y) = ''Failed'' \<or>
      rqt_Phase (o_status old) \<noteq> ''Reserved'' \<and> rqt_Phase (o_status y) = ''Reserved'' \<and> granted old (o_status y) w)"

definition moves :: "key \<Rightarrow> ResourceRequest \<Rightarrow> 'w \<Rightarrow> 'w \<Rightarrow> bool" where
  "moves k old w w' \<longleftrightarrow> rrs w' = rrs w \<or> (\<exists>y. rrs w' = (rrs w)(k \<mapsto> y) \<and> outcome old y w')"

lemma moves_status:
  assumes "run_state (updateStatus E q ph t n m) w = (r, w')" "rrs w (obj_key q) = Some old"
    "\<And>y. o_spec y = o_spec old \<Longrightarrow> rqt_Phase (o_status y) = ph \<Longrightarrow> rqt_TargetClusterID (o_status y) = t \<Longrightarrow>
       rqt_ReservationName (o_status y) = n \<Longrightarrow> ris w' = ris w \<Longrightarrow> outcome old' y w'"
  shows "moves (obj_key q) old' w w'"
  using updateStatus_effect [OF assms(1)] assms(2,3) unfolding moves_def by fastforce

lemma broker_request_quiet: "keeps rrs (broker_request V R q)" "keeps ris (broker_request V R q)"
  unfolding broker_request_def by (intro keeps_intros services)+

lemma with_latency_quiet: "keeps rrs (with_latency E V q d)" "keeps ris (with_latency E V q d)"
  unfolding with_latency_def Let_def by (intro keeps_intros services pods_quiet)+

lemma reevaluate_moves:
  assumes "run_state (reevaluate E V R q) w = (r, w')" "rrs w (obj_key q) = Some q" "rqt_Phase (o_status q) = ''Reserved''"
  shows "moves (obj_key q) q w w'"
proof (cases "qc_BrokerCommunicator R")
  case None
  with assms(1) show ?thesis by (simp add: reevaluate_def moves_def)
next
  case (Some B)
  obtain d w1 where d: "run_state (broker_request V R q) w = (d, w1)" by fastforce
  obtain d2 w2 where d2: "run_state (with_latency E V q d) w1 = (d2, w2)" by fastforce
  obtain ev w3 where ev: "run_state (bc_EvaluateProviders B d2) w2 = (ev, w3)" by fastforce
  have w3: "rrs w3 = rrs w"
    using keepsD [OF broker_request_quiet(1) d] keepsD [OF with_latency_quiet(1) d2]
      keepsD [OF broker_quietD(3) [OF comm_quiet(1) [OF Some]] ev] by simp
  show ?thesis
  proof (cases "\<exists>e best bs. ev = Inr e \<and> xe_CandidateClusters e = best # bs \<and> xk_ClusterID best \<noteq> rqt_TargetClusterID (o_status q)")
    case False
    then have "w' = w3" using assms(1) Some d d2 ev
      by (auto simp: reevaluate_def split: sum.splits list.splits if_splits)
    with w3 show ?thesis by (simp add: moves_def)
  next
    case True
    then obtain e best bs where e: "ev = Inr e" "xe_CandidateClusters e = best # bs"
      "xk_ClusterID best \<noteq> rqt_TargetClusterID (o_status q)" by blast
    let ?old = "\<lparr>o_meta = new_meta (rqt_ReservationName (o_status q)) (request_namespace R q),
      o_spec = zero_ri_spec, o_status = zero_ri_status\<rparr>"
    obtain x w4 where x: "run_state (g_delete_ri E ?old) w3 = (x, w4)" by fastforce
    have w4: "rrs w4 = rrs w" using keepsD [OF delete_keeps_rrs x] w3 by simp
    have up: "run_state (updateStatus E q ''Pending'' [] [] (''Switching to a better provider: '' @ xk_ClusterID best)) w4 = (r, w')"
      using assms(1) Some d d2 ev e x by (simp add: reevaluate_def Let_def)
    have "moves (obj_key q) q w4 w'"
      by (rule moves_status [OF up, of q]) (use assms(2,3) w4 in \<open>simp_all add: outcome_def\<close>)
    with w4 show ?thesis by (simp add: moves_def)
  qed
qed

lemma granted_moves:
  assumes "qc_BrokerCommunicator R = Some B" "rrs w (obj_key q) = Some cur" "o_spec cur = o_spec q"
    "rqt_Phase (o_status q) \<noteq> ''Reserved''" "rqt_Phase (o_status q) \<noteq> ''Failed''"
    "run_state (bc_RequestReservation B d) w2 = (Inr rsv, w3)" "rrs w3 = rrs w"
    "run_state (createReservationInstruction E R q rsv) w3 = (Inr x, w4)"
    "run_state (updateStatus E q ''Reserved'' (xv_TargetClusterID rsv) (xv_ID rsv) m) w4 = (r, w')"
  shows "moves (obj_key q) q w w'"
proof -
  have w4: "rrs w4 = rrs w" using create_effect(1) [OF assms(8)] assms(7) by simp
  have there: "ris w4 (request_namespace R q, xv_ID rsv) \<noteq> None"
    by (rule create_effect(2) [OF assms(8) refl])
  have "moves (obj_key q) q w4 w'"
  proof (rule moves_status [OF assms(9), of cur])
    fix y :: ResourceRequest
    assume y: "o_spec y = o_spec cur" "rqt_Phase (o_status y) = ''Reserved''"
      "rqt_TargetClusterID (o_status y) = xv_TargetClusterID rsv" "rqt_ReservationName (o_status y) = xv_ID rsv"
      "ris w' = ris w4"
    have "granted q (o_status y) w'"
      unfolding granted_def using assms(1,6) y there by auto
    with y assms(3-5) show "outcome q y w'" by (simp add: outcome_def)
  qed (use assms(2) w4 in simp)
  with w4 show ?thesis by (simp add: moves_def)
qed

lemma reserve_best_moves:
  assumes "run_state (reserve_best E V R B q) w = (r, w')" "qc_BrokerCommunicator R = Some B"
    "rrs w (obj_key q) = Some cur" "o_spec cur = o_spec q"
    "rqt_Phase (o_status q) \<noteq> ''Reserved''" "rqt_Phase (o_status q) \<noteq> ''Failed''"
  shows "moves (obj_key q) q w w'"
proof -
  have fail: "moves (obj_key q) q w w'"
    if "run_state (updateStatus E q ''Failed'' t n m) w0 = (r, w')" "rrs w0 = rrs w" for t n m w0
    using moves_status [OF that(1), of cur q] that(2) assms(3-6) by (auto simp: outcome_def moves_def)
  obtain d w1 where d: "run_state (broker_request V R q) w = (d, w1)" by fastforce
  obtain ev w2 where ev: "run_state (bc_EvaluateProviders B d) w1 = (ev, w2)" by fastforce
  have w2: "rrs w2 = rrs w"
    using keepsD [OF broker_request_quiet(1) d] keepsD [OF broker_quietD(3) [OF comm_quiet(1) [OF assms(2)]] ev] by simp
  show ?thesis
  proof (cases "\<exists>e best bs. ev = Inr e \<and> xe_CandidateClusters e = best # bs")
    case False
    then have "\<exists>m. run_state (updateStatus E q ''Failed'' [] [] m) w2 = (r, w')"
      using assms(1) d ev by (auto simp: reserve_best_def split: sum.splits list.splits)
    with fail w2 show ?thesis by blast
  next
    case True
    then obtain e best bs where e: "ev = Inr e" "xe_CandidateClusters e = best # bs" by blast
    let ?d = "d\<lparr>xb_TargetClusterID := xk_ClusterID best\<rparr>"
    obtain rs w3 where rs: "run_state (bc_RequestReservation B ?d) w2 = (rs, w3)" by fastforce
    have w3: "rrs w3 = rrs w"
      using keepsD [OF broker_quietD(2) [OF comm_quiet(1) [OF assms(2)]] rs] w2 by simp
    show ?thesis
    proof (cases rs)
      case (Inl x)
      then have "\<exists>m. run_state (updateStatus E q ''Failed'' (xk_ClusterID best) [] m) w3 = (r, w')"
        using assms(1) d ev e rs by (auto simp: reserve_best_def)
      with fail w3 show ?thesis by blast
    next
      case (Inr rsv)
      obtain mk w4 where mk: "run_state (createReservationInstruction E R q rsv) w3 = (mk, w4)" by fastforce
      with assms(1) d ev e rs Inr have "\<exists>m. run_state (updateStatus E q (case mk of Inl _ \<Rightarrow> ''Failed'' | Inr _ \<Rightarrow> ''Reserved'')
          (xv_TargetClusterID rsv) (xv_ID rsv) m) w4 = (r, w')"
        by (cases mk) (auto simp: reserve_best_def)
      with fail create_effect(1) [OF mk] w3 granted_moves [OF assms(2-6) rs [unfolded Inr] w3] mk show ?thesis
        by (cases mk) auto
    qed
  qed
qed

lemma moves_pending:
  assumes "rrs w1 = rrs w \<or> (\<exists>y. rrs w1 = (rrs w)(obj_key q \<mapsto> y) \<and> o_spec y = o_spec q \<and>
      rqt_Phase (o_status y) = ''Pending'' \<and> rqt_TargetClusterID (o_status y) = [])"
    "rqt_Phase (o_status q) \<noteq> ''Failed''" "rrs w' = rrs w1 \<or> moves (obj_key q) q w1 w'"
  shows "moves (obj_key q) q w w'"
proof -
  have pending: "moves (obj_key q) q w w0" if "rrs w0 = rrs w1" for w0
    using assms(1,2) that by (auto simp: moves_def outcome_def)
  show ?thesis
  proof (cases "rrs w' = rrs w1")
    case False
    with assms(3) obtain y where y: "rrs w' = (rrs w1)(obj_key q \<mapsto> y)" "outcome q y w'" unfolding moves_def by blast
    from assms(1) have "rrs w' = (rrs w)(obj_key q \<mapsto> y)" using y(1) by auto
    with y(2) show ?thesis unfolding moves_def by blast
  qed (rule pending)
qed

lemma process_request_moves:
  assumes "run_state (process_request E V R q) w = (r, w')" "rrs w (obj_key q) = Some q"
    "rqt_Phase (o_status q) \<noteq> ''Reserved''" "rqt_Phase (o_status q) \<noteq> ''Failed''"
  shows "moves (obj_key q) q w w'"
proof (cases "qc_BrokerCommunicator R")
  case None
  then have "\<exists>m. run_state (updateStatus E q ''Failed'' [] [] m) w = (r, w')"
    using assms(1) by (auto simp: process_request_def)
  then show ?thesis
    using moves_status [of q "''Failed''" "[]" "[]" _ w r w' q q] assms(2-4) by (auto simp: outcome_def)
next
  case (Some B)
  show ?thesis
  proof (cases "rqt_Phase (o_status q) = []")
    case False
    with assms(1) Some have "run_state (reserve_best E V R B q) w = (r, w')" by (simp add: process_request_def)
    from reserve_best_moves [OF this Some assms(2) refl assms(3,4)] show ?thesis .
  next
    case True
    obtain p w1 where p: "run_state (updateStatus E q ''Pending'' [] [] ''Sending reservation request to broker'') w = (p, w1)"
      by fastforce
    have m1: "rrs w1 = rrs w \<or> (\<exists>y. rrs w1 = (rrs w)(obj_key q \<mapsto> y) \<and> o_spec y = o_spec q \<and>
        rqt_Phase (o_status y) = ''Pending'' \<and> rqt_TargetClusterID (o_status y) = [])"
      using updateStatus_effect(2) [OF p] assms(2) by auto
    then obtain cur where cur: "rrs w1 (obj_key q) = Some cur" "o_spec cur = o_spec q"
      using assms(2) by auto
    have "rrs w' = rrs w1 \<or> moves (obj_key q) q w1 w'"
      using assms(1) Some True p reserve_best_moves [OF _ Some cur assms(3,4)]
      by (cases p) (auto simp: process_request_def)
    from moves_pending [OF m1 assms(4) this] show ?thesis .
  qed
qed

lemma Reconcile_moves:
  assumes "run_state (Reconcile E V R k) w = (r, w')" "rrs w' k' \<noteq> rrs w k'"
  obtains old y where "k' = k" "rrs w k = Some old" "rrs w' k = Some y" "outcome old y w'"
proof -
  obtain got w1 where got: "run_state (c_get (g_rr E) k) w = (got, w1)" by fastforce
  have w1: "rrs w1 = rrs w" by (rule rr.get_same [OF got])
  obtain q where q: "got = Inr q" using assms got w1 by (cases got) (auto simp: Reconcile_def)
  from rr.get_found [OF got [unfolded q]] have at: "rrs w k = Some q" "obj_key q = k" by auto
  have since: "rrs w0 = rrs w" if "run_state (g_since E t) wx = (a, w0)" "rrs wx = rrs w" for t wx a w0
    using keepsD [OF keeps_g_since [OF now_quiet(1)] that(1)] that(2) by simp
  have "moves k q w w'"
  proof (cases "rqt_Phase (o_status q) = ''Reserved''")
    case True
    obtain age w2 where age: "run_state (g_since E (rqt_LastUpdateTime (o_status q))) w1 = (age, w2)" by fastforce
    obtain age2 w3 where age2: "run_state (g_since E (rqt_LastUpdateTime (o_status q))) w2 = (age2, w3)" by fastforce
    have w23: "rrs w2 = rrs w" "rrs w3 = rrs w"
      using since [OF age w1] since [OF age2] by simp_all
    have "w' = w3 \<or> (\<exists>w0. rrs w0 = rrs w \<and> run_state (reevaluate E V R q) w0 = (r, w'))"
      using assms(1) got q True age age2 w1 w23 by (auto simp: Reconcile_def split: if_splits)
    then show ?thesis
    proof (elim disjE exE conjE)
      fix w0
      assume w0: "rrs w0 = rrs w" "run_state (reevaluate E V R q) w0 = (r, w')"
      from reevaluate_moves [OF w0(2)] at w0(1) True show ?thesis by (simp add: moves_def)
    qed (use w23 in \<open>simp add: moves_def\<close>)
  next
    case False
    show ?thesis
    proof (cases "rqt_Phase (o_status q) = ''Failed''")
      case True
      with assms(1) got q False w1 show ?thesis by (simp add: Reconcile_def moves_def)
    next
      case not_failed: False
      with assms(1) got q False have "run_state (process_request E V R q) w1 = (r, w')" by (simp add: Reconcile_def)
      from process_request_moves [OF this] at w1 False not_failed show ?thesis by (simp add: moves_def)
    qed
  qed
  then show ?thesis using assms(2) at that unfolding moves_def by (auto split: if_splits)
qed

end

text \<open>A broker that grants every request.\<close>

definition granting_broker :: "'w BrokerCommunicator" where
  "granting_broker = silent_broker\<lparr>
     bc_EvaluateProviders := (\<lambda>d. ret (Inr \<lparr>xe_CandidateClusters = [\<lparr>xk_ClusterID = ''b'', xk_Information = []\<rparr>]\<rparr>)),
     bc_RequestReservation := (\<lambda>d. ret (Inr sample_reserved))\<rparr>"

lemma granting_quiet: "broker_quiet f granting_broker"
  by (simp add: broker_quiet_def granting_broker_def silent_broker_def keeps_return)

definition sample_reconciler :: "agent_world ResourceRequestReconciler" where
  "sample_reconciler =
     \<lparr>qc_BrokerCommunicator = Some granting_broker, qc_InstructionNamespace = ''default'', qc_MockGeoURL = [],
      qc_ClusterID = ''c'', qc_ForcedGeoIP = [], qc_ReEvalInterval = 0\<rparr>"

interpretation agent_request: request_world agent_env "\<lambda>w. store_get (aw_rrs w)" "\<lambda>w. store_get (aw_ris w)" no_services
  sample_reconciler
proof (intro request_world.intro request_world_axioms.intro)
  show "kube_client (g_rr agent_env) (\<lambda>w. store_get (aw_rrs w))" by (simp add: aw_rr.kube_client_axioms)
  show "deleting_client (g_ri agent_env) (\<lambda>w. store_get (aw_ris w)) (g_delete_ri agent_env)"
    by (simp add: aw_ri_delete.deleting_client_axioms)
  show "retry_on_conflict (g_retry agent_env)" by (simp add: attempts.retry_on_conflict_axioms)
  show "client_keeps (\<lambda>w. store_get (aw_ris w)) (g_rr agent_env)"
    "client_keeps (\<lambda>w. store_get (aw_rrs w)) (g_ri agent_env)"
    using aw_rr.mem_client_keeps [of "\<lambda>w. store_get (aw_ris w)"] aw_ri.mem_client_keeps [of "\<lambda>w. store_get (aw_rrs w)"]
    by simp_all
  show "keeps (\<lambda>w. store_get (aw_rrs w)) (g_delete_ri agent_env x)" for x
    by (simp add: keeps_def mem_delete_def split: option.split)
qed (auto simp: keeps_def no_services_quiet granting_quiet sample_reconciler_def)

section \<open>Properties\<close>

text \<open>
  C12. The life of a resource request: whatever the API, the broker and the services answer, a
  reconciliation changes at most the status of the request it is called for; a failed request stays
  as it is, a reserved one can only become Pending (to switch providers), and a request is Reserved
  only with the identifier and the target of a reservation the broker granted, and with the local
  instruction for it in place.
\<close>

theorem request_steps:
  assumes "request_world E rrs ris V R" "run_state (Reconcile E V R k) w = (r, w')" "rrs w' k' \<noteq> rrs w k'"
  shows "k' = k \<and> (\<exists>old y. rrs w k = Some old \<and> rrs w' k = Some y \<and> o_spec y = o_spec old \<and>
    rqt_Phase (o_status old) \<noteq> ''Failed'' \<and>
    (rqt_Phase (o_status y) = ''Pending'' \<and> rqt_TargetClusterID (o_status y) = [] \<or>
     rqt_Phase (o_status old) \<noteq> ''Reserved'' \<and> rqt_Phase (o_status y) = ''Failed'' \<or>
     rqt_Phase (o_status old) \<noteq> ''Reserved'' \<and> rqt_Phase (o_status y) = ''Reserved'' \<and>
       (\<exists>B d rsv wa wb. qc_BrokerCommunicator R = Some B \<and> run_state (bc_RequestReservation B d) wa = (Inr rsv, wb) \<and>
          rqt_TargetClusterID (o_status y) = xv_TargetClusterID rsv \<and> rqt_ReservationName (o_status y) = xv_ID rsv) \<and>
       ris w' (request_namespace R old, rqt_ReservationName (o_status y)) \<noteq> None))"
  by (rule request_world.Reconcile_moves [OF assms])
    (unfold request_world.outcome_def [OF assms(1)] request_world.granted_def [OF assms(1)], blast)

definition sample_request :: ResourceRequest where
  "sample_request =
     \<lparr>o_meta = (new_meta ''r'' ''default'')\<lparr>m_ResourceVersion := 1\<rparr>,
      o_spec = \<lparr>rqs_RequestedCPU = ''2'', rqs_RequestedMemory = ''8'', rqs_RequestedGPU = [], rqs_Priority = 0,
        rqs_Duration = ''1h''\<rparr>,
      o_status = \<lparr>rqt_Phase = [], rqt_TargetClusterID = [], rqt_ReservationName = [], rqt_Message = [],
        rqt_LastUpdateTime = 0\<rparr>\<rparr>"

lemma request_steps_witness:
  "\<exists>r w' y. run_state (Reconcile agent_env no_services sample_reconciler (''default'', ''r''))
      (sample_agent_world\<lparr>aw_rrs := [sample_request]\<rparr>) = (r, w') \<and>
    store_get (aw_rrs w') (''default'', ''r'') = Some y \<and> rqt_Phase (o_status y) = ''Reserved'' \<and>
    store_get (aw_ris w') (''default'', rqt_ReservationName (o_status y)) \<noteq> None"
proof -
  let ?w = "sample_agent_world\<lparr>aw_rrs := [sample_request]\<rparr>" and ?k = "(''default'', ''r'')"
  obtain r w' where run: "run_state (Reconcile agent_env no_services sample_reconciler ?k) ?w = (r, w')"
    by (meson surj_pair)
  have at: "store_get (aw_rrs ?w) ?k = Some sample_request"
    by (simp add: sample_request_def meta_key_def)
  have "\<exists>y. store_get (aw_rrs w') ?k = Some y \<and> rqt_Phase (o_status y) = ''Reserved''"
    using run
    by (auto simp: Reconcile_def process_request_def reserve_best_def updateStatus_def write_request_def
        broker_request_def GetLocation_def createReservationInstruction_def sample_reconciler_def granting_broker_def
        sample_request_def sample_agent_world_def sample_reserved_def new_meta_def mem_write_defs Let_def
        numeral_eq_Suc)
  then obtain y where y: "store_get (aw_rrs w') ?k = Some y" "rqt_Phase (o_status y) = ''Reserved''" by blast
  then have "store_get (aw_rrs w') ?k \<noteq> store_get (aw_rrs ?w) ?k"
    using at by (auto simp: sample_request_def)
  with request_steps [where rrs = "\<lambda>w. store_get (aw_rrs w)" and ris = "\<lambda>w. store_get (aw_ris w)",
      OF agent_request.request_world_axioms run, of ?k] at y run
  show ?thesis by (auto simp: request_namespace_def sample_reconciler_def)
qed

end
