(* ===== verification/LegacyWatcher.thy ===== *)
theory LegacyWatcher
  imports LegacyTransport
begin

text \<open>
  The older way for the agent to learn of its reservations (resource-agent/internal/publisher/
  reservation_watcher.go): it watches the reservations of the broker and keeps the instructions of
  its own cluster in step, as a requester and as a provider. Unlike the delivery over HTTP, it
  overwrites an instruction that exists and resets its status.
\<close>

record 'w ReservationWatcher =
  rw_Client :: "'w DynamicClient"
  rw_HasLocalClient :: bool
  rw_ClusterID :: string
  rw_Enabled :: bool
  rw_InstructionNamespace :: string
  rw_BrokerNamespace :: string
  rw_RequesterNamespace :: string

text \<open>A field that Go leaves at its zero value; a disabled watcher never uses its client.\<close>

definition NewReservationWatcher :: "'w DynamicClient \<Rightarrow> 'w BrokerClient option \<Rightarrow> bool \<Rightarrow> string \<Rightarrow> 'w ReservationWatcher" where
  "NewReservationWatcher nil brokerClient hasLocalClient instructionNamespace =
     (case brokerClient of
        None \<Rightarrow>
          \<lparr>rw_Client = nil, rw_HasLocalClient = False, rw_ClusterID = [], rw_Enabled = False,
           rw_InstructionNamespace = [], rw_BrokerNamespace = [], rw_RequesterNamespace = []\<rparr>
      | Some b \<Rightarrow>
          let ns = (if instructionNamespace = '''' then ''default'' else instructionNamespace)
          in \<lparr>rw_Client = lc_Client b, rw_HasLocalClient = hasLocalClient, rw_ClusterID = lc_ClusterID b,
              rw_Enabled = lc_Enabled b, rw_InstructionNamespace = ns, rw_BrokerNamespace = lc_Namespace b,
              rw_RequesterNamespace = ns\<rparr>)"

definition watcher_namespace :: "'w ReservationWatcher \<Rightarrow> string" where
  "watcher_namespace W = (if rw_InstructionNamespace W = '''' then ''default'' else rw_InstructionNamespace W)"

text \<open>An expiry that does not parse is left out.\<close>

definition parse_expiry :: "'w ReservationWatcher \<Rightarrow> string \<Rightarrow> time option" where
  "parse_expiry W expiresAt = (if expiresAt = '''' then None else dy_parse (rw_Client W) expiresAt)"

section \<open>The instructions\<close>

definition requester_spec ::
  "'w ReservationWatcher \<Rightarrow> string \<Rightarrow> string \<Rightarrow> string \<Rightarrow> string \<Rightarrow> string \<Rightarrow> ReservationInstructionSpec" where
  "requester_spec W name targetCluster cpu memory expiresAt =
     \<lparr>ris_ReservationName = name, ris_TargetClusterID = targetCluster, ris_RequestedCPU = cpu,
      ris_RequestedMemory = memory, ris_RequestedGPU = [],
      ris_Message = ''Use '' @ targetCluster @ '' for '' @ cpu @ '' CPU / '' @ memory @ '' Memory'',
      ris_ExpiresAt = parse_expiry W expiresAt, ris_PeeringKubeconfig = []\<rparr>"

definition provider_spec ::
  "'w ReservationWatcher \<Rightarrow> string \<Rightarrow> string \<Rightarrow> string \<Rightarrow> string \<Rightarrow> string \<Rightarrow> ProviderInstructionSpec" where
  "provider_spec W name requester cpu memory expiresAt =
     \<lparr>pis_ReservationName = name, pis_RequesterClusterID = requester, pis_RequestedCPU = cpu,
      pis_RequestedMemory = memory, pis_RequestedGPU = [],
      pis_Message = ''Hold '' @ cpu @ '' CPU / '' @ memory @ '' Memory for requester '' @ requester,
      pis_ExpiresAt = parse_expiry W expiresAt\<rparr>"

text \<open>
  Create or update, and then the status of the object that the call answered with: the two upserts
  differ in the fields of the status only.
\<close>

definition upsert ::
  "('w, 's, 't) Client \<Rightarrow> key \<Rightarrow> 's \<Rightarrow> 't \<Rightarrow> (('s, 't) Obj \<Rightarrow> ('w, 't) state) \<Rightarrow> ('w, ApiError + unit) state" where
  "upsert C k spec zero status = do {
     got \<leftarrow> c_get C k;
     written \<leftarrow> (case got of
         Inl e \<Rightarrow>
           if is_not_found (ErrApi e)
           then c_create C \<lparr>o_meta = new_meta (snd k) (fst k), o_spec = spec, o_status = zero\<rparr>
           else ret (Inl e)
       | Inr instruction \<Rightarrow> c_update C (instruction\<lparr>o_spec := spec\<rparr>));
     case written of
       Inl e \<Rightarrow> ret (Inl e)
     | Inr instruction \<Rightarrow> do {
         st \<leftarrow> status instruction;
         u \<leftarrow> c_status_update C (instruction\<lparr>o_status := st\<rparr>);
         ret (case u of Inl e \<Rightarrow> Inl e | Inr _ \<Rightarrow> Inr ())
       }
   }"

definition upsertRequesterInstruction ::
  "('w, 'q) AgentEnv \<Rightarrow> 'w ReservationWatcher \<Rightarrow> json \<Rightarrow> string \<Rightarrow> string \<Rightarrow> string \<Rightarrow> string \<Rightarrow> ('w, ApiError + unit) state" where
  "upsertRequesterInstruction E W reservation targetCluster cpu memory expiresAt =
     (let name = un_name (rw_Client W) reservation
      in upsert (g_ri E) (watcher_namespace W, name) (requester_spec W name targetCluster cpu memory expiresAt)
           zero_ri_status
           (\<lambda>instruction. do {
              now \<leftarrow> g_now E;
              ret ((o_status instruction)\<lparr>
                rit_ObservedReservationResourceVersion := un_version (rw_Client W) reservation,
                rit_Delivered := False, rit_LastUpdateTime := now\<rparr>)
            }))"

definition upsertProviderInstruction ::
  "('w, 'q) AgentEnv \<Rightarrow> 'w ReservationWatcher \<Rightarrow> json \<Rightarrow> string \<Rightarrow> string \<Rightarrow> string \<Rightarrow> string \<Rightarrow> ('w, ApiError + unit) state" where
  "upsertProviderInstruction E W reservation requester cpu memory expiresAt =
     (let name = un_name (rw_Client W) reservation
      in upsert (g_pi E) (watcher_namespace W, name @ ''-provider'') (provider_spec W name requester cpu memory expiresAt)
           zero_pi_status
           (\<lambda>instruction. do {
              now \<leftarrow> g_now E;
              ret ((o_status instruction)\<lparr>pst_Enforced := False, pst_LastUpdateTime := now\<rparr>)
            }))"

section \<open>The watch\<close>

text \<open>\<open>NestedString\<close> gives the empty string for what it does not find.\<close>

definition nested_string :: "'w ReservationWatcher \<Rightarrow> json \<Rightarrow> string \<Rightarrow> string" where
  "nested_string W j key = (case un_string (rw_Client W) j key of None \<Rightarrow> [] | Some s \<Rightarrow> s)"

record reservation_event =
  re_requester :: string
  re_target :: string
  re_cpu :: string
  re_memory :: string
  re_expiresAt :: string

text \<open>What an event says to this cluster: nothing where the code continues with the next one.\<close>

definition relevant_event :: "'w ReservationWatcher \<Rightarrow> json \<Rightarrow> reservation_event option" where
  "relevant_event W obj =
     (case un_map (rw_Client W) obj ''spec'' of
        None \<Rightarrow> None
      | Some spec \<Rightarrow>
          let requesterID = nested_string W spec ''requesterID''; targetCluster = nested_string W spec ''targetClusterID''
          in if (un_string (rw_Client W) spec ''requesterID'' = None \<and> un_string (rw_Client W) spec ''targetClusterID'' = None) \<or>
                (requesterID \<noteq> rw_ClusterID W \<and> targetCluster \<noteq> rw_ClusterID W)
             then None
             else case un_map (rw_Client W) obj ''status'' of
                 None \<Rightarrow> None
               | Some status \<Rightarrow>
                   if un_string (rw_Client W) status ''phase'' \<noteq> Some ''Reserved'' then None
                   else case un_map (rw_Client W) spec ''requestedResources'' of
                       None \<Rightarrow> None
                     | Some resources \<Rightarrow> Some
                         \<lparr>re_requester = requesterID, re_target = targetCluster,
                          re_cpu = nested_string W resources ''cpu'', re_memory = nested_string W resources ''memory'',
                          re_expiresAt = nested_string W status ''expiresAt''\<rparr>)"

definition handle_event :: "('w, 'q) AgentEnv \<Rightarrow> 'w ReservationWatcher \<Rightarrow> json option \<Rightarrow> ('w, unit) state" where
  "handle_event E W object =
     (case object of
        None \<Rightarrow> ret ()
      | Some obj \<Rightarrow>
          (case relevant_event W obj of
             None \<Rightarrow> ret ()
           | Some e \<Rightarrow> do {
               _ \<leftarrow> (if re_requester e = rw_ClusterID W \<and> rw_HasLocalClient W
                     then upsertRequesterInstruction E W obj (re_target e) (re_cpu e) (re_memory e) (re_expiresAt e)
                     else ret (Inr ()));
               _ \<leftarrow> (if re_target e = rw_ClusterID W \<and> rw_HasLocalClient W
                     then upsertProviderInstruction E W obj (re_requester e) (re_cpu e) (re_memory e) (re_expiresAt e)
                     else ret (Inr ()));
               ret ()
             }))"

fun handle_events :: "('w, 'q) AgentEnv \<Rightarrow> 'w ReservationWatcher \<Rightarrow> json option list \<Rightarrow> ('w, unit) state" where
  "handle_events E W [] = ret ()"
| "handle_events E W (e # es) = State_Monad.bind (handle_event E W e) (\<lambda>_. handle_events E W es)"

definition watch_backoff :: duration where "watch_backoff = 1 * go_second"
definition max_watch_backoff :: duration where "max_watch_backoff = 60 * go_second"

definition next_watch_backoff :: "duration \<Rightarrow> duration" where
  "next_watch_backoff b = (if b * 2 > max_watch_backoff then max_watch_backoff else b * 2)"

text \<open>The loop runs until the context is done: \<open>n\<close> rounds come before that.\<close>

fun watch_rounds :: "nat \<Rightarrow> ('w, 'q) AgentEnv \<Rightarrow> 'w ReservationWatcher \<Rightarrow> duration \<Rightarrow> ('w, unit) state" where
  "watch_rounds 0 E W backoff = ret ()"
| "watch_rounds (Suc n) E W backoff = do {
     watch \<leftarrow> dy_watch (rw_Client W) (if rw_BrokerNamespace W = '''' then ''default'' else rw_BrokerNamespace W);
     case watch of
       Inl _ \<Rightarrow> do {
         _ \<leftarrow> dy_sleep (rw_Client W) backoff;
         watch_rounds n E W (next_watch_backoff backoff)
       }
     | Inr events \<Rightarrow> do {
         _ \<leftarrow> handle_events E W events;
         _ \<leftarrow> dy_sleep (rw_Client W) (1 * go_second);
         watch_rounds n E W watch_backoff
       }
   }"

definition Start :: "nat \<Rightarrow> ('w, 'q) AgentEnv \<Rightarrow> 'w ReservationWatcher \<Rightarrow> ('w, go_error + unit) state" where
  "Start n E W =
     (if \<not> rw_Enabled W then ret (Inr ())
      else State_Monad.bind (watch_rounds n E W watch_backoff) (\<lambda>_. ret (Inr ())))"

section \<open>What a step may alter\<close>

text \<open>
  \<open>alters P f m\<close>: where \<open>m\<close> changes the store \<open>f\<close> at a key, \<open>P\<close> holds of the key and of what is
  there after it. The rule for \<open>bind\<close> lets the second part depend on what the first one answered.
\<close>

definition alters :: "(key \<Rightarrow> ('s, 't) Obj option \<Rightarrow> bool) \<Rightarrow> ('w \<Rightarrow> ('s, 't) store) \<Rightarrow> ('w, 'a) state \<Rightarrow> bool" where
  "alters P f m \<longleftrightarrow>
     (\<forall>w r w' k. run_state m w = (r, w') \<longrightarrow> f w' k = f w k \<or> P k (f w' k))"

lemma altersD: "alters P f m \<Longrightarrow> run_state m w = (r, w') \<Longrightarrow> f w' k \<noteq> f w k \<Longrightarrow> P k (f w' k)"
  unfolding alters_def by blast

lemma alters_bind:
  assumes "alters P f m" "\<And>x wa wb. run_state m wa = (x, wb) \<Longrightarrow> alters P f (g x)"
  shows "alters P f (State_Monad.bind m g)"
  unfolding alters_def
proof (intro allI impI)
  fix w r w' k
  assume run: "run_state (State_Monad.bind m g) w = (r, w')"
  obtain x w1 where x: "run_state m w = (x, w1)" by fastforce
  with run have "run_state (g x) w1 = (r, w')" by simp
  then show "f w' k = f w k \<or> P k (f w' k)"
    using assms(1) assms(2) [OF x] x unfolding alters_def by metis
qed

lemma alters_keeps: "keeps f m \<Longrightarrow> alters P f m"
  by (auto simp: alters_def dest: keepsD)

lemma alters_weaken: "alters P f m \<Longrightarrow> (\<And>k y. P k y \<Longrightarrow> P' k y) \<Longrightarrow> alters P' f m"
  unfolding alters_def by blast

section \<open>What an upsert leaves\<close>

context kube_client
begin

lemma put_effect:
  assumes got: "run_state (c_get C k) w = (got, w1)"
    and put: "run_state (case got of
        Inl e \<Rightarrow> if is_not_found (ErrApi e) then c_create C \<lparr>o_meta = new_meta (snd k) (fst k), o_spec = spec, o_status = zero\<rparr> else ret (Inl e)
      | Inr x \<Rightarrow> c_update C (x\<lparr>o_spec := spec\<rparr>)) w1 = (wr, w2)"
  shows "k' \<noteq> k \<Longrightarrow> objs w2 k' = objs w k'" "wr = Inl e \<Longrightarrow> objs w2 = objs w"
    "wr = Inr y \<Longrightarrow> obj_key y = k \<and> (\<forall>z. objs w2 k = Some z \<longrightarrow> o_spec z = spec)"
proof -
  have w1: "objs w1 = objs w" by (rule get_same [OF got])
  let ?new = "\<lparr>o_meta = new_meta (snd k) (fst k), o_spec = spec, o_status = zero\<rparr>"
  have key: "obj_key ?new = k" by simp
  show "objs w2 k' = objs w k'" if "k' \<noteq> k"
  proof (cases got)
    case (Inl e)
    with put w1 that create_ok [of ?new w1 _ w2] write_fail(1) [of ?new w1 _ w2] key show ?thesis
      by (cases wr) (auto split: if_splits)
  next
    case (Inr x)
    with get_found [OF got [unfolded Inr]] have "obj_key (x\<lparr>o_spec := spec\<rparr>) = k" by simp
    with Inr put w1 that update_ok [of "x\<lparr>o_spec := spec\<rparr>" w1 _ w2] write_fail(2) [of "x\<lparr>o_spec := spec\<rparr>" w1 _ w2]
    show ?thesis by (cases wr) auto
  qed
  show "objs w2 = objs w" if "wr = Inl e"
    using put that w1 write_fail(1) [of ?new w1 _ w2] write_fail(2) [of _ w1 _ w2]
    by (auto split: sum.splits if_splits)
  show "obj_key y = k \<and> (\<forall>z. objs w2 k = Some z \<longrightarrow> o_spec z = spec)" if "wr = Inr y"
  proof (cases got)
    case (Inl e)
    with put that create_ok [of ?new w1 y w2] key show ?thesis by (auto split: if_splits)
  next
    case (Inr x)
    with get_found [OF got [unfolded Inr]] have "obj_key (x\<lparr>o_spec := spec\<rparr>) = k" by simp
    with Inr put that update_ok [of "x\<lparr>o_spec := spec\<rparr>" w1 y w2] show ?thesis by (auto split: if_splits)
  qed
qed

text \<open>
  An upsert answers without error only where the object now has the given spec, and the status
  computed from one that is either the object's old one or that of a new object.
\<close>

lemma upsert_effect:
  assumes run: "run_state (upsert C k spec zero status) w = (r, w')"
    and quiet: "\<And>x. keeps objs (status x)"
  shows "k' \<noteq> k \<Longrightarrow> objs w' k' = objs w k'"
    "objs w' k = Some y \<Longrightarrow> objs w k = Some y \<or> o_spec y = spec"
    "r = Inr u \<Longrightarrow> \<exists>x y wa wb. objs w' k = Some y \<and> o_spec y = spec \<and> run_state (status x) wa = (o_status y, wb)"
proof -
  obtain got w1 where got: "run_state (c_get C k) w = (got, w1)" by fastforce
  let ?put = "case got of
      Inl e \<Rightarrow> if is_not_found (ErrApi e) then c_create C \<lparr>o_meta = new_meta (snd k) (fst k), o_spec = spec, o_status = zero\<rparr> else ret (Inl e)
    | Inr x \<Rightarrow> c_update C (x\<lparr>o_spec := spec\<rparr>)"
  obtain wr w2 where wr: "run_state ?put w1 = (wr, w2)" by fastforce
  note put = put_effect [OF got wr]
  have "(k' \<noteq> k \<longrightarrow> objs w' k' = objs w k') \<and>
      (\<forall>y. objs w' k = Some y \<longrightarrow> objs w k = Some y \<or> o_spec y = spec) \<and> (r = Inr u \<longrightarrow>
      (\<exists>x y wa wb. objs w' k = Some y \<and> o_spec y = spec \<and> run_state (status x) wa = (o_status y, wb)))" for k'
  proof (cases wr)
    case (Inl e)
    with run got wr have "w' = w2" "r = Inl e" by (auto simp: upsert_def)
    with put(1,2) Inl show ?thesis by auto
  next
    case (Inr x)
    obtain st w3 where st: "run_state (status x) w2 = (st, w3)" by fastforce
    have w3: "objs w3 = objs w2" by (rule keepsD [OF quiet st])
    let ?x = "x\<lparr>o_status := st\<rparr>"
    obtain up w4 where up: "run_state (c_status_update C ?x) w3 = (up, w4)" by fastforce
    have res: "w' = w4" "r = (case up of Inl e \<Rightarrow> Inl e | Inr _ \<Rightarrow> Inr ())"
      using run got wr Inr st up by (simp_all add: upsert_def)
    have k: "obj_key ?x = k" using put(3) [OF Inr] by simp
    show ?thesis
    proof (cases up)
      case up_fail: (Inl e)
      with res write_fail(3) [OF up [unfolded up_fail]] w3 put(1) put(3) [OF Inr] show ?thesis by simp
    next
      case up_ok: (Inr y)
      from status_ok [OF up [unfolded up_ok]] obtain old where "objs w3 k = Some old"
        "objs w4 = (objs w3)(k \<mapsto> y)" "o_spec y = o_spec old" "o_status y = st" unfolding k by auto
      with res up_ok w3 put(1) put(3) [OF Inr] st show ?thesis by auto
    qed
  qed
  then show "k' \<noteq> k \<Longrightarrow> objs w' k' = objs w k'"
    "objs w' k = Some y \<Longrightarrow> objs w k = Some y \<or> o_spec y = spec"
    "r = Inr u \<Longrightarrow> \<exists>x y wa wb. objs w' k = Some y \<and> o_spec y = spec \<and> run_state (status x) wa = (o_status y, wb)"
    by blast+
qed

end

text \<open>The event that stands behind a change of the provider's or the requester's instructions.\<close>

definition provider_change :: "'w ReservationWatcher \<Rightarrow> json \<Rightarrow> key \<Rightarrow> ProviderInstruction option \<Rightarrow> bool" where
  "provider_change W obj k y \<longleftrightarrow>
     (\<exists>e. relevant_event W obj = Some e \<and> re_target e = rw_ClusterID W \<and> rw_HasLocalClient W \<and>
        k = (watcher_namespace W, un_name (rw_Client W) obj @ ''-provider'') \<and>
        (\<forall>x. y = Some x \<longrightarrow>
           o_spec x = provider_spec W (un_name (rw_Client W) obj) (re_requester e) (re_cpu e) (re_memory e) (re_expiresAt e)))"

locale watcher_world =
  pi: kube_client "g_pi E" pis + ri: kube_client "g_ri E" ris
  for E :: "('w, 'q) AgentEnv" and pis :: "'w \<Rightarrow> (ProviderInstructionSpec, ProviderInstructionStatus) store"
    and ris :: "'w \<Rightarrow> (ReservationInstructionSpec, ReservationInstructionStatus) store" +
  fixes W :: "'w ReservationWatcher"
  assumes now_quiet: "keeps pis (g_now E)" "keeps ris (g_now E)"
    and others_quiet: "client_keeps pis (g_ri E)" "client_keeps ris (g_pi E)"
    and watch_quiet: "keeps pis (dy_watch (rw_Client W) ns)" "keeps pis (dy_sleep (rw_Client W) d)"
begin

lemma upsert_requester_quiet: "keeps pis (upsertRequesterInstruction E W obj t c m x)"
  unfolding upsertRequesterInstruction_def upsert_def Let_def by (intro keeps_intros now_quiet others_quiet)

lemma upsert_provider_alters:
  assumes "relevant_event W obj = Some e" "re_target e = rw_ClusterID W" "rw_HasLocalClient W"
  shows "alters (provider_change W obj) pis
    (upsertProviderInstruction E W obj (re_requester e) (re_cpu e) (re_memory e) (re_expiresAt e))"
  unfolding alters_def
proof (intro allI impI)
  fix w r w' k
  assume run: "run_state (upsertProviderInstruction E W obj (re_requester e) (re_cpu e) (re_memory e) (re_expiresAt e)) w = (r, w')"
  note up = pi.upsert_effect [OF run [unfolded upsertProviderInstruction_def Let_def]]
  have quiet: "keeps pis (State_Monad.bind (g_now E) (\<lambda>now. ret (f now)))" for f :: "time \<Rightarrow> ProviderInstructionStatus"
    by (intro keeps_intros now_quiet)
  show "pis w' k = pis w k \<or> provider_change W obj k (pis w' k)"
  proof (cases "k = (watcher_namespace W, un_name (rw_Client W) obj @ ''-provider'')")
    case False
    with up(1) [OF quiet] show ?thesis by simp
  next
    case True
    have "pis w' k = pis w k \<or> (\<forall>x. pis w' k = Some x \<longrightarrow> o_spec x =
        provider_spec W (un_name (rw_Client W) obj) (re_requester e) (re_cpu e) (re_memory e) (re_expiresAt e))"
      using up(2) [OF quiet] True by (cases "pis w' k") auto
    with True assms show ?thesis by (auto simp: provider_change_def)
  qed
qed

lemma handle_event_alters: "alters (\<lambda>k y. \<exists>obj. ev = Some obj \<and> provider_change W obj k y) pis (handle_event E W ev)"
proof (cases "\<exists>obj e. ev = Some obj \<and> relevant_event W obj = Some e")
  case False
  then have "handle_event E W ev = ret ()"
    unfolding handle_event_def by (cases ev) (auto split: option.split)
  then show ?thesis by (simp add: alters_keeps keeps_return)
next
  case True
  then obtain obj e where e: "ev = Some obj" "relevant_event W obj = Some e" by blast
  have first: "alters (provider_change W obj) pis (if re_requester e = rw_ClusterID W \<and> rw_HasLocalClient W
      then upsertRequesterInstruction E W obj (re_target e) (re_cpu e) (re_memory e) (re_expiresAt e) else ret (Inr ()))"
    by (intro alters_keeps keeps_if upsert_requester_quiet keeps_return)
  have second: "alters (provider_change W obj) pis (if re_target e = rw_ClusterID W \<and> rw_HasLocalClient W
      then upsertProviderInstruction E W obj (re_requester e) (re_cpu e) (re_memory e) (re_expiresAt e) else ret (Inr ()))"
    using upsert_provider_alters [OF e(2)] by (auto intro: alters_keeps keeps_return)
  have "alters (provider_change W obj) pis (handle_event E W (Some obj))"
    unfolding handle_event_def using e(2)
    by (simp add: alters_bind [OF first alters_bind [OF second alters_keeps [OF keeps_return]]])
  then show ?thesis using e(1) by simp
qed

lemma handle_events_alters:
  "alters (\<lambda>k y. \<exists>obj. Some obj \<in> set evs \<and> provider_change W obj k y) pis (handle_events E W evs)"
proof (induction evs)
  case Nil
  then show ?case by (simp add: alters_keeps keeps_return)
next
  case (Cons ev evs)
  have "alters (\<lambda>k y. \<exists>obj. Some obj \<in> set (ev # evs) \<and> provider_change W obj k y) pis (handle_event E W ev)"
    by (rule alters_weaken [OF handle_event_alters]) auto
  moreover have "alters (\<lambda>k y. \<exists>obj. Some obj \<in> set (ev # evs) \<and> provider_change W obj k y) pis (handle_events E W evs)"
    by (rule alters_weaken [OF Cons.IH]) auto
  ultimately show ?case by (simp add: alters_bind)
qed

text \<open>An event that the watch delivered.\<close>

definition seen :: "json \<Rightarrow> bool" where
  "seen obj \<longleftrightarrow> (\<exists>ns wa evs wb. run_state (dy_watch (rw_Client W) ns) wa = (Inr evs, wb) \<and> Some obj \<in> set evs)"

lemma watch_rounds_alters:
  "alters (\<lambda>k y. \<exists>obj. seen obj \<and> provider_change W obj k y) pis (watch_rounds n E W b)"
proof (induction n arbitrary: b)
  case 0
  then show ?case by (simp add: alters_keeps keeps_return)
next
  case (Suc n)
  show ?case unfolding watch_rounds.simps
  proof (rule alters_bind [OF alters_keeps [OF watch_quiet(1)]])
    fix x wa wb
    assume x: "run_state (dy_watch (rw_Client W) (if rw_BrokerNamespace W = [] then ''default'' else rw_BrokerNamespace W)) wa = (x, wb)"
    note sleep = alters_bind [OF alters_keeps [OF watch_quiet(2)] Suc.IH]
    show "alters (\<lambda>k y. \<exists>obj. seen obj \<and> provider_change W obj k y) pis
       (case x of Inl _ \<Rightarrow> State_Monad.bind (dy_sleep (rw_Client W) b) (\<lambda>_. watch_rounds n E W (next_watch_backoff b))
        | Inr events \<Rightarrow> State_Monad.bind (handle_events E W events)
            (\<lambda>_. State_Monad.bind (dy_sleep (rw_Client W) (1 * go_second)) (\<lambda>_. watch_rounds n E W watch_backoff)))"
    proof (cases x)
      case (Inl e)
      then show ?thesis using sleep by simp
    next
      case (Inr evs)
      have "alters (\<lambda>k y. \<exists>obj. seen obj \<and> provider_change W obj k y) pis (handle_events E W evs)"
      proof (rule alters_weaken [OF handle_events_alters])
        have "seen obj" if "Some obj \<in> set evs" for obj
          unfolding seen_def using x [unfolded Inr] that by blast
        then show "\<exists>obj. Some obj \<in> set evs \<and> provider_change W obj k y \<Longrightarrow>
            \<exists>obj. seen obj \<and> provider_change W obj k y" for k y by blast
      qed
      from alters_bind [OF this sleep] Inr show ?thesis by simp
    qed
  qed
qed

end

section \<open>Properties\<close>

lemma relevant_event_reserved:
  assumes "relevant_event W obj = Some e"
  obtains status where "un_map (rw_Client W) obj ''status'' = Some status" "un_string (rw_Client W) status ''phase'' = Some ''Reserved''"
  using assms by (auto simp: relevant_event_def Let_def split: option.splits if_splits)

text \<open>
  C27. What the watcher does to the provider's instructions, over any number of rounds: an
  instruction changes only because of an event the watch delivered, for a reservation in the phase
  Reserved whose target is this cluster, and then it is that reservation's instruction, with the
  amounts of the event.
\<close>

theorem watcher_only_own_reservations:
  assumes "watcher_world E pis ris W" "run_state (Start n E W) w = (r, w')" "pis w' k \<noteq> pis w k"
  shows "\<exists>ns wa evs wb obj status e. run_state (dy_watch (rw_Client W) ns) wa = (Inr evs, wb) \<and> Some obj \<in> set evs \<and>
    un_map (rw_Client W) obj ''status'' = Some status \<and> un_string (rw_Client W) status ''phase'' = Some ''Reserved'' \<and>
    relevant_event W obj = Some e \<and> re_target e = rw_ClusterID W \<and>
    k = (watcher_namespace W, un_name (rw_Client W) obj @ ''-provider'') \<and>
    (\<forall>x. pis w' k = Some x \<longrightarrow>
       o_spec x = provider_spec W (un_name (rw_Client W) obj) (re_requester e) (re_cpu e) (re_memory e) (re_expiresAt e))"
proof -
  have "rw_Enabled W" using assms(2,3) by (auto simp: Start_def split: if_splits)
  then obtain u where "run_state (watch_rounds n E W watch_backoff) w = (u, w')"
    using assms(2) by (auto simp: Start_def split: prod.splits)
  from altersD [OF watcher_world.watch_rounds_alters [OF assms(1)] this assms(3)]
  obtain obj where obj: "watcher_world.seen W obj" "provider_change W obj k (pis w' k)" by blast
  from obj(2) obtain e where e: "relevant_event W obj = Some e" unfolding provider_change_def by blast
  from relevant_event_reserved [OF this] obtain status where
    "un_map (rw_Client W) obj ''status'' = Some status" "un_string (rw_Client W) status ''phase'' = Some ''Reserved''" .
  with obj e show ?thesis
    unfolding watcher_world.seen_def [OF assms(1)] provider_change_def by (smt (verit) option.inject)
qed

text \<open>Every event of a reservation sets its instruction back to not enforced.\<close>

lemma upsert_unenforces:
  assumes "kube_client (g_pi E) pis" "keeps pis (g_now E)"
    "run_state (upsertProviderInstruction E W obj requester cpu memory x) w = (Inr u, w')"
  shows "\<exists>y. pis w' (watcher_namespace W, un_name (rw_Client W) obj @ ''-provider'') = Some y \<and>
    o_spec y = provider_spec W (un_name (rw_Client W) obj) requester cpu memory x \<and> \<not> pst_Enforced (o_status y)"
proof -
  note run = assms(3) [unfolded upsertProviderInstruction_def Let_def]
  have quiet: "keeps pis (State_Monad.bind (g_now E) (\<lambda>now. ret (f now)))" for f :: "time \<Rightarrow> ProviderInstructionStatus"
    by (intro keeps_intros assms(2))
  from kube_client.upsert_effect(3) [OF assms(1) run quiet refl] show ?thesis
  proof (elim exE conjE)
    fix z y wa wb
    assume y: "pis w' (watcher_namespace W, un_name (rw_Client W) obj @ ''-provider'') = Some y"
      "o_spec y = provider_spec W (un_name (rw_Client W) obj) requester cpu memory x"
      and st: "run_state (State_Monad.bind (g_now E)
        (\<lambda>now. ret ((o_status z)\<lparr>pst_Enforced := False, pst_LastUpdateTime := now\<rparr>))) wa = (o_status y, wb)"
    obtain now wc where "run_state (g_now E) wa = (now, wc)" by fastforce
    with st have "o_status y = (o_status z)\<lparr>pst_Enforced := False, pst_LastUpdateTime := now\<rparr>" by simp
    with y show ?thesis by simp
  qed
qed

definition watching :: "json option list \<Rightarrow> agent_world DynamicClient" where
  "watching evs =
     \<lparr>dy_get = (\<lambda>k. ret (Inl (NotFound []))), dy_create = (\<lambda>k x. ret (Inl (NotFound []))),
      dy_update = (\<lambda>k x. ret (Inl (NotFound []))), dy_watch = (\<lambda>ns. ret (Inr evs)), dy_sleep = (\<lambda>d. ret ()),
      dy_format = (\<lambda>t. []), dy_parse = (\<lambda>s. None), un_map = (\<lambda>j s. json_path [s] j),
      un_string = (\<lambda>j s. json_string (json_path [s] j)),
      un_name = (\<lambda>j. case json_string (json_path [''metadata'', ''name''] j) of Some t \<Rightarrow> t | None \<Rightarrow> []),
      un_version = (\<lambda>j. [])\<rparr>"

definition sample_event :: json where
  "sample_event = JObject
     [(''metadata'', JObject [(''name'', JString ''rsv-a-1'')]),
      (''spec'', JObject [(''requesterID'', JString ''a''), (''targetClusterID'', JString ''b''),
         (''requestedResources'', JObject [(''cpu'', JString ''5''), (''memory'', JString ''8'')])]),
      (''status'', JObject [(''phase'', JString ''Reserved'')])]"

definition sample_watcher :: "agent_world ReservationWatcher" where
  "sample_watcher = NewReservationWatcher (watching [])
     (Some \<lparr>lc_Client = watching [Some sample_event], lc_ClusterID = ''b'', lc_Enabled = True, lc_Namespace = []\<rparr>) True []"

interpretation agent_watcher: watcher_world agent_env "\<lambda>w. store_get (aw_pis w)" "\<lambda>w. store_get (aw_ris w)" sample_watcher
proof (intro watcher_world.intro watcher_world_axioms.intro)
  show "kube_client (g_pi agent_env) (\<lambda>w. store_get (aw_pis w))" by (simp add: aw_pi.kube_client_axioms)
  show "kube_client (g_ri agent_env) (\<lambda>w. store_get (aw_ris w))" by (simp add: aw_ri.kube_client_axioms)
  show "client_keeps (\<lambda>w. store_get (aw_pis w)) (g_ri agent_env)" "client_keeps (\<lambda>w. store_get (aw_ris w)) (g_pi agent_env)"
    using aw_ri.mem_client_keeps [of "\<lambda>w. store_get (aw_pis w)"] aw_pi.mem_client_keeps [of "\<lambda>w. store_get (aw_ris w)"]
    by simp_all
qed (auto simp: keeps_def sample_watcher_def NewReservationWatcher_def watching_def Let_def)

lemma watcher_witness:
  "\<exists>w' x. run_state (Start 1 agent_env sample_watcher) sample_agent_world = (Inr (), w') \<and>
    store_get (aw_pis w') (''default'', ''rsv-a-1-provider'') = Some x \<and> pis_RequestedCPU (o_spec x) = ''5''"
proof -
  let ?k = "(''default'', ''rsv-a-1-provider'')"
  obtain r w' where run: "run_state (Start 1 agent_env sample_watcher) sample_agent_world = (r, w')" by (meson surj_pair)
  have r: "r = Inr () \<and> (\<exists>x. store_get (aw_pis w') ?k = Some x \<and> pis_RequestedCPU (o_spec x) = ''5'')"
    using run by (auto simp: Start_def sample_watcher_def NewReservationWatcher_def watching_def handle_event_def
        relevant_event_def nested_string_def sample_event_def json_string_def upsertProviderInstruction_def upsert_def
        watcher_namespace_def provider_spec_def sample_agent_world_def sample_instruction_def new_meta_def
        mem_write_defs Let_def zero_pi_status_def)
  have "store_get (aw_pis w') ?k \<noteq> store_get (aw_pis sample_agent_world) ?k"
    using r by (auto simp: sample_agent_world_def sample_instruction_def new_meta_def meta_key_def)
  from watcher_only_own_reservations [where pis = "\<lambda>w. store_get (aw_pis w)" and ris = "\<lambda>w. store_get (aw_ris w)",
      OF agent_watcher.watcher_world_axioms run this] r run show ?thesis by blast
qed

end
