(* ===== verification/AgentMain.thy ===== *)
theory AgentMain
  imports AgentHttp AgentAdvertisement RequesterController RequestController LegacyWatcher
begin

text \<open>
  The start of the agent (resource-agent/cmd/main.go): the flags, the bootstrap of the one
  advertisement, the choice of the transport, and which components run with which fields. The plan
  is what \<open>mgr.Start\<close> and the goroutines then run; \<open>agent_step\<close> is one step of that run. The client
  library, the manager and the flag parser are parameters.
\<close>

section \<open>The flags\<close>

record AgentFlags =
  af_Manager :: ManagerFlags
  af_brokerKubeconfig :: string
  af_brokerTransport :: string
  af_brokerURL :: string
  af_brokerCertPath :: string
  af_clusterID :: string
  af_advertisementName :: string
  af_advertisementNamespace :: string
  af_instructionNamespace :: string
  af_brokerNamespace :: string
  af_advertisementRequeueInterval :: duration
  af_instructionPollInterval :: duration
  af_kubeconfigsDir :: string
  af_renewable :: bool
  af_energyCost :: float64
  af_agentRole :: string
  af_sharingLogic :: string
  af_sharingPercentage :: int
  af_sharingFixedCPU :: string
  af_sharingFixedMemory :: string
  af_sharingFixedGPU :: string
  af_mockGeoURL :: string
  af_mockEcoURL :: string
  af_advertisedIP :: string
  af_policy :: string
  af_reEvalInterval :: duration

definition default_agent_flags :: AgentFlags where
  "default_agent_flags =
     \<lparr>af_Manager = default_manager_flags, af_brokerKubeconfig = '''', af_brokerTransport = '''', af_brokerURL = '''',
      af_brokerCertPath = '''', af_clusterID = '''', af_advertisementName = ''cluster-advertisement'',
      af_advertisementNamespace = ''default'', af_instructionNamespace = '''', af_brokerNamespace = ''default'',
      af_advertisementRequeueInterval = 30 * go_second, af_instructionPollInterval = 5 * go_second,
      af_kubeconfigsDir = '''', af_renewable = False, af_energyCost = 0, af_agentRole = ''provider'',
      af_sharingLogic = ''all'', af_sharingPercentage = 100, af_sharingFixedCPU = '''', af_sharingFixedMemory = '''',
      af_sharingFixedGPU = '''', af_mockGeoURL = '''', af_mockEcoURL = '''', af_advertisedIP = '''', af_policy = '''',
      af_reEvalInterval = 1 * go_hour\<rparr>"

section \<open>The environment of the start\<close>

text \<open>
  \<open>su_http\<close> is what \<open>net/http\<close> does with a client of that configuration, \<open>su_setup\<close> is
  \<open>SetupWithManager\<close> of a controller or the registration of a health check.
\<close>

record ('w, 'k, 'c, 'p) AgentStart =
  su_config :: "('w, go_error + 'k) state"
  su_client :: "'k \<Rightarrow> ('w, go_error + unit) state"
  su_manager :: "'k \<Rightarrow> ('c, 'p) ManagerOptions \<Rightarrow> ('w, go_error + unit) state"
  su_setup :: "string \<Rightarrow> ('w, go_error + unit) state"
  su_crypto :: "('w, 'c, 'p) CryptoEnv"
  su_http :: "('c, 'p) HttpClient \<Rightarrow> 'w HttpEnv"
  su_kubeconfig :: "('w, 'k) KubeconfigEnv"

section \<open>The functions of main.go\<close>

definition defaultResourceMetrics :: "'q QuantityOps \<Rightarrow> 'q ResourceMetrics" where
  "defaultResourceMetrics Q =
     (let z = \<lparr>aq_CPU = q_New Q 0 DecimalSI, aq_Memory = q_New Q 0 BinarySI, aq_GPU = None, aq_Storage = None\<rparr>
      in \<lparr>am_Capacity = z, am_Allocatable = z, am_Allocated = z, am_Used = None, am_Available = z\<rparr>)"

definition first_advertisement ::
  "'q QuantityOps \<Rightarrow> string \<Rightarrow> string \<Rightarrow> string \<Rightarrow> string \<Rightarrow> time \<Rightarrow> 'q Advertisement" where
  "first_advertisement Q namespace name clusterID policy now =
     \<lparr>o_meta = new_meta name namespace,
      o_spec = \<lparr>asp_ClusterID = clusterID, asp_Resources = defaultResourceMetrics Q, asp_Policy = policy,
        asp_Cost = None, asp_Timestamp = now\<rparr>,
      o_status = \<lparr>ast_Phase = '''', ast_LastUpdateTime = 0, ast_Published = False, ast_Message = ''''\<rparr>\<rparr>"

definition ensureAdvertisementExists ::
  "('w, 'q) AgentEnv \<Rightarrow> string \<Rightarrow> string \<Rightarrow> string \<Rightarrow> string \<Rightarrow> ('w, go_error + unit) state" where
  "ensureAdvertisementExists E namespace name clusterID policy = do {
     got \<leftarrow> c_get (g_adv E) (namespace, name);
     case got of
       Inr _ \<Rightarrow> ret (Inr ())
     | Inl e \<Rightarrow>
         if \<not> is_not_found (ErrApi e) then ret (Inl (ErrApi e))
         else do {
           now \<leftarrow> g_now E;
           made \<leftarrow> c_create (g_adv E) (first_advertisement (g_Q E) namespace name clusterID policy now);
           ret (case made of Inl e' \<Rightarrow> Inl (ErrApi e') | Inr _ \<Rightarrow> Inr ())
         }
   }"

text \<open>Only the HTTP transport has a communicator.\<close>

definition NewCommunicator ::
  "('w, 'k, 'c, 'p) AgentStart \<Rightarrow> string \<Rightarrow> string \<Rightarrow> string \<Rightarrow> string \<Rightarrow>
   ('w, go_error + 'w BrokerCommunicator) state" where
  "NewCommunicator S transportType brokerURL certPath clusterID =
     (if transportType = ''http'' then
        (if brokerURL = '''' then ret (Inl (ErrMsg ''broker-url is required for HTTP transport''))
         else if certPath = '''' then ret (Inl (ErrMsg ''broker-cert-path is required for HTTP transport''))
         else or_exit (NewHTTPCommunicator (su_crypto S) brokerURL certPath clusterID)
           (\<lambda>(client, c). ret (Inr (http_communicator (su_http S client) c))))
      else if transportType = ''kubernetes'' then
        ret (Inl (ErrMsg ''kubernetes transport not yet implemented (coming in future iteration)''))
      else ret (Inl (ErrMsg (''unknown transport type: '' @ transportType @ '' (supported: http, kubernetes)''))))"

definition instruction_namespace :: "AgentFlags \<Rightarrow> string" where
  "instruction_namespace F =
     (if af_instructionNamespace F = '''' then af_advertisementNamespace F else af_instructionNamespace F)"

text \<open>The cluster is named by the flag, else by the UID of the namespace \<open>kube-system\<close>.\<close>

definition cluster_identifier :: "('w, 'q) AgentEnv \<Rightarrow> AgentFlags \<Rightarrow> ('w, go_error + string) state" where
  "cluster_identifier E F =
     (if af_clusterID F = '''' then do {
        ns \<leftarrow> g_namespace_uid E ''kube-system'';
        ret (case ns of Inl e \<Rightarrow> Inl (ErrApi e) | Inr uid \<Rightarrow> Inr uid)
      }
      else ret (Inr (af_clusterID F)))"

text \<open>The older flag for a kubeconfig asks for the Kubernetes transport.\<close>

definition effective_transport :: "AgentFlags \<Rightarrow> string" where
  "effective_transport F =
     (if af_brokerKubeconfig F \<noteq> '''' \<and> af_brokerTransport F = '''' then ''kubernetes'' else af_brokerTransport F)"

definition select_transport ::
  "('w, 'k, 'c, 'p) AgentStart \<Rightarrow> AgentFlags \<Rightarrow> string \<Rightarrow>
   ('w, go_error + 'w BrokerClient option \<times> 'w BrokerCommunicator option) state" where
  "select_transport S F clusterID =
     (let t = effective_transport F
      in if t = '''' then ret (Inr (None, None))
         else if t = ''http'' then
           or_exit (NewCommunicator S t (af_brokerURL F) (af_brokerCertPath F) clusterID)
             (\<lambda>c. ret (Inr (None, Some c)))
         else if t = ''kubernetes'' then
           or_exit (NewBrokerClient (su_kubeconfig S) (af_brokerKubeconfig F) clusterID (af_brokerNamespace F))
             (\<lambda>b. ret (Inr (Some b, None)))
         else ret (Inl (ErrMsg ''Unknown broker transport'')))"

section \<open>The plan\<close>

record 'w AgentPlan =
  pl_Advertisement :: "'w AdvertisementReconciler"
  pl_ProviderInstruction :: "'w ProviderInstructionReconciler option"
  pl_Poller :: "'w InstructionPoller option"
  pl_ReservationInstruction :: "'w ReservationInstructionReconciler option"
  pl_ResourceRequest :: "'w ResourceRequestReconciler option"
  pl_Watcher :: "'w ReservationWatcher option"

definition advertisement_reconciler ::
  "AgentFlags \<Rightarrow> string \<Rightarrow> 'w BrokerClient option \<Rightarrow> 'w BrokerCommunicator option \<Rightarrow> 'w AdvertisementReconciler" where
  "advertisement_reconciler F clusterID brokerClient brokerCommunicator =
     \<lparr>ar_MetricsCollector =
        \<lparr>co_ClusterIDOverride = clusterID, co_SharingLogic = af_sharingLogic F,
         co_SharingPercentage = af_sharingPercentage F, co_SharingFixedCPU = af_sharingFixedCPU F,
         co_SharingFixedMemory = af_sharingFixedMemory F, co_SharingFixedGPU = af_sharingFixedGPU F\<rparr>,
      ar_BrokerClient = brokerClient, ar_BrokerCommunicator = brokerCommunicator,
      ar_TargetKey = (af_advertisementNamespace F, af_advertisementName F),
      ar_RequeueInterval = af_advertisementRequeueInterval F,
      ar_InstructionNamespace = instruction_namespace F,
      ar_Renewable = af_renewable F, ar_EnergyCost = af_energyCost F, ar_MockGeoURL = af_mockGeoURL F,
      ar_MockEcoURL = af_mockEcoURL F, ar_ForcedGeoIP = af_advertisedIP F, ar_AgentRole = af_agentRole F\<rparr>"

definition instruction_poller ::
  "AgentFlags \<Rightarrow> 'w BrokerCommunicator option \<Rightarrow> 'w InstructionPoller option" where
  "instruction_poller F brokerCommunicator =
     (case brokerCommunicator of
        None \<Rightarrow> None
      | Some B \<Rightarrow>
          if 0 < af_instructionPollInterval F
          then Some \<lparr>ip_BrokerCommunicator = B, ip_PollInterval = af_instructionPollInterval F,
            ip_InstructionNamespace = instruction_namespace F\<rparr>
          else None)"

definition reservation_watcher ::
  "('w, 'k, 'c, 'p) AgentStart \<Rightarrow> AgentFlags \<Rightarrow> 'w BrokerClient option \<Rightarrow> 'w ReservationWatcher option" where
  "reservation_watcher S F brokerClient =
     (case brokerClient of
        None \<Rightarrow> None
      | Some b \<Rightarrow>
          if lc_Enabled b
          then Some (NewReservationWatcher (kc_nil (su_kubeconfig S)) (Some b) True (instruction_namespace F))
          else None)"

definition agent_plan ::
  "('w, 'k, 'c, 'p) AgentStart \<Rightarrow> AgentFlags \<Rightarrow> string \<Rightarrow> 'w BrokerClient option \<Rightarrow> 'w BrokerCommunicator option \<Rightarrow>
   'w AgentPlan" where
  "agent_plan S F clusterID brokerClient brokerCommunicator =
     (let provider = (af_agentRole F = ''provider''); requester = (af_agentRole F = ''requester'')
      in \<lparr>pl_Advertisement = advertisement_reconciler F clusterID brokerClient brokerCommunicator,
          pl_ProviderInstruction =
            (if provider
             then Some \<lparr>pr_BrokerCommunicator = brokerCommunicator, pr_KubeconfigsDir = af_kubeconfigsDir F,
               pr_ClusterID = clusterID\<rparr>
             else None),
          pl_Poller = (if provider then instruction_poller F brokerCommunicator else None),
          pl_ReservationInstruction =
            (if requester
             then Some \<lparr>rc_BrokerCommunicator = brokerCommunicator, rc_KubeconfigsDir = af_kubeconfigsDir F,
               rc_ClusterID = clusterID\<rparr>
             else None),
          pl_ResourceRequest =
            (if requester
             then Some \<lparr>qc_BrokerCommunicator = brokerCommunicator, qc_InstructionNamespace = instruction_namespace F,
               qc_MockGeoURL = af_mockGeoURL F, qc_ClusterID = clusterID, qc_ForcedGeoIP = af_advertisedIP F,
               qc_ReEvalInterval = af_reEvalInterval F\<rparr>
             else None),
          pl_Watcher = (if requester then reservation_watcher S F brokerClient else None)\<rparr>)"

text \<open>The controllers in the order in which they are set up, and the two health checks.\<close>

definition agent_components :: "AgentFlags \<Rightarrow> string list" where
  "agent_components F =
     [''Advertisement''] @
     (if af_agentRole F = ''provider'' then [''ProviderInstruction''] else []) @
     (if af_agentRole F = ''requester'' then [''ReservationInstruction'', ''ResourceRequest''] else []) @
     [''healthz'', ''readyz'']"

text \<open>From the choice of the transport to the start of the manager.\<close>

definition wire_agent ::
  "('w, 'k, 'c, 'p) AgentStart \<Rightarrow> AgentFlags \<Rightarrow> string \<Rightarrow> ('w, go_error + 'w AgentPlan) state" where
  "wire_agent S F clusterID =
     or_exit (select_transport S F clusterID) (\<lambda>(brokerClient, brokerCommunicator).
       if af_agentRole F \<noteq> ''requester'' \<and> af_agentRole F \<noteq> ''provider'' then ret (Inl (ErrMsg ''Invalid agent-role''))
       else or_exit (setup_all (su_setup S) (agent_components F)) (\<lambda>_.
         ret (Inr (agent_plan S F clusterID brokerClient brokerCommunicator))))"

definition agent_main ::
  "('w, 'q) AgentEnv \<Rightarrow> ('w, 'k, 'c, 'p) AgentStart \<Rightarrow> AgentFlags \<Rightarrow> ('w, go_error + 'w AgentPlan) state" where
  "agent_main E S F =
     or_exit (su_config S) (\<lambda>cfg.
     or_exit (su_client S cfg) (\<lambda>_.
     or_exit (cluster_identifier E F) (\<lambda>clusterID.
     or_exit (su_manager S cfg (manager_options ''e90c6511.fluidos.eu'' (af_Manager F))) (\<lambda>_.
     or_exit (ensureAdvertisementExists E (af_advertisementNamespace F) (af_advertisementName F) clusterID (af_policy F)) (\<lambda>_.
       wire_agent S F clusterID)))))"

section \<open>The run\<close>

text \<open>
  One step of the running agent: a reconciliation of one of its controllers, a tick of the poller, or
  an event the watch delivered.
\<close>

inductive agent_step ::
  "('w, 'q) AgentEnv \<Rightarrow> 'w Services \<Rightarrow> 'w Host \<Rightarrow> 'w AgentPlan \<Rightarrow> 'w \<Rightarrow> 'w \<Rightarrow> bool"
  for E V H P where
  advertises: "run_state (AgentAdvertisement.Reconcile E V (pl_Advertisement P) k) w = (r, w') \<Longrightarrow> agent_step E V H P w w'"
| enforces: "pl_ProviderInstruction P = Some R \<Longrightarrow> run_state (ProviderController.Reconcile E H R k) w = (r, w') \<Longrightarrow>
    agent_step E V H P w w'"
| polls: "pl_Poller P = Some p \<Longrightarrow> run_state (poll E p) w = (u, w') \<Longrightarrow> agent_step E V H P w w'"
| peers: "pl_ReservationInstruction P = Some R \<Longrightarrow> run_state (RequesterController.Reconcile E H R k) w = (r, w') \<Longrightarrow>
    agent_step E V H P w w'"
| requests: "pl_ResourceRequest P = Some R \<Longrightarrow> run_state (RequestController.Reconcile E V R k) w = (r, w') \<Longrightarrow>
    agent_step E V H P w w'"
| watches: "pl_Watcher P = Some W \<Longrightarrow> run_state (dy_watch (rw_Client W) ns) wa = (Inr evs, wb) \<Longrightarrow> ev \<in> set evs \<Longrightarrow>
    run_state (handle_event E W ev) w = (u, w') \<Longrightarrow> agent_step E V H P w w'"

section \<open>What was started\<close>

lemma select_transport_selected:
  assumes "run_state (select_transport S F cid) w = (Inr (b, c), w')"
  shows "c \<noteq> None \<longleftrightarrow> effective_transport F = ''http''" "b \<noteq> None \<longleftrightarrow> effective_transport F = ''kubernetes''"
    "\<And>x. b = Some x \<Longrightarrow> lc_Enabled x \<longleftrightarrow> af_brokerKubeconfig F \<noteq> ''''"
  using assms
  by (auto simp: select_transport_def Let_def dest: NewBrokerClient_enabled split: if_splits elim!: or_exit_Inr)

lemma agent_main_plan:
  assumes "run_state (agent_main E S F) w = (Inr P, w')"
  obtains cid b c w1 w2 w3 w4 w5 where
    "run_state (cluster_identifier E F) w1 = (Inr cid, w2)"
    "run_state (ensureAdvertisementExists E (af_advertisementNamespace F) (af_advertisementName F) cid (af_policy F)) w3 = (Inr (), w4)"
    "run_state (select_transport S F cid) w4 = (Inr (b, c), w5)"
    "af_agentRole F = ''requester'' \<or> af_agentRole F = ''provider''"
    "P = agent_plan S F cid b c"
  using assms unfolding agent_main_def wire_agent_def
  by (elim or_exit_Inr) (auto split: prod.splits if_splits elim!: or_exit_Inr)

section \<open>The bootstrap\<close>

text \<open>What the start uses beside the advertisements leaves them alone.\<close>

locale starting_agent = adv: kube_client "g_adv E" advs
  for E :: "('w, 'q) AgentEnv" and advs :: "'w \<Rightarrow> ('q AdvertisementSpec, AdvertisementStatus) store" +
  fixes S :: "('w, 'k, 'c, 'p) AgentStart"
  assumes env_quiet: "keeps advs (g_now E)" "keeps advs (g_namespace_uid E ns)"
    and client_quiet: "keeps advs (su_config S)" "keeps advs (su_client S cfg)" "keeps advs (su_manager S cfg opts)"
      "keeps advs (su_setup S c)"
    and files_quiet: "keeps advs (cy_load_pair (su_crypto S) a b)" "keeps advs (cy_read_file (su_crypto S) a)"
    and kubeconfig_quiet: "kubeconfig_quiet advs (su_kubeconfig S)"
begin

lemma keeps_identifier: "keeps advs (cluster_identifier E F)"
  unfolding cluster_identifier_def by (intro keeps_intros env_quiet)

lemma keeps_select: "keeps advs (select_transport S F cid)"
  unfolding select_transport_def NewCommunicator_def NewHTTPCommunicator_def Let_def split_beta
  by (intro keeps_intros files_quiet kubeconfig_quiet)

lemma ensured:
  assumes "run_state (ensureAdvertisementExists E ns name cid policy) w = (r, w')"
  shows "advs w' = advs w \<or> advs w (ns, name) = None \<and>
      (\<exists>y now. advs w' = (advs w)((ns, name) \<mapsto> y) \<and> o_spec y = o_spec (first_advertisement (g_Q E) ns name cid policy now))"
    "r = Inr u \<Longrightarrow> advs w' (ns, name) \<noteq> None"
proof -
  obtain got w1 where got: "run_state (c_get (g_adv E) (ns, name)) w = (got, w1)" by fastforce
  have w1: "advs w1 = advs w" by (rule adv.get_same [OF got])
  have "(advs w' = advs w \<or> advs w (ns, name) = None \<and>
      (\<exists>y now. advs w' = (advs w)((ns, name) \<mapsto> y) \<and> o_spec y = o_spec (first_advertisement (g_Q E) ns name cid policy now))) \<and>
    (r = Inr u \<longrightarrow> advs w' (ns, name) \<noteq> None)"
  proof (cases got)
    case (Inr x)
    with assms got w1 adv.get_found [OF got [unfolded Inr]] show ?thesis
      by (auto simp: ensureAdvertisementExists_def)
  next
    case (Inl e)
    obtain now w2 where now: "run_state (g_now E) w1 = (now, w2)" by fastforce
    have w2: "advs w2 = advs w" using keepsD [OF env_quiet(1) now] w1 by simp
    let ?x = "first_advertisement (g_Q E) ns name cid policy now"
    have key: "obj_key ?x = (ns, name)" by (simp add: first_advertisement_def new_meta_def meta_key_def)
    obtain made w3 where made: "run_state (c_create (g_adv E) ?x) w2 = (made, w3)" by fastforce
    show ?thesis
    proof (cases "is_not_found (ErrApi e)")
      case False
      with assms got Inl w1 show ?thesis by (auto simp: ensureAdvertisementExists_def)
    next
      case True
      show ?thesis
      proof (cases made)
        case Inl_m: (Inl e')
        with assms got Inl now made True adv.write_fail(1) [OF made [unfolded Inl_m]] w2 show ?thesis
          by (auto simp: ensureAdvertisementExists_def)
      next
        case Inr_m: (Inr y)
        from adv.create_ok [OF made [unfolded Inr_m]] w2 key
        have "advs w (ns, name) = None" "advs w3 = (advs w)((ns, name) \<mapsto> y)" "o_spec y = o_spec ?x" by simp_all
        moreover have "w' = w3" using assms got Inl now made Inr_m True by (auto simp: ensureAdvertisementExists_def)
        ultimately show ?thesis by auto
      qed
    qed
  qed
  then show "advs w' = advs w \<or> advs w (ns, name) = None \<and>
      (\<exists>y now. advs w' = (advs w)((ns, name) \<mapsto> y) \<and> o_spec y = o_spec (first_advertisement (g_Q E) ns name cid policy now))"
    "r = Inr u \<Longrightarrow> advs w' (ns, name) \<noteq> None" by blast+
qed

end

context starting_agent
begin

lemma keeps_wire: "keeps advs (wire_agent S F cid)"
  unfolding wire_agent_def split_beta by (intro keeps_intros keeps_select keeps_setup_all client_quiet)

lemma bootstrapped:
  assumes "run_state (agent_main E S F) w = (r, w')"
  shows "advs w' = advs w \<or>
      advs w (af_advertisementNamespace F, af_advertisementName F) = None \<and>
      (\<exists>y cid now wa wb. run_state (cluster_identifier E F) wa = (Inr cid, wb) \<and>
        advs w' = (advs w)((af_advertisementNamespace F, af_advertisementName F) \<mapsto> y) \<and>
        o_spec y = o_spec (first_advertisement (g_Q E) (af_advertisementNamespace F) (af_advertisementName F) cid (af_policy F) now))"
    (is "?changed w'")
    and "r = Inr P \<Longrightarrow> advs w' (af_advertisementNamespace F, af_advertisementName F) \<noteq> None"
proof -
  let ?k = "(af_advertisementNamespace F, af_advertisementName F)"
  have "?changed w' \<and> (r = Inr P \<longrightarrow> advs w' ?k \<noteq> None)"
    using assms unfolding agent_main_def
  proof (elim keeps_or_exit_steps [OF client_quiet(1)] keeps_or_exit_steps [OF client_quiet(2)]
      keeps_or_exit_steps [OF keeps_identifier] keeps_or_exit_steps [OF client_quiet(3)], goal_cases)
    case (5 cfg w1 u w2 cid w3 v w4)
    then have w4: "advs w4 = advs w" and cid: "run_state (cluster_identifier E F) w2 = (Inr cid, w3)" by simp_all
    have changed: "?changed x" if "run_state (ensureAdvertisementExists E (af_advertisementNamespace F) (af_advertisementName F) cid (af_policy F)) w4 = (q, x)" for q x
      using ensured(1) [OF that] unfolding w4 using cid by blast
    from 5(9) show ?case
    proof (rule or_exit_steps, goal_cases)
      case (1 e)
      with changed [OF 1(1)] show ?case by simp
    next
      case (2 x w5)
      have "?changed w5" by (rule changed [OF 2(1)])
      moreover have "advs w5 ?k \<noteq> None" using ensured(2) [OF 2(1)] by simp
      ultimately show ?case using keepsD [OF keeps_wire 2(2)] by simp
    qed
  qed simp_all
  then show "?changed w'" "r = Inr P \<Longrightarrow> advs w' ?k \<noteq> None" by blast+
qed

end

section \<open>An agent without a communicator\<close>

text \<open>What the components use beside the stores of the agent's own cluster.\<close>

definition dynamic_quiet :: "('w \<Rightarrow> 'd) \<Rightarrow> 'w DynamicClient \<Rightarrow> bool" where
  "dynamic_quiet f D \<longleftrightarrow>
     (\<forall>k. keeps f (dy_get D k)) \<and> (\<forall>k x. keeps f (dy_create D k x)) \<and> (\<forall>k x. keeps f (dy_update D k x))"

lemma dynamic_quietD [keeps_intros]:
  assumes "dynamic_quiet f D"
  shows "keeps f (dy_get D k)" "keeps f (dy_create D k x)" "keeps f (dy_update D k x)"
  using assms unfolding dynamic_quiet_def by blast+

definition surroundings_quiet ::
  "('w \<Rightarrow> 'd) \<Rightarrow> ('w, 'q) AgentEnv \<Rightarrow> 'w Services \<Rightarrow> 'w Host \<Rightarrow> 'w AgentPlan \<Rightarrow> bool" where
  "surroundings_quiet f E V H P \<longleftrightarrow>
     keeps f (g_now E) \<and> (\<forall>n. keeps f (g_rand E n)) \<and> keeps f (g_nodes E) \<and> (\<forall>ns. keeps f (g_pods E ns)) \<and>
     (\<forall>ns. keeps f (g_namespace_uid E ns)) \<and> client_keeps f (g_adv E) \<and> services_quiet f V \<and> host_quiet f H \<and>
     (\<forall>b. ar_BrokerClient (pl_Advertisement P) = Some b \<longrightarrow> dynamic_quiet f (lc_Client b))"

lemma surroundings_quietD:
  assumes "surroundings_quiet f E V H P"
  shows "keeps f (g_now E)" "keeps f (g_rand E n)" "keeps f (g_nodes E)" "keeps f (g_pods E ns)"
    "keeps f (g_namespace_uid E u)" "client_keeps f (g_adv E)" "services_quiet f V" "host_quiet f H"
    "ar_BrokerClient (pl_Advertisement P) = Some b \<Longrightarrow> dynamic_quiet f (lc_Client b)"
  using assms unfolding surroundings_quiet_def by blast+

text \<open>Without a communicator an advertisement brings no instructions back.\<close>

lemma keeps_advertise:
  assumes "surroundings_quiet f E V H P" "keeps f (c_list (g_pi E))" "ar_BrokerCommunicator (pl_Advertisement P) = None"
  shows "keeps f (AgentAdvertisement.Reconcile E V (pl_Advertisement P) k)"
proof -
  note q = surroundings_quietD [OF assms(1)]
  have publish: "keeps f (publishToBroker E V (pl_Advertisement P) adv cid)" for adv cid
    unfolding publishToBroker_def assms(3) option.case LegacyTransport.PublishAdvertisement_def
    by (auto intro!: keeps_intros q split: option.split)
  have status: "keeps f (AgentAdvertisement.updateStatus E (pl_Advertisement P) adv ph pub m)" for adv ph pub m
    unfolding AgentAdvertisement.updateStatus_def schedule_next_def Let_def by (intro keeps_intros q)
  show ?thesis
    unfolding AgentAdvertisement.Reconcile_def measure_cluster_def CollectClusterResources_def
      calculateAllocatedResources_def calculateReservedResources_def Collector.GetClusterID_def write_spec_def
      publish_and_report_def Let_def
    by (intro keeps_intros q assms(2) publish status)
qed

lemma plan_fields [simp]:
  "ar_BrokerCommunicator (pl_Advertisement (agent_plan S F cid b c)) = c"
  "ar_BrokerClient (pl_Advertisement (agent_plan S F cid b c)) = b"
  "pl_ProviderInstruction (agent_plan S F cid b c) = Some R \<Longrightarrow> pr_BrokerCommunicator R = c"
  "pl_ReservationInstruction (agent_plan S F cid b c) = Some T \<Longrightarrow> rc_BrokerCommunicator T = c"
  "pl_ResourceRequest (agent_plan S F cid b c) = Some Q \<Longrightarrow> qc_BrokerCommunicator Q = c"
  by (auto simp: agent_plan_def advertisement_reconciler_def Let_def split: if_splits)

lemma provider_parts:
  assumes "af_agentRole F = ''provider''"
  shows "pl_ReservationInstruction (agent_plan S F cid b c) = None" "pl_ResourceRequest (agent_plan S F cid b c) = None"
    "pl_Watcher (agent_plan S F cid b c) = None" "pl_Poller (agent_plan S F cid b None) = None"
    "pl_ProviderInstruction (agent_plan S F cid b c) \<noteq> None"
  using assms by (simp_all add: agent_plan_def instruction_poller_def Let_def)

lemma requester_parts:
  assumes "af_agentRole F = ''requester''"
  shows "pl_ProviderInstruction (agent_plan S F cid b c) = None" "pl_Poller (agent_plan S F cid b c) = None"
    "pl_ReservationInstruction (agent_plan S F cid b c) \<noteq> None" "pl_ResourceRequest (agent_plan S F cid b c) \<noteq> None"
  using assms by (simp_all add: agent_plan_def Let_def)

text \<open>The plan of an agent whose transport is not HTTP has no communicator.\<close>

lemma silent_plan:
  assumes "run_state (agent_main E S F) w = (Inr P, w')" "effective_transport F \<noteq> ''http''"
  obtains cid b where "P = agent_plan S F cid b None"
proof (rule agent_main_plan [OF assms(1)])
  fix cid b c w4 w5
  assume sel: "run_state (select_transport S F cid) w4 = (Inr (b, c), w5)" and P: "P = agent_plan S F cid b c"
  from select_transport_selected(1) [OF sel] assms(2) have "c = None" by simp
  with P show thesis by (intro that) simp
qed

text \<open>A provider's steps then keep the set of its instructions.\<close>

lemma provider_step_dom:
  assumes "agent_step E V H P w w'" "P = agent_plan S F cid b None" "af_agentRole F = ''provider''"
    "kube_client (g_pi E) pis" "surroundings_quiet pis E V H P"
  shows "dom (pis w') = dom (pis w)"
  using assms(1)
proof (cases rule: agent_step.cases)
  case (advertises k r)
  have "keeps pis (AgentAdvertisement.Reconcile E V (pl_Advertisement P) k)"
    using kube_client.list_keeps [OF assms(4)] assms(2) by (intro keeps_advertise [OF assms(5)]) simp_all
  from keepsD [OF this advertises(1)] show ?thesis by simp
next
  case (enforces R k r)
  have "pr_BrokerCommunicator R = None" using enforces(1) assms(2) by simp
  then have world: "provider_world E pis H R"
    using assms(4) surroundings_quietD(1,8) [OF assms(5)]
    by (simp add: provider_world_def provider_world_axioms_def)
  have "(pis w' k' = None) = (pis w k' = None)" for k'
  proof (cases "pis w' k' = pis w k'")
    case False
    from provider_world.Reconcile_effect [OF world enforces(2) False] show ?thesis by (metis option.distinct(1))
  qed simp
  then show ?thesis by (auto simp: dom_def)
qed (use assms(2) in \<open>simp_all add: provider_parts [OF assms(3)]\<close>)

text \<open>A requester's steps report no new reservation.\<close>

lemma keeps_requester_reconcile:
  assumes "client_keeps f (g_ri E)" "\<And>x. keeps f (g_delete_ri E x)" "keeps f (g_now E)" "host_quiet f H"
    "rc_BrokerCommunicator R = None"
  shows "keeps f (RequesterController.Reconcile E H R k)"
  unfolding RequesterController.Reconcile_def teardown_def fetch_credential_def peer_def Let_def assms(5) option.case
  by (intro keeps_intros assms)

lemma keeps_handle_event:
  assumes "client_keeps f (g_ri E)" "client_keeps f (g_pi E)" "keeps f (g_now E)"
  shows "keeps f (handle_event E W ev)"
  unfolding handle_event_def upsertRequesterInstruction_def upsertProviderInstruction_def upsert_def Let_def
  by (intro keeps_intros assms)

text \<open>The stores of the requester, with the plan's own reconciler.\<close>

definition requester_store ::
  "('w, 'q) AgentEnv \<Rightarrow> 'w Services \<Rightarrow> 'w Host \<Rightarrow> 'w AgentPlan \<Rightarrow>
   ('w \<Rightarrow> (ResourceRequestSpec, ResourceRequestStatus) store) \<Rightarrow>
   ('w \<Rightarrow> (ReservationInstructionSpec, ReservationInstructionStatus) store) \<Rightarrow> bool" where
  "requester_store E V H P rrs ris \<longleftrightarrow>
     (\<forall>R. pl_ResourceRequest P = Some R \<longrightarrow> request_world E rrs ris V R) \<and>
     surroundings_quiet rrs E V H P \<and> client_keeps rrs (g_pi E)"

lemma requester_step_requests:
  assumes "agent_step E V H P w w'" "P = agent_plan S F cid b None" "af_agentRole F = ''requester''"
    "requester_store E V H P rrs ris" "rrs w' k' = Some y" "rqt_Phase (o_status y) = ''Reserved''"
  shows "\<exists>x. rrs w k' = Some x \<and> rqt_Phase (o_status x) = ''Reserved''"
proof -
  have frame: ?thesis if "keeps rrs m" "run_state m w = (r, w')" for m :: "('a, 'x) state" and r
    using keepsD [OF that] assms(5,6) by simp
  obtain R where R: "pl_ResourceRequest P = Some R"
    using requester_parts(4) [OF assms(3), of S cid b None] assms(2) by auto
  with assms(4) have world: "request_world E rrs ris V R" by (simp add: requester_store_def)
  have q: "surroundings_quiet rrs E V H P" and pi: "client_keeps rrs (g_pi E)"
    using assms(4) by (simp_all add: requester_store_def)
  note quiet = surroundings_quietD [OF q]
  have ri: "client_keeps rrs (g_ri E)" "\<And>x. keeps rrs (g_delete_ri E x)"
    using request_world.ri_keeps_rrs [OF world] request_world.delete_keeps_rrs [OF world] by blast+
  show ?thesis using assms(1)
  proof (cases rule: agent_step.cases)
    case (advertises k r)
    show ?thesis
      by (rule frame [OF keeps_advertise [OF q] advertises(1)]) (use client_keepsD [OF pi] assms(2) in simp_all)
  next
    case (peers T k r)
    have "rc_BrokerCommunicator T = None" using peers(1) assms(2) by simp
    then show ?thesis
      by (intro frame [OF keeps_requester_reconcile [OF ri quiet(1) quiet(8)] peers(2)])
  next
    case (requests Q k r)
    with R have Q: "Q = R" by simp
    have none: "qc_BrokerCommunicator R = None" using R assms(2) by simp
    show ?thesis
    proof (cases "rrs w' k' = rrs w k'")
      case True
      with assms(5,6) show ?thesis by simp
    next
      case False
      from request_world.Reconcile_moves [OF world requests(2) [unfolded Q] False] obtain old z where
        "rrs w' k = Some z" "k' = k" "request_world.outcome ris R old z w'" by metis
      with none assms(5,6) show ?thesis
        by (auto simp: request_world.outcome_def [OF world] request_world.granted_def [OF world])
    qed
  next
    case (watches W ns wa evs wb ev u)
    show ?thesis by (rule frame [OF keeps_handle_event [OF ri(1) pi quiet(1)] watches(4)])
  qed (use assms(2) in \<open>simp_all add: requester_parts [OF assms(3)]\<close>)
qed

section \<open>An executable start\<close>

definition sample_dynamic :: "'w DynamicClient" where
  "sample_dynamic =
     \<lparr>dy_get = (\<lambda>k. ret (Inl (NotFound ''not found''))), dy_create = (\<lambda>k x. ret (Inr x)), dy_update = (\<lambda>k x. ret (Inr x)),
      dy_watch = (\<lambda>ns. ret (Inr [])), dy_sleep = (\<lambda>d. ret ()), dy_format = (\<lambda>t. []), dy_parse = (\<lambda>s. None),
      un_map = (\<lambda>j k. None), un_string = (\<lambda>j k. None), un_name = (\<lambda>j. []), un_version = (\<lambda>j. [])\<rparr>"

definition sample_start :: "('w, unit, string, string) AgentStart" where
  "sample_start =
     \<lparr>su_config = ret (Inr ()), su_client = (\<lambda>c. ret (Inr ())), su_manager = (\<lambda>c opts. ret (Inr ())),
      su_setup = (\<lambda>c. ret (Inr ())),
      su_crypto = sample_crypto,
      su_http = (\<lambda>client.
        \<lparr>h_new_request_error = (\<lambda>u. None), h_do = (\<lambda>req. ret (Inl (ErrMsg ''connection refused''))),
         h_sleep = (\<lambda>d. ret True), h_ctx_err = ErrMsg ''context canceled'', enc_advertisement = (\<lambda>d. Inr []),
         enc_request = (\<lambda>d. Inr []), enc_kubeconfig = Inr, dec_advertisement = (\<lambda>s. Inl (ErrMsg ''EOF'')),
         dec_response = (\<lambda>s. Inl (ErrMsg ''EOF'')), dec_reservation = (\<lambda>s. Inl (ErrMsg ''EOF'')),
         dec_reservations = (\<lambda>s. Inr []), dec_evaluation = (\<lambda>s. Inl (ErrMsg ''EOF''))\<rparr>),
      su_kubeconfig =
        \<lparr>kc_home = ret (Inr ''/root''), kc_build = (\<lambda>p. ret (Inr ())), kc_dynamic = (\<lambda>c. ret (Inr sample_dynamic)),
         kc_nil = sample_dynamic\<rparr>\<rparr>"

interpretation agent_start: starting_agent agent_env "\<lambda>w. store_get (aw_advs w)" sample_start
proof (intro starting_agent.intro starting_agent_axioms.intro)
  show "kube_client (g_adv agent_env) (\<lambda>w. store_get (aw_advs w))" by (simp add: aw_adv.kube_client_axioms)
qed (auto simp: keeps_def sample_start_def sample_crypto_def kubeconfig_quiet_def agent_env_def)

definition sample_flags :: "string \<Rightarrow> AgentFlags" where
  "sample_flags role = default_agent_flags\<lparr>af_brokerKubeconfig := ''~/broker.kubeconfig'', af_clusterID := ''b'', af_agentRole := role\<rparr>"

lemma sample_flags_run:
  assumes "role = ''provider'' \<or> role = ''requester''"
  shows "\<exists>w'. run_state (agent_main agent_env sample_start (sample_flags role)) sample_agent_world =
    (Inr (agent_plan sample_start (sample_flags role) ''b''
      (Some \<lparr>lc_Client = sample_dynamic, lc_ClusterID = ''b'', lc_Enabled = True, lc_Namespace = ''default''\<rparr>) None), w')"
proof -
  have "run_state (setup_all (su_setup sample_start) cs) w = (Inr (), w)" for cs and w :: agent_world
    by (induction cs) (simp_all add: sample_start_def)
  then show ?thesis using assms
    by (auto simp: agent_main_def wire_agent_def or_exit_def cluster_identifier_def ensureAdvertisementExists_def
        select_transport_def effective_transport_def NewBrokerClient_def loadBrokerConfig_def sample_start_def
        sample_flags_def default_agent_flags_def sample_agent_world_def first_advertisement_def new_meta_def mem_write_defs Let_def)
qed

lemma sample_surroundings:
  assumes "\<And>b. ar_BrokerClient (pl_Advertisement P) = Some b \<Longrightarrow> lc_Client b = sample_dynamic"
    "client_keeps f (g_adv agent_env)" "keeps f (g_now agent_env)"
  shows "surroundings_quiet f agent_env no_services sample_host P"
  unfolding surroundings_quiet_def
  using assms no_services_quiet sample_host_quiet
  by (auto simp: dynamic_quiet_def sample_dynamic_def keeps_def agent_env_def)

section \<open>Properties\<close>

text \<open>
  C28. The start of the agent and its advertisement: however the start ends, it writes no
  advertisement but the one the flags name, and that only where there was none, with the identifier
  of this cluster, the flags' policy and zero amounts; a start that succeeds leaves one there, which
  is the one its advertisement controller is for. So a restart changes nothing.
\<close>

theorem start_bootstraps_advertisement:
  assumes "starting_agent E advs S" "run_state (agent_main E S F) w = (r, w')"
  shows "(advs w' = advs w \<or>
      advs w (af_advertisementNamespace F, af_advertisementName F) = None \<and>
      (\<exists>y cid wa wb. run_state (cluster_identifier E F) wa = (Inr cid, wb) \<and>
        advs w' = (advs w)((af_advertisementNamespace F, af_advertisementName F) \<mapsto> y) \<and>
        asp_ClusterID (o_spec y) = cid \<and> asp_Policy (o_spec y) = af_policy F \<and>
        asp_Resources (o_spec y) = defaultResourceMetrics (g_Q E))) \<and>
    (\<forall>P. r = Inr P \<longrightarrow> advs w' (af_advertisementNamespace F, af_advertisementName F) \<noteq> None \<and>
      ar_TargetKey (pl_Advertisement P) = (af_advertisementNamespace F, af_advertisementName F))"
proof (intro conjI allI impI)
  let ?k = "(af_advertisementNamespace F, af_advertisementName F)"
  show "advs w' = advs w \<or> advs w ?k = None \<and> (\<exists>y cid wa wb. run_state (cluster_identifier E F) wa = (Inr cid, wb) \<and>
      advs w' = (advs w)(?k \<mapsto> y) \<and> asp_ClusterID (o_spec y) = cid \<and> asp_Policy (o_spec y) = af_policy F \<and>
      asp_Resources (o_spec y) = defaultResourceMetrics (g_Q E))"
    using starting_agent.bootstrapped(1) [OF assms]
  proof (elim disjE conjE exE)
    fix y cid now wa wb
    assume "o_spec y = o_spec (first_advertisement (g_Q E) (af_advertisementNamespace F) (af_advertisementName F) cid (af_policy F) now)"
      and here: "advs w ?k = None" "advs w' = (advs w)(?k \<mapsto> y)" "run_state (cluster_identifier E F) wa = (Inr cid, wb)"
    then have "asp_ClusterID (o_spec y) = cid" "asp_Policy (o_spec y) = af_policy F"
      "asp_Resources (o_spec y) = defaultResourceMetrics (g_Q E)" by (simp_all add: first_advertisement_def)
    with here show ?thesis by blast
  qed simp
next
  fix P assume P: "r = Inr P"
  show "advs w' (af_advertisementNamespace F, af_advertisementName F) \<noteq> None"
    by (rule starting_agent.bootstrapped(2) [OF assms P])
  from agent_main_plan [OF assms(2) [unfolded P]] obtain cid b c where "P = agent_plan S F cid b c" by metis
  then show "ar_TargetKey (pl_Advertisement P) = (af_advertisementNamespace F, af_advertisementName F)"
    by (simp add: agent_plan_def advertisement_reconciler_def Let_def)
qed

lemma start_bootstraps_witness:
  "\<exists>r w'. run_state (agent_main agent_env sample_start (sample_flags ''provider'')) sample_agent_world = (r, w') \<and>
    store_get (aw_advs w') (''default'', ''cluster-advertisement'') \<noteq> None"
proof -
  obtain P w' where run: "run_state (agent_main agent_env sample_start (sample_flags ''provider'')) sample_agent_world = (Inr P, w')"
    using sample_flags_run by blast
  from start_bootstraps_advertisement [OF agent_start.starting_agent_axioms run] run show ?thesis
    by (auto simp: sample_flags_def default_agent_flags_def)
qed

text \<open>
  C22. A provider that is not started with the HTTP transport is never told what to hold: whatever
  steps its components take, no instruction appears among those of its cluster (and none goes), even
  though the broker reserves its resources. The watcher, which would create them over the Kubernetes
  transport, is started for requesters only.
\<close>

theorem kubernetes_provider_untold:
  assumes "run_state (agent_main E S F) w0 = (Inr P, w1)" "effective_transport F \<noteq> ''http''"
    "af_agentRole F = ''provider''" "kube_client (g_pi E) pis" "surroundings_quiet pis E V H P"
    "(agent_step E V H P)\<^sup>*\<^sup>* w w'"
  shows "dom (pis w') = dom (pis w)"
proof -
  obtain cid b where P: "P = agent_plan S F cid b None" by (rule silent_plan [OF assms(1,2)])
  from assms(6) show ?thesis
    by (induction rule: rtranclp_induct) (use provider_step_dom [OF _ P assms(3,4,5)] in auto)
qed

lemma kubernetes_provider_witness:
  "\<exists>P w1 w'. run_state (agent_main agent_env sample_start (sample_flags ''provider'')) sample_agent_world = (Inr P, w1) \<and>
    agent_step agent_env no_services sample_host P w1 w' \<and>
    dom (store_get (aw_pis w')) = dom (store_get (aw_pis w1))"
proof -
  obtain P w1 where run: "run_state (agent_main agent_env sample_start (sample_flags ''provider'')) sample_agent_world = (Inr P, w1)"
    and P: "P = agent_plan sample_start (sample_flags ''provider'') ''b''
      (Some \<lparr>lc_Client = sample_dynamic, lc_ClusterID = ''b'', lc_Enabled = True, lc_Namespace = ''default''\<rparr>) None"
    using sample_flags_run by blast
  obtain r w' where "run_state (AgentAdvertisement.Reconcile agent_env no_services (pl_Advertisement P)
      (''default'', ''cluster-advertisement'')) w1 = (r, w')" by (meson surj_pair)
  then have step: "agent_step agent_env no_services sample_host P w1 w'" by (rule agent_step.advertises)
  then have steps: "(agent_step agent_env no_services sample_host P)\<^sup>*\<^sup>* w1 w'" by (rule r_into_rtranclp)
  have quiet: "surroundings_quiet (\<lambda>w. store_get (aw_pis w)) agent_env no_services sample_host P"
    using P aw_adv.mem_client_keeps [of "\<lambda>w. store_get (aw_pis w)"]
    by (intro sample_surroundings) (auto simp: keeps_def agent_env_def)
  have "effective_transport (sample_flags ''provider'') \<noteq> ''http''" "af_agentRole (sample_flags ''provider'') = ''provider''"
    by (simp_all add: sample_flags_def default_agent_flags_def effective_transport_def)
  from kubernetes_provider_untold [where pis = "\<lambda>w. store_get (aw_pis w)", OF run this _ quiet steps]
  have "dom (store_get (aw_pis w')) = dom (store_get (aw_pis w1))" by (simp add: aw_pi.kube_client_axioms)
  with run step show ?thesis by blast
qed

text \<open>
  A requester that is not started with the HTTP transport never obtains a reservation: whatever
  steps its components take, a request that is Reserved was so before. Its requests go to Failed, and
  the watcher of the Kubernetes transport has nothing to deliver for them.
\<close>

theorem kubernetes_requester_unserved:
  assumes "run_state (agent_main E S F) w0 = (Inr P, w1)" "effective_transport F \<noteq> ''http''"
    "af_agentRole F = ''requester''" "requester_store E V H P rrs ris" "(agent_step E V H P)\<^sup>*\<^sup>* w w'"
    "rrs w' k = Some y" "rqt_Phase (o_status y) = ''Reserved''"
  shows "\<exists>x. rrs w k = Some x \<and> rqt_Phase (o_status x) = ''Reserved''"
proof -
  obtain cid b where P: "P = agent_plan S F cid b None" by (rule silent_plan [OF assms(1,2)])
  from assms(5,6,7) show ?thesis
  proof (induction arbitrary: y rule: rtranclp_induct)
    case (step w2 w3)
    from requester_step_requests [OF step(2) P assms(3,4) step(4,5)] step.IH show ?case by blast
  qed blast
qed

lemma sample_requester_store:
  assumes "\<And>b. ar_BrokerClient (pl_Advertisement P) = Some b \<Longrightarrow> lc_Client b = sample_dynamic"
    "\<And>R. pl_ResourceRequest P = Some R \<Longrightarrow> qc_BrokerCommunicator R = None"
  shows "requester_store agent_env no_services sample_host P (\<lambda>w. store_get (aw_rrs w)) (\<lambda>w. store_get (aw_ris w))"
  unfolding requester_store_def
proof (intro conjI allI impI)
  fix R assume "pl_ResourceRequest P = Some R"
  then have "qc_BrokerCommunicator R = None" by (rule assms(2))
  with agent_request.request_world_axioms
  show "request_world agent_env (\<lambda>w. store_get (aw_rrs w)) (\<lambda>w. store_get (aw_ris w)) no_services R"
    by (simp add: request_world_def request_world_axioms_def)
next
  show "surroundings_quiet (\<lambda>w. store_get (aw_rrs w)) agent_env no_services sample_host P"
    using aw_adv.mem_client_keeps [of "\<lambda>w. store_get (aw_rrs w)"] assms(1)
    by (intro sample_surroundings) (auto simp: keeps_def agent_env_def)
  show "client_keeps (\<lambda>w. store_get (aw_rrs w)) (g_pi agent_env)"
    using aw_pi.mem_client_keeps [of "\<lambda>w. store_get (aw_rrs w)"] by simp
qed

definition reserved_request :: ResourceRequest where
  "reserved_request = sample_request\<lparr>o_status := (o_status sample_request)\<lparr>rqt_Phase := ''Reserved''\<rparr>\<rparr>"

lemma kubernetes_requester_witness:
  "\<exists>P w1 r w'. run_state (agent_main agent_env sample_start (sample_flags ''requester'')) sample_agent_world = (Inr P, w1) \<and>
    agent_step agent_env no_services sample_host P (w1\<lparr>aw_rrs := [reserved_request]\<rparr>) w' \<and>
    (\<forall>k y. store_get (aw_rrs w') k = Some y \<longrightarrow> rqt_Phase (o_status y) = ''Reserved'' \<longrightarrow> k = (''default'', ''r''))"
proof -
  obtain P w1 where run: "run_state (agent_main agent_env sample_start (sample_flags ''requester'')) sample_agent_world = (Inr P, w1)"
    and P: "P = agent_plan sample_start (sample_flags ''requester'') ''b''
      (Some \<lparr>lc_Client = sample_dynamic, lc_ClusterID = ''b'', lc_Enabled = True, lc_Namespace = ''default''\<rparr>) None"
    using sample_flags_run by blast
  let ?w = "w1\<lparr>aw_rrs := [reserved_request]\<rparr>"
  obtain r w' where "run_state (AgentAdvertisement.Reconcile agent_env no_services (pl_Advertisement P)
      (''default'', ''cluster-advertisement'')) ?w = (r, w')" by (meson surj_pair)
  then have step: "agent_step agent_env no_services sample_host P ?w w'" by (rule agent_step.advertises)
  then have steps: "(agent_step agent_env no_services sample_host P)\<^sup>*\<^sup>* ?w w'" by (rule r_into_rtranclp)
  have store: "requester_store agent_env no_services sample_host P (\<lambda>w. store_get (aw_rrs w)) (\<lambda>w. store_get (aw_ris w))"
    using P by (intro sample_requester_store) auto
  have flags: "effective_transport (sample_flags ''requester'') \<noteq> ''http''" "af_agentRole (sample_flags ''requester'') = ''requester''"
    by (simp_all add: sample_flags_def default_agent_flags_def effective_transport_def)
  have "k = (''default'', ''r'')" if y: "store_get (aw_rrs w') k = Some y" "rqt_Phase (o_status y) = ''Reserved''" for k y
    using kubernetes_requester_unserved [where rrs = "\<lambda>w. store_get (aw_rrs w)", OF run flags store steps y]
    by (auto simp: store_get_def reserved_request_def sample_request_def meta_key_def new_meta_def split: if_splits)
  with run step show ?thesis by blast
qed

lemma http_communicator_made:
  assumes "run_state (NewCommunicator S ''http'' url path cid) w = (Inr B, w')"
  obtains client cert pem pool wa where
    "B = http_communicator (su_http S client) \<lparr>hc_baseURL = url, hc_clusterID = cid, hc_maxRetries = 3\<rparr>"
    "run_state (cy_load_pair (su_crypto S) (path_Join [path, ''tls.crt'']) (path_Join [path, ''tls.key''])) w = (Inr cert, wa)"
    "run_state (cy_read_file (su_crypto S) (path_Join [path, ''ca.crt''])) wa = (Inr pem, w')" "cy_pool (su_crypto S) pem = Some pool"
    "tc_Certificates (hx_TLS client) = [cert]" "tc_RootCAs (hx_TLS client) = Some pool" "VersionTLS12 \<le> tc_MinVersion (hx_TLS client)"
proof -
  from assms obtain client conn where B: "B = http_communicator (su_http S client) conn"
    "run_state (NewHTTPCommunicator (su_crypto S) url path cid) w = (Inr (client, conn), w')"
    by (auto simp: NewCommunicator_def split: if_splits elim!: or_exit_Inr)
  then obtain cert pool where l: "run_state (load_mtls (su_crypto S) ''client'' path) w = (Inr (cert, pool), w')"
    and conn: "conn = \<lparr>hc_baseURL = url, hc_clusterID = cid, hc_maxRetries = 3\<rparr>"
    and tls: "tc_Certificates (hx_TLS client) = [cert]" "tc_RootCAs (hx_TLS client) = Some pool" "tc_MinVersion (hx_TLS client) = VersionTLS12"
    by (auto simp: NewHTTPCommunicator_def zero_tls_def split: prod.splits sum.splits)
  show ?thesis
    by (rule load_mtls_loaded [OF l]) (rule that [of client cert]; simp add: B(1) conn tls)
qed

lemma plan_without_client:
  "pl_Watcher (agent_plan S F cid None c) = None"
  "af_agentRole F = ''provider'' \<Longrightarrow>
    map_option pr_BrokerCommunicator (pl_ProviderInstruction (agent_plan S F cid None c)) = Some c \<and>
    map_option ip_BrokerCommunicator (pl_Poller (agent_plan S F cid None c)) = (if 0 < af_instructionPollInterval F then c else None)"
  "af_agentRole F = ''requester'' \<Longrightarrow>
    map_option rc_BrokerCommunicator (pl_ReservationInstruction (agent_plan S F cid None c)) = Some c \<and>
    map_option qc_BrokerCommunicator (pl_ResourceRequest (agent_plan S F cid None c)) = Some c \<and>
    pl_Poller (agent_plan S F cid None c) = None"
  by (simp_all add: agent_plan_def reservation_watcher_def instruction_poller_def Let_def split: option.split)

text \<open>
  C29. What an agent started with the HTTP transport talks to: every component of its role has the
  same communicator, to the broker of the flags and with three retries, over a client that shows the
  certificate of the flags' directory, trusts the authority of that directory only, and offers no TLS
  older than 1.2. A provider polls unless the interval switches that off; no older client is there.
\<close>

theorem http_agent_connected:
  assumes "run_state (agent_main E S F) w = (Inr P, w')" "effective_transport F = ''http''"
  shows "\<exists>c client cert pem pool wa wb wc wd. c = Some (http_communicator (su_http S client)
        \<lparr>hc_baseURL = af_brokerURL F, hc_clusterID = co_ClusterIDOverride (ar_MetricsCollector (pl_Advertisement P)), hc_maxRetries = 3\<rparr>) \<and>
    run_state (cy_load_pair (su_crypto S) (path_Join [af_brokerCertPath F, ''tls.crt'']) (path_Join [af_brokerCertPath F, ''tls.key''])) wa = (Inr cert, wb) \<and>
    run_state (cy_read_file (su_crypto S) (path_Join [af_brokerCertPath F, ''ca.crt''])) wc = (Inr pem, wd) \<and> cy_pool (su_crypto S) pem = Some pool \<and>
    tc_Certificates (hx_TLS client) = [cert] \<and> tc_RootCAs (hx_TLS client) = Some pool \<and> VersionTLS12 \<le> tc_MinVersion (hx_TLS client) \<and>
    ar_BrokerCommunicator (pl_Advertisement P) = c \<and> ar_BrokerClient (pl_Advertisement P) = None \<and> pl_Watcher P = None \<and>
    (if af_agentRole F = ''provider''
     then map_option pr_BrokerCommunicator (pl_ProviderInstruction P) = Some c \<and>
       map_option ip_BrokerCommunicator (pl_Poller P) = (if 0 < af_instructionPollInterval F then c else None)
     else map_option rc_BrokerCommunicator (pl_ReservationInstruction P) = Some c \<and>
       map_option qc_BrokerCommunicator (pl_ResourceRequest P) = Some c \<and> pl_Poller P = None)"
proof -
  obtain cid b c w4 w5 where sel: "run_state (select_transport S F cid) w4 = (Inr (b, c), w5)"
    and role: "af_agentRole F = ''requester'' \<or> af_agentRole F = ''provider''" and P: "P = agent_plan S F cid b c"
    by (rule agent_main_plan [OF assms(1)])
  from select_transport_selected(2) [OF sel] assms(2) have b: "b = None" by simp
  from sel assms(2) obtain B where c: "c = Some B"
    and B: "run_state (NewCommunicator S ''http'' (af_brokerURL F) (af_brokerCertPath F) cid) w4 = (Inr B, w5)"
    by (auto simp: select_transport_def Let_def elim!: or_exit_Inr)
  have id: "co_ClusterIDOverride (ar_MetricsCollector (pl_Advertisement P)) = cid"
    by (simp add: P agent_plan_def advertisement_reconciler_def Let_def)
  from B obtain client cert pem pool wa where made:
    "c = Some (http_communicator (su_http S client) \<lparr>hc_baseURL = af_brokerURL F, hc_clusterID = cid, hc_maxRetries = 3\<rparr>)"
    "run_state (cy_load_pair (su_crypto S) (path_Join [af_brokerCertPath F, ''tls.crt'']) (path_Join [af_brokerCertPath F, ''tls.key''])) w4 = (Inr cert, wa)"
    "run_state (cy_read_file (su_crypto S) (path_Join [af_brokerCertPath F, ''ca.crt''])) wa = (Inr pem, w5)" "cy_pool (su_crypto S) pem = Some pool"
    "tc_Certificates (hx_TLS client) = [cert]" "tc_RootCAs (hx_TLS client) = Some pool" "VersionTLS12 \<le> tc_MinVersion (hx_TLS client)"
    unfolding c by (rule http_communicator_made) auto
  have parts: "ar_BrokerCommunicator (pl_Advertisement P) = c" "ar_BrokerClient (pl_Advertisement P) = None" "pl_Watcher P = None"
    by (simp_all add: P b plan_without_client)
  have roles: "if af_agentRole F = ''provider''
     then map_option pr_BrokerCommunicator (pl_ProviderInstruction P) = Some c \<and>
       map_option ip_BrokerCommunicator (pl_Poller P) = (if 0 < af_instructionPollInterval F then c else None)
     else map_option rc_BrokerCommunicator (pl_ReservationInstruction P) = Some c \<and>
       map_option qc_BrokerCommunicator (pl_ResourceRequest P) = Some c \<and> pl_Poller P = None"
    using role plan_without_client(2,3) [of F S cid c] by (auto simp: P b)
  show ?thesis
    by (intro exI conjI, rule made(1) [folded id], rule made(2), rule made(3), rule made(4), rule made(5), rule made(6),
        rule made(7), rule parts(1), rule parts(2), rule parts(3), rule roles)
qed

definition http_flags :: AgentFlags where
  "http_flags = (sample_flags ''provider'')\<lparr>af_brokerKubeconfig := '''', af_brokerTransport := ''http'',
     af_brokerURL := ''https://broker:8443'', af_brokerCertPath := ''/etc/agent/certs''\<rparr>"

lemma http_agent_witness:
  "\<exists>P w' client. run_state (agent_main agent_env sample_start http_flags) sample_agent_world = (Inr P, w') \<and>
    tc_RootCAs (hx_TLS client) = Some ''/etc/agent/certs/ca.crt'' \<and>
    ar_BrokerCommunicator (pl_Advertisement P) = Some (http_communicator (su_http sample_start client)
      \<lparr>hc_baseURL = ''https://broker:8443'', hc_clusterID = ''b'', hc_maxRetries = 3\<rparr>)"
proof -
  have "run_state (setup_all (su_setup sample_start) cs) w = (Inr (), w)" for cs and w :: agent_world
    by (induction cs) (simp_all add: sample_start_def)
  then have "\<exists>w' B. run_state (agent_main agent_env sample_start http_flags) sample_agent_world =
      (Inr (agent_plan sample_start http_flags ''b'' None (Some B)), w')"
    by (auto simp: agent_main_def wire_agent_def or_exit_def cluster_identifier_def ensureAdvertisementExists_def
        select_transport_def effective_transport_def NewCommunicator_def NewHTTPCommunicator_def load_mtls_def sample_start_def sample_crypto_def
        http_flags_def sample_flags_def default_agent_flags_def sample_agent_world_def first_advertisement_def new_meta_def
        mem_write_defs Let_def)
  then obtain w' B where run: "run_state (agent_main agent_env sample_start http_flags) sample_agent_world =
      (Inr (agent_plan sample_start http_flags ''b'' None (Some B)), w')" (is "_ = (Inr ?P, _)") by blast
  have http: "effective_transport http_flags = ''http''"
    by (simp add: http_flags_def sample_flags_def default_agent_flags_def effective_transport_def)
  have ca: "path_Join [''/etc/agent/certs'', ''ca.crt''] = ''/etc/agent/certs/ca.crt''"
    by (simp add: path_Join_def path_Clean_def)
  have cid: "co_ClusterIDOverride (ar_MetricsCollector (pl_Advertisement ?P)) = ''b''"
    by (simp add: agent_plan_def advertisement_reconciler_def Let_def)
  from http_agent_connected [OF run http] run ca cid show ?thesis
    by (auto simp: sample_start_def sample_crypto_def http_flags_def sample_flags_def default_agent_flags_def)
qed

end
