(* ===== verification/MockServices.thy ===== *)
theory MockServices
  imports PeerHost DecisionCost
begin

text \<open>
  The three services that stand in for the web APIs in a deployment: mock-geo (location of an IP),
  mock-eco (carbon and price forecasts of a region) and mock-currency (exchange rates), each with its
  tables and its HTTP handler (\<open>internal/api/server.go\<close> of the directories of these names). A time is
  UTC, so the hour of the day is a remainder. SHA-256, \<open>net.ParseIP\<close> and the formatting of times are
  parameters.
\<close>

section \<open>mock-geo\<close>

record GeoResponse =
  gr_Query :: string
  gr_Status :: string
  gr_Message :: string
  gr_ContinentCode :: string
  gr_CountryCode :: string
  gr_Region :: string
  gr_RegionName :: string
  gr_City :: string
  gr_Lat :: float64
  gr_Lon :: float64
  gr_ISP :: string
  gr_Org :: string
  gr_AS :: string

definition place ::
  "string \<Rightarrow> string \<Rightarrow> string \<Rightarrow> string \<Rightarrow> string \<Rightarrow> float64 \<Rightarrow> float64 \<Rightarrow> string \<Rightarrow> string \<Rightarrow> string \<Rightarrow> GeoResponse" where
  "place continent country region regionName city lat lon isp org as_number =
     \<lparr>gr_Query = [], gr_Status = [], gr_Message = [], gr_ContinentCode = continent, gr_CountryCode = country,
      gr_Region = region, gr_RegionName = regionName, gr_City = city, gr_Lat = lat, gr_Lon = lon, gr_ISP = isp,
      gr_Org = org, gr_AS = as_number\<rparr>"

definition locations :: "GeoResponse list" where
  "locations =
    [
     place ''NA'' ''CA'' ''QC'' ''Quebec'' ''Montreal'' (lit (456085 / 10000)) (lit (- (735493 / 10000)))
       ''Le Groupe Videotron Ltee'' ''Videotron Ltee'' ''AS5769 Videotron Ltee'',
     place ''EU'' ''IT'' ''LOM'' ''Lombardy'' ''Milan'' (lit (454642 / 10000)) (lit (91900 / 10000))
       ''Telecom Italia Mobile'' ''Telecom Italia'' ''AS3269 Telecom Italia S.p.a.'',
     place ''NA'' ''US'' ''CA'' ''California'' ''San Jose'' (lit (373382 / 10000)) (lit (- (1218863 / 10000)))
       ''Google LLC'' ''Google Cloud'' ''AS15169 Google LLC'',
     place ''EU'' ''DE'' ''HE'' ''Hesse'' ''Frankfurt'' (lit (501109 / 10000)) (lit (86821 / 10000))
       ''Amazon.com'' ''AWS'' ''AS16509 Amazon.com Services LLC'',
     place ''AS'' ''JP'' ''13'' ''Tokyo'' ''Tokyo'' (lit (356895 / 10000)) (lit (1396917 / 10000))
       ''NTT Communications'' ''NTT'' ''AS2914 NTT America, Inc.'',
     place ''OC'' ''AU'' ''NSW'' ''New South Wales'' ''Sydney'' (lit (- (338688 / 10000))) (lit (1512093 / 10000))
       ''Telstra Corporation'' ''Telstra'' ''AS1221 Telstra Corporation Ltd'',
     place ''EU'' ''FR'' ''IDF'' ''Ile-de-France'' ''Paris'' (lit (488566 / 10000)) (lit (23522 / 10000))
       ''Orange'' ''Orange'' ''AS3215 Orange S.A.'',
     place ''SA'' ''BR'' ''SP'' ''Sao Paulo'' ''Sao Paulo'' (lit (- (235505 / 10000))) (lit (- (466333 / 10000)))
       ''Claro'' ''Claro'' ''AS28573 Claro S.A.'',
     place ''AS'' ''SG'' ''SG'' ''Singapore'' ''Singapore'' (lit (13521 / 10000)) (lit (1038198 / 10000))
       ''Singtel'' ''Singtel'' ''AS7473 Singapore Telecommunications Ltd'',
     place ''EU'' ''GB'' ''ENG'' ''England'' ''London'' (lit (515074 / 10000)) (lit (- (1278 / 10000)))
       ''British Telecommunications'' ''BT'' ''AS2856 British Telecommunications PLC'']"

text \<open>\<open>sha\<close> is the first eight bytes of the SHA-256 of the address, big-endian.\<close>

definition getMockLocation :: "(string \<Rightarrow> 64 word) \<Rightarrow> string \<Rightarrow> GeoResponse" where
  "getMockLocation sha ip =
     (locations ! unat (sha ip mod of_nat (length locations)))\<lparr>gr_Query := ip, gr_Status := ''success''\<rparr>"

text \<open>An address that does not parse is answered too, with the status 200 and an error text.\<close>

definition geo_handler :: "(string \<Rightarrow> bool) \<Rightarrow> (string \<Rightarrow> 64 word) \<Rightarrow> string \<Rightarrow> GeoResponse" where
  "geo_handler valid_ip sha ip =
     (if \<not> valid_ip ip
      then (place [] [] [] [] [] 0 0 [] [] [])\<lparr>gr_Query := ip, gr_Status := ''fail'', gr_Message := ''invalid query''\<rparr>
      else getMockLocation sha ip)"

section \<open>mock-eco\<close>

definition regionData :: "(string \<times> int list) list" where
  "regionData =
    [
     (''QC'',
      [25, 22, 20, 19, 18, 18, 20, 24, 30, 35, 38, 40, 42, 43, 41, 38, 35, 33, 30, 28, 27, 26, 25,
       24]),
     (''LOM'',
      [320, 310, 300, 290, 285, 280, 290, 310, 340, 350, 330, 300, 270, 250, 240, 245, 260, 290,
       320, 340, 350, 345, 335, 325]),
     (''CA'',
      [280, 270, 260, 255, 250, 245, 230, 200, 160, 120, 90, 80, 75, 80, 90, 130, 180, 240, 290,
       310, 320, 310, 300, 290]),
     (''HE'',
      [380, 370, 360, 350, 345, 340, 350, 370, 400, 410, 390, 360, 330, 310, 300, 310, 330, 360,
       390, 410, 420, 410, 400, 390]),
     (''13'',
      [450, 440, 430, 420, 415, 410, 420, 440, 470, 490, 480, 460, 440, 430, 425, 430, 440, 460,
       480, 490, 495, 485, 470, 460]),
     (''NSW'',
      [650, 640, 630, 620, 610, 600, 590, 610, 650, 680, 700, 690, 660, 630, 610, 600, 610, 640,
       670, 690, 700, 695, 680, 660]),
     (''IDF'',
      [60, 55, 50, 48, 45, 44, 46, 52, 65, 75, 80, 78, 72, 68, 64, 62, 64, 70, 78, 82, 80, 75, 68,
       63]),
     (''SP'',
      [90, 85, 80, 78, 75, 74, 78, 85, 100, 110, 115, 112, 105, 98, 92, 88, 90, 95, 105, 112, 115,
       110, 100, 95]),
     (''SG'',
      [420, 415, 410, 405, 400, 398, 400, 410, 430, 450, 460, 455, 445, 435, 428, 425, 430, 440,
       450, 458, 460, 455, 445, 430]),
     (''ENG'',
      [250, 240, 230, 225, 220, 215, 220, 240, 270, 290, 285, 260, 240, 225, 215, 220, 235, 260,
       280, 295, 300, 290, 275, 260])]"

definition regionPriceData :: "(string \<times> string \<times> int list) list" where
  "regionPriceData =
    [
     (''QC'', ''CAD/MWh'',
      [32, 30, 28, 27, 26, 26, 28, 33, 42, 48, 50, 52, 53, 54, 52, 48, 44, 40, 38, 36, 35, 34, 33,
       32]),
     (''LOM'', ''EUR/MWh'',
      [85, 78, 72, 68, 65, 63, 68, 82, 105, 115, 108, 95, 82, 75, 70, 72, 78, 90, 105, 118, 120,
       112, 98, 90]),
     (''CA'', ''USD/MWh'',
      [95, 85, 78, 72, 68, 65, 60, 52, 42, 35, 30, 28, 27, 30, 35, 55, 80, 110, 135, 145, 148, 140,
       120, 105]),
     (''HE'', ''EUR/MWh'',
      [88, 80, 75, 70, 68, 65, 70, 82, 100, 115, 105, 90, 78, 72, 68, 72, 80, 95, 110, 125, 128,
       120, 105, 95]),
     (''13'', ''JPY/MWh'',
      [12500, 11800, 11200, 10800, 10500, 10200, 10500, 11500, 13500, 15000, 15500, 14800, 13500,
       12800, 12200, 12500, 13000, 14000, 15200, 15800, 16000, 15500, 14200, 13200]),
     (''NSW'', ''AUD/MWh'',
      [72, 65, 58, 55, 52, 50, 55, 68, 95, 130, 155, 165, 170, 160, 140, 110, 85, 78, 90, 120, 145,
       155, 130, 95]),
     (''IDF'', ''EUR/MWh'',
      [42, 38, 35, 32, 30, 28, 30, 38, 55, 68, 72, 70, 65, 58, 52, 48, 50, 58, 68, 75, 72, 65, 55,
       48]),
     (''SP'', ''BRL/MWh'',
      [220, 200, 185, 175, 168, 165, 175, 210, 280, 350, 380, 400, 410, 390, 350, 300, 260, 240,
       280, 350, 400, 420, 350, 270]),
     (''SG'', ''SGD/MWh'',
      [145, 135, 128, 122, 118, 115, 120, 138, 168, 195, 210, 220, 225, 218, 200, 180, 165, 155,
       170, 198, 215, 225, 200, 170]),
     (''ENG'', ''GBP/MWh'',
      [55, 48, 42, 38, 35, 33, 38, 50, 72, 92, 98, 95, 85, 75, 65, 60, 62, 75, 90, 105, 110, 100,
       82, 65])]"

definition utc_hour :: "time \<Rightarrow> int" where
  "utc_hour now = (now div go_hour) mod 24"

definition hour_start :: "time \<Rightarrow> time" where
  "hour_start now = now - now mod go_hour"

record EcoEntry =
  ee_CarbonIntensity :: int
  ee_Datetime :: string

record EcoResponse =
  eo_Zone :: string
  eo_Forecast :: "EcoEntry list"
  eo_UpdatedAt :: string
  eo_TemporalGranularity :: string

record PriceDataEntry =
  pe_Datetime :: string
  pe_CreatedAt :: string
  pe_UpdatedAt :: string
  pe_Value :: float64
  pe_Unit :: string
  pe_Source :: string

record PriceResponse =
  pr_Zone :: string
  pr_Data :: "PriceDataEntry list"
  pr_TemporalGranularity :: string

definition getForecast :: "(time \<Rightarrow> string) \<Rightarrow> time \<Rightarrow> string \<Rightarrow> EcoResponse option" where
  "getForecast rfc3339 now zone =
     (case map_of regionData zone of
        None \<Rightarrow> None
      | Some baseValues \<Rightarrow> Some
          \<lparr>eo_Zone = zone,
           eo_Forecast = map (\<lambda>i.
             \<lparr>ee_CarbonIntensity = baseValues ! nat ((utc_hour now + int i) mod 24),
              ee_Datetime = rfc3339 (hour_start now + int i * go_hour)\<rparr>) [0..<24],
           eo_UpdatedAt = rfc3339 now, eo_TemporalGranularity = ''hourly''\<rparr>)"

definition getPriceForecast :: "(time \<Rightarrow> string) \<Rightarrow> time \<Rightarrow> string \<Rightarrow> PriceResponse option" where
  "getPriceForecast rfc3339 now zone =
     (case map_of regionPriceData zone of
        None \<Rightarrow> None
      | Some (unit, values) \<Rightarrow> Some
          \<lparr>pr_Zone = zone,
           pr_Data = map (\<lambda>i.
             \<lparr>pe_Datetime = rfc3339 (hour_start now + int i * go_hour), pe_CreatedAt = rfc3339 (now - 1 * go_hour),
              pe_UpdatedAt = rfc3339 now, pe_Value = fl_of_int (values ! nat ((utc_hour now + int i) mod 24)),
              pe_Unit = unit, pe_Source = ''Electricity Maps Forecast''\<rparr>) [0..<24],
           pr_TemporalGranularity = ''hourly''\<rparr>)"

text \<open>The status, and the error text or the answer.\<close>

definition carbon_handler :: "(time \<Rightarrow> string) \<Rightarrow> time \<Rightarrow> string \<Rightarrow> nat \<times> (string + EcoResponse)" where
  "carbon_handler rfc3339 now zone =
     (if zone = '''' then (400, Inl (''missing '' @ [CHR 0x27] @ ''zone'' @ [CHR 0x27] @ '' query parameter''))
      else case getForecast rfc3339 now zone of
          None \<Rightarrow> (404, Inl (''unknown zone: '' @ zone))
        | Some resp \<Rightarrow> (200, Inr resp))"

definition price_handler :: "(time \<Rightarrow> string) \<Rightarrow> time \<Rightarrow> string \<Rightarrow> nat \<times> (string + PriceResponse)" where
  "price_handler rfc3339 now zone =
     (if zone = '''' then (400, Inl (''missing '' @ [CHR 0x27] @ ''zone'' @ [CHR 0x27] @ '' query parameter''))
      else case getPriceForecast rfc3339 now zone of
          None \<Rightarrow> (404, Inl (''unknown zone: '' @ zone))
        | Some resp \<Rightarrow> (200, Inr resp))"

section \<open>mock-currency\<close>

record ExchangeRatesResponse =
  xr_LastUpdatedAt :: string
  xr_Data :: "string \<rightharpoonup> float64"

definition baseExchangeRates :: "(string \<times> float64) list" where
  "baseExchangeRates =
    [
     (''EUR'', lit (10 / 10)),
     (''USD'', lit (108 / 100)),
     (''GBP'', lit (85 / 100)),
     (''CAD'', lit (150 / 100)),
     (''JPY'', lit (1700 / 10)),
     (''AUD'', lit (167 / 100)),
     (''BRL'', lit (580 / 100)),
     (''SGD'', lit (146 / 100))]"

text \<open>\<open>strings.ToUpper\<close> on the ASCII letters.\<close>

definition upper_char :: "char \<Rightarrow> char" where
  "upper_char c = (let n = (of_char c :: nat) in if 97 \<le> n \<and> n \<le> 122 then char_of (n - 32) else c)"

definition to_upper :: "string \<Rightarrow> string" where
  "to_upper s = map upper_char s"

definition target_currencies :: "string \<Rightarrow> string list" where
  "target_currencies currenciesParam =
     (if currenciesParam = '''' then []
      else map (\<lambda>c. to_upper (trim_space c)) (split_on CHR '','' currenciesParam))"

text \<open>The map the handler fills: Go ranges over its table in any order, and every key is set once.\<close>

definition rates_data :: "string \<Rightarrow> string list \<Rightarrow> float64 \<Rightarrow> string \<rightharpoonup> float64" where
  "rates_data baseCurrency targets baseToEURRate currency =
     (if currency = baseCurrency then (if baseCurrency \<in> set targets then Some 1 else None)
      else case map_of baseExchangeRates currency of
          None \<Rightarrow> None
        | Some rateToEUR \<Rightarrow>
            if targets \<noteq> [] \<and> currency \<notin> set targets then None else Some (rateToEUR / baseToEURRate))"

definition rates_handler :: "(time \<Rightarrow> string) \<Rightarrow> time \<Rightarrow> string \<Rightarrow> string \<Rightarrow> nat \<times> (string + ExchangeRatesResponse)" where
  "rates_handler rfc3339 now baseParam currenciesParam =
     (let baseCurrency = to_upper (if baseParam = '''' then ''USD'' else baseParam)
      in case map_of baseExchangeRates baseCurrency of
          None \<Rightarrow> (422, Inl ''Invalid base_currency'')
        | Some baseToEURRate \<Rightarrow> (200, Inr
            \<lparr>xr_LastUpdatedAt = rfc3339 now,
             xr_Data = rates_data baseCurrency (target_currencies currenciesParam) baseToEURRate\<rparr>))"


section \<open>What the clients read\<close>

text \<open>The fields with the JSON names of the clients' structs; the body of an error decodes to zero values.\<close>

definition geo_location :: "GeoResponse \<Rightarrow> LocationDTO" where
  "geo_location g =
     \<lparr>xl_ContinentCode = gr_ContinentCode g, xl_CountryCode = gr_CountryCode g, xl_Region = gr_Region g,
      xl_RegionName = gr_RegionName g, xl_City = gr_City g, xl_Lat = gr_Lat g, xl_Lon = gr_Lon g,
      xl_ISP = gr_ISP g, xl_Org = gr_Org g, xl_AS = gr_AS g\<rparr>"

definition price_reply :: "nat \<times> (string + PriceResponse) \<Rightarrow> priceForecastResponse http_reply" where
  "price_reply r = HttpReply (fst r) (Inr
     \<lparr>pf_Data = (case snd r of
        Inl _ \<Rightarrow> []
      | Inr resp \<Rightarrow> map (\<lambda>e. \<lparr>pd_Value = pe_Value e, pd_Unit = pe_Unit e\<rparr>) (pr_Data resp))\<rparr>)"

definition rates_reply :: "nat \<times> (string + ExchangeRatesResponse) \<Rightarrow> exchangeRateResponse http_reply" where
  "rates_reply r = HttpReply (fst r) (Inr
     \<lparr>er_Data = (case snd r of Inl _ \<Rightarrow> None | Inr resp \<Rightarrow> Some (xr_Data resp))\<rparr>)"

section \<open>The tables\<close>

lemma tables_have_24:
  "map_of regionData zone = Some values \<Longrightarrow> length values = 24"
  "map_of regionPriceData zone = Some (unit, prices) \<Longrightarrow> length prices = 24"
proof -
  have "list_all (\<lambda>x. length (snd x) = 24) regionData" by code_simp
  then show "map_of regionData zone = Some values \<Longrightarrow> length values = 24"
    by (auto simp: list_all_iff dest!: map_of_SomeD)
  have "list_all (\<lambda>x. length (snd (snd x)) = 24) regionPriceData" by code_simp
  then show "map_of regionPriceData zone = Some (unit, prices) \<Longrightarrow> length prices = 24"
    by (auto simp: list_all_iff dest!: map_of_SomeD)
qed

text \<open>Reading a table of 24 hours from the current one on is rotating it.\<close>

lemma from_this_hour:
  assumes "length values = 24"
  shows "map (\<lambda>i. values ! nat ((utc_hour now + int i) mod 24)) [0..<24] = rotate (nat (utc_hour now)) values"
proof (rule nth_equalityI)
  fix i assume "i < length (map (\<lambda>i. values ! nat ((utc_hour now + int i) mod 24)) [0..<24])"
  then have i: "i < 24" by simp
  have "0 \<le> utc_hour now" by (simp add: utc_hour_def)
  then have "nat ((utc_hour now + int i) mod 24) = (nat (utc_hour now) + i) mod 24"
    by (simp add: nat_mod_distrib nat_add_distrib)
  then show "map (\<lambda>i. values ! nat ((utc_hour now + int i) mod 24)) [0..<24] ! i = rotate (nat (utc_hour now)) values ! i"
    using assms i by (simp add: nth_rotate)
qed (simp add: assms)

text \<open>Every place has a carbon forecast, a price, and a currency that is the euro or has a rate.\<close>

definition convertible :: "string \<Rightarrow> bool" where
  "convertible unit \<longleftrightarrow> unit = targetCurrencyUnit \<or>
     extractCurrencyCode unit \<noteq> ''EUR'' \<and> map_of baseExchangeRates (extractCurrencyCode unit) \<noteq> None"

lemma location_regions:
  "map gr_Region locations =
    [''QC'', ''LOM'', ''CA'', ''HE'', ''13'', ''NSW'', ''IDF'', ''SP'', ''SG'', ''ENG'']"
  by (simp add: locations_def place_def)

lemma exchanged_currencies:
  "map fst baseExchangeRates = [''EUR'', ''USD'', ''GBP'', ''CAD'', ''JPY'', ''AUD'', ''BRL'', ''SGD'']"
  by (simp add: baseExchangeRates_def)

lemma convertible_iff:
  "convertible unit \<longleftrightarrow> unit = targetCurrencyUnit \<or>
     extractCurrencyCode unit \<in> set (tl (map fst baseExchangeRates))"
  unfolding convertible_def by (auto simp: map_of_eq_None_iff baseExchangeRates_def)

definition served_place :: "string \<Rightarrow> bool" where
  "served_place z \<longleftrightarrow> z \<noteq> [] \<and> map_of regionData z \<noteq> None \<and>
     (case map_of regionPriceData z of
        None \<Rightarrow> False
      | Some (unit, values) \<Rightarrow> unit = ''EUR/MWh'' \<or>
          extractCurrencyCode unit \<in> set [''USD'', ''GBP'', ''CAD'', ''JPY'', ''AUD'', ''BRL'', ''SGD''])"

lemma places_served:
  assumes "g \<in> set locations"
  obtains unit costs where "gr_Region g \<noteq> []" "map_of regionData (gr_Region g) \<noteq> None"
    "map_of regionPriceData (gr_Region g) = Some (unit, costs)" "convertible unit"
proof -
  have "list_all served_place [''QC'', ''LOM'', ''CA'', ''HE'', ''13'', ''NSW'', ''IDF'', ''SP'', ''SG'', ''ENG'']"
    by code_simp
  then have "list_all served_place (map gr_Region locations)" by (simp only: location_regions)
  then have "served_place (gr_Region g)" using assms by (simp add: list_all_iff)
  then obtain unit costs where *: "gr_Region g \<noteq> []" "map_of regionData (gr_Region g) \<noteq> None"
    "map_of regionPriceData (gr_Region g) = Some (unit, costs)"
    "unit = ''EUR/MWh'' \<or> extractCurrencyCode unit \<in> set (tl (map fst baseExchangeRates))"
    unfolding served_place_def exchanged_currencies by (cases "map_of regionPriceData (gr_Region g)") (simp, force)
  then have "convertible unit" unfolding convertible_iff targetCurrencyUnit_def by blast
  with * that show thesis by blast
qed

section \<open>Rates\<close>

lemma one_rounds: "lit 1 = Fin 1"
  by (simp add: lit_def rnd_zero_one)

lemma rate_positive:
  assumes "map_of baseExchangeRates c = Some r"
  obtains x y where "r = Fin x" "1 / 2 \<le> x" "r / lit 1 = Fin y" "1 / 2 \<le> y"
proof -
  have half: "rnd (1 / 2) = Fin (1 / 2)" using rnd_cert [of 53 "1 / 2" "2 ^ 52"] by simp
  have big: "rnd 1000 = Fin 1000" using rnd_int [of 1000] by simp
  have "r \<in> set (map snd baseExchangeRates)" using map_of_SomeD [OF assms] by force
  then obtain q where q: "r = rnd q" "1 / 2 \<le> q" "q \<le> 1000"
    by (auto simp: baseExchangeRates_def lit_def)
  obtain x where x: "r = Fin x" "1 / 2 \<le> x" "x \<le> 1000"
    by (rule rnd_between [OF half big q(2,3)]) (use q(1) in simp)
  obtain y where y: "rnd x = Fin y" "1 / 2 \<le> y" by (rule rnd_between [OF half big x(2,3)])
  with x that show thesis by (simp add: one_rounds float64_defs)
qed

section \<open>The price of a placed cluster\<close>

text \<open>A broker whose engine asks the mocks, each of which answers at some moment of its own clock.\<close>

definition asks_mocks :: "(time \<Rightarrow> string) \<Rightarrow> ('w, 'q) BrokerEnv \<Rightarrow> DecisionEngine \<Rightarrow> bool" where
  "asks_mocks rfc3339 E D \<longleftrightarrow> de_MockEcoURL D \<noteq> '''' \<and> de_MockCurrencyURL D \<noteq> '''' \<and>
     (\<forall>z w. \<exists>now w'. run_state (b_get_price E (de_MockEcoURL D @ ''/v4/price-day-ahead/forecast?zone='' @ z)) w =
        (price_reply (price_handler rfc3339 now z), w')) \<and>
     (\<forall>c w. \<exists>now w'. run_state (b_get_rates E (de_MockCurrencyURL D @ ''/v1/latest?base_currency='' @ c)) w =
        (rates_reply (rates_handler rfc3339 now c []), w'))"

text \<open>
  The two caches of the engine in the cluster's API: the forecasts and the exchange rates. An object
  that is not there can be created; the web requests and the clock touch neither, and the client of
  the forecasts leaves the rates alone.
\<close>

locale cost_caches = forecasts: kube_client "b_forecast E" fcs + exchanges: kube_client "b_exchanges E" exs
  for E :: "('w, 'q) BrokerEnv"
    and fcs :: "'w \<Rightarrow> (RegionForecastSpec, RegionForecastStatus) store"
    and exs :: "'w \<Rightarrow> (UnitExchangesSpec, UnitExchangesStatus) store" +
  assumes create_forecast: "fcs w (obj_key f) = None \<Longrightarrow> \<exists>y w'. run_state (c_create (b_forecast E) f) w = (Inr y, w')"
    and create_exchanges: "exs w (obj_key x) = None \<Longrightarrow> \<exists>y w'. run_state (c_create (b_exchanges E) x) w = (Inr y, w')"
    and now_quiet: "keeps fcs (b_now E)" "keeps exs (b_now E)"
    and price_quiet: "keeps fcs (b_get_price E u)" "keeps exs (b_get_price E u)"
    and rates_quiet: "keeps exs (b_get_rates E u)"
    and forecast_keeps_exs: "client_keeps exs (b_forecast E)"

text \<open>The euro price: the price itself, or divided by the rate.\<close>

definition euro_price :: "string \<Rightarrow> float64 \<Rightarrow> float64" where
  "euro_price unit p =
     (if unit = targetCurrencyUnit then p
      else case rates_data ''EUR'' [] (lit 1) (extractCurrencyCode unit) of None \<Rightarrow> p | Some rate \<Rightarrow> p / rate)"

context cost_caches
begin

lemma refresh_price_mocked:
  assumes "asks_mocks rfc3339 E D" "fcs w (ns, to_lower z) = None" "map_of regionPriceData z = Some (unit, costs)" "z \<noteq> []"
  shows "\<exists>now f w'. run_state (refresh_price E D ns z) w = (Some f, w') \<and> exs w' = exs w \<and> rf_CostUnit (o_spec f) = unit \<and>
    rf_Cost (o_spec f) = map fl_of_int (rotate (nat (utc_hour now)) costs)"
proof -
  obtain got w1 where get: "run_state (c_get (b_forecast E) (ns, to_lower z)) w = (got, w1)" by fastforce
  with forecasts.get_found assms(2) obtain e where found: "got = Inl e" by (cases got) fastforce+
  obtain now w2 where reply: "run_state (b_get_price E (de_MockEcoURL D @ ''/v4/price-day-ahead/forecast?zone='' @ z)) w1 =
      (price_reply (price_handler rfc3339 now z), w2)" using assms(1) unfolding asks_mocks_def by blast
  let ?vs = "map fl_of_int (rotate (nat (utc_hour now)) costs)"
  have len: "length costs = 24" by (rule tables_have_24(2) [OF assms(3)])
  have vs: "map (\<lambda>i. fl_of_int (costs ! nat ((utc_hour now + int i) mod 24))) [0..<24] = ?vs"
    using from_this_hour [OF len, of now] by (metis (no_types, lifting) map_map comp_apply map_eq_conv)
  have upt: "[0..<24] = 0 # [1..<24::nat]" by (simp add: upt_rec)
  have fetched: "run_state (fetchPriceForecast E D z) w1 = (Inr (?vs, unit), w2)"
    using reply assms(1,3,4) vs
    by (simp add: fetchPriceForecast_def asks_mocks_def price_handler_def getPriceForecast_def price_reply_def upt o_def)
  obtain t w3 where t: "run_state (b_now E) w2 = (t, w3)" by fastforce
  have same: "fcs w3 = fcs w" "exs w3 = exs w"
    using forecasts.get_same [OF get] keepsD [OF client_keepsD(1) [OF forecast_keeps_exs] get]
      keepsD [OF price_quiet(1) reply] keepsD [OF price_quiet(2) reply] keepsD [OF now_quiet(1) t] keepsD [OF now_quiet(2) t]
    by simp_all
  let ?f = "\<lparr>o_meta = new_meta (to_lower z) ns,
    o_spec = zero_forecast\<lparr>rf_Region := z, rf_Cost := ?vs, rf_CostUnit := unit, rf_LastUpdateCost := t\<rparr>,
    o_status = \<lparr>rfs_LastUpdateTime = 0\<rparr>\<rparr>"
  have "fcs w3 (obj_key ?f) = None" using same(1) assms(2) by simp
  then obtain y w4 where y: "run_state (c_create (b_forecast E) ?f) w3 = (Inr y, w4)" using create_forecast by blast
  have "run_state (refresh_price E D ns z) w = (Some y, w4)"
    using get found fetched t y by (simp add: refresh_price_def)
  with forecasts.create_ok [OF y] keepsD [OF client_keepsD(3) [OF forecast_keeps_exs] y] same(2) show ?thesis by auto
qed

lemma refresh_rates_mocked:
  assumes "asks_mocks rfc3339 E D" "exs w (ns, exchangesName) = None"
  shows "\<exists>x w'. run_state (refresh_rates E D ns) w = (Some x, w') \<and>
    ux_Rates (o_spec x) = Some (rates_data ''EUR'' [] (lit 1))"
proof -
  obtain got w1 where get: "run_state (c_get (b_exchanges E) (ns, exchangesName)) w = (got, w1)" by fastforce
  with exchanges.get_found assms(2) obtain e where found: "got = Inl e" by (cases got) fastforce+
  obtain now w2 where reply: "run_state (b_get_rates E (de_MockCurrencyURL D @ ''/v1/latest?base_currency='' @ targetCurrency)) w1 =
      (rates_reply (rates_handler rfc3339 now targetCurrency []), w2)" using assms(1) unfolding asks_mocks_def by blast
  have up: "to_upper ''EUR'' = ''EUR''" by code_simp
  have base: "map_of baseExchangeRates ''EUR'' = Some (lit 1)" by (simp add: baseExchangeRates_def)
  have fetched: "run_state (fetchExchangeRates E D targetCurrency) w1 = (Inr (Some (rates_data ''EUR'' [] (lit 1))), w2)"
    using reply assms(1) up base
    by (simp add: fetchExchangeRates_def asks_mocks_def rates_handler_def rates_reply_def target_currencies_def
        targetCurrency_def)
  obtain t w3 where t: "run_state (b_now E) w2 = (t, w3)" by fastforce
  have same: "exs w3 = exs w"
    using exchanges.get_same [OF get] keepsD [OF rates_quiet reply] keepsD [OF now_quiet(2) t] by simp
  let ?x = "\<lparr>o_meta = new_meta exchangesName ns,
    o_spec = \<lparr>ux_PrimaryUnit = targetCurrencyUnit, ux_Rates = Some (rates_data ''EUR'' [] (lit 1)), ux_LastUpdateUnit = t\<rparr>,
    o_status = \<lparr>uxs_LastUpdateTime = 0\<rparr>\<rparr>"
  have "exs w3 (obj_key ?x) = None" using same assms(2) by simp
  then obtain y w4 where y: "run_state (c_create (b_exchanges E) ?x) w3 = (Inr y, w4)" using create_exchanges by blast
  have "run_state (refresh_rates E D ns) w = (Some y, w4)"
    using get found fetched t y by (simp add: refresh_rates_def)
  with exchanges.create_ok [OF y] show ?thesis by auto
qed

lemma convert_costs_mocked:
  assumes "asks_mocks rfc3339 E D" "exs w (ns, exchangesName) = None"
    "rf_CostUnit (o_spec f) = unit" "rf_Cost (o_spec f) = ps" "ps \<noteq> []" "convertible unit"
  shows "\<exists>g w'. run_state (convert_costs E D ns f) w = (Some g, w') \<and> rf_Cost (o_spec g) = map (euro_price unit) ps"
proof (cases "unit = targetCurrencyUnit")
  case True
  with assms(3,4) show ?thesis
    by (intro exI [of _ f] exI [of _ w]) (simp add: convert_costs_def euro_price_def [abs_def])
next
  case False
  let ?code = "extractCurrencyCode unit"
  from False assms(6) obtain r where r: "map_of baseExchangeRates ?code = Some r" "?code \<noteq> ''EUR''"
    by (auto simp: convertible_def)
  obtain q y where q: "r / lit 1 = Fin y" "1 / 2 \<le> y" by (rule rate_positive [OF r(1)]) blast
  have rate: "rates_data ''EUR'' [] (lit 1) ?code = Some (Fin y)" using r q(1) by (simp add: rates_data_def)
  obtain x w1 where x: "run_state (refresh_rates E D ns) w = (Some x, w1)" "ux_Rates (o_spec x) = Some (rates_data ''EUR'' [] (lit 1))"
    using refresh_rates_mocked [OF assms(1,2)] by blast
  have pos: "Fin y > 0" using q(2) by (simp add: float64_defs)
  let ?g = "f\<lparr>o_spec := (o_spec f)\<lparr>rf_Cost := map (\<lambda>c. c / Fin y) ps, rf_CostUnit := targetCurrencyUnit\<rparr>\<rparr>"
  obtain u w2 where u: "run_state (c_update (b_forecast E) ?g) w1 = (u, w2)" by fastforce
  have "o_spec h = o_spec ?g" if "u = Inr h" for h
    using forecasts.update_ok [OF u [unfolded that]] by auto
  moreover have "run_state (convert_costs E D ns f) w = (Some (case u of Inl _ \<Rightarrow> ?g | Inr h \<Rightarrow> h), w2)"
    using x u rate pos assms(3-5) False by (simp add: convert_costs_def rate_of_def Let_def split: sum.split)
  moreover have "euro_price unit = (\<lambda>p. p / Fin y)" using False rate by (simp add: euro_price_def fun_eq_iff)
  ultimately show ?thesis by (cases u) auto
qed

end

section \<open>Properties\<close>

text \<open>
  The forecasts of mock-eco: for a known region, 24 entries that are the table of the region
  rotated to the current hour (so every hour of the table occurs once), dated hour by hour from the
  start of the current hour; for the carbon values as for the prices.
\<close>

theorem forecast_rotates_table:
  assumes "getForecast rfc3339 now zone = Some r" "getPriceForecast rfc3339 now zone = Some p"
  shows "\<exists>carbon unit costs. map_of regionData zone = Some carbon \<and> map_of regionPriceData zone = Some (unit, costs) \<and>
    map ee_CarbonIntensity (eo_Forecast r) = rotate (nat (utc_hour now)) carbon \<and>
    map pe_Value (pr_Data p) = map fl_of_int (rotate (nat (utc_hour now)) costs) \<and>
    map ee_Datetime (eo_Forecast r) = map (\<lambda>i. rfc3339 (hour_start now + int i * go_hour)) [0..<24] \<and>
    map pe_Datetime (pr_Data p) = map ee_Datetime (eo_Forecast r) \<and>
    mset (map ee_CarbonIntensity (eo_Forecast r)) = mset carbon \<and>
    hour_start now \<le> now \<and> now < hour_start now + go_hour"
proof -
  from assms obtain carbon unit costs where t: "map_of regionData zone = Some carbon" "map_of regionPriceData zone = Some (unit, costs)"
    by (auto simp: getForecast_def getPriceForecast_def split: option.splits)
  have "map fl_of_int (map (\<lambda>i. costs ! nat ((utc_hour now + int i) mod 24)) [0..<24]) =
      map fl_of_int (rotate (nat (utc_hour now)) costs)"
    by (simp only: from_this_hour [OF tables_have_24(2) [OF t(2)]])
  moreover have "0 \<le> now mod go_hour" "now mod go_hour < go_hour" by (simp_all add: duration_defs)
  moreover have c: "map ee_CarbonIntensity (eo_Forecast r) = rotate (nat (utc_hour now)) carbon"
    using assms(1) t(1) from_this_hour [OF tables_have_24(1) [OF t(1)], of now]
    by (auto simp: getForecast_def o_def)
  moreover have "mset (map ee_CarbonIntensity (eo_Forecast r)) = mset carbon"
    unfolding c rotate_drop_take by (metis append_take_drop_id mset_append union_commute)
  ultimately show ?thesis
    using assms t by (auto simp: getForecast_def getPriceForecast_def hour_start_def o_def simp del: mset_map)
qed

text \<open>
  C40. The mocks and the broker fit together: for a cluster placed anywhere mock-geo can place one,
  the broker, asking mock-eco and mock-currency while neither the region's forecast nor the exchange
  rates are in the cluster's API yet (and what is not there can be created), always arrives at a
  price; it is the price of the region's table for the hour, converted to euros where the table is in
  another currency, and the currency is set to EUR.
\<close>

theorem placed_cluster_is_priced:
  assumes "cost_caches E fcs exs" "asks_mocks rfc3339 E D"
    "g \<in> set locations" "ca_Location (o_spec cluster) = Some loc" "li_Region loc = gr_Region g"
    "fcs w (o_Namespace cluster, to_lower (gr_Region g)) = None" "exs w (o_Namespace cluster, exchangesName) = None"
    "run_state (update_cost E D cluster) w = (b, w')"
  shows "\<exists>c now unit costs. ca_Cost (o_spec b) = Some c \<and> ci_Currency c = ''EUR'' \<and>
    map_of regionPriceData (gr_Region g) = Some (unit, costs) \<and>
    ci_EnergyCost c = euro_price unit (fl_of_int (costs ! nat (utc_hour now)))"
proof -
  from places_served [OF assms(3)] obtain unit costs where z: "gr_Region g \<noteq> []"
    "map_of regionPriceData (gr_Region g) = Some (unit, costs)" "convertible unit" by metis
  from cost_caches.refresh_price_mocked [OF assms(1,2,6) z(2,1)] obtain now f w1 where
    f: "run_state (refresh_price E D (o_Namespace cluster) (gr_Region g)) w = (Some f, w1)" "exs w1 = exs w" "rf_CostUnit (o_spec f) = unit"
      "rf_Cost (o_spec f) = map fl_of_int (rotate (nat (utc_hour now)) costs)" by blast
  have len: "length costs = 24" by (rule tables_have_24(2) [OF z(2)])
  have h: "0 \<le> utc_hour now" "utc_hour now < 24" by (simp_all add: utc_hour_def)
  have ne: "rotate (nat (utc_hour now)) costs \<noteq> []" using len by (simp flip: length_0_conv)
  then have first: "hd (rotate (nat (utc_hour now)) costs) = costs ! nat (utc_hour now)"
    using h len by (simp add: hd_conv_nth nth_rotate)
  have "exs w1 (o_Namespace cluster, exchangesName) = None" using f(2) assms(7) by simp
  from cost_caches.convert_costs_mocked [OF assms(1,2) this f(3,4) _ z(3)] ne obtain h w2 where
    g: "run_state (convert_costs E D (o_Namespace cluster) f) w1 = (Some h, w2)"
      "rf_Cost (o_spec h) = map (euro_price unit) (map fl_of_int (rotate (nat (utc_hour now)) costs))" by blast
  have b: "b = set_energy_cost (rf_Cost (o_spec h)) cluster"
    using assms(4,5,8) z(1) f(1) g(1) by (simp add: update_cost_def)
  obtain d ds where d: "rotate (nat (utc_hour now)) costs = d # ds" using ne by (cases "rotate (nat (utc_hour now)) costs") auto
  with first have "d = costs ! nat (utc_hour now)" by simp
  with b g(2) d z(2) show ?thesis
    by (cases "ca_Cost (o_spec cluster)") (auto simp: set_energy_cost_def)
qed

text \<open>
  The agent and mock-geo: asking for its location, the agent gets one of the ten places,
  always the same for an address; but an address that does not parse (a mistyped forced IP) is
  answered with the status 200 too, and the agent takes the empty place without region at latitude
  and longitude zero for its location and keeps it.
\<close>

theorem located_by_mock_geo:
  assumes "mockGeoURL \<noteq> ''''" "run_state (sv_location V) w = (None, w1)"
    and "\<And>u. run_state (sv_geo V (mockGeoURL @ ''/json/'' @ u)) w1 = (Answered 200 (Inr (geo_location (geo_handler valid_ip sha u))), w2)"
    and "ip = (if forcedIP = '''' then sv_pseudo_ip V clusterID else forcedIP)"
  shows "\<exists>loc. run_state (GetLocation V mockGeoURL clusterID forcedIP) w =
      (Inr (Some loc), snd (run_state (sv_set_location V loc) w2)) \<and>
    (if valid_ip ip then \<exists>g \<in> set locations. loc = geo_location g
     else xl_Region loc = '''' \<and> xl_Lat loc = 0 \<and> xl_Lon loc = 0)"
proof -
  let ?loc = "geo_location (geo_handler valid_ip sha ip)"
  have n: "length locations = 10" by (simp add: locations_def)
  have "unat (sha ip mod of_nat (length locations)) < length locations"
    unfolding n by (simp add: unat_mod)
  then have "locations ! unat (sha ip mod of_nat (length locations)) \<in> set locations" by (rule nth_mem)
  then have place: "\<exists>g \<in> set locations. geo_location (getMockLocation sha ip) = geo_location g"
    by (intro bexI [rotated]) (simp_all add: getMockLocation_def geo_location_def)
  have run: "run_state (GetLocation V mockGeoURL clusterID forcedIP) w = (Inr (Some ?loc), snd (run_state (sv_set_location V ?loc) w2))"
    using assms by (simp add: GetLocation_def Let_def split: prod.split)
  show ?thesis
  proof (intro exI conjI, rule run)
    show "if valid_ip ip then \<exists>g \<in> set locations. ?loc = geo_location g
      else xl_Region ?loc = '''' \<and> xl_Lat ?loc = 0 \<and> xl_Lon ?loc = 0"
      using place by (simp add: geo_handler_def) (simp add: geo_location_def place_def)
  qed
qed

section \<open>Witnesses\<close>

lemma forecast_rotates_witness:
  "\<exists>r p. getForecast (\<lambda>t. []) (5 * go_hour) ''QC'' = Some r \<and> getPriceForecast (\<lambda>t. []) (5 * go_hour) ''QC'' = Some p \<and>
    hd (map ee_CarbonIntensity (eo_Forecast r)) = 18"
proof -
  obtain r p where r: "getForecast (\<lambda>t. []) (5 * go_hour) ''QC'' = Some r" "getPriceForecast (\<lambda>t. []) (5 * go_hour) ''QC'' = Some p"
    by (simp add: getForecast_def getPriceForecast_def regionData_def regionPriceData_def)
  have "utc_hour (5 * go_hour) = 5" by (simp add: utc_hour_def duration_defs)
  moreover from forecast_rotates_table [OF r] obtain carbon where "map_of regionData ''QC'' = Some carbon"
    "map ee_CarbonIntensity (eo_Forecast r) = rotate (nat (utc_hour (5 * go_hour))) carbon" by blast
  ultimately have "map ee_CarbonIntensity (eo_Forecast r) = rotate 5 carbon" "carbon \<noteq> []" "length carbon = 24" "carbon ! 5 = 18"
    by (auto simp: regionData_def)
  then show ?thesis using r by (auto simp: hd_conv_nth nth_rotate)
qed

definition mock_engine :: DecisionEngine where
  "mock_engine = \<lparr>de_MockEcoURL = ''http://mock-eco:8081'', de_MockCurrencyURL = ''http://mock-currency:8082''\<rparr>"

definition mock_broker :: "(mem_world, nano_quantity) BrokerEnv" where
  "mock_broker = mem_env\<lparr>
     b_get_price := (\<lambda>u. ret (price_reply (price_handler (\<lambda>t. []) (5 * go_hour)
       (drop (length (de_MockEcoURL mock_engine @ ''/v4/price-day-ahead/forecast?zone='')) u)))),
     b_get_rates := (\<lambda>u. ret (rates_reply (rates_handler (\<lambda>t. []) 0
       (drop (length (de_MockCurrencyURL mock_engine @ ''/v1/latest?base_currency='')) u) [])))\<rparr>"

interpretation mock_caches: cost_caches mock_broker "\<lambda>w. store_get (mw_forecasts w)" "\<lambda>w. store_get (mw_exchanges w)"
proof (intro cost_caches.intro cost_caches_axioms.intro)
  show "kube_client (b_forecast mock_broker) (\<lambda>w. store_get (mw_forecasts w))"
    using forecast_lens.kube_client_axioms by (simp add: mock_broker_def)
  show "kube_client (b_exchanges mock_broker) (\<lambda>w. store_get (mw_exchanges w))"
    using exchanges_lens.kube_client_axioms by (simp add: mock_broker_def)
  show "client_keeps (\<lambda>w. store_get (mw_exchanges w)) (b_forecast mock_broker)"
    using forecast_lens.mem_client_keeps [of "\<lambda>w. store_get (mw_exchanges w)"] by (simp add: mock_broker_def)
qed (auto simp: mock_broker_def keeps_def)

lemma placed_cluster_witness:
  "\<exists>b w' c. run_state (update_cost mock_broker mock_engine
      ((sample_adv ''b'' 6 48)\<lparr>o_spec := (o_spec (sample_adv ''b'' 6 48))\<lparr>ca_Location := Some (sample_location ''LOM'')\<rparr>\<rparr>))
      empty_world = (b, w') \<and> ca_Cost (o_spec b) = Some c \<and> ci_Currency c = ''EUR''"
proof -
  let ?c = "(sample_adv ''b'' 6 48)\<lparr>o_spec := (o_spec (sample_adv ''b'' 6 48))\<lparr>ca_Location := Some (sample_location ''LOM'')\<rparr>\<rparr>"
  obtain b w' where run: "run_state (update_cost mock_broker mock_engine ?c) empty_world = (b, w')" by (meson surj_pair)
  have asks: "asks_mocks (\<lambda>t. []) mock_broker mock_engine"
    unfolding asks_mocks_def by (simp add: mock_broker_def) (auto simp: mock_engine_def)
  have cold: "store_get (mw_forecasts empty_world) k = None" "store_get (mw_exchanges empty_world) k = None" for k
    by (simp_all add: empty_world_def store_get_def)
  have "''LOM'' \<in> set (map gr_Region locations)" by (simp only: location_regions) simp
  then obtain g where g: "g \<in> set locations" "gr_Region g = ''LOM''" by auto
  have loc: "ca_Location (o_spec ?c) = Some (sample_location ''LOM'')" "li_Region (sample_location ''LOM'') = gr_Region g"
    using g(2) by (simp_all add: sample_defs)
  from placed_cluster_is_priced [OF mock_caches.cost_caches_axioms asks g(1) loc cold run] run show ?thesis by blast
qed

definition geo_services :: "unit Services" where
  "geo_services = no_services\<lparr>sv_geo := (\<lambda>u. ret (Answered 200 (Inr (geo_location (geo_handler (\<lambda>a. a = ''1.2.3.4'') (\<lambda>a. 3) (drop 14 u))))))\<rparr>"

lemma located_by_mock_geo_witness:
  "\<exists>loc. fst (run_state (GetLocation geo_services ''http://g'' ''c'' ''nonsense'') ()) = Inr (Some loc) \<and> xl_Region loc = '''' \<and> xl_Lat loc = 0"
  using located_by_mock_geo [where V = geo_services and mockGeoURL = "''http://g''" and w = "()" and ?w1.0 = "()" and ?w2.0 = "()"
      and valid_ip = "\<lambda>a. a = ''1.2.3.4''" and sha = "\<lambda>a. 3" and forcedIP = "''nonsense''" and clusterID = "''c''"
      and ip = "''nonsense''"]
  by (auto simp: geo_services_def no_services_def)

end
