(* ===== verification/MockMains.thy ===== *)
theory MockMains
  imports MockServices BrokerMain
begin

text \<open>
  The programs of the three mock services: the port flag (\<open>cmd/mock-*/main.go\<close>) and the routes and
  the address of the server (\<open>StartServer\<close> of their \<open>internal/api/server.go\<close>). Listening is the
  library's; so is decoding an escaped query, which a request here does not have.
\<close>

section \<open>A server of the standard library\<close>

text \<open>A handler reads the wildcards of the path and the parameters of the query.\<close>

type_synonym params = "string \<Rightarrow> string"

record 'a MockServer =
  ms_Addr :: string
  ms_Routes :: "(string list \<times> (params \<Rightarrow> params \<Rightarrow> 'a)) list"

definition listen :: "(string list \<times> (params \<Rightarrow> params \<Rightarrow> 'a)) list \<Rightarrow> int \<Rightarrow> 'a MockServer" where
  "listen routes port = \<lparr>ms_Addr = '':'' @ show_int port, ms_Routes = routes\<rparr>"

definition flag_value :: "int \<Rightarrow> int option \<Rightarrow> int" where
  "flag_value standard given = (case given of None \<Rightarrow> standard | Some n \<Rightarrow> n)"

text \<open>A pattern's segment matches itself, a wildcard a segment that is not empty; the wildcards' values.\<close>

fun path_values :: "string list \<Rightarrow> string list \<Rightarrow> (string \<times> string) list option" where
  "path_values [] [] = Some []"
| "path_values (p # ps) (x # xs) =
     (case path_values ps xs of
        None \<Rightarrow> None
      | Some vs \<Rightarrow>
          if take 1 p = ''{'' then (if x = '''' then None else Some ((butlast (tl p), x) # vs))
          else if p = x then Some vs else None)"
| "path_values _ _ = None"

definition value_of :: "(string \<times> string) list \<Rightarrow> params" where
  "value_of vs name = (case map_of vs name of None \<Rightarrow> '''' | Some v \<Rightarrow> v)"

fun serve :: "(string list \<times> (params \<Rightarrow> params \<Rightarrow> 'a)) list \<Rightarrow> string list \<Rightarrow> params \<Rightarrow> 'a option" where
  "serve [] _ _ = None"
| "serve ((pattern, handle) # routes) path query =
     (case path_values pattern path of
        Some vs \<Rightarrow> Some (handle (value_of vs) query)
      | None \<Rightarrow> serve routes path query)"

text \<open>A request for a URL \<open>http://host:port/path?name=value&...\<close> to the host the server runs on.\<close>

definition before :: "char \<Rightarrow> string \<Rightarrow> string" where
  "before c s = takeWhile (\<lambda>x. x \<noteq> c) s"

definition after :: "char \<Rightarrow> string \<Rightarrow> string" where
  "after c s = tl (dropWhile (\<lambda>x. x \<noteq> c) s)"

definition query_values :: "string \<Rightarrow> (string \<times> string) list" where
  "query_values q = map (\<lambda>p. (before CHR ''='' p, after CHR ''='' p)) (split_on CHR ''&'' q)"

definition get_url :: "'a MockServer \<Rightarrow> string \<Rightarrow> string \<Rightarrow> 'a option" where
  "get_url s host url =
     (let prefix = ''http://'' @ host @ ms_Addr s;
          rest = drop (length prefix) url
      in if take (length prefix) url \<noteq> prefix then None
         else serve (ms_Routes s) (tl (split_on CHR ''/'' (before CHR ''?'' rest)))
                (value_of (query_values (after CHR ''?'' rest))))"

section \<open>The programs\<close>

definition geo_routes :: "(string \<Rightarrow> bool) \<Rightarrow> (string \<Rightarrow> 64 word) \<Rightarrow> (string list \<times> (params \<Rightarrow> params \<Rightarrow> GeoResponse)) list" where
  "geo_routes valid_ip sha = [([''json'', ''{ip}''], \<lambda>path query. geo_handler valid_ip sha (path ''ip''))]"

definition geo_StartServer :: "(string \<Rightarrow> bool) \<Rightarrow> (string \<Rightarrow> 64 word) \<Rightarrow> int \<Rightarrow> GeoResponse MockServer" where
  "geo_StartServer valid_ip sha port = listen (geo_routes valid_ip sha) port"

definition geo_main :: "(string \<Rightarrow> bool) \<Rightarrow> (string \<Rightarrow> 64 word) \<Rightarrow> int option \<Rightarrow> GeoResponse MockServer" where
  "geo_main valid_ip sha given = geo_StartServer valid_ip sha (flag_value 8080 given)"

datatype EcoAnswer = CarbonAnswer "nat \<times> (string + EcoResponse)" | PriceAnswer "nat \<times> (string + PriceResponse)"

definition eco_StartServer :: "(time \<Rightarrow> string) \<Rightarrow> time \<Rightarrow> int \<Rightarrow> EcoAnswer MockServer" where
  "eco_StartServer rfc3339 now port = listen
     [([''v4'', ''carbon-intensity'', ''forecast''], \<lambda>path query. CarbonAnswer (carbon_handler rfc3339 now (query ''zone''))),
      ([''v4'', ''price-day-ahead'', ''forecast''], \<lambda>path query. PriceAnswer (price_handler rfc3339 now (query ''zone'')))] port"

definition eco_main :: "(time \<Rightarrow> string) \<Rightarrow> time \<Rightarrow> int option \<Rightarrow> EcoAnswer MockServer" where
  "eco_main rfc3339 now given = eco_StartServer rfc3339 now (flag_value 8081 given)"

definition currency_StartServer ::
  "(time \<Rightarrow> string) \<Rightarrow> time \<Rightarrow> int \<Rightarrow> (nat \<times> (string + ExchangeRatesResponse)) MockServer" where
  "currency_StartServer rfc3339 now port = listen
     [([''v1'', ''latest''], \<lambda>path query. rates_handler rfc3339 now (query ''base_currency'') (query ''currencies''))] port"

definition currency_main ::
  "(time \<Rightarrow> string) \<Rightarrow> time \<Rightarrow> int option \<Rightarrow> (nat \<times> (string + ExchangeRatesResponse)) MockServer" where
  "currency_main rfc3339 now given = currency_StartServer rfc3339 now (flag_value 8082 given)"

section \<open>The broker's requests reach them\<close>

text \<open>A value that a query may carry as it is.\<close>

definition plain :: "string \<Rightarrow> bool" where
  "plain v \<longleftrightarrow> (\<forall>c \<in> set v. c \<notin> set ''&;%+#'')"

lemma plainD: "plain v \<Longrightarrow> CHR ''&'' \<notin> set v"
  unfolding plain_def by force

lemma split_on_plain: "c \<notin> set s \<Longrightarrow> split_on c s = [s]"
  by (induction s) auto

lemma cut_at: "c \<notin> set s \<Longrightarrow> before c (s @ c # v) = s" "c \<notin> set s \<Longrightarrow> after c (s @ c # v) = v"
  unfolding before_def after_def by (induction s) auto

lemma query_one:
  "plain v \<Longrightarrow> CHR ''&'' \<notin> set name \<Longrightarrow> CHR ''='' \<notin> set name \<Longrightarrow>
   value_of (query_values (name @ CHR ''='' # v)) = (\<lambda>n. if n = name then v else '''')"
  by (auto simp: fun_eq_iff value_of_def query_values_def cut_at split_on_plain dest: plainD)

lemma ports: "show_int 8081 = ''8081''" "show_int 8082 = ''8082''"
  by (simp_all add: show_int_def show_nat.simps char_of_def bit_Suc_0_iff)

lemma default_engine_urls:
  "de_MockEcoURL (decision_engine default_broker_flags) = ''http://mock-eco'' @ ms_Addr (eco_main rfc3339 now None)"
  "de_MockCurrencyURL (decision_engine default_broker_flags) = ''http://mock-currency'' @ ms_Addr (currency_main rfc3339 now None)"
  by (simp_all add: decision_engine_def default_broker_flags_def eco_main_def eco_StartServer_def currency_main_def
      currency_StartServer_def listen_def flag_value_def ports)

text \<open>
  With the default flags on both sides, the URLs the decision engine builds are answered by the
  handlers its model has for them, with the zone or the currency it asked for.
\<close>

lemma default_requests_served:
  assumes "plain v"
  shows "get_url (eco_main rfc3339 now None) ''mock-eco''
      (de_MockEcoURL (decision_engine default_broker_flags) @ ''/v4/carbon-intensity/forecast?zone='' @ v) =
        Some (CarbonAnswer (carbon_handler rfc3339 now v))"
    and "get_url (eco_main rfc3339 now None) ''mock-eco''
      (de_MockEcoURL (decision_engine default_broker_flags) @ ''/v4/price-day-ahead/forecast?zone='' @ v) =
        Some (PriceAnswer (price_handler rfc3339 now v))"
    and "get_url (currency_main rfc3339 now None) ''mock-currency''
      (de_MockCurrencyURL (decision_engine default_broker_flags) @ ''/v1/latest?base_currency='' @ v) =
        Some (rates_handler rfc3339 now v '''')"
  using query_one [OF assms, of "''zone''"] query_one [OF assms, of "''base_currency''"]
  by (simp_all add: get_url_def default_engine_urls [of rfc3339 now] before_def after_def eco_main_def eco_StartServer_def
      currency_main_def currency_StartServer_def listen_def Let_def)

end
