(* ===== verification/Wire.thy ===== *)
theory Wire
  imports AdvertisementHandler Instructions Collector
begin

text \<open>
  The two ends of the wire: what a provider's agent reports becomes the broker's entry, and what the
  broker reserves becomes the provider's instruction. The DTO structs of the two programs have the
  same fields with the same JSON names and types, so encoding on one side and decoding on the other
  (\<open>encoding/json\<close>, a field with \<open>omitempty\<close> that is left out decodes to its zero value) is the
  field-by-field map below.
\<close>

section \<open>Encoding and decoding\<close>

definition wire_quantities :: "AgentDto.ResourceQuantitiesDTO \<Rightarrow> BrokerDto.ResourceQuantitiesDTO" where
  "wire_quantities d = \<lparr>qd_CPU = xq_CPU d, qd_Memory = xq_Memory d, qd_GPU = xq_GPU d, qd_Storage = xq_Storage d\<rparr>"

definition wire_metrics :: "AgentDto.ResourceMetricsDTO \<Rightarrow> BrokerDto.ResourceMetricsDTO" where
  "wire_metrics d =
     \<lparr>md_Capacity = wire_quantities (xm_Capacity d), md_Allocatable = wire_quantities (xm_Allocatable d),
      md_Allocated = wire_quantities (xm_Allocated d), md_Reserved = map_option wire_quantities (xm_Reserved d),
      md_Available = wire_quantities (xm_Available d)\<rparr>"

definition wire_location :: "AgentDto.LocationDTO \<Rightarrow> BrokerDto.LocationDTO" where
  "wire_location l =
     \<lparr>ld_ContinentCode = xl_ContinentCode l, ld_CountryCode = xl_CountryCode l, ld_Region = xl_Region l,
      ld_RegionName = xl_RegionName l, ld_City = xl_City l, ld_Lat = xl_Lat l, ld_Lon = xl_Lon l,
      ld_ISP = xl_ISP l, ld_Org = xl_Org l, ld_AS = xl_AS l\<rparr>"

definition wire_advertisement :: "AgentDto.AdvertisementDTO \<Rightarrow> BrokerDto.AdvertisementDTO" where
  "wire_advertisement d =
     \<lparr>ad_ClusterID = xa_ClusterID d, ad_ClusterName = xa_ClusterName d, ad_Resources = wire_metrics (xa_Resources d),
      ad_Cost = map_option (\<lambda>c. \<lparr>cd_Renewable = xc_Renewable c, cd_EnergyCost = xc_EnergyCost c\<rparr>) (xa_Cost d),
      ad_Location = map_option wire_location (xa_Location d), ad_Policy = xa_Policy d, ad_Timestamp = xa_Timestamp d,
      ad_CarbonIntensity = xa_CarbonIntensity d, ad_CarbonLastUpdate = xa_CarbonLastUpdate d\<rparr>"

definition wire_reservation :: "BrokerDto.ReservationDTO \<Rightarrow> AgentDto.ReservationDTO" where
  "wire_reservation d =
     \<lparr>xv_ID = vd_ID d, xv_RequesterID = vd_RequesterID d, xv_TargetClusterID = vd_TargetClusterID d,
      xv_RequestedResources =
        \<lparr>xq_CPU = qd_CPU (vd_RequestedResources d), xq_Memory = qd_Memory (vd_RequestedResources d),
         xq_GPU = qd_GPU (vd_RequestedResources d), xq_Storage = qd_Storage (vd_RequestedResources d)\<rparr>,
      xv_Status =
        \<lparr>xs_Phase = sd_Phase (vd_Status d), xs_Message = sd_Message (vd_Status d),
         xs_ReservedAt = sd_ReservedAt (vd_Status d), xs_ExpiresAt = sd_ExpiresAt (vd_Status d),
         xs_PeeringKubeconfig = sd_PeeringKubeconfig (vd_Status d)\<rparr>,
      xv_CreatedAt = vd_CreatedAt d\<rparr>"

section \<open>From the agent to the broker\<close>

text \<open>An amount of the agent's type as the broker's.\<close>

definition as_broker :: "'q AgentTypes.ResourceQuantities \<Rightarrow> 'q BrokerTypes.ResourceQuantities" where
  "as_broker x = \<lparr>rq_CPU = aq_CPU x, rq_Memory = aq_Memory x, rq_GPU = aq_GPU x, rq_Storage = aq_Storage x\<rparr>"

lemma wire_amount:
  "wire_quantities (AgentDto.toResourceQuantitiesDTO Q x) = BrokerDto.toResourceQuantitiesDTO Q (as_broker x)"
  by (simp add: wire_quantities_def AgentDto.toResourceQuantitiesDTO_def BrokerDto.toResourceQuantitiesDTO_def as_broker_def)

definition as_broker_metrics :: "'q AgentTypes.ResourceMetrics \<Rightarrow> 'q BrokerTypes.ResourceMetrics" where
  "as_broker_metrics m =
     \<lparr>rm_Capacity = as_broker (am_Capacity m), rm_Allocatable = as_broker (am_Allocatable m),
      rm_Allocated = as_broker (am_Allocated m), rm_Reserved = None, rm_Available = as_broker (am_Available m)\<rparr>"

lemma wire_report:
  "ad_Resources (wire_advertisement (ToAdvertisementDTO Q now adv)) =
     from_metrics Q (as_broker_metrics (asp_Resources (o_spec adv)))"
  by (simp add: wire_advertisement_def wire_metrics_def ToAdvertisementDTO_def from_metrics_def as_broker_metrics_def
      wire_amount Let_def)

context quantity
begin

lemma report_decodes:
  "\<exists>b. ToClusterAdvertisement Q (wire_advertisement (ToAdvertisementDTO Q now adv)) ns = Inr b \<and>
     obj_key b = (ns, asp_ClusterID (o_spec adv) @ ''-adv'') \<and> adv_id b = asp_ClusterID (o_spec adv) \<and>
     ca_Policy (o_spec b) = asp_Policy (o_spec adv) \<and> ca_Timestamp (o_spec b) = now \<and>
     same_metrics v (adv_resources b) (as_broker_metrics (asp_Resources (o_spec adv)))"
proof -
  obtain m where m: "to_metrics Q (from_metrics Q (as_broker_metrics (asp_Resources (o_spec adv)))) = Inr m"
    "same_metrics v m (as_broker_metrics (asp_Resources (o_spec adv)))" using metrics_roundtrip by blast
  then show ?thesis
    by (simp add: ToClusterAdvertisement_def wire_report)
      (simp add: wire_advertisement_def ToAdvertisementDTO_def Let_def meta_key_def)
qed

end

section \<open>From the broker to the provider\<close>

definition instruction_for :: "'q QuantityOps \<Rightarrow> 'q Reservation \<Rightarrow> ProviderInstructionSpec" where
  "instruction_for Q r = instruction_spec (wire_reservation (FromReservation Q r))"

context quantity
begin

lemma instruction_amounts:
  "parsed Q v (pis_RequestedCPU (instruction_for Q r)) = v (rsv_cpu r)"
  "parsed Q v (pis_RequestedMemory (instruction_for Q r)) = v (rsv_memory r)"
  "is_amount Q (pis_RequestedCPU (instruction_for Q r))"
  using parse_string [of "rsv_cpu r"] parse_string [of "rsv_memory r"]
  by (auto simp: instruction_for_def instruction_spec_def wire_reservation_def FromReservation_def parsed_def is_amount_def)

end

lemma instruction_fields:
  "pis_ReservationName (instruction_for Q r) = o_Name r"
  "pis_RequesterClusterID (instruction_for Q r) = rs_RequesterID (o_spec r)"
  "pis_ExpiresAt (instruction_for Q r) = rst_ExpiresAt (o_status r)"
  by (simp_all add: instruction_for_def instruction_spec_def wire_reservation_def FromReservation_def)

lemma wire_phase:
  "rsv_phase r = PhaseReserved \<Longrightarrow> xs_Phase (xv_Status (wire_reservation (FromReservation Q r))) = ''Reserved''"
  by (simp add: wire_reservation_def FromReservation_def)

section \<open>Properties\<close>

text \<open>
  C16. What a provider reports reaches the broker: the report decodes without error under the
  cluster's key, and the entry the broker stores for it offers, in CPU and memory, exactly the
  reported available amounts minus what the broker holds reserved, out of the reported allocatable
  amounts; Reserved and the policy stay the broker's.
\<close>

theorem report_reaches_broker:
  assumes "quantity Q v"
  shows "\<exists>b. ToClusterAdvertisement Q (wire_advertisement (ToAdvertisementDTO Q now adv)) ns = Inr b \<and>
    obj_key b = (ns, asp_ClusterID (o_spec adv) @ ''-adv'') \<and>
    (let stored = merge_advertisement Q latest b; m = asp_Resources (o_spec adv);
         held = (\<lambda>f. case adv_reserved latest of None \<Rightarrow> 0 | Some x \<Rightarrow> v (f x))
     in adv_id stored = asp_ClusterID (o_spec adv) \<and>
        v (rq_CPU (adv_available stored)) = v (aq_CPU (am_Available m)) - held rq_CPU \<and>
        v (rq_Memory (adv_available stored)) = v (aq_Memory (am_Available m)) - held rq_Memory \<and>
        v (rq_CPU (adv_allocatable stored)) = v (aq_CPU (am_Allocatable m)) \<and>
        v (rq_Memory (adv_allocatable stored)) = v (aq_Memory (am_Allocatable m)) \<and>
        adv_reserved stored = adv_reserved latest \<and> ca_Policy (o_spec stored) = ca_Policy (o_spec latest))"
proof -
  note q = quantity.v_sub [OF assms]
  from quantity.report_decodes [OF assms, of now adv ns] obtain b where
    b: "ToClusterAdvertisement Q (wire_advertisement (ToAdvertisementDTO Q now adv)) ns = Inr b"
    "obj_key b = (ns, asp_ClusterID (o_spec adv) @ ''-adv'')" "adv_id b = asp_ClusterID (o_spec adv)"
    "same_metrics v (adv_resources b) (as_broker_metrics (asp_Resources (o_spec adv)))" by blast
  then show ?thesis
    by (auto simp: Let_def q subtract_reserved_def same_metrics_def same_amount_def as_broker_metrics_def as_broker_def
        split: option.splits)
qed

text \<open>
  C15. What the broker reserves reaches the provider: for a reservation in the phase Reserved the
  delivery over HTTP tries to create the instruction named after it, with its requester and expiry;
  and once that instruction is enforced and has not expired, the collector subtracts exactly the
  reserved CPU and memory.
\<close>

theorem reservation_reaches_provider:
  assumes "quantity Q v" "rsv_phase r = PhaseReserved"
  shows "(let d = wire_reservation (FromReservation Q r); i = new_instruction ns d
    in xs_Phase (xv_Status d) = ''Reserved'' \<and> obj_key i = (ns, o_Name r @ ''-provider'') \<and>
       pis_RequesterClusterID (o_spec i) = rs_RequesterID (o_spec r) \<and>
       pis_ExpiresAt (o_spec i) = rst_ExpiresAt (o_status r) \<and>
       (\<forall>j now total. o_spec j = o_spec i \<longrightarrow> counted now j \<longrightarrow>
          v (aq_CPU (add_instruction Q now j total)) = v (aq_CPU total) + v (rsv_cpu r) \<and>
          v (aq_Memory (add_instruction Q now j total)) = v (aq_Memory total) + v (rsv_memory r)))"
proof -
  have spec: "o_spec (new_instruction ns (wire_reservation (FromReservation Q r))) = instruction_for Q r"
    by (simp add: new_instruction_def instruction_for_def)
  have key: "obj_key (new_instruction ns (wire_reservation (FromReservation Q r))) = (ns, o_Name r @ ''-provider'')"
    by (simp add: new_instruction_def instruction_name_def wire_reservation_def FromReservation_def)
  show ?thesis
    using quantity.instruction_amounts [OF assms(1)] assms(2)
    by (simp add: Let_def spec key instruction_fields wire_phase quantity.v_add_instruction [OF assms(1)])
qed

text \<open>
  C25. An enforced reservation is taken off twice: where the provider enforces the instructions of the
  reservations \<open>rs\<close>, the amount it reports is already without them, and the broker, which still holds
  them as Reserved, subtracts them once more. The entry then offers the free CPU minus twice what is
  reserved (and what is free is cut at zero in between).
\<close>

theorem enforced_counted_twice:
  assumes "quantity Q v" "map o_spec items = map (instruction_for Q) rs" "\<forall>i \<in> set items. counted now i"
    and "adv_reserved latest = Some held" "v (rq_CPU held) = (\<Sum>r \<leftarrow> rs. v (rsv_cpu r))"
    and "am_Available (asp_Resources (o_spec adv)) =
      physical_available Q hasGPU allocatable allocated (fold (add_instruction Q now) items (zero_amounts Q))"
    and "ToClusterAdvertisement Q (wire_advertisement (ToAdvertisementDTO Q t adv)) ns = Inr b"
  shows "v (rq_CPU (adv_available (merge_advertisement Q latest b))) =
    max 0 (v (aq_CPU allocatable) - v (aq_CPU allocated) - (\<Sum>r \<leftarrow> rs. v (rsv_cpu r))) - (\<Sum>r \<leftarrow> rs. v (rsv_cpu r))"
proof -
  have all: "filter (counted now) items = items" using assms(3) by simp
  have "map (\<lambda>i. parsed Q v (pis_RequestedCPU (o_spec i))) items = map (\<lambda>s. parsed Q v (pis_RequestedCPU s)) (map o_spec items)"
    by simp
  also have "\<dots> = map (\<lambda>r. v (rsv_cpu r)) rs"
    by (simp add: assms(2) quantity.instruction_amounts [OF assms(1)])
  finally have "v (aq_CPU (fold (add_instruction Q now) items (zero_amounts Q))) = (\<Sum>r \<leftarrow> rs. v (rsv_cpu r))"
    by (simp add: quantity.v_fold_instructions [OF assms(1)] all zero_amounts_def quantity.v_new [OF assms(1)])
  moreover have "v (rq_CPU (adv_available b)) = v (aq_CPU (am_Available (asp_Resources (o_spec adv))))"
    using quantity.report_decodes [OF assms(1), of t adv ns] assms(7)
    by (auto simp: same_metrics_def same_amount_def as_broker_metrics_def as_broker_def)
  ultimately show ?thesis
    using assms(4-6) by (simp add: subtract_reserved_def physical_available_def quantity.v_sub [OF assms(1)]
        quantity.v_clamp [OF assms(1)] split: option.split)
qed

definition wired_adv :: "nano_quantity ClusterAdvertisement" where
  "wired_adv = (case ToClusterAdvertisement nano_ops (wire_advertisement (ToAdvertisementDTO nano_ops 5 sample_agent_adv)) ''default'' of
     Inr b \<Rightarrow> b | Inl e \<Rightarrow> sample_adv ''b'' 0 0)"

lemma report_reaches_broker_witness:
  "\<exists>b. ToClusterAdvertisement nano_ops (wire_advertisement (ToAdvertisementDTO nano_ops 5 sample_agent_adv)) ''default'' = Inr b \<and>
    nano_value (rq_CPU (adv_available (merge_advertisement nano_ops (sample_adv ''b'' 6 48) b))) =
      3 - (case adv_reserved (sample_adv ''b'' 6 48) of None \<Rightarrow> 0 | Some x \<Rightarrow> nano_value (rq_CPU x))"
  using report_reaches_broker [OF nano.quantity_axioms, of 5 sample_agent_adv "''default''" "sample_adv ''b'' 6 48"]
  by (auto simp: Let_def sample_agent_adv_def sample_agent_metrics_def nano_value_def nano_units_def)

lemma reservation_reaches_provider_witness:
  "(let d = wire_reservation (FromReservation nano_ops ((sample_rsv ''b'' 2 8)\<lparr>o_status := zero_rsv_status\<lparr>rst_Phase := PhaseReserved\<rparr>\<rparr>))
    in xs_Phase (xv_Status d) = ''Reserved'' \<and> obj_key (new_instruction ''default'' d) = (''default'', ''rsv-a-1-provider''))"
  using reservation_reaches_provider [OF nano.quantity_axioms,
      of "(sample_rsv ''b'' 2 8)\<lparr>o_status := zero_rsv_status\<lparr>rst_Phase := PhaseReserved\<rparr>\<rparr>" "''default''"]
  by (simp add: Let_def sample_rsv_def new_meta_def)

text \<open>One reservation of two CPUs, enforced: of six free CPUs two are offered.\<close>

definition enforced_sample :: ProviderInstruction where
  "enforced_sample =
     \<lparr>o_meta = new_meta ''rsv-a-1-provider'' ''default'', o_spec = instruction_for nano_ops (sample_rsv ''b'' 2 8),
      o_status = zero_pi_status\<lparr>pst_Enforced := True\<rparr>\<rparr>"

definition enforcing_adv :: "nano_quantity Advertisement" where
  "enforcing_adv =
     (let a = (\<lambda>c m. \<lparr>aq_CPU = nano_units c, aq_Memory = nano_units m, aq_GPU = None, aq_Storage = None\<rparr>)
      in sample_agent_adv\<lparr>o_spec := (o_spec sample_agent_adv)\<lparr>asp_Resources := (asp_Resources (o_spec sample_agent_adv))\<lparr>
           am_Available := physical_available nano_ops False (a 8 64) (a 2 16)
             (fold (add_instruction nano_ops 0) [enforced_sample] (zero_amounts nano_ops))\<rparr>\<rparr>\<rparr>)"

definition holding_adv :: "nano_quantity ClusterAdvertisement" where
  "holding_adv = (sample_adv ''b'' 6 48)\<lparr>o_spec := (o_spec (sample_adv ''b'' 6 48))\<lparr>
     ca_Resources := (ca_Resources (o_spec (sample_adv ''b'' 6 48)))\<lparr>
       rm_Reserved := Some \<lparr>rq_CPU = nano_units 2, rq_Memory = nano_units 8, rq_GPU = None, rq_Storage = None\<rparr>\<rparr>\<rparr>\<rparr>"

lemma enforced_counted_twice_witness:
  "\<exists>b. ToClusterAdvertisement nano_ops (wire_advertisement (ToAdvertisementDTO nano_ops 5 enforcing_adv)) ''default'' = Inr b \<and>
    nano_value (rq_CPU (adv_available (merge_advertisement nano_ops holding_adv b))) = 2"
proof -
  obtain b where b: "ToClusterAdvertisement nano_ops (wire_advertisement (ToAdvertisementDTO nano_ops 5 enforcing_adv)) ''default'' = Inr b"
    using nano.report_decodes by blast
  let ?a = "\<lambda>c m. \<lparr>aq_CPU = nano_units c, aq_Memory = nano_units m, aq_GPU = None, aq_Storage = None\<rparr> :: nano_quantity AgentTypes.ResourceQuantities"
  have "map o_spec [enforced_sample] = map (instruction_for nano_ops) [sample_rsv ''b'' 2 8]"
    "\<forall>i \<in> set [enforced_sample]. counted 0 i"
    by (simp_all add: enforced_sample_def counted_def instruction_fields sample_rsv_def zero_rsv_status_def)
  moreover have "adv_reserved holding_adv = Some \<lparr>rq_CPU = nano_units 2, rq_Memory = nano_units 8, rq_GPU = None, rq_Storage = None\<rparr>"
    by (simp add: holding_adv_def)
  moreover have "am_Available (asp_Resources (o_spec enforcing_adv)) = physical_available nano_ops False (?a 8 64) (?a 2 16)
      (fold (add_instruction nano_ops 0) [enforced_sample] (zero_amounts nano_ops))"
    by (simp add: enforcing_adv_def Let_def)
  ultimately show ?thesis
    using enforced_counted_twice [OF nano.quantity_axioms _ _ _ _ _ b, of "[enforced_sample]" "[sample_rsv ''b'' 2 8]" 0 holding_adv
        _ False "?a 8 64" "?a 2 16"] b
    by (simp add: sample_rsv_def nano_value_def nano_units_def)
qed

end
