(* ===== verification/ControllerSetup.thy ===== *)
theory ControllerSetup
  imports KubeApi
begin

text \<open>
  How a controller is wired to the manager (the \<open>SetupWithManager\<close> of every reconciler and the
  registration of the API kinds in api/v1alpha1): which events of which kinds ask for which
  reconciliation. The informers and the work queue are of controller-runtime; an event that is
  mapped to a key has that key reconciled.
\<close>

section \<open>Events\<close>

text \<open>
  A change the informer of a kind tells, of an update whether \<open>metadata.generation\<close> changed. The API
  server counts the generations of an object's spec; a status that is written does not count.
\<close>

datatype Change = Created | Updated bool | Deleted

record Event =
  ev_Kind :: string
  ev_Key :: key
  ev_Change :: Change

text \<open>
  The event of one object between two states of its store. Only spec and status are compared; a
  change of the metadata alone, as a finalizer, is not seen here.
\<close>

definition told_change :: "('s, 't) store \<Rightarrow> ('s, 't) store \<Rightarrow> key \<Rightarrow> Change option" where
  "told_change S S' k =
     (case (S k, S' k) of
        (None, None) \<Rightarrow> None
      | (None, Some y) \<Rightarrow> Some Created
      | (Some x, None) \<Rightarrow> Some Deleted
      | (Some x, Some y) \<Rightarrow> if o_spec x = o_spec y \<and> o_status x = o_status y then None else Some (Updated (o_spec x \<noteq> o_spec y)))"

section \<open>Builders\<close>

text \<open>
  \<open>ctrl.NewControllerManagedBy(mgr)\<close>: the kind of \<open>For\<close>, the \<open>Watches\<close> with the functions that map an
  object to the keys to reconcile, and \<open>WithEventFilter\<close>, which all of them share.
\<close>

record Builder =
  cb_Name :: string
  cb_For :: string
  cb_Watches :: "(string \<times> (key \<Rightarrow> key list)) list"
  cb_Filter :: "Change \<Rightarrow> bool"

definition controller_for :: "string \<Rightarrow> string \<Rightarrow> Builder" where
  "controller_for kind name = \<lparr>cb_Name = name, cb_For = kind, cb_Watches = [], cb_Filter = (\<lambda>_. True)\<rparr>"

fun GenerationChangedPredicate :: "Change \<Rightarrow> bool" where
  "GenerationChangedPredicate (Updated generation) = generation"
| "GenerationChangedPredicate _ = True"

definition woken :: "Builder \<Rightarrow> Event \<Rightarrow> key list" where
  "woken b e =
     (if \<not> cb_Filter b (ev_Change e) then []
      else (if ev_Kind e = cb_For b then [ev_Key e] else []) @
        concat (map (\<lambda>(kind, f). if ev_Kind e = kind then f (ev_Key e) else []) (cb_Watches b)))"

text \<open>What a change of one object of a kind between two states wakes.\<close>

definition wakes :: "Builder \<Rightarrow> string \<Rightarrow> key \<Rightarrow> ('s, 't) store \<Rightarrow> ('s, 't) store \<Rightarrow> key list" where
  "wakes b kind k S S' =
     (case told_change S S' k of None \<Rightarrow> [] | Some c \<Rightarrow> woken b \<lparr>ev_Kind = kind, ev_Key = k, ev_Change = c\<rparr>)"

lemma wakes_own:
  "kind = cb_For b \<Longrightarrow> cb_Watches b = [] \<Longrightarrow> (\<And>c. cb_Filter b c) \<Longrightarrow>
   wakes b kind k S S' = (if told_change S S' k = None then [] else [k])"
  by (auto simp: wakes_def woken_def split: option.split)

lemma wakes_filtered:
  assumes "\<And>c. cb_Filter b c = GenerationChangedPredicate c" "map_option o_spec (S' k) = map_option o_spec (S k)"
  shows "wakes b kind k S S' = []"
  using assms by (cases "S k"; cases "S' k") (auto simp: wakes_def told_change_def woken_def)

section \<open>Schemes\<close>

text \<open>
  The kinds a client knows, by group and version: \<open>SchemeBuilder.Register\<close> in the \<open>init\<close> functions of
  the types collects them, \<open>AddToScheme\<close> adds them to the program's scheme.
\<close>

record GroupVersion =
  gv_Group :: string
  gv_Version :: string

type_synonym scheme = "(GroupVersion \<times> string) list"

definition register :: "string list \<Rightarrow> string list \<Rightarrow> string list" where
  "register kinds builder = builder @ kinds"

definition add_to_scheme :: "GroupVersion \<Rightarrow> string list \<Rightarrow> scheme \<Rightarrow> scheme" where
  "add_to_scheme gv builder s = s @ map (\<lambda>kind. (gv, kind)) builder"

end
