(* ===== verification/BrokerWakeups.thy ===== *)
theory BrokerWakeups
  imports ControllerSetup AdvertisementController ReservationController
begin

text \<open>
  What wakes the broker's controllers (the \<open>SetupWithManager\<close> of both and the kinds of
  resource-broker/api/v1alpha1): each is asked for every change of its own kind, those it writes
  itself among them. The reservation controller comes to rest all the same; the advertisement
  controller wakes itself whenever it writes a new time stamp.
\<close>

section \<open>The kinds of the API\<close>

definition broker_GroupVersion :: GroupVersion where
  "broker_GroupVersion = \<lparr>gv_Group = ''broker.fluidos.eu'', gv_Version = ''v1alpha1''\<rparr>"

definition ClusterAdvertisement_init :: "string list \<Rightarrow> string list" where
  "ClusterAdvertisement_init = register [''ClusterAdvertisement'', ''ClusterAdvertisementList'']"

definition NetworkBond_init :: "string list \<Rightarrow> string list" where
  "NetworkBond_init = register [''NetworkBond'', ''NetworkBondList'']"

definition RegionForecast_init :: "string list \<Rightarrow> string list" where
  "RegionForecast_init = register [''RegionForecast'', ''RegionForecastList'']"

definition Reservation_init :: "string list \<Rightarrow> string list" where
  "Reservation_init = register [''Reservation'', ''ReservationList'']"

definition UnitExchanges_init :: "string list \<Rightarrow> string list" where
  "UnitExchanges_init = register [''UnitExchanges'', ''UnitExchangesList'']"

text \<open>The \<open>init\<close> functions of a package run in the order of its files.\<close>

definition broker_builder :: "string list" where
  "broker_builder = UnitExchanges_init (Reservation_init (RegionForecast_init (NetworkBond_init (ClusterAdvertisement_init []))))"

text \<open>The scheme of the program: the built-in kinds and the broker's.\<close>

definition broker_scheme :: "scheme \<Rightarrow> scheme" where
  "broker_scheme clientgo = add_to_scheme broker_GroupVersion broker_builder clientgo"

section \<open>The controllers\<close>

text \<open>Without a decision engine they get one that asks no service.\<close>

definition default_engine :: "DecisionEngine option \<Rightarrow> DecisionEngine" where
  "default_engine D = (case D of None \<Rightarrow> \<lparr>de_MockEcoURL = '''', de_MockCurrencyURL = ''''\<rparr> | Some d \<Rightarrow> d)"

definition ClusterAdvertisement_SetupWithManager :: "DecisionEngine option \<Rightarrow> DecisionEngine \<times> Builder" where
  "ClusterAdvertisement_SetupWithManager D = (default_engine D, controller_for ''ClusterAdvertisement'' ''clusteradvertisement'')"

definition Reservation_SetupWithManager :: "DecisionEngine option \<Rightarrow> DecisionEngine \<times> Builder" where
  "Reservation_SetupWithManager D = (default_engine D, controller_for ''Reservation'' ''reservation'')"

lemma broker_wakes:
  "wakes (snd (ClusterAdvertisement_SetupWithManager D)) ''ClusterAdvertisement'' k S S' = (if told_change S S' k = None then [] else [k])"
  "wakes (snd (Reservation_SetupWithManager D)) ''Reservation'' k S S' = (if told_change S S' k = None then [] else [k])"
  by (rule wakes_own; simp add: ClusterAdvertisement_SetupWithManager_def Reservation_SetupWithManager_def controller_for_def)+

text \<open>A controller can only be built for a kind of the scheme; both kinds are in it.\<close>

lemma broker_kinds_registered:
  "(broker_GroupVersion, cb_For (snd (ClusterAdvertisement_SetupWithManager D))) \<in> set (broker_scheme s)"
  "(broker_GroupVersion, cb_For (snd (Reservation_SetupWithManager D))) \<in> set (broker_scheme s)"
  by (simp_all add: broker_scheme_def add_to_scheme_def broker_builder_def register_def ClusterAdvertisement_init_def
      Reservation_init_def UnitExchanges_init_def RegionForecast_init_def NetworkBond_init_def
      ClusterAdvertisement_SetupWithManager_def Reservation_SetupWithManager_def controller_for_def)

section \<open>The reservation controller at rest\<close>

text \<open>
  \<open>n\<close> times the controller was woken by what it wrote itself to the reservation \<open>k\<close>; in between anything
  else may happen to the world but to the reservation.
\<close>

inductive woken_by_itself ::
  "('w, 'q) BrokerEnv \<Rightarrow> DecisionEngine option \<Rightarrow>
   ('w \<Rightarrow> ('q ClusterAdvertisementSpec, ClusterAdvertisementStatus) store) \<Rightarrow>
   ('w \<Rightarrow> ('q ReservationSpec, ReservationStatus) store) \<Rightarrow> key \<Rightarrow> nat \<Rightarrow> 'w \<Rightarrow> 'w \<Rightarrow> bool"
  for E D advs rsvs k where
  start: "woken_by_itself E D advs rsvs k 0 w w"
| others: "woken_by_itself E D advs rsvs k n w w1 \<Longrightarrow> rsvs w2 k = rsvs w1 k \<Longrightarrow> woken_by_itself E D advs rsvs k n w w2"
| itself: "woken_by_itself E D advs rsvs k n w w1 \<Longrightarrow>
    undeleted (advs w1) \<Longrightarrow> rsvs w1 k = Some x \<Longrightarrow> m_DeletionTimestamp (o_meta x) = None \<Longrightarrow>
    validateReservationSpec (b_Q E) x = None \<Longrightarrow>
    run_state (ReservationController.Reconcile E (fst (Reservation_SetupWithManager D)) k) w1 = (Some (Inr d), w2) \<Longrightarrow>
    k \<in> set (wakes (snd (Reservation_SetupWithManager D)) ''Reservation'' k (rsvs w1) (rsvs w2)) \<Longrightarrow>
    woken_by_itself E D advs rsvs k (Suc n) w w2"

text \<open>How often a reservation can still change: its provider is chosen once, and the phase advances.\<close>

fun changes_left :: "'q Reservation \<Rightarrow> nat" where
  "changes_left x = (if rsv_target x = '''' then 1 else 0) + (3 - phase_rank (rsv_phase x))"

lemma step_uses_change:
  assumes "reconcile_step Q x S y S' True" "same_request x y" "o_spec y \<noteq> o_spec x \<or> o_status y \<noteq> o_status x"
  shows "changes_left y < changes_left x"
proof -
  from assms(2) obtain t where t: "o_spec y = (o_spec x)\<lparr>rs_TargetClusterID := t\<rparr>" "rsv_target x = '''' \<or> t = rsv_target x"
    by (auto simp: same_request_def)
  then have target: "rsv_target y = '''' \<longrightarrow> rsv_target x = ''''" by auto
  from assms(1) show ?thesis
  proof (cases rule: reconcile_step.cases)
    case stay
    with assms(3) have "o_spec y \<noteq> o_spec x" by simp
    with t have "rsv_target x = ''''" "rsv_target y \<noteq> ''''" by auto
    with stay(2) show ?thesis by simp
  qed (use target in auto)
qed

section \<open>The advertisement controller and its time stamp\<close>

text \<open>
  A reconciliation of a stored advertisement that answers without an error writes a time stamp to the
  status, and with no filter on its events that write wakes the controller for the same
  advertisement, long before the delay of five minutes it asks for. There is no event only if the
  clock reads the stamp that is stored and nothing else in the status changes; as the API keeps
  whole seconds of a time, that is so for two reconciliations in the same second.
\<close>

lemma advertisement_stamp_wakes:
  assumes "broker_world E v advs rsvs"
    "run_state (AdvertisementController.Reconcile E thr k) w = (Inr d, w')" "advs w k = Some old"
  shows "d = 5 * go_minute \<and>
    (wakes (snd (ClusterAdvertisement_SetupWithManager D)) ''ClusterAdvertisement'' k (advs w) (advs w') = [k] \<or>
     (\<exists>new. advs w' k = Some new \<and> o_status new = o_status old \<and> read_clock E (cas_LastUpdateTime (o_status old))))"
proof -
  from status_refreshed [OF assms(1,2)] assms(3) obtain new where new: "d = 5 * go_minute" "advs w' = (advs w)(k \<mapsto> new)"
    "read_clock E (cas_LastUpdateTime (o_status new))" by auto
  show ?thesis
  proof (cases "o_status new = o_status old")
    case True
    with new show ?thesis by (intro conjI disjI2 exI [of _ new]) simp_all
  next
    case False
    with new(2) assms(3) have "told_change (advs w) (advs w') k \<noteq> None" by (auto simp: told_change_def)
    then have "wakes (snd (ClusterAdvertisement_SetupWithManager D)) ''ClusterAdvertisement'' k (advs w) (advs w') = [k]"
      unfolding broker_wakes by (simp del: not_None_eq)
    with new(1) show ?thesis by blast
  qed
qed

text \<open>An advertisement reconciled at noon, written for the first time.\<close>

definition noon_env :: "(mem_world, nano_quantity) BrokerEnv" where
  "noon_env = mem_env\<lparr>b_now := State (\<lambda>w. (12 * go_hour, w))\<rparr>"

lemma noon_lawful: "broker_world noon_env nano_value mem_advs mem_rsvs"
proof -
  have same: "b_Q noon_env = b_Q mem_env" "b_adv noon_env = b_adv mem_env" "b_rsv noon_env = b_rsv mem_env"
    "b_retry noon_env = b_retry mem_env" "b_sort noon_env = b_sort mem_env" "b_set_condition noon_env = b_set_condition mem_env"
    by (simp_all add: noon_env_def)
  have "quiet mem_advs noon_env" "quiet mem_rsvs noon_env"
    using mem.quiet_advs mem.quiet_rsvs by (simp_all add: noon_env_def quiet_def keeps_def)
  with same show ?thesis
    using mem.broker_world_axioms unfolding broker_world_def broker_world_axioms_def by metis
qed

lemma attempts_first: "run_state fn w = (Inr x, w') \<Longrightarrow> run_state (attempts n fn) w = (Inr x, w')"
  by (cases n) simp_all

definition noon_world :: mem_world where
  "noon_world = empty_world\<lparr>mw_advs := [sample_adv ''b'' 6 48]\<rparr>"

lemma noon_stamp_wakes:
  "\<exists>w'. run_state (AdvertisementController.Reconcile noon_env 0 (''default'', ''b-adv'')) noon_world = (Inr (5 * go_minute), w') \<and>
    wakes (snd (ClusterAdvertisement_SetupWithManager None)) ''ClusterAdvertisement'' (''default'', ''b-adv'')
      (mem_advs noon_world) (mem_advs w') = [(''default'', ''b-adv'')]"
proof -
  let ?k = "(''default'', ''b-adv'')"
  have at: "mem_advs noon_world ?k = Some (sample_adv ''b'' 6 48)"
    by (simp add: noon_world_def store_get_def empty_world_def)
  have "\<not> read_clock noon_env (cas_LastUpdateTime (o_status (sample_adv ''b'' 6 48)))"
    by (simp add: read_clock_def noon_env_def sample_defs zero_adv_status_def duration_defs)
  moreover obtain d w' where run: "run_state (AdvertisementController.Reconcile noon_env 0 ?k) noon_world = (Inr d, w')"
  proof -
    have "run_state (respec_available noon_env ?k) noon_world = (Inr None, noon_world)"
      using at by (simp add: respec_available_def noon_env_def nano.cmp_zero)
    moreover have "\<exists>w'. run_state (refresh_status noon_env 0 ?k) noon_world = (Inr None, w')"
    proof -
      have now: "run_state (b_now noon_env) w = (12 * go_hour, w)" for w by (simp add: noon_env_def)
      have conditions: "\<exists>c. run_state (updateConditions noon_env a b) w = (c, w) \<and> o_meta c = o_meta a" for a b w
        by (simp add: updateConditions_def now Let_def)
      have stored: "\<exists>y w'. run_state (c_status_update (b_adv noon_env) x) noon_world = (Inr y, w')"
        if "o_meta x = o_meta (sample_adv ''b'' 6 48)" for x
        using at that by (simp add: noon_env_def mem_write_def noon_world_def store_get_def empty_world_def Let_def)
      let ?a = "sample_adv ''b'' 6 48" and ?b = "time_sub (12 * go_hour) (ca_Timestamp (o_spec (sample_adv ''b'' 6 48))) > staleness_threshold 0"
      obtain c where c: "run_state (updateConditions noon_env (UpdateClusterScore (b_Q noon_env) (fresh_status ?b ?a)) ?b) noon_world = (c, noon_world)"
        "o_meta c = o_meta ?a" using conditions by fastforce
      from stored [of "c\<lparr>o_status := (o_status c)\<lparr>cas_LastUpdateTime := 12 * go_hour\<rparr>\<rparr>"] c(2)
      obtain y w' where "run_state (c_status_update (b_adv noon_env) (c\<lparr>o_status := (o_status c)\<lparr>cas_LastUpdateTime := 12 * go_hour\<rparr>\<rparr>)) noon_world = (Inr y, w')"
        by auto
      moreover have "run_state (c_get (b_adv noon_env) ?k) noon_world = (Inr ?a, noon_world)"
        using at by (simp add: noon_env_def)
      ultimately show ?thesis using c(1)
        by (simp add: refresh_status_def b_since_def now Let_def)
    qed
    ultimately show ?thesis using at that
      by (auto simp: AdvertisementController.Reconcile_def noon_env_def attempts_first)
  qed
  ultimately show ?thesis
    using advertisement_stamp_wakes [of noon_env nano_value mem_advs mem_rsvs 0 ?k noon_world d w' _ None,
        OF noon_lawful run at] by auto
qed

section \<open>Properties\<close>

text \<open>
  C23. The reservation controller comes to rest: whatever happens to the rest of the cluster in
  between, a valid reservation that is not being deleted has it woken by its own error-free writes to
  spec or status at most four times, for the chosen provider and for three phases; then a change or
  the timer must come from outside. (Adding the finalizer, a change of the metadata, is not counted.)
\<close>

theorem reservation_controller_rests:
  assumes "broker_world E v advs rsvs" "woken_by_itself E D advs rsvs k n w w'"
  shows "n \<le> 4"
proof -
  from assms(2) have "n \<le> 4 \<and> (\<forall>x. rsvs w' k = Some x \<longrightarrow> n + changes_left x \<le> 4)"
  proof (induction rule: woken_by_itself.induct)
    case (start w)
    then show ?case by auto
  next
    case (itself n w w1 x d w2)
    from Reconcile_steps [OF assms(1) itself.hyps(2-6)] obtain y where y: "rsvs w2 = (rsvs w1)(obj_key x \<mapsto> y)" "same_request x y"
      "reconcile_step (b_Q E) x (advs w1) y (advs w2) True"
      by (auto simp: steps_to_def)
    from itself.hyps(7) have "told_change (rsvs w1) (rsvs w2) k \<noteq> None" by (auto simp: broker_wakes split: if_splits)
    with itself.hyps(3) y(1) have "rsvs w2 k = Some y" "o_spec y \<noteq> o_spec x \<or> o_status y \<noteq> o_status x"
      by (auto simp: told_change_def split: if_splits)
    with step_uses_change [OF y(3,2)] itself.IH itself.hyps(3) show ?case by fastforce
  qed auto
  then show ?thesis by simp
qed

text \<open>An active reservation that has expired is released, and that wakes the controller once more.\<close>

definition expired_active :: "nano_quantity Reservation" where
  "expired_active = stored_rsv\<lparr>o_status := zero_rsv_status\<lparr>rst_Phase := PhaseActive, rst_ExpiresAt := Some 0\<rparr>\<rparr>"

definition active_world :: mem_world where
  "active_world = empty_world\<lparr>mw_rsvs := [expired_active]\<rparr>"

lemma reservation_controller_rests_witness:
  "\<exists>w'. woken_by_itself mem_env None mem_advs mem_rsvs (''default'', ''rsv-a-1'') 1 active_world w' \<and> (1::nat) \<le> 4"
proof -
  let ?k = "(''default'', ''rsv-a-1'')" and ?w = active_world
  have at: "mem_rsvs ?w ?k = Some expired_active" "undeleted (mem_advs ?w)" "m_DeletionTimestamp (o_meta expired_active) = None"
    "validateReservationSpec (b_Q mem_env) expired_active = None"
    using stored_rsv_valid [of expired_active]
    by (simp_all add: active_world_def expired_active_def store_get_def undeleted_def empty_world_def)
  have name: "o_Namespace stored_rsv = ''default''" "o_Name stored_rsv = ''rsv-a-1''"
    by (simp_all add: stored_rsv_def add_finalizer_def sample_defs)
  have "\<exists>d w' y. run_state (ReservationController.Reconcile mem_env D ?k) ?w = (Some (Inr d), w') \<and>
    mem_rsvs w' ?k = Some y \<and> rsv_phase y = PhaseReleased" for D
    using at(1) stored_rsv_valid [of expired_active] name
    by (simp add: ReservationController.Reconcile_def reconcile_phase_def handleActiveReservation_def reservationHasCondition_def
        expired_active_def active_world_def zero_rsv_status_def expired_def release_then_def releaseResources_def write_status_def
        mem_write_defs phase_status_def store_get_def empty_world_def duration_defs Let_def)
  then obtain d w' y where run: "run_state (ReservationController.Reconcile mem_env (fst (Reservation_SetupWithManager None)) ?k) ?w = (Some (Inr d), w')"
    "mem_rsvs w' ?k = Some y" "rsv_phase y = PhaseReleased" by blast
  have "rsv_phase expired_active = PhaseActive" by (simp add: expired_active_def)
  with run(2,3) at(1) have "told_change (mem_rsvs ?w) (mem_rsvs w') ?k \<noteq> None" by (auto simp: told_change_def)
  then have wake: "?k \<in> set (wakes (snd (Reservation_SetupWithManager None)) ''Reservation'' ?k (mem_rsvs ?w) (mem_rsvs w'))"
    by (simp add: broker_wakes)
  have "woken_by_itself mem_env None mem_advs mem_rsvs ?k (Suc 0) ?w w'"
    by (rule woken_by_itself.itself [of mem_env None mem_advs mem_rsvs ?k 0 ?w ?w expired_active d w'])
      (use woken_by_itself.start at run(1) wake in simp_all)
  with reservation_controller_rests [OF mem.broker_world_axioms this] show ?thesis by auto
qed

end
