(* ===== verification/AgentWakeups.thy ===== *)
theory AgentWakeups
  imports ControllerSetup AgentAdvertisement ProviderController RequesterController RequestController
begin

text \<open>
  What wakes the agent's controllers (the \<open>SetupWithManager\<close> of the four and the kinds of
  resource-agent/api/v1alpha1). The advertisement controller also watches nodes and pods, and sees of
  all three only events that change a generation.
\<close>

section \<open>The kinds of the API\<close>

definition agent_GroupVersion :: GroupVersion where
  "agent_GroupVersion = \<lparr>gv_Group = ''rear.fluidos.eu'', gv_Version = ''v1alpha1''\<rparr>"

definition Advertisement_init :: "string list \<Rightarrow> string list" where
  "Advertisement_init = register [''Advertisement'', ''AdvertisementList'']"

definition ProviderInstruction_init :: "string list \<Rightarrow> string list" where
  "ProviderInstruction_init = register [''ProviderInstruction'', ''ProviderInstructionList'']"

definition ReservationInstruction_init :: "string list \<Rightarrow> string list" where
  "ReservationInstruction_init = register [''ReservationInstruction'', ''ReservationInstructionList'']"

definition ResourceRequest_init :: "string list \<Rightarrow> string list" where
  "ResourceRequest_init = register [''ResourceRequest'', ''ResourceRequestList'']"

definition agent_builder :: "string list" where
  "agent_builder = ResourceRequest_init (ReservationInstruction_init (ProviderInstruction_init (Advertisement_init [])))"

definition agent_scheme :: "scheme \<Rightarrow> scheme" where
  "agent_scheme clientgo = add_to_scheme agent_GroupVersion agent_builder clientgo"

section \<open>The controllers\<close>

definition Advertisement_SetupWithManager :: "'w AdvertisementReconciler \<Rightarrow> Builder" where
  "Advertisement_SetupWithManager R =
     \<lparr>cb_Name = ''advertisement'', cb_For = ''Advertisement'',
      cb_Watches = [(''Node'', \<lambda>_. findAdvertisementsForNode R), (''Pod'', \<lambda>_. findAdvertisementsForPod R)],
      cb_Filter = GenerationChangedPredicate\<rparr>"

definition ProviderInstruction_SetupWithManager :: Builder where
  "ProviderInstruction_SetupWithManager = controller_for ''ProviderInstruction'' ''providerinstruction''"

definition ReservationInstruction_SetupWithManager :: Builder where
  "ReservationInstruction_SetupWithManager = controller_for ''ReservationInstruction'' ''reservationinstruction''"

definition ResourceRequest_SetupWithManager :: Builder where
  "ResourceRequest_SetupWithManager = controller_for ''ResourceRequest'' ''resourcerequest''"

text \<open>The built-in kinds, of the scheme the program starts from.\<close>

lemma agent_kinds_registered:
  "(agent_GroupVersion, cb_For (Advertisement_SetupWithManager R)) \<in> set (agent_scheme s)"
  "\<forall>b \<in> {ProviderInstruction_SetupWithManager, ReservationInstruction_SetupWithManager, ResourceRequest_SetupWithManager}.
     (agent_GroupVersion, cb_For b) \<in> set (agent_scheme s)"
  by (simp_all add: agent_scheme_def add_to_scheme_def agent_builder_def register_def Advertisement_init_def
      ProviderInstruction_init_def ReservationInstruction_init_def ResourceRequest_init_def Advertisement_SetupWithManager_def
      ProviderInstruction_SetupWithManager_def ReservationInstruction_SetupWithManager_def
      ResourceRequest_SetupWithManager_def controller_for_def)

text \<open>
  A node that becomes ready or gets more capacity, a pod that starts or ends: these are updates of a
  status, and none of them asks for a new report.
\<close>

lemma status_updates_unseen:
  "woken (Advertisement_SetupWithManager R) \<lparr>ev_Kind = kind, ev_Key = k, ev_Change = Updated False\<rparr> = []"
  by (simp add: woken_def Advertisement_SetupWithManager_def)

section \<open>A report that changes nothing\<close>

definition specs_of :: "('w \<Rightarrow> ('q AdvertisementSpec, AdvertisementStatus) store) \<Rightarrow> 'w \<Rightarrow> key \<Rightarrow> 'q AdvertisementSpec option" where
  "specs_of advs w k = map_option o_spec (advs w k)"

context advertiser_world
begin

lemma keeps_specs: "keeps advs m \<Longrightarrow> keeps (specs_of advs) m"
  by (simp add: keeps_def specs_of_def fun_eq_iff)

lemma status_keeps_specs: "keeps (specs_of advs) (c_status_update (g_adv E) x)"
  unfolding keeps_def specs_of_def by (metis adv.status_specs prod.collapse)

lemma schedule_keeps_specs: "keeps (specs_of advs) (schedule_next E R)"
  unfolding schedule_next_def Let_def by (intro keeps_intros keeps_specs env_quiet)

lemma update_status_keeps_specs: "keeps (specs_of advs) (AgentAdvertisement.updateStatus E R a phase published message)"
  unfolding AgentAdvertisement.updateStatus_def Let_def
  by (intro keeps_intros keeps_specs env_quiet status_keeps_specs schedule_keeps_specs)

lemma report_keeps_specs: "keeps (specs_of advs) (publish_and_report E V R a clusterID)"
  unfolding publish_and_report_def by (intro keeps_intros keeps_specs keeps_publish update_status_keeps_specs)

lemma unchanged_keeps_specs:
  assumes "run_state (AgentAdvertisement.Reconcile E V R k) w = (r, w')"
    "\<And>old m clusterID. advs w k = Some old \<Longrightarrow> measured E R m clusterID \<Longrightarrow>
      \<not> spec_changed (g_M E) R (measured_spec R clusterID m (o_spec old)) (o_spec old)"
  shows "specs_of advs w' = specs_of advs w"
proof -
  obtain got w1 where got: "run_state (c_get (g_adv E) k) w = (got, w1)" by fastforce
  have w1: "advs w1 = advs w" by (rule adv.get_same [OF got])
  show ?thesis
  proof (cases got)
    case (Inl e)
    with assms(1) got w1 show ?thesis by (simp add: AgentAdvertisement.Reconcile_def specs_of_def fun_eq_iff)
  next
    case (Inr a)
    with adv.get_found got have a: "advs w k = Some a" by blast
    obtain m w2 where m: "run_state (measure_cluster E R) w1 = (m, w2)" by fastforce
    obtain i w3 where i: "run_state (GetClusterID E (ar_MetricsCollector R)) w2 = (i, w3)" by fastforce
    have same: "specs_of advs w1 = specs_of advs w" "specs_of advs w2 = specs_of advs w" "specs_of advs w3 = specs_of advs w"
      using w1 keepsD [OF keeps_measure(1) m] keepsD [OF keeps_measure(2) i] by (simp_all add: specs_of_def fun_eq_iff)
    have status: "specs_of advs w' = specs_of advs wx"
      if "run_state (AgentAdvertisement.updateStatus E R b ph pub t) wx = (r, w')" for b ph pub t wx
      by (rule keepsD [OF update_status_keeps_specs that])
    consider (unmeasured) e where "m = Inl e" | (unnamed) data e where "m = Inr data" "i = Inl e"
      | (measured) data clusterID where "m = Inr data" "i = Inr clusterID" by (cases m; cases i) auto
    then show ?thesis
    proof cases
      case unmeasured
      with assms(1) got Inr m status [of a _ _ _ w2] same show ?thesis by (simp add: AgentAdvertisement.Reconcile_def)
    next
      case unnamed
      with assms(1) got Inr m i status [of a _ _ _ w3] same show ?thesis by (simp add: AgentAdvertisement.Reconcile_def)
    next
      case measured
      with m i have "AgentAdvertisement.measured E R data clusterID" unfolding AgentAdvertisement.measured_def by blast
      from assms(2) [OF a this] measured got Inr m i assms(1)
      have "run_state (publish_and_report E V R (a\<lparr>o_spec := measured_spec R clusterID data (o_spec a)\<rparr>) clusterID) w3 = (r, w')"
        by (simp add: AgentAdvertisement.Reconcile_def write_spec_def)
      from keepsD [OF report_keeps_specs this] same show ?thesis by simp
    qed
  qed
qed

end

section \<open>Properties\<close>

text \<open>
  C32. The agent's report comes to rest: where every measurement finds what the
  advertisement already says (identity, cost terms and the compared amounts), a reconciliation wakes
  no reconciliation, neither by the status it may write nor otherwise, so the next report is the
  timer's. The events of nodes and pods pass the same filter: one that changes only a status, as new
  capacity of a node or the end of a pod, is never seen.
\<close>

theorem agent_report_rests:
  assumes "advertiser_world E advs V R" "run_state (AgentAdvertisement.Reconcile E V R k) w = (r, w')"
    "\<And>old m clusterID. advs w k = Some old \<Longrightarrow> measured E R m clusterID \<Longrightarrow>
      \<not> spec_changed (g_M E) R (measured_spec R clusterID m (o_spec old)) (o_spec old)"
  shows "wakes (Advertisement_SetupWithManager R) ''Advertisement'' k' (advs w) (advs w') = [] \<and>
    woken (Advertisement_SetupWithManager R) \<lparr>ev_Kind = kind, ev_Key = k', ev_Change = Updated False\<rparr> = []"
proof -
  have "specs_of advs w' = specs_of advs w" by (rule advertiser_world.unchanged_keeps_specs [OF assms])
  then have "map_option o_spec (advs w' k') = map_option o_spec (advs w k')" unfolding specs_of_def by metis
  then have "wakes (Advertisement_SetupWithManager R) ''Advertisement'' k' (advs w) (advs w') = []"
    by (intro wakes_filtered) (simp_all add: Advertisement_SetupWithManager_def)
  then show ?thesis using status_updates_unseen by simp
qed

text \<open>A requester that has reported: it offers nothing, and its advertisement says so.\<close>

definition resting_requester :: "agent_world AdvertisementReconciler" where
  "resting_requester = sample_advertiser\<lparr>ar_AgentRole := ''requester''\<rparr>"

definition reported_world :: agent_world where
  "reported_world = sample_agent_world\<lparr>aw_advs :=
     [sample_agent_adv\<lparr>o_spec := measured_spec resting_requester ''b'' (zero_metrics nano_more) (o_spec sample_agent_adv)\<rparr>]\<rparr>"

lemma resting_lawful: "advertiser_world agent_env (\<lambda>w. store_get (aw_advs w)) no_services resting_requester"
  using agent_advertiser.advertiser_world_axioms
  by (simp add: advertiser_world_def advertiser_world_axioms_def resting_requester_def del: agent_env_simps)

lemma agent_report_rests_witness:
  "\<exists>r w'. run_state (AgentAdvertisement.Reconcile agent_env no_services resting_requester (''default'', ''adv'')) reported_world = (r, w') \<and>
    wakes (Advertisement_SetupWithManager resting_requester) ''Advertisement'' (''default'', ''adv'')
      (store_get (aw_advs reported_world)) (store_get (aw_advs w')) = []"
proof -
  let ?k = "(''default'', ''adv'')"
  obtain r w' where run: "run_state (AgentAdvertisement.Reconcile agent_env no_services resting_requester ?k) reported_world = (r, w')"
    by (meson surj_pair)
  have same: "\<not> spec_changed (g_M agent_env) resting_requester (measured_spec resting_requester clusterID m (o_spec old)) (o_spec old)"
    if "store_get (aw_advs reported_world) ?k = Some old" "measured agent_env resting_requester m clusterID" for old m clusterID
  proof -
    have "old = sample_agent_adv\<lparr>o_spec := measured_spec resting_requester ''b'' (zero_metrics nano_more) (o_spec sample_agent_adv)\<rparr>"
      using that(1) by (auto simp: reported_world_def store_get_def split: if_splits)
    moreover have "m = zero_metrics nano_more" "clusterID = ''b''"
      using that(2) by (auto simp: measured_def measure_cluster_def GetClusterID_def resting_requester_def sample_advertiser_def)
    ultimately show ?thesis
      by (simp add: spec_changed_def measured_spec_def fl_differ_def resting_requester_def sample_advertiser_def
          zero_metrics_def nano_more_def zero_float64_def Let_def)
  qed
  from agent_report_rests [where advs = "\<lambda>w. store_get (aw_advs w)" and k = ?k, OF resting_lawful run same] run show ?thesis by auto
qed

end
