(* ===== verification/GoHeap.thy ===== *)
theory GoHeap
  imports Float64 "HOL-Library.Sublist" "HOL-Library.AList"
begin

text \<open>
  Go's memory, as far as the copying of API objects needs it: values with pointers, slices and maps
  over a heap of cells, the effects that allocate, read and write cells, and what a value means. The
  other theories model a Go struct by what it contains, so that two variables never share a part;
  this one and the two on deep copies say why that is sound for the objects of the API.
\<close>

section \<open>Values and cells\<close>

datatype scalar = SString string | SInt int | SBool bool | SFloat float64

text \<open>
  A pointer, a slice and a map are nil or the address of a cell; a slice is a window into an array,
  its offset and its length. A struct is the list of its fields, embedded structs under their type.
\<close>

datatype val =
    Scalar scalar
  | Pointer "nat option"
  | Slice "(nat \<times> nat \<times> nat) option"
  | MapRef "nat option"
  | Struct "(string \<times> val) list"

datatype cell = Cell val | ArrayCell "val list" | MapCell "(string \<times> val) list"

text \<open>Cells are allocated in order and never freed: the heap is their list, an address an index.\<close>

type_synonym heap = "cell list"

definition cell_at :: "heap \<Rightarrow> nat \<Rightarrow> cell option" where
  "cell_at h a = (if a < length h then Some (h ! a) else None)"

datatype scalar_kind = KString | KInt | KBool | KFloat

fun kind_of :: "scalar \<Rightarrow> scalar_kind" where
  "kind_of (SString _) = KString"
| "kind_of (SInt _) = KInt"
| "kind_of (SBool _) = KBool"
| "kind_of (SFloat _) = KFloat"

datatype go_type =
    TScalar scalar_kind
  | TPtr go_type
  | TSlice go_type
  | TMap go_type
  | TStruct "(string \<times> go_type) list"

section \<open>What a value means\<close>

text \<open>
  The tree a value of a type unfolds to in a heap, \<open>None\<close> where the heap does not hold what the type
  says; the types of the API are not recursive, so neither is a tree. Nil and empty are different.
\<close>

datatype tree = Leaf scalar | NilLeaf | At tree | Elems "tree list" | Entries "(string \<times> tree) list" | Fields "(string \<times> tree) list"

lemma size_snd_field:
  assumes "(x, y) \<in> set (zip fs vs)"
  shows "size (snd x) < Suc (size_list (size_prod (\<lambda>_. 0) size) fs)"
proof -
  have "size_prod (\<lambda>_. 0) size x \<le> size_list (size_prod (\<lambda>_. 0) size) fs"
    using assms by (intro size_list_estimation') (auto dest: set_zip_leftD)
  then show ?thesis by (cases x) simp
qed

definition window :: "nat \<Rightarrow> nat \<Rightarrow> 'a list \<Rightarrow> 'a list" where
  "window off n vs = take n (drop off vs)"

function tree_of :: "heap \<Rightarrow> go_type \<Rightarrow> val \<Rightarrow> tree option" where
  "tree_of h (TScalar k) v = (case v of Scalar s \<Rightarrow> if kind_of s = k then Some (Leaf s) else None | _ \<Rightarrow> None)"
| "tree_of h (TPtr t) v = (case v of
      Pointer None \<Rightarrow> Some NilLeaf
    | Pointer (Some a) \<Rightarrow> (case cell_at h a of Some (Cell x) \<Rightarrow> map_option At (tree_of h t x) | _ \<Rightarrow> None)
    | _ \<Rightarrow> None)"
| "tree_of h (TSlice t) v = (case v of
      Slice None \<Rightarrow> Some NilLeaf
    | Slice (Some (a, off, n)) \<Rightarrow> (case cell_at h a of
          Some (ArrayCell xs) \<Rightarrow>
            if off + n \<le> length xs then map_option Elems (those (map (tree_of h t) (window off n xs))) else None
        | _ \<Rightarrow> None)
    | _ \<Rightarrow> None)"
| "tree_of h (TMap t) v = (case v of
      MapRef None \<Rightarrow> Some NilLeaf
    | MapRef (Some a) \<Rightarrow> (case cell_at h a of
          Some (MapCell kvs) \<Rightarrow>
            if distinct (map fst kvs)
            then map_option (Entries \<circ> zip (map fst kvs)) (those (map (tree_of h t \<circ> snd) kvs)) else None
        | _ \<Rightarrow> None)
    | _ \<Rightarrow> None)"
| "tree_of h (TStruct fs) v = (case v of
      Struct vs \<Rightarrow>
        if map fst vs = map fst fs
        then map_option (Fields \<circ> zip (map fst fs)) (those (map (\<lambda>(f, x). tree_of h (snd f) (snd x)) (zip fs vs))) else None
    | _ \<Rightarrow> None)"
  by pat_completeness auto
termination
  by (relation "measure (\<lambda>(h, t, v). size t)") (auto dest: size_snd_field)

text \<open>The addresses of the cells a value reaches.\<close>

function reach :: "heap \<Rightarrow> go_type \<Rightarrow> val \<Rightarrow> nat list" where
  "reach h (TScalar k) v = []"
| "reach h (TPtr t) v = (case v of
      Pointer (Some a) \<Rightarrow> a # (case cell_at h a of Some (Cell x) \<Rightarrow> reach h t x | _ \<Rightarrow> [])
    | _ \<Rightarrow> [])"
| "reach h (TSlice t) v = (case v of
      Slice (Some (a, off, n)) \<Rightarrow>
        a # (case cell_at h a of Some (ArrayCell xs) \<Rightarrow> concat (map (reach h t) (window off n xs)) | _ \<Rightarrow> [])
    | _ \<Rightarrow> [])"
| "reach h (TMap t) v = (case v of
      MapRef (Some a) \<Rightarrow> a # (case cell_at h a of Some (MapCell kvs) \<Rightarrow> concat (map (reach h t \<circ> snd) kvs) | _ \<Rightarrow> [])
    | _ \<Rightarrow> [])"
| "reach h (TStruct fs) v = (case v of
      Struct vs \<Rightarrow> concat (map (\<lambda>(f, x). reach h (snd f) (snd x)) (zip fs vs))
    | _ \<Rightarrow> [])"
  by pat_completeness auto
termination
  by (relation "measure (\<lambda>(h, t, v). size t)") (auto dest: size_snd_field)

text \<open>What a value means depends only on the cells it reaches.\<close>

lemma tree_of_cong:
  "\<forall>a \<in> set (reach h t v). cell_at g a = cell_at h a \<Longrightarrow> tree_of g t v = tree_of h t v \<and> reach g t v = reach h t v"
proof (induction h t v rule: reach.induct)
  case (2 h t v)
  then show ?case by (auto split: val.splits option.splits cell.splits)
next
  case (3 h t v)
  show ?case
  proof (cases "\<exists>a off n xs. v = Slice (Some (a, off, n)) \<and> cell_at h a = Some (ArrayCell xs)")
    case True
    then obtain a off n xs where v: "v = Slice (Some (a, off, n))" "cell_at h a = Some (ArrayCell xs)" by blast
    have "\<forall>x \<in> set (window off n xs). tree_of g t x = tree_of h t x \<and> reach g t x = reach h t x"
      using 3 v by auto
    with 3(2) v show ?thesis by (simp cong: map_cong)
  next
    case False
    with 3(2) show ?thesis by (auto split: val.splits option.splits cell.splits)
  qed
next
  case (4 h t v)
  show ?case
  proof (cases "\<exists>a kvs. v = MapRef (Some a) \<and> cell_at h a = Some (MapCell kvs)")
    case True
    then obtain a kvs where v: "v = MapRef (Some a)" "cell_at h a = Some (MapCell kvs)" by blast
    have "\<forall>x \<in> set kvs. tree_of g t (snd x) = tree_of h t (snd x) \<and> reach g t (snd x) = reach h t (snd x)"
      using 4 v by fastforce
    with 4(2) v show ?thesis by (simp cong: map_cong)
  next
    case False
    with 4(2) show ?thesis by (auto split: val.splits option.splits cell.splits)
  qed
next
  case (5 h fs v)
  show ?case
  proof (cases v)
    case (Struct vs)
    have "\<forall>p \<in> set (zip fs vs). tree_of g (snd (fst p)) (snd (snd p)) = tree_of h (snd (fst p)) (snd (snd p)) \<and>
      reach g (snd (fst p)) (snd (snd p)) = reach h (snd (fst p)) (snd (snd p))"
      using 5 Struct by fastforce
    then have T: "map (\<lambda>(f, x). tree_of g (snd f) (snd x)) (zip fs vs) = map (\<lambda>(f, x). tree_of h (snd f) (snd x)) (zip fs vs)"
      and R: "map (\<lambda>(f, x). reach g (snd f) (snd x)) (zip fs vs) = map (\<lambda>(f, x). reach h (snd f) (snd x)) (zip fs vs)"
      by auto
    show ?thesis unfolding Struct by (simp add: T R del: map_eq_conv)
  qed simp_all
qed simp

lemma those_Some: "those xs = Some ys \<longleftrightarrow> xs = map Some ys"
  by (induction xs arbitrary: ys) (auto split: option.splits)

lemma map_Some_memD: "map f xs = map Some ys \<Longrightarrow> x \<in> set xs \<Longrightarrow> \<exists>y. f x = Some y"
  by (metis imageE list.set_map rev_image_eqI)

lemma reach_in_heap: "tree_of h t v = Some T \<Longrightarrow> a \<in> set (reach h t v) \<Longrightarrow> a < length h"
proof (induction h t v arbitrary: T rule: reach.induct)
  case (2 h t v)
  then show ?case by (auto simp: cell_at_def split: val.splits option.splits cell.splits if_splits)
next
  case (3 h t v)
  then show ?case
    by (auto simp: cell_at_def those_Some split: val.splits option.splits cell.splits if_splits dest!: map_Some_memD)
next
  case (4 h t v)
  from 4(2,3) obtain b kvs where v: "v = MapRef (Some b)" "cell_at h b = Some (MapCell kvs)"
    "those (map (tree_of h t \<circ> snd) kvs) \<noteq> None"
    by (auto split: val.splits option.splits cell.splits if_splits)
  then have "\<exists>T. tree_of h t (snd x) = Some T" if "x \<in> set kvs" for x
    using that by (auto simp: those_Some dest: map_Some_memD [of _ _ _ x])
  with 4 v show ?case by (fastforce simp: cell_at_def split: if_splits)
next
  case (5 h fs v)
  then show ?case
    by (fastforce simp: those_Some split: val.splits if_splits dest!: map_Some_memD)
qed simp

lemma cell_at_prefix: "prefix h g \<Longrightarrow> a < length h \<Longrightarrow> cell_at g a = cell_at h a"
  by (auto simp: cell_at_def prefix_def nth_append)

lemma tree_of_prefix:
  "prefix h g \<Longrightarrow> tree_of h t v = Some T \<Longrightarrow> tree_of g t v = Some T \<and> reach g t v = reach h t v"
  using tree_of_cong [of h t v g] cell_at_prefix reach_in_heap by metis

text \<open>A value of a type without pointers, slices and maps is a copy of itself.\<close>

fun flat :: "go_type \<Rightarrow> bool" where
  "flat (TScalar k) = True"
| "flat (TStruct fs) = (\<forall>f \<in> set fs. flat (snd f))"
| "flat t = False"

lemma flat_reach [simp]: "flat t \<Longrightarrow> reach h t v = []"
  by (induction t arbitrary: v rule: flat.induct)
    (auto split: val.splits dest: set_zip_leftD)

section \<open>Effects on the heap\<close>

fun zero_of :: "go_type \<Rightarrow> val" where
  "zero_of (TScalar KString) = Scalar (SString '''')"
| "zero_of (TScalar KInt) = Scalar (SInt 0)"
| "zero_of (TScalar KBool) = Scalar (SBool False)"
| "zero_of (TScalar KFloat) = Scalar (SFloat (Fin 0))"
| "zero_of (TPtr t) = Pointer None"
| "zero_of (TSlice t) = Slice None"
| "zero_of (TMap t) = MapRef None"
| "zero_of (TStruct fs) = Struct (map (\<lambda>f. (fst f, zero_of (snd f))) fs)"

definition alloc :: "cell \<Rightarrow> (heap, nat) state" where
  "alloc c = State (\<lambda>h. (length h, h @ [c]))"

definition read_cell :: "nat \<Rightarrow> (heap, cell) state" where
  "read_cell a = State (\<lambda>h. (h ! a, h))"

definition write_cell :: "nat \<Rightarrow> cell \<Rightarrow> (heap, unit) state" where
  "write_cell a c = State (\<lambda>h. ((), h[a := c]))"

text \<open>\<open>*a\<close> on both sides of an assignment; a cell of another shape is not what a typed pointer has.\<close>

definition load :: "nat \<Rightarrow> (heap, val) state" where
  "load a = do { c \<leftarrow> read_cell a; ret (case c of Cell v \<Rightarrow> v | _ \<Rightarrow> Struct []) }"

definition store :: "nat \<Rightarrow> val \<Rightarrow> (heap, unit) state" where
  "store a v = write_cell a (Cell v)"

definition elements :: "nat \<Rightarrow> (heap, val list) state" where
  "elements a = do { c \<leftarrow> read_cell a; ret (case c of ArrayCell vs \<Rightarrow> vs | _ \<Rightarrow> []) }"

definition set_element :: "nat \<Rightarrow> nat \<Rightarrow> val \<Rightarrow> (heap, unit) state" where
  "set_element a i v = do { vs \<leftarrow> elements a; write_cell a (ArrayCell (vs[i := v])) }"

definition entries :: "nat \<Rightarrow> (heap, (string \<times> val) list) state" where
  "entries a = do { c \<leftarrow> read_cell a; ret (case c of MapCell kvs \<Rightarrow> kvs | _ \<Rightarrow> []) }"

definition set_entry :: "nat \<Rightarrow> string \<Rightarrow> val \<Rightarrow> (heap, unit) state" where
  "set_entry a k v = do { kvs \<leftarrow> entries a; write_cell a (MapCell (AList.update k v kvs)) }"

definition new :: "go_type \<Rightarrow> (heap, nat) state" where
  "new t = alloc (Cell (zero_of t))"

definition make_slice :: "go_type \<Rightarrow> nat \<Rightarrow> (heap, nat) state" where
  "make_slice t n = alloc (ArrayCell (replicate n (zero_of t)))"

definition make_map :: "(heap, nat) state" where
  "make_map = alloc (MapCell [])"

section \<open>The shapes of a generated copy\<close>

text \<open>
  controller-gen writes one of a few shapes per field, each guarded by \<open>if in.F != nil\<close> where the
  field can be nil. The copiers below are the bodies under the guard, from the field of \<open>in\<close> to the
  value assigned to the field of \<open>out\<close>.
\<close>

text \<open>\<open>*out = new(T); **out = **in\<close>\<close>

definition new_assign :: "go_type \<Rightarrow> val \<Rightarrow> (heap, val) state" where
  "new_assign t v = (case v of
      Pointer (Some a) \<Rightarrow> do { out \<leftarrow> new t; x \<leftarrow> load a; _ \<leftarrow> store out x; ret (Pointer (Some out)) }
    | _ \<Rightarrow> ret v)"

text \<open>\<open>*out = new(T); (*in).DeepCopyInto(*out)\<close>\<close>

definition new_deep :: "go_type \<Rightarrow> (val \<Rightarrow> (heap, val) state) \<Rightarrow> val \<Rightarrow> (heap, val) state" where
  "new_deep t copy v = (case v of
      Pointer (Some a) \<Rightarrow> do { out \<leftarrow> new t; x \<leftarrow> load a; y \<leftarrow> copy x; _ \<leftarrow> store out y; ret (Pointer (Some out)) }
    | _ \<Rightarrow> ret v)"

text \<open>\<open>x := (*in).DeepCopy(); *out = &x\<close>\<close>

definition boxed :: "(val \<Rightarrow> (heap, val) state) \<Rightarrow> val \<Rightarrow> (heap, val) state" where
  "boxed copy v = (case v of
      Pointer (Some a) \<Rightarrow> do { x \<leftarrow> load a; y \<leftarrow> copy x; out \<leftarrow> alloc (Cell y); ret (Pointer (Some out)) }
    | _ \<Rightarrow> ret v)"

text \<open>\<open>*out = make([]T, len( *in)); copy( *out, *in)\<close>\<close>

definition make_copy :: "go_type \<Rightarrow> val \<Rightarrow> (heap, val) state" where
  "make_copy t v = (case v of
      Slice (Some (a, off, n)) \<Rightarrow> do {
        out \<leftarrow> make_slice t n;
        xs \<leftarrow> elements a;
        _ \<leftarrow> write_cell out (ArrayCell (window off n xs));
        ret (Slice (Some (out, 0, n)))
      }
    | _ \<Rightarrow> ret v)"

text \<open>\<open>*out = make([]T, len( *in)); for i := range *in { ( *in)[i].DeepCopyInto(&( *out)[i]) }\<close>\<close>

fun copy_items :: "(val \<Rightarrow> (heap, val) state) \<Rightarrow> nat \<Rightarrow> nat \<Rightarrow> nat \<Rightarrow> nat list \<Rightarrow> (heap, unit) state" where
  "copy_items copy a off out [] = ret ()"
| "copy_items copy a off out (i # is) = do {
     xs \<leftarrow> elements a;
     y \<leftarrow> copy (xs ! (off + i));
     _ \<leftarrow> set_element out i y;
     copy_items copy a off out is
   }"

definition make_deep :: "go_type \<Rightarrow> (val \<Rightarrow> (heap, val) state) \<Rightarrow> val \<Rightarrow> (heap, val) state" where
  "make_deep t copy v = (case v of
      Slice (Some (a, off, n)) \<Rightarrow> do {
        out \<leftarrow> make_slice t n;
        _ \<leftarrow> copy_items copy a off out [0..<n];
        ret (Slice (Some (out, 0, n)))
      }
    | _ \<Rightarrow> ret v)"

text \<open>
  \<open>*out = make(map[string]T, len( *in)); for key, val := range *in { ( *out)[key] = val }\<close>: Go visits the
  entries in any order, here in the order of the cell; a map does not tell in which order it was filled.
\<close>

fun copy_entries :: "nat \<Rightarrow> (string \<times> val) list \<Rightarrow> (heap, unit) state" where
  "copy_entries out [] = ret ()"
| "copy_entries out ((key, x) # kvs) = do { _ \<leftarrow> set_entry out key x; copy_entries out kvs }"

definition make_entries :: "val \<Rightarrow> (heap, val) state" where
  "make_entries v = (case v of
      MapRef (Some a) \<Rightarrow> do {
        out \<leftarrow> make_map;
        kvs \<leftarrow> entries a;
        _ \<leftarrow> copy_entries out kvs;
        ret (MapRef (Some out))
      }
    | _ \<Rightarrow> ret v)"

section \<open>Deep copies\<close>

text \<open>
  The contract of a deep copy of a type: whatever the value, the copy means the same, the cells it
  reaches are new, and no cell that was there is written.
\<close>

definition deep_copies :: "go_type \<Rightarrow> (val \<Rightarrow> (heap, val) state) \<Rightarrow> bool" where
  "deep_copies t copy \<longleftrightarrow> (\<forall>h v T v' h'. tree_of h t v = Some T \<longrightarrow> run_state (copy v) h = (v', h') \<longrightarrow>
     prefix h h' \<and> tree_of h' t v' = Some T \<and> (\<forall>a \<in> set (reach h' t v'). length h \<le> a))"

named_theorems copies \<open>deep copies of the types\<close>

lemma deep_copiesI:
  "(\<And>h v T v' h'. tree_of h t v = Some T \<Longrightarrow> run_state (copy v) h = (v', h') \<Longrightarrow>
     prefix h h' \<and> tree_of h' t v' = Some T \<and> (\<forall>a \<in> set (reach h' t v'). length h \<le> a)) \<Longrightarrow> deep_copies t copy"
  unfolding deep_copies_def by blast

lemma deep_copiesD:
  assumes "deep_copies t copy" "tree_of h t v = Some T" "run_state (copy v) h = (v', h')"
  shows "prefix h h'" "tree_of h' t v' = Some T" "\<forall>a \<in> set (reach h' t v'). length h \<le> a"
  using assms unfolding deep_copies_def by blast+

lemma copies_flat: "flat t \<Longrightarrow> deep_copies t ret"
  by (rule deep_copiesI) (auto simp: State_Monad.return_def)

lemma overwrite:
  assumes "prefix (h @ [c]) h1"
  shows "prefix h (h1[length h := c'])" "cell_at (h1[length h := c']) (length h) = Some c'"
    "a \<noteq> length h \<Longrightarrow> cell_at (h1[length h := c']) a = cell_at h1 a"
proof -
  from assms obtain ys where h1: "h1 = h @ c # ys" by (auto simp: prefix_def)
  show "prefix h (h1[length h := c'])" by (simp add: h1 list_update_append)
  show "cell_at (h1[length h := c']) (length h) = Some c'" by (simp add: h1 cell_at_def)
  show "cell_at (h1[length h := c']) a = cell_at h1 a" if "a \<noteq> length h"
    using that by (simp add: cell_at_def)
qed

lemma overwrite_tree:
  assumes "prefix (h @ [c]) h1" "tree_of h1 t v = Some T" "\<forall>a \<in> set (reach h1 t v). Suc (length h) \<le> a"
  shows "tree_of (h1[length h := c']) t v = Some T \<and> reach (h1[length h := c']) t v = reach h1 t v"
proof -
  have "\<forall>a \<in> set (reach h1 t v). cell_at (h1[length h := c']) a = cell_at h1 a"
    using overwrite(3) [OF assms(1)] assms(3) by fastforce
  from tree_of_cong [OF this] assms(2) show ?thesis by simp
qed

lemmas heap_effects = alloc_def read_cell_def write_cell_def load_def store_def elements_def set_element_def entries_def
  set_entry_def new_def make_slice_def make_map_def State_Monad.bind_def State_Monad.return_def

lemma pointer_cases:
  assumes "tree_of h (TPtr t) v = Some T"
  obtains (null) "v = Pointer None" "T = NilLeaf"
  | (at) a x S where "v = Pointer (Some a)" "a < length h" "h ! a = Cell x" "tree_of h t x = Some S" "T = At S"
  using assms by (auto simp: cell_at_def split: val.splits option.splits cell.splits if_splits)

lemma nil_pointer: "tree_of h (TPtr t) (Pointer None) = Some NilLeaf" "reach h (TPtr t) (Pointer None) = []"
  by simp_all

lemma copies_new_deep [copies]:
  assumes "deep_copies t copy"
  shows "deep_copies (TPtr t) (new_deep t copy)"
proof (rule deep_copiesI)
  fix h v T v' h'
  assume v: "tree_of h (TPtr t) v = Some T" and run: "run_state (new_deep t copy v) h = (v', h')"
  from v show "prefix h h' \<and> tree_of h' (TPtr t) v' = Some T \<and> (\<forall>a \<in> set (reach h' (TPtr t) v'). length h \<le> a)"
  proof (cases rule: pointer_cases)
    case null
    with run show ?thesis by (auto simp: new_deep_def heap_effects)
  next
    case (at a x S)
    let ?h = "h @ [Cell (zero_of t)]"
    obtain y h1 where y: "run_state (copy x) ?h = (y, h1)" by fastforce
    have "prefix h ?h" by simp
    with at(4) have "tree_of ?h t x = Some S" using tree_of_prefix by blast
    note c = deep_copiesD [OF assms this y]
    have res: "v' = Pointer (Some (length h))" "h' = h1[length h := Cell y]"
      using run at(1-3) y by (auto simp: new_deep_def heap_effects nth_append)
    from overwrite [OF c(1)] overwrite_tree [OF c(1,2)] c(3) at(5) res show ?thesis by auto
  qed
qed

lemma new_assign_deep: "new_assign t = new_deep t ret"
  by (auto simp: fun_eq_iff new_assign_def new_deep_def split: val.split option.split)

lemma copies_new_assign [copies]: "flat t \<Longrightarrow> deep_copies (TPtr t) (new_assign t)"
  unfolding new_assign_deep by (rule copies_new_deep [OF copies_flat])

lemma copies_boxed [copies]:
  assumes "deep_copies t copy"
  shows "deep_copies (TPtr t) (boxed copy)"
proof (rule deep_copiesI)
  fix h v T v' h'
  assume v: "tree_of h (TPtr t) v = Some T" and run: "run_state (boxed copy v) h = (v', h')"
  from v show "prefix h h' \<and> tree_of h' (TPtr t) v' = Some T \<and> (\<forall>a \<in> set (reach h' (TPtr t) v'). length h \<le> a)"
  proof (cases rule: pointer_cases)
    case null
    with run show ?thesis by (auto simp: boxed_def heap_effects)
  next
    case (at a x S)
    obtain y h1 where y: "run_state (copy x) h = (y, h1)" by fastforce
    note c = deep_copiesD [OF assms at(4) y]
    have res: "v' = Pointer (Some (length h1))" "h' = h1 @ [Cell y]"
      using run at(1-3) y by (auto simp: boxed_def heap_effects)
    have h1: "prefix h1 h'" by (simp add: res)
    then have "prefix h h'" using c(1) prefix_order.trans by blast
    moreover have "cell_at h' (length h1) = Some (Cell y)" by (simp add: cell_at_def res)
    ultimately show ?thesis
      using tree_of_prefix [OF h1 c(2)] c(3) prefix_length_le [OF c(1)] res(1) at(5) by simp
  qed
qed

lemma slice_cases:
  assumes "tree_of h (TSlice t) v = Some T"
  obtains (null) "v = Slice None" "T = NilLeaf"
  | (at) a off n xs Ss where "v = Slice (Some (a, off, n))" "a < length h" "h ! a = ArrayCell xs" "off + n \<le> length xs"
      "map (tree_of h t) (window off n xs) = map Some Ss" "T = Elems Ss"
  using assms by (auto simp: cell_at_def those_Some split: val.splits option.splits cell.splits if_splits)

lemma window_simps: "off + n \<le> length xs \<Longrightarrow> length (window off n xs) = n"
  "i < n \<Longrightarrow> off + n \<le> length xs \<Longrightarrow> window off n xs ! i = xs ! (off + i)"
  "window 0 (length xs) xs = xs"
  by (simp_all add: window_def)

lemma copies_make_copy [copies]:
  assumes "flat t"
  shows "deep_copies (TSlice t) (make_copy t)"
proof (rule deep_copiesI)
  fix h v T v' h'
  assume v: "tree_of h (TSlice t) v = Some T" and run: "run_state (make_copy t v) h = (v', h')"
  from v show "prefix h h' \<and> tree_of h' (TSlice t) v' = Some T \<and> (\<forall>a \<in> set (reach h' (TSlice t) v'). length h \<le> a)"
  proof (cases rule: slice_cases)
    case null
    with run show ?thesis by (auto simp: make_copy_def heap_effects)
  next
    case (at a off n xs Ss)
    have res: "v' = Slice (Some (length h, 0, n))" "h' = h @ [ArrayCell (window off n xs)]"
      using run at(1-3) by (auto simp: make_copy_def heap_effects nth_append)
    have len: "length (window off n xs) = n" by (rule window_simps(1) [OF at(4)])
    have "tree_of h' t = tree_of h t"
      using tree_of_cong [of h t _ h'] assms by (simp add: fun_eq_iff)
    then have "map (tree_of h' t) (window off n xs) = map Some Ss" using at(5) by simp
    moreover have "cell_at h' (length h) = Some (ArrayCell (window off n xs))" by (simp add: res cell_at_def)
    moreover have "window 0 n (window off n xs) = window off n xs" using window_simps(3) len by metis
    ultimately show ?thesis using res assms len at(6) by (auto simp: those_Some)
  qed
qed

text \<open>The loop over the elements of a slice, from the \<open>i\<close>th element on.\<close>

definition items_done :: "heap \<Rightarrow> go_type \<Rightarrow> tree list \<Rightarrow> nat \<Rightarrow> heap \<Rightarrow> bool" where
  "items_done h0 t Ss i h \<longleftrightarrow> prefix h0 h \<and> length h0 < length h \<and>
     (\<exists>ys. h ! length h0 = ArrayCell ys \<and> length ys = length Ss \<and>
        (\<forall>j < i. tree_of h t (ys ! j) = Some (Ss ! j) \<and> (\<forall>a \<in> set (reach h t (ys ! j)). length h0 < a)))"

lemma item_step:
  assumes "deep_copies t copy" "items_done h0 t Ss i h" "i < length Ss"
    "a < length h0" "h0 ! a = ArrayCell xs" "tree_of h0 t (xs ! (off + i)) = Some (Ss ! i)"
    "run_state (copy (xs ! (off + i))) h = (y, h1)" "h1 ! length h0 = ArrayCell ys"
  shows "items_done h0 t Ss (Suc i) (h1[length h0 := ArrayCell (ys[i := y])])"
proof -
  let ?o = "length h0" and ?g = "h1[length h0 := ArrayCell (ys[i := y])]"
  from assms(2) obtain ys0 where h: "prefix h0 h" "?o < length h" "h ! ?o = ArrayCell ys0" "length ys0 = length Ss"
    "\<forall>j < i. tree_of h t (ys0 ! j) = Some (Ss ! j) \<and> (\<forall>a \<in> set (reach h t (ys0 ! j)). ?o < a)"
    by (auto simp: items_done_def)
  have "tree_of h t (xs ! (off + i)) = Some (Ss ! i)" using tree_of_prefix [OF h(1) assms(6)] by simp
  note c = deep_copiesD [OF assms(1) this assms(7)]
  have ys: "ys = ys0" using c(1) h(2,3) assms(8) by (auto simp: prefix_def nth_append)
  have pre: "prefix (h0 @ [ArrayCell ys0]) h1"
  proof -
    from h(1) obtain zs where "h = h0 @ zs" by (auto simp: prefix_def)
    with h(2,3) have "prefix (h0 @ [ArrayCell ys0]) h" by (cases zs) (auto simp: nth_append)
    with c(1) show ?thesis using prefix_order.trans by blast
  qed
  note keep = overwrite_tree [OF pre]
  have new: "tree_of ?g t y = Some (Ss ! i) \<and> reach ?g t y = reach h1 t y"
    using keep [OF c(2)] c(3) h(2) by fastforce
  have old: "tree_of ?g t (ys0 ! j) = Some (Ss ! j) \<and> (\<forall>a \<in> set (reach ?g t (ys0 ! j)). ?o < a)" if "j < i" for j
  proof -
    from h(5) that have j: "tree_of h t (ys0 ! j) = Some (Ss ! j)" "\<forall>a \<in> set (reach h t (ys0 ! j)). ?o < a" by auto
    from tree_of_prefix [OF c(1) j(1)] j(2) keep [of t "ys0 ! j" "Ss ! j"] show ?thesis by fastforce
  qed
  have len: "?o < length h1" using h(2) c(1) prefix_length_le by fastforce
  have "tree_of ?g t (ys0[i := y] ! j) = Some (Ss ! j) \<and> (\<forall>a \<in> set (reach ?g t (ys0[i := y] ! j)). ?o < a)" if "j < Suc i" for j
  proof (cases "j = i")
    case True
    with new c(3) h(2,4) assms(3) show ?thesis by fastforce
  next
    case False
    with that have "j < i" by simp
    from old [OF this] False show ?thesis by simp
  qed
  with overwrite(1) [OF pre] len h(4) ys show ?thesis by (simp add: items_done_def)
qed

lemma items_copied:
  assumes "deep_copies t copy" "items_done h0 t Ss i h" "i \<le> n" "n = length Ss"
    "a < length h0" "h0 ! a = ArrayCell xs" "\<forall>j < n. tree_of h0 t (xs ! (off + j)) = Some (Ss ! j)"
    "run_state (copy_items copy a off (length h0) [i..<n]) h = (u, h')"
  shows "items_done h0 t Ss n h'"
  using assms(2,3,8)
proof (induction "n - i" arbitrary: i h)
  case 0
  then show ?case by (simp add: State_Monad.return_def)
next
  case (Suc k)
  then have i: "i < n" and upt: "[i..<n] = i # [Suc i..<n]" by (simp_all add: upt_conv_Cons)
  from Suc.prems(1) assms(5,6) have src: "h ! a = ArrayCell xs" by (auto simp: items_done_def prefix_def nth_append)
  obtain y h1 where y: "run_state (copy (xs ! (off + i))) h = (y, h1)" by fastforce
  from Suc.prems(1) obtain ys0 where ys0: "length h0 < length h" "h ! length h0 = ArrayCell ys0" "prefix h0 h"
    by (auto simp: items_done_def)
  have "tree_of h t (xs ! (off + i)) = Some (Ss ! i)"
    using tree_of_prefix [OF ys0(3)] assms(7) i by blast
  from deep_copiesD(1) [OF assms(1) this y] ys0(1,2) have ys: "h1 ! length h0 = ArrayCell ys0"
    by (auto simp: prefix_def nth_append)
  from Suc.prems(3) upt src y ys
  have "run_state (copy_items copy a off (length h0) [Suc i..<n]) (h1[length h0 := ArrayCell (ys0[i := y])]) = (u, h')"
    by (simp add: heap_effects)
  from Suc.hyps(1) [OF _ item_step [OF assms(1) Suc.prems(1) _ assms(5,6) _ y ys] _ this] Suc.hyps(2) i assms(4,7)
  show ?case by simp
qed

lemma copies_make_deep [copies]:
  assumes "deep_copies t copy"
  shows "deep_copies (TSlice t) (make_deep t copy)"
proof (rule deep_copiesI)
  fix h v T v' h'
  assume v: "tree_of h (TSlice t) v = Some T" and run: "run_state (make_deep t copy v) h = (v', h')"
  from v show "prefix h h' \<and> tree_of h' (TSlice t) v' = Some T \<and> (\<forall>a \<in> set (reach h' (TSlice t) v'). length h \<le> a)"
  proof (cases rule: slice_cases)
    case null
    with run show ?thesis by (auto simp: make_deep_def heap_effects)
  next
    case (at a off n xs Ss)
    let ?h = "h @ [ArrayCell (replicate n (zero_of t))]"
    obtain u h1 where loop: "run_state (copy_items copy a off (length h) [0..<n]) ?h = (u, h1)" by (meson surj_pair)
    have res: "v' = Slice (Some (length h, 0, n))" "h' = h1"
      using run at(1-3) loop by (auto simp: make_deep_def heap_effects)
    have n: "n = length Ss" using at(4,5) window_simps(1) by (metis length_map)
    have each: "\<forall>j < n. tree_of h t (xs ! (off + j)) = Some (Ss ! j)"
    proof (intro allI impI)
      fix j assume j: "j < n"
      then have "map (tree_of h t) (window off n xs) ! j = Some (Ss ! j)" using at(5) n by simp
      with j at(4) show "tree_of h t (xs ! (off + j)) = Some (Ss ! j)"
        by (simp add: window_simps)
    qed
    have "items_done h t Ss 0 ?h" using n by (simp add: items_done_def)
    from items_copied [OF assms this _ n at(2,3) each loop] obtain ys where ys: "prefix h h1" "length h < length h1"
      "h1 ! length h = ArrayCell ys" "length ys = n"
      "\<forall>j < n. tree_of h1 t (ys ! j) = Some (Ss ! j) \<and> (\<forall>a \<in> set (reach h1 t (ys ! j)). length h < a)"
      using n by (auto simp: items_done_def)
    have "map (tree_of h1 t) ys = map Some Ss" using ys(4,5) n by (auto intro: nth_equalityI)
    moreover have "length h \<le> b" if "y \<in> set ys" "b \<in> set (reach h1 t y)" for y b
      using that ys(4,5) by (metis in_set_conv_nth less_imp_le)
    moreover have "window 0 n ys = ys" using window_simps(3) ys(4) by metis
    ultimately show ?thesis using res ys(1-4) at(6) by (auto simp: those_Some cell_at_def)
  qed
qed

lemma update_fresh_key: "k \<notin> set (map fst kvs) \<Longrightarrow> AList.update k v kvs = kvs @ [(k, v)]"
  by (induction kvs) auto

lemma entries_copied:
  assumes "distinct (map fst (done @ kvs))" "out < length h" "h ! out = MapCell done"
  shows "run_state (copy_entries out kvs) h = ((), h[out := MapCell (done @ kvs)])"
  using assms
proof (induction kvs arbitrary: "done" h)
  case Nil
  then show ?case by (metis append_Nil2 copy_entries.simps(1) list_update_id run_state_return)
next
  case (Cons e kvs)
  obtain k x where e: "e = (k, x)" by fastforce
  let ?h = "h[out := MapCell (done @ [(k, x)])]"
  have "run_state (copy_entries out kvs) ?h = ((), ?h[out := MapCell ((done @ [(k, x)]) @ kvs)])"
    using Cons.prems e by (intro Cons.IH) auto
  moreover have "AList.update k x done = done @ [(k, x)]"
    using Cons.prems(1) e by (intro update_fresh_key) auto
  ultimately show ?case using Cons.prems e by (simp add: heap_effects)
qed

lemma copies_make_entries [copies]:
  assumes "flat t"
  shows "deep_copies (TMap t) make_entries"
proof (rule deep_copiesI)
  fix h v T v' h'
  assume v: "tree_of h (TMap t) v = Some T" and run: "run_state (make_entries v) h = (v', h')"
  consider (null) "v = MapRef None" "T = NilLeaf"
    | (at) a kvs Ss where "v = MapRef (Some a)" "a < length h" "h ! a = MapCell kvs" "distinct (map fst kvs)"
        "map (tree_of h t \<circ> snd) kvs = map Some Ss" "T = Entries (zip (map fst kvs) Ss)"
    using v by (auto simp: cell_at_def those_Some split: val.splits option.splits cell.splits if_splits)
  then show "prefix h h' \<and> tree_of h' (TMap t) v' = Some T \<and> (\<forall>a \<in> set (reach h' (TMap t) v'). length h \<le> a)"
  proof cases
    case null
    with run show ?thesis by (auto simp: make_entries_def heap_effects)
  next
    case (at a kvs Ss)
    have "run_state (copy_entries (length h) kvs) (h @ [MapCell []]) = ((), h @ [MapCell kvs])"
      using entries_copied [of "[]" kvs "length h" "h @ [MapCell []]"] at(4) by (simp add: list_update_append)
    with run at(1-3) have res: "v' = MapRef (Some (length h))" "h' = h @ [MapCell kvs]"
      by (auto simp: make_entries_def heap_effects nth_append)
    have "tree_of h' t = tree_of h t"
      using tree_of_cong [of h t _ h'] assms by (simp add: fun_eq_iff)
    then have "map (tree_of h' t \<circ> snd) kvs = map Some Ss" using at(5) by simp
    then show ?thesis using res assms at(4,6) by (auto simp: those_Some cell_at_def)
  qed
qed

section \<open>Generated bodies\<close>

text \<open>
  A generated \<open>DeepCopyInto\<close> assigns \<open>*out = *in\<close> and then one statement per field that needs more
  than the assignment. \<open>in\<close> and \<open>out\<close> are different variables, as in every call the generated code
  makes (\<open>out\<close> is a new struct or a part of one), so \<open>in\<close> is read as it was.
\<close>

fun get_field :: "string \<Rightarrow> val \<Rightarrow> val" where
  "get_field f (Struct vs) = (case map_of vs f of Some x \<Rightarrow> x | None \<Rightarrow> Struct [])"
| "get_field f _ = Struct []"

fun set_field :: "string \<Rightarrow> val \<Rightarrow> val \<Rightarrow> val" where
  "set_field f x (Struct vs) = Struct (map (\<lambda>(g, y). (g, if g = f then x else y)) vs)"
| "set_field f x v = v"

fun is_nil :: "val \<Rightarrow> bool" where
  "is_nil (Pointer None) = True"
| "is_nil (Slice None) = True"
| "is_nil (MapRef None) = True"
| "is_nil _ = False"

definition assign :: "string \<Rightarrow> val \<Rightarrow> val \<Rightarrow> (heap, val) state" where
  "assign f inn out = ret (set_field f (get_field f inn) out)"

definition deep :: "string \<Rightarrow> (val \<Rightarrow> (heap, val) state) \<Rightarrow> val \<Rightarrow> val \<Rightarrow> (heap, val) state" where
  "deep f copy inn out = do { x \<leftarrow> copy (get_field f inn); ret (set_field f x out) }"

definition unless_nil :: "string \<Rightarrow> (val \<Rightarrow> (heap, val) state) \<Rightarrow> val \<Rightarrow> val \<Rightarrow> (heap, val) state" where
  "unless_nil f copy inn out = (if is_nil (get_field f inn) then ret out else deep f copy inn out)"

text \<open>
  The statements: \<open>out.F = in.F\<close>; \<open>in.F.DeepCopyInto(&out.F)\<close>, or \<open>out.F = in.F.DeepCopy()\<close>, of a field
  that is a value; and \<open>if in.F != nil { in, out := &in.F, &out.F; ... }\<close>.
\<close>

datatype stmt =
    Assign (field_of: string)
  | Deep (field_of: string) "val \<Rightarrow> (heap, val) state"
  | UnlessNil (field_of: string) "val \<Rightarrow> (heap, val) state"

fun exec :: "stmt \<Rightarrow> val \<Rightarrow> val \<Rightarrow> (heap, val) state" where
  "exec (Assign f) = assign f"
| "exec (Deep f copy) = deep f copy"
| "exec (UnlessNil f copy) = unless_nil f copy"

fun statements :: "stmt list \<Rightarrow> val \<Rightarrow> val \<Rightarrow> (heap, val) state" where
  "statements [] inn out = ret out"
| "statements (s # ss) inn out = do { out' \<leftarrow> exec s inn out; statements ss inn out' }"

definition generated :: "stmt list \<Rightarrow> val \<Rightarrow> (heap, val) state" where
  "generated ss inn = statements ss inn inn"

text \<open>
  \<open>DeepCopy\<close> of a pointer receiver, and \<open>DeepCopyObject\<close>, whose result is an interface: nil, or a type
  and a pointer, which may itself be nil.
\<close>

definition deep_copy :: "go_type \<Rightarrow> (val \<Rightarrow> (heap, val) state) \<Rightarrow> nat option \<Rightarrow> (heap, nat option) state" where
  "deep_copy t into inn = (case inn of
      None \<Rightarrow> ret None
    | Some a \<Rightarrow> do { out \<leftarrow> new t; x \<leftarrow> load a; y \<leftarrow> into x; _ \<leftarrow> store out y; ret (Some out) })"

type_synonym runtime_Object = "(string \<times> nat option) option"

definition deep_copy_object :: "string \<Rightarrow> (nat option \<Rightarrow> (heap, nat option) state) \<Rightarrow> nat option \<Rightarrow> (heap, runtime_Object) state" where
  "deep_copy_object kind copy inn = do { c \<leftarrow> copy inn; ret (if c \<noteq> None then Some (kind, c) else None) }"

text \<open>
  The struct under construction: every field means what it means in \<open>in\<close>, and a field that was copied
  reaches new cells only.
\<close>

definition under_way :: "heap \<Rightarrow> (string \<times> go_type) list \<Rightarrow> val \<Rightarrow> string set \<Rightarrow> heap \<Rightarrow> val \<Rightarrow> bool" where
  "under_way h0 fs inn D h out \<longleftrightarrow> prefix h0 h \<and> (\<exists>vs. out = Struct vs \<and> map fst vs = map fst fs) \<and>
     (\<forall>f t. map_of fs f = Some t \<longrightarrow>
        (\<exists>S. tree_of h0 t (get_field f inn) = Some S \<and> tree_of h t (get_field f out) = Some S) \<and>
        (if f \<in> D then \<forall>a \<in> set (reach h t (get_field f out)). length h0 \<le> a else get_field f out = get_field f inn))"

definition fills :: "(string \<times> go_type) list \<Rightarrow> string \<Rightarrow> (val \<Rightarrow> val \<Rightarrow> (heap, val) state) \<Rightarrow> bool" where
  "fills fs f s \<longleftrightarrow> (\<forall>h0 inn D h out out' h'. under_way h0 fs inn D h out \<longrightarrow> run_state (s inn out) h = (out', h') \<longrightarrow>
     under_way h0 fs inn (insert f D) h' out')"

lemma get_set_field:
  assumes "map fst vs = map fst fs" "map_of fs f = Some t"
  shows "get_field g (set_field f x (Struct vs)) = (if g = f then x else get_field g (Struct vs))"
    "map fst (map (\<lambda>(g, y). (g, if g = f then x else y)) vs) = map fst fs"
proof -
  have "f \<in> fst ` set vs" using assms by (metis domI dom_map_of_conv_image_fst set_map)
  moreover have "map_of (map (\<lambda>(g, y). (g, if g = f then x else y)) vs) g =
    (if g = f then map_option (\<lambda>_. x) (map_of vs f) else map_of vs g)"
    by (induction vs) auto
  moreover have "\<exists>y. map_of vs f = Some y" using calculation(1) by (metis map_of_eq_None_iff not_None_eq)
  ultimately show "get_field g (set_field f x (Struct vs)) = (if g = f then x else get_field g (Struct vs))" by auto
  show "map fst (map (\<lambda>(g, y). (g, if g = f then x else y)) vs) = map fst fs"
    using assms(1) by (simp add: split_beta comp_def)
qed

lemma fills_deep:
  assumes "map_of fs f = Some t" "deep_copies t copy"
  shows "fills fs f (deep f copy)"
  unfolding fills_def
proof (intro allI impI)
  fix h0 inn D h out out' h'
  assume way: "under_way h0 fs inn D h out" and run: "run_state (deep f copy inn out) h = (out', h')"
  obtain x h1 where x: "run_state (copy (get_field f inn)) h = (x, h1)" by fastforce
  have res: "out' = set_field f x out" "h' = h1" using run x by (auto simp: deep_def heap_effects)
  from way obtain vs where pre: "prefix h0 h" and vs: "out = Struct vs" "map fst vs = map fst fs"
    by (auto simp: under_way_def)
  from way assms(1) obtain S where S: "tree_of h0 t (get_field f inn) = Some S" by (auto simp: under_way_def)
  note c = deep_copiesD [OF assms(2) tree_of_prefix [OF pre S, THEN conjunct1] x]
  note get = get_set_field(1) [OF vs(2) assms(1)]
  have "(\<exists>S. tree_of h0 u (get_field g inn) = Some S \<and> tree_of h' u (get_field g out') = Some S) \<and>
      (if g \<in> insert f D then \<forall>a \<in> set (reach h' u (get_field g out')). length h0 \<le> a else get_field g out' = get_field g inn)"
    if g: "map_of fs g = Some u" for g u
  proof (cases "g = f")
    case True
    with g assms(1) have "u = t" by simp
    then show ?thesis using True S c(2,3) res get vs(1) prefix_length_le [OF pre] by fastforce
  next
    case False
    from way g obtain R where R: "tree_of h0 u (get_field g inn) = Some R" "tree_of h u (get_field g out) = Some R"
      "if g \<in> D then \<forall>a \<in> set (reach h u (get_field g out)). length h0 \<le> a else get_field g out = get_field g inn"
      by (auto simp: under_way_def)
    from tree_of_prefix [OF c(1) R(2)] R False res get vs(1) show ?thesis by auto
  qed
  moreover have "prefix h0 h'" using pre c(1) res(2) prefix_order.trans by blast
  moreover have "\<exists>ws. out' = Struct ws \<and> map fst ws = map fst fs"
    using get_set_field(2) [OF vs(2) assms(1)] vs(1) res(1) by simp
  ultimately show "under_way h0 fs inn (insert f D) h' out'" by (simp add: under_way_def)
qed

lemma fills_assign: "map_of fs f = Some t \<Longrightarrow> flat t \<Longrightarrow> fills fs f (assign f)"
proof -
  assume f: "map_of fs f = Some t" "flat t"
  have "assign f = deep f ret" by (simp add: fun_eq_iff assign_def deep_def)
  then show ?thesis using fills_deep [OF f(1) copies_flat [OF f(2)]] by simp
qed

lemma nil_reach: "is_nil v \<Longrightarrow> reach h t v = []"
  by (cases v rule: is_nil.cases; cases t) simp_all

lemma fills_unless_nil:
  assumes "map_of fs f = Some t" "deep_copies t copy"
  shows "fills fs f (unless_nil f copy)"
  unfolding fills_def
proof (intro allI impI)
  fix h0 inn D h out out' h'
  assume way: "under_way h0 fs inn D h out" and run: "run_state (unless_nil f copy inn out) h = (out', h')"
  show "under_way h0 fs inn (insert f D) h' out'"
  proof (cases "is_nil (get_field f inn)")
    case True
    with run have res: "out' = out" "h' = h" by (auto simp: unless_nil_def State_Monad.return_def)
    have "length h0 \<le> a" if "map_of fs f = Some u" "a \<in> set (reach h u (get_field f out))" for u a
      using way that nil_reach [OF True, of h u] unfolding under_way_def by (cases "f \<in> D") fastforce+
    with way res show ?thesis by (simp add: under_way_def)
  next
    case False
    with run have "run_state (deep f copy inn out) h = (out', h')" by (simp add: unless_nil_def)
    with fills_deep [OF assms] way show ?thesis unfolding fills_def by blast
  qed
qed

text \<open>What a statement has to be for the declared type of its field.\<close>

fun fits :: "(string \<times> go_type) list \<Rightarrow> stmt \<Rightarrow> bool" where
  "fits fs (Assign f) = (case map_of fs f of None \<Rightarrow> False | Some t \<Rightarrow> flat t)"
| "fits fs (Deep f copy) = (case map_of fs f of None \<Rightarrow> False | Some t \<Rightarrow> deep_copies t copy)"
| "fits fs (UnlessNil f copy) = (case map_of fs f of None \<Rightarrow> False | Some t \<Rightarrow> deep_copies t copy)"

lemma fits_fills: "fits fs s \<Longrightarrow> fills fs (field_of s) (exec s)"
  by (cases s) (auto split: option.splits intro: fills_assign fills_deep fills_unless_nil)

lemma statements_fill:
  assumes "list_all (fits fs) ss" "under_way h0 fs inn D h out" "run_state (statements ss inn out) h = (out', h')"
  shows "under_way h0 fs inn (field_of ` set ss \<union> D) h' out'"
  using assms
proof (induction ss arbitrary: D h out)
  case Nil
  then show ?case by (simp add: State_Monad.return_def)
next
  case (Cons s ss)
  obtain x h1 where x: "run_state (exec s inn out) h = (x, h1)" by fastforce
  with fits_fills [of fs s] Cons.prems(1,2) have "under_way h0 fs inn (insert (field_of s) D) h1 x"
    unfolding fills_def by auto
  moreover from Cons.prems(3) x have "run_state (statements ss inn x) h1 = (out', h')" by (simp add: State_Monad.bind_def)
  ultimately show ?case using Cons.IH Cons.prems(1) by fastforce
qed

lemma zip_get_field:
  assumes "map fst vs = map fst fs" "distinct (map fst fs)"
  shows "map (\<lambda>(f, x). F (snd f) (snd x)) (zip fs vs) = map (\<lambda>f. F (snd f) (get_field (fst f) (Struct vs))) fs"
proof (rule nth_equalityI)
  show "length (map (\<lambda>(f, x). F (snd f) (snd x)) (zip fs vs)) = length (map (\<lambda>f. F (snd f) (get_field (fst f) (Struct vs))) fs)"
    using assms(1) by (metis length_map length_zip min.idem)
next
  fix i assume "i < length (map (\<lambda>(f, x). F (snd f) (snd x)) (zip fs vs))"
  then have i: "i < length fs" "i < length vs" by simp_all
  have "map fst vs ! i = map fst fs ! i" using assms(1) by simp
  then have "fst (fs ! i) = fst (vs ! i)" using i by simp
  moreover have "map_of vs (fst (vs ! i)) = Some (snd (vs ! i))"
    using i assms by (intro map_of_is_SomeI) simp_all
  ultimately show "map (\<lambda>(f, x). F (snd f) (snd x)) (zip fs vs) ! i = map (\<lambda>f. F (snd f) (get_field (fst f) (Struct vs))) fs ! i"
    using i by (simp add: split_beta)
qed

lemma struct_tree:
  assumes "distinct (map fst fs)"
  shows "tree_of h (TStruct fs) v = Some T \<longleftrightarrow> (\<exists>vs Ss. v = Struct vs \<and> map fst vs = map fst fs \<and>
    T = Fields (zip (map fst fs) Ss) \<and> map (\<lambda>f. tree_of h (snd f) (get_field (fst f) v)) fs = map Some Ss)"
    "v = Struct vs \<Longrightarrow> map fst vs = map fst fs \<Longrightarrow>
      set (reach h (TStruct fs) v) = (\<Union>f \<in> set fs. set (reach h (snd f) (get_field (fst f) v)))"
proof -
  show "tree_of h (TStruct fs) v = Some T \<longleftrightarrow> (\<exists>vs Ss. v = Struct vs \<and> map fst vs = map fst fs \<and>
    T = Fields (zip (map fst fs) Ss) \<and> map (\<lambda>f. tree_of h (snd f) (get_field (fst f) v)) fs = map Some Ss)"
    using zip_get_field [OF _ assms, of _ "tree_of h"]
    by (cases v) (auto simp: those_Some simp del: get_field.simps)
  show "set (reach h (TStruct fs) v) = (\<Union>f \<in> set fs. set (reach h (snd f) (get_field (fst f) v)))"
    if "v = Struct vs" "map fst vs = map fst fs"
    using zip_get_field [OF that(2) assms, of "reach h"] that(1) by (simp del: get_field.simps)
qed

lemma generated_copies [copies]:
  assumes "distinct (map fst fs)" "list_all (fits fs) ss" "\<forall>f \<in> set fs. fst f \<in> field_of ` set ss \<or> flat (snd f)"
  shows "deep_copies (TStruct fs) (generated ss)"
proof (rule deep_copiesI)
  fix h v T v' h'
  assume v: "tree_of h (TStruct fs) v = Some T" and run: "run_state (generated ss v) h = (v', h')"
  from v obtain vs Ss where vs: "v = Struct vs" "map fst vs = map fst fs" "T = Fields (zip (map fst fs) Ss)"
    "map (\<lambda>f. tree_of h (snd f) (get_field (fst f) v)) fs = map Some Ss"
    unfolding struct_tree(1) [OF assms(1)] by blast
  have each: "\<exists>S. tree_of h t (get_field f v) = Some S" if "(f, t) \<in> set fs" for f t
    using map_Some_memD [OF vs(4) that] by simp
  then have "under_way h fs v {} h v" using vs(1,2) by (auto simp: under_way_def dest: map_of_SomeD)
  from statements_fill [OF assms(2) this run [unfolded generated_def]]
  have way: "under_way h fs v (field_of ` set ss) h' v'" by simp
  then obtain ws where pre: "prefix h h'" and ws: "v' = Struct ws" "map fst ws = map fst fs"
    by (auto simp: under_way_def)
  have at: "map_of fs f = Some t" if "(f, t) \<in> set fs" for f t using that assms(1) by simp
  have same: "tree_of h' t (get_field f v') = tree_of h t (get_field f v)" if "(f, t) \<in> set fs" for f t
    using way at [OF that] unfolding under_way_def by fastforce
  then have "map (\<lambda>f. tree_of h' (snd f) (get_field (fst f) v')) fs = map (\<lambda>f. tree_of h (snd f) (get_field (fst f) v)) fs"
    by (auto intro!: map_cong)
  with ws vs(3,4) have "tree_of h' (TStruct fs) v' = Some T" unfolding struct_tree(1) [OF assms(1)] by metis
  moreover have "length h \<le> a" if "(f, t) \<in> set fs" "a \<in> set (reach h' t (get_field f v'))" for f t a
  proof (cases "flat t")
    case True
    with that(2) show ?thesis by simp
  next
    case False
    with assms(3) that(1) have "f \<in> field_of ` set ss" by fastforce
    with way at [OF that(1)] that(2) show ?thesis by (auto simp: under_way_def simp del: get_field.simps)
  qed
  then have "\<forall>a \<in> set (reach h' (TStruct fs) v'). length h \<le> a"
    using struct_tree(2) [OF assms(1) ws, of h'] by auto
  ultimately show "prefix h h' \<and> tree_of h' (TStruct fs) v' = Some T \<and> (\<forall>a \<in> set (reach h' (TStruct fs) v'). length h \<le> a)"
    using pre by blast
qed

section \<open>Copies of objects\<close>

text \<open>
  What a caller relies on: the copy of nil is nil; the copy means what the object means; whatever is
  written later to the cells that were there before leaves the copy as it is, and whatever is written
  to the new cells leaves the object as it is.
\<close>

definition isolated_copy :: "go_type \<Rightarrow> (nat option \<Rightarrow> (heap, nat option) state) \<Rightarrow> bool" where
  "isolated_copy t copy \<longleftrightarrow> (\<forall>h p T p' h'. tree_of h (TPtr t) (Pointer p) = Some T \<longrightarrow> run_state (copy p) h = (p', h') \<longrightarrow>
     (p' = None \<longleftrightarrow> p = None) \<and> prefix h h' \<and>
     (\<forall>g. (\<forall>a \<ge> length h. cell_at g a = cell_at h' a) \<longrightarrow> tree_of g (TPtr t) (Pointer p') = Some T) \<and>
     (\<forall>g. (\<forall>a < length h. cell_at g a = cell_at h' a) \<longrightarrow> tree_of g (TPtr t) (Pointer p) = Some T))"

lemma deep_copy_pointer:
  "run_state (deep_copy t into p) h = (p', h') \<Longrightarrow> run_state (new_deep t into (Pointer p)) h = (Pointer p', h')"
  by (cases p) (auto simp: deep_copy_def new_deep_def heap_effects split: prod.splits)

lemma deep_copy_isolated:
  assumes "deep_copies t into"
  shows "isolated_copy t (deep_copy t into)"
  unfolding isolated_copy_def
proof (intro allI impI)
  fix h p T p' h'
  assume v: "tree_of h (TPtr t) (Pointer p) = Some T" and run: "run_state (deep_copy t into p) h = (p', h')"
  note c = deep_copiesD [OF copies_new_deep [OF assms] v deep_copy_pointer [OF run]]
  have "p' = None \<longleftrightarrow> p = None"
    using run by (cases p) (auto simp: deep_copy_def heap_effects split: prod.splits)
  moreover have "tree_of g (TPtr t) (Pointer p') = Some T" if "\<forall>a \<ge> length h. cell_at g a = cell_at h' a" for g
  proof -
    have "\<forall>a \<in> set (reach h' (TPtr t) (Pointer p')). cell_at g a = cell_at h' a" using c(3) that by blast
    from tree_of_cong [OF this] c(2) show ?thesis by simp
  qed
  moreover have "tree_of g (TPtr t) (Pointer p) = Some T" if "\<forall>a < length h. cell_at g a = cell_at h' a" for g
  proof -
    have "\<forall>a \<in> set (reach h (TPtr t) (Pointer p)). cell_at g a = cell_at h a"
      using that cell_at_prefix [OF c(1)] reach_in_heap [OF v] by metis
    from tree_of_cong [OF this] v show ?thesis by simp
  qed
  ultimately show "(p' = None \<longleftrightarrow> p = None) \<and> prefix h h' \<and>
     (\<forall>g. (\<forall>a \<ge> length h. cell_at g a = cell_at h' a) \<longrightarrow> tree_of g (TPtr t) (Pointer p') = Some T) \<and>
     (\<forall>g. (\<forall>a < length h. cell_at g a = cell_at h' a) \<longrightarrow> tree_of g (TPtr t) (Pointer p) = Some T)"
    using c(1) by blast
qed

text \<open>
  A copy through the interface: nil exactly for nil, never an interface that holds a nil pointer, and
  what it holds is an isolated copy of the kind.
\<close>

definition held_pointer :: "runtime_Object \<Rightarrow> nat option" where
  "held_pointer r = (case r of None \<Rightarrow> None | Some (kind, p) \<Rightarrow> p)"

definition isolated_object :: "string \<Rightarrow> go_type \<Rightarrow> (nat option \<Rightarrow> (heap, runtime_Object) state) \<Rightarrow> bool" where
  "isolated_object kind t obj \<longleftrightarrow> isolated_copy t (\<lambda>p. do { r \<leftarrow> obj p; ret (held_pointer r) }) \<and>
     (\<forall>p h. case fst (run_state (obj p) h) of None \<Rightarrow> True | Some (k, q) \<Rightarrow> k = kind \<and> q \<noteq> None)"

lemma deep_copy_object_isolated:
  assumes "isolated_copy t copy"
  shows "isolated_object kind t (deep_copy_object kind copy)"
proof -
  have "run_state (do { r \<leftarrow> deep_copy_object kind copy p; ret (held_pointer r) }) h = run_state (copy p) h" for p h
    by (cases "run_state (copy p) h") (simp add: deep_copy_object_def State_Monad.bind_def State_Monad.return_def held_pointer_def)
  then have "do { r \<leftarrow> deep_copy_object kind copy p; ret (held_pointer r) } = copy p" for p
    by (simp add: state.expand fun_eq_iff)
  with assms show ?thesis
    by (auto simp: isolated_object_def deep_copy_object_def State_Monad.bind_def State_Monad.return_def split: prod.splits)
qed

section \<open>The types of the Kubernetes library\<close>

text \<open>
  The library's own types: what is inside them and how they are copied are parameters. The library
  documents its copies as deep copies; \<open>TypeMeta\<close> and \<open>Duration\<close> are copied by assignment.
\<close>

datatype lib_name = LibTypeMeta | LibObjectMeta | LibListMeta | LibTime | LibDuration | LibCondition | LibQuantity

record Library =
  lib_type :: "lib_name \<Rightarrow> go_type"
  lib_copy :: "lib_name \<Rightarrow> val \<Rightarrow> (heap, val) state"
  lib_Time_DeepCopy :: "val \<Rightarrow> (heap, val) state"

definition library_copies :: "Library \<Rightarrow> bool" where
  "library_copies L \<longleftrightarrow>
     (\<forall>x \<in> {LibObjectMeta, LibListMeta, LibTime, LibCondition, LibQuantity}. deep_copies (lib_type L x) (lib_copy L x)) \<and>
     deep_copies (TPtr (lib_type L LibTime)) (lib_Time_DeepCopy L) \<and>
     flat (lib_type L LibTypeMeta) \<and> flat (lib_type L LibDuration)"

lemma library_copiesD [copies]:
  assumes "library_copies L"
  shows "deep_copies (lib_type L LibObjectMeta) (lib_copy L LibObjectMeta)" "deep_copies (lib_type L LibListMeta) (lib_copy L LibListMeta)"
    "deep_copies (lib_type L LibTime) (lib_copy L LibTime)" "deep_copies (lib_type L LibCondition) (lib_copy L LibCondition)"
    "deep_copies (lib_type L LibQuantity) (lib_copy L LibQuantity)" "deep_copies (TPtr (lib_type L LibTime)) (lib_Time_DeepCopy L)"
    "flat (lib_type L LibTypeMeta)" "flat (lib_type L LibDuration)"
  using assms by (simp_all add: library_copies_def)

text \<open>
  An instance: a quantity has a pointer to its arbitrary-precision form where it needs one, object
  metadata has a map of labels, a list's metadata and a condition are plain, and a time is an
  immutable value.
\<close>

definition sample_library :: Library where
  "sample_library = \<lparr>
     lib_type = (\<lambda>x. case x of
         LibTypeMeta \<Rightarrow> TStruct [(''Kind'', TScalar KString), (''APIVersion'', TScalar KString)]
       | LibObjectMeta \<Rightarrow> TStruct [(''Name'', TScalar KString), (''Labels'', TMap (TScalar KString))]
       | LibListMeta \<Rightarrow> TStruct [(''ResourceVersion'', TScalar KString)]
       | LibTime \<Rightarrow> TScalar KInt
       | LibDuration \<Rightarrow> TScalar KInt
       | LibCondition \<Rightarrow> TStruct [(''Type'', TScalar KString), (''Status'', TScalar KString)]
       | LibQuantity \<Rightarrow> TStruct [(''i'', TScalar KInt), (''d'', TPtr (TScalar KInt)), (''Format'', TScalar KString)]),
     lib_copy = (\<lambda>x. case x of
         LibObjectMeta \<Rightarrow> generated [UnlessNil ''Labels'' make_entries]
       | LibQuantity \<Rightarrow> generated [UnlessNil ''d'' (new_assign (TScalar KInt))]
       | _ \<Rightarrow> ret),
     lib_Time_DeepCopy = new_assign (TScalar KInt)\<rparr>"

lemma sample_library_copies: "library_copies sample_library"
  by (simp add: library_copies_def sample_library_def copies copies_flat)

end
