(* ===== verification/BrokerDeepCopy.thy ===== *)
theory BrokerDeepCopy
  imports GoHeap
begin

text \<open>
  resource-broker/api/v1alpha1/zz_generated.deepcopy.go over Go's memory: per type its fields as
  declared in the *_types.go files, its generated \<open>DeepCopyInto\<close> with one statement per statement of
  the source, \<open>DeepCopy\<close>, and for the kinds of the API \<open>DeepCopyObject\<close>.
\<close>

section \<open>Types and their copies\<close>

definition ResourceQuantities_type :: "Library \<Rightarrow> go_type" where
  "ResourceQuantities_type L = TStruct
    [(''CPU'', lib_type L LibQuantity), (''Memory'', lib_type L LibQuantity),
     (''GPU'', TPtr (lib_type L LibQuantity)), (''Storage'', TPtr (lib_type L LibQuantity))]"

definition ResourceQuantities_DeepCopyInto :: "Library \<Rightarrow> val \<Rightarrow> (heap, val) state" where
  "ResourceQuantities_DeepCopyInto L = generated
    [Deep ''CPU'' (lib_copy L LibQuantity),
     Deep ''Memory'' (lib_copy L LibQuantity),
     UnlessNil ''GPU'' (boxed (lib_copy L LibQuantity)),
     UnlessNil ''Storage'' (boxed (lib_copy L LibQuantity))]"

definition ResourceQuantities_DeepCopy :: "Library \<Rightarrow> nat option \<Rightarrow> (heap, nat option) state" where
  "ResourceQuantities_DeepCopy L = deep_copy (ResourceQuantities_type L) (ResourceQuantities_DeepCopyInto L)"

lemma ResourceQuantities_copies [copies]: "library_copies L \<Longrightarrow> deep_copies (ResourceQuantities_type L) (ResourceQuantities_DeepCopyInto L)"
  by (simp add: ResourceQuantities_type_def ResourceQuantities_DeepCopyInto_def copies)

definition ResourceMetrics_type :: "Library \<Rightarrow> go_type" where
  "ResourceMetrics_type L = TStruct
    [(''Capacity'', ResourceQuantities_type L), (''Allocatable'', ResourceQuantities_type L),
     (''Allocated'', ResourceQuantities_type L), (''Reserved'', TPtr (ResourceQuantities_type L)),
     (''Available'', ResourceQuantities_type L)]"

definition ResourceMetrics_DeepCopyInto :: "Library \<Rightarrow> val \<Rightarrow> (heap, val) state" where
  "ResourceMetrics_DeepCopyInto L = generated
    [Deep ''Capacity'' (ResourceQuantities_DeepCopyInto L),
     Deep ''Allocatable'' (ResourceQuantities_DeepCopyInto L),
     Deep ''Allocated'' (ResourceQuantities_DeepCopyInto L),
     UnlessNil ''Reserved'' (new_deep (ResourceQuantities_type L) (ResourceQuantities_DeepCopyInto L)),
     Deep ''Available'' (ResourceQuantities_DeepCopyInto L)]"

definition ResourceMetrics_DeepCopy :: "Library \<Rightarrow> nat option \<Rightarrow> (heap, nat option) state" where
  "ResourceMetrics_DeepCopy L = deep_copy (ResourceMetrics_type L) (ResourceMetrics_DeepCopyInto L)"

lemma ResourceMetrics_copies [copies]: "library_copies L \<Longrightarrow> deep_copies (ResourceMetrics_type L) (ResourceMetrics_DeepCopyInto L)"
  by (simp add: ResourceMetrics_type_def ResourceMetrics_DeepCopyInto_def copies)

definition CostInfo_type :: "go_type" where
  "CostInfo_type = TStruct
    [(''CPUCost'', TScalar KString), (''MemoryCost'', TScalar KString), (''Currency'', TScalar KString),
     (''Renewable'', TScalar KBool), (''EnergyCost'', TScalar KFloat)]"

definition CostInfo_DeepCopyInto :: "val \<Rightarrow> (heap, val) state" where
  "CostInfo_DeepCopyInto = generated []"

definition CostInfo_DeepCopy :: "nat option \<Rightarrow> (heap, nat option) state" where
  "CostInfo_DeepCopy = deep_copy CostInfo_type CostInfo_DeepCopyInto"

lemma CostInfo_copies [copies]: "deep_copies CostInfo_type CostInfo_DeepCopyInto"
  by (simp add: CostInfo_type_def CostInfo_DeepCopyInto_def copies)

lemma CostInfo_flat [copies]: "flat CostInfo_type"
  by (simp add: CostInfo_type_def)

definition LocationInfo_type :: "go_type" where
  "LocationInfo_type = TStruct
    [(''ContinentCode'', TScalar KString), (''CountryCode'', TScalar KString), (''Region'', TScalar KString),
     (''RegionName'', TScalar KString), (''City'', TScalar KString), (''Lat'', TScalar KFloat),
     (''Lon'', TScalar KFloat), (''ISP'', TScalar KString), (''Org'', TScalar KString), (''AS'', TScalar KString)]"

definition LocationInfo_DeepCopyInto :: "val \<Rightarrow> (heap, val) state" where
  "LocationInfo_DeepCopyInto = generated []"

definition LocationInfo_DeepCopy :: "nat option \<Rightarrow> (heap, nat option) state" where
  "LocationInfo_DeepCopy = deep_copy LocationInfo_type LocationInfo_DeepCopyInto"

lemma LocationInfo_copies [copies]: "deep_copies LocationInfo_type LocationInfo_DeepCopyInto"
  by (simp add: LocationInfo_type_def LocationInfo_DeepCopyInto_def copies)

lemma LocationInfo_flat [copies]: "flat LocationInfo_type"
  by (simp add: LocationInfo_type_def)

definition ClusterAdvertisementSpec_type :: "Library \<Rightarrow> go_type" where
  "ClusterAdvertisementSpec_type L = TStruct
    [(''ClusterID'', TScalar KString), (''ClusterName'', TScalar KString), (''Resources'', ResourceMetrics_type L),
     (''Cost'', TPtr CostInfo_type), (''Location'', TPtr LocationInfo_type), (''Timestamp'', lib_type L LibTime),
     (''EndpointURL'', TScalar KString), (''Policy'', TScalar KString), (''CarbonIntensity'', TSlice (TScalar KInt)),
     (''CarbonLastUpdate'', lib_type L LibTime)]"

definition ClusterAdvertisementSpec_DeepCopyInto :: "Library \<Rightarrow> val \<Rightarrow> (heap, val) state" where
  "ClusterAdvertisementSpec_DeepCopyInto L = generated
    [Deep ''Resources'' (ResourceMetrics_DeepCopyInto L),
     UnlessNil ''Cost'' (new_assign CostInfo_type),
     UnlessNil ''Location'' (new_assign LocationInfo_type),
     Deep ''Timestamp'' (lib_copy L LibTime),
     UnlessNil ''CarbonIntensity'' (make_copy (TScalar KInt)),
     Deep ''CarbonLastUpdate'' (lib_copy L LibTime)]"

definition ClusterAdvertisementSpec_DeepCopy :: "Library \<Rightarrow> nat option \<Rightarrow> (heap, nat option) state" where
  "ClusterAdvertisementSpec_DeepCopy L = deep_copy (ClusterAdvertisementSpec_type L) (ClusterAdvertisementSpec_DeepCopyInto L)"

lemma ClusterAdvertisementSpec_copies [copies]: "library_copies L \<Longrightarrow> deep_copies (ClusterAdvertisementSpec_type L) (ClusterAdvertisementSpec_DeepCopyInto L)"
  by (simp add: ClusterAdvertisementSpec_type_def ClusterAdvertisementSpec_DeepCopyInto_def copies)

definition ClusterAdvertisementStatus_type :: "Library \<Rightarrow> go_type" where
  "ClusterAdvertisementStatus_type L = TStruct
    [(''Phase'', TScalar KString), (''LastUpdateTime'', lib_type L LibTime), (''Active'', TScalar KBool),
     (''Message'', TScalar KString), (''Score'', TScalar KString), (''Conditions'', TSlice (lib_type L LibCondition))]"

definition ClusterAdvertisementStatus_DeepCopyInto :: "Library \<Rightarrow> val \<Rightarrow> (heap, val) state" where
  "ClusterAdvertisementStatus_DeepCopyInto L = generated
    [Deep ''LastUpdateTime'' (lib_copy L LibTime),
     UnlessNil ''Conditions'' (make_deep (lib_type L LibCondition) (lib_copy L LibCondition))]"

definition ClusterAdvertisementStatus_DeepCopy :: "Library \<Rightarrow> nat option \<Rightarrow> (heap, nat option) state" where
  "ClusterAdvertisementStatus_DeepCopy L = deep_copy (ClusterAdvertisementStatus_type L) (ClusterAdvertisementStatus_DeepCopyInto L)"

lemma ClusterAdvertisementStatus_copies [copies]: "library_copies L \<Longrightarrow> deep_copies (ClusterAdvertisementStatus_type L) (ClusterAdvertisementStatus_DeepCopyInto L)"
  by (simp add: ClusterAdvertisementStatus_type_def ClusterAdvertisementStatus_DeepCopyInto_def copies)

definition ClusterAdvertisement_type :: "Library \<Rightarrow> go_type" where
  "ClusterAdvertisement_type L = TStruct
    [(''TypeMeta'', lib_type L LibTypeMeta), (''ObjectMeta'', lib_type L LibObjectMeta),
     (''Spec'', ClusterAdvertisementSpec_type L), (''Status'', ClusterAdvertisementStatus_type L)]"

definition ClusterAdvertisement_DeepCopyInto :: "Library \<Rightarrow> val \<Rightarrow> (heap, val) state" where
  "ClusterAdvertisement_DeepCopyInto L = generated
    [Assign ''TypeMeta'',
     Deep ''ObjectMeta'' (lib_copy L LibObjectMeta),
     Deep ''Spec'' (ClusterAdvertisementSpec_DeepCopyInto L),
     Deep ''Status'' (ClusterAdvertisementStatus_DeepCopyInto L)]"

definition ClusterAdvertisement_DeepCopy :: "Library \<Rightarrow> nat option \<Rightarrow> (heap, nat option) state" where
  "ClusterAdvertisement_DeepCopy L = deep_copy (ClusterAdvertisement_type L) (ClusterAdvertisement_DeepCopyInto L)"

definition ClusterAdvertisement_DeepCopyObject :: "Library \<Rightarrow> nat option \<Rightarrow> (heap, runtime_Object) state" where
  "ClusterAdvertisement_DeepCopyObject L = deep_copy_object ''ClusterAdvertisement'' (ClusterAdvertisement_DeepCopy L)"

lemma ClusterAdvertisement_copies [copies]: "library_copies L \<Longrightarrow> deep_copies (ClusterAdvertisement_type L) (ClusterAdvertisement_DeepCopyInto L)"
  by (simp add: ClusterAdvertisement_type_def ClusterAdvertisement_DeepCopyInto_def copies)

definition ClusterAdvertisementList_type :: "Library \<Rightarrow> go_type" where
  "ClusterAdvertisementList_type L = TStruct
    [(''TypeMeta'', lib_type L LibTypeMeta), (''ListMeta'', lib_type L LibListMeta),
     (''Items'', TSlice (ClusterAdvertisement_type L))]"

definition ClusterAdvertisementList_DeepCopyInto :: "Library \<Rightarrow> val \<Rightarrow> (heap, val) state" where
  "ClusterAdvertisementList_DeepCopyInto L = generated
    [Assign ''TypeMeta'',
     Deep ''ListMeta'' (lib_copy L LibListMeta),
     UnlessNil ''Items'' (make_deep (ClusterAdvertisement_type L) (ClusterAdvertisement_DeepCopyInto L))]"

definition ClusterAdvertisementList_DeepCopy :: "Library \<Rightarrow> nat option \<Rightarrow> (heap, nat option) state" where
  "ClusterAdvertisementList_DeepCopy L = deep_copy (ClusterAdvertisementList_type L) (ClusterAdvertisementList_DeepCopyInto L)"

definition ClusterAdvertisementList_DeepCopyObject :: "Library \<Rightarrow> nat option \<Rightarrow> (heap, runtime_Object) state" where
  "ClusterAdvertisementList_DeepCopyObject L = deep_copy_object ''ClusterAdvertisementList'' (ClusterAdvertisementList_DeepCopy L)"

lemma ClusterAdvertisementList_copies [copies]: "library_copies L \<Longrightarrow> deep_copies (ClusterAdvertisementList_type L) (ClusterAdvertisementList_DeepCopyInto L)"
  by (simp add: ClusterAdvertisementList_type_def ClusterAdvertisementList_DeepCopyInto_def copies)

definition NetworkBondSpec_type :: "Library \<Rightarrow> go_type" where
  "NetworkBondSpec_type L = TStruct
    [(''RequesterClusterID'', TScalar KString), (''ProviderClusterID'', TScalar KString),
     (''EstimatedLatency'', TScalar KFloat), (''ActualLatency'', TScalar KFloat), (''Timestamp'', lib_type L LibTime),
     (''Match'', TScalar KString)]"

definition NetworkBondSpec_DeepCopyInto :: "Library \<Rightarrow> val \<Rightarrow> (heap, val) state" where
  "NetworkBondSpec_DeepCopyInto L = generated
    [Deep ''Timestamp'' (lib_copy L LibTime)]"

definition NetworkBondSpec_DeepCopy :: "Library \<Rightarrow> nat option \<Rightarrow> (heap, nat option) state" where
  "NetworkBondSpec_DeepCopy L = deep_copy (NetworkBondSpec_type L) (NetworkBondSpec_DeepCopyInto L)"

lemma NetworkBondSpec_copies [copies]: "library_copies L \<Longrightarrow> deep_copies (NetworkBondSpec_type L) (NetworkBondSpec_DeepCopyInto L)"
  by (simp add: NetworkBondSpec_type_def NetworkBondSpec_DeepCopyInto_def copies)

definition NetworkBondStatus_type :: "Library \<Rightarrow> go_type" where
  "NetworkBondStatus_type L = TStruct
    [(''LastUpdateTime'', lib_type L LibTime)]"

definition NetworkBondStatus_DeepCopyInto :: "Library \<Rightarrow> val \<Rightarrow> (heap, val) state" where
  "NetworkBondStatus_DeepCopyInto L = generated
    [Deep ''LastUpdateTime'' (lib_copy L LibTime)]"

definition NetworkBondStatus_DeepCopy :: "Library \<Rightarrow> nat option \<Rightarrow> (heap, nat option) state" where
  "NetworkBondStatus_DeepCopy L = deep_copy (NetworkBondStatus_type L) (NetworkBondStatus_DeepCopyInto L)"

lemma NetworkBondStatus_copies [copies]: "library_copies L \<Longrightarrow> deep_copies (NetworkBondStatus_type L) (NetworkBondStatus_DeepCopyInto L)"
  by (simp add: NetworkBondStatus_type_def NetworkBondStatus_DeepCopyInto_def copies)

definition NetworkBond_type :: "Library \<Rightarrow> go_type" where
  "NetworkBond_type L = TStruct
    [(''TypeMeta'', lib_type L LibTypeMeta), (''ObjectMeta'', lib_type L LibObjectMeta),
     (''Spec'', NetworkBondSpec_type L), (''Status'', NetworkBondStatus_type L)]"

definition NetworkBond_DeepCopyInto :: "Library \<Rightarrow> val \<Rightarrow> (heap, val) state" where
  "NetworkBond_DeepCopyInto L = generated
    [Assign ''TypeMeta'',
     Deep ''ObjectMeta'' (lib_copy L LibObjectMeta),
     Deep ''Spec'' (NetworkBondSpec_DeepCopyInto L),
     Deep ''Status'' (NetworkBondStatus_DeepCopyInto L)]"

definition NetworkBond_DeepCopy :: "Library \<Rightarrow> nat option \<Rightarrow> (heap, nat option) state" where
  "NetworkBond_DeepCopy L = deep_copy (NetworkBond_type L) (NetworkBond_DeepCopyInto L)"

definition NetworkBond_DeepCopyObject :: "Library \<Rightarrow> nat option \<Rightarrow> (heap, runtime_Object) state" where
  "NetworkBond_DeepCopyObject L = deep_copy_object ''NetworkBond'' (NetworkBond_DeepCopy L)"

lemma NetworkBond_copies [copies]: "library_copies L \<Longrightarrow> deep_copies (NetworkBond_type L) (NetworkBond_DeepCopyInto L)"
  by (simp add: NetworkBond_type_def NetworkBond_DeepCopyInto_def copies)

definition NetworkBondList_type :: "Library \<Rightarrow> go_type" where
  "NetworkBondList_type L = TStruct
    [(''TypeMeta'', lib_type L LibTypeMeta), (''ListMeta'', lib_type L LibListMeta),
     (''Items'', TSlice (NetworkBond_type L))]"

definition NetworkBondList_DeepCopyInto :: "Library \<Rightarrow> val \<Rightarrow> (heap, val) state" where
  "NetworkBondList_DeepCopyInto L = generated
    [Assign ''TypeMeta'',
     Deep ''ListMeta'' (lib_copy L LibListMeta),
     UnlessNil ''Items'' (make_deep (NetworkBond_type L) (NetworkBond_DeepCopyInto L))]"

definition NetworkBondList_DeepCopy :: "Library \<Rightarrow> nat option \<Rightarrow> (heap, nat option) state" where
  "NetworkBondList_DeepCopy L = deep_copy (NetworkBondList_type L) (NetworkBondList_DeepCopyInto L)"

definition NetworkBondList_DeepCopyObject :: "Library \<Rightarrow> nat option \<Rightarrow> (heap, runtime_Object) state" where
  "NetworkBondList_DeepCopyObject L = deep_copy_object ''NetworkBondList'' (NetworkBondList_DeepCopy L)"

lemma NetworkBondList_copies [copies]: "library_copies L \<Longrightarrow> deep_copies (NetworkBondList_type L) (NetworkBondList_DeepCopyInto L)"
  by (simp add: NetworkBondList_type_def NetworkBondList_DeepCopyInto_def copies)

definition RegionForecastSpec_type :: "Library \<Rightarrow> go_type" where
  "RegionForecastSpec_type L = TStruct
    [(''Region'', TScalar KString), (''CarbonIntensity'', TSlice (TScalar KInt)),
     (''LastUpdateCarbon'', lib_type L LibTime), (''Cost'', TSlice (TScalar KFloat)), (''CostUnit'', TScalar KString),
     (''LastUpdateCost'', lib_type L LibTime)]"

definition RegionForecastSpec_DeepCopyInto :: "Library \<Rightarrow> val \<Rightarrow> (heap, val) state" where
  "RegionForecastSpec_DeepCopyInto L = generated
    [UnlessNil ''CarbonIntensity'' (make_copy (TScalar KInt)),
     Deep ''LastUpdateCarbon'' (lib_copy L LibTime),
     UnlessNil ''Cost'' (make_copy (TScalar KFloat)),
     Deep ''LastUpdateCost'' (lib_copy L LibTime)]"

definition RegionForecastSpec_DeepCopy :: "Library \<Rightarrow> nat option \<Rightarrow> (heap, nat option) state" where
  "RegionForecastSpec_DeepCopy L = deep_copy (RegionForecastSpec_type L) (RegionForecastSpec_DeepCopyInto L)"

lemma RegionForecastSpec_copies [copies]: "library_copies L \<Longrightarrow> deep_copies (RegionForecastSpec_type L) (RegionForecastSpec_DeepCopyInto L)"
  by (simp add: RegionForecastSpec_type_def RegionForecastSpec_DeepCopyInto_def copies)

definition RegionForecastStatus_type :: "Library \<Rightarrow> go_type" where
  "RegionForecastStatus_type L = TStruct
    [(''LastUpdateTime'', lib_type L LibTime)]"

definition RegionForecastStatus_DeepCopyInto :: "Library \<Rightarrow> val \<Rightarrow> (heap, val) state" where
  "RegionForecastStatus_DeepCopyInto L = generated
    [Deep ''LastUpdateTime'' (lib_copy L LibTime)]"

definition RegionForecastStatus_DeepCopy :: "Library \<Rightarrow> nat option \<Rightarrow> (heap, nat option) state" where
  "RegionForecastStatus_DeepCopy L = deep_copy (RegionForecastStatus_type L) (RegionForecastStatus_DeepCopyInto L)"

lemma RegionForecastStatus_copies [copies]: "library_copies L \<Longrightarrow> deep_copies (RegionForecastStatus_type L) (RegionForecastStatus_DeepCopyInto L)"
  by (simp add: RegionForecastStatus_type_def RegionForecastStatus_DeepCopyInto_def copies)

definition RegionForecast_type :: "Library \<Rightarrow> go_type" where
  "RegionForecast_type L = TStruct
    [(''TypeMeta'', lib_type L LibTypeMeta), (''ObjectMeta'', lib_type L LibObjectMeta),
     (''Spec'', RegionForecastSpec_type L), (''Status'', RegionForecastStatus_type L)]"

definition RegionForecast_DeepCopyInto :: "Library \<Rightarrow> val \<Rightarrow> (heap, val) state" where
  "RegionForecast_DeepCopyInto L = generated
    [Assign ''TypeMeta'',
     Deep ''ObjectMeta'' (lib_copy L LibObjectMeta),
     Deep ''Spec'' (RegionForecastSpec_DeepCopyInto L),
     Deep ''Status'' (RegionForecastStatus_DeepCopyInto L)]"

definition RegionForecast_DeepCopy :: "Library \<Rightarrow> nat option \<Rightarrow> (heap, nat option) state" where
  "RegionForecast_DeepCopy L = deep_copy (RegionForecast_type L) (RegionForecast_DeepCopyInto L)"

definition RegionForecast_DeepCopyObject :: "Library \<Rightarrow> nat option \<Rightarrow> (heap, runtime_Object) state" where
  "RegionForecast_DeepCopyObject L = deep_copy_object ''RegionForecast'' (RegionForecast_DeepCopy L)"

lemma RegionForecast_copies [copies]: "library_copies L \<Longrightarrow> deep_copies (RegionForecast_type L) (RegionForecast_DeepCopyInto L)"
  by (simp add: RegionForecast_type_def RegionForecast_DeepCopyInto_def copies)

definition RegionForecastList_type :: "Library \<Rightarrow> go_type" where
  "RegionForecastList_type L = TStruct
    [(''TypeMeta'', lib_type L LibTypeMeta), (''ListMeta'', lib_type L LibListMeta),
     (''Items'', TSlice (RegionForecast_type L))]"

definition RegionForecastList_DeepCopyInto :: "Library \<Rightarrow> val \<Rightarrow> (heap, val) state" where
  "RegionForecastList_DeepCopyInto L = generated
    [Assign ''TypeMeta'',
     Deep ''ListMeta'' (lib_copy L LibListMeta),
     UnlessNil ''Items'' (make_deep (RegionForecast_type L) (RegionForecast_DeepCopyInto L))]"

definition RegionForecastList_DeepCopy :: "Library \<Rightarrow> nat option \<Rightarrow> (heap, nat option) state" where
  "RegionForecastList_DeepCopy L = deep_copy (RegionForecastList_type L) (RegionForecastList_DeepCopyInto L)"

definition RegionForecastList_DeepCopyObject :: "Library \<Rightarrow> nat option \<Rightarrow> (heap, runtime_Object) state" where
  "RegionForecastList_DeepCopyObject L = deep_copy_object ''RegionForecastList'' (RegionForecastList_DeepCopy L)"

lemma RegionForecastList_copies [copies]: "library_copies L \<Longrightarrow> deep_copies (RegionForecastList_type L) (RegionForecastList_DeepCopyInto L)"
  by (simp add: RegionForecastList_type_def RegionForecastList_DeepCopyInto_def copies)

definition RequestedResourceQuantities_type :: "Library \<Rightarrow> go_type" where
  "RequestedResourceQuantities_type L = TStruct
    [(''CPU'', lib_type L LibQuantity), (''Memory'', lib_type L LibQuantity),
     (''GPU'', TPtr (lib_type L LibQuantity)), (''Storage'', TPtr (lib_type L LibQuantity))]"

definition RequestedResourceQuantities_DeepCopyInto :: "Library \<Rightarrow> val \<Rightarrow> (heap, val) state" where
  "RequestedResourceQuantities_DeepCopyInto L = generated
    [Deep ''CPU'' (lib_copy L LibQuantity),
     Deep ''Memory'' (lib_copy L LibQuantity),
     UnlessNil ''GPU'' (boxed (lib_copy L LibQuantity)),
     UnlessNil ''Storage'' (boxed (lib_copy L LibQuantity))]"

definition RequestedResourceQuantities_DeepCopy :: "Library \<Rightarrow> nat option \<Rightarrow> (heap, nat option) state" where
  "RequestedResourceQuantities_DeepCopy L = deep_copy (RequestedResourceQuantities_type L) (RequestedResourceQuantities_DeepCopyInto L)"

lemma RequestedResourceQuantities_copies [copies]: "library_copies L \<Longrightarrow> deep_copies (RequestedResourceQuantities_type L) (RequestedResourceQuantities_DeepCopyInto L)"
  by (simp add: RequestedResourceQuantities_type_def RequestedResourceQuantities_DeepCopyInto_def copies)

definition ReservationSpec_type :: "Library \<Rightarrow> go_type" where
  "ReservationSpec_type L = TStruct
    [(''TargetClusterID'', TScalar KString), (''RequestedResources'', RequestedResourceQuantities_type L),
     (''Duration'', TPtr (lib_type L LibDuration)), (''Priority'', TScalar KInt), (''RequesterID'', TScalar KString)]"

definition ReservationSpec_DeepCopyInto :: "Library \<Rightarrow> val \<Rightarrow> (heap, val) state" where
  "ReservationSpec_DeepCopyInto L = generated
    [Deep ''RequestedResources'' (RequestedResourceQuantities_DeepCopyInto L),
     UnlessNil ''Duration'' (new_assign (lib_type L LibDuration))]"

definition ReservationSpec_DeepCopy :: "Library \<Rightarrow> nat option \<Rightarrow> (heap, nat option) state" where
  "ReservationSpec_DeepCopy L = deep_copy (ReservationSpec_type L) (ReservationSpec_DeepCopyInto L)"

lemma ReservationSpec_copies [copies]: "library_copies L \<Longrightarrow> deep_copies (ReservationSpec_type L) (ReservationSpec_DeepCopyInto L)"
  by (simp add: ReservationSpec_type_def ReservationSpec_DeepCopyInto_def copies)

definition ReservationStatus_type :: "Library \<Rightarrow> go_type" where
  "ReservationStatus_type L = TStruct
    [(''Phase'', TScalar KString), (''Message'', TScalar KString), (''ReservedAt'', TPtr (lib_type L LibTime)),
     (''ExpiresAt'', TPtr (lib_type L LibTime)), (''PeeringKubeconfig'', TScalar KString),
     (''LastUpdateTime'', lib_type L LibTime), (''Conditions'', TSlice (lib_type L LibCondition))]"

definition ReservationStatus_DeepCopyInto :: "Library \<Rightarrow> val \<Rightarrow> (heap, val) state" where
  "ReservationStatus_DeepCopyInto L = generated
    [UnlessNil ''ReservedAt'' (lib_Time_DeepCopy L),
     UnlessNil ''ExpiresAt'' (lib_Time_DeepCopy L),
     Deep ''LastUpdateTime'' (lib_copy L LibTime),
     UnlessNil ''Conditions'' (make_deep (lib_type L LibCondition) (lib_copy L LibCondition))]"

definition ReservationStatus_DeepCopy :: "Library \<Rightarrow> nat option \<Rightarrow> (heap, nat option) state" where
  "ReservationStatus_DeepCopy L = deep_copy (ReservationStatus_type L) (ReservationStatus_DeepCopyInto L)"

lemma ReservationStatus_copies [copies]: "library_copies L \<Longrightarrow> deep_copies (ReservationStatus_type L) (ReservationStatus_DeepCopyInto L)"
  by (simp add: ReservationStatus_type_def ReservationStatus_DeepCopyInto_def copies)

definition Reservation_type :: "Library \<Rightarrow> go_type" where
  "Reservation_type L = TStruct
    [(''TypeMeta'', lib_type L LibTypeMeta), (''ObjectMeta'', lib_type L LibObjectMeta),
     (''Spec'', ReservationSpec_type L), (''Status'', ReservationStatus_type L)]"

definition Reservation_DeepCopyInto :: "Library \<Rightarrow> val \<Rightarrow> (heap, val) state" where
  "Reservation_DeepCopyInto L = generated
    [Assign ''TypeMeta'',
     Deep ''ObjectMeta'' (lib_copy L LibObjectMeta),
     Deep ''Spec'' (ReservationSpec_DeepCopyInto L),
     Deep ''Status'' (ReservationStatus_DeepCopyInto L)]"

definition Reservation_DeepCopy :: "Library \<Rightarrow> nat option \<Rightarrow> (heap, nat option) state" where
  "Reservation_DeepCopy L = deep_copy (Reservation_type L) (Reservation_DeepCopyInto L)"

definition Reservation_DeepCopyObject :: "Library \<Rightarrow> nat option \<Rightarrow> (heap, runtime_Object) state" where
  "Reservation_DeepCopyObject L = deep_copy_object ''Reservation'' (Reservation_DeepCopy L)"

lemma Reservation_copies [copies]: "library_copies L \<Longrightarrow> deep_copies (Reservation_type L) (Reservation_DeepCopyInto L)"
  by (simp add: Reservation_type_def Reservation_DeepCopyInto_def copies)

definition ReservationList_type :: "Library \<Rightarrow> go_type" where
  "ReservationList_type L = TStruct
    [(''TypeMeta'', lib_type L LibTypeMeta), (''ListMeta'', lib_type L LibListMeta),
     (''Items'', TSlice (Reservation_type L))]"

definition ReservationList_DeepCopyInto :: "Library \<Rightarrow> val \<Rightarrow> (heap, val) state" where
  "ReservationList_DeepCopyInto L = generated
    [Assign ''TypeMeta'',
     Deep ''ListMeta'' (lib_copy L LibListMeta),
     UnlessNil ''Items'' (make_deep (Reservation_type L) (Reservation_DeepCopyInto L))]"

definition ReservationList_DeepCopy :: "Library \<Rightarrow> nat option \<Rightarrow> (heap, nat option) state" where
  "ReservationList_DeepCopy L = deep_copy (ReservationList_type L) (ReservationList_DeepCopyInto L)"

definition ReservationList_DeepCopyObject :: "Library \<Rightarrow> nat option \<Rightarrow> (heap, runtime_Object) state" where
  "ReservationList_DeepCopyObject L = deep_copy_object ''ReservationList'' (ReservationList_DeepCopy L)"

lemma ReservationList_copies [copies]: "library_copies L \<Longrightarrow> deep_copies (ReservationList_type L) (ReservationList_DeepCopyInto L)"
  by (simp add: ReservationList_type_def ReservationList_DeepCopyInto_def copies)

definition UnitExchangesSpec_type :: "Library \<Rightarrow> go_type" where
  "UnitExchangesSpec_type L = TStruct
    [(''PrimaryUnit'', TScalar KString), (''Rates'', TMap (TScalar KFloat)), (''LastUpdateUnit'', lib_type L LibTime)]"

definition UnitExchangesSpec_DeepCopyInto :: "Library \<Rightarrow> val \<Rightarrow> (heap, val) state" where
  "UnitExchangesSpec_DeepCopyInto L = generated
    [UnlessNil ''Rates'' make_entries,
     Deep ''LastUpdateUnit'' (lib_copy L LibTime)]"

definition UnitExchangesSpec_DeepCopy :: "Library \<Rightarrow> nat option \<Rightarrow> (heap, nat option) state" where
  "UnitExchangesSpec_DeepCopy L = deep_copy (UnitExchangesSpec_type L) (UnitExchangesSpec_DeepCopyInto L)"

lemma UnitExchangesSpec_copies [copies]: "library_copies L \<Longrightarrow> deep_copies (UnitExchangesSpec_type L) (UnitExchangesSpec_DeepCopyInto L)"
  by (simp add: UnitExchangesSpec_type_def UnitExchangesSpec_DeepCopyInto_def copies)

definition UnitExchangesStatus_type :: "Library \<Rightarrow> go_type" where
  "UnitExchangesStatus_type L = TStruct
    [(''LastUpdateTime'', lib_type L LibTime)]"

definition UnitExchangesStatus_DeepCopyInto :: "Library \<Rightarrow> val \<Rightarrow> (heap, val) state" where
  "UnitExchangesStatus_DeepCopyInto L = generated
    [Deep ''LastUpdateTime'' (lib_copy L LibTime)]"

definition UnitExchangesStatus_DeepCopy :: "Library \<Rightarrow> nat option \<Rightarrow> (heap, nat option) state" where
  "UnitExchangesStatus_DeepCopy L = deep_copy (UnitExchangesStatus_type L) (UnitExchangesStatus_DeepCopyInto L)"

lemma UnitExchangesStatus_copies [copies]: "library_copies L \<Longrightarrow> deep_copies (UnitExchangesStatus_type L) (UnitExchangesStatus_DeepCopyInto L)"
  by (simp add: UnitExchangesStatus_type_def UnitExchangesStatus_DeepCopyInto_def copies)

definition UnitExchanges_type :: "Library \<Rightarrow> go_type" where
  "UnitExchanges_type L = TStruct
    [(''TypeMeta'', lib_type L LibTypeMeta), (''ObjectMeta'', lib_type L LibObjectMeta),
     (''Spec'', UnitExchangesSpec_type L), (''Status'', UnitExchangesStatus_type L)]"

definition UnitExchanges_DeepCopyInto :: "Library \<Rightarrow> val \<Rightarrow> (heap, val) state" where
  "UnitExchanges_DeepCopyInto L = generated
    [Assign ''TypeMeta'',
     Deep ''ObjectMeta'' (lib_copy L LibObjectMeta),
     Deep ''Spec'' (UnitExchangesSpec_DeepCopyInto L),
     Deep ''Status'' (UnitExchangesStatus_DeepCopyInto L)]"

definition UnitExchanges_DeepCopy :: "Library \<Rightarrow> nat option \<Rightarrow> (heap, nat option) state" where
  "UnitExchanges_DeepCopy L = deep_copy (UnitExchanges_type L) (UnitExchanges_DeepCopyInto L)"

definition UnitExchanges_DeepCopyObject :: "Library \<Rightarrow> nat option \<Rightarrow> (heap, runtime_Object) state" where
  "UnitExchanges_DeepCopyObject L = deep_copy_object ''UnitExchanges'' (UnitExchanges_DeepCopy L)"

lemma UnitExchanges_copies [copies]: "library_copies L \<Longrightarrow> deep_copies (UnitExchanges_type L) (UnitExchanges_DeepCopyInto L)"
  by (simp add: UnitExchanges_type_def UnitExchanges_DeepCopyInto_def copies)

definition UnitExchangesList_type :: "Library \<Rightarrow> go_type" where
  "UnitExchangesList_type L = TStruct
    [(''TypeMeta'', lib_type L LibTypeMeta), (''ListMeta'', lib_type L LibListMeta),
     (''Items'', TSlice (UnitExchanges_type L))]"

definition UnitExchangesList_DeepCopyInto :: "Library \<Rightarrow> val \<Rightarrow> (heap, val) state" where
  "UnitExchangesList_DeepCopyInto L = generated
    [Assign ''TypeMeta'',
     Deep ''ListMeta'' (lib_copy L LibListMeta),
     UnlessNil ''Items'' (make_deep (UnitExchanges_type L) (UnitExchanges_DeepCopyInto L))]"

definition UnitExchangesList_DeepCopy :: "Library \<Rightarrow> nat option \<Rightarrow> (heap, nat option) state" where
  "UnitExchangesList_DeepCopy L = deep_copy (UnitExchangesList_type L) (UnitExchangesList_DeepCopyInto L)"

definition UnitExchangesList_DeepCopyObject :: "Library \<Rightarrow> nat option \<Rightarrow> (heap, runtime_Object) state" where
  "UnitExchangesList_DeepCopyObject L = deep_copy_object ''UnitExchangesList'' (UnitExchangesList_DeepCopy L)"

lemma UnitExchangesList_copies [copies]: "library_copies L \<Longrightarrow> deep_copies (UnitExchangesList_type L) (UnitExchangesList_DeepCopyInto L)"
  by (simp add: UnitExchangesList_type_def UnitExchangesList_DeepCopyInto_def copies)

section \<open>All of them\<close>

definition broker_copies :: "Library \<Rightarrow> (go_type \<times> (nat option \<Rightarrow> (heap, nat option) state)) list" where
  "broker_copies L =
    [(ResourceQuantities_type L, ResourceQuantities_DeepCopy L),
     (ResourceMetrics_type L, ResourceMetrics_DeepCopy L),
     (CostInfo_type, CostInfo_DeepCopy),
     (LocationInfo_type, LocationInfo_DeepCopy),
     (ClusterAdvertisementSpec_type L, ClusterAdvertisementSpec_DeepCopy L),
     (ClusterAdvertisementStatus_type L, ClusterAdvertisementStatus_DeepCopy L),
     (ClusterAdvertisement_type L, ClusterAdvertisement_DeepCopy L),
     (ClusterAdvertisementList_type L, ClusterAdvertisementList_DeepCopy L),
     (NetworkBondSpec_type L, NetworkBondSpec_DeepCopy L),
     (NetworkBondStatus_type L, NetworkBondStatus_DeepCopy L),
     (NetworkBond_type L, NetworkBond_DeepCopy L),
     (NetworkBondList_type L, NetworkBondList_DeepCopy L),
     (RegionForecastSpec_type L, RegionForecastSpec_DeepCopy L),
     (RegionForecastStatus_type L, RegionForecastStatus_DeepCopy L),
     (RegionForecast_type L, RegionForecast_DeepCopy L),
     (RegionForecastList_type L, RegionForecastList_DeepCopy L),
     (RequestedResourceQuantities_type L, RequestedResourceQuantities_DeepCopy L),
     (ReservationSpec_type L, ReservationSpec_DeepCopy L),
     (ReservationStatus_type L, ReservationStatus_DeepCopy L),
     (Reservation_type L, Reservation_DeepCopy L),
     (ReservationList_type L, ReservationList_DeepCopy L),
     (UnitExchangesSpec_type L, UnitExchangesSpec_DeepCopy L),
     (UnitExchangesStatus_type L, UnitExchangesStatus_DeepCopy L),
     (UnitExchanges_type L, UnitExchanges_DeepCopy L),
     (UnitExchangesList_type L, UnitExchangesList_DeepCopy L)]"

definition broker_objects :: "Library \<Rightarrow> (string \<times> go_type \<times> (nat option \<Rightarrow> (heap, runtime_Object) state)) list" where
  "broker_objects L =
    [(''ClusterAdvertisement'', ClusterAdvertisement_type L, ClusterAdvertisement_DeepCopyObject L),
     (''ClusterAdvertisementList'', ClusterAdvertisementList_type L, ClusterAdvertisementList_DeepCopyObject L),
     (''NetworkBond'', NetworkBond_type L, NetworkBond_DeepCopyObject L),
     (''NetworkBondList'', NetworkBondList_type L, NetworkBondList_DeepCopyObject L),
     (''RegionForecast'', RegionForecast_type L, RegionForecast_DeepCopyObject L),
     (''RegionForecastList'', RegionForecastList_type L, RegionForecastList_DeepCopyObject L),
     (''Reservation'', Reservation_type L, Reservation_DeepCopyObject L),
     (''ReservationList'', ReservationList_type L, ReservationList_DeepCopyObject L),
     (''UnitExchanges'', UnitExchanges_type L, UnitExchanges_DeepCopyObject L),
     (''UnitExchangesList'', UnitExchangesList_type L, UnitExchangesList_DeepCopyObject L)]"

lemmas broker_copy_defs =
  ResourceQuantities_DeepCopy_def ResourceMetrics_DeepCopy_def CostInfo_DeepCopy_def
  LocationInfo_DeepCopy_def ClusterAdvertisementSpec_DeepCopy_def
  ClusterAdvertisementStatus_DeepCopy_def ClusterAdvertisement_DeepCopy_def
  ClusterAdvertisementList_DeepCopy_def NetworkBondSpec_DeepCopy_def NetworkBondStatus_DeepCopy_def
  NetworkBond_DeepCopy_def NetworkBondList_DeepCopy_def RegionForecastSpec_DeepCopy_def
  RegionForecastStatus_DeepCopy_def RegionForecast_DeepCopy_def RegionForecastList_DeepCopy_def
  RequestedResourceQuantities_DeepCopy_def ReservationSpec_DeepCopy_def ReservationStatus_DeepCopy_def
  Reservation_DeepCopy_def ReservationList_DeepCopy_def UnitExchangesSpec_DeepCopy_def
  UnitExchangesStatus_DeepCopy_def UnitExchanges_DeepCopy_def UnitExchangesList_DeepCopy_def

lemmas broker_object_defs =
  ClusterAdvertisement_DeepCopyObject_def ClusterAdvertisementList_DeepCopyObject_def
  NetworkBond_DeepCopyObject_def NetworkBondList_DeepCopyObject_def RegionForecast_DeepCopyObject_def
  RegionForecastList_DeepCopyObject_def Reservation_DeepCopyObject_def
  ReservationList_DeepCopyObject_def UnitExchanges_DeepCopyObject_def
  UnitExchangesList_DeepCopyObject_def

lemma broker_copies_isolated: "library_copies L \<Longrightarrow> list_all (\<lambda>(t, copy). isolated_copy t copy) (broker_copies L)"
  by (simp add: broker_copies_def broker_copy_defs deep_copy_isolated copies)

lemma broker_objects_isolated: "library_copies L \<Longrightarrow> list_all (\<lambda>(kind, t, obj). isolated_object kind t obj) (broker_objects L)"
  by (simp add: broker_objects_def broker_object_defs broker_copy_defs deep_copy_object_isolated deep_copy_isolated copies)

section \<open>Properties\<close>

text \<open>
  C35. The broker's generated deep copies are deep for the types as they are declared: a copy of any
  API struct means what the original means, and neither a later write to what was there before nor
  one to the copy shows in the other. No pointer, slice or map of a declared field is shared. Through
  \<open>DeepCopyObject\<close> the copy of nil is a nil interface, never an interface that holds a nil pointer, and
  anything else keeps its kind. The library's own copies are assumed to be deep.
\<close>

theorem broker_copies_deep:
  assumes "library_copies L"
  shows "(\<forall>(t, copy) \<in> set (broker_copies L). isolated_copy t copy) \<and>
    (\<forall>(kind, t, obj) \<in> set (broker_objects L). isolated_object kind t obj)"
  using broker_copies_isolated [OF assms] broker_objects_isolated [OF assms] by (simp add: list_all_iff)

text \<open>Three quantities that share one cell of digits, and a pointer to the third of them.\<close>

definition sample_quantity :: val where
  "sample_quantity = Struct [(''i'', Scalar (SInt 0)), (''d'', Pointer (Some 0)), (''Format'', Scalar (SString ''DecimalSI''))]"

definition sample_heap :: heap where
  "sample_heap = [Cell (Scalar (SInt 8)), Cell sample_quantity,
     Cell (Struct [(''CPU'', sample_quantity), (''Memory'', sample_quantity), (''GPU'', Pointer (Some 1)), (''Storage'', Pointer None)])]"

lemma broker_copies_deep_witness:
  "tree_of sample_heap (TPtr (ResourceQuantities_type sample_library)) (Pointer (Some 2)) \<noteq> None \<and>
   isolated_copy (ResourceQuantities_type sample_library) (ResourceQuantities_DeepCopy sample_library) \<and>
   isolated_object ''Reservation'' (Reservation_type sample_library) (Reservation_DeepCopyObject sample_library)"
proof -
  have "tree_of sample_heap (TPtr (ResourceQuantities_type sample_library)) (Pointer (Some 2)) \<noteq> None"
    by (simp add: sample_heap_def sample_quantity_def ResourceQuantities_type_def sample_library_def cell_at_def numeral_2_eq_2)
  with broker_copies_deep [OF sample_library_copies] show ?thesis
    by (auto simp: broker_copies_def broker_objects_def)
qed

end
