(* ===== verification/AgentDeepCopy.thy ===== *)
theory AgentDeepCopy
  imports GoHeap
begin

text \<open>
  resource-agent/api/v1alpha1/zz_generated.deepcopy.go over Go's memory, in the way of the broker's:
  the types as declared, the generated functions statement by statement.
\<close>

section \<open>Types and their copies\<close>

definition ResourceQuantities_type :: "Library \<Rightarrow> go_type" where
  "ResourceQuantities_type L = TStruct
    [(''CPU'', lib_type L LibQuantity), (''Memory'', lib_type L LibQuantity),
     (''GPU'', TPtr (lib_type L LibQuantity)), (''Storage'', TPtr (lib_type L LibQuantity))]"

definition ResourceQuantities_DeepCopyInto :: "Library \<Rightarrow> val \<Rightarrow> (heap, val) state" where
  "ResourceQuantities_DeepCopyInto L = generated
    [Deep ''CPU'' (lib_copy L LibQuantity),
     Deep ''Memory'' (lib_copy L LibQuantity),
     UnlessNil ''GPU'' (boxed (lib_copy L LibQuantity)),
     UnlessNil ''Storage'' (boxed (lib_copy L LibQuantity))]"

definition ResourceQuantities_DeepCopy :: "Library \<Rightarrow> nat option \<Rightarrow> (heap, nat option) state" where
  "ResourceQuantities_DeepCopy L = deep_copy (ResourceQuantities_type L) (ResourceQuantities_DeepCopyInto L)"

lemma agent_ResourceQuantities_copies [copies]: "library_copies L \<Longrightarrow> deep_copies (ResourceQuantities_type L) (ResourceQuantities_DeepCopyInto L)"
  by (simp add: ResourceQuantities_type_def ResourceQuantities_DeepCopyInto_def copies)

definition ResourceMetrics_type :: "Library \<Rightarrow> go_type" where
  "ResourceMetrics_type L = TStruct
    [(''Capacity'', ResourceQuantities_type L), (''Allocatable'', ResourceQuantities_type L),
     (''Allocated'', ResourceQuantities_type L), (''Used'', TPtr (ResourceQuantities_type L)),
     (''Available'', ResourceQuantities_type L)]"

definition ResourceMetrics_DeepCopyInto :: "Library \<Rightarrow> val \<Rightarrow> (heap, val) state" where
  "ResourceMetrics_DeepCopyInto L = generated
    [Deep ''Capacity'' (ResourceQuantities_DeepCopyInto L),
     Deep ''Allocatable'' (ResourceQuantities_DeepCopyInto L),
     Deep ''Allocated'' (ResourceQuantities_DeepCopyInto L),
     UnlessNil ''Used'' (new_deep (ResourceQuantities_type L) (ResourceQuantities_DeepCopyInto L)),
     Deep ''Available'' (ResourceQuantities_DeepCopyInto L)]"

definition ResourceMetrics_DeepCopy :: "Library \<Rightarrow> nat option \<Rightarrow> (heap, nat option) state" where
  "ResourceMetrics_DeepCopy L = deep_copy (ResourceMetrics_type L) (ResourceMetrics_DeepCopyInto L)"

lemma agent_ResourceMetrics_copies [copies]: "library_copies L \<Longrightarrow> deep_copies (ResourceMetrics_type L) (ResourceMetrics_DeepCopyInto L)"
  by (simp add: ResourceMetrics_type_def ResourceMetrics_DeepCopyInto_def copies)

definition CostInfo_type :: "go_type" where
  "CostInfo_type = TStruct
    [(''CPUCost'', TScalar KString), (''MemoryCost'', TScalar KString), (''Currency'', TScalar KString),
     (''Renewable'', TScalar KBool), (''EnergyCost'', TScalar KFloat)]"

definition CostInfo_DeepCopyInto :: "val \<Rightarrow> (heap, val) state" where
  "CostInfo_DeepCopyInto = generated []"

definition CostInfo_DeepCopy :: "nat option \<Rightarrow> (heap, nat option) state" where
  "CostInfo_DeepCopy = deep_copy CostInfo_type CostInfo_DeepCopyInto"

lemma agent_CostInfo_copies [copies]: "deep_copies CostInfo_type CostInfo_DeepCopyInto"
  by (simp add: CostInfo_type_def CostInfo_DeepCopyInto_def copies)

lemma agent_CostInfo_flat [copies]: "flat CostInfo_type"
  by (simp add: CostInfo_type_def)

definition AdvertisementSpec_type :: "Library \<Rightarrow> go_type" where
  "AdvertisementSpec_type L = TStruct
    [(''ClusterID'', TScalar KString), (''Resources'', ResourceMetrics_type L), (''Policy'', TScalar KString),
     (''Cost'', TPtr CostInfo_type), (''Timestamp'', lib_type L LibTime)]"

definition AdvertisementSpec_DeepCopyInto :: "Library \<Rightarrow> val \<Rightarrow> (heap, val) state" where
  "AdvertisementSpec_DeepCopyInto L = generated
    [Deep ''Resources'' (ResourceMetrics_DeepCopyInto L),
     UnlessNil ''Cost'' (new_assign CostInfo_type),
     Deep ''Timestamp'' (lib_copy L LibTime)]"

definition AdvertisementSpec_DeepCopy :: "Library \<Rightarrow> nat option \<Rightarrow> (heap, nat option) state" where
  "AdvertisementSpec_DeepCopy L = deep_copy (AdvertisementSpec_type L) (AdvertisementSpec_DeepCopyInto L)"

lemma AdvertisementSpec_copies [copies]: "library_copies L \<Longrightarrow> deep_copies (AdvertisementSpec_type L) (AdvertisementSpec_DeepCopyInto L)"
  by (simp add: AdvertisementSpec_type_def AdvertisementSpec_DeepCopyInto_def copies)

definition AdvertisementStatus_type :: "Library \<Rightarrow> go_type" where
  "AdvertisementStatus_type L = TStruct
    [(''Phase'', TScalar KString), (''LastUpdateTime'', lib_type L LibTime), (''Published'', TScalar KBool),
     (''Message'', TScalar KString)]"

definition AdvertisementStatus_DeepCopyInto :: "Library \<Rightarrow> val \<Rightarrow> (heap, val) state" where
  "AdvertisementStatus_DeepCopyInto L = generated
    [Deep ''LastUpdateTime'' (lib_copy L LibTime)]"

definition AdvertisementStatus_DeepCopy :: "Library \<Rightarrow> nat option \<Rightarrow> (heap, nat option) state" where
  "AdvertisementStatus_DeepCopy L = deep_copy (AdvertisementStatus_type L) (AdvertisementStatus_DeepCopyInto L)"

lemma AdvertisementStatus_copies [copies]: "library_copies L \<Longrightarrow> deep_copies (AdvertisementStatus_type L) (AdvertisementStatus_DeepCopyInto L)"
  by (simp add: AdvertisementStatus_type_def AdvertisementStatus_DeepCopyInto_def copies)

definition Advertisement_type :: "Library \<Rightarrow> go_type" where
  "Advertisement_type L = TStruct
    [(''TypeMeta'', lib_type L LibTypeMeta), (''ObjectMeta'', lib_type L LibObjectMeta),
     (''Spec'', AdvertisementSpec_type L), (''Status'', AdvertisementStatus_type L)]"

definition Advertisement_DeepCopyInto :: "Library \<Rightarrow> val \<Rightarrow> (heap, val) state" where
  "Advertisement_DeepCopyInto L = generated
    [Assign ''TypeMeta'',
     Deep ''ObjectMeta'' (lib_copy L LibObjectMeta),
     Deep ''Spec'' (AdvertisementSpec_DeepCopyInto L),
     Deep ''Status'' (AdvertisementStatus_DeepCopyInto L)]"

definition Advertisement_DeepCopy :: "Library \<Rightarrow> nat option \<Rightarrow> (heap, nat option) state" where
  "Advertisement_DeepCopy L = deep_copy (Advertisement_type L) (Advertisement_DeepCopyInto L)"

definition Advertisement_DeepCopyObject :: "Library \<Rightarrow> nat option \<Rightarrow> (heap, runtime_Object) state" where
  "Advertisement_DeepCopyObject L = deep_copy_object ''Advertisement'' (Advertisement_DeepCopy L)"

lemma Advertisement_copies [copies]: "library_copies L \<Longrightarrow> deep_copies (Advertisement_type L) (Advertisement_DeepCopyInto L)"
  by (simp add: Advertisement_type_def Advertisement_DeepCopyInto_def copies)

definition AdvertisementList_type :: "Library \<Rightarrow> go_type" where
  "AdvertisementList_type L = TStruct
    [(''TypeMeta'', lib_type L LibTypeMeta), (''ListMeta'', lib_type L LibListMeta),
     (''Items'', TSlice (Advertisement_type L))]"

definition AdvertisementList_DeepCopyInto :: "Library \<Rightarrow> val \<Rightarrow> (heap, val) state" where
  "AdvertisementList_DeepCopyInto L = generated
    [Assign ''TypeMeta'',
     Deep ''ListMeta'' (lib_copy L LibListMeta),
     UnlessNil ''Items'' (make_deep (Advertisement_type L) (Advertisement_DeepCopyInto L))]"

definition AdvertisementList_DeepCopy :: "Library \<Rightarrow> nat option \<Rightarrow> (heap, nat option) state" where
  "AdvertisementList_DeepCopy L = deep_copy (AdvertisementList_type L) (AdvertisementList_DeepCopyInto L)"

definition AdvertisementList_DeepCopyObject :: "Library \<Rightarrow> nat option \<Rightarrow> (heap, runtime_Object) state" where
  "AdvertisementList_DeepCopyObject L = deep_copy_object ''AdvertisementList'' (AdvertisementList_DeepCopy L)"

lemma AdvertisementList_copies [copies]: "library_copies L \<Longrightarrow> deep_copies (AdvertisementList_type L) (AdvertisementList_DeepCopyInto L)"
  by (simp add: AdvertisementList_type_def AdvertisementList_DeepCopyInto_def copies)

definition ProviderInstructionSpec_type :: "Library \<Rightarrow> go_type" where
  "ProviderInstructionSpec_type L = TStruct
    [(''ReservationName'', TScalar KString), (''RequesterClusterID'', TScalar KString),
     (''RequestedCPU'', TScalar KString), (''RequestedMemory'', TScalar KString), (''RequestedGPU'', TScalar KString),
     (''Message'', TScalar KString), (''ExpiresAt'', TPtr (lib_type L LibTime))]"

definition ProviderInstructionSpec_DeepCopyInto :: "Library \<Rightarrow> val \<Rightarrow> (heap, val) state" where
  "ProviderInstructionSpec_DeepCopyInto L = generated
    [UnlessNil ''ExpiresAt'' (lib_Time_DeepCopy L)]"

definition ProviderInstructionSpec_DeepCopy :: "Library \<Rightarrow> nat option \<Rightarrow> (heap, nat option) state" where
  "ProviderInstructionSpec_DeepCopy L = deep_copy (ProviderInstructionSpec_type L) (ProviderInstructionSpec_DeepCopyInto L)"

lemma ProviderInstructionSpec_copies [copies]: "library_copies L \<Longrightarrow> deep_copies (ProviderInstructionSpec_type L) (ProviderInstructionSpec_DeepCopyInto L)"
  by (simp add: ProviderInstructionSpec_type_def ProviderInstructionSpec_DeepCopyInto_def copies)

definition ProviderInstructionStatus_type :: "Library \<Rightarrow> go_type" where
  "ProviderInstructionStatus_type L = TStruct
    [(''Enforced'', TScalar KBool), (''LastUpdateTime'', lib_type L LibTime)]"

definition ProviderInstructionStatus_DeepCopyInto :: "Library \<Rightarrow> val \<Rightarrow> (heap, val) state" where
  "ProviderInstructionStatus_DeepCopyInto L = generated
    [Deep ''LastUpdateTime'' (lib_copy L LibTime)]"

definition ProviderInstructionStatus_DeepCopy :: "Library \<Rightarrow> nat option \<Rightarrow> (heap, nat option) state" where
  "ProviderInstructionStatus_DeepCopy L = deep_copy (ProviderInstructionStatus_type L) (ProviderInstructionStatus_DeepCopyInto L)"

lemma ProviderInstructionStatus_copies [copies]: "library_copies L \<Longrightarrow> deep_copies (ProviderInstructionStatus_type L) (ProviderInstructionStatus_DeepCopyInto L)"
  by (simp add: ProviderInstructionStatus_type_def ProviderInstructionStatus_DeepCopyInto_def copies)

definition ProviderInstruction_type :: "Library \<Rightarrow> go_type" where
  "ProviderInstruction_type L = TStruct
    [(''TypeMeta'', lib_type L LibTypeMeta), (''ObjectMeta'', lib_type L LibObjectMeta),
     (''Spec'', ProviderInstructionSpec_type L), (''Status'', ProviderInstructionStatus_type L)]"

definition ProviderInstruction_DeepCopyInto :: "Library \<Rightarrow> val \<Rightarrow> (heap, val) state" where
  "ProviderInstruction_DeepCopyInto L = generated
    [Assign ''TypeMeta'',
     Deep ''ObjectMeta'' (lib_copy L LibObjectMeta),
     Deep ''Spec'' (ProviderInstructionSpec_DeepCopyInto L),
     Deep ''Status'' (ProviderInstructionStatus_DeepCopyInto L)]"

definition ProviderInstruction_DeepCopy :: "Library \<Rightarrow> nat option \<Rightarrow> (heap, nat option) state" where
  "ProviderInstruction_DeepCopy L = deep_copy (ProviderInstruction_type L) (ProviderInstruction_DeepCopyInto L)"

definition ProviderInstruction_DeepCopyObject :: "Library \<Rightarrow> nat option \<Rightarrow> (heap, runtime_Object) state" where
  "ProviderInstruction_DeepCopyObject L = deep_copy_object ''ProviderInstruction'' (ProviderInstruction_DeepCopy L)"

lemma ProviderInstruction_copies [copies]: "library_copies L \<Longrightarrow> deep_copies (ProviderInstruction_type L) (ProviderInstruction_DeepCopyInto L)"
  by (simp add: ProviderInstruction_type_def ProviderInstruction_DeepCopyInto_def copies)

definition ProviderInstructionList_type :: "Library \<Rightarrow> go_type" where
  "ProviderInstructionList_type L = TStruct
    [(''TypeMeta'', lib_type L LibTypeMeta), (''ListMeta'', lib_type L LibListMeta),
     (''Items'', TSlice (ProviderInstruction_type L))]"

definition ProviderInstructionList_DeepCopyInto :: "Library \<Rightarrow> val \<Rightarrow> (heap, val) state" where
  "ProviderInstructionList_DeepCopyInto L = generated
    [Assign ''TypeMeta'',
     Deep ''ListMeta'' (lib_copy L LibListMeta),
     UnlessNil ''Items'' (make_deep (ProviderInstruction_type L) (ProviderInstruction_DeepCopyInto L))]"

definition ProviderInstructionList_DeepCopy :: "Library \<Rightarrow> nat option \<Rightarrow> (heap, nat option) state" where
  "ProviderInstructionList_DeepCopy L = deep_copy (ProviderInstructionList_type L) (ProviderInstructionList_DeepCopyInto L)"

definition ProviderInstructionList_DeepCopyObject :: "Library \<Rightarrow> nat option \<Rightarrow> (heap, runtime_Object) state" where
  "ProviderInstructionList_DeepCopyObject L = deep_copy_object ''ProviderInstructionList'' (ProviderInstructionList_DeepCopy L)"

lemma ProviderInstructionList_copies [copies]: "library_copies L \<Longrightarrow> deep_copies (ProviderInstructionList_type L) (ProviderInstructionList_DeepCopyInto L)"
  by (simp add: ProviderInstructionList_type_def ProviderInstructionList_DeepCopyInto_def copies)

definition ReservationInstructionSpec_type :: "Library \<Rightarrow> go_type" where
  "ReservationInstructionSpec_type L = TStruct
    [(''ReservationName'', TScalar KString), (''TargetClusterID'', TScalar KString),
     (''RequestedCPU'', TScalar KString), (''RequestedMemory'', TScalar KString), (''RequestedGPU'', TScalar KString),
     (''Message'', TScalar KString), (''ExpiresAt'', TPtr (lib_type L LibTime)),
     (''PeeringKubeconfig'', TScalar KString)]"

definition ReservationInstructionSpec_DeepCopyInto :: "Library \<Rightarrow> val \<Rightarrow> (heap, val) state" where
  "ReservationInstructionSpec_DeepCopyInto L = generated
    [UnlessNil ''ExpiresAt'' (lib_Time_DeepCopy L)]"

definition ReservationInstructionSpec_DeepCopy :: "Library \<Rightarrow> nat option \<Rightarrow> (heap, nat option) state" where
  "ReservationInstructionSpec_DeepCopy L = deep_copy (ReservationInstructionSpec_type L) (ReservationInstructionSpec_DeepCopyInto L)"

lemma ReservationInstructionSpec_copies [copies]: "library_copies L \<Longrightarrow> deep_copies (ReservationInstructionSpec_type L) (ReservationInstructionSpec_DeepCopyInto L)"
  by (simp add: ReservationInstructionSpec_type_def ReservationInstructionSpec_DeepCopyInto_def copies)

definition ReservationInstructionStatus_type :: "Library \<Rightarrow> go_type" where
  "ReservationInstructionStatus_type L = TStruct
    [(''ObservedReservationResourceVersion'', TScalar KString), (''Delivered'', TScalar KBool),
     (''LastUpdateTime'', lib_type L LibTime)]"

definition ReservationInstructionStatus_DeepCopyInto :: "Library \<Rightarrow> val \<Rightarrow> (heap, val) state" where
  "ReservationInstructionStatus_DeepCopyInto L = generated
    [Deep ''LastUpdateTime'' (lib_copy L LibTime)]"

definition ReservationInstructionStatus_DeepCopy :: "Library \<Rightarrow> nat option \<Rightarrow> (heap, nat option) state" where
  "ReservationInstructionStatus_DeepCopy L = deep_copy (ReservationInstructionStatus_type L) (ReservationInstructionStatus_DeepCopyInto L)"

lemma ReservationInstructionStatus_copies [copies]: "library_copies L \<Longrightarrow> deep_copies (ReservationInstructionStatus_type L) (ReservationInstructionStatus_DeepCopyInto L)"
  by (simp add: ReservationInstructionStatus_type_def ReservationInstructionStatus_DeepCopyInto_def copies)

definition ReservationInstruction_type :: "Library \<Rightarrow> go_type" where
  "ReservationInstruction_type L = TStruct
    [(''TypeMeta'', lib_type L LibTypeMeta), (''ObjectMeta'', lib_type L LibObjectMeta),
     (''Spec'', ReservationInstructionSpec_type L), (''Status'', ReservationInstructionStatus_type L)]"

definition ReservationInstruction_DeepCopyInto :: "Library \<Rightarrow> val \<Rightarrow> (heap, val) state" where
  "ReservationInstruction_DeepCopyInto L = generated
    [Assign ''TypeMeta'',
     Deep ''ObjectMeta'' (lib_copy L LibObjectMeta),
     Deep ''Spec'' (ReservationInstructionSpec_DeepCopyInto L),
     Deep ''Status'' (ReservationInstructionStatus_DeepCopyInto L)]"

definition ReservationInstruction_DeepCopy :: "Library \<Rightarrow> nat option \<Rightarrow> (heap, nat option) state" where
  "ReservationInstruction_DeepCopy L = deep_copy (ReservationInstruction_type L) (ReservationInstruction_DeepCopyInto L)"

definition ReservationInstruction_DeepCopyObject :: "Library \<Rightarrow> nat option \<Rightarrow> (heap, runtime_Object) state" where
  "ReservationInstruction_DeepCopyObject L = deep_copy_object ''ReservationInstruction'' (ReservationInstruction_DeepCopy L)"

lemma ReservationInstruction_copies [copies]: "library_copies L \<Longrightarrow> deep_copies (ReservationInstruction_type L) (ReservationInstruction_DeepCopyInto L)"
  by (simp add: ReservationInstruction_type_def ReservationInstruction_DeepCopyInto_def copies)

definition ReservationInstructionList_type :: "Library \<Rightarrow> go_type" where
  "ReservationInstructionList_type L = TStruct
    [(''TypeMeta'', lib_type L LibTypeMeta), (''ListMeta'', lib_type L LibListMeta),
     (''Items'', TSlice (ReservationInstruction_type L))]"

definition ReservationInstructionList_DeepCopyInto :: "Library \<Rightarrow> val \<Rightarrow> (heap, val) state" where
  "ReservationInstructionList_DeepCopyInto L = generated
    [Assign ''TypeMeta'',
     Deep ''ListMeta'' (lib_copy L LibListMeta),
     UnlessNil ''Items'' (make_deep (ReservationInstruction_type L) (ReservationInstruction_DeepCopyInto L))]"

definition ReservationInstructionList_DeepCopy :: "Library \<Rightarrow> nat option \<Rightarrow> (heap, nat option) state" where
  "ReservationInstructionList_DeepCopy L = deep_copy (ReservationInstructionList_type L) (ReservationInstructionList_DeepCopyInto L)"

definition ReservationInstructionList_DeepCopyObject :: "Library \<Rightarrow> nat option \<Rightarrow> (heap, runtime_Object) state" where
  "ReservationInstructionList_DeepCopyObject L = deep_copy_object ''ReservationInstructionList'' (ReservationInstructionList_DeepCopy L)"

lemma ReservationInstructionList_copies [copies]: "library_copies L \<Longrightarrow> deep_copies (ReservationInstructionList_type L) (ReservationInstructionList_DeepCopyInto L)"
  by (simp add: ReservationInstructionList_type_def ReservationInstructionList_DeepCopyInto_def copies)

definition ResourceRequestSpec_type :: "go_type" where
  "ResourceRequestSpec_type = TStruct
    [(''RequestedCPU'', TScalar KString), (''RequestedMemory'', TScalar KString), (''RequestedGPU'', TScalar KString),
     (''Priority'', TScalar KInt), (''Duration'', TScalar KString)]"

definition ResourceRequestSpec_DeepCopyInto :: "val \<Rightarrow> (heap, val) state" where
  "ResourceRequestSpec_DeepCopyInto = generated []"

definition ResourceRequestSpec_DeepCopy :: "nat option \<Rightarrow> (heap, nat option) state" where
  "ResourceRequestSpec_DeepCopy = deep_copy ResourceRequestSpec_type ResourceRequestSpec_DeepCopyInto"

lemma ResourceRequestSpec_copies [copies]: "deep_copies ResourceRequestSpec_type ResourceRequestSpec_DeepCopyInto"
  by (simp add: ResourceRequestSpec_type_def ResourceRequestSpec_DeepCopyInto_def copies)

lemma ResourceRequestSpec_flat [copies]: "flat ResourceRequestSpec_type"
  by (simp add: ResourceRequestSpec_type_def)

definition ResourceRequestStatus_type :: "Library \<Rightarrow> go_type" where
  "ResourceRequestStatus_type L = TStruct
    [(''Phase'', TScalar KString), (''TargetClusterID'', TScalar KString), (''ReservationName'', TScalar KString),
     (''Message'', TScalar KString), (''LastUpdateTime'', lib_type L LibTime)]"

definition ResourceRequestStatus_DeepCopyInto :: "Library \<Rightarrow> val \<Rightarrow> (heap, val) state" where
  "ResourceRequestStatus_DeepCopyInto L = generated
    [Deep ''LastUpdateTime'' (lib_copy L LibTime)]"

definition ResourceRequestStatus_DeepCopy :: "Library \<Rightarrow> nat option \<Rightarrow> (heap, nat option) state" where
  "ResourceRequestStatus_DeepCopy L = deep_copy (ResourceRequestStatus_type L) (ResourceRequestStatus_DeepCopyInto L)"

lemma ResourceRequestStatus_copies [copies]: "library_copies L \<Longrightarrow> deep_copies (ResourceRequestStatus_type L) (ResourceRequestStatus_DeepCopyInto L)"
  by (simp add: ResourceRequestStatus_type_def ResourceRequestStatus_DeepCopyInto_def copies)

definition ResourceRequest_type :: "Library \<Rightarrow> go_type" where
  "ResourceRequest_type L = TStruct
    [(''TypeMeta'', lib_type L LibTypeMeta), (''ObjectMeta'', lib_type L LibObjectMeta),
     (''Spec'', ResourceRequestSpec_type), (''Status'', ResourceRequestStatus_type L)]"

definition ResourceRequest_DeepCopyInto :: "Library \<Rightarrow> val \<Rightarrow> (heap, val) state" where
  "ResourceRequest_DeepCopyInto L = generated
    [Assign ''TypeMeta'',
     Deep ''ObjectMeta'' (lib_copy L LibObjectMeta),
     Assign ''Spec'',
     Deep ''Status'' (ResourceRequestStatus_DeepCopyInto L)]"

definition ResourceRequest_DeepCopy :: "Library \<Rightarrow> nat option \<Rightarrow> (heap, nat option) state" where
  "ResourceRequest_DeepCopy L = deep_copy (ResourceRequest_type L) (ResourceRequest_DeepCopyInto L)"

definition ResourceRequest_DeepCopyObject :: "Library \<Rightarrow> nat option \<Rightarrow> (heap, runtime_Object) state" where
  "ResourceRequest_DeepCopyObject L = deep_copy_object ''ResourceRequest'' (ResourceRequest_DeepCopy L)"

lemma ResourceRequest_copies [copies]: "library_copies L \<Longrightarrow> deep_copies (ResourceRequest_type L) (ResourceRequest_DeepCopyInto L)"
  by (simp add: ResourceRequest_type_def ResourceRequest_DeepCopyInto_def copies)

definition ResourceRequestList_type :: "Library \<Rightarrow> go_type" where
  "ResourceRequestList_type L = TStruct
    [(''TypeMeta'', lib_type L LibTypeMeta), (''ListMeta'', lib_type L LibListMeta),
     (''Items'', TSlice (ResourceRequest_type L))]"

definition ResourceRequestList_DeepCopyInto :: "Library \<Rightarrow> val \<Rightarrow> (heap, val) state" where
  "ResourceRequestList_DeepCopyInto L = generated
    [Assign ''TypeMeta'',
     Deep ''ListMeta'' (lib_copy L LibListMeta),
     UnlessNil ''Items'' (make_deep (ResourceRequest_type L) (ResourceRequest_DeepCopyInto L))]"

definition ResourceRequestList_DeepCopy :: "Library \<Rightarrow> nat option \<Rightarrow> (heap, nat option) state" where
  "ResourceRequestList_DeepCopy L = deep_copy (ResourceRequestList_type L) (ResourceRequestList_DeepCopyInto L)"

definition ResourceRequestList_DeepCopyObject :: "Library \<Rightarrow> nat option \<Rightarrow> (heap, runtime_Object) state" where
  "ResourceRequestList_DeepCopyObject L = deep_copy_object ''ResourceRequestList'' (ResourceRequestList_DeepCopy L)"

lemma ResourceRequestList_copies [copies]: "library_copies L \<Longrightarrow> deep_copies (ResourceRequestList_type L) (ResourceRequestList_DeepCopyInto L)"
  by (simp add: ResourceRequestList_type_def ResourceRequestList_DeepCopyInto_def copies)

section \<open>All of them\<close>

definition agent_copies :: "Library \<Rightarrow> (go_type \<times> (nat option \<Rightarrow> (heap, nat option) state)) list" where
  "agent_copies L =
    [(ResourceQuantities_type L, ResourceQuantities_DeepCopy L),
     (ResourceMetrics_type L, ResourceMetrics_DeepCopy L),
     (CostInfo_type, CostInfo_DeepCopy),
     (AdvertisementSpec_type L, AdvertisementSpec_DeepCopy L),
     (AdvertisementStatus_type L, AdvertisementStatus_DeepCopy L),
     (Advertisement_type L, Advertisement_DeepCopy L),
     (AdvertisementList_type L, AdvertisementList_DeepCopy L),
     (ProviderInstructionSpec_type L, ProviderInstructionSpec_DeepCopy L),
     (ProviderInstructionStatus_type L, ProviderInstructionStatus_DeepCopy L),
     (ProviderInstruction_type L, ProviderInstruction_DeepCopy L),
     (ProviderInstructionList_type L, ProviderInstructionList_DeepCopy L),
     (ReservationInstructionSpec_type L, ReservationInstructionSpec_DeepCopy L),
     (ReservationInstructionStatus_type L, ReservationInstructionStatus_DeepCopy L),
     (ReservationInstruction_type L, ReservationInstruction_DeepCopy L),
     (ReservationInstructionList_type L, ReservationInstructionList_DeepCopy L),
     (ResourceRequestSpec_type, ResourceRequestSpec_DeepCopy),
     (ResourceRequestStatus_type L, ResourceRequestStatus_DeepCopy L),
     (ResourceRequest_type L, ResourceRequest_DeepCopy L),
     (ResourceRequestList_type L, ResourceRequestList_DeepCopy L)]"

definition agent_objects :: "Library \<Rightarrow> (string \<times> go_type \<times> (nat option \<Rightarrow> (heap, runtime_Object) state)) list" where
  "agent_objects L =
    [(''Advertisement'', Advertisement_type L, Advertisement_DeepCopyObject L),
     (''AdvertisementList'', AdvertisementList_type L, AdvertisementList_DeepCopyObject L),
     (''ProviderInstruction'', ProviderInstruction_type L, ProviderInstruction_DeepCopyObject L),
     (''ProviderInstructionList'', ProviderInstructionList_type L, ProviderInstructionList_DeepCopyObject L),
     (''ReservationInstruction'', ReservationInstruction_type L, ReservationInstruction_DeepCopyObject L),
     (''ReservationInstructionList'', ReservationInstructionList_type L, ReservationInstructionList_DeepCopyObject L),
     (''ResourceRequest'', ResourceRequest_type L, ResourceRequest_DeepCopyObject L),
     (''ResourceRequestList'', ResourceRequestList_type L, ResourceRequestList_DeepCopyObject L)]"

lemmas agent_copy_defs =
  ResourceQuantities_DeepCopy_def ResourceMetrics_DeepCopy_def CostInfo_DeepCopy_def
  AdvertisementSpec_DeepCopy_def AdvertisementStatus_DeepCopy_def Advertisement_DeepCopy_def
  AdvertisementList_DeepCopy_def ProviderInstructionSpec_DeepCopy_def
  ProviderInstructionStatus_DeepCopy_def ProviderInstruction_DeepCopy_def
  ProviderInstructionList_DeepCopy_def ReservationInstructionSpec_DeepCopy_def
  ReservationInstructionStatus_DeepCopy_def ReservationInstruction_DeepCopy_def
  ReservationInstructionList_DeepCopy_def ResourceRequestSpec_DeepCopy_def
  ResourceRequestStatus_DeepCopy_def ResourceRequest_DeepCopy_def ResourceRequestList_DeepCopy_def

lemmas agent_object_defs =
  Advertisement_DeepCopyObject_def AdvertisementList_DeepCopyObject_def
  ProviderInstruction_DeepCopyObject_def ProviderInstructionList_DeepCopyObject_def
  ReservationInstruction_DeepCopyObject_def ReservationInstructionList_DeepCopyObject_def
  ResourceRequest_DeepCopyObject_def ResourceRequestList_DeepCopyObject_def

lemma agent_copies_isolated: "library_copies L \<Longrightarrow> list_all (\<lambda>(t, copy). isolated_copy t copy) (agent_copies L)"
  by (simp add: agent_copies_def agent_copy_defs deep_copy_isolated copies)

lemma agent_objects_isolated: "library_copies L \<Longrightarrow> list_all (\<lambda>(kind, t, obj). isolated_object kind t obj) (agent_objects L)"
  by (simp add: agent_objects_def agent_object_defs agent_copy_defs deep_copy_object_isolated deep_copy_isolated copies)

section \<open>Properties\<close>

text \<open>
  C36. The agent's generated deep copies are deep for the types as they are declared: a copy means what
  the original means and shares no cell with it, so neither sees a later write to the other, and
  \<open>DeepCopyObject\<close> gives a nil interface exactly for nil. The specs the generator copies by assignment
  alone, as a \<open>ResourceRequestSpec\<close>, have no pointer, slice or map.
\<close>

theorem agent_copies_deep:
  assumes "library_copies L"
  shows "(\<forall>(t, copy) \<in> set (agent_copies L). isolated_copy t copy) \<and>
    (\<forall>(kind, t, obj) \<in> set (agent_objects L). isolated_object kind t obj)"
  using agent_copies_isolated [OF assms] agent_objects_isolated [OF assms] by (simp add: list_all_iff)

text \<open>An instruction that expires: the copy has its own instant.\<close>

definition expiring_heap :: heap where
  "expiring_heap = [Cell (Scalar (SInt 60)),
     Cell (Struct [(''ReservationName'', Scalar (SString ''r'')), (''RequesterClusterID'', Scalar (SString ''a'')),
       (''RequestedCPU'', Scalar (SString ''1'')), (''RequestedMemory'', Scalar (SString ''1Gi'')),
       (''RequestedGPU'', Scalar (SString '''')), (''Message'', Scalar (SString '''')), (''ExpiresAt'', Pointer (Some 0))])]"

lemma agent_copies_deep_witness:
  "tree_of expiring_heap (TPtr (ProviderInstructionSpec_type sample_library)) (Pointer (Some 1)) \<noteq> None \<and>
   fst (run_state (ProviderInstructionSpec_DeepCopy sample_library (Some 1)) expiring_heap) = Some 2 \<and>
   isolated_copy (ProviderInstructionSpec_type sample_library) (ProviderInstructionSpec_DeepCopy sample_library) \<and>
   isolated_object ''ResourceRequest'' (ResourceRequest_type sample_library) (ResourceRequest_DeepCopyObject sample_library)"
proof -
  have "tree_of expiring_heap (TPtr (ProviderInstructionSpec_type sample_library)) (Pointer (Some 1)) \<noteq> None"
    by (simp add: expiring_heap_def ProviderInstructionSpec_type_def sample_library_def cell_at_def)
  moreover have "fst (run_state (ProviderInstructionSpec_DeepCopy sample_library (Some 1)) expiring_heap) = Some 2"
    by (auto simp: expiring_heap_def ProviderInstructionSpec_DeepCopy_def deep_copy_def heap_effects numeral_2_eq_2 split: prod.splits)
  ultimately show ?thesis using agent_copies_deep [OF sample_library_copies]
    by (auto simp: agent_copies_def agent_objects_def)
qed

end
