(* ===== verification/Spec2Isabelle.thy ===== *)
theory Spec2Isabelle
  imports BrokerMain Interleaving AgentMain MockMains Wire BrokerWakeups AgentWakeups BrokerDeepCopy AgentDeepCopy
begin

text \<open>
  A verification library of the resource broker: clusters advertise what they can lend, a broker
  ranks them, reserves at one of them for another, and the agents of the two clusters carry the
  reservation out by peering. The Go code has three kinds of programs: the broker
  (resource-broker), the agent that runs in every cluster (resource-agent) and three small services
  that stand for the world outside (mock-geo, mock-eco, mock-currency).

  \<^bold>\<open>How the parts interact.\<close> A provider's agent collects what its cluster has free
  (internal/metrics), writes it into its own \<open>Advertisement\<close> and reports it to the broker, over HTTP
  (internal/transport/http) or into the broker's Kubernetes API (internal/publisher). The broker
  stores a \<open>ClusterAdvertisement\<close> per cluster, whose Reserved it alone maintains. A requester's agent
  turns a \<open>ResourceRequest\<close> into an evaluation and a reservation at the broker, which ranks the
  clusters (internal/broker), moves the amounts from Available to Reserved (internal/resource) and
  records a \<open>Reservation\<close>. The broker's controllers expire and release reservations. The provider
  learns of a reservation as a \<open>ProviderInstruction\<close> and uploads a credential, with which the
  requester peers as its \<open>ReservationInstruction\<close> says.

  \<^bold>\<open>How the code is modelled.\<close> A Go struct is a record with one field per field, in the code's order
  and with its name behind a short prefix; a Kubernetes object is an \<open>Obj\<close> of meta data, spec and
  status. A function that reads or writes anything is a term of the state monad over a world \<open>'w\<close>,
  and takes the record of operations it may use: \<open>BrokerEnv\<close>, \<open>AgentEnv\<close>, \<open>Services\<close>, \<open>Host\<close>,
  \<open>HttpEnv\<close>, \<open>DynamicClient\<close>, \<open>AgentStart\<close>, \<open>BrokerStart\<close>. Errors are values of \<open>go_error\<close> in a sum,
  and a panic is \<open>None\<close> where one can occur. Strings are HOL strings, times and durations integers of
  nanoseconds since the zero time (\<open>Sub\<close> and \<open>Until\<close> saturate as in Go), float64 is a binary64 with
  rounding of every operation written out (Float64), \<open>resource.Quantity\<close> is a parameter with its laws
  (Quantity) and an exact instance in billionths.

  \<^bold>\<open>The theories.\<close>
  Prelude, Float64, Quantity, FilePath: lists, strings, the state monad and \<open>keeps\<close> (an operation that
  leaves an observation of the world alone), numbers, paths.
  KubeApi: objects, clients and the laws of the API server as the locale \<open>kube_client\<close> (resource
  versions, the status subresource, finalizers), \<open>RetryOnConflict\<close> as \<open>retry_on_conflict\<close>, and a store
  in memory on which both are interpreted.
  BrokerTypes, BrokerWorld, Samples: api/v1alpha1 of the broker, its environment \<open>broker_world\<close>, and an
  executable instance of it.
  Availability: internal/resource. Locks and releases as operations of the locale \<open>ledger\<close>.
  DecisionCost, DecisionEco, DecisionLatency, Decision: internal/broker, that is prices, carbon, latency
  and \<open>RankClusters\<close>.
  BrokerDto, Middleware, AdvertisementHandler, ReservationHandler, EvaluationHandler, Server:
  internal/transport/dto and internal/api. A handler maps a request to an effect with a response, or
  none where it panics.
  ReservationController, AdvertisementController: internal/controller of the broker. The first defines
  the life cycle \<open>reconcile_step\<close> that \<open>Reconcile\<close> implements.
  Interleaving: concurrent writers of one advertisement under the API server's version check, as a
  step relation.
  BrokerSystem: requests and reconciliations of the whole broker in any order, as a step relation
  labelled with what goes wrong.
  ManagerSetup, BrokerMain, AgentMain: the two cmd/main.go, with the certificates and the manager's
  options; the run of the started agent as a step relation.
  AgentTypes, AgentDto, AgentWorld: api/v1alpha1 and internal/transport of the agent, its environment.
  Collector, AgentServices: internal/metrics, internal/geo, internal/eco.
  AgentHttp, LegacyTransport, LegacyWatcher: the two transports.
  Instructions, ProviderController, RequesterController, RequestController, AgentAdvertisement:
  internal/controller of the agent; PeerHost has the commands and files they use.
  MockServices, MockMains: the three services and their programs. Wire: what the broker and the agent
  make of each other's messages.
  ControllerSetup, BrokerWakeups, AgentWakeups: the \<open>SetupWithManager\<close> of every controller, as the
  events that wake it, and the kinds each program registers.
  GoHeap, BrokerDeepCopy, AgentDeepCopy: zz_generated.deepcopy.go of both APIs. GoHeap has Go's pointers,
  slices and maps as cells of a heap and the shapes of statement the generator writes; a
  \<open>DeepCopyInto\<close> is the list of its statements.

  \<^bold>\<open>What is shown.\<close> Of the broker: over any run of requests, reconciliations and changes by
  others, Reserved follows the reservations in phase Reserved up to the drift of the mishaps of the
  run, which are listed one by one and without which the books stay balanced (BrokerSystem); each
  reconciliation is a step of the life cycle, and over any run of error-free reconciliations a
  reservation is counted in Reserved exactly while its phase is Reserved (ReservationController);
  concurrent locks never overdraw and are counted once (Interleaving); what each endpoint changes, per
  answer (AdvertisementHandler, ReservationHandler, EvaluationHandler, Server); who is served at all
  (BrokerMain); what a ranking contains and in which order (Decision, DecisionLatency). Of the agent:
  what it offers is bounded by what is free and is what the sharing configuration makes of it, and
  agrees with a reference formula (Collector); its advertisement says what was measured
  (AgentAdvertisement); a call to the broker ends after bounded time (AgentHttp); an instruction is
  created once, and where there is a communicator it is enforced only after its credential was
  obtained and uploaded (Instructions, ProviderController); the requester's instruction changes only
  by the steps of its machine, and the host runs a peering or a teardown only for the instruction that
  calls for it (RequesterController); a request is Reserved only with the broker's grant
  (RequestController); what the Kubernetes transport keeps (LegacyTransport, LegacyWatcher) and does
  not do (AgentMain). Across the two: reports and reservations arrive as they were sent (Wire), and a
  cluster located by mock-geo gets a price in euro where the broker's caches are empty (MockServices),
  at the addresses the broker asks by default (MockMains). Of the
  objects themselves: every generated copy is deep for its declared type and isolated from the
  original (BrokerDeepCopy, AgentDeepCopy), which is why the other theories may model a struct by what
  it contains. Of the wiring: the reservation controller is woken by its own writes a bounded number
  of times (BrokerWakeups), an agent that reports what it has reported is woken by nothing it writes,
  and by no status of a node or pod (AgentWakeups). Some results tell of a weakness and are recorded
  with the lines that cause it: a release repeated while the status cannot be written
  (\<open>unwritten_release_repeats\<close>), an enforced reservation that is subtracted twice
  (\<open>enforced_counted_twice\<close>), an instruction enforced without a communicator and nothing shared
  (\<open>provider_instruction_steps\<close>), costs that the wire format does not carry
  (\<open>advertisement_roundtrip\<close>), a provider or requester on the Kubernetes transport that gets nothing
  (\<open>kubernetes_provider_untold\<close>, \<open>kubernetes_requester_unserved\<close>).

  \<^bold>\<open>Bounds.\<close> Recursion is structural but where a loop may go on for ever: \<open>attempts n\<close> is at most
  \<open>n + 1\<close> runs of a retried function, and the law of \<open>retry_on_conflict\<close> is that some \<open>n\<close> describes the
  library's backoff; the poller and the watcher run \<open>n\<close> ticks or rounds, for every \<open>n\<close>; \<open>doWithRetry\<close>
  recurs over its remaining retries, three in the code. So no theorem holds for lack of fuel.

  \<^bold>\<open>Assumptions on what is not under src/.\<close> The API server: \<open>kube_client\<close> (a read that
  succeeds shows what is stored, a write that fails has changed nothing), \<open>deleting_client\<close>,
  \<open>creates_unset\<close>, and, for single results, \<open>unwritable_status\<close> and \<open>cost_caches\<close>. Quantities: \<open>quantity\<close> and its extension. \<open>sort.Slice\<close>: a sorted permutation.
  \<open>meta.SetStatusCondition\<close>: \<open>status_conditions\<close>. HTTP, JSON, TLS, SHA-256, parsing of addresses and
  numbers, trigonometry, formatting and parsing of times, random numbers, commands and files are
  functions in the records above. The deep copies of the library's types: \<open>library_copies\<close>. Every
  locale is interpreted on the executable worlds.

  \<^bold>\<open>What the model leaves out of the code it covers.\<close> Log lines and metrics. Except in Interleaving,
  a handler or a reconciliation is one step: what another writer does in between shows as the
  conflict or error the API may answer at any call. Floating point is without fused multiply-add and
  has one zero; a float64 out of range converts to int64 as on amd64. Serialised times keep their
  nanoseconds. White space and letter case are those of ASCII. An event
  of an object tells of its spec and status, not of its metadata.
  The executable quantities parse any amount exactly, also beyond the range of an \<open>int64\<close>. A generated
  copy of a nil pointer without its guard would panic; in GoHeap it yields nil.

  \<^bold>\<open>Not modelled.\<close> The informers and work queues behind \<open>SetupWithManager\<close>; \<open>Start\<close> and \<open>Shutdown\<close>,
  which only call the HTTP library; the tooling under tests/; \<open>readBody\<close> in the advertisement handler,
  which nothing calls.
\<close>

end
